(* ===== verification/Rust_Prelude.thy ===== *)
theory Rust_Prelude
  imports Main "HOL-Library.Word" "HOL-Library.Sublist"
begin

text \<open>
  The vocabulary every component of the model shares.

  A Rust \<open>String\<close> is its UTF-8 byte sequence, so \<open>string\<close> (a list of bytes) is the model
  of \<open>String\<close> and \<open>&str\<close>, and \<open>length\<close> is Rust's \<open>len\<close>.  The functions below are the
  methods of \<open>str\<close>, \<open>u64\<close>, \<open>i64\<close>, \<open>u32\<close> and \<open>Result\<close> that the modelled code calls.
  White space is Unicode's \<open>White_Space\<close>, recognised on the bytes that encode it.
  A \<open>Result<T, E>\<close> is the sum \<open>'e + 'a\<close> with \<open>Inl\<close> for \<open>Err\<close>; an operation that also
  changes a state returns the pair of its result and the new state, so that the effects
  made before an error stay visible.
\<close>

named_theorems str_simps \<open>evaluation of the string operations on literals\<close>
named_theorems time_simps \<open>unfolding of the time stamp arithmetic\<close>
named_theorems store_simps \<open>effects of the document store operations\<close>
named_theorems sched_simps \<open>effects of the scheduler operations\<close>

type_synonym u32 = "32 word"
type_synonym u64 = "64 word"

subsection \<open>Results with a state\<close>

definition res_bind :: "'e + 'a \<Rightarrow> ('a \<Rightarrow> 'e + 'b) \<Rightarrow> 'e + 'b" where
  "res_bind r f = (case r of Inl e \<Rightarrow> Inl e | Inr x \<Rightarrow> f x)"

definition st_bind :: "('e + 'a) \<times> 's \<Rightarrow> ('a \<Rightarrow> 's \<Rightarrow> ('e + 'b) \<times> 's) \<Rightarrow> ('e + 'b) \<times> 's" where
  "st_bind r f = (case r of (Inl e, s) \<Rightarrow> (Inl e, s) | (Inr x, s) \<Rightarrow> f x s)"

definition map_err :: "('e \<Rightarrow> 'f) \<Rightarrow> 'e + 'a \<Rightarrow> 'f + 'a" where
  "map_err f r = (case r of Inl e \<Rightarrow> Inl (f e) | Inr x \<Rightarrow> Inr x)"

definition is_ok :: "'e + 'a \<Rightarrow> bool" where
  "is_ok r = (case r of Inl _ \<Rightarrow> False | Inr _ \<Rightarrow> True)"

lemma res_bind_simps [simp]:
  "res_bind (Inl e) f = Inl e"
  "res_bind (Inr x) f = f x"
  by (simp_all add: res_bind_def)

lemma st_bind_simps [simp]:
  "st_bind (Inl e, s) f = (Inl e, s)"
  "st_bind (Inr x, s) f = f x s"
  by (simp_all add: st_bind_def)

lemma map_err_simps [simp]:
  "map_err f (Inl e) = Inl (f e)"
  "map_err f (Inr x) = Inr x"
  by (simp_all add: map_err_def)

lemma map_err_eq_Inr [simp]: "map_err f r = Inr x \<longleftrightarrow> r = Inr x"
  by (cases r) simp_all

lemma map_err_eq_Inl: "map_err f r = Inl e \<longleftrightarrow> (\<exists>e'. r = Inl e' \<and> e = f e')"
  by (cases r) auto

lemma is_ok_simps [simp]: "\<not> is_ok (Inl e)" "is_ok (Inr x)"
  by (simp_all add: is_ok_def)

lemma res_bind_eq_Inr: "res_bind r f = Inr y \<longleftrightarrow> (\<exists>x. r = Inr x \<and> f x = Inr y)"
  by (cases r) auto

lemma st_bind_ok:
  "st_bind r f = (Inr y, s') \<Longrightarrow> \<exists>x s. r = (Inr x, s) \<and> f x s = (Inr y, s')"
  by (cases r; cases "fst r") (auto simp: st_bind_def)

subsection \<open>Options\<close>

definition or_else :: "'a option \<Rightarrow> 'a option \<Rightarrow> 'a option" where
  "or_else a b = (case a of None \<Rightarrow> b | Some x \<Rightarrow> Some x)"

definition unwrap_or :: "'a \<Rightarrow> 'a option \<Rightarrow> 'a" where
  "unwrap_or d a = (case a of None \<Rightarrow> d | Some x \<Rightarrow> x)"

definition opt_filter :: "('a \<Rightarrow> bool) \<Rightarrow> 'a option \<Rightarrow> 'a option" where
  "opt_filter p a = (case a of None \<Rightarrow> None | Some x \<Rightarrow> if p x then Some x else None)"

lemma or_else_simps [simp]: "or_else None b = b" "or_else (Some x) b = Some x"
  by (simp_all add: or_else_def)

lemma or_else_None [simp]: "or_else x None = x"
  by (cases x) simp_all

lemma unwrap_or_simps [simp]: "unwrap_or d None = d" "unwrap_or d (Some x) = x"
  by (simp_all add: unwrap_or_def)

lemma opt_filter_simps [simp]:
  "opt_filter p None = None" "opt_filter p (Some x) = (if p x then Some x else None)"
  by (simp_all add: opt_filter_def)

lemma opt_filter_Some: "opt_filter p a = Some x \<longleftrightarrow> a = Some x \<and> p x"
  by (cases a) auto

lemma or_else_Some:
  "or_else a b = Some x \<longleftrightarrow> a = Some x \<or> (a = None \<and> b = Some x)"
  by (cases a) auto

text \<open>\<open>slice.get(i)\<close>: \<open>None\<close> out of range.\<close>

definition nth_opt :: "'a list \<Rightarrow> nat \<Rightarrow> 'a option" where
  "nth_opt xs i = (if i < length xs then Some (xs ! i) else None)"

lemma nth_opt_simps [simp]:
  "nth_opt [] i = None"
  "nth_opt (x # xs) 0 = Some x"
  "nth_opt (x # xs) (Suc i) = nth_opt xs i"
  by (simp_all add: nth_opt_def)

text \<open>\<open>iter().position(p)\<close> and \<open>iter().find(p)\<close>.\<close>

fun position :: "('a \<Rightarrow> bool) \<Rightarrow> 'a list \<Rightarrow> nat option" where
  "position p [] = None"
| "position p (x # xs) = (if p x then Some 0 else map_option Suc (position p xs))"

lemma position_None: "position p xs = None \<longleftrightarrow> (\<forall>x \<in> set xs. \<not> p x)"
  by (induction xs) auto

lemma position_SomeD:
  "position p xs = Some i \<Longrightarrow> i < length xs \<and> p (xs ! i) \<and> (\<forall>j < i. \<not> p (xs ! j))"
proof (induction xs arbitrary: i)
  case Nil
  then show ?case by simp
next
  case (Cons x xs)
  show ?case
  proof (cases "p x")
    case True
    with Cons.prems show ?thesis by simp
  next
    case False
    with Cons.prems obtain k where k: "position p xs = Some k" "i = Suc k" by auto
    from Cons.IH [OF k(1)] False k(2) show ?thesis by (auto simp: less_Suc_eq_0_disj)
  qed
qed

lemma find_eq_hd_filter: "List.find p xs = (case filter p xs of [] \<Rightarrow> None | x # _ \<Rightarrow> Some x)"
  by (induction xs) auto

definition max_opt :: "int list \<Rightarrow> int option" where
  "max_opt xs = (case xs of [] \<Rightarrow> None | y # ys \<Rightarrow> Some (foldl max y ys))"

lemma foldl_max_ge: "y \<le> foldl max y ys \<and> (\<forall>x \<in> set ys. x \<le> foldl max y ys)" for y :: int
proof (induction ys arbitrary: y)
  case Nil
  then show ?case by simp
next
  case (Cons z ys)
  from Cons.IH [of "max y z"] show ?case by auto
qed

lemma foldl_max_in: "foldl max y ys \<in> insert y (set ys)" for y :: int
proof (induction ys arbitrary: y)
  case Nil
  then show ?case by simp
next
  case (Cons z ys)
  from Cons.IH [of "max y z"] show ?case by (auto simp: max_def split: if_splits)
qed

lemma max_opt_None [simp]: "max_opt xs = None \<longleftrightarrow> xs = []"
  by (simp add: max_opt_def split: list.splits)

lemma max_opt_SomeD: "max_opt xs = Some m \<Longrightarrow> m \<in> set xs \<and> (\<forall>x \<in> set xs. x \<le> m)"
  using foldl_max_in foldl_max_ge by (fastforce simp: max_opt_def split: list.splits)

subsection \<open>Characters and ASCII case\<close>

definition ascii_lower :: "char \<Rightarrow> char" where
  "ascii_lower c =
     (let n = (of_char c :: nat) in if 65 \<le> n \<and> n \<le> 90 then char_of (n + 32) else c)"

definition to_ascii_lowercase :: "string \<Rightarrow> string" where
  "to_ascii_lowercase s = map ascii_lower s"

definition eq_ignore_ascii_case :: "string \<Rightarrow> string \<Rightarrow> bool" where
  "eq_ignore_ascii_case a b = (to_ascii_lowercase a = to_ascii_lowercase b)"

lemma ascii_lower_idem [simp]: "ascii_lower (ascii_lower c) = ascii_lower c"
  by (simp add: ascii_lower_def Let_def)

lemma to_ascii_lowercase_idem [simp]:
  "to_ascii_lowercase (to_ascii_lowercase s) = to_ascii_lowercase s"
  by (simp add: to_ascii_lowercase_def)

lemma to_ascii_lowercase_append [simp]:
  "to_ascii_lowercase (s @ t) = to_ascii_lowercase s @ to_ascii_lowercase t"
  by (simp add: to_ascii_lowercase_def)

lemma length_to_ascii_lowercase [simp]: "length (to_ascii_lowercase s) = length s"
  by (simp add: to_ascii_lowercase_def)

lemma to_ascii_lowercase_Nil [simp]: "to_ascii_lowercase [] = []"
  by (simp add: to_ascii_lowercase_def)

subsection \<open>White space and trimming\<close>

text \<open>
  The one-, two- and three-byte encodings of the \<open>White_Space\<close> code points: U+0009 to
  U+000D, U+0020; U+0085, U+00A0; U+1680, U+2000 to U+200A, U+2028, U+2029, U+202F,
  U+205F, U+3000.
\<close>

definition ws1 :: "char \<Rightarrow> bool" where
  "ws1 a = (a \<in> set [CHR 0x20, CHR 0x09, CHR 0x0A, CHR 0x0B, CHR 0x0C, CHR 0x0D])"

definition ws2 :: "char \<Rightarrow> char \<Rightarrow> bool" where
  "ws2 a b = (a = CHR 0xC2 \<and> (b = CHR 0x85 \<or> b = CHR 0xA0))"

definition ws3 :: "char \<Rightarrow> char \<Rightarrow> char \<Rightarrow> bool" where
  "ws3 a b c =
     (a = CHR 0xE1 \<and> b = CHR 0x9A \<and> c = CHR 0x80
      \<or> a = CHR 0xE2 \<and> b = CHR 0x80 \<and>
          c \<in> set [CHR 0x80, CHR 0x81, CHR 0x82, CHR 0x83, CHR 0x84, CHR 0x85, CHR 0x86,
                   CHR 0x87, CHR 0x88, CHR 0x89, CHR 0x8A, CHR 0xA8, CHR 0xA9, CHR 0xAF]
      \<or> a = CHR 0xE2 \<and> b = CHR 0x81 \<and> c = CHR 0x9F
      \<or> a = CHR 0xE3 \<and> b = CHR 0x80 \<and> c = CHR 0x80)"

text \<open>The number of bytes of the white space character a string begins with, 0 if none.\<close>

fun ws_len :: "string \<Rightarrow> nat" where
  "ws_len [] = 0"
| "ws_len [a] = (if ws1 a then 1 else 0)"
| "ws_len [a, b] = (if ws1 a then 1 else if ws2 a b then 2 else 0)"
| "ws_len (a # b # c # s) =
     (if ws1 a then 1 else if ws2 a b then 2 else if ws3 a b c then 3 else 0)"

text \<open>The same at the end of a string, read on the reversed byte list.\<close>

fun ws_len_rev :: "string \<Rightarrow> nat" where
  "ws_len_rev [] = 0"
| "ws_len_rev [a] = (if ws1 a then 1 else 0)"
| "ws_len_rev [b, a] = (if ws1 b then 1 else if ws2 a b then 2 else 0)"
| "ws_len_rev (c # b # a # s) =
     (if ws1 c then 1 else if ws2 b c then 2 else if ws3 a b c then 3 else 0)"

fun trim_start :: "string \<Rightarrow> string" where
  "trim_start [] = []"
| "trim_start (c # s) =
     (if ws_len (c # s) = 0 then c # s else trim_start (drop (ws_len (c # s) - 1) s))"

fun trim_rev :: "string \<Rightarrow> string" where
  "trim_rev [] = []"
| "trim_rev (c # s) =
     (if ws_len_rev (c # s) = 0 then c # s else trim_rev (drop (ws_len_rev (c # s) - 1) s))"

definition trim_end :: "string \<Rightarrow> string" where
  "trim_end s = rev (trim_rev (rev s))"

definition trim :: "string \<Rightarrow> string" where
  "trim s = trim_end (trim_start s)"

lemma length_trim_start: "length (trim_start s) \<le> length s"
proof (induction s rule: trim_start.induct)
  case (2 c s)
  show ?case
  proof (cases "ws_len (c # s) = 0")
    case False
    with 2 have "length (trim_start (drop (ws_len (c # s) - 1) s))
        \<le> length (drop (ws_len (c # s) - 1) s)" by blast
    then have "length (trim_start (drop (ws_len (c # s) - 1) s)) \<le> length (c # s)" by simp
    with False show ?thesis by (metis trim_start.simps(2))
  qed simp
qed simp

lemma trim_start_idem [simp]: "trim_start (trim_start s) = trim_start s"
  by (induction s rule: trim_start.induct) auto

lemma trim_Nil [simp]: "trim [] = []"
  by (simp add: trim_def trim_end_def)

lemma ws_len_append_0: "ws_len (v @ r) = 0 \<Longrightarrow> ws_len v = 0"
  by (cases v rule: ws_len.cases; cases r; cases "tl r") (auto split: if_splits)

lemma trim_rev_idem [simp]: "trim_rev (trim_rev s) = trim_rev s"
  by (induction s rule: trim_rev.induct) auto

lemma trim_end_idem [simp]: "trim_end (trim_end s) = trim_end s"
  by (simp add: trim_end_def)

lemma trim_rev_suffix: "\<exists>u. s = u @ trim_rev s"
proof (induction s rule: trim_rev.induct)
  case (2 c s)
  show ?case
  proof (cases "ws_len_rev (c # s) = 0")
    case False
    let ?n = "ws_len_rev (c # s) - 1"
    from 2 [OF False] obtain u where "drop ?n s = u @ trim_rev (drop ?n s)" by blast
    then have "c # s = (c # take ?n s @ u) @ trim_rev (drop ?n s)"
      by (metis append.assoc append_Cons append_take_drop_id)
    with False show ?thesis by (metis trim_rev.simps(2))
  qed simp
qed simp

lemma trim_end_prefix: "\<exists>v. s = trim_end s @ v"
proof -
  obtain u where "rev s = u @ trim_rev (rev s)" using trim_rev_suffix by blast
  then have "s = rev (trim_rev (rev s)) @ rev u" by (metis rev_append rev_rev_ident)
  then show ?thesis unfolding trim_end_def by blast
qed

lemma trim_start_fixed: "trim_start s = s \<longleftrightarrow> s = [] \<or> ws_len s = 0"
proof (cases s)
  case (Cons c r)
  have "trim_start (c # r) \<noteq> c # r" if "ws_len (c # r) \<noteq> 0"
  proof
    assume "trim_start (c # r) = c # r"
    moreover have "length (trim_start (c # r)) \<le> length r"
      using that length_trim_start [of "drop (ws_len (c # r) - 1) r"]
      by (metis length_drop diff_le_self le_trans trim_start.simps(2))
    ultimately show False by simp
  qed
  with Cons show ?thesis by auto
qed simp

lemma trim_start_trim [simp]: "trim_start (trim s) = trim s"
proof -
  obtain v where v: "trim_start s = trim s @ v"
    using trim_end_prefix [of "trim_start s"] unfolding trim_def by blast
  have "ws_len (trim s @ v) = 0 \<or> trim s @ v = []"
    using trim_start_fixed [of "trim_start s"] v by (metis trim_start_idem)
  then show ?thesis unfolding trim_start_fixed by (auto dest: ws_len_append_0)
qed

lemma trim_end_trim [simp]: "trim_end (trim s) = trim s"
  by (simp add: trim_def)

lemma trim_idem [simp]: "trim (trim s) = trim s"
  by (metis trim_def trim_end_trim trim_start_trim)

lemma trim_start_suffix: "\<exists>v. t = v @ trim_start t"
  by (induction t rule: trim_start.induct)
     (auto, metis append.assoc append_Cons append_take_drop_id)

lemma ws_len_le: "ws_len v \<le> length v"
  by (cases v rule: ws_len.cases) auto

lemma trim_rev_Nil: "trim_rev r = [] \<Longrightarrow> r = [] \<or> ws_len (rev r) \<noteq> 0"
proof (induction r rule: trim_rev.induct)
  case (2 c s)
  let ?n = "ws_len_rev (c # s) - 1"
  have ws: "ws_len_rev (c # s) \<noteq> 0"
  proof
    assume "ws_len_rev (c # s) = 0"
    then have "trim_rev (c # s) = c # s" by (subst trim_rev.simps) simp
    with 2(2) show False by simp
  qed
  with 2(2) have "trim_rev (drop ?n s) = []" by (metis trim_rev.simps(2))
  with 2(1) [OF ws] consider "drop ?n s = []" | "ws_len (rev (drop ?n s)) \<noteq> 0" by blast
  then show ?case
  proof cases
    case 1
    with ws have "ws_len (rev (c # s)) \<noteq> 0"
      by (cases "c # s" rule: ws_len_rev.cases) (auto split: if_splits)
    then show ?thesis by blast
  next
    case 2
    have "rev (c # s) = rev (drop ?n s) @ rev (c # take ?n s)"
      by (metis append_Cons append_take_drop_id rev_append)
    with 2 ws_len_append_0 have "ws_len (rev (c # s)) \<noteq> 0" by metis
    then show ?thesis by blast
  qed
qed simp

lemma trim_nonempty: "s \<noteq> [] \<Longrightarrow> ws_len s = 0 \<Longrightarrow> trim s \<noteq> []"
  using trim_rev_Nil [of "rev s"] trim_start_fixed [of s] by (auto simp: trim_def trim_end_def)

lemma set_trim: "set (trim s) \<subseteq> set s"
proof -
  obtain u v where "s = u @ trim_start s" "trim_start s = trim s @ v"
    using trim_start_suffix [of s] trim_end_prefix [of "trim_start s"] unfolding trim_def by blast
  then show ?thesis by (metis set_append Un_upper1 Un_upper2 order_trans)
qed

subsection \<open>Searching and splitting\<close>

fun strip_prefix :: "string \<Rightarrow> string \<Rightarrow> string option" where
  "strip_prefix [] s = Some s"
| "strip_prefix (p # ps) [] = None"
| "strip_prefix (p # ps) (c # s) = (if p = c then strip_prefix ps s else None)"

definition starts_with :: "string \<Rightarrow> string \<Rightarrow> bool" where
  "starts_with s p = (strip_prefix p s \<noteq> None)"

fun str_contains :: "string \<Rightarrow> string \<Rightarrow> bool" where
  "str_contains [] p = (p = [])"
| "str_contains (c # s) p = (strip_prefix p (c # s) \<noteq> None \<or> str_contains s p)"

definition ends_with :: "string \<Rightarrow> string \<Rightarrow> bool" where
  "ends_with s p = (strip_prefix (rev p) (rev s) \<noteq> None)"

definition contains_any :: "string \<Rightarrow> string list \<Rightarrow> bool" where
  "contains_any hay patterns = list_ex (str_contains hay) patterns"

lemma strip_prefix_Some: "strip_prefix p s = Some r \<longleftrightarrow> s = p @ r"
  by (induction p s rule: strip_prefix.induct) auto

lemma strip_prefix_None: "strip_prefix p s = None \<longleftrightarrow> (\<forall>r. s \<noteq> p @ r)"
  using strip_prefix_Some by (metis option.exhaust option.distinct(1))

lemma starts_with_iff: "starts_with s p \<longleftrightarrow> (\<exists>r. s = p @ r)"
  by (simp add: starts_with_def strip_prefix_None)

lemma starts_with_append [simp]: "starts_with (p @ r) p"
  by (simp add: starts_with_iff)

lemma str_contains_iff: "str_contains s p \<longleftrightarrow> (\<exists>u v. s = u @ p @ v)"
proof (induction s)
  case Nil
  then show ?case by simp
next
  case (Cons c s)
  have "str_contains (c # s) p \<longleftrightarrow> (\<exists>v. c # s = p @ v) \<or> (\<exists>u v. s = u @ p @ v)"
    using Cons.IH by (simp add: strip_prefix_None del: append_Cons)
  also have "\<dots> \<longleftrightarrow> (\<exists>u v. c # s = u @ p @ v)"
  proof
    assume "(\<exists>v. c # s = p @ v) \<or> (\<exists>u v. s = u @ p @ v)"
    then show "\<exists>u v. c # s = u @ p @ v"
      by (metis append_Cons append_Nil)
  next
    assume "\<exists>u v. c # s = u @ p @ v"
    then obtain u v where *: "c # s = u @ p @ v" by blast
    then show "(\<exists>v. c # s = p @ v) \<or> (\<exists>u v. s = u @ p @ v)"
      by (cases u) auto
  qed
  finally show ?case .
qed

lemma contains_any_iff: "contains_any h ps \<longleftrightarrow> (\<exists>p \<in> set ps. str_contains h p)"
  by (simp add: contains_any_def list_ex_iff)

text \<open>\<open>s.split(c)\<close> and \<open>s.splitn(n, c)\<close> for a character \<open>c\<close>.\<close>

fun split_char :: "char \<Rightarrow> string \<Rightarrow> string list" where
  "split_char d [] = [[]]"
| "split_char d (c # s) =
     (if c = d then [] # split_char d s
      else case split_char d s of [] \<Rightarrow> [[c]] | w # ws \<Rightarrow> (c # w) # ws)"

fun splitn :: "nat \<Rightarrow> char \<Rightarrow> string \<Rightarrow> string list" where
  "splitn 0 d s = []"
| "splitn (Suc 0) d s = [s]"
| "splitn (Suc (Suc n)) d s =
     (let w = takeWhile (\<lambda>c. c \<noteq> d) s; r = dropWhile (\<lambda>c. c \<noteq> d) s
      in case r of [] \<Rightarrow> [w] | _ # t \<Rightarrow> w # splitn (Suc n) d t)"

fun split_ws_aux :: "string \<Rightarrow> string \<Rightarrow> string list" where
  "split_ws_aux cur [] = (if cur = [] then [] else [rev cur])"
| "split_ws_aux cur (c # s) =
     (if ws_len (c # s) = 0 then split_ws_aux (c # cur) s
      else (if cur = [] then [] else [rev cur])
           @ split_ws_aux [] (drop (ws_len (c # s) - 1) s))"

definition split_whitespace :: "string \<Rightarrow> string list" where
  "split_whitespace s = split_ws_aux [] s"

fun join_with :: "string \<Rightarrow> string list \<Rightarrow> string" where
  "join_with sep [] = []"
| "join_with sep [w] = w"
| "join_with sep (w # v # ws) = w @ sep @ join_with sep (v # ws)"

text \<open>
  \<open>str::lines\<close>: the text is split after each line feed; a line that ends in one loses it and a
  carriage return before it, and a last line without characters is no line.
\<close>

definition strip_cr :: "string \<Rightarrow> string" where
  "strip_cr l = (if l \<noteq> [] \<and> last l = CHR 0x0D then butlast l else l)"

definition str_lines :: "string \<Rightarrow> string list" where
  "str_lines s =
     (let ls = split_char (CHR 0x0A) s
      in map strip_cr (butlast ls) @ (if last ls = [] then [] else [last ls]))"

lemma split_char_nonempty [simp]: "split_char d s \<noteq> []"
  by (cases s) (auto split: list.splits)

lemma join_split_char: "join_with [d] (split_char d s) = s"
proof (induction s)
  case Nil
  then show ?case by simp
next
  case (Cons c s)
  obtain w ws where w: "split_char d s = w # ws" by (cases "split_char d s") auto
  with Cons.IH show ?case by (cases ws) auto
qed

lemma split_char_append: "split_char d (a @ d # b) = split_char d a @ split_char d b"
proof (induction a)
  case (Cons c a)
  obtain w ws where w: "split_char d a = w # ws" by (cases "split_char d a") auto
  with Cons show ?case by simp
qed simp

lemma split_char_none: "d \<notin> set s \<Longrightarrow> split_char d s = [s]"
  by (induction s) auto

lemma split_char_parts: "l \<in> set (split_char d s) \<Longrightarrow> d \<notin> set l \<and> set l \<subseteq> set s"
proof (induction s arbitrary: l)
  case (Cons c s)
  obtain w ws where w: "split_char d s = w # ws" by (cases "split_char d s") auto
  with Cons.prems Cons.IH [of w] Cons.IH [of l] show ?case by (auto split: if_splits)
qed simp

lemma split_join_lines:
  "\<forall>l \<in> set ls. d \<notin> set l \<Longrightarrow> ls \<noteq> [] \<Longrightarrow> split_char d (join_with [d] ls) = ls"
proof (induction "[d]" ls rule: join_with.induct)
  case (3 w v ws)
  then show ?case by (simp add: split_char_append split_char_none)
qed (simp_all add: split_char_none)

text \<open>Texts without carriage returns.\<close>

definition no_cr :: "string \<Rightarrow> bool" where
  "no_cr s = (CHR 0x0D \<notin> set s)"

lemma no_cr_append [simp]: "no_cr (a @ b) \<longleftrightarrow> no_cr a \<and> no_cr b"
  by (simp add: no_cr_def)

lemma strip_cr_id: "no_cr l \<Longrightarrow> strip_cr l = l"
  by (auto simp: strip_cr_def no_cr_def in_set_conv_nth last_conv_nth)

lemma map_strip_cr: "no_cr s \<Longrightarrow> set ls \<subseteq> set (split_char d s) \<Longrightarrow> map strip_cr ls = ls"
proof (intro map_idI strip_cr_id)
  fix l assume "no_cr s" "set ls \<subseteq> set (split_char d s)" "l \<in> set ls"
  then have "set l \<subseteq> set s" using split_char_parts by blast
  with \<open>no_cr s\<close> show "no_cr l" by (auto simp: no_cr_def)
qed

lemma map_strip_cr_split [simp]:
  "no_cr s \<Longrightarrow> map strip_cr (split_char d s) = split_char d s"
  "no_cr s \<Longrightarrow> map strip_cr (butlast (split_char d s)) = butlast (split_char d s)"
  by (rule map_strip_cr; auto dest: in_set_butlastD)+

lemma str_lines_append:
  "no_cr a \<Longrightarrow> str_lines (a @ CHR 0x0A # b) = split_char (CHR 0x0A) a @ str_lines b"
  by (simp add: str_lines_def Let_def split_char_append butlast_append)

lemma str_lines_plain:
  "no_cr s \<Longrightarrow> str_lines s = (let ls = split_char (CHR 0x0A) s in if last ls = [] then butlast ls else ls)"
  by (simp add: str_lines_def Let_def)

lemma str_lines_parts:
  "no_cr s \<Longrightarrow> l \<in> set (str_lines s) \<Longrightarrow> l \<in> set (split_char (CHR 0x0A) s)"
  by (auto simp: str_lines_plain Let_def split: if_splits dest: in_set_butlastD)

lemma split_parts_lines:
  "no_cr s \<Longrightarrow> l \<in> set (split_char (CHR 0x0A) s) \<Longrightarrow> l \<noteq> [] \<Longrightarrow> l \<in> set (str_lines s)"
  by (auto simp: str_lines_plain Let_def)
     (metis append_butlast_last_id split_char_nonempty in_set_conv_decomp set_append
        Un_iff list.set_intros(1) empty_iff list.set(1) set_ConsD)

lemma split_ws_aux_plain:
  "(\<forall>c \<in> set s. ws_len [c] = 0 \<and> (of_char c :: nat) < 128) \<Longrightarrow>
   split_ws_aux cur s = (if rev cur @ s = [] then [] else [rev cur @ s])"
proof (induction s arbitrary: cur)
  case Nil
  then show ?case by simp
next
  case (Cons c s)
  then have c: "\<not> ws1 c" "(of_char c :: nat) < 128" by (auto split: if_splits)
  have no2: "\<not> ws2 c b" for b using c(2) by (auto simp: ws2_def)
  have no3: "\<not> ws3 c b d" for b d using c(2) by (auto simp: ws3_def)
  have "ws_len (c # s) = 0"
    using c no2 no3 by (cases s; cases "tl s") auto
  with Cons show ?case by simp
qed

text \<open>
  \<open>str::to_lowercase\<close>.  Two code points outside ASCII have a lower case image with an ASCII
  character in it, U+0130 (a small i and a combining mark) and U+212A (a small k); both are
  written out.  The other code points beyond ASCII are left as they are: neither they nor
  their lower case images contain an ASCII byte, so a comparison with, or a search for, an
  ASCII literal has the same outcome as in the code.
\<close>

fun to_lowercase :: "string \<Rightarrow> string" where
  "to_lowercase [] = []"
| "to_lowercase (a # s) =
     (case strip_prefix [CHR 0xC4, CHR 0xB0] (a # s) of
        Some r \<Rightarrow> [CHR ''i'', CHR 0xCC, CHR 0x87] @ to_lowercase (drop 1 s)
      | None \<Rightarrow>
          (case strip_prefix [CHR 0xE2, CHR 0x84, CHR 0xAA] (a # s) of
             Some r \<Rightarrow> CHR ''k'' # to_lowercase (drop 2 s)
           | None \<Rightarrow> ascii_lower a # to_lowercase s))"

definition all_ascii :: "string \<Rightarrow> bool" where
  "all_ascii s = list_all (\<lambda>c. (of_char c :: nat) < 128) s"

lemma to_lowercase_ascii: "all_ascii s \<Longrightarrow> to_lowercase s = to_ascii_lowercase s"
  by (induction s) (auto simp: all_ascii_def to_ascii_lowercase_def)

subsection \<open>Valid UTF-8\<close>

text \<open>
  The bytes that \<open>String::from_utf8\<close> accepts: no overlong form, no surrogate, nothing above
  U+10FFFF, no sequence cut short.
\<close>

definition utf8_cont :: "char \<Rightarrow> bool" where
  "utf8_cont c = (let n = (of_char c :: nat) in 128 \<le> n \<and> n < 192)"

definition utf8_second :: "nat \<Rightarrow> char \<Rightarrow> bool" where
  "utf8_second lead c =
     (let n = (of_char c :: nat) in
      utf8_cont c
      \<and> (lead = 0xE0 \<longrightarrow> 0xA0 \<le> n) \<and> (lead = 0xED \<longrightarrow> n < 0xA0)
      \<and> (lead = 0xF0 \<longrightarrow> 0x90 \<le> n) \<and> (lead = 0xF4 \<longrightarrow> n < 0x90))"

fun utf8_valid :: "string \<Rightarrow> bool" where
  "utf8_valid [] = True"
| "utf8_valid (c # s) =
     (let n = (of_char c :: nat) in
      if n < 0x80 then utf8_valid s
      else if 0xC2 \<le> n \<and> n < 0xE0 then
        (case s of c1 # s1 \<Rightarrow> utf8_cont c1 \<and> utf8_valid s1 | _ \<Rightarrow> False)
      else if 0xE0 \<le> n \<and> n < 0xF0 then
        (case s of c1 # c2 # s2 \<Rightarrow> utf8_second n c1 \<and> utf8_cont c2 \<and> utf8_valid s2 | _ \<Rightarrow> False)
      else if 0xF0 \<le> n \<and> n < 0xF5 then
        (case s of c1 # c2 # c3 # s3 \<Rightarrow>
           utf8_second n c1 \<and> utf8_cont c2 \<and> utf8_cont c3 \<and> utf8_valid s3
         | _ \<Rightarrow> False)
      else False)"

lemma ascii_utf8_valid: "all_ascii s \<Longrightarrow> utf8_valid s"
  by (induction s) (auto simp: all_ascii_def)

subsection \<open>Paths\<close>

text \<open>
  A Unix \<open>PathBuf\<close> is its text.  \<open>path_join\<close> is \<open>Path::join\<close>; \<open>path_comps\<close> are the components
  after the root (empty and \<open>.\<close> components dropped, as \<open>Path::components\<close> does).
\<close>

definition path_is_absolute :: "string \<Rightarrow> bool" where
  "path_is_absolute p = starts_with p ''/''"

definition path_join :: "string \<Rightarrow> string \<Rightarrow> string" where
  "path_join a b =
     (if path_is_absolute b then b
      else if a = [] \<or> ends_with a ''/'' then a @ b
      else a @ ''/'' @ b)"

definition path_comps :: "string \<Rightarrow> string list" where
  "path_comps p = filter (\<lambda>c. c \<noteq> [] \<and> c \<noteq> ''.'') (split_char (CHR ''/'') p)"

text \<open>
  \<open>Path::components\<close> with the root and a leading \<open>.\<close>, which are components too: two paths are
  equal as \<open>PathBuf\<close>, and one starts with the other, by their components and not by their texts.
\<close>

definition path_components :: "string \<Rightarrow> string list" where
  "path_components p =
     (if path_is_absolute p then [''/''] else if p = ''.'' \<or> starts_with p ''./'' then [''.''] else [])
     @ path_comps p"

definition path_eq :: "string \<Rightarrow> string \<Rightarrow> bool" where
  "path_eq p q = (path_components p = path_components q)"

definition path_starts_with :: "string \<Rightarrow> string \<Rightarrow> bool" where
  "path_starts_with p base =
     (take (length (path_components base)) (path_components p) = path_components base)"

lemma path_eq_refl [simp]: "path_eq p p"
  by (simp add: path_eq_def)

definition path_file_name :: "string \<Rightarrow> string option" where
  "path_file_name p =
     (let cs = path_comps p
      in if cs = [] \<or> last cs = ''..'' then None else Some (last cs))"

subsection \<open>Decimal numbers\<close>

definition u64_max :: nat where "u64_max = 2 ^ 64 - 1"
definition i64_max :: int where "i64_max = 2 ^ 63 - 1"
definition i64_min :: int where "i64_min = - (2 ^ 63)"

definition digit_val :: "char \<Rightarrow> nat option" where
  "digit_val c = (let n = (of_char c :: nat) in if 48 \<le> n \<and> n \<le> 57 then Some (n - 48) else None)"

fun parse_digits :: "nat \<Rightarrow> string \<Rightarrow> nat option" where
  "parse_digits acc [] = Some acc"
| "parse_digits acc (c # s) =
     (case digit_val c of None \<Rightarrow> None | Some d \<Rightarrow> parse_digits (10 * acc + d) s)"

text \<open>
  \<open>str::parse::<u64>()\<close>: an optional plus sign, at least one digit, no overflow.  The
  value is kept as \<open>nat\<close>; the overflow check is the comparison with the largest \<open>u64\<close>.
\<close>

definition parse_nat :: "string \<Rightarrow> nat option" where
  "parse_nat s =
     (let t = (case s of [] \<Rightarrow> [] | c # r \<Rightarrow> if c = CHR ''+'' then r else s)
      in if t = [] then None else parse_digits 0 t)"

definition parse_u64 :: "string \<Rightarrow> nat option" where
  "parse_u64 s = opt_filter (\<lambda>n. n \<le> u64_max) (parse_nat s)"

definition parse_i64 :: "string \<Rightarrow> int option" where
  "parse_i64 s =
     (case s of
        [] \<Rightarrow> None
      | c # r \<Rightarrow>
          if c = CHR ''-'' then
            (if r = [] then None
             else opt_filter (\<lambda>n. i64_min \<le> n) (map_option (\<lambda>n. - int n) (parse_digits 0 r)))
          else opt_filter (\<lambda>n. n \<le> i64_max) (map_option int (parse_nat s)))"

definition digit_char :: "nat \<Rightarrow> char" where
  "digit_char d = char_of (48 + d)"

fun nat_str :: "nat \<Rightarrow> string" where
  "nat_str n = (if n < 10 then [digit_char n] else nat_str (n div 10) @ [digit_char (n mod 10)])"

declare nat_str.simps [simp del]

definition int_str :: "int \<Rightarrow> string" where
  "int_str n = (if n < 0 then ''-'' @ nat_str (nat (- n)) else nat_str (nat n))"

lemma digit_val_digit_char: "d < 10 \<Longrightarrow> digit_val (digit_char d) = Some d"
  by (simp add: digit_val_def digit_char_def)

lemma parse_digits_append:
  "parse_digits acc (s @ t) =
     (case parse_digits acc s of None \<Rightarrow> None | Some n \<Rightarrow> parse_digits n t)"
  by (induction s arbitrary: acc) (auto split: option.splits)

lemma parse_digits_nat_str: "parse_digits 0 (nat_str n) = Some n"
proof (induction n rule: nat_str.induct)
  case (1 n)
  show ?case
  proof (cases "n < 10")
    case True
    then show ?thesis by (simp add: nat_str.simps [of n] digit_val_digit_char)
  next
    case False
    with 1 have "parse_digits 0 (nat_str (n div 10)) = Some (n div 10)" by simp
    with False show ?thesis
      by (simp add: nat_str.simps [of n] parse_digits_append digit_val_digit_char)
  qed
qed

lemma nat_str_nonempty [simp]: "nat_str n \<noteq> []"
  by (subst nat_str.simps) simp

lemma nat_str_hd_digit: "\<exists>d < 10. hd (nat_str n) = digit_char d"
proof (induction n rule: nat_str.induct)
  case (1 n)
  show ?case
  proof (cases "n < 10")
    case True
    then show ?thesis by (subst nat_str.simps) auto
  next
    case False
    with 1 obtain d where "d < 10" "hd (nat_str (n div 10)) = digit_char d" by auto
    with False show ?thesis by (subst nat_str.simps) auto
  qed
qed

lemma parse_nat_nat_str: "parse_nat (nat_str n) = Some n"
proof -
  obtain c r where cr: "nat_str n = c # r" by (cases "nat_str n") auto
  from nat_str_hd_digit [of n] cr obtain d where d: "d < 10" "c = digit_char d" by auto
  then have "c \<noteq> CHR ''+''"
    by (auto simp: digit_char_def char_of_eq_iff take_bit_nat_eq_self)
  with cr parse_digits_nat_str [of n] show ?thesis by (simp add: parse_nat_def)
qed

lemma parse_u64_nat_str: "n \<le> u64_max \<Longrightarrow> parse_u64 (nat_str n) = Some n"
  by (simp add: parse_u64_def parse_nat_nat_str)

subsection \<open>Saturating arithmetic\<close>

definition sat_i64 :: "int \<Rightarrow> int" where
  "sat_i64 n = max i64_min (min i64_max n)"

text \<open>\<open>u64::saturating_add(1)\<close> and \<open>u32::saturating_sub(1)\<close> at their widths.\<close>

definition sat_inc :: "'w::len word \<Rightarrow> 'w word" where
  "sat_inc x = (if x = - 1 then x else x + 1)"

definition sat_dec :: "'w::len word \<Rightarrow> 'w word" where
  "sat_dec x = (if x = 0 then 0 else x - 1)"

lemma unat_sat_inc: "unat (sat_inc x) = (if x = - 1 then unat x else Suc (unat x))"
  for x :: "'w::len word"
proof (cases "x = - 1")
  case True
  then show ?thesis by (simp add: sat_inc_def)
next
  case False
  then have "1 + x \<noteq> 0" by (metis add.commute add_eq_0_iff)
  then have "unat (1 + x) = Suc (unat x)" by (rule unatSuc)
  with False show ?thesis by (simp add: sat_inc_def add.commute)
qed

lemma sat_inc_ge: "x \<le> sat_inc x"
  by (simp add: word_le_nat_alt unat_sat_inc)

lemma sat_inc_gt: "x \<noteq> - 1 \<Longrightarrow> x < sat_inc x"
  by (simp add: word_less_nat_alt unat_sat_inc)

lemma sat_inc_nonzero: "sat_inc x \<noteq> (0 :: 'w::len word)"
proof
  assume "sat_inc x = 0"
  then have "unat (sat_inc x) = 0" by simp
  then have "x = - 1" and "unat x = 0" by (auto simp: unat_sat_inc split: if_splits)
  then show False by (simp add: unat_eq_zero)
qed

lemma sat_i64_id: "i64_min \<le> n \<Longrightarrow> n \<le> i64_max \<Longrightarrow> sat_i64 n = n"
  by (simp add: sat_i64_def)

lemma sat_i64_range: "i64_min \<le> sat_i64 n \<and> sat_i64 n \<le> i64_max"
  by (auto simp: sat_i64_def i64_min_def i64_max_def)

end
