(* ===== verification/Channels.thy ===== *)
theory Channels
  imports Rust_Prelude
begin

text \<open>
  The channel abstraction of \<open>scheduler_module/src/channel.rs\<close>: the enumeration of the
  supported platforms, its textual form and parser, and the metadata a message carries from
  the inbound event to the outbound delivery.  \<open>u64\<close> fields are \<open>nat\<close> and \<open>i64\<close>, \<open>i32\<close> fields
  \<open>int\<close>: no arithmetic is done on them.
\<close>

datatype channel =
    Email
  | Slack
  | Discord
  | Sms
  | Telegram
  | WhatsApp
  | GoogleDocs
  | GoogleSheets
  | GoogleSlides
  | BlueBubbles
  | Notion
  | WeChat
  | WeChatMp
  | Lark
  | Zoom

definition channel_default :: channel where
  "channel_default = Email"

fun channel_to_string :: "channel \<Rightarrow> string" where
  "channel_to_string Email = ''email''"
| "channel_to_string Slack = ''slack''"
| "channel_to_string Discord = ''discord''"
| "channel_to_string Sms = ''sms''"
| "channel_to_string Telegram = ''telegram''"
| "channel_to_string WhatsApp = ''whatsapp''"
| "channel_to_string GoogleDocs = ''google_docs''"
| "channel_to_string GoogleSheets = ''google_sheets''"
| "channel_to_string GoogleSlides = ''google_slides''"
| "channel_to_string BlueBubbles = ''bluebubbles''"
| "channel_to_string Notion = ''notion''"
| "channel_to_string WeChat = ''wechat''"
| "channel_to_string WeChatMp = ''wechat_mp''"
| "channel_to_string Lark = ''lark''"
| "channel_to_string Zoom = ''zoom''"

definition channel_from_str :: "string \<Rightarrow> string + channel" where
  "channel_from_str s =
     (let t = to_lowercase s in
      if t = ''email'' then Inr Email
      else if t = ''slack'' then Inr Slack
      else if t = ''discord'' then Inr Discord
      else if t = ''sms'' then Inr Sms
      else if t = ''telegram'' then Inr Telegram
      else if t = ''whatsapp'' then Inr WhatsApp
      else if t \<in> set [''google_docs'', ''googledocs''] then Inr GoogleDocs
      else if t \<in> set [''google_sheets'', ''googlesheets''] then Inr GoogleSheets
      else if t \<in> set [''google_slides'', ''googleslides''] then Inr GoogleSlides
      else if t \<in> set [''bluebubbles'', ''imessage''] then Inr BlueBubbles
      else if t = ''notion'' then Inr Notion
      else if t \<in> set [''wechat'', ''weixin''] then Inr WeChat
      else if t \<in> set [''wechat_mp'', ''wechatmp''] then Inr WeChatMp
      else if t \<in> set [''lark'', ''feishu''] then Inr Lark
      else if t = ''zoom'' then Inr Zoom
      else Inl (''unknown channel: '' @ s))"

record extracted_artifact_ref =
  ar_artifact_type :: string
  ar_artifact_id :: string
  ar_url :: string

record channel_metadata =
  cm_in_reply_to :: "string option"
  cm_references :: "string option"
  cm_reply_to_header :: "string option"
  cm_slack_channel_id :: "string option"
  cm_slack_team_id :: "string option"
  cm_discord_guild_id :: "nat option"
  cm_discord_channel_id :: "nat option"
  cm_discord_message_id :: "string option"
  cm_discord_referenced_message_id :: "string option"
  cm_telegram_chat_id :: "int option"
  cm_whatsapp_phone_number :: "string option"
  cm_sms_from :: "string option"
  cm_sms_to :: "string option"
  cm_google_docs_document_id :: "string option"
  cm_google_docs_comment_id :: "string option"
  cm_google_docs_document_name :: "string option"
  cm_google_sheets_spreadsheet_id :: "string option"
  cm_google_sheets_comment_id :: "string option"
  cm_google_sheets_spreadsheet_name :: "string option"
  cm_google_sheets_sheet_name :: "string option"
  cm_google_slides_presentation_id :: "string option"
  cm_google_slides_comment_id :: "string option"
  cm_google_slides_presentation_name :: "string option"
  cm_google_slides_slide_number :: "int option"
  cm_google_docs_owner_email :: "string option"
  cm_google_sheets_owner_email :: "string option"
  cm_google_slides_owner_email :: "string option"
  cm_bluebubbles_chat_guid :: "string option"
  cm_notion_workspace_id :: "string option"
  cm_notion_workspace_name :: "string option"
  cm_notion_page_id :: "string option"
  cm_notion_page_title :: "string option"
  cm_notion_comment_id :: "string option"
  cm_notion_block_id :: "string option"
  cm_notion_notification_id :: "string option"
  cm_wechat_corp_id :: "string option"
  cm_wechat_user_id :: "string option"
  cm_wechat_agent_id :: "string option"
  cm_wechat_mp_app_id :: "string option"
  cm_wechat_mp_open_id :: "string option"
  cm_wechat_mp_msg_type :: "string option"
  cm_lark_app_id :: "string option"
  cm_lark_tenant_key :: "string option"
  cm_lark_open_id :: "string option"
  cm_lark_chat_id :: "string option"
  cm_lark_message_id :: "string option"
  cm_zoom_meeting_uuid :: "string option"
  cm_zoom_user_id :: "string option"
  cm_zoom_user_email :: "string option"
  cm_collaboration_session_id :: "string option"
  cm_extracted_artifacts :: "extracted_artifact_ref list option"

definition channel_metadata_default :: channel_metadata where
  "channel_metadata_default =
    \<lparr>cm_in_reply_to = None,
     cm_references = None,
     cm_reply_to_header = None,
     cm_slack_channel_id = None,
     cm_slack_team_id = None,
     cm_discord_guild_id = None,
     cm_discord_channel_id = None,
     cm_discord_message_id = None,
     cm_discord_referenced_message_id = None,
     cm_telegram_chat_id = None,
     cm_whatsapp_phone_number = None,
     cm_sms_from = None,
     cm_sms_to = None,
     cm_google_docs_document_id = None,
     cm_google_docs_comment_id = None,
     cm_google_docs_document_name = None,
     cm_google_sheets_spreadsheet_id = None,
     cm_google_sheets_comment_id = None,
     cm_google_sheets_spreadsheet_name = None,
     cm_google_sheets_sheet_name = None,
     cm_google_slides_presentation_id = None,
     cm_google_slides_comment_id = None,
     cm_google_slides_presentation_name = None,
     cm_google_slides_slide_number = None,
     cm_google_docs_owner_email = None,
     cm_google_sheets_owner_email = None,
     cm_google_slides_owner_email = None,
     cm_bluebubbles_chat_guid = None,
     cm_notion_workspace_id = None,
     cm_notion_workspace_name = None,
     cm_notion_page_id = None,
     cm_notion_page_title = None,
     cm_notion_comment_id = None,
     cm_notion_block_id = None,
     cm_notion_notification_id = None,
     cm_wechat_corp_id = None,
     cm_wechat_user_id = None,
     cm_wechat_agent_id = None,
     cm_wechat_mp_app_id = None,
     cm_wechat_mp_open_id = None,
     cm_wechat_mp_msg_type = None,
     cm_lark_app_id = None,
     cm_lark_tenant_key = None,
     cm_lark_open_id = None,
     cm_lark_chat_id = None,
     cm_lark_message_id = None,
     cm_zoom_meeting_uuid = None,
     cm_zoom_user_id = None,
     cm_zoom_user_email = None,
     cm_collaboration_session_id = None,
     cm_extracted_artifacts = None\<rparr>"

lemma channel_to_string_inj: "channel_to_string c = channel_to_string d \<longleftrightarrow> c = d"
  by (cases c; cases d) simp_all

lemma channel_roundtrip: "channel_from_str (channel_to_string c) = Inr c"
  by (cases c) (simp_all add: channel_from_str_def Let_def ascii_lower_def)

lemma channel_from_str_case:
  assumes "all_ascii s" and "all_ascii t" and "eq_ignore_ascii_case s t"
  shows "channel_from_str s = Inr c \<longleftrightarrow> channel_from_str t = Inr c"
proof -
  from assms have "to_lowercase s = to_lowercase t"
    by (simp add: eq_ignore_ascii_case_def to_lowercase_ascii)
  then show ?thesis by (simp add: channel_from_str_def Let_def)
qed

end
