(* ===== verification/Task_Types.thy ===== *)
theory Task_Types
  imports Channels
begin

text \<open>
  The task model of \<open>scheduler_module/src/scheduler/types.rs\<close> with the request types of
  \<open>run_task_module/src/run_task/types.rs\<close> that a task execution returns.

  A \<open>DateTime<Utc>\<close> is the number of nanoseconds since the Unix epoch and a chrono
  \<open>Duration\<close> a number of nanoseconds, both \<open>int\<close>.  A \<open>Uuid\<close> is its canonical text, a
  \<open>PathBuf\<close> its text.  The errors of libraries that \<open>SchedulerError\<close> wraps are kept as the
  text they display.
\<close>

type_synonym datetime = int
type_synonym duration = int
type_synonym uuid = string

subsection \<open>Time stamps\<close>

definition secs :: "int \<Rightarrow> duration" where [time_simps]: "secs n = n * 1000000000"
definition millis :: "int \<Rightarrow> duration" where [time_simps]: "millis n = n * 1000000"
definition minutes :: "int \<Rightarrow> duration" where [time_simps]: "minutes n = secs (60 * n)"
definition days :: "int \<Rightarrow> duration" where [time_simps]: "days n = secs (86400 * n)"

definition timestamp_micros :: "datetime \<Rightarrow> int" where
  [time_simps]: "timestamp_micros t = t div 1000"

definition timestamp_millis :: "datetime \<Rightarrow> int" where
  [time_simps]: "timestamp_millis t = t div 1000000"

text \<open>\<open>num_seconds\<close> and \<open>num_milliseconds\<close> of a duration truncate towards zero.\<close>

definition num_seconds :: "duration \<Rightarrow> int" where
  [time_simps]: "num_seconds d = (if d < 0 then - ((- d) div 1000000000) else d div 1000000000)"

definition num_milliseconds :: "duration \<Rightarrow> int" where
  [time_simps]: "num_milliseconds d = (if d < 0 then - ((- d) div 1000000) else d div 1000000)"

text \<open>A BSON date holds milliseconds: what a stored time stamp reads back as.\<close>

definition bson_time :: "datetime \<Rightarrow> datetime" where
  [time_simps]: "bson_time t = millis (timestamp_millis t)"

lemma bson_time_le: "bson_time t \<le> t"
  by (simp add: time_simps)

lemma bson_time_gt: "t < bson_time t + millis 1"
  unfolding bson_time_def millis_def timestamp_millis_def by arith

lemma bson_time_idem [simp]: "bson_time (bson_time t) = bson_time t"
  by (simp add: time_simps)

lemma bson_time_mono: "s \<le> t \<Longrightarrow> bson_time s \<le> bson_time t"
  by (simp add: time_simps zdiv_mono1)

subsection \<open>Tasks\<close>

record send_reply_task =
  sr_channel :: channel
  sr_subject :: string
  sr_html_path :: string
  sr_attachments_dir :: string
  sr_from :: "string option"
  sr_to :: "string list"
  sr_cc :: "string list"
  sr_bcc :: "string list"
  sr_in_reply_to :: "string option"
  sr_references :: "string option"
  sr_archive_root :: "string option"
  sr_thread_epoch :: "u64 option"
  sr_thread_state_path :: "string option"
  sr_employee_id :: "string option"
  sr_channel_metadata :: channel_metadata

record run_task_task =
  rt_workspace_dir :: string
  rt_input_email_dir :: string
  rt_input_attachments_dir :: string
  rt_memory_dir :: string
  rt_reference_dir :: string
  rt_model_name :: string
  rt_runner :: string
  rt_codex_disabled :: bool
  rt_reply_to :: "string list"
  rt_reply_from :: "string option"
  rt_archive_root :: "string option"
  rt_thread_id :: "string option"
  rt_thread_epoch :: "u64 option"
  rt_thread_state_path :: "string option"
  rt_channel :: channel
  rt_slack_team_id :: "string option"
  rt_employee_id :: "string option"
  rt_requester_identifier_type :: "string option"
  rt_requester_identifier :: "string option"
  rt_account_id :: "uuid option"
  rt_channel_metadata :: channel_metadata

datatype task_kind = SendReply send_reply_task | RunTask run_task_task | Noop

definition default_runner :: string where
  "default_runner = ''codex''"

datatype schedule =
    Cron (cron_expression: string) (cron_next_run: datetime)
  | OneShot (one_shot_run_at: datetime)

record scheduled_task =
  t_id :: uuid
  t_kind :: task_kind
  t_schedule :: schedule
  t_enabled :: bool
  t_created_at :: datetime
  t_last_run :: "datetime option"

definition is_due :: "scheduled_task \<Rightarrow> datetime \<Rightarrow> bool" where
  "is_due t now =
     (case t_schedule t of
        Cron _ next_run \<Rightarrow> next_run \<le> now
      | OneShot run_at \<Rightarrow> run_at \<le> now)"

datatype scheduler_error =
    Io string
  | DateTimeParse string
  | UuidParse string
  | Storage string
  | CronParse string
  | InvalidCron nat
  | NoNextRun
  | DurationOutOfRange
  | TaskFailed string

fun scheduler_error_to_string :: "scheduler_error \<Rightarrow> string" where
  "scheduler_error_to_string (Io e) = ''io error: '' @ e"
| "scheduler_error_to_string (DateTimeParse e) = ''datetime parse error: '' @ e"
| "scheduler_error_to_string (UuidParse e) = ''uuid parse error: '' @ e"
| "scheduler_error_to_string (Storage e) = ''storage error: '' @ e"
| "scheduler_error_to_string (CronParse e) = ''cron parse error: '' @ e"
| "scheduler_error_to_string (InvalidCron n) =
     ''invalid cron expression (expected 6 fields, got '' @ nat_str n @ '')''"
| "scheduler_error_to_string NoNextRun = ''no next run available for cron expression''"
| "scheduler_error_to_string DurationOutOfRange = ''duration out of range''"
| "scheduler_error_to_string (TaskFailed e) = ''task execution failed: '' @ e"

subsection \<open>What an execution returns\<close>

datatype schedule_request = ReqCron string | ReqOneShot string

record scheduled_send_email_task =
  se_subject :: string
  se_html_path :: string
  se_attachments_dir :: "string option"
  se_from :: "string option"
  se_to :: "string list"
  se_cc :: "string list"
  se_bcc :: "string list"
  se_delay_minutes :: "int option"
  se_delay_seconds :: "int option"
  se_run_at :: "string option"

record scheduled_send_slack_task =
  ss_team_id :: string
  ss_user_id :: string
  ss_message :: string
  ss_delay_minutes :: "int option"
  ss_delay_seconds :: "int option"
  ss_run_at :: "string option"

record scheduled_send_discord_task =
  sd_user_id :: string
  sd_message :: string
  sd_delay_minutes :: "int option"
  sd_delay_seconds :: "int option"
  sd_run_at :: "string option"

datatype scheduled_task_request =
    SendEmail scheduled_send_email_task
  | SendSlack scheduled_send_slack_task
  | SendDiscord scheduled_send_discord_task

datatype scheduler_action_request =
    Cancel "string list"
  | Reschedule string schedule_request
  | CreateRunTask schedule_request "string option" "bool option" "string list"
  | SetTpmDatabase string string "string option"

record task_execution =
  te_follow_up_tasks :: "scheduled_task_request list"
  te_follow_up_error :: "string option"
  te_scheduler_actions :: "scheduler_action_request list"
  te_scheduler_actions_error :: "string option"
  te_skip_auto_reply :: bool
  te_superseded :: bool
  te_disable_current_task_reason :: "string option"
  te_terminal_note :: "string option"
  te_terminal_status :: "string option"
  te_terminal_error_message :: "string option"

definition task_execution_empty :: task_execution where
  "task_execution_empty =
     \<lparr>te_follow_up_tasks = [], te_follow_up_error = None, te_scheduler_actions = [],
      te_scheduler_actions_error = None, te_skip_auto_reply = False, te_superseded = False,
      te_disable_current_task_reason = None, te_terminal_note = None,
      te_terminal_status = None, te_terminal_error_message = None\<rparr>"

subsection \<open>Channel metadata carried to the reply\<close>

definition normalized_optional_string :: "string option \<Rightarrow> string option" where
  "normalized_optional_string v = opt_filter (\<lambda>s. s \<noteq> []) (map_option trim v)"

definition preferred_string_slot :: "string list \<Rightarrow> nat \<Rightarrow> string option" where
  "preferred_string_slot vs i =
     or_else (Option.bind (nth_opt vs i) (\<lambda>v. normalized_optional_string (Some v)))
             (Option.bind (nth_opt vs 0) (\<lambda>v. normalized_optional_string (Some v)))"

definition preferred_u64_slot :: "string list \<Rightarrow> nat \<Rightarrow> nat option" where
  "preferred_u64_slot vs i =
     or_else (Option.bind (nth_opt vs i) (\<lambda>v. parse_u64 (trim v)))
             (Option.bind (nth_opt vs 0) (\<lambda>v. parse_u64 (trim v)))"

definition discord_guild_id_from_thread_key :: "string option \<Rightarrow> nat option" where
  "discord_guild_id_from_thread_key thread_id =
     Option.bind (opt_filter (\<lambda>s. s \<noteq> []) (map_option trim thread_id))
       (\<lambda>raw. case splitn 4 (CHR '':'') raw of
                tag # guild_id # _ \<Rightarrow>
                  if tag = ''discord'' then parse_u64 (trim guild_id) else None
              | _ \<Rightarrow> None)"

definition slack_channel_id_from_thread_key :: "string option \<Rightarrow> string option" where
  "slack_channel_id_from_thread_key thread_id =
     Option.bind (opt_filter (\<lambda>s. s \<noteq> []) (map_option trim thread_id))
       (\<lambda>raw. case splitn 3 (CHR '':'') raw of
                tag # channel_id # _ \<Rightarrow>
                  if tag = ''slack'' then normalized_optional_string (Some channel_id) else None
              | _ \<Rightarrow> None)"

definition send_normalized_channel_metadata :: "send_reply_task \<Rightarrow> channel_metadata" where
  "send_normalized_channel_metadata t =
     (let m = sr_channel_metadata t in
      case sr_channel t of
        Slack \<Rightarrow>
          if cm_slack_channel_id m = None then
            m\<lparr>cm_slack_channel_id := or_else (preferred_string_slot (sr_to t) 1)
                                            (preferred_string_slot (sr_to t) 0)\<rparr>
          else m
      | Discord \<Rightarrow>
          if cm_discord_channel_id m = None then
            m\<lparr>cm_discord_channel_id := or_else (preferred_u64_slot (sr_to t) 1)
                                              (preferred_u64_slot (sr_to t) 0)\<rparr>
          else m
      | _ \<Rightarrow> m)"

definition run_normalized_channel_metadata :: "run_task_task \<Rightarrow> channel_metadata" where
  "run_normalized_channel_metadata t =
     (let m0 = rt_channel_metadata t;
          m = (if cm_slack_team_id m0 = None
               then m0\<lparr>cm_slack_team_id := normalized_optional_string (rt_slack_team_id t)\<rparr>
               else m0) in
      case rt_channel t of
        Slack \<Rightarrow>
          if cm_slack_channel_id m = None then
            m\<lparr>cm_slack_channel_id :=
                or_else (or_else (preferred_string_slot (rt_reply_to t) 1)
                                 (slack_channel_id_from_thread_key (rt_thread_id t)))
                        (preferred_string_slot (rt_reply_to t) 0)\<rparr>
          else m
      | Discord \<Rightarrow>
          let m1 = (if cm_discord_channel_id m = None then
                      m\<lparr>cm_discord_channel_id := or_else (preferred_u64_slot (rt_reply_to t) 1)
                                                        (preferred_u64_slot (rt_reply_to t) 0)\<rparr>
                    else m)
          in if cm_discord_guild_id m1 = None then
               m1\<lparr>cm_discord_guild_id := discord_guild_id_from_thread_key (rt_thread_id t)\<rparr>
             else m1
      | _ \<Rightarrow> m)"

subsection \<open>Labels\<close>

fun task_kind_label :: "task_kind \<Rightarrow> string" where
  "task_kind_label (SendReply _) = ''send_email''"
| "task_kind_label (RunTask _) = ''run_task''"
| "task_kind_label Noop = ''noop''"

fun task_kind_channel :: "task_kind \<Rightarrow> channel" where
  "task_kind_channel (SendReply s) = sr_channel s"
| "task_kind_channel (RunTask r) = rt_channel r"
| "task_kind_channel Noop = channel_default"

subsection \<open>Lemmas\<close>

lemma normalized_optional_string_Some:
  "normalized_optional_string (Some v) = (if trim v = [] then None else Some (trim v))"
  by (simp add: normalized_optional_string_def)

lemma preferred_string_slot_first:
  "vs = v # rest \<Longrightarrow> trim v \<noteq> [] \<Longrightarrow> preferred_string_slot vs i \<noteq> None"
  by (auto simp: preferred_string_slot_def normalized_optional_string_Some or_else_def
      split: option.splits)

lemma preferred_string_slot_0:
  "preferred_string_slot vs 0 = Option.bind (nth_opt vs 0) (\<lambda>v. normalized_optional_string (Some v))"
  by (auto simp: preferred_string_slot_def or_else_def split: option.splits)

text \<open>The slot that is asked for falls back to the first one by itself.\<close>

lemma preferred_string_slot_absorbs:
  "or_else (preferred_string_slot vs i) (preferred_string_slot vs 0) = preferred_string_slot vs i"
  by (auto simp: preferred_string_slot_def or_else_def split: option.splits)

lemma preferred_u64_slot_absorbs:
  "or_else (preferred_u64_slot vs i) (preferred_u64_slot vs 0) = preferred_u64_slot vs i"
  by (auto simp: preferred_u64_slot_def or_else_def split: option.splits)

text \<open>The task of a Slack message, the input of the examples.\<close>

definition slack_run_task :: run_task_task where
  "slack_run_task =
     \<lparr>rt_workspace_dir = ''/w'', rt_input_email_dir = ''incoming_email'',
      rt_input_attachments_dir = ''incoming_attachments'', rt_memory_dir = ''memory'',
      rt_reference_dir = ''references'', rt_model_name = ''m'', rt_runner = default_runner,
      rt_codex_disabled = False, rt_reply_to = [''U1''], rt_reply_from = None,
      rt_archive_root = None, rt_thread_id = Some ''slack:C1:7'', rt_thread_epoch = None,
      rt_thread_state_path = None, rt_channel = Slack, rt_slack_team_id = None,
      rt_employee_id = None, rt_requester_identifier_type = None, rt_requester_identifier = None,
      rt_account_id = None, rt_channel_metadata = channel_metadata_default\<rparr>"

lemma slack_run_task_simps [simp]:
  "rt_workspace_dir slack_run_task = ''/w''" "rt_reply_to slack_run_task = [''U1'']"
  "rt_thread_id slack_run_task = Some ''slack:C1:7''" "rt_channel slack_run_task = Slack"
  "rt_reply_from slack_run_task = None" "rt_thread_epoch slack_run_task = None"
  "rt_account_id slack_run_task = None" "rt_requester_identifier_type slack_run_task = None"
  by (simp_all add: slack_run_task_def)

text \<open>
  The Slack thread key is not consulted for the reply channel once the first reply
  address is not blank: the channel of the key is only a fallback for tasks without any
  usable reply address, although the code lists it before the first reply address.
\<close>

theorem slack_thread_key_not_consulted:
  assumes "rt_channel t = Slack" and "cm_slack_channel_id (rt_channel_metadata t) = None"
    and "rt_reply_to t = v # rest" and "trim v \<noteq> []"
  shows "cm_slack_channel_id (run_normalized_channel_metadata t)
           = preferred_string_slot (rt_reply_to t) 1"
proof -
  from preferred_string_slot_first [OF assms(3,4), of 1]
  obtain c where "preferred_string_slot (rt_reply_to t) 1 = Some c" by auto
  with assms(1,2) show ?thesis by (simp add: run_normalized_channel_metadata_def Let_def)
qed

theorem slack_thread_key_not_consulted_witness:
  "cm_slack_channel_id (run_normalized_channel_metadata slack_run_task) = Some ''U1''"
proof -
  have "trim ''U1'' = ''U1''" by (simp add: trim_def trim_end_def ws1_def ws2_def ws3_def)
  with slack_thread_key_not_consulted [of slack_run_task "''U1''" "[]"] show ?thesis
    by (simp add: slack_run_task_def channel_metadata_default_def preferred_string_slot_def
        normalized_optional_string_def or_else_def nth_opt_def)
qed

end
