(* ===== verification/World.thy ===== *)
theory World
  imports Task_Types "HOL-Library.AList"
begin

text \<open>
  What the modelled code uses of the operating system: regular files and directories by path,
  the environment, the clock and fresh UUIDs, with the functions of \<open>std::fs\<close>, \<open>std::env\<close>,
  \<open>chrono::Utc\<close> and \<open>uuid\<close> on them.  \<open>w_refuse\<close> tells for a path the error with which the
  system refuses to read, create, change or remove it, so every failing branch of the code
  can be taken.  The clock and the generator of identifiers are arbitrary sequences.
\<close>

record world =
  w_files :: "(string \<times> string) list"
  w_dirs :: "string list"
  w_refuse :: "string \<Rightarrow> string option"
  w_torn :: "string \<Rightarrow> (nat \<times> string) option"
  w_env :: "string \<Rightarrow> string option"
  w_clock :: "nat \<Rightarrow> datetime"
  w_clock_reads :: nat
  w_uuid :: "nat \<Rightarrow> uuid"
  w_uuid_reads :: nat

subsection \<open>Clock and identifiers\<close>

definition utc_now :: "world \<Rightarrow> datetime \<times> world" where
  "utc_now w = (w_clock w (w_clock_reads w), w\<lparr>w_clock_reads := Suc (w_clock_reads w)\<rparr>)"

definition new_uuid :: "world \<Rightarrow> uuid \<times> world" where
  "new_uuid w = (w_uuid w (w_uuid_reads w), w\<lparr>w_uuid_reads := Suc (w_uuid_reads w)\<rparr>)"

text \<open>\<open>std::env::var(key).ok()\<close> trimmed, without empty values.\<close>

definition read_non_empty_env :: "world \<Rightarrow> string \<Rightarrow> string option" where
  "read_non_empty_env w key = opt_filter (\<lambda>v. v \<noteq> []) (map_option trim (w_env w key))"

subsection \<open>Files\<close>

text \<open>
  \<open>Path::parent\<close> of a path without trailing or repeated slashes: none for the root and the
  empty path, the empty path for a bare name.
\<close>

definition path_parent :: "string \<Rightarrow> string option" where
  "path_parent p =
     (if p = [] \<or> p = ''/'' then None
      else let dir = rev (drop 1 (dropWhile (\<lambda>c. c \<noteq> CHR ''/'') (rev p)))
           in Some (if dir = [] \<and> starts_with p ''/'' then ''/'' else dir))"

definition fs_is_file :: "world \<Rightarrow> string \<Rightarrow> bool" where
  "fs_is_file w p = (map_of (w_files w) p \<noteq> None)"

definition fs_is_dir :: "world \<Rightarrow> string \<Rightarrow> bool" where
  "fs_is_dir w p = (p \<in> set (w_dirs w))"

definition fs_exists :: "world \<Rightarrow> string \<Rightarrow> bool" where
  "fs_exists w p = (fs_is_file w p \<or> fs_is_dir w p)"

definition fs_read :: "world \<Rightarrow> string \<Rightarrow> string option" where
  "fs_read w p = (if w_refuse w p = None then map_of (w_files w) p else None)"

text \<open>\<open>fs::read_to_string\<close>, which fails on bytes that are not UTF-8.\<close>

definition fs_read_to_string :: "world \<Rightarrow> string \<Rightarrow> string option" where
  "fs_read_to_string w p = opt_filter utf8_valid (fs_read w p)"

definition not_found :: string where
  "not_found = ''No such file or directory (os error 2)''"

definition fs_parent_exists :: "world \<Rightarrow> string \<Rightarrow> bool" where
  "fs_parent_exists w p =
     (case path_parent p of
        None \<Rightarrow> False
      | Some dir \<Rightarrow> dir = [] \<or> dir = ''/'' \<or> fs_is_dir w dir)"

text \<open>
  \<open>fs::write\<close> truncates the file and then writes: it may fail before the file is touched (\<open>w_refuse\<close>,
  or the directory is missing), or after some of the bytes were written (\<open>w_torn\<close>, a full disk).
\<close>

definition fs_write :: "string \<Rightarrow> string \<Rightarrow> world \<Rightarrow> (string + unit) \<times> world" where
  "fs_write p content w =
     (case w_refuse w p of
        Some e \<Rightarrow> (Inl e, w)
      | None \<Rightarrow>
          if \<not> fs_parent_exists w p \<or> fs_is_dir w p then (Inl not_found, w)
          else (case w_torn w p of
                  Some (n, e) \<Rightarrow> (Inl e, w\<lparr>w_files := AList.update p (take n content) (w_files w)\<rparr>)
                | None \<Rightarrow> (Inr (), w\<lparr>w_files := AList.update p content (w_files w)\<rparr>)))"

definition path_ancestors :: "string \<Rightarrow> string list" where
  "path_ancestors p = [take i p. i \<leftarrow> [1..<Suc (length p)], i = length p \<or> p ! i = CHR ''/'']"

definition fs_create_dir_all :: "string \<Rightarrow> world \<Rightarrow> (string + unit) \<times> world" where
  "fs_create_dir_all p w =
     (case w_refuse w p of
        Some e \<Rightarrow> (Inl e, w)
      | None \<Rightarrow>
          if list_ex (fs_is_file w) (path_ancestors p) then (Inl not_found, w)
          else (Inr (), w\<lparr>w_dirs := List.union (path_ancestors p) (w_dirs w)\<rparr>))"

text \<open>Whether a path names the directory itself or something below it.\<close>

definition path_below :: "string \<Rightarrow> string \<Rightarrow> bool" where
  "path_below dir p = (p = dir \<or> starts_with p (dir @ ''/''))"

definition fs_remove_dir_all :: "string \<Rightarrow> world \<Rightarrow> (string + unit) \<times> world" where
  "fs_remove_dir_all p w =
     (case w_refuse w p of
        Some e \<Rightarrow> (Inl e, w)
      | None \<Rightarrow>
          if \<not> fs_is_dir w p then (Inl not_found, w)
          else (Inr (), w\<lparr>w_files := filter (\<lambda>f. \<not> path_below p (fst f)) (w_files w),
                         w_dirs := filter (\<lambda>d. \<not> path_below p d) (w_dirs w)\<rparr>))"

definition fs_read_dir :: "world \<Rightarrow> string \<Rightarrow> string list option" where
  "fs_read_dir w dir =
     (if w_refuse w dir \<noteq> None \<or> \<not> fs_is_dir w dir then None
      else Some (filter (\<lambda>p. path_parent p = Some dir)
                   (remdups (map fst (w_files w) @ w_dirs w))))"

definition io_result :: "(string + 'a) \<times> 'w \<Rightarrow> (scheduler_error + 'a) \<times> 'w" where
  "io_result r = (case r of (x, w) \<Rightarrow> (map_err Io x, w))"

subsection \<open>Lemmas\<close>

lemma fs_write_ok:
  "fs_write p c w = (Inr x, w') \<Longrightarrow>
   w' = w\<lparr>w_files := AList.update p c (w_files w)\<rparr> \<and> w_refuse w p = None \<and> \<not> fs_is_dir w p"
  by (auto simp: fs_write_def split: option.splits if_splits)

lemma fs_write_err:
  "fs_write p c w = (Inl e, w') \<Longrightarrow> w' = w \<or> (\<exists>c'. w' = w\<lparr>w_files := AList.update p c' (w_files w)\<rparr>)"
  by (auto simp: fs_write_def split: option.splits if_splits)

lemma fs_write_untorn:
  "fs_write p c w = (Inl e, w') \<Longrightarrow> w_torn w p = None \<Longrightarrow> w' = w"
  by (auto simp: fs_write_def split: option.splits if_splits)

lemma fs_read_after_write:
  "fs_write p c w = (Inr x, w') \<Longrightarrow> fs_read w' q = (if q = p then Some c else fs_read w q)"
  by (auto dest!: fs_write_ok simp: fs_read_def update_conv')

lemma fs_exists_after_write:
  "fs_write p c w = (Inr x, w') \<Longrightarrow> fs_exists w' q \<longleftrightarrow> q = p \<or> fs_exists w q"
  by (auto dest!: fs_write_ok simp: fs_exists_def fs_is_file_def fs_is_dir_def update_conv')

lemma fs_create_dir_all_files:
  "fs_create_dir_all p w = (r, w') \<Longrightarrow>
   w_files w' = w_files w \<and> w_refuse w' = w_refuse w \<and> w_torn w' = w_torn w"
  by (auto simp: fs_create_dir_all_def split: option.splits if_splits)

lemma io_result_ok: "io_result r = (Inr x, w) \<longleftrightarrow> r = (Inr x, w)"
  by (cases r) (auto simp: io_result_def)

lemma io_result_simps [simp]:
  "io_result (Inl e, w) = (Inl (Io e), w)" "io_result (Inr x, w) = (Inr x, w)"
  by (simp_all add: io_result_def)

subsection \<open>A plain world and a task\<close>

definition plain_world :: "string list \<Rightarrow> world" where
  "plain_world dirs =
     \<lparr>w_files = [], w_dirs = dirs, w_refuse = (\<lambda>_. None), w_torn = (\<lambda>_. None), w_env = (\<lambda>_. None),
      w_clock = (\<lambda>n. secs (int n)), w_clock_reads = 0, w_uuid = (\<lambda>n. ''u'' @ nat_str n),
      w_uuid_reads = 0\<rparr>"

end
