(* ===== verification/Cron_Schedule.thy ===== *)
theory Cron_Schedule
  imports Task_Types
begin

text \<open>
  \<open>scheduler_module/src/scheduler/schedule.rs\<close> and the schedule helpers of
  \<open>scheduler/mod.rs\<close> and \<open>scheduler/actions.rs\<close>: validating and repairing cron expressions,
  the next occurrence of a schedule, and what a resume or a reschedule request yields.

  The \<open>cron\<close> crate is a parameter: it maps an expression to an error or to the schedule's
  \<open>after\<close> method, which lists the occurrences (the crate's schedules end with a fixed year, so
  the list is finite).  Reading a file is a parameter too, \<open>None\<close> standing for any I/O error.
\<close>

type_synonym cron_lib = "string \<Rightarrow> string + (datetime \<Rightarrow> datetime list)"
type_synonym file_reader = "string \<Rightarrow> string option"

subsection \<open>White space separated fields\<close>

text \<open>
  A clean word holds no white space character; splitting yields clean non-empty words, and
  joining such words with blanks and splitting again gives them back.
\<close>

definition clean :: "string \<Rightarrow> bool" where
  "clean w = (\<forall>u v. w = u @ v \<longrightarrow> v \<noteq> [] \<longrightarrow> ws_len v = 0)"

lemma ws_len_blank [simp]: "ws_len (CHR '' '' # r) = 1"
  by (cases r; cases "tl r") (auto simp: ws1_def)

lemma ws_len_append_blank: "v \<noteq> [] \<Longrightarrow> ws_len v = 0 \<Longrightarrow> ws_len (v @ CHR '' '' # r) = 0"
  by (cases v rule: ws_len.cases; cases r)
     (auto simp: ws2_def ws3_def split: if_splits)

lemma clean_Cons: "clean (c # w) \<longleftrightarrow> ws_len (c # w) = 0 \<and> clean w"
  unfolding clean_def by (auto simp: append_eq_Cons_conv Cons_eq_append_conv)

lemma clean_Nil [simp]: "clean []"
  by (simp add: clean_def)

lemma split_ws_aux_clean_word:
  "clean w \<Longrightarrow> split_ws_aux cur w = (if cur = [] \<and> w = [] then [] else [rev cur @ w])"
  by (induction w arbitrary: cur) (auto simp: clean_Cons)

lemma split_ws_aux_word_blank:
  "clean w \<Longrightarrow> split_ws_aux cur (w @ CHR '' '' # r)
     = (if cur = [] \<and> w = [] then [] else [rev cur @ w]) @ split_ws_aux [] r"
proof (induction w arbitrary: cur)
  case Nil
  then show ?case by simp
next
  case (Cons c w)
  then have "ws_len ((c # w) @ CHR '' '' # r) = 0"
    by (intro ws_len_append_blank) (auto simp: clean_Cons)
  with Cons show ?case by (simp add: clean_Cons)
qed

lemma split_join_words:
  "(\<forall>w \<in> set ws. clean w \<and> w \<noteq> []) \<Longrightarrow> split_whitespace (join_with '' '' ws) = ws"
  unfolding split_whitespace_def
  by (induction "'' ''" ws rule: join_with.induct)
     (simp_all add: split_ws_aux_clean_word split_ws_aux_word_blank)

lemma clean_snoc_step:
  assumes "\<forall>u v. rev cur = u @ v \<longrightarrow> ws_len (v @ c # s) = 0 \<or> v = []" and "ws_len (c # s) = 0"
  shows "\<forall>u v. rev (c # cur) = u @ v \<longrightarrow> ws_len (v @ s) = 0 \<or> v = []"
proof (intro allI impI)
  fix u v assume e: "rev (c # cur) = u @ v"
  show "ws_len (v @ s) = 0 \<or> v = []"
  proof (cases v rule: rev_cases)
    case Nil
    then show ?thesis by simp
  next
    case (snoc v' d)
    with e have dc: "d = c" and "rev cur = u @ v'" by auto
    then have "ws_len (v' @ c # s) = 0 \<or> v' = []" using assms(1) by blast
    then show ?thesis using snoc dc assms(2) by auto
  qed
qed

lemma split_ws_aux_clean:
  assumes "\<forall>u v. rev cur = u @ v \<longrightarrow> ws_len (v @ s) = 0 \<or> v = []"
    and "w \<in> set (split_ws_aux cur s)"
  shows "clean w \<and> w \<noteq> []"
  using assms
proof (induction cur s rule: split_ws_aux.induct)
  case (1 cur)
  then show ?case by (auto simp: clean_def split: if_splits)
next
  case (2 cur c s)
  show ?case
  proof (cases "ws_len (c # s) = 0")
    case True
    with 2(4) have "w \<in> set (split_ws_aux (c # cur) s)" by simp
    with 2(1) [OF True clean_snoc_step [OF 2(3) True]] show ?thesis by blast
  next
    case False
    with 2(4) consider "cur \<noteq> []" "w = rev cur"
      | "w \<in> set (split_ws_aux [] (drop (ws_len (c # s) - 1) s))"
      by (auto split: if_splits)
    then show ?thesis
    proof cases
      case 1
      have "clean w"
        unfolding clean_def
      proof (intro allI impI)
        fix u v assume "w = u @ v" "v \<noteq> []"
        with 1 2(3) have "ws_len (v @ c # s) = 0" by blast
        then show "ws_len v = 0" by (rule ws_len_append_0)
      qed
      with 1 show ?thesis by simp
    next
      case c2: 2
      with 2(2) [OF False] show ?thesis by simp
    qed
  qed
qed

lemma split_whitespace_clean: "w \<in> set (split_whitespace s) \<Longrightarrow> clean w \<and> w \<noteq> []"
  unfolding split_whitespace_def by (rule split_ws_aux_clean [of "[]"]) simp_all

subsection \<open>Cron expressions\<close>

definition validate_cron_expression :: "string \<Rightarrow> scheduler_error + unit" where
  "validate_cron_expression expression =
     (let fields = length (split_whitespace expression)
      in if fields \<noteq> 6 then Inl (InvalidCron fields) else Inr ())"

definition next_run_after :: "cron_lib \<Rightarrow> string \<Rightarrow> datetime \<Rightarrow> scheduler_error + datetime" where
  "next_run_after cron expression after =
     res_bind (validate_cron_expression expression) (\<lambda>_.
     res_bind (map_err CronParse (cron expression)) (\<lambda>sched.
       case List.find (\<lambda>d. d > after) (sched after) of
         Some d \<Rightarrow> Inr d
       | None \<Rightarrow> Inl NoNextRun))"

definition weekday_request_markers :: "string list" where
  "weekday_request_markers =
     [''weekday'', ''weekdays'', ''business day'', ''business days'',
      ''monday through friday'', ''monday to friday'', ''mon-fri'', ''mon thru fri'']"

definition request_implies_monday_through_friday :: "string \<Rightarrow> bool" where
  "request_implies_monday_through_friday txt =
     contains_any (to_ascii_lowercase txt) weekday_request_markers"

definition is_legacy_weekday_field :: "string \<Rightarrow> bool" where
  "is_legacy_weekday_field field =
     (trim field \<in> set [''0-4'', ''0,1,2,3,4'', ''1-5'', ''1,2,3,4,5''])"

definition normalize_weekday_cron_expression :: "string \<Rightarrow> string option \<Rightarrow> string" where
  "normalize_weekday_cron_expression expression request_context =
     (case request_context of
        None \<Rightarrow> expression
      | Some ctx \<Rightarrow>
          if \<not> request_implies_monday_through_friday ctx then expression
          else let fields = split_whitespace expression in
               if length fields \<noteq> 6 \<or> \<not> is_legacy_weekday_field (fields ! 5) then expression
               else join_with '' '' (fields[5 := ''MON-FRI'']))"

lemma next_run_after_gt: "next_run_after cron e t = Inr d \<Longrightarrow> t < d"
  by (auto simp: next_run_after_def res_bind_eq_Inr find_Some_iff split: option.splits)

lemma next_run_after_valid: "next_run_after cron e t = Inr d \<Longrightarrow> length (split_whitespace e) = 6"
  by (auto simp: next_run_after_def res_bind_eq_Inr validate_cron_expression_def Let_def
      split: if_splits)

lemma clean_MON_FRI: "clean ''MON-FRI''"
  by (simp add: clean_Cons ws1_def ws2_def ws3_def)

lemma not_legacy_MON_FRI: "\<not> is_legacy_weekday_field ''MON-FRI''"
  by (simp add: is_legacy_weekday_field_def trim_def trim_end_def ws1_def ws2_def ws3_def)

lemma normalize_cases:
  obtains (same) "normalize_weekday_cron_expression e ctx = e"
  | (repaired) ws c where "split_whitespace e = ws" "length ws = 6" "is_legacy_weekday_field (ws ! 5)"
      "ctx = Some c" "request_implies_monday_through_friday c"
      "split_whitespace (normalize_weekday_cron_expression e ctx) = ws[5 := ''MON-FRI'']"
      "normalize_weekday_cron_expression e ctx = join_with '' '' (ws[5 := ''MON-FRI''])"
proof (cases ctx)
  case None
  then show thesis by (intro same) (simp add: normalize_weekday_cron_expression_def)
next
  case (Some c)
  let ?ws = "split_whitespace e"
  show thesis
  proof (cases "request_implies_monday_through_friday c \<and> length ?ws = 6 \<and> is_legacy_weekday_field (?ws ! 5)")
    case False
    with Some show thesis
      by (intro same) (auto simp: normalize_weekday_cron_expression_def Let_def)
  next
    case True
    then have n: "normalize_weekday_cron_expression e ctx = join_with '' '' (?ws[5 := ''MON-FRI''])"
      using Some by (simp add: normalize_weekday_cron_expression_def Let_def)
    have "\<forall>w \<in> set (?ws[5 := ''MON-FRI'']). clean w \<and> w \<noteq> []"
      using split_whitespace_clean [of _ e] set_update_subset_insert [of ?ws 5 "''MON-FRI''"]
        clean_MON_FRI by fastforce
    from split_join_words [OF this] n True Some show thesis by (intro repaired) auto
  qed
qed

text \<open>
  Repairing a weekday cron expression keeps it a six-field expression or leaves it
  alone: the number of fields never changes, no field but the sixth changes, and repairing the
  result again changes nothing.
\<close>

theorem normalize_weekday_cron_expression_fields:
  "length (split_whitespace (normalize_weekday_cron_expression e ctx)) = length (split_whitespace e)
   \<and> take 5 (split_whitespace (normalize_weekday_cron_expression e ctx)) = take 5 (split_whitespace e)
   \<and> normalize_weekday_cron_expression (normalize_weekday_cron_expression e ctx) ctx
       = normalize_weekday_cron_expression e ctx"
proof (rule normalize_cases [of e ctx])
  assume "normalize_weekday_cron_expression e ctx = e"
  then show ?thesis by simp
next
  fix ws c
  assume repaired: "split_whitespace e = ws" "length ws = 6" "is_legacy_weekday_field (ws ! 5)"
    "ctx = Some c" "request_implies_monday_through_friday c"
    "split_whitespace (normalize_weekday_cron_expression e ctx) = ws[5 := ''MON-FRI'']"
    "normalize_weekday_cron_expression e ctx = join_with '' '' (ws[5 := ''MON-FRI''])"
  have "normalize_weekday_cron_expression n ctx = n"
    if "split_whitespace n = ws[5 := ''MON-FRI'']" for n
    using that not_legacy_MON_FRI repaired(2)
    by (simp add: normalize_weekday_cron_expression_def Let_def split: option.split)
  with repaired show ?thesis by simp
qed

subsection \<open>Resuming, rescheduling and listing\<close>

definition refreshed_schedule_for_resume ::
    "cron_lib \<Rightarrow> schedule \<Rightarrow> datetime \<Rightarrow> scheduler_error + schedule" where
  "refreshed_schedule_for_resume cron sched now =
     (case sched of
        Cron expression _ \<Rightarrow>
          res_bind (next_run_after cron expression now) (\<lambda>next_run. Inr (Cron expression next_run))
      | OneShot run_at \<Rightarrow>
          if run_at < now then Inl (TaskFailed ''one_shot run_at is in the past'')
          else Inr (OneShot run_at))"

definition prepare_task_for_resume ::
    "cron_lib \<Rightarrow> scheduled_task \<Rightarrow> datetime \<Rightarrow> scheduler_error + scheduled_task" where
  "prepare_task_for_resume cron task now =
     res_bind (refreshed_schedule_for_resume cron (t_schedule task) now)
       (\<lambda>s. Inr (task\<lparr>t_schedule := s, t_enabled := True\<rparr>))"

text \<open>A one-shot is a routine when it was scheduled at least this long after its creation.\<close>

definition routine_one_shot_delay_threshold :: duration where
  "routine_one_shot_delay_threshold = minutes 5"

definition is_user_visible_routine_task :: "scheduled_task \<Rightarrow> datetime \<Rightarrow> bool" where
  "is_user_visible_routine_task task now =
     (case t_kind task of
        RunTask _ \<Rightarrow>
          (case t_schedule task of
             Cron _ _ \<Rightarrow> True
           | OneShot run_at \<Rightarrow>
               run_at > now \<or> run_at \<ge> t_created_at task + routine_one_shot_delay_threshold)
      | _ \<Rightarrow> False)"

definition load_run_task_request_context :: "file_reader \<Rightarrow> run_task_task \<Rightarrow> string option" where
  "load_run_task_request_context read_file task =
     (let input_email_dir =
            (if path_is_absolute (rt_input_email_dir task) then rt_input_email_dir task
             else path_join (rt_workspace_dir task) (rt_input_email_dir task))
      in opt_filter (\<lambda>s. s \<noteq> [])
           (map_option trim (read_file (path_join input_email_dir ''thread_request.md''))))"

definition maybe_repair_legacy_weekday_cron_task ::
    "cron_lib \<Rightarrow> file_reader \<Rightarrow> scheduled_task \<Rightarrow> datetime
     \<Rightarrow> (scheduler_error + bool) \<times> scheduled_task" where
  "maybe_repair_legacy_weekday_cron_task cron read_file task now =
     (case t_kind task of
        RunTask run_task \<Rightarrow>
          (let request_context = load_run_task_request_context read_file run_task in
           case t_schedule task of
             OneShot _ \<Rightarrow> (Inr False, task)
           | Cron expression next_run \<Rightarrow>
               let normalized = normalize_weekday_cron_expression expression request_context in
               if normalized = expression then (Inr False, task)
               else
                 let reference_time =
                       (case t_last_run task of None \<Rightarrow> now
                        | Some v \<Rightarrow> if v > now then v else now) in
                 case next_run_after cron normalized reference_time of
                   Inl e \<Rightarrow> (Inl e, task\<lparr>t_schedule := Cron normalized next_run\<rparr>)
                 | Inr d \<Rightarrow> (Inr True, task\<lparr>t_schedule := Cron normalized d\<rparr>))
      | _ \<Rightarrow> (Inr False, task))"

text \<open>\<open>parse_datetime\<close> and \<open>Uuid::parse_str\<close> are library parsers, kept as parameters.\<close>

definition resolve_schedule_request_with_context ::
    "cron_lib \<Rightarrow> (string \<Rightarrow> string + datetime) \<Rightarrow> schedule_request \<Rightarrow> datetime \<Rightarrow> string option
     \<Rightarrow> scheduler_error + schedule" where
  "resolve_schedule_request_with_context cron parse_rfc3339 req now request_context =
     (case req of
        ReqCron expression \<Rightarrow>
          let normalized = normalize_weekday_cron_expression expression request_context in
          res_bind (validate_cron_expression normalized) (\<lambda>_.
          res_bind (next_run_after cron normalized now) (\<lambda>next_run.
            Inr (Cron normalized next_run)))
      | ReqOneShot run_at \<Rightarrow>
          res_bind (map_err DateTimeParse (parse_rfc3339 run_at)) (\<lambda>at.
            if at < now then Inl (TaskFailed ''one_shot run_at is in the past'')
            else Inr (OneShot at)))"

fun parse_action_task_ids :: "(string \<Rightarrow> uuid option) \<Rightarrow> string list \<Rightarrow> uuid set \<times> string list" where
  "parse_action_task_ids parse_uuid [] = ({}, [])"
| "parse_action_task_ids parse_uuid (raw # rest) =
     (let (ids, invalid) = parse_action_task_ids parse_uuid rest in
      case parse_uuid raw of
        Some u \<Rightarrow> (insert u ids, invalid)
      | None \<Rightarrow> (ids, raw # invalid))"

text \<open>The instant a schedule fires next; \<open>snapshot.rs\<close> has the same function.\<close>

definition schedule_next_run_at :: "schedule \<Rightarrow> datetime" where
  "schedule_next_run_at s = (case s of Cron _ next_run \<Rightarrow> next_run | OneShot run_at \<Rightarrow> run_at)"

lemma is_due_iff: "is_due t now \<longleftrightarrow> schedule_next_run_at (t_schedule t) \<le> now"
  by (simp add: is_due_def schedule_next_run_at_def split: schedule.splits)

lemma resolve_schedule_request_not_past:
  assumes "resolve_schedule_request_with_context cron p req now ctx = Inr s"
  shows "now \<le> schedule_next_run_at s"
  using assms
  by (auto simp: resolve_schedule_request_with_context_def res_bind_eq_Inr Let_def
      schedule_next_run_at_def split: schedule_request.splits if_splits
      dest!: next_run_after_gt)

lemma refreshed_schedule_not_past:
  assumes "refreshed_schedule_for_resume cron s now = Inr s'"
  shows "now \<le> schedule_next_run_at s'"
  using assms
  by (auto simp: refreshed_schedule_for_resume_def res_bind_eq_Inr schedule_next_run_at_def
      split: schedule.splits if_splits dest!: next_run_after_gt)

text \<open>
  Every schedule the service accepts from an agent or refreshes for a resume lies at or
  after the current instant, and strictly after it when it is a cron schedule, whose expression
  then has six fields.
\<close>

theorem accepted_schedule_not_past:
  assumes "resolve_schedule_request_with_context cron p req now ctx = Inr s
           \<or> refreshed_schedule_for_resume cron s0 now = Inr s"
  shows "now \<le> schedule_next_run_at s
         \<and> (\<forall>e d. s = Cron e d \<longrightarrow> now < d \<and> length (split_whitespace e) = 6)"
  using assms
  by (auto simp: resolve_schedule_request_with_context_def refreshed_schedule_for_resume_def
      res_bind_eq_Inr Let_def schedule_next_run_at_def
      split: schedule_request.splits schedule.splits if_splits
      dest: next_run_after_gt next_run_after_valid less_imp_le)

definition hourly_cron :: cron_lib where
  "hourly_cron e = Inr (\<lambda>t. [(t div secs 3600 + 1) * secs 3600])"

theorem accepted_schedule_not_past_witness:
  "(0::int) \<le> schedule_next_run_at (Cron ''0 0 * * * *'' (secs 3600))"
proof -
  have "resolve_schedule_request_with_context hourly_cron (\<lambda>_. Inl ''bad'')
          (ReqCron ''0 0 * * * *'') 0 None = Inr (Cron ''0 0 * * * *'' (secs 3600))"
    by (simp add: resolve_schedule_request_with_context_def normalize_weekday_cron_expression_def
        next_run_after_def validate_cron_expression_def split_whitespace_def hourly_cron_def
        time_simps ws1_def ws2_def ws3_def)
  from accepted_schedule_not_past [OF disjI1, OF this] show ?thesis by simp
qed

end
