(* ===== verification/Reply_Context.thy ===== *)
theory Reply_Context
  imports World Cron_Schedule "HOL-Library.List_Lexorder" "HOL-Library.Char_ord"
begin

text \<open>
  \<open>scheduler/reply.rs\<close>: the subject and the threading headers of a reply, taken from the
  files of the incoming message.  The JSON decoders (serde) are the fields of \<open>reply_json\<close>;
  each gives the fields of the decoded structure, or \<open>None\<close> when the text does not decode.
\<close>

record reply_context =
  rc_subject :: string
  rc_in_reply_to :: "string option"
  rc_references :: "string option"
  rc_from :: "string option"

record postmark_inbound =
  pi_subject :: "string option"
  pi_stripped_text_reply :: "string option"
  pi_text_body :: "string option"
  pi_message_id :: "string option"
  pi_headers :: "(string \<times> string) list option"

record chat_meta =
  me_channel :: "string option"
  me_id :: "string option"

record docs_meta =
  do_document_id :: "string option"
  do_comment_id :: "string option"
  do_document_name :: "string option"

record reply_json =
  rj_discord :: "string \<Rightarrow> chat_meta option"
  rj_slack :: "string \<Rightarrow> chat_meta option"
  rj_docs :: "string \<Rightarrow> docs_meta option"
  rj_postmark :: "string \<Rightarrow> postmark_inbound option"

subsection \<open>Lines and characters of a text\<close>

text \<open>The bytes of UTF-8 that continue a character, and the first \<open>n\<close> characters.\<close>

definition is_continuation :: "char \<Rightarrow> bool" where
  "is_continuation c = (let n = (of_char c :: nat) in 128 \<le> n \<and> n < 192)"

fun take_chars :: "nat \<Rightarrow> string \<Rightarrow> string" where
  "take_chars n [] = []"
| "take_chars n (c # s) =
     (if is_continuation c then c # take_chars n s
      else case n of 0 \<Rightarrow> [] | Suc m \<Rightarrow> c # take_chars m s)"

definition char_count :: "string \<Rightarrow> nat" where
  "char_count s = length (filter (\<lambda>c. \<not> is_continuation c) s)"

definition trim_matches :: "(char \<Rightarrow> bool) \<Rightarrow> string \<Rightarrow> string" where
  "trim_matches p s = rev (dropWhile p (rev (dropWhile p s)))"

subsection \<open>Subjects\<close>

function strip_reply_markers :: "string \<Rightarrow> string" where
  "strip_reply_markers remainder =
     (let lowered = to_ascii_lowercase remainder in
      if starts_with lowered ''re:'' then strip_reply_markers (trim_start (drop 3 remainder))
      else if starts_with lowered ''fw:'' then strip_reply_markers (trim_start (drop 3 remainder))
      else if starts_with lowered ''fwd:'' then strip_reply_markers (trim_start (drop 4 remainder))
      else remainder)"
  by pat_completeness auto

lemma starts_with_lower_length: "starts_with (to_ascii_lowercase s) p \<Longrightarrow> length p \<le> length s"
  by (metis length_append length_to_ascii_lowercase le_add1 starts_with_iff)

lemma trim_start_drop_less: "0 < n \<Longrightarrow> n \<le> length s \<Longrightarrow> length (trim_start (drop n s)) < length s"
  using length_trim_start [of "drop n s"] by simp

termination strip_reply_markers
  by (relation "measure length")
     (auto intro!: trim_start_drop_less dest!: starts_with_lower_length)

declare strip_reply_markers.simps [simp del]

definition is_placeholder_subject :: "string \<Rightarrow> bool" where
  "is_placeholder_subject subject =
     eq_ignore_ascii_case
       (trim (trim_matches (\<lambda>c. c \<in> set ''()[]'') (trim (strip_reply_markers (trim subject)))))
       ''no subject''"

definition normalized_original_subject :: "string \<Rightarrow> string option" where
  "normalized_original_subject original =
     (let trimmed = trim original in
      if trimmed = [] \<or> is_placeholder_subject trimmed then None else Some trimmed)"

definition ensure_reply_prefix :: "string \<Rightarrow> string" where
  "ensure_reply_prefix subject =
     (let trimmed = trim subject in
      if starts_with (to_ascii_lowercase trimmed) ''re:'' then trimmed else ''Re: '' @ trimmed)"

definition reply_subject :: "string \<Rightarrow> string" where
  "reply_subject original =
     (case normalized_original_subject original of
        Some subject \<Rightarrow> ensure_reply_prefix subject
      | None \<Rightarrow> ''Re: '' @ ''Your request'')"

definition truncate_reply_subject_hint :: "string \<Rightarrow> nat \<Rightarrow> string" where
  "truncate_reply_subject_hint v max_chars =
     (if char_count v \<le> max_chars then v else take_chars max_chars v @ ''...'')"

definition clean_reply_subject_hint :: "string \<Rightarrow> string option" where
  "clean_reply_subject_hint line =
     (let compact = join_with '' '' (split_whitespace line) in
      if compact = [] \<or> is_placeholder_subject compact then None
      else Some (truncate_reply_subject_hint compact 72))"

definition is_reply_header_line :: "string \<Rightarrow> bool" where
  "is_reply_header_line line =
     list_ex (starts_with (to_ascii_lowercase line))
       [''from:'', ''date:'', ''to:'', ''cc:'', ''bcc:'', ''subject:'']"

fun reply_subject_hint_from :: "bool \<Rightarrow> string list \<Rightarrow> string option" where
  "reply_subject_hint_from body_started [] = None"
| "reply_subject_hint_from body_started (line # rest) =
     (let trimmed = trim line in
      if trimmed = [] then reply_subject_hint_from True rest
      else if \<not> body_started \<and> is_reply_header_line trimmed
      then reply_subject_hint_from body_started rest
      else clean_reply_subject_hint trimmed)"

definition normalize_reply_subject_hint :: "string \<Rightarrow> string option" where
  "normalize_reply_subject_hint raw = reply_subject_hint_from False (str_lines raw)"

definition payload_reply_subject :: "postmark_inbound \<Rightarrow> string" where
  "payload_reply_subject p =
     (case normalized_original_subject (unwrap_or [] (pi_subject p)) of
        Some subject \<Rightarrow> ensure_reply_prefix subject
      | None \<Rightarrow>
          (case or_else (Option.bind (pi_stripped_text_reply p) normalize_reply_subject_hint)
                        (Option.bind (pi_text_body p) normalize_reply_subject_hint) of
             Some summary \<Rightarrow> ensure_reply_prefix summary
           | None \<Rightarrow> reply_subject []))"

subsection \<open>Threading headers\<close>

definition header_value :: "postmark_inbound \<Rightarrow> string \<Rightarrow> string option" where
  "header_value p name =
     Option.bind (pi_headers p)
       (\<lambda>hs. map_option snd (List.find (\<lambda>h. eq_ignore_ascii_case (fst h) name) hs))"

definition references_contains :: "string \<Rightarrow> string \<Rightarrow> bool" where
  "references_contains references message_id =
     list_ex (\<lambda>entry. entry = message_id) (split_whitespace references)"

definition reply_headers :: "postmark_inbound \<Rightarrow> string option \<times> string option" where
  "reply_headers p =
     (let message_id = opt_filter (\<lambda>v. v \<noteq> [])
            (map_option trim (or_else (header_value p ''message-id'') (pi_message_id p)));
          references = opt_filter (\<lambda>v. v \<noteq> [])
            (map_option trim (or_else (header_value p ''References'') (header_value p ''In-Reply-To'')))
      in case message_id of
           None \<Rightarrow> (None, references)
         | Some msg_id \<Rightarrow>
             (message_id,
              case references of
                Some existing \<Rightarrow>
                  if references_contains existing msg_id then Some existing
                  else Some (existing @ '' '' @ msg_id)
              | None \<Rightarrow> Some msg_id))"

subsection \<open>The context of a workspace\<close>

definition latest_meta_id ::
    "string \<Rightarrow> string \<Rightarrow> (string \<Rightarrow> chat_meta option) \<Rightarrow> world \<Rightarrow> string \<Rightarrow> string option" where
  "latest_meta_id name_end channel_name decode w incoming_dir =
     (case fs_read_dir w incoming_dir of
        None \<Rightarrow> None
      | Some entries \<Rightarrow>
          let meta_files = sort (filter (\<lambda>p. case path_file_name p of
                                              None \<Rightarrow> False | Some n \<Rightarrow> ends_with n name_end) entries) in
          if meta_files = [] then None
          else
            (case Option.bind (fs_read w (last meta_files)) decode of
               None \<Rightarrow> None
             | Some meta \<Rightarrow>
                 if (case me_channel meta of None \<Rightarrow> False | Some c \<Rightarrow> eq_ignore_ascii_case c channel_name)
                 then opt_filter (\<lambda>v. v \<noteq> []) (map_option trim (me_id meta))
                 else None))"

definition latest_discord_message_id :: "reply_json \<Rightarrow> world \<Rightarrow> string \<Rightarrow> string option" where
  "latest_discord_message_id js = latest_meta_id ''_discord_meta.json'' ''discord'' (rj_discord js)"

definition latest_slack_thread_id :: "reply_json \<Rightarrow> world \<Rightarrow> string \<Rightarrow> string option" where
  "latest_slack_thread_id js = latest_meta_id ''_slack_meta.json'' ''slack'' (rj_slack js)"

definition google_docs_context :: "docs_meta \<Rightarrow> reply_context option" where
  "google_docs_context m =
     (let document_id = unwrap_or [] (do_document_id m);
          comment_id = unwrap_or [] (do_comment_id m);
          document_name = unwrap_or ''Document'' (do_document_name m)
      in if document_id \<noteq> [] \<and> comment_id \<noteq> []
         then Some \<lparr>rc_subject = ''Re: Comment on '' @ document_name,
                    rc_in_reply_to = Some (document_id @ '':'' @ comment_id),
                    rc_references = None, rc_from = None\<rparr>
         else None)"

definition load_reply_context :: "reply_json \<Rightarrow> world \<Rightarrow> string \<Rightarrow> reply_context" where
  "load_reply_context js w workspace_dir =
     (let incoming_dir = path_join workspace_dir ''incoming_email'' in
      case latest_discord_message_id js w incoming_dir of
        Some message_id \<Rightarrow>
          \<lparr>rc_subject = ''Discord reply'', rc_in_reply_to = Some message_id,
           rc_references = None, rc_from = None\<rparr>
      | None \<Rightarrow>
     (case latest_slack_thread_id js w incoming_dir of
        Some thread_ts \<Rightarrow>
          \<lparr>rc_subject = ''Slack reply'', rc_in_reply_to = Some thread_ts,
           rc_references = None, rc_from = None\<rparr>
      | None \<Rightarrow>
     (case Option.bind (Option.bind (fs_read w (path_join incoming_dir ''google_docs_metadata.json''))
                          (rj_docs js)) google_docs_context of
        Some context \<Rightarrow> context
      | None \<Rightarrow>
     (case Option.bind (fs_read w (path_join incoming_dir ''postmark_payload.json'')) (rj_postmark js) of
        Some payload \<Rightarrow>
          (case reply_headers payload of
             (in_reply_to, references) \<Rightarrow>
               \<lparr>rc_subject = payload_reply_subject payload, rc_in_reply_to = in_reply_to,
                rc_references = references, rc_from = None\<rparr>)
      | None \<Rightarrow>
          \<lparr>rc_subject = reply_subject [], rc_in_reply_to = None,
           rc_references = None, rc_from = None\<rparr>))))"


subsection \<open>Subjects\<close>

lemma ws_len_rev_Re: "r \<noteq> [] \<Longrightarrow> ws_len_rev (r @ '' :eR'') = ws_len_rev r"
  by (induction r rule: ws_len_rev.induct) (auto simp: ws2_def ws3_def)

lemma trim_end_fixed: "trim_end s = s \<longleftrightarrow> s = [] \<or> ws_len_rev (rev s) = 0"
proof (cases "rev s")
  case (Cons c r)
  have "trim_rev (c # r) \<noteq> c # r" if "ws_len_rev (c # r) \<noteq> 0"
  proof
    assume e: "trim_rev (c # r) = c # r"
    obtain u where "drop (ws_len_rev (c # r) - 1) r = u @ trim_rev (drop (ws_len_rev (c # r) - 1) r)"
      using trim_rev_suffix by blast
    then have "length (trim_rev (drop (ws_len_rev (c # r) - 1) r)) \<le> length r"
      by (metis diff_le_self le_add2 le_trans length_append length_drop)
    with that e show False by (metis Suc_n_not_le_n length_Cons trim_rev.simps(2))
  qed
  with Cons show ?thesis by (auto simp: trim_end_def rev_swap)
qed (simp add: trim_end_def)

lemma trim_Re_append:
  assumes "trim t = t" and "t \<noteq> []"
  shows "trim (''Re: '' @ t) = ''Re: '' @ t"
proof -
  have "trim_end t = t" using assms(1) by (metis trim_end_trim)
  with assms(2) have "ws_len_rev (rev t) = 0" by (simp add: trim_end_fixed)
  with assms(2) have "ws_len_rev (rev (''Re: '' @ t)) = 0" by (simp add: ws_len_rev_Re)
  then have "trim_end (''Re: '' @ t) = ''Re: '' @ t" unfolding trim_end_fixed by blast
  moreover have "trim_start (''Re: '' @ t) = ''Re: '' @ t"
    unfolding trim_start_fixed by (simp add: ws1_def ws2_def ws3_def)
  ultimately show ?thesis by (simp add: trim_def)
qed


lemma strip_reply_markers_suffix: "\<exists>u. s = u @ strip_reply_markers s"
proof (induction s rule: strip_reply_markers.induct)
  case (1 s)
  have step: "\<exists>u. s = u @ strip_reply_markers (trim_start (drop n s))"
    if "\<exists>u. trim_start (drop n s) = u @ strip_reply_markers (trim_start (drop n s))" for n
  proof -
    from that obtain u where u: "trim_start (drop n s) = u @ strip_reply_markers (trim_start (drop n s))"
      by blast
    have "\<exists>v. t = v @ trim_start t" for t
      by (induction t rule: trim_start.induct)
         (auto, metis append.assoc append_Cons append_take_drop_id)
    then obtain v where "drop n s = v @ trim_start (drop n s)" by blast
    with u have "s = (take n s @ v @ u) @ strip_reply_markers (trim_start (drop n s))"
      by (metis append.assoc append_take_drop_id)
    then show ?thesis by blast
  qed
  show ?case
    using 1 step by (subst strip_reply_markers.simps) (auto simp: Let_def)
qed

lemma strip_reply_markers_Re:
  assumes "trim t = t"
  shows "strip_reply_markers (''Re: '' @ t) = strip_reply_markers t"
proof -
  have "starts_with (to_ascii_lowercase (''Re: '' @ t)) ''re:''"
    by (simp add: starts_with_def to_ascii_lowercase_def ascii_lower_def char_of_def bit_0)
  then have "strip_reply_markers (''Re: '' @ t) = strip_reply_markers (trim_start (CHR '' '' # t))"
    by (subst strip_reply_markers.simps) simp
  also have "trim_start (CHR '' '' # t) = trim_start t" by simp
  also have "trim_start t = t"
    using assms by (metis trim_start_trim)
  finally show ?thesis .
qed


lemma placeholder_Re:
  assumes "trim t = t" and "t \<noteq> []"
  shows "is_placeholder_subject (''Re: '' @ t) = is_placeholder_subject t"
  unfolding is_placeholder_subject_def trim_Re_append [OF assms] strip_reply_markers_Re [OF assms(1)]
    assms(1) ..

text \<open>A prefixed subject that is no placeholder is kept by a further reply.\<close>

lemma reply_subject_ensured:
  assumes "trim s \<noteq> []" and "\<not> is_placeholder_subject (trim s)"
  shows "reply_subject (ensure_reply_prefix s) = ensure_reply_prefix s"
proof -
  let ?e = "ensure_reply_prefix s"
  have "trim ?e = ?e \<and> \<not> is_placeholder_subject ?e"
    using assms trim_Re_append [of "trim s"] placeholder_Re [of "trim s"]
    by (simp add: ensure_reply_prefix_def Let_def)
  moreover have "starts_with (to_ascii_lowercase ?e) ''re:''"
    by (simp add: ensure_reply_prefix_def Let_def starts_with_def to_ascii_lowercase_def
        ascii_lower_def char_of_def bit_0)
  ultimately show ?thesis
    by (auto simp: reply_subject_def normalized_original_subject_def Let_def
        ensure_reply_prefix_def [of ?e] starts_with_def)
qed


definition ends_dot :: "string \<Rightarrow> bool" where
  "ends_dot s = (s = [] \<or> last s = CHR ''.'')"

lemma ends_dot_suffix: "s = u @ t \<Longrightarrow> ends_dot s \<Longrightarrow> ends_dot t"
  by (cases "t = []") (auto simp: ends_dot_def)

lemma ws_len_rev_dot: "ws_len_rev (CHR ''.'' # r) = 0"
  by (cases r; cases "tl r") (auto simp: ws1_def ws2_def ws3_def)

lemma ends_dot_trim: "ends_dot s \<Longrightarrow> ends_dot (trim s)"
proof -
  assume "ends_dot s"
  with trim_start_suffix [of s] have d: "ends_dot (trim_start s)" by (metis ends_dot_suffix)
  have "trim_end (trim_start s) = trim_start s"
  proof (cases "trim_start s" rule: rev_cases)
    case (snoc xs x)
    with d have "x = CHR ''.''" by (simp add: ends_dot_def)
    with snoc show ?thesis by (simp add: trim_end_fixed ws_len_rev_dot)
  qed (simp add: trim_end_def)
  with d show ?thesis by (simp add: trim_def)
qed

lemma ends_dot_trim_matches: "ends_dot s \<Longrightarrow> \<not> p (CHR ''.'') \<Longrightarrow> ends_dot (trim_matches p s)"
proof -
  assume s: "ends_dot s" and p: "\<not> p (CHR ''.'')"
  have "s = takeWhile p s @ dropWhile p s" by simp
  with s have d: "ends_dot (dropWhile p s)" by (metis ends_dot_suffix)
  have "dropWhile p (rev z) = rev z" if "ends_dot z" for z
    using p that by (cases z rule: rev_cases) (simp_all add: ends_dot_def)
  with d have "dropWhile p (rev (dropWhile p s)) = rev (dropWhile p s)" by blast
  with d show ?thesis by (simp add: trim_matches_def)
qed

lemma ends_dot_not_placeholder: "ends_dot s \<Longrightarrow> \<not> is_placeholder_subject s"
proof -
  assume "ends_dot s"
  then have "ends_dot (strip_reply_markers (trim s))"
    using ends_dot_suffix strip_reply_markers_suffix ends_dot_trim by metis
  then have "ends_dot (trim (trim_matches (\<lambda>c. c \<in> set ''()[]'') (trim (strip_reply_markers (trim s)))))"
    by (intro ends_dot_trim ends_dot_trim_matches) simp_all
  then have "\<not> eq_ignore_ascii_case z ''no subject''"
    if "z = trim (trim_matches (\<lambda>c. c \<in> set ''()[]'') (trim (strip_reply_markers (trim s))))" for z
    using that by (cases z rule: rev_cases)
      (auto simp: eq_ignore_ascii_case_def to_ascii_lowercase_def ascii_lower_def ends_dot_def
        append_eq_Cons_conv char_of_def bit_0)
  then show ?thesis by (simp add: is_placeholder_subject_def)
qed


lemma take_chars_prefix: "\<exists>v. s = take_chars n s @ v"
  by (induction n s rule: take_chars.induct) (auto split: nat.splits)

lemma ws_len_append_dot: "v \<noteq> [] \<Longrightarrow> ws_len v = 0 \<Longrightarrow> ws_len (v @ CHR ''.'' # r) = 0"
  by (cases v rule: ws_len.cases; cases r) (auto simp: ws2_def ws3_def split: if_splits)

lemma join_words_start:
  assumes "\<forall>w \<in> set ws. clean w \<and> w \<noteq> []"
  shows "ws_len (join_with '' '' ws) = 0"
proof (cases ws)
  case (Cons w r)
  with assms have "w \<noteq> []" "ws_len w = 0" by (auto simp: clean_def)
  with Cons ws_len_append_blank show ?thesis by (cases r) simp_all
qed simp

lemma reply_hint_good:
  assumes "clean_reply_subject_hint line = Some h"
  shows "trim h \<noteq> [] \<and> \<not> is_placeholder_subject h"
proof -
  let ?c = "join_with '' '' (split_whitespace line)"
  from assms have c: "?c \<noteq> []" "\<not> is_placeholder_subject ?c" "h = truncate_reply_subject_hint ?c 72"
    by (auto simp: clean_reply_subject_hint_def Let_def split: if_splits)
  have w: "ws_len ?c = 0" using join_words_start split_whitespace_clean by blast
  show ?thesis
  proof (cases "char_count ?c \<le> 72")
    case True
    with c w show ?thesis by (simp add: truncate_reply_subject_hint_def trim_nonempty)
  next
    case False
    let ?t = "take_chars 72 ?c"
    from False c(3) have h: "h = ?t @ ''...''" by (simp add: truncate_reply_subject_hint_def)
    have "?t \<noteq> []" using c(1) by (cases ?c) (simp_all add: numeral_eq_Suc)
    moreover obtain v where "?c = ?t @ v" using take_chars_prefix by blast
    with w have "ws_len ?t = 0" by (metis ws_len_append_0)
    ultimately have "ws_len h = 0" unfolding h by (simp add: ws_len_append_dot)
    moreover have "ends_dot h" by (simp add: h ends_dot_def)
    ultimately show ?thesis using h by (simp add: trim_nonempty ends_dot_not_placeholder)
  qed
qed

lemma hint_from_clean: "reply_subject_hint_from b ls = Some h \<Longrightarrow> \<exists>l. clean_reply_subject_hint l = Some h"
  by (induction b ls rule: reply_subject_hint_from.induct) (auto simp: Let_def split: if_splits)

lemma placeholder_trim [simp]: "is_placeholder_subject (trim s) = is_placeholder_subject s"
  by (simp add: is_placeholder_subject_def)

text \<open>
  The subject of a reply to an email begins with a reply marker, and replying to that
  reply leaves the subject as it is: markers never pile up, and the summary that replaces a
  missing subject is never itself taken for a missing subject.
\<close>

theorem payload_reply_subject_stable:
  "starts_with (to_ascii_lowercase (payload_reply_subject p)) ''re:''
   \<and> reply_subject (payload_reply_subject p) = payload_reply_subject p"
proof -
  have e: "starts_with (to_ascii_lowercase (ensure_reply_prefix s)) ''re:''" for s
    by (simp add: ensure_reply_prefix_def Let_def starts_with_def to_ascii_lowercase_def
        ascii_lower_def char_of_def bit_0)
  have fallback: "reply_subject [] = ensure_reply_prefix ''Your request''"
    by (simp add: reply_subject_def normalized_original_subject_def ensure_reply_prefix_def
        trim_def trim_end_def ws1_def ws2_def ws3_def starts_with_def to_ascii_lowercase_def
        ascii_lower_def char_of_def bit_0)
  have fine: "trim ''Your request'' \<noteq> [] \<and> \<not> is_placeholder_subject ''Your request''"
    by (simp add: is_placeholder_subject_def strip_reply_markers.simps [of "''Your request''"]
        trim_def trim_end_def trim_matches_def ws1_def ws2_def ws3_def starts_with_def
        to_ascii_lowercase_def ascii_lower_def char_of_def bit_0 eq_ignore_ascii_case_def)
  have "\<exists>s. payload_reply_subject p = ensure_reply_prefix s \<and> trim s \<noteq> [] \<and> \<not> is_placeholder_subject s"
  proof (cases "normalized_original_subject (unwrap_or [] (pi_subject p))")
    case (Some s)
    then have "trim s \<noteq> [] \<and> \<not> is_placeholder_subject s"
      by (auto simp: normalized_original_subject_def Let_def split: if_splits)
    with Some show ?thesis by (auto simp: payload_reply_subject_def)
  next
    case None
    show ?thesis
    proof (cases "or_else (Option.bind (pi_stripped_text_reply p) normalize_reply_subject_hint)
                        (Option.bind (pi_text_body p) normalize_reply_subject_hint)")
      case n: None
      from None n fallback have "payload_reply_subject p = ensure_reply_prefix ''Your request''"
        by (simp add: payload_reply_subject_def)
      with fine show ?thesis by blast
    next
      case (Some h)
      then have "\<exists>raw. normalize_reply_subject_hint raw = Some h"
        by (auto simp: or_else_Some bind_eq_Some_conv)
      then obtain l where "clean_reply_subject_hint l = Some h"
        unfolding normalize_reply_subject_hint_def using hint_from_clean by blast
      with reply_hint_good None Some show ?thesis by (auto simp: payload_reply_subject_def)
    qed
  qed
  with e reply_subject_ensured show ?thesis by (metis placeholder_trim)
qed


subsection \<open>Threading\<close>

lemma ws_len_append_space: "v \<noteq> [] \<Longrightarrow> ws_len (v @ CHR '' '' # r) = ws_len v"
  by (cases v rule: ws_len.cases; cases r)
     (auto simp: ws1_def ws2_def ws3_def split: if_splits)

lemma split_ws_aux_append:
  "split_ws_aux cur (s @ CHR '' '' # r) = split_ws_aux cur s @ split_ws_aux [] r"
proof (induction cur s rule: split_ws_aux.induct)
  case (1 cur)
  then show ?case by simp
next
  case (2 cur c s)
  have l: "ws_len (c # s @ CHR '' '' # r) = ws_len (c # s)"
    using ws_len_append_space [of "c # s" r] by simp
  have "ws_len (c # s) - 1 \<le> length s" using ws_len_le [of "c # s"] by simp
  with 2 l show ?case by simp
qed

lemma split_append_word:
  "clean m \<Longrightarrow> m \<noteq> [] \<Longrightarrow> split_whitespace (s @ '' '' @ m) = split_whitespace s @ [m]"
  by (simp add: split_whitespace_def split_ws_aux_append split_ws_aux_clean_word)

text \<open>
  The reply headers thread: a reply answers the message identifier of the incoming
  mail, its references list that identifier, keep all references of the incoming mail in
  their order, and repeat the identifier only if the incoming mail did.
\<close>

theorem reply_headers_thread:
  assumes "reply_headers p = (Some m, refs)" and "clean m"
    and "old = opt_filter (\<lambda>v. v \<noteq> []) (map_option trim
           (or_else (header_value p ''References'') (header_value p ''In-Reply-To'')))"
  shows "\<exists>r. refs = Some r
         \<and> (let before = split_whitespace (unwrap_or [] old) in
            split_whitespace r = (if m \<in> set before then before else before @ [m]))"
proof -
  let ?mid = "opt_filter (\<lambda>v. v \<noteq> []) (map_option trim (or_else (header_value p ''message-id'') (pi_message_id p)))"
  from assms(1) have mid: "?mid = Some m" by (cases ?mid) (simp_all add: reply_headers_def Let_def)
  then have m: "m \<noteq> []" by (simp add: opt_filter_Some)
  have refs: "refs = Some (case old of None \<Rightarrow> m
      | Some e \<Rightarrow> if references_contains e m then e else e @ '' '' @ m)"
    using assms(1) unfolding reply_headers_def Let_def mid assms(3) [symmetric]
    by (auto split: option.splits)
  show ?thesis
  proof (cases old)
    case None
    with refs m assms(2) show ?thesis by (simp add: split_whitespace_def split_ws_aux_clean_word)
  next
    case (Some e)
    have "references_contains e m \<longleftrightarrow> m \<in> set (split_whitespace e)"
      by (simp add: references_contains_def list_ex_iff)
    with refs Some split_append_word [OF assms(2) m, of e] show ?thesis by auto
  qed
qed

definition example_mail :: postmark_inbound where
  "example_mail =
     \<lparr>pi_subject = Some ''Q3'', pi_stripped_text_reply = None, pi_text_body = None,
      pi_message_id = Some ''<c>'', pi_headers = Some [(''references'', ''<a> <b>'')]\<rparr>"

theorem reply_headers_thread_witness:
  "\<exists>r. reply_headers example_mail = (Some ''<c>'', Some r) \<and> split_whitespace r = [''<a>'', ''<b>'', ''<c>'']"
proof -
  have h: "header_value example_mail ''message-id'' = None"
    "header_value example_mail ''References'' = Some ''<a> <b>''"
    by (simp_all add: header_value_def example_mail_def eq_ignore_ascii_case_def to_ascii_lowercase_def
        ascii_lower_def char_of_def bit_0)
  have t: "trim ''<c>'' = ''<c>''" "trim ''<a> <b>'' = ''<a> <b>''"
    by (simp_all add: trim_def trim_end_def ws1_def ws2_def ws3_def)
  have m: "pi_message_id example_mail = Some ''<c>''" by (simp add: example_mail_def)
  obtain refs where r: "reply_headers example_mail = (Some ''<c>'', refs)"
    by (simp add: reply_headers_def h t m)
  have "clean ''<c>''" by (simp add: clean_Cons ws1_def ws2_def ws3_def)
  from reply_headers_thread [OF r this refl] r show ?thesis
    by (auto simp: h t split_whitespace_def ws1_def ws2_def ws3_def)
qed

end
