(* ===== verification/Mongo_Client.thy ===== *)
theory Mongo_Client
  imports Rust_Prelude "HOL-Library.Multiset"
begin

text \<open>
  \<open>scheduler_module/src/mongo_store.rs\<close>: the name of the database, and the retry loop around
  every read and write, which repeats a request that Cosmos DB throttled.

  The MongoDB driver and server are a parameter: a record \<open>coll\<close> of the requests the service
  sends to one collection, each a state transformer on an opaque collection state.  The locale
  \<open>doc_collection\<close> states what the driver documents: the effect of an acknowledged request on
  the collection's documents, and that a throttled request has none.  It is interpreted on a
  list of documents with a script of faults, which the witnesses use.
\<close>

subsection \<open>Errors and throttling\<close>

text \<open>Command: code, code name, message; the others as \<open>mongodb::error::ErrorKind\<close> has them.\<close>

datatype mongo_error =
    CommandError int string string
  | WriteError int "string option" string
  | WriteConcernError int string string
  | BulkWriteError "(int \<times> string option \<times> string) list" "(int \<times> string \<times> string) option"
  | OtherError string

definition is_request_rate_too_large :: "int \<Rightarrow> string option \<Rightarrow> bool" where
  "is_request_rate_too_large code code_name =
     (code = 16500 \<or> code_name = Some ''RequestRateTooLarge'')"

text \<open>\<open>message.find(p)\<close> followed by the slice after the match.\<close>

fun after_first :: "string \<Rightarrow> string \<Rightarrow> string option" where
  "after_first p [] = strip_prefix p []"
| "after_first p (c # s) =
     (case strip_prefix p (c # s) of Some r \<Rightarrow> Some r | None \<Rightarrow> after_first p s)"

definition parse_retry_after_ms :: "string \<Rightarrow> nat option" where
  "parse_retry_after_ms message =
     Option.bind (after_first ''RetryAfterMs='' message)
       (\<lambda>value. parse_u64 (takeWhile (\<lambda>ch. digit_val ch \<noteq> None) value))"

definition retry_after_ms_for_write_failure :: "mongo_error \<Rightarrow> nat option" where
  "retry_after_ms_for_write_failure err =
     (case err of
        WriteError code code_name message \<Rightarrow>
          if is_request_rate_too_large code code_name
          then or_else (parse_retry_after_ms message) (Some 250) else None
      | WriteConcernError code code_name message \<Rightarrow>
          if is_request_rate_too_large code (Some code_name)
          then or_else (parse_retry_after_ms message) (Some 250) else None
      | _ \<Rightarrow> None)"

definition retry_after_ms_for_throttled_request :: "mongo_error \<Rightarrow> nat option" where
  "retry_after_ms_for_throttled_request err =
     (case err of
        CommandError code code_name message \<Rightarrow>
          if is_request_rate_too_large code (Some code_name)
          then or_else (parse_retry_after_ms message) (Some 250) else None
      | BulkWriteError write_errors write_concern_error \<Rightarrow>
          (case List.find (\<lambda>(c, n, _). is_request_rate_too_large c n) write_errors of
             Some (_, _, message) \<Rightarrow> or_else (parse_retry_after_ms message) (Some 250)
           | None \<Rightarrow>
               Option.bind write_concern_error (\<lambda>(c, n, message).
                 if is_request_rate_too_large c (Some n)
                 then or_else (parse_retry_after_ms message) (Some 250) else None))
      | OtherError _ \<Rightarrow> None
      | _ \<Rightarrow> retry_after_ms_for_write_failure err)"

subsection \<open>The retry loop\<close>

text \<open>
  \<open>retry_mongo_operation\<close> with its attempt counter as an argument.  The result carries the
  pauses handed to the sleeper, in milliseconds and in order.
\<close>

function retry_from ::
    "nat \<Rightarrow> ('s \<Rightarrow> (mongo_error + 'a) \<times> 's) \<Rightarrow> 's \<Rightarrow> (mongo_error + 'a) \<times> 's \<times> nat list" where
  "retry_from attempt op s =
     (case op s of
        (Inr x, s') \<Rightarrow> (Inr x, s', [])
      | (Inl e, s') \<Rightarrow>
          (case retry_after_ms_for_throttled_request e of
             None \<Rightarrow> (Inl e, s', [])
           | Some retry_after_ms \<Rightarrow>
               if attempt \<ge> 9 then (Inl e, s', [])
               else
                 let sleep_ms = min 2000 (max 25 retry_after_ms) + (attempt + 1) * 25;
                     (r, s'', pauses) = retry_from (attempt + 1) op s'
                 in (r, s'', sleep_ms # pauses)))"
  by pat_completeness auto
termination
  by (relation "measure (\<lambda>(attempt, op, s). 9 - attempt)") auto

declare retry_from.simps [simp del]

definition retry_mongo_operation ::
    "('s \<Rightarrow> (mongo_error + 'a) \<times> 's) \<Rightarrow> 's \<Rightarrow> (mongo_error + 'a) \<times> 's" where
  "retry_mongo_operation op s = (case retry_from 0 op s of (r, s', pauses) \<Rightarrow> (r, s'))"

definition counted :: "('s \<Rightarrow> 'r \<times> 's) \<Rightarrow> 's \<times> nat \<Rightarrow> 'r \<times> 's \<times> nat" where
  "counted op sn = (case op (fst sn) of (r, s') \<Rightarrow> (r, s', Suc (snd sn)))"

lemma retry_from_ok: "op s = (Inr x, s') \<Longrightarrow> retry_from n op s = (Inr x, s', [])"
  by (simp add: retry_from.simps)

lemma retry_from_cases:
  assumes "retry_from n op s = (r, s', ps)"
  obtains (finish) "op s = (r, s')" "ps = []"
  | (again) e ms s1 ps1 where "op s = (Inl e, s1)"
      "retry_after_ms_for_throttled_request e = Some ms" "n < 9"
      "retry_from (n + 1) op s1 = (r, s', ps1)"
      "ps = (min 2000 (max 25 ms) + (n + 1) * 25) # ps1"
proof -
  obtain ro s1 where o: "op s = (ro, s1)" by fastforce
  show thesis
  proof (cases "\<exists>e ms. ro = Inl e \<and> retry_after_ms_for_throttled_request e = Some ms \<and> n < 9")
    case False
    then have "op s = (r, s')" "ps = []"
      using assms o by (auto simp: retry_from.simps [of n] split: sum.splits option.splits)
    then show thesis by (rule finish)
  next
    case True
    then obtain e ms where e: "ro = Inl e" "retry_after_ms_for_throttled_request e = Some ms" "n < 9"
      by blast
    obtain r2 s2 ps2 where rec: "retry_from (n + 1) op s1 = (r2, s2, ps2)"
      using prod_cases3 by blast
    have "r = r2 \<and> s' = s2 \<and> ps = (min 2000 (max 25 ms) + (n + 1) * 25) # ps2"
      using assms rec o e by (auto simp: retry_from.simps [of n] Let_def)
    with o e rec show thesis by (intro again) auto
  qed
qed

lemma retry_from_pauses:
  "retry_from n op s = (r, s', ps) \<Longrightarrow> n \<le> 9 \<Longrightarrow>
   length ps \<le> 9 - n \<and> (\<forall>p \<in> set ps. 50 \<le> p \<and> p \<le> 2225)
   \<and> 2 * sum_list ps + 25 * (n * (n + 1)) \<le> 4000 * (9 - n) + 2250"
proof (induction "9 - n" arbitrary: n s ps rule: less_induct)
  case less
  from less.prems(1) show ?case
  proof (cases rule: retry_from_cases)
    case finish
    have "n * (n + 1) \<le> 9 * 10" using less.prems(2) by (intro mult_le_mono) auto
    with finish show ?thesis by simp
  next
    case (again e ms s1 ps1)
    then have "9 - (n + 1) < 9 - n" "n + 1 \<le> 9" by auto
    from less.hyps [OF this(1) again(4) this(2)] have ih: "length ps1 \<le> 9 - (n + 1)"
      "\<forall>p \<in> set ps1. 50 \<le> p \<and> p \<le> 2225"
      "2 * sum_list ps1 + 25 * ((n + 1) * (n + 1 + 1)) \<le> 4000 * (9 - (n + 1)) + 2250" by blast+
    have "4000 * (9 - n) = 4000 * (9 - (n + 1)) + 4000" using again(3) by simp
    moreover have "2 * sum_list ps \<le> 2 * sum_list ps1 + 4000 + 50 * (n + 1)"
      using again(5) min.cobounded1 [of 2000 "max 25 ms"] by simp
    ultimately have "2 * sum_list ps + 25 * (n * (n + 1)) \<le> 4000 * (9 - n) + 2250"
      using ih(3) by (simp add: algebra_simps)
    with ih(1,2) again(3,5) show ?thesis by auto
  qed
qed

lemma retry_from_calls:
  "retry_from n (counted op) (s, k) = (r, (s', k'), ps) \<Longrightarrow> k' = Suc (k + length ps)"
proof (induction "length ps" arbitrary: n s k ps)
  case 0
  from 0(2) show ?case
    by (cases rule: retry_from_cases) (use 0(1) in \<open>auto simp: counted_def split: prod.splits\<close>)
next
  case (Suc m)
  from Suc(3) show ?case
  proof (cases rule: retry_from_cases)
    case finish
    with Suc(2) show ?thesis by simp
  next
    case (again e ms s1 ps1)
    from again(1) have "snd s1 = Suc k" by (auto simp: counted_def split: prod.splits)
    then obtain s0 where "s1 = (s0, Suc k)" by (cases s1) auto
    with Suc(1) [of ps1 "n + 1" s0 "Suc k"] again(4,5) Suc(2) show ?thesis by simp
  qed
qed

text \<open>
  The retry loop sends a request at most ten times, pauses between 50 and 2225
  milliseconds between two attempts, and so never sleeps more than 19125 milliseconds in all.
\<close>

theorem retry_mongo_operation_bounds:
  assumes "retry_from 0 (counted op) (s, 0) = (r, (s', calls), pauses)"
  shows "calls \<le> 10 \<and> length pauses = calls - 1
         \<and> (\<forall>p \<in> set pauses. 50 \<le> p \<and> p \<le> 2225) \<and> sum_list pauses \<le> 19125"
proof -
  have p: "length pauses \<le> 9" "\<forall>p \<in> set pauses. 50 \<le> p \<and> p \<le> 2225"
      "2 * sum_list pauses \<le> 36000 + 2250"
    using retry_from_pauses [OF assms] by auto
  have c: "calls = Suc (length pauses)"
    using retry_from_calls [OF assms] by simp
  with p c show ?thesis by auto
qed

definition always_throttled :: "unit \<Rightarrow> (mongo_error + unit) \<times> unit" where
  "always_throttled s = (Inl (CommandError 16500 ''RequestRateTooLarge'' ''busy''), ())"

theorem retry_mongo_operation_bounds_witness:
  "snd (snd (retry_from 0 (counted always_throttled) ((), 0)))
     = [275, 300, 325, 350, 375, 400, 425, 450, 475]
   \<and> sum_list [275, 300, 325, 350, 375, 400, 425, 450, 475 :: nat] \<le> 19125"
proof -
  have run: "retry_from 0 (counted always_throttled) ((), 0)
      = (Inl (CommandError 16500 ''RequestRateTooLarge'' ''busy''), ((), 10),
         [275, 300, 325, 350, 375, 400, 425, 450, 475])"
    by (simp add: retry_from.simps counted_def always_throttled_def parse_retry_after_ms_def
        retry_after_ms_for_throttled_request_def is_request_rate_too_large_def)
  from retry_mongo_operation_bounds [OF run] run show ?thesis by simp
qed

subsection \<open>Collections\<close>

record ('c, 'd) coll =
  c_find :: "('d \<Rightarrow> bool) \<Rightarrow> 'c \<Rightarrow> (mongo_error + 'd list) \<times> 'c"
  c_find_desc :: "('d \<Rightarrow> bool) \<Rightarrow> ('d \<Rightarrow> int) \<Rightarrow> 'c \<Rightarrow> (mongo_error + 'd list) \<times> 'c"
  c_update_many :: "('d \<Rightarrow> bool) \<Rightarrow> ('d \<Rightarrow> 'd) \<Rightarrow> 'c \<Rightarrow> (mongo_error + nat) \<times> 'c"
  c_update_one :: "('d \<Rightarrow> bool) \<Rightarrow> ('d \<Rightarrow> 'd) \<Rightarrow> 'c \<Rightarrow> (mongo_error + nat) \<times> 'c"
  c_upsert_one :: "('d \<Rightarrow> bool) \<Rightarrow> ('d \<Rightarrow> 'd) \<Rightarrow> 'd \<Rightarrow> 'c \<Rightarrow> (mongo_error + nat) \<times> 'c"
  c_insert_one :: "'d \<Rightarrow> 'c \<Rightarrow> (mongo_error + unit) \<times> 'c"

fun update_first :: "('d \<Rightarrow> bool) \<Rightarrow> ('d \<Rightarrow> 'd) \<Rightarrow> 'd list \<Rightarrow> 'd list" where
  "update_first p u [] = []"
| "update_first p u (d # ds) = (if p d then u d # ds else d # update_first p u ds)"

definition update_all :: "('d \<Rightarrow> bool) \<Rightarrow> ('d \<Rightarrow> 'd) \<Rightarrow> 'd list \<Rightarrow> 'd list" where
  "update_all p u ds = map (\<lambda>d. if p d then u d else d) ds"

definition any_doc :: "('d \<Rightarrow> bool) \<Rightarrow> 'd list \<Rightarrow> nat" where
  "any_doc p ds = (if \<exists>d \<in> set ds. p d then 1 else 0)"

definition throttled :: "mongo_error \<Rightarrow> bool" where
  "throttled e = (retry_after_ms_for_throttled_request e \<noteq> None)"

text \<open>
  Whatever the loop returns, the last attempt returned, from a state that agrees with the
  start on every observation that throttled attempts keep.
\<close>

lemma retry_from_last_attempt:
  assumes "retry_from n op c = (r, c', ps)"
    and keep: "\<And>c e c'. op c = (Inl e, c') \<Longrightarrow> throttled e \<Longrightarrow> obs c' = obs c"
  shows "\<exists>c1. obs c1 = obs c \<and> op c1 = (r, c')"
  using assms(1)
proof (induction "length ps" arbitrary: n c ps)
  case 0
  from 0(2) show ?case
    by (cases rule: retry_from_cases) (use 0(1) in auto)
next
  case (Suc m)
  from Suc(3) show ?case
  proof (cases rule: retry_from_cases)
    case finish
    then show ?thesis by blast
  next
    case (again e ms c1 ps1)
    then have "obs c1 = obs c" using keep by (simp add: throttled_def)
    with Suc(1) [of ps1 "n + 1" c1] again(4,5) Suc(2) show ?thesis by simp
  qed
qed

lemma retry_last_attempt:
  assumes "retry_mongo_operation op c = (r, c')"
    and "\<And>c e c'. op c = (Inl e, c') \<Longrightarrow> throttled e \<Longrightarrow> obs c' = obs c"
  shows "\<exists>c1. obs c1 = obs c \<and> op c1 = (r, c')"
proof -
  obtain ps where "retry_from 0 op c = (r, c', ps)"
    using assms(1) by (auto simp: retry_mongo_operation_def split: prod.splits)
  from retry_from_last_attempt [OF this assms(2)] show ?thesis .
qed

locale doc_collection =
  fixes ops :: "('c, 'd) coll" and contents :: "'c \<Rightarrow> 'd list"
  assumes find_ok:
      "c_find ops p c = (Inr ds, c') \<Longrightarrow> ds = filter p (contents c) \<and> contents c' = contents c"
    and find_err: "c_find ops p c = (Inl e, c') \<Longrightarrow> contents c' = contents c"
    and find_desc_ok:
      "c_find_desc ops p key c = (Inr ds, c')
       \<Longrightarrow> mset ds = mset (filter p (contents c)) \<and> sorted_wrt (\<lambda>a b. key b \<le> key a) ds
           \<and> contents c' = contents c"
    and find_desc_err: "c_find_desc ops p key c = (Inl e, c') \<Longrightarrow> contents c' = contents c"
    and update_many_ok:
      "c_update_many ops p u c = (Inr n, c')
       \<Longrightarrow> contents c' = update_all p u (contents c) \<and> n = length (filter p (contents c))"
    and update_many_throttled:
      "c_update_many ops p u c = (Inl e, c') \<Longrightarrow> throttled e \<Longrightarrow> contents c' = contents c"
    and update_one_ok:
      "c_update_one ops p u c = (Inr n, c')
       \<Longrightarrow> contents c' = update_first p u (contents c) \<and> n = any_doc p (contents c)"
    and update_one_throttled:
      "c_update_one ops p u c = (Inl e, c') \<Longrightarrow> throttled e \<Longrightarrow> contents c' = contents c"
    and upsert_one_ok:
      "c_upsert_one ops p u d c = (Inr n, c')
       \<Longrightarrow> contents c' = (if any_doc p (contents c) = 1 then update_first p u (contents c)
                         else contents c @ [d])
           \<and> n = any_doc p (contents c)"
    and upsert_one_throttled:
      "c_upsert_one ops p u d c = (Inl e, c') \<Longrightarrow> throttled e \<Longrightarrow> contents c' = contents c"
    and insert_one_ok: "c_insert_one ops d c = (Inr x, c') \<Longrightarrow> contents c' = contents c @ [d]"
    and insert_one_throttled:
      "c_insert_one ops d c = (Inl e, c') \<Longrightarrow> throttled e \<Longrightarrow> contents c' = contents c"
begin

text \<open>What a retried request does is what its last attempt does.\<close>

lemma retried_find:
  assumes "retry_mongo_operation (c_find ops p) c = (Inr ds, c')"
  shows "ds = filter p (contents c) \<and> contents c' = contents c"
proof -
  obtain c1 where "contents c1 = contents c" "c_find ops p c1 = (Inr ds, c')"
    using retry_last_attempt [OF assms, of contents] find_err by blast
  with find_ok show ?thesis by metis
qed

lemma retried_find_err:
  assumes "retry_mongo_operation (c_find ops p) c = (Inl e, c')"
  shows "contents c' = contents c"
proof -
  obtain c1 where "contents c1 = contents c" "c_find ops p c1 = (Inl e, c')"
    using retry_last_attempt [OF assms, of contents] find_err by blast
  with find_err show ?thesis by metis
qed

lemma retried_update_many:
  assumes "retry_mongo_operation (c_update_many ops p u) c = (Inr n, c')"
  shows "contents c' = update_all p u (contents c) \<and> n = length (filter p (contents c))"
proof -
  obtain c1 where "contents c1 = contents c" "c_update_many ops p u c1 = (Inr n, c')"
    using retry_last_attempt [OF assms, of contents] update_many_throttled by blast
  with update_many_ok show ?thesis by metis
qed

lemma retried_update_one:
  assumes "retry_mongo_operation (c_update_one ops p u) c = (Inr n, c')"
  shows "contents c' = update_first p u (contents c) \<and> n = any_doc p (contents c)"
proof -
  obtain c1 where "contents c1 = contents c" "c_update_one ops p u c1 = (Inr n, c')"
    using retry_last_attempt [OF assms, of contents] update_one_throttled by blast
  with update_one_ok show ?thesis by metis
qed

lemma retried_upsert_one:
  assumes "retry_mongo_operation (c_upsert_one ops p u d) c = (Inr n, c')"
  shows "contents c' = (if any_doc p (contents c) = 1 then update_first p u (contents c)
                        else contents c @ [d])"
proof -
  obtain c1 where "contents c1 = contents c" "c_upsert_one ops p u d c1 = (Inr n, c')"
    using retry_last_attempt [OF assms, of contents] upsert_one_throttled by blast
  with upsert_one_ok show ?thesis by metis
qed

lemma retried_insert_one:
  assumes "retry_mongo_operation (c_insert_one ops d) c = (Inr x, c')"
  shows "contents c' = contents c @ [d]"
proof -
  obtain c1 where "contents c1 = contents c" "c_insert_one ops d c1 = (Inr x, c')"
    using retry_last_attempt [OF assms, of contents] insert_one_throttled by blast
  with insert_one_ok show ?thesis by metis
qed

end

subsection \<open>A list of documents with a script of faults\<close>

text \<open>
  Each request takes the next entry of the script; \<open>Some e\<close> makes it fail with \<open>e\<close> and
  leaves the documents alone.
\<close>

type_synonym 'd scripted = "'d list \<times> mongo_error option list"

definition scripted :: "('d list \<Rightarrow> 'r \<times> 'd list) \<Rightarrow> 'd scripted \<Rightarrow> (mongo_error + 'r) \<times> 'd scripted" where
  "scripted f c =
     (case snd c of
        Some e # faults \<Rightarrow> (Inl e, (fst c, faults))
      | faults \<Rightarrow> (case f (fst c) of (x, ds) \<Rightarrow> (Inr x, (ds, drop 1 faults))))"

definition list_coll :: "('d scripted, 'd) coll" where
  "list_coll =
     \<lparr>c_find = (\<lambda>p. scripted (\<lambda>ds. (filter p ds, ds))),
      c_find_desc = (\<lambda>p key. scripted (\<lambda>ds. (sort_key (\<lambda>d. - key d) (filter p ds), ds))),
      c_update_many = (\<lambda>p u. scripted (\<lambda>ds. (length (filter p ds), update_all p u ds))),
      c_update_one = (\<lambda>p u. scripted (\<lambda>ds. (any_doc p ds, update_first p u ds))),
      c_upsert_one = (\<lambda>p u d. scripted (\<lambda>ds.
         (any_doc p ds, if any_doc p ds = 1 then update_first p u ds else ds @ [d]))),
      c_insert_one = (\<lambda>d. scripted (\<lambda>ds. ((), ds @ [d])))\<rparr>"

lemma scripted_ok:
  "scripted f c = (Inr x, c') \<Longrightarrow> f (fst c) = (x, fst c')"
  by (auto simp: scripted_def split: list.splits option.splits prod.splits)

lemma scripted_err: "scripted f c = (Inl e, c') \<Longrightarrow> fst c' = fst c"
  by (auto simp: scripted_def split: list.splits option.splits prod.splits)

lemma sort_key_desc: "sorted_wrt (\<lambda>a b. key b \<le> key a) (sort_key (\<lambda>d. - key d) ds)"
  for key :: "'d \<Rightarrow> int"
  using sorted_sort_key [of "\<lambda>d. - key d" ds] by (simp add: sorted_map)

interpretation lc: doc_collection list_coll fst
  by unfold_locales (auto simp: list_coll_def sort_key_desc dest!: scripted_ok scripted_err)

subsection \<open>Updates as list functions\<close>

lemma length_update_all [simp]: "length (update_all p u ds) = length ds"
  by (simp add: update_all_def)

lemma set_update_all: "set (update_all p u ds) = (\<lambda>d. if p d then u d else d) ` set ds"
  by (simp add: update_all_def)

lemma update_all_none: "(\<And>d. d \<in> set ds \<Longrightarrow> \<not> p d) \<Longrightarrow> update_all p u ds = ds"
  by (simp add: update_all_def map_idI)

lemma filter_update_all:
  "(\<And>d. q (if p d then u d else d) = q d) \<Longrightarrow>
   filter q (update_all p u ds) = update_all p u (filter q ds)"
  by (induction ds) (simp_all add: update_all_def)

lemma update_first_none: "any_doc p ds = 0 \<Longrightarrow> update_first p u ds = ds"
  by (induction ds) (auto simp: any_doc_def split: if_splits)

lemma length_update_first [simp]: "length (update_first p u ds) = length ds"
  by (induction ds) auto

lemma update_first_split:
  "any_doc p ds = 1 \<Longrightarrow> \<exists>xs d ys. ds = xs @ d # ys \<and> p d \<and> (\<forall>x \<in> set xs. \<not> p x)
     \<and> update_first p u ds = xs @ u d # ys"
proof (induction ds)
  case Nil
  then show ?case by (simp add: any_doc_def)
next
  case (Cons e ds)
  show ?case
  proof (cases "p e")
    case True
    then show ?thesis by (intro exI [of _ "[]"] exI [of _ e] exI [of _ ds]) simp
  next
    case False
    with Cons.prems have "any_doc p ds = 1" by (auto simp: any_doc_def split: if_splits)
    from Cons.IH [OF this] obtain xs d ys where
      "ds = xs @ d # ys" "p d" "\<forall>x \<in> set xs. \<not> p x" "update_first p u ds = xs @ u d # ys"
      by blast
    with False show ?thesis
      by (intro exI [of _ "e # xs"] exI [of _ d] exI [of _ ys]) simp
  qed
qed

subsection \<open>The database name\<close>

definition is_ascii_alnum :: "char \<Rightarrow> bool" where
  "is_ascii_alnum ch =
     (let n = (of_char ch :: nat)
      in 48 \<le> n \<and> n \<le> 57 \<or> 65 \<le> n \<and> n \<le> 90 \<or> 97 \<le> n \<and> n \<le> 122)"

fun sanitize_loop :: "bool \<Rightarrow> string \<Rightarrow> string" where
  "sanitize_loop last_was_underscore [] = []"
| "sanitize_loop last_was_underscore (ch # s) =
     (if is_ascii_alnum ch then ascii_lower ch # sanitize_loop False s
      else if \<not> last_was_underscore then CHR ''_'' # sanitize_loop True s
      else sanitize_loop last_was_underscore s)"

definition trim_matches_char :: "char \<Rightarrow> string \<Rightarrow> string" where
  "trim_matches_char c s =
     rev (dropWhile (\<lambda>x. x = c) (rev (dropWhile (\<lambda>x. x = c) s)))"

definition sanitize_fragment :: "string \<Rightarrow> string" where
  "sanitize_fragment raw = trim_matches_char (CHR ''_'') (sanitize_loop False raw)"

definition mongo_database_name :: "(string \<Rightarrow> string option) \<Rightarrow> string" where
  "mongo_database_name env =
     (case opt_filter (\<lambda>v. v \<noteq> []) (map_option trim (env ''MONGODB_DATABASE'')) of
        Some name \<Rightarrow> name
      | None \<Rightarrow>
          let target = unwrap_or ''production''
                (opt_filter (\<lambda>v. v \<noteq> [])
                  (map_option (\<lambda>v. to_ascii_lowercase (trim v)) (env ''DEPLOY_TARGET'')));
              employee = unwrap_or ''default''
                (opt_filter (\<lambda>v. v \<noteq> []) (map_option sanitize_fragment (env ''EMPLOYEE_ID'')))
          in ''dowhiz_'' @ sanitize_fragment target @ ''_'' @ employee)"

end
