(* ===== verification/Task_Store.thy ===== *)
theory Task_Store
  imports Cron_Schedule Mongo_Client
begin

text \<open>
  The scheduler store: \<open>scheduler/store/mongo.rs\<close> and the wrapper of \<open>scheduler/store/mod.rs\<close>.

  A task document and an execution document are records with the fields the code reads and
  writes; a field is optional where the code handles its absence or a wrong type.  A filter
  document is the predicate it denotes and an update document the function it denotes.  The
  driver, the JSON encoding of a task (\<open>'j\<close> is the type of the encoded text), the text of library errors, the RFC 3339 rendering, the
  cron crate and file reads are the fields of \<open>store_lib\<close>.  The execution counter
  \<open>EXECUTION_SEQ\<close> of the process is part of the store state.
\<close>

subsection \<open>Documents\<close>

datatype 'a bson_field = Absent | BsonNull | BsonVal 'a

datatype bson_number = Int32 int | Int64 int | NotANumber string

record schedule_document =
  sd_type :: "string option"
  sd_cron_expression :: "string option"
  sd_next_run :: "datetime option"
  sd_run_at_field :: "datetime option"

record 'j task_doc =
  td_owner_kind :: string
  td_owner_id :: string
  td_task_id :: "string option"
  td_kind :: string
  td_channel :: string
  td_enabled :: "bool option"
  td_created_at :: datetime
  td_last_run :: "datetime bson_field"
  td_schedule :: "schedule_document option"
  td_task_json :: "'j option"
  td_retry_count :: "bson_number option"
  td_auto_disabled_reason :: "string bson_field"
  td_auto_disabled_at :: "datetime option"

record exec_doc =
  ed_id :: "string option"
  ed_owner_kind :: string
  ed_owner_id :: string
  ed_execution_id :: "bson_number option"
  ed_task_id :: "string option"
  ed_started_at :: "datetime option"
  ed_finished_at :: "datetime option"
  ed_status :: "string option"
  ed_error_message :: "string option"

record execution_row =
  row_doc_id :: string
  row_task_id :: string
  row_execution_id :: int
  row_started_at :: datetime
  row_finished_at :: "datetime option"
  row_status :: string
  row_error_message :: "string option"

record execution_record_handle =
  h_execution_id :: int
  h_started_at :: datetime

record ('t, 'e, 'j) store_lib =
  sl_tasks :: "('t, 'j task_doc) coll"
  sl_execs :: "('e, exec_doc) coll"
  sl_error_text :: "mongo_error \<Rightarrow> string"
  sl_access_error :: "string \<Rightarrow> string"
  sl_rfc3339 :: "datetime \<Rightarrow> string"
  sl_to_json :: "scheduled_task \<Rightarrow> string + 'j"
  sl_from_json :: "'j \<Rightarrow> string + scheduled_task"
  sl_cron :: cron_lib
  sl_read_file :: file_reader

record ('t, 'e) store =
  s_tasks :: 't
  s_execs :: 'e
  s_owner_kind :: string
  s_owner_id :: string
  s_seq :: int

type_synonym ('t, 'e, 'a) store_result = "(scheduler_error + 'a) \<times> ('t, 'e) store"

subsection \<open>Requests with errors converted\<close>

definition mongo_err :: "('t, 'e, 'j) store_lib \<Rightarrow> mongo_error \<Rightarrow> scheduler_error" where
  "mongo_err lib err = Storage (''mongodb error: '' @ sl_error_text lib err)"

definition on_tasks ::
    "('t, 'e, 'j) store_lib \<Rightarrow> ('t \<Rightarrow> (mongo_error + 'a) \<times> 't) \<Rightarrow> ('t, 'e) store
     \<Rightarrow> ('t, 'e, 'a) store_result" where
  "on_tasks lib op s =
     (case op (s_tasks s) of (r, t) \<Rightarrow> (map_err (mongo_err lib) r, s\<lparr>s_tasks := t\<rparr>))"

definition on_execs ::
    "('t, 'e, 'j) store_lib \<Rightarrow> ('e \<Rightarrow> (mongo_error + 'a) \<times> 'e) \<Rightarrow> ('t, 'e) store
     \<Rightarrow> ('t, 'e, 'a) store_result" where
  "on_execs lib op s =
     (case op (s_execs s) of (r, t) \<Rightarrow> (map_err (mongo_err lib) r, s\<lparr>s_execs := t\<rparr>))"

subsection \<open>Schedules in documents\<close>

definition schedule_doc :: "schedule \<Rightarrow> schedule_document" where
  "schedule_doc s =
     (case s of
        Cron expression next_run \<Rightarrow>
          \<lparr>sd_type = Some ''cron'', sd_cron_expression = Some expression,
           sd_next_run = Some (bson_time next_run), sd_run_at_field = None\<rparr>
      | OneShot run_at \<Rightarrow>
          \<lparr>sd_type = Some ''one_shot'', sd_cron_expression = None,
           sd_next_run = None, sd_run_at_field = Some (bson_time run_at)\<rparr>)"

definition parse_schedule_doc ::
    "(string \<Rightarrow> string) \<Rightarrow> schedule_document \<Rightarrow> scheduler_error + schedule" where
  "parse_schedule_doc access_error d =
     (case sd_type d of
        None \<Rightarrow> Inl (Storage (''missing schedule.type: '' @ access_error ''type''))
      | Some schedule_type \<Rightarrow>
          if schedule_type = ''cron'' then
            (case sd_cron_expression d of
               None \<Rightarrow> Inl (Storage (''missing schedule.cron_expression: ''
                                     @ access_error ''cron_expression''))
             | Some expression \<Rightarrow>
                 (case sd_next_run d of
                    None \<Rightarrow> Inl (Storage (''missing schedule.next_run: '' @ access_error ''next_run''))
                  | Some next_run \<Rightarrow> Inr (Cron expression next_run)))
          else if schedule_type = ''one_shot'' then
            (case sd_run_at_field d of
               None \<Rightarrow> Inl (Storage (''missing schedule.run_at: '' @ access_error ''run_at''))
             | Some run_at \<Rightarrow> Inr (OneShot run_at))
          else Inl (Storage (''unsupported schedule.type: '' @ schedule_type)))"

definition stored_schedule :: "schedule \<Rightarrow> schedule" where
  "stored_schedule s =
     (case s of Cron e d \<Rightarrow> Cron e (bson_time d) | OneShot d \<Rightarrow> OneShot (bson_time d))"

lemma parse_schedule_doc_schedule_doc:
  "parse_schedule_doc ae (schedule_doc s) = Inr (stored_schedule s)"
  by (cases s) (simp_all add: parse_schedule_doc_def schedule_doc_def stored_schedule_def)

subsection \<open>Reading tasks\<close>

definition deserialize_task_document ::
    "('t, 'e, 'j) store_lib \<Rightarrow> 'j task_doc \<Rightarrow> scheduler_error + scheduled_task" where
  "deserialize_task_document lib d =
     (case td_task_json d of
        None \<Rightarrow> Inl (Storage (''missing task_json for task document: ''
                              @ sl_access_error lib ''task_json''))
      | Some json \<Rightarrow> map_err (\<lambda>e. Storage (''invalid task_json: '' @ e)) (sl_from_json lib json))"

definition apply_persisted_task_fields ::
    "(string \<Rightarrow> string) \<Rightarrow> 'j task_doc \<Rightarrow> scheduled_task \<Rightarrow> scheduler_error + scheduled_task" where
  "apply_persisted_task_fields access_error d task =
     (let t1 = (case td_enabled d of Some e \<Rightarrow> task\<lparr>t_enabled := e\<rparr> | None \<Rightarrow> task);
          t2 = (case td_last_run d of
                  BsonVal v \<Rightarrow> t1\<lparr>t_last_run := Some v\<rparr>
                | BsonNull \<Rightarrow> t1\<lparr>t_last_run := None\<rparr>
                | Absent \<Rightarrow> t1)
      in case td_schedule d of
           None \<Rightarrow> Inr t2
         | Some sd \<Rightarrow> res_bind (parse_schedule_doc access_error sd)
                        (\<lambda>sch. Inr (t2\<lparr>t_schedule := sch\<rparr>)))"

definition owner_filter :: "('t, 'e) store \<Rightarrow> 'j task_doc \<Rightarrow> bool" where
  "owner_filter s d = (td_owner_kind d = s_owner_kind s \<and> td_owner_id d = s_owner_id s)"

definition task_filter :: "('t, 'e) store \<Rightarrow> string \<Rightarrow> 'j task_doc \<Rightarrow> bool" where
  "task_filter s task_id d = (owner_filter s d \<and> td_task_id d = Some task_id)"

definition owner_accepts_worker_pickup :: "('t, 'e) store \<Rightarrow> bool" where
  "owner_accepts_worker_pickup s = (s_owner_kind s = ''user'')"

subsection \<open>Writing tasks\<close>

definition last_run_field :: "scheduled_task \<Rightarrow> datetime bson_field" where
  "last_run_field task =
     (case t_last_run task of None \<Rightarrow> BsonNull | Some t \<Rightarrow> BsonVal (bson_time t))"

definition insert_task_set ::
    "('t, 'e) store \<Rightarrow> scheduled_task \<Rightarrow> 'j \<Rightarrow> 'j task_doc \<Rightarrow> 'j task_doc" where
  "insert_task_set s task json d =
     d\<lparr>td_owner_kind := s_owner_kind s, td_owner_id := s_owner_id s,
       td_task_id := Some (t_id task),
       td_kind := task_kind_label (t_kind task),
       td_channel := channel_to_string (task_kind_channel (t_kind task)),
       td_enabled := Some (t_enabled task),
       td_created_at := bson_time (t_created_at task),
       td_last_run := last_run_field task,
       td_schedule := Some (schedule_doc (t_schedule task)),
       td_task_json := Some json\<rparr>"

text \<open>The document an upsert inserts: the fields of \<open>$set\<close> and of \<open>$setOnInsert\<close>.\<close>

definition inserted_task_doc ::
    "('t, 'e) store \<Rightarrow> scheduled_task \<Rightarrow> 'j \<Rightarrow> 'j task_doc" where
  "inserted_task_doc s task json =
     \<lparr>td_owner_kind = s_owner_kind s, td_owner_id = s_owner_id s,
      td_task_id = Some (t_id task),
      td_kind = task_kind_label (t_kind task),
      td_channel = channel_to_string (task_kind_channel (t_kind task)),
      td_enabled = Some (t_enabled task),
      td_created_at = bson_time (t_created_at task),
      td_last_run = last_run_field task,
      td_schedule = Some (schedule_doc (t_schedule task)),
      td_task_json = Some json,
      td_retry_count = Some (Int32 0),
      td_auto_disabled_reason = Absent,
      td_auto_disabled_at = None\<rparr>"

definition serialize_task ::
    "('t, 'e, 'j) store_lib \<Rightarrow> scheduled_task \<Rightarrow> scheduler_error + 'j" where
  "serialize_task lib task =
     map_err (\<lambda>e. Storage (''serialize task failed: '' @ e)) (sl_to_json lib task)"

definition store_insert_task ::
    "('t, 'e, 'j) store_lib \<Rightarrow> ('t, 'e) store \<Rightarrow> scheduled_task \<Rightarrow> ('t, 'e, unit) store_result" where
  "store_insert_task lib s task =
     (case serialize_task lib task of
        Inl e \<Rightarrow> (Inl e, s)
      | Inr json \<Rightarrow>
          st_bind
            (on_tasks lib (retry_mongo_operation
               (c_upsert_one (sl_tasks lib) (task_filter s (t_id task))
                  (insert_task_set s task json) (inserted_task_doc s task json))) s)
            (\<lambda>_ s'. (Inr (), s')))"

definition auto_disabled :: "'j task_doc \<Rightarrow> bool" where
  "auto_disabled d =
     (td_enabled d = Some False \<and>
      (case td_auto_disabled_reason d of BsonVal r \<Rightarrow> r \<noteq> [] | _ \<Rightarrow> False))"

definition update_task_filter :: "scheduled_task \<Rightarrow> bool \<Rightarrow> 'j task_doc \<Rightarrow> bool" where
  "update_task_filter task allow_reenable d =
     (td_task_id d = Some (t_id task) \<and>
      (t_enabled task \<and> \<not> allow_reenable \<longrightarrow>
         td_enabled d \<noteq> Some False
         \<or> td_auto_disabled_reason d = Absent
         \<or> td_auto_disabled_reason d = BsonNull
         \<or> td_auto_disabled_reason d = BsonVal []))"

definition update_task_set :: "scheduled_task \<Rightarrow> bool \<Rightarrow> 'j \<Rightarrow> 'j task_doc \<Rightarrow> 'j task_doc" where
  "update_task_set task allow_reenable json d =
     (let d1 = d\<lparr>td_enabled := Some (t_enabled task),
                 td_last_run := last_run_field task,
                 td_schedule := Some (schedule_doc (t_schedule task)),
                 td_task_json := Some json\<rparr>
      in if allow_reenable
         then d1\<lparr>td_auto_disabled_reason := Absent, td_auto_disabled_at := None\<rparr>
         else d1)"

definition update_task_internal ::
    "('t, 'e, 'j) store_lib \<Rightarrow> ('t, 'e) store \<Rightarrow> scheduled_task \<Rightarrow> bool \<Rightarrow> ('t, 'e, unit) store_result"
where
  "update_task_internal lib s task allow_reenable =
     (case serialize_task lib task of
        Inl e \<Rightarrow> (Inl e, s)
      | Inr json \<Rightarrow>
          st_bind
            (on_tasks lib (retry_mongo_operation
               (c_update_many (sl_tasks lib) (update_task_filter task allow_reenable)
                  (update_task_set task allow_reenable json))) s)
            (\<lambda>_ s'. (Inr (), s')))"

definition store_update_task ::
    "('t, 'e, 'j) store_lib \<Rightarrow> ('t, 'e) store \<Rightarrow> scheduled_task \<Rightarrow> ('t, 'e, unit) store_result" where
  "store_update_task lib s task = update_task_internal lib s task False"

definition store_replace_task ::
    "('t, 'e, 'j) store_lib \<Rightarrow> ('t, 'e) store \<Rightarrow> scheduled_task \<Rightarrow> ('t, 'e, unit) store_result" where
  "store_replace_task lib s task = update_task_internal lib s task True"

definition by_task_id :: "string \<Rightarrow> 'j task_doc \<Rightarrow> bool" where
  "by_task_id task_id d = (td_task_id d = Some task_id)"

definition auto_disable_set :: "string \<Rightarrow> datetime \<Rightarrow> 'j task_doc \<Rightarrow> 'j task_doc" where
  "auto_disable_set reason now d =
     d\<lparr>td_enabled := Some False, td_auto_disabled_reason := BsonVal reason,
       td_auto_disabled_at := Some (bson_time now)\<rparr>"

text \<open>\<open>MongoSchedulerStore::disable_task_by_id\<close>, with the instant it reads from the clock.\<close>

definition mongo_disable_task_by_id ::
    "('t, 'e, 'j) store_lib \<Rightarrow> ('t, 'e) store \<Rightarrow> string \<Rightarrow> string \<Rightarrow> datetime
     \<Rightarrow> ('t, 'e, unit) store_result" where
  "mongo_disable_task_by_id lib s task_id reason now =
     st_bind
       (on_tasks lib (retry_mongo_operation
          (c_update_many (sl_tasks lib) (by_task_id task_id) (auto_disable_set reason now))) s)
       (\<lambda>matched_count s'.
          if matched_count = 0 then
            (Inl (Storage (''disable_task_by_id matched 0 documents: task_id='' @ task_id
                @ '' owner_scope=('' @ s_owner_kind s @ '', '' @ s_owner_id s @ '')'')), s')
          else (Inr (), s'))"

definition clear_auto_disabled_set :: "'j task_doc \<Rightarrow> 'j task_doc" where
  "clear_auto_disabled_set d = d\<lparr>td_auto_disabled_reason := Absent, td_auto_disabled_at := None\<rparr>"

definition clear_auto_disabled_reason ::
    "('t, 'e, 'j) store_lib \<Rightarrow> ('t, 'e) store \<Rightarrow> string \<Rightarrow> ('t, 'e, unit) store_result" where
  "clear_auto_disabled_reason lib s task_id =
     st_bind
       (on_tasks lib (retry_mongo_operation
          (c_update_many (sl_tasks lib) (by_task_id task_id) clear_auto_disabled_set)) s)
       (\<lambda>_ s'. (Inr (), s'))"

text \<open>\<open>load_task_by_id\<close>: \<open>now\<close> is the instant the repair of a legacy cron schedule uses.\<close>

definition store_load_task_by_id ::
    "('t, 'e, 'j) store_lib \<Rightarrow> ('t, 'e) store \<Rightarrow> string \<Rightarrow> datetime
     \<Rightarrow> ('t, 'e, scheduled_task option) store_result" where
  "store_load_task_by_id lib s task_id now =
     st_bind (on_tasks lib (c_find (sl_tasks lib) (task_filter s task_id)) s)
       (\<lambda>docs s1.
          case docs of
            [] \<Rightarrow> (Inr None, s1)
          | d # _ \<Rightarrow>
              (case res_bind (deserialize_task_document lib d)
                      (apply_persisted_task_fields (sl_access_error lib) d) of
                 Inl e \<Rightarrow> (Inl e, s1)
               | Inr task \<Rightarrow>
                   (case maybe_repair_legacy_weekday_cron_task (sl_cron lib) (sl_read_file lib) task now of
                      (Inl e, _) \<Rightarrow> (Inl e, s1)
                    | (Inr repaired, task') \<Rightarrow>
                        if repaired
                        then st_bind (store_update_task lib s1 task') (\<lambda>_ s2. (Inr (Some task'), s2))
                        else (Inr (Some task'), s1))))"

text \<open>The loop of \<open>load_tasks\<close> over the cursor, with the ids seen so far.\<close>

fun load_tasks_loop ::
    "('t, 'e, 'j) store_lib \<Rightarrow> datetime \<Rightarrow> string set \<Rightarrow> 'j task_doc list \<Rightarrow> ('t, 'e) store
     \<Rightarrow> ('t, 'e, scheduled_task list) store_result" where
  "load_tasks_loop lib now seen [] s = (Inr [], s)"
| "load_tasks_loop lib now seen (d # ds) s =
     (if (case td_task_id d of Some i \<Rightarrow> i \<in> seen | None \<Rightarrow> False)
      then load_tasks_loop lib now seen ds s
      else
        let seen' = (case td_task_id d of Some i \<Rightarrow> insert i seen | None \<Rightarrow> seen) in
        case res_bind (deserialize_task_document lib d)
               (apply_persisted_task_fields (sl_access_error lib) d) of
          Inl e \<Rightarrow> (Inl e, s)
        | Inr task \<Rightarrow>
            (case maybe_repair_legacy_weekday_cron_task (sl_cron lib) (sl_read_file lib) task now of
               (Inl e, _) \<Rightarrow> (Inl e, s)
             | (Inr repaired, task') \<Rightarrow>
                 st_bind (if repaired then store_update_task lib s task' else (Inr (), s))
                   (\<lambda>_ s1. st_bind (load_tasks_loop lib now seen' ds s1)
                             (\<lambda>tasks s2. (Inr (task' # tasks), s2)))))"

definition store_load_tasks ::
    "('t, 'e, 'j) store_lib \<Rightarrow> ('t, 'e) store \<Rightarrow> datetime \<Rightarrow> ('t, 'e, scheduled_task list) store_result"
where
  "store_load_tasks lib s now =
     st_bind (on_tasks lib (c_find_desc (sl_tasks lib) (owner_filter s) td_created_at) s)
       (\<lambda>docs s1. st_bind (load_tasks_loop lib now {} docs s1)
          (\<lambda>tasks s2. (Inr (sort_key t_created_at tasks), s2)))"

text \<open>The wrappers of \<open>SchedulerStore\<close>.\<close>

definition store_disable_task_by_id ::
    "('t, 'e, 'j) store_lib \<Rightarrow> ('t, 'e) store \<Rightarrow> string \<Rightarrow> datetime \<Rightarrow> ('t, 'e, unit) store_result" where
  "store_disable_task_by_id lib s task_id now =
     st_bind (store_load_task_by_id lib s task_id now)
       (\<lambda>found s1.
          case found of
            Some task \<Rightarrow> store_update_task lib s1 (task\<lparr>t_enabled := False\<rparr>)
          | None \<Rightarrow> (Inr (), s1))"

text \<open>The clock is read twice: by the load and for the time of the automatic disable.\<close>

definition store_disable_task_by_id_with_reason ::
    "('t, 'e, 'j) store_lib \<Rightarrow> ('t, 'e) store \<Rightarrow> string \<Rightarrow> string \<Rightarrow> datetime \<Rightarrow> datetime
     \<Rightarrow> ('t, 'e, unit) store_result" where
  "store_disable_task_by_id_with_reason lib s task_id reason loaded_at now =
     st_bind (store_disable_task_by_id lib s task_id loaded_at)
       (\<lambda>_ s1. mongo_disable_task_by_id lib s1 task_id reason now)"

subsection \<open>Retry counters\<close>

text \<open>\<open>*value as u32\<close> keeps the low 32 bits.\<close>

definition numeric_field_to_u32 :: "bson_number option \<Rightarrow> u32 option" where
  "numeric_field_to_u32 v =
     (case v of
        Some (Int32 n) \<Rightarrow> if n \<ge> 0 then Some (word_of_int n) else None
      | Some (Int64 n) \<Rightarrow> if n \<ge> 0 then Some (word_of_int n) else None
      | _ \<Rightarrow> None)"

text \<open>\<open>$inc\<close> by one: a missing field becomes 1, a 32-bit number that overflows becomes 64-bit.\<close>

definition inc_number :: "bson_number option \<Rightarrow> bson_number option" where
  "inc_number v =
     (case v of
        None \<Rightarrow> Some (Int32 1)
      | Some (Int32 n) \<Rightarrow> Some (if n + 1 < 2 ^ 31 then Int32 (n + 1) else Int64 (n + 1))
      | Some (Int64 n) \<Rightarrow> Some (Int64 (n + 1))
      | Some (NotANumber t) \<Rightarrow> Some (NotANumber t))"

definition store_get_retry_count ::
    "('t, 'e, 'j) store_lib \<Rightarrow> ('t, 'e) store \<Rightarrow> string \<Rightarrow> ('t, 'e, u32) store_result" where
  "store_get_retry_count lib s task_id =
     st_bind (on_tasks lib (c_find (sl_tasks lib) (task_filter s task_id)) s)
       (\<lambda>docs s1. (Inr (case docs of
                          [] \<Rightarrow> 0
                        | d # _ \<Rightarrow> unwrap_or 0 (numeric_field_to_u32 (td_retry_count d))), s1))"

definition store_increment_retry_count ::
    "('t, 'e, 'j) store_lib \<Rightarrow> ('t, 'e) store \<Rightarrow> string \<Rightarrow> ('t, 'e, u32) store_result" where
  "store_increment_retry_count lib s task_id =
     st_bind
       (on_tasks lib (retry_mongo_operation
          (c_update_many (sl_tasks lib) (by_task_id task_id)
             (\<lambda>d. d\<lparr>td_retry_count := inc_number (td_retry_count d)\<rparr>))) s)
       (\<lambda>_ s1. store_get_retry_count lib s1 task_id)"

definition store_reset_retry_count ::
    "('t, 'e, 'j) store_lib \<Rightarrow> ('t, 'e) store \<Rightarrow> string \<Rightarrow> ('t, 'e, unit) store_result" where
  "store_reset_retry_count lib s task_id =
     st_bind
       (on_tasks lib (retry_mongo_operation
          (c_update_many (sl_tasks lib) (by_task_id task_id)
             (\<lambda>d. d\<lparr>td_retry_count := Some (Int32 0)\<rparr>))) s)
       (\<lambda>_ s1. (Inr (), s1))"

subsection \<open>Executions\<close>

text \<open>
  \<open>next_execution_id\<close>: the compare-and-exchange loop returns from the iteration whose
  \<open>current\<close> is the counter's value, and that exchange is the atomic step modelled here.
\<close>

definition next_execution_id :: "int \<Rightarrow> datetime \<Rightarrow> int" where
  "next_execution_id current started_at =
     max (timestamp_micros started_at) (sat_i64 (current + 1))"

definition bson_i64 :: "string \<Rightarrow> bson_number option \<Rightarrow> scheduler_error + int" where
  "bson_i64 field v =
     (case v of
        Some (Int64 n) \<Rightarrow> Inr n
      | Some (Int32 n) \<Rightarrow> Inr n
      | Some (NotANumber t) \<Rightarrow>
          Inl (Storage (''invalid '' @ field @ '' type for execution row: '' @ t))
      | None \<Rightarrow> Inl (Storage (''missing '' @ field @ '' for execution row'')))"

definition parse_execution_row ::
    "(string \<Rightarrow> string) \<Rightarrow> exec_doc \<Rightarrow> scheduler_error + execution_row" where
  "parse_execution_row access_error d =
     (case ed_id d of
        None \<Rightarrow> Inl (Storage ''missing _id for execution row'')
      | Some doc_id \<Rightarrow>
     res_bind (bson_i64 ''execution_id'' (ed_execution_id d)) (\<lambda>execution_id.
     case ed_task_id d of
       None \<Rightarrow> Inl (Storage (''missing task_id for execution row: '' @ access_error ''task_id''))
     | Some task_id \<Rightarrow>
     (case ed_started_at d of
       None \<Rightarrow> Inl (Storage (''missing started_at for execution row: '' @ access_error ''started_at''))
     | Some started_at \<Rightarrow>
     (case ed_status d of
       None \<Rightarrow> Inl (Storage (''missing status for execution row: '' @ access_error ''status''))
     | Some status \<Rightarrow>
         Inr \<lparr>row_doc_id = doc_id, row_task_id = task_id, row_execution_id = execution_id,
              row_started_at = started_at, row_finished_at = ed_finished_at d,
              row_status = status, row_error_message = ed_error_message d\<rparr>))))"

definition exec_owner :: "('t, 'e) store \<Rightarrow> exec_doc \<Rightarrow> bool" where
  "exec_owner s d = (ed_owner_kind d = s_owner_kind s \<and> ed_owner_id d = s_owner_id s)"

text \<open>A filter compares numbers by value, whatever their width.\<close>

fun number_is :: "bson_number option \<Rightarrow> int \<Rightarrow> bool" where
  "number_is (Some (Int32 n)) k = (n = k)"
| "number_is (Some (Int64 n)) k = (n = k)"
| "number_is _ k = False"

definition running_filter :: "('t, 'e) store \<Rightarrow> string \<Rightarrow> exec_doc \<Rightarrow> bool" where
  "running_filter s task_id d =
     (exec_owner s d \<and> ed_task_id d = Some task_id \<and> ed_status d = Some ''running'')"

definition store_has_running_execution ::
    "('t, 'e, 'j) store_lib \<Rightarrow> ('t, 'e) store \<Rightarrow> string \<Rightarrow> ('t, 'e, bool) store_result" where
  "store_has_running_execution lib s task_id =
     st_bind (on_execs lib (retry_mongo_operation
                (c_find (sl_execs lib) (running_filter s task_id))) s)
       (\<lambda>docs s1. (Inr (length docs > 0), s1))"

text \<open>\<open>oid\<close> is the identifier the driver gives the inserted document.\<close>

definition start_doc ::
    "('t, 'e) store \<Rightarrow> string \<Rightarrow> string \<Rightarrow> execution_record_handle \<Rightarrow> exec_doc" where
  "start_doc s oid task_id execution =
     \<lparr>ed_id = Some oid, ed_owner_kind = s_owner_kind s, ed_owner_id = s_owner_id s,
      ed_execution_id = Some (Int64 (h_execution_id execution)), ed_task_id = Some task_id,
      ed_started_at = Some (bson_time (h_started_at execution)), ed_finished_at = None,
      ed_status = Some ''running'', ed_error_message = None\<rparr>"

definition store_record_execution_start ::
    "('t, 'e, 'j) store_lib \<Rightarrow> ('t, 'e) store \<Rightarrow> string \<Rightarrow> uuid \<Rightarrow> datetime
     \<Rightarrow> ('t, 'e, execution_record_handle) store_result" where
  "store_record_execution_start lib s oid task_id started_at =
     (let i = next_execution_id (s_seq s) started_at;
          execution = \<lparr>h_execution_id = i, h_started_at = started_at\<rparr>;
          s1 = s\<lparr>s_seq := i\<rparr>
      in st_bind
           (on_execs lib (retry_mongo_operation
              (c_insert_one (sl_execs lib) (start_doc s1 oid task_id execution))) s1)
           (\<lambda>_ s2. (Inr execution, s2)))"

definition finish_set :: "datetime \<Rightarrow> string \<Rightarrow> string option \<Rightarrow> exec_doc \<Rightarrow> exec_doc" where
  "finish_set finished_at status error_message d =
     d\<lparr>ed_finished_at := Some (bson_time finished_at), ed_status := Some status,
       ed_error_message := error_message\<rparr>"

definition is_stale_reconciliation_error :: "string option \<Rightarrow> bool" where
  "is_stale_reconciliation_error reason =
     (case reason of
        None \<Rightarrow> False
      | Some value \<Rightarrow> starts_with (trim_start value) ''reconciled stale running execution'')"

definition should_replace_stale_reconciliation_terminal_row ::
    "execution_row \<Rightarrow> string \<Rightarrow> string option \<Rightarrow> bool" where
  "should_replace_stale_reconciliation_terminal_row row desired_status desired_error_message =
     (if row_status row \<noteq> ''failed'' \<or> \<not> is_stale_reconciliation_error (row_error_message row)
      then False
      else if desired_status = ''success'' \<or> desired_status = ''superseded'' then True
      else if desired_status = ''failed'' then
        (case desired_error_message of
           Some message \<Rightarrow> \<not> is_stale_reconciliation_error (Some message)
         | None \<Rightarrow> False)
      else False)"

definition should_clear_auto_disabled_reason_after_stale_replacement ::
    "string \<Rightarrow> string option \<Rightarrow> bool" where
  "should_clear_auto_disabled_reason_after_stale_replacement desired_status desired_error_message =
     (desired_status = ''success'' \<or> desired_status = ''superseded''
      \<or> desired_status = ''failed'' \<and>
        (case desired_error_message of
           Some message \<Rightarrow> \<not> is_stale_reconciliation_error (Some message)
         | None \<Rightarrow> False))"

definition execution_filter ::
    "('t, 'e) store \<Rightarrow> string \<Rightarrow> int \<Rightarrow> datetime \<Rightarrow> exec_doc \<Rightarrow> bool" where
  "execution_filter s task_id execution_id started_at d =
     (exec_owner s d \<and> ed_task_id d = Some task_id \<and> number_is (ed_execution_id d) execution_id
      \<and> ed_started_at d = Some (bson_time started_at))"

definition find_execution_row ::
    "('t, 'e, 'j) store_lib \<Rightarrow> ('t, 'e) store \<Rightarrow> string \<Rightarrow> int \<Rightarrow> datetime
     \<Rightarrow> ('t, 'e, execution_row option) store_result" where
  "find_execution_row lib s task_id execution_id started_at =
     st_bind (on_execs lib (retry_mongo_operation
                (c_find (sl_execs lib) (execution_filter s task_id execution_id started_at))) s)
       (\<lambda>docs s1.
          case docs of
            [] \<Rightarrow> (Inr None, s1)
          | d # _ \<Rightarrow> (res_bind (parse_execution_row (sl_access_error lib) d) (\<lambda>r. Inr (Some r)), s1))"

definition overwrite_terminal_execution_row ::
    "('t, 'e, 'j) store_lib \<Rightarrow> ('t, 'e) store \<Rightarrow> string \<Rightarrow> datetime \<Rightarrow> string \<Rightarrow> string option
     \<Rightarrow> ('t, 'e, unit) store_result" where
  "overwrite_terminal_execution_row lib s doc_id finished_at status error_message =
     st_bind
       (on_execs lib (retry_mongo_operation
          (c_update_one (sl_execs lib) (\<lambda>d. ed_id d = Some doc_id \<and> exec_owner s d)
             (finish_set finished_at status error_message))) s)
       (\<lambda>_ s1. (Inr (), s1))"

definition store_record_execution_finish ::
    "('t, 'e, 'j) store_lib \<Rightarrow> ('t, 'e) store \<Rightarrow> uuid \<Rightarrow> execution_record_handle \<Rightarrow> datetime
     \<Rightarrow> string \<Rightarrow> string option \<Rightarrow> ('t, 'e, unit) store_result" where
  "store_record_execution_finish lib s task_id execution finished_at status error_message =
     st_bind
       (on_execs lib (retry_mongo_operation
          (c_update_one (sl_execs lib)
             (\<lambda>d. execution_filter s task_id (h_execution_id execution) (h_started_at execution) d
                  \<and> ed_status d = Some ''running'')
             (finish_set finished_at status error_message))) s)
       (\<lambda>matched_count s1.
          if matched_count = 0 then
            st_bind (find_execution_row lib s1 task_id (h_execution_id execution)
                       (h_started_at execution))
              (\<lambda>existing s2.
                 let missing =
                       (Inl (Storage (''missing running execution row for task '' @ task_id
                          @ '' execution_id='' @ int_str (h_execution_id execution)
                          @ '' started_at='' @ sl_rfc3339 lib (h_started_at execution))), s2) in
                 case existing of
                   None \<Rightarrow> missing
                 | Some row \<Rightarrow>
                     if row_status row = ''running'' then missing
                     else if should_replace_stale_reconciliation_terminal_row row status error_message
                     then st_bind (overwrite_terminal_execution_row lib s2 (row_doc_id row)
                                     finished_at status error_message)
                            (\<lambda>_ s3.
                               if should_clear_auto_disabled_reason_after_stale_replacement
                                    status error_message
                               then clear_auto_disabled_reason lib s3 task_id
                               else (Inr (), s3))
                     else (Inr (), s2))
          else (Inr (), s1))"

definition store_upsert_terminal_execution ::
    "('t, 'e, 'j) store_lib \<Rightarrow> ('t, 'e) store \<Rightarrow> string \<Rightarrow> uuid \<Rightarrow> execution_record_handle
     \<Rightarrow> datetime \<Rightarrow> string \<Rightarrow> string option \<Rightarrow> ('t, 'e, unit) store_result" where
  "store_upsert_terminal_execution lib s oid task_id execution finished_at status error_message =
     (let new = \<lparr>ed_id = Some oid, ed_owner_kind = s_owner_kind s, ed_owner_id = s_owner_id s,
                 ed_execution_id = Some (Int64 (h_execution_id execution)),
                 ed_task_id = Some task_id,
                 ed_started_at = Some (bson_time (h_started_at execution)),
                 ed_finished_at = Some (bson_time finished_at),
                 ed_status = Some status, ed_error_message = error_message\<rparr>
      in st_bind
           (on_execs lib (retry_mongo_operation
              (c_upsert_one (sl_execs lib)
                 (\<lambda>d. exec_owner s d \<and> ed_task_id d = Some task_id
                      \<and> number_is (ed_execution_id d) (h_execution_id execution))
                 (\<lambda>d. new\<lparr>ed_id := ed_id d\<rparr>) new)) s)
           (\<lambda>_ s1. (Inr (), s1)))"

definition finish_execution_row ::
    "('t, 'e, 'j) store_lib \<Rightarrow> ('t, 'e) store \<Rightarrow> string \<Rightarrow> datetime \<Rightarrow> string \<Rightarrow> string option
     \<Rightarrow> ('t, 'e, unit) store_result" where
  "finish_execution_row lib s doc_id finished_at status error_message =
     st_bind
       (on_execs lib (retry_mongo_operation
          (c_update_one (sl_execs lib)
             (\<lambda>d. ed_id d = Some doc_id \<and> exec_owner s d \<and> ed_status d = Some ''running'')
             (finish_set finished_at status error_message))) s)
       (\<lambda>matched_count s1.
          if matched_count = 0 then
            st_bind (on_execs lib (retry_mongo_operation
                       (c_find (sl_execs lib) (\<lambda>d. ed_id d = Some doc_id \<and> exec_owner s1 d))) s1)
              (\<lambda>docs s2.
                 let missing =
                       (Inl (Storage ''missing running execution row while reconciling stale execution''),
                        s2) in
                 case docs of
                   [] \<Rightarrow> missing
                 | d # _ \<Rightarrow>
                     (case parse_execution_row (sl_access_error lib) d of
                        Inl e \<Rightarrow> (Inl e, s2)
                      | Inr row \<Rightarrow> if row_status row \<noteq> ''running'' then (Inr (), s2) else missing))
          else (Inr (), s1))"

fun parse_rows :: "(string \<Rightarrow> string) \<Rightarrow> exec_doc list \<Rightarrow> scheduler_error + execution_row list" where
  "parse_rows access_error [] = Inr []"
| "parse_rows access_error (d # ds) =
     res_bind (parse_execution_row access_error d) (\<lambda>r.
     res_bind (parse_rows access_error ds) (\<lambda>rs. Inr (r # rs)))"

definition started_key :: "exec_doc \<Rightarrow> int" where
  "started_key d = (case ed_started_at d of Some t \<Rightarrow> t | None \<Rightarrow> i64_min)"

definition load_execution_rows_for_task ::
    "('t, 'e, 'j) store_lib \<Rightarrow> ('t, 'e) store \<Rightarrow> string \<Rightarrow> ('t, 'e, execution_row list) store_result"
where
  "load_execution_rows_for_task lib s task_id =
     st_bind (on_execs lib (c_find_desc (sl_execs lib)
                (\<lambda>d. exec_owner s d \<and> ed_task_id d = Some task_id) started_key) s)
       (\<lambda>docs s1. (parse_rows (sl_access_error lib) docs, s1))"

text \<open>The map of \<open>load_execution_rows_for_tasks\<close> is the list of its rows, grouped by task id.\<close>

definition load_execution_rows_for_tasks ::
    "('t, 'e, 'j) store_lib \<Rightarrow> ('t, 'e) store \<Rightarrow> string list
     \<Rightarrow> ('t, 'e, (string \<times> execution_row list) list) store_result" where
  "load_execution_rows_for_tasks lib s task_ids =
     (if task_ids = [] then (Inr [], s)
      else st_bind (on_execs lib (c_find_desc (sl_execs lib)
                (\<lambda>d. exec_owner s d \<and> (\<exists>i \<in> set task_ids. ed_task_id d = Some i)) started_key) s)
             (\<lambda>docs s1.
                (res_bind (parse_rows (sl_access_error lib) docs)
                   (\<lambda>rows. Inr (map (\<lambda>i. (i, filter (\<lambda>r. row_task_id r = i) rows))
                                    (remdups (map row_task_id rows)))), s1)))"

end
