(* ===== verification/Store_Laws.thy ===== *)
theory Store_Laws
  imports Task_Store
begin

text \<open>
  What the store operations do to the documents, proved once for every driver and JSON codec
  that keep their contracts (locale \<open>task_store\<close>), and the properties of the store that rest on
  it.  The locale is interpreted on the in-memory collections with scripted faults.
\<close>

locale task_store =
  tk: doc_collection "sl_tasks lib" tdocs + ex: doc_collection "sl_execs lib" edocs
  for lib :: "('t, 'e, 'j) store_lib"
    and tdocs :: "'t \<Rightarrow> 'j task_doc list"
    and edocs :: "'e \<Rightarrow> exec_doc list" +
  assumes json_roundtrip: "sl_to_json lib t = Inr j \<Longrightarrow> sl_from_json lib j = Inr t"
begin

lemma on_tasks_update_many:
  assumes "on_tasks lib (retry_mongo_operation (c_update_many (sl_tasks lib) p u)) s = (Inr n, s')"
  shows "tdocs (s_tasks s') = update_all p u (tdocs (s_tasks s))
         \<and> n = length (filter p (tdocs (s_tasks s))) \<and> s' = s\<lparr>s_tasks := s_tasks s'\<rparr>"
  using assms tk.retried_update_many by (fastforce simp: on_tasks_def split: prod.splits)

lemma on_tasks_upsert:
  assumes "on_tasks lib (retry_mongo_operation (c_upsert_one (sl_tasks lib) p u d)) s = (Inr n, s')"
  shows "tdocs (s_tasks s') = (if any_doc p (tdocs (s_tasks s)) = 1
           then update_first p u (tdocs (s_tasks s)) else tdocs (s_tasks s) @ [d])
         \<and> s' = s\<lparr>s_tasks := s_tasks s'\<rparr>"
  using assms tk.retried_upsert_one by (fastforce simp: on_tasks_def split: prod.splits)

lemma on_tasks_find:
  assumes "on_tasks lib (c_find (sl_tasks lib) p) s = (Inr ds, s')"
  shows "ds = filter p (tdocs (s_tasks s)) \<and> tdocs (s_tasks s') = tdocs (s_tasks s)
         \<and> s' = s\<lparr>s_tasks := s_tasks s'\<rparr>"
  using assms tk.find_ok by (fastforce simp: on_tasks_def split: prod.splits)

lemma on_execs_find:
  assumes "on_execs lib (retry_mongo_operation (c_find (sl_execs lib) p)) s = (Inr ds, s')"
  shows "ds = filter p (edocs (s_execs s)) \<and> edocs (s_execs s') = edocs (s_execs s)
         \<and> s' = s\<lparr>s_execs := s_execs s'\<rparr>"
  using assms ex.retried_find by (fastforce simp: on_execs_def split: prod.splits)

lemma on_execs_update_one:
  assumes "on_execs lib (retry_mongo_operation (c_update_one (sl_execs lib) p u)) s = (Inr n, s')"
  shows "edocs (s_execs s') = update_first p u (edocs (s_execs s))
         \<and> n = any_doc p (edocs (s_execs s)) \<and> s' = s\<lparr>s_execs := s_execs s'\<rparr>"
  using assms ex.retried_update_one by (fastforce simp: on_execs_def split: prod.splits)

lemma on_execs_insert:
  assumes "on_execs lib (retry_mongo_operation (c_insert_one (sl_execs lib) d)) s = (Inr x, s')"
  shows "edocs (s_execs s') = edocs (s_execs s) @ [d] \<and> s' = s\<lparr>s_execs := s_execs s'\<rparr>"
  using assms ex.retried_insert_one by (fastforce simp: on_execs_def split: prod.splits)

lemma update_internal_effect:
  assumes "update_task_internal lib s t force = (Inr x, s')"
  obtains j where "sl_to_json lib t = Inr j" "s' = s\<lparr>s_tasks := s_tasks s'\<rparr>"
    "tdocs (s_tasks s') = update_all (update_task_filter t force) (update_task_set t force j)
                            (tdocs (s_tasks s))"
proof -
  from assms obtain j where j: "sl_to_json lib t = Inr j"
    by (auto simp: update_task_internal_def serialize_task_def split: sum.splits)
  from assms j have "\<exists>n s1. on_tasks lib (retry_mongo_operation
      (c_update_many (sl_tasks lib) (update_task_filter t force) (update_task_set t force j))) s
        = (Inr n, s1) \<and> s1 = s'"
    by (auto simp: update_task_internal_def serialize_task_def dest!: st_bind_ok)
  then obtain n where "on_tasks lib (retry_mongo_operation
      (c_update_many (sl_tasks lib) (update_task_filter t force) (update_task_set t force j))) s
        = (Inr n, s')" by blast
  from on_tasks_update_many [OF this] j show thesis by (intro that) auto
qed

lemma insert_effect:
  assumes "store_insert_task lib s t = (Inr x, s')"
  obtains j where "sl_to_json lib t = Inr j" "s' = s\<lparr>s_tasks := s_tasks s'\<rparr>"
    "tdocs (s_tasks s') =
       (if any_doc (task_filter s (t_id t)) (tdocs (s_tasks s)) = 1
        then update_first (task_filter s (t_id t)) (insert_task_set s t j) (tdocs (s_tasks s))
        else tdocs (s_tasks s) @ [inserted_task_doc s t j])"
proof -
  from assms obtain j where j: "sl_to_json lib t = Inr j"
    by (auto simp: store_insert_task_def serialize_task_def split: sum.splits)
  with assms obtain n where "on_tasks lib (retry_mongo_operation
      (c_upsert_one (sl_tasks lib) (task_filter s (t_id t)) (insert_task_set s t j)
         (inserted_task_doc s t j))) s = (Inr n, s')"
    by (auto simp: store_insert_task_def serialize_task_def dest!: st_bind_ok)
  from on_tasks_upsert [OF this] j show thesis by (intro that) auto
qed

lemma disable_effect:
  assumes "mongo_disable_task_by_id lib s task_id reason now = (Inr x, s')"
  shows "tdocs (s_tasks s') = update_all (by_task_id task_id) (auto_disable_set reason now)
           (tdocs (s_tasks s))
         \<and> (\<exists>d \<in> set (tdocs (s_tasks s)). by_task_id task_id d)
         \<and> s' = s\<lparr>s_tasks := s_tasks s'\<rparr>"
proof -
  from assms obtain n where n: "on_tasks lib (retry_mongo_operation
      (c_update_many (sl_tasks lib) (by_task_id task_id) (auto_disable_set reason now))) s
        = (Inr n, s')" and "n \<noteq> 0"
    by (auto simp: mongo_disable_task_by_id_def dest!: st_bind_ok split: if_splits)
  with on_tasks_update_many [OF n] show ?thesis
    by (auto simp: filter_empty_conv)
qed

lemma start_effect:
  assumes "store_record_execution_start lib s oid task_id started_at = (Inr h, s')"
  shows "h = \<lparr>h_execution_id = next_execution_id (s_seq s) started_at, h_started_at = started_at\<rparr>
         \<and> edocs (s_execs s') = edocs (s_execs s) @ [start_doc s oid task_id h]
         \<and> s' = s\<lparr>s_seq := h_execution_id h, s_execs := s_execs s'\<rparr>"
proof -
  let ?i = "next_execution_id (s_seq s) started_at"
  let ?h = "\<lparr>h_execution_id = ?i, h_started_at = started_at\<rparr>"
  let ?s1 = "s\<lparr>s_seq := ?i\<rparr>"
  from assms obtain x where x: "on_execs lib (retry_mongo_operation
      (c_insert_one (sl_execs lib) (start_doc ?s1 oid task_id ?h))) ?s1 = (Inr x, s')" and h: "h = ?h"
    by (auto simp: store_record_execution_start_def Let_def dest!: st_bind_ok)
  from on_execs_insert [OF x] have
    "edocs (s_execs s') = edocs (s_execs s) @ [start_doc ?s1 oid task_id ?h]"
    "s' = ?s1\<lparr>s_execs := s_execs s'\<rparr>" by auto
  moreover have "start_doc ?s1 oid task_id ?h = start_doc s oid task_id ?h"
    by (simp add: start_doc_def)
  ultimately show ?thesis using h by simp
qed

lemma has_running_effect:
  assumes "store_has_running_execution lib s task_id = (Inr b, s')"
  shows "b = (\<exists>d \<in> set (edocs (s_execs s)). running_filter s task_id d)"
proof -
  from assms obtain ds where d: "on_execs lib (retry_mongo_operation
      (c_find (sl_execs lib) (running_filter s task_id))) s = (Inr ds, s')" and b: "b = (ds \<noteq> [])"
    by (auto simp: store_has_running_execution_def dest!: st_bind_ok)
  from on_execs_find [OF d] b show ?thesis by (auto simp: filter_empty_conv)
qed

end

subsection \<open>The in-memory instance\<close>

type_synonym memory_tasks = "scheduled_task task_doc scripted"
type_synonym memory_execs = "exec_doc scripted"

definition memory_lib :: "(memory_tasks, memory_execs, scheduled_task) store_lib" where
  "memory_lib =
     \<lparr>sl_tasks = list_coll, sl_execs = list_coll, sl_error_text = (\<lambda>_. ''fault''),
      sl_access_error = (\<lambda>k. k), sl_rfc3339 = int_str, sl_to_json = Inr, sl_from_json = Inr,
      sl_cron = hourly_cron, sl_read_file = (\<lambda>_. None)\<rparr>"

interpretation ms: task_store memory_lib fst fst
  by unfold_locales (auto simp: memory_lib_def list_coll_def sort_key_desc
      dest!: scripted_ok scripted_err)

definition memory_store :: "scheduled_task task_doc list \<Rightarrow> exec_doc list \<Rightarrow>
    (memory_tasks, memory_execs) store" where
  "memory_store ts es =
     \<lparr>s_tasks = (ts, []), s_execs = (es, []), s_owner_kind = ''user'', s_owner_id = ''u1'',
      s_seq = 0\<rparr>"

definition noop_task :: "uuid \<Rightarrow> bool \<Rightarrow> scheduled_task" where
  "noop_task i e =
     \<lparr>t_id = i, t_kind = Noop, t_schedule = OneShot 5000000, t_enabled = e,
      t_created_at = 1000000, t_last_run = None\<rparr>"

lemma on_tasks_memory [simp]:
  "on_tasks memory_lib op s = (case op (s_tasks s) of (r, t) \<Rightarrow>
     (map_err (\<lambda>e. Storage ''mongodb error: fault'') r, s\<lparr>s_tasks := t\<rparr>))"
  by (simp add: on_tasks_def mongo_err_def memory_lib_def cong: prod.case_cong)
     (simp add: mongo_err_def [abs_def])

lemma on_execs_memory [simp]:
  "on_execs memory_lib op s = (case op (s_execs s) of (r, t) \<Rightarrow>
     (map_err (\<lambda>e. Storage ''mongodb error: fault'') r, s\<lparr>s_execs := t\<rparr>))"
  by (simp add: on_execs_def mongo_err_def memory_lib_def cong: prod.case_cong)
     (simp add: mongo_err_def [abs_def])

lemma memory_lib_simps [simp]:
  "sl_tasks memory_lib = list_coll" "sl_execs memory_lib = list_coll"
  "sl_to_json memory_lib = Inr" "sl_from_json memory_lib = Inr"
  "sl_cron memory_lib = hourly_cron" "sl_read_file memory_lib = (\<lambda>_. None)"
  "sl_access_error memory_lib = (\<lambda>k. k)" "sl_rfc3339 memory_lib = int_str"
  by (simp_all add: memory_lib_def)

lemma scripted_fault_free [simp]: "scripted f (ds, []) = (case f ds of (x, ds') \<Rightarrow> (Inr x, (ds', [])))"
  by (simp add: scripted_def)

lemma retry_no_fault:
  "op s = (Inr x, s') \<Longrightarrow> retry_mongo_operation op s = (Inr x, s')"
  by (simp add: retry_mongo_operation_def retry_from_ok)

lemma list_coll_simps [simp]:
  "c_find list_coll p (ds, []) = (Inr (filter p ds), (ds, []))"
  "c_update_many list_coll p u (ds, []) = (Inr (length (filter p ds)), (update_all p u ds, []))"
  "c_update_one list_coll p u (ds, []) = (Inr (any_doc p ds), (update_first p u ds, []))"
  "c_upsert_one list_coll p u d (ds, []) = (Inr (any_doc p ds),
     (if any_doc p ds = 1 then update_first p u ds else ds @ [d], []))"
  "c_insert_one list_coll d (ds, []) = (Inr (), (ds @ [d], []))"
  "c_find_desc list_coll p key (ds, []) = (Inr (sort_key (\<lambda>d. - key d) (filter p ds)), (ds, []))"
  by (simp_all add: list_coll_def)

lemma retry_list_coll [simp]:
  "retry_mongo_operation (c_find list_coll p) (ds, []) = (Inr (filter p ds), (ds, []))"
  "retry_mongo_operation (c_update_many list_coll p u) (ds, [])
     = (Inr (length (filter p ds)), (update_all p u ds, []))"
  "retry_mongo_operation (c_update_one list_coll p u) (ds, [])
     = (Inr (any_doc p ds), (update_first p u ds, []))"
  "retry_mongo_operation (c_upsert_one list_coll p u d) (ds, []) = (Inr (any_doc p ds),
     (if any_doc p ds = 1 then update_first p u ds else ds @ [d], []))"
  "retry_mongo_operation (c_insert_one list_coll d) (ds, []) = (Inr (), (ds @ [d], []))"
  by (simp_all add: retry_no_fault)

end
