(* ===== verification/Store_Properties.thy ===== *)
theory Store_Properties
  imports Store_Laws
begin

text \<open>
  The properties of the scheduler store: an automatic disable sticks, a forced replacement
  lifts it, what is inserted is read back, execution identifiers increase, and the row of an
  execution is closed once.
\<close>

subsection \<open>Automatic disabling\<close>

definition disabled_for :: "string \<Rightarrow> string \<Rightarrow> 'j task_doc \<Rightarrow> bool" where
  "disabled_for i reason d =
     (td_task_id d = Some i \<longrightarrow>
        td_enabled d = Some False \<and> td_auto_disabled_reason d = BsonVal reason)"

fun run_updates ::
    "('t, 'e, 'j) store_lib \<Rightarrow> ('t, 'e) store \<Rightarrow> scheduled_task list \<Rightarrow> ('t, 'e, unit) store_result"
where
  "run_updates lib s [] = (Inr (), s)"
| "run_updates lib s (t # ts) = st_bind (store_update_task lib s t) (\<lambda>_ s'. run_updates lib s' ts)"

lemma update_keeps_disabled_for:
  assumes "reason \<noteq> []" and "\<forall>d \<in> set ds. disabled_for i reason d"
  shows "\<forall>d \<in> set (update_all (update_task_filter t False) (update_task_set t False j) ds).
           disabled_for i reason d"
  using assms
  by (auto simp: set_update_all disabled_for_def update_task_filter_def update_task_set_def Let_def)

lemma disable_makes_disabled_for:
  "\<forall>d \<in> set (update_all (by_task_id i) (auto_disable_set reason now) ds). disabled_for i reason d"
  by (auto simp: set_update_all disabled_for_def by_task_id_def auto_disable_set_def)

context task_store
begin

lemma run_updates_keep_disabled_for:
  assumes "reason \<noteq> []"
  shows "run_updates lib s ts = (Inr x, s') \<Longrightarrow>
         \<forall>d \<in> set (tdocs (s_tasks s)). disabled_for i reason d \<Longrightarrow>
         \<forall>d \<in> set (tdocs (s_tasks s')). disabled_for i reason d"
proof (induction ts arbitrary: s)
  case Nil
  then show ?case by simp
next
  case (Cons t ts)
  from Cons.prems(1) obtain y s1 where u: "store_update_task lib s t = (Inr y, s1)"
    and r: "run_updates lib s1 ts = (Inr x, s')" by (auto dest!: st_bind_ok)
  from u obtain j where "tdocs (s_tasks s1) =
      update_all (update_task_filter t False) (update_task_set t False j) (tdocs (s_tasks s))"
    unfolding store_update_task_def by (rule update_internal_effect)
  with update_keeps_disabled_for [OF assms Cons.prems(2)]
  have "\<forall>d \<in> set (tdocs (s_tasks s1)). disabled_for i reason d" by simp
  from Cons.IH [OF r this] show ?case .
qed

lemma load_effect:
  assumes "store_load_task_by_id lib s i now = (Inr (Some task), s')"
  obtains d t0 where "d \<in> set (tdocs (s_tasks s))" "td_task_id d = Some i"
    "List.find (task_filter s i) (tdocs (s_tasks s)) = Some d"
    "res_bind (deserialize_task_document lib d)
       (apply_persisted_task_fields (sl_access_error lib) d) = Inr t0"
    "\<exists>r. maybe_repair_legacy_weekday_cron_task (sl_cron lib) (sl_read_file lib) t0 now = (Inr r, task)"
proof -
  from assms obtain ds s1 where f: "on_tasks lib (c_find (sl_tasks lib) (task_filter s i)) s = (Inr ds, s1)"
    and rest: "(case ds of [] \<Rightarrow> (Inr None, s1) | d # _ \<Rightarrow>
              (case res_bind (deserialize_task_document lib d)
                      (apply_persisted_task_fields (sl_access_error lib) d) of
                 Inl e \<Rightarrow> (Inl e, s1)
               | Inr task \<Rightarrow>
                   (case maybe_repair_legacy_weekday_cron_task (sl_cron lib) (sl_read_file lib) task now of
                      (Inl e, _) \<Rightarrow> (Inl e, s1)
                    | (Inr repaired, task') \<Rightarrow>
                        if repaired
                        then st_bind (store_update_task lib s1 task') (\<lambda>_ s2. (Inr (Some task'), s2))
                        else (Inr (Some task'), s1)))) = (Inr (Some task), s')"
    unfolding store_load_task_by_id_def by (blast dest: st_bind_ok)
  from rest obtain d ds' t0 where d: "ds = d # ds'"
    "res_bind (deserialize_task_document lib d)
       (apply_persisted_task_fields (sl_access_error lib) d) = Inr t0"
    "\<exists>r. maybe_repair_legacy_weekday_cron_task (sl_cron lib) (sl_read_file lib) t0 now = (Inr r, task)"
    by (auto split: list.splits sum.splits prod.splits if_splits dest!: st_bind_ok)
  from on_tasks_find [OF f] d(1) have fl: "filter (task_filter s i) (tdocs (s_tasks s)) = d # ds'"
    by simp
  then have "d \<in> set (filter (task_filter s i) (tdocs (s_tasks s)))" by simp
  moreover from fl have "List.find (task_filter s i) (tdocs (s_tasks s)) = Some d"
    by (simp add: find_eq_hd_filter)
  ultimately show thesis using d(2,3) by (intro that) (auto simp: task_filter_def)
qed

end

lemma apply_persisted_enabled:
  "apply_persisted_task_fields ae d t = Inr t' \<Longrightarrow> td_enabled d = Some e \<Longrightarrow> t_enabled t' = e"
  by (auto simp: apply_persisted_task_fields_def Let_def res_bind_eq_Inr
      split: option.splits bson_field.splits)

lemma repair_keeps_enabled:
  "maybe_repair_legacy_weekday_cron_task cron rf t now = (r, t') \<Longrightarrow> t_enabled t' = t_enabled t"
  by (auto simp: maybe_repair_legacy_weekday_cron_task_def Let_def
      split: task_kind.splits schedule.splits if_splits sum.splits)

text \<open>
  C1.  A task the service disabled with a reason stays disabled in every owner's copy, and a
  later load reads it as disabled, whatever ordinary updates running workers write in between
  from their in-memory copies.
\<close>

theorem auto_disable_survives_updates:
  assumes "task_store lib tdocs edocs" and "reason \<noteq> []"
    and "mongo_disable_task_by_id lib s i reason now = (Inr (), s1)"
    and "run_updates lib s1 ts = (Inr (), s2)"
  shows "(\<forall>d \<in> set (tdocs (s_tasks s2)). td_task_id d = Some i \<longrightarrow> auto_disabled d)
         \<and> (\<forall>task s3. store_load_task_by_id lib s2 i t = (Inr (Some task), s3) \<longrightarrow> \<not> t_enabled task)"
proof -
  have "\<forall>d \<in> set (tdocs (s_tasks s1)). disabled_for i reason d"
    using task_store.disable_effect [OF assms(1,3)] disable_makes_disabled_for by metis
  from task_store.run_updates_keep_disabled_for [OF assms(1,2,4) this]
  have inv: "\<forall>d \<in> set (tdocs (s_tasks s2)). disabled_for i reason d" .
  have "\<not> t_enabled task" if load: "store_load_task_by_id lib s2 i t = (Inr (Some task), s3)" for task s3
  proof -
    from load obtain d t0 r where "d \<in> set (tdocs (s_tasks s2))" "td_task_id d = Some i"
      "res_bind (deserialize_task_document lib d)
         (apply_persisted_task_fields (sl_access_error lib) d) = Inr t0"
      "maybe_repair_legacy_weekday_cron_task (sl_cron lib) (sl_read_file lib) t0 t = (Inr r, task)"
      by (rule task_store.load_effect [OF assms(1)]) blast
    with inv show ?thesis
      by (auto simp: disabled_for_def res_bind_eq_Inr dest!: repair_keeps_enabled apply_persisted_enabled)
  qed
  moreover have "\<forall>d \<in> set (tdocs (s_tasks s2)). td_task_id d = Some i \<longrightarrow> auto_disabled d"
    using inv assms(2) by (auto simp: disabled_for_def auto_disabled_def)
  ultimately show ?thesis by blast
qed

definition noop_doc :: "uuid \<Rightarrow> bool \<Rightarrow> scheduled_task task_doc" where
  "noop_doc i e = inserted_task_doc (memory_store [] []) (noop_task i e) (noop_task i e)"

theorem auto_disable_survives_updates_witness:
  "\<exists>s1 s2. mongo_disable_task_by_id memory_lib (memory_store [noop_doc ''a'' True] []) ''a'' ''stuck'' 0
             = (Inr (), s1)
         \<and> run_updates memory_lib s1 [noop_task ''a'' True] = (Inr (), s2)
         \<and> (\<forall>d \<in> set (fst (s_tasks s2)). td_task_id d = Some ''a'' \<longrightarrow> auto_disabled d)"
proof -
  let ?s0 = "memory_store [noop_doc ''a'' True] []"
  obtain s1 where 1: "mongo_disable_task_by_id memory_lib ?s0 ''a'' ''stuck'' 0 = (Inr (), s1)"
    and s1: "s1 = ?s0\<lparr>s_tasks := ([auto_disable_set ''stuck'' 0 (noop_doc ''a'' True)], [])\<rparr>"
    by (simp add: mongo_disable_task_by_id_def memory_store_def noop_doc_def by_task_id_def
        inserted_task_doc_def noop_task_def update_all_def)
  obtain s2 where 2: "run_updates memory_lib s1 [noop_task ''a'' True] = (Inr (), s2)"
    by (simp add: s1 memory_store_def store_update_task_def update_task_internal_def serialize_task_def)
  from auto_disable_survives_updates [OF ms.task_store_axioms _ 1 2] 1 2 show ?thesis by blast
qed

text \<open>
  A forced replacement (a resume or a resubmit) writes the task to every owner's copy and
  lifts an automatic disable: afterwards all copies agree with the task and none counts as
  disabled by the system.
\<close>

theorem replace_task_lifts_auto_disable:
  assumes "task_store lib tdocs edocs" and "store_replace_task lib s t = (Inr (), s')"
  shows "\<exists>j. sl_to_json lib t = Inr j
         \<and> (\<forall>d \<in> set (tdocs (s_tasks s')). td_task_id d = Some (t_id t) \<longrightarrow>
              td_enabled d = Some (t_enabled t) \<and> td_schedule d = Some (schedule_doc (t_schedule t))
              \<and> td_last_run d = last_run_field t \<and> td_task_json d = Some j
              \<and> \<not> auto_disabled d)
         \<and> map td_task_id (tdocs (s_tasks s')) = map td_task_id (tdocs (s_tasks s))"
proof -
  from assms(2) obtain j where "sl_to_json lib t = Inr j" and
    "tdocs (s_tasks s') = update_all (update_task_filter t True) (update_task_set t True j)
                            (tdocs (s_tasks s))"
    unfolding store_replace_task_def by (rule task_store.update_internal_effect [OF assms(1)])
  then show ?thesis
    by (auto simp: update_all_def update_task_filter_def update_task_set_def Let_def auto_disabled_def)
qed

theorem replace_task_lifts_auto_disable_witness:
  "\<exists>s'. store_replace_task memory_lib
          (memory_store [auto_disable_set ''stuck'' 0 (noop_doc ''a'' True)] []) (noop_task ''a'' True)
        = (Inr (), s') \<and> (\<forall>d \<in> set (fst (s_tasks s')). td_task_id d = Some ''a'' \<longrightarrow> \<not> auto_disabled d)"
proof -
  obtain s' where "store_replace_task memory_lib
      (memory_store [auto_disable_set ''stuck'' 0 (noop_doc ''a'' True)] []) (noop_task ''a'' True)
      = (Inr (), s')"
    by (simp add: memory_store_def store_replace_task_def update_task_internal_def serialize_task_def)
  from replace_task_lifts_auto_disable [OF ms.task_store_axioms this] this show ?thesis
    by (auto simp: noop_task_def)
qed

subsection \<open>Reading back\<close>

definition stored_task :: "scheduled_task \<Rightarrow> scheduled_task" where
  "stored_task t =
     t\<lparr>t_schedule := stored_schedule (t_schedule t), t_last_run := map_option bson_time (t_last_run t)\<rparr>"

text \<open>A document that carries the fields of a task decodes to the task at BSON precision.\<close>

definition carries :: "('t, 'e, 'j) store_lib \<Rightarrow> scheduled_task \<Rightarrow> 'j task_doc \<Rightarrow> bool" where
  "carries lib t d =
     (td_enabled d = Some (t_enabled t) \<and> td_last_run d = last_run_field t
      \<and> td_schedule d = Some (schedule_doc (t_schedule t))
      \<and> (\<exists>j. td_task_json d = Some j \<and> sl_from_json lib j = Inr t))"

lemma carries_decodes:
  "carries lib t d \<Longrightarrow>
   res_bind (deserialize_task_document lib d) (apply_persisted_task_fields (sl_access_error lib) d)
     = Inr (stored_task t)"
  by (cases "t_last_run t")
     (auto simp: carries_def deserialize_task_document_def apply_persisted_task_fields_def Let_def
      last_run_field_def parse_schedule_doc_schedule_doc stored_task_def)

lemma task_filter_tasks_update: "task_filter (s\<lparr>s_tasks := x\<rparr>) i = task_filter s i"
  by (simp add: task_filter_def owner_filter_def fun_eq_iff)

lemma find_after_misses: "(\<forall>x \<in> set xs. \<not> p x) \<Longrightarrow> p d \<Longrightarrow> List.find p (xs @ d # ys) = Some d"
  by (induction xs) auto

lemma find_update_first:
  assumes "\<And>d. p (u d)" and "any_doc p ds = 1"
  shows "\<exists>d. List.find p (update_first p u ds) = Some (u d)"
proof -
  from update_first_split [OF assms(2), of u] obtain xs d ys where
    "\<forall>x \<in> set xs. \<not> p x" "update_first p u ds = xs @ u d # ys" by blast
  with assms(1) find_after_misses [of xs p "u d" ys] show ?thesis by auto
qed

lemma find_snoc_new: "any_doc p ds \<noteq> 1 \<Longrightarrow> p d \<Longrightarrow> List.find p (ds @ [d]) = Some d"
  by (induction ds) (auto simp: any_doc_def split: if_splits)

context task_store
begin

lemma insert_then_find:
  assumes "store_insert_task lib s t = (Inr x, s')"
  shows "\<exists>d. List.find (task_filter s' (t_id t)) (tdocs (s_tasks s')) = Some d \<and> carries lib t d"
proof -
  from assms obtain j where j: "sl_to_json lib t = Inr j" and s': "s' = s\<lparr>s_tasks := s_tasks s'\<rparr>"
    and docs: "tdocs (s_tasks s') =
       (if any_doc (task_filter s (t_id t)) (tdocs (s_tasks s)) = 1
        then update_first (task_filter s (t_id t)) (insert_task_set s t j) (tdocs (s_tasks s))
        else tdocs (s_tasks s) @ [inserted_task_doc s t j])"
    by (rule insert_effect)
  have "(task_filter s' (t_id t) :: 'j task_doc \<Rightarrow> bool)
      = task_filter (s\<lparr>s_tasks := s_tasks s'\<rparr>) (t_id t)"
    using s' by (rule arg_cong)
  then have tf: "(task_filter s' (t_id t) :: 'j task_doc \<Rightarrow> bool) = task_filter s (t_id t)"
    by (simp add: task_filter_tasks_update)
  have cs: "carries lib t (insert_task_set s t j d)" "task_filter s (t_id t) (insert_task_set s t j d)" for d
    using json_roundtrip [OF j]
    by (simp_all add: carries_def insert_task_set_def task_filter_def owner_filter_def)
  have ci: "carries lib t (inserted_task_doc s t j)" "task_filter s (t_id t) (inserted_task_doc s t j)"
    using json_roundtrip [OF j]
    by (simp_all add: carries_def inserted_task_doc_def task_filter_def owner_filter_def)
  show ?thesis
  proof (cases "any_doc (task_filter s (t_id t)) (tdocs (s_tasks s)) = 1")
    case True
    from find_update_first [of "task_filter s (t_id t)" "insert_task_set s t j", OF cs(2) True]
      docs tf True obtain d where
      "List.find (task_filter s' (t_id t)) (tdocs (s_tasks s')) = Some (insert_task_set s t j d)" by auto
    with cs(1) show ?thesis by blast
  next
    case False
    with find_snoc_new [OF False ci(2)] ci(1) docs tf show ?thesis by auto
  qed
qed

end

text \<open>
  C34.  A task that is inserted and loaded again by its id comes back unchanged, except that
  its schedule and its last run are rounded down to the millisecond (a BSON date holds no more),
  and that the load then repairs it as it repairs any task: this can only change the cron expression
  and the next run of a \<open>RunTask\<close> with a cron schedule, and every other task comes back as just
  rounded.  Both operations succeed and nothing writes to the store in between.
\<close>

theorem insert_load_roundtrip:
  assumes "task_store lib tdocs edocs" and "store_insert_task lib s t = (Inr (), s')"
    and "store_load_task_by_id lib s' (t_id t) now = (Inr r, s'')"
  shows "\<exists>repaired t'. r = Some t'
    \<and> maybe_repair_legacy_weekday_cron_task (sl_cron lib) (sl_read_file lib)
         (t\<lparr>t_schedule := stored_schedule (t_schedule t), t_last_run := map_option bson_time (t_last_run t)\<rparr>) now
       = (Inr repaired, t')
    \<and> (t' = t\<lparr>t_schedule := stored_schedule (t_schedule t), t_last_run := map_option bson_time (t_last_run t)\<rparr>
         \<or> (\<exists>k e d e' d'. t_kind t = RunTask k \<and> t_schedule t = Cron e d
              \<and> t' = t\<lparr>t_last_run := map_option bson_time (t_last_run t), t_schedule := Cron e' d'\<rparr>))"
proof -
  from task_store.insert_then_find [OF assms(1,2)] obtain d where
    d: "List.find (task_filter s' (t_id t)) (tdocs (s_tasks s')) = Some d" "carries lib t d" by blast
  have only_cron: "t' = stored_task t \<or> (\<exists>k e d e' d'. t_kind t = RunTask k \<and> t_schedule t = Cron e d
        \<and> t' = (stored_task t)\<lparr>t_schedule := Cron e' d'\<rparr>)"
    if "maybe_repair_legacy_weekday_cron_task cron rf (stored_task t) now = (Inr b, t')" for cron rf b t'
    using that by (auto simp: maybe_repair_legacy_weekday_cron_task_def stored_task_def
        stored_schedule_def Let_def split: task_kind.splits schedule.splits if_splits sum.splits)
  show ?thesis
  proof (cases r)
    case None
    with assms(3) have "\<exists>s1. on_tasks lib (c_find (sl_tasks lib) (task_filter s' (t_id t))) s' = (Inr [], s1)"
      by (auto simp: store_load_task_by_id_def dest!: st_bind_ok
          split: list.splits sum.splits prod.splits if_splits)
    then have "filter (task_filter s' (t_id t)) (tdocs (s_tasks s')) = []"
      using task_store.on_tasks_find [OF assms(1)] by metis
    with d(1) show ?thesis by (simp add: find_eq_hd_filter)
  next
    case (Some task)
    from assms(3) Some obtain d' t0 where
      "List.find (task_filter s' (t_id t)) (tdocs (s_tasks s')) = Some d'"
      "res_bind (deserialize_task_document lib d')
         (apply_persisted_task_fields (sl_access_error lib) d') = Inr t0"
      "\<exists>r. maybe_repair_legacy_weekday_cron_task (sl_cron lib) (sl_read_file lib) t0 now = (Inr r, task)"
      by (metis task_store.load_effect [OF assms(1)])
    with d carries_decodes [OF d(2)] obtain b where
      m: "maybe_repair_legacy_weekday_cron_task (sl_cron lib) (sl_read_file lib) (stored_task t) now = (Inr b, task)"
      by auto
    from only_cron [OF m] m Some show ?thesis by (auto simp: stored_task_def)
  qed
qed

theorem insert_load_roundtrip_witness:
  "\<exists>s' s''. store_insert_task memory_lib (memory_store [] []) (noop_task ''a'' True) = (Inr (), s')
     \<and> store_load_task_by_id memory_lib s' ''a'' 0 = (Inr (Some (noop_task ''a'' True)), s'')"
proof -
  obtain s' where 1: "store_insert_task memory_lib (memory_store [] []) (noop_task ''a'' True) = (Inr (), s')"
    and s': "s' = memory_store [noop_doc ''a'' True] []"
    by (simp add: store_insert_task_def serialize_task_def memory_store_def any_doc_def noop_doc_def
        inserted_task_doc_def)
  obtain r s'' where 2: "store_load_task_by_id memory_lib s' ''a'' 0 = (Inr r, s'')"
    by (simp add: s' store_load_task_by_id_def memory_store_def noop_doc_def task_filter_def
        owner_filter_def inserted_task_doc_def noop_task_def deserialize_task_document_def
        apply_persisted_task_fields_def parse_schedule_doc_schedule_doc last_run_field_def
        maybe_repair_legacy_weekday_cron_task_def)
  have i: "t_id (noop_task ''a'' True) = ''a''" by (simp add: noop_task_def)
  from insert_load_roundtrip [OF ms.task_store_axioms 1, unfolded i, OF 2] 1 2 show ?thesis
    by (auto simp: noop_task_def stored_schedule_def time_simps)
qed

end
