(* ===== verification/Execution_Properties.thy ===== *)
theory Execution_Properties
  imports Store_Properties
begin

text \<open>
  The life of an execution row: identifiers grow, a started execution is seen as running until
  it is finished, and a finished row is changed only to repair a wrong verdict of the
  reconciliation of stale executions.
\<close>

subsection \<open>Identifiers\<close>

text \<open>The identifiers one process hands out for executions started at the given instants.\<close>

fun execution_ids :: "int \<Rightarrow> datetime list \<Rightarrow> int list" where
  "execution_ids seq [] = []"
| "execution_ids seq (t # ts) = (let i = next_execution_id seq t in i # execution_ids i ts)"

lemma next_execution_id_gt:
  "i64_min \<le> seq \<Longrightarrow> next_execution_id seq t < i64_max \<Longrightarrow> seq < next_execution_id seq t"
  by (auto simp: next_execution_id_def sat_i64_def i64_min_def i64_max_def max_def min_def
      split: if_splits)

lemma execution_ids_gt:
  "i64_min \<le> seq \<Longrightarrow> \<forall>i \<in> set (execution_ids seq ts). i < i64_max \<Longrightarrow>
   (\<forall>i \<in> set (execution_ids seq ts). seq < i) \<and> sorted_wrt (<) (execution_ids seq ts)"
proof (induction ts arbitrary: seq)
  case Nil
  then show ?case by simp
next
  case (Cons t ts)
  let ?i = "next_execution_id seq t"
  from Cons.prems have g: "seq < ?i" by (simp add: next_execution_id_gt Let_def)
  with Cons.prems(1) have "i64_min \<le> ?i" by simp
  with Cons.IH [of ?i] Cons.prems(2) g show ?case by (auto simp: Let_def)
qed

text \<open>
  Execution identifiers handed out by one process are strictly increasing, hence distinct,
  even when several executions start in the same microsecond or the clock steps back; each is
  at least its start in microseconds.  Only at the end of the 64-bit range does this fail.
\<close>

theorem execution_ids_increase:
  assumes "i64_min \<le> seq" and "\<forall>i \<in> set (execution_ids seq ts). i < i64_max"
  shows "sorted_wrt (<) (execution_ids seq ts) \<and> distinct (execution_ids seq ts)
         \<and> list_all2 (\<lambda>i t. timestamp_micros t \<le> i) (execution_ids seq ts) ts"
proof -
  have "list_all2 (\<lambda>i t. timestamp_micros t \<le> i) (execution_ids seq ts) ts"
    by (induction ts arbitrary: seq) (simp_all add: Let_def next_execution_id_def)
  with execution_ids_gt [OF assms] show ?thesis
    by (simp add: strict_sorted_iff)
qed

theorem execution_ids_increase_witness:
  "sorted_wrt (<) [7, 8, 9 :: int] \<and> execution_ids 0 [7000, 7000, 3000] = [7, 8, 9]"
proof -
  have e: "execution_ids 0 [7000, 7000, 3000] = [7, 8, 9]"
    by (simp add: next_execution_id_def sat_i64_def i64_min_def i64_max_def timestamp_micros_def)
  have "i64_min \<le> 0" and "\<forall>i \<in> set (execution_ids 0 [7000, 7000, 3000]). i < i64_max"
    unfolding e by (simp_all add: i64_min_def i64_max_def)
  from execution_ids_increase [OF this] e show ?thesis by simp
qed

subsection \<open>Starting and finishing\<close>

lemma filter_any_doc: "any_doc p ds = 0 \<longleftrightarrow> filter p ds = []"
  by (simp add: any_doc_def filter_empty_conv)

lemma number_is_Int64 [simp]: "number_is (Some (Int64 n)) k \<longleftrightarrow> n = k"
  by simp

lemma update_first_append_last:
  "any_doc p ds = 0 \<Longrightarrow> p d \<Longrightarrow> update_first p u (ds @ [d]) = ds @ [u d]"
  by (induction ds) (auto simp: any_doc_def split: if_splits)

context task_store
begin

lemma finish_running_effect:
  assumes "store_record_execution_finish lib s i h t st err = (Inr (), s')"
    and "any_doc (\<lambda>d. execution_filter s i (h_execution_id h) (h_started_at h) d
                       \<and> ed_status d = Some ''running'') (edocs (s_execs s)) = 1"
  shows "edocs (s_execs s') = update_first
           (\<lambda>d. execution_filter s i (h_execution_id h) (h_started_at h) d
                 \<and> ed_status d = Some ''running'') (finish_set t st err) (edocs (s_execs s))
         \<and> s' = s\<lparr>s_execs := s_execs s'\<rparr>"
proof -
  from assms(1) obtain n s1 where 1: "on_execs lib (retry_mongo_operation
      (c_update_one (sl_execs lib) (\<lambda>d. execution_filter s i (h_execution_id h) (h_started_at h) d
        \<and> ed_status d = Some ''running'') (finish_set t st err))) s = (Inr n, s1)"
    and rest: "n \<noteq> 0 \<Longrightarrow> s' = s1"
    unfolding store_record_execution_finish_def by (auto dest!: st_bind_ok split: if_splits)
  from on_execs_update_one [OF 1] assms(2) rest show ?thesis by simp
qed

end

text \<open>
  Once an execution is started the store reports the task as running, and finishing it with
  the handle of the start closes exactly the row that the start inserted, with the given
  instant, status and message; every other row stays as it was.
\<close>

theorem execution_start_finish:
  assumes "task_store lib tdocs edocs"
    and "store_record_execution_start lib s oid i t0 = (Inr h, s1)"
    and "\<forall>d \<in> set (edocs (s_execs s)). \<not> number_is (ed_execution_id d) (h_execution_id h)"
    and "store_record_execution_finish lib s1 i h t st err = (Inr (), s2)"
  shows "(\<forall>b s'. store_has_running_execution lib s1 i = (Inr b, s') \<longrightarrow> b)
         \<and> edocs (s_execs s2) = edocs (s_execs s) @ [finish_set t st err (start_doc s oid i h)]"
proof -
  from task_store.start_effect [OF assms(1,2)] have
    docs: "edocs (s_execs s1) = edocs (s_execs s) @ [start_doc s oid i h]"
    and s1: "s1 = s\<lparr>s_seq := h_execution_id h, s_execs := s_execs s1\<rparr>" by auto
  have own: "s_owner_kind s1 = s_owner_kind s" "s_owner_id s1 = s_owner_id s"
    by (subst s1, simp)+
  let ?p = "\<lambda>d. execution_filter s1 i (h_execution_id h) (h_started_at h) d
                 \<and> ed_status d = Some ''running''"
  have p: "?p (start_doc s oid i h)"
    by (simp add: execution_filter_def exec_owner_def start_doc_def own)
  have none: "any_doc ?p (edocs (s_execs s)) = 0"
    using assms(3) by (auto simp: any_doc_def execution_filter_def)
  have "any_doc ?p (edocs (s_execs s1)) = 1" using docs p by (auto simp: any_doc_def)
  note task_store.finish_running_effect [OF assms(1,4) this, THEN conjunct1]
  also have "edocs (s_execs s1) = edocs (s_execs s) @ [start_doc s oid i h]" by (rule docs)
  also note update_first_append_last [of ?p, OF none p]
  finally have closed: "edocs (s_execs s2)
      = edocs (s_execs s) @ [finish_set t st err (start_doc s oid i h)]" .
  have "b" if "store_has_running_execution lib s1 i = (Inr b, s')" for b s'
  proof -
    have "running_filter s1 i (start_doc s oid i h)"
      by (simp add: running_filter_def exec_owner_def start_doc_def own)
    with docs have "\<exists>d \<in> set (edocs (s_execs s1)). running_filter s1 i d" by simp
    with task_store.has_running_effect [OF assms(1) that] show ?thesis by blast
  qed
  with closed show ?thesis by blast
qed

theorem execution_start_finish_witness:
  "\<exists>h s1 s2. store_record_execution_start memory_lib (memory_store [] []) ''o1'' ''a'' 9000 = (Inr h, s1)
     \<and> store_record_execution_finish memory_lib s1 ''a'' h 12000000 ''success'' None = (Inr (), s2)
     \<and> fst (s_execs s2) = [finish_set 12000000 ''success'' None (start_doc (memory_store [] []) ''o1'' ''a'' h)]"
proof -
  define h where "h = \<lparr>h_execution_id = next_execution_id 0 9000, h_started_at = 9000\<rparr>"
  define s1 where s1: "s1 = (memory_store [] [start_doc (memory_store [] []) ''o1'' ''a'' h])
    \<lparr>s_seq := h_execution_id h\<rparr>"
  have 1: "store_record_execution_start memory_lib (memory_store [] []) ''o1'' ''a'' 9000 = (Inr h, s1)"
    by (simp add: store_record_execution_start_def Let_def memory_store_def start_doc_def h_def s1)
  obtain s2 where 2: "store_record_execution_finish memory_lib s1 ''a'' h 12000000 ''success'' None
      = (Inr (), s2)"
    by (simp add: s1 store_record_execution_finish_def memory_store_def start_doc_def any_doc_def
        execution_filter_def exec_owner_def)
  from execution_start_finish [OF ms.task_store_axioms 1 _ 2] 1 2 show ?thesis
    by (simp add: memory_store_def)
qed

subsection \<open>Closed rows\<close>

lemma update_first_changed:
  "k < length ds \<Longrightarrow> update_first p u ds ! k \<noteq> ds ! k \<Longrightarrow> p (ds ! k)"
  by (induction ds arbitrary: k) (auto simp: nth_Cons split: nat.splits if_splits)

text \<open>What the store does when no running row matched the handle of the execution.\<close>

definition finish_missed ::
    "('t, 'e, 'j) store_lib \<Rightarrow> uuid \<Rightarrow> execution_record_handle \<Rightarrow> datetime \<Rightarrow> string \<Rightarrow> string option
     \<Rightarrow> execution_row option \<Rightarrow> ('t, 'e) store \<Rightarrow> ('t, 'e, unit) store_result" where
  "finish_missed lib i h t st err existing s2 =
     (let missing =
            (Inl (Storage (''missing running execution row for task '' @ i
               @ '' execution_id='' @ int_str (h_execution_id h)
               @ '' started_at='' @ sl_rfc3339 lib (h_started_at h))), s2) in
      case existing of
        None \<Rightarrow> missing
      | Some row \<Rightarrow>
          if row_status row = ''running'' then missing
          else if should_replace_stale_reconciliation_terminal_row row st err
          then st_bind (overwrite_terminal_execution_row lib s2 (row_doc_id row) t st err)
                 (\<lambda>_ s3.
                    if should_clear_auto_disabled_reason_after_stale_replacement st err
                    then clear_auto_disabled_reason lib s3 i
                    else (Inr (), s3))
          else (Inr (), s2))"

lemma store_record_execution_finish_eq:
  "store_record_execution_finish lib s i h t st err =
     st_bind
       (on_execs lib (retry_mongo_operation
          (c_update_one (sl_execs lib)
             (\<lambda>d. execution_filter s i (h_execution_id h) (h_started_at h) d
                  \<and> ed_status d = Some ''running'')
             (finish_set t st err))) s)
       (\<lambda>matched_count s1.
          if matched_count = 0 then
            st_bind (find_execution_row lib s1 i (h_execution_id h) (h_started_at h))
              (finish_missed lib i h t st err)
          else (Inr (), s1))"
  unfolding store_record_execution_finish_def finish_missed_def ..

lemma parse_execution_row_fields:
  "parse_execution_row ae d = Inr row \<Longrightarrow>
   ed_id d = Some (row_doc_id row) \<and> ed_status d = Some (row_status row)
   \<and> ed_error_message d = row_error_message row"
  by (cases "ed_id d"; cases "ed_task_id d"; cases "ed_started_at d"; cases "ed_status d")
     (auto simp: parse_execution_row_def res_bind_eq_Inr)

context task_store
begin

lemma clear_keeps_execs:
  "clear_auto_disabled_reason lib s i = (Inr x, s') \<Longrightarrow> s_execs s' = s_execs s"
  by (auto simp: clear_auto_disabled_reason_def on_tasks_def dest!: st_bind_ok split: prod.splits)

lemma find_execution_row_effect:
  assumes "find_execution_row lib s i n t = (Inr r, s')"
  shows "edocs (s_execs s') = edocs (s_execs s)
         \<and> (\<forall>row. r = Some row \<longrightarrow> (\<exists>d \<in> set (edocs (s_execs s)).
               parse_execution_row (sl_access_error lib) d = Inr row))"
proof -
  from assms obtain ds s1 where f: "on_execs lib (retry_mongo_operation
      (c_find (sl_execs lib) (execution_filter s i n t))) s = (Inr ds, s1)"
    and rest: "(case ds of [] \<Rightarrow> (Inr None, s1)
      | d # _ \<Rightarrow> (res_bind (parse_execution_row (sl_access_error lib) d) (\<lambda>r. Inr (Some r)), s1))
      = (Inr r, s')"
    unfolding find_execution_row_def by (blast dest: st_bind_ok)
  from on_execs_find [OF f] have ds: "set ds \<subseteq> set (edocs (s_execs s))"
    and keep: "edocs (s_execs s1) = edocs (s_execs s)" by auto
  from rest keep have "edocs (s_execs s') = edocs (s_execs s)" by (auto split: list.splits)
  moreover have "\<exists>d \<in> set (edocs (s_execs s)). parse_execution_row (sl_access_error lib) d = Inr row"
    if "r = Some row" for row
    using rest ds that by (auto simp: res_bind_eq_Inr split: list.splits)
  ultimately show ?thesis by blast
qed

lemma overwrite_effect:
  assumes "overwrite_terminal_execution_row lib s oid t st err = (Inr x, s')"
  shows "edocs (s_execs s') = update_first (\<lambda>d. ed_id d = Some oid \<and> exec_owner s d)
           (finish_set t st err) (edocs (s_execs s))"
proof -
  from assms obtain n where "on_execs lib (retry_mongo_operation (c_update_one (sl_execs lib)
      (\<lambda>d. ed_id d = Some oid \<and> exec_owner s d) (finish_set t st err))) s = (Inr n, s')"
    unfolding overwrite_terminal_execution_row_def by (auto dest!: st_bind_ok)
  from on_execs_update_one [OF this] show ?thesis by blast
qed

lemma finish_closed_effect:
  assumes fin: "store_record_execution_finish lib s i h t st err = (Inr (), s')"
    and none: "any_doc (\<lambda>d. execution_filter s i (h_execution_id h) (h_started_at h) d
                        \<and> ed_status d = Some ''running'') (edocs (s_execs s)) = 0"
  shows "edocs (s_execs s') = edocs (s_execs s)
     \<or> (\<exists>d row q. d \<in> set (edocs (s_execs s)) \<and> parse_execution_row (sl_access_error lib) d = Inr row
          \<and> should_replace_stale_reconciliation_terminal_row row st err
          \<and> edocs (s_execs s') = update_first (\<lambda>d. ed_id d = Some (row_doc_id row) \<and> q d)
               (finish_set t st err) (edocs (s_execs s)))"
proof -
  let ?p = "\<lambda>d. execution_filter s i (h_execution_id h) (h_started_at h) d
                 \<and> ed_status d = Some ''running''"
  let ?find = "\<lambda>s1. find_execution_row lib s1 i (h_execution_id h) (h_started_at h)"
  from fin obtain n s1 where 1: "on_execs lib (retry_mongo_operation
        (c_update_one (sl_execs lib) ?p (finish_set t st err))) s = (Inr n, s1)"
    and rest: "n = 0 \<Longrightarrow> st_bind (?find s1) (finish_missed lib i h t st err) = (Inr (), s')"
    unfolding store_record_execution_finish_eq
    by (drule_tac st_bind_ok) (elim exE conjE, fastforce)
  from on_execs_update_one [OF 1] none have n0: "n = 0"
    and d1: "edocs (s_execs s1) = edocs (s_execs s)" by (auto simp: update_first_none)
  from st_bind_ok [OF rest [OF n0]] obtain r s2 where f0: "?find s1 = (Inr r, s2)"
    and m: "finish_missed lib i h t st err r s2 = (Inr (), s')" by blast
  from m obtain row where "r = Some row" and body: "(if should_replace_stale_reconciliation_terminal_row row st err
          then st_bind (overwrite_terminal_execution_row lib s2 (row_doc_id row) t st err)
                 (\<lambda>_ s3. if should_clear_auto_disabled_reason_after_stale_replacement st err
                         then clear_auto_disabled_reason lib s3 i else (Inr (), s3))
          else (Inr (), s2)) = (Inr (), s')"
    by (cases r) (auto simp: finish_missed_def Let_def split: if_splits)
  with f0 have f: "?find s1 = (Inr (Some row), s2)" by simp
  from find_execution_row_effect [OF f] d1 obtain d where d: "d \<in> set (edocs (s_execs s))"
    "parse_execution_row (sl_access_error lib) d = Inr row"
    and d2: "edocs (s_execs s2) = edocs (s_execs s)" by auto
  show ?thesis
  proof (cases "should_replace_stale_reconciliation_terminal_row row st err")
    case False
    with body d2 show ?thesis by simp
  next
    case True
    with body obtain s3 where o: "overwrite_terminal_execution_row lib s2 (row_doc_id row) t st err
        = (Inr (), s3)" and "s_execs s' = s_execs s3"
      by (auto dest!: st_bind_ok clear_keeps_execs split: if_splits)
    with overwrite_effect [OF o] d2 d True show ?thesis by auto
  qed
qed

end

text \<open>
  Recording the end of an execution changes a row that is no longer running in one case
  only: the row was closed as failed by the reconciliation of stale executions, and what is
  recorded is a success, a supersession, or a failure with a message of its own.  A verdict
  that an execution reported itself is final.
\<close>

theorem closed_rows_are_final:
  assumes "task_store lib tdocs edocs"
    and "distinct (map ed_id (edocs (s_execs s)))"
    and "store_record_execution_finish lib s i h t st err = (Inr (), s')"
    and "k < length (edocs (s_execs s))"
    and "edocs (s_execs s') ! k \<noteq> edocs (s_execs s) ! k"
    and "ed_status (edocs (s_execs s) ! k) \<noteq> Some ''running''"
  shows "ed_status (edocs (s_execs s) ! k) = Some ''failed''
         \<and> is_stale_reconciliation_error (ed_error_message (edocs (s_execs s) ! k))
         \<and> (st = ''success'' \<or> st = ''superseded''
            \<or> st = ''failed'' \<and> (\<exists>m. err = Some m \<and> \<not> is_stale_reconciliation_error (Some m)))"
proof -
  let ?D = "edocs (s_execs s)"
  let ?p = "\<lambda>d. execution_filter s i (h_execution_id h) (h_started_at h) d
                 \<and> ed_status d = Some ''running''"
  have "any_doc ?p ?D = 0"
  proof (rule ccontr)
    assume "any_doc ?p ?D \<noteq> 0"
    then have "any_doc ?p ?D = 1" by (simp add: any_doc_def split: if_splits)
    from task_store.finish_running_effect [OF assms(1,3) this, THEN conjunct1] assms(5)
    have "?p (?D ! k)" by (intro update_first_changed [OF assms(4), of ?p]) simp
    with assms(6) show False by simp
  qed
  from task_store.finish_closed_effect [OF assms(1,3) this] obtain d row q where
    d: "d \<in> set ?D" "parse_execution_row (sl_access_error lib) d = Inr row"
    and r: "should_replace_stale_reconciliation_terminal_row row st err"
    and u: "edocs (s_execs s') = update_first (\<lambda>d. ed_id d = Some (row_doc_id row) \<and> q d)
               (finish_set t st err) ?D" using assms(5) by fastforce
  have "update_first (\<lambda>d. ed_id d = Some (row_doc_id row) \<and> q d) (finish_set t st err) ?D ! k \<noteq> ?D ! k"
    using assms(5) unfolding u .
  from update_first_changed [OF assms(4) this] have "ed_id (?D ! k) = Some (row_doc_id row)" by simp
  with parse_execution_row_fields [OF d(2)] have "ed_id (?D ! k) = ed_id d" by simp
  moreover have "inj_on ed_id (set ?D)" using assms(2) by (simp add: distinct_map)
  moreover have "?D ! k \<in> set ?D" using assms(4) by simp
  ultimately have "?D ! k = d" using d(1) by (simp add: inj_on_def)
  with parse_execution_row_fields [OF d(2)] r show ?thesis
    by (auto simp: should_replace_stale_reconciliation_terminal_row_def split: if_splits option.splits)
qed

definition stale_row :: exec_doc where
  "stale_row =
     \<lparr>ed_id = Some ''o1'', ed_owner_kind = ''user'', ed_owner_id = ''u1'',
      ed_execution_id = Some (Int64 9), ed_task_id = Some ''a'', ed_started_at = Some 0,
      ed_finished_at = Some 1000000, ed_status = Some ''failed'',
      ed_error_message = Some ''reconciled stale running execution; lost''\<rparr>"

theorem closed_rows_are_final_witness:
  "\<exists>s'. store_record_execution_finish memory_lib (memory_store [] [stale_row]) ''a''
          \<lparr>h_execution_id = 9, h_started_at = 0\<rparr> 2000000 ''success'' None = (Inr (), s')
     \<and> fst (s_execs s') ! 0 \<noteq> stale_row \<and> is_stale_reconciliation_error (ed_error_message stale_row)"
proof -
  let ?h = "\<lparr>h_execution_id = 9, h_started_at = 0\<rparr>"
  let ?s = "memory_store [] [stale_row]"
  obtain s' where 1: "store_record_execution_finish memory_lib ?s ''a'' ?h 2000000 ''success'' None
        = (Inr (), s')"
    and s': "fst (s_execs s') = [finish_set 2000000 ''success'' None stale_row]"
    by (simp add: store_record_execution_finish_def memory_store_def stale_row_def any_doc_def
        execution_filter_def exec_owner_def find_execution_row_def parse_execution_row_def bson_i64_def
        should_replace_stale_reconciliation_terminal_row_def is_stale_reconciliation_error_def
        starts_with_def ws1_def ws2_def ws3_def overwrite_terminal_execution_row_def
        should_clear_auto_disabled_reason_after_stale_replacement_def clear_auto_disabled_reason_def
        update_all_def time_simps)
  have "fst (s_execs s') ! 0 \<noteq> fst (s_execs ?s) ! 0"
    by (simp add: s' memory_store_def finish_set_def stale_row_def)
  from closed_rows_are_final [OF ms.task_store_axioms _ 1 _ this] 1 this show ?thesis
    by (auto simp: memory_store_def stale_row_def)
qed

end
