(* ===== verification/Run_Task_Failure.thy ===== *)
theory Run_Task_Failure
  imports Reply_Context Execution_Properties
begin

text \<open>
  What \<open>scheduler/core.rs\<close> does with a failed \<open>RunTask\<close>: the class of the failure, the pause
  before the next attempt, the notice to the user (once per conversation) and the report to
  the administrator.  The channel adapters (\<open>execute_*_send\<close>), the mail client, MD5 and the
  JSON decoders are the fields of \<open>notify_lib\<close>.
\<close>

subsection \<open>Failure classes\<close>

datatype run_task_failure_class =
    Generic | AciCapacity | CodexStreamDisconnected | CodexCapacity | ContentFilter

definition run_task_failure_limit :: u32 where "run_task_failure_limit = 3"

definition run_task_failure_notice :: string where
  "run_task_failure_notice = ''We could not complete your request''"

definition run_task_transient_failure_notice :: string where
  "run_task_transient_failure_notice =
     ''We hit a temporary execution issue while working on your request. ''
     @ ''Please send your message again if you'd like us to retry.''"

definition run_task_content_filter_notice :: string where
  "run_task_content_filter_notice =
     ''Your message was blocked by the agentic employee's content filter. ''
     @ ''This can happen with certain attachments or text patterns. ''
     @ ''Please try rephrasing your request or removing attachments that might trigger safety filters.''"

fun failure_label :: "run_task_failure_class \<Rightarrow> string" where
  "failure_label Generic = ''generic''"
| "failure_label AciCapacity = ''aci_capacity_quota''"
| "failure_label CodexStreamDisconnected = ''codex_stream_disconnected''"
| "failure_label CodexCapacity = ''codex_capacity_limited''"
| "failure_label ContentFilter = ''content_filter''"

definition uses_extended_backoff :: "run_task_failure_class \<Rightarrow> bool" where
  "uses_extended_backoff c =
     (case c of AciCapacity \<Rightarrow> True | CodexStreamDisconnected \<Rightarrow> True | CodexCapacity \<Rightarrow> True
      | _ \<Rightarrow> False)"

definition should_not_retry :: "run_task_failure_class \<Rightarrow> bool" where
  "should_not_retry c = (case c of ContentFilter \<Rightarrow> True | _ \<Rightarrow> False)"


definition user_notice :: "run_task_failure_class \<Rightarrow> string" where
  "user_notice c =
     (if c = ContentFilter then run_task_content_filter_notice
      else if uses_extended_backoff c then run_task_transient_failure_notice
      else run_task_failure_notice)"

definition is_content_filter_error_text :: "string \<Rightarrow> bool" where
  "is_content_filter_error_text lowered = contains_any lowered [''content_filter'']"

definition is_aci_capacity_error_text :: "string \<Rightarrow> bool" where
  "is_aci_capacity_error_text lowered =
     (str_contains lowered ''containergroupquotareached''
      \<or> (str_contains lowered ''container group quota''
         \<and> str_contains lowered ''microsoft.containerinstance/containergroups'')
      \<or> str_contains lowered ''resource quota of container groups'')"

definition is_codex_stream_disconnect_error_text :: "string \<Rightarrow> bool" where
  "is_codex_stream_disconnect_error_text lowered =
     contains_any lowered
       [''stream disconnected before completion'', ''response.failed event received'']"

definition is_codex_capacity_error_text :: "string \<Rightarrow> bool" where
  "is_codex_capacity_error_text lowered =
     contains_any lowered
       [''the system is currently experiencing high demand'',
        ''maximum usage size allowed during peak load'', ''provisioned throughput'']"

definition classify_run_task_failure :: "string \<Rightarrow> run_task_failure_class" where
  "classify_run_task_failure error_message =
     (let lowered = to_ascii_lowercase error_message in
      if is_content_filter_error_text lowered then ContentFilter
      else if is_aci_capacity_error_text lowered then AciCapacity
      else if is_codex_stream_disconnect_error_text lowered then CodexStreamDisconnected
      else if is_codex_capacity_error_text lowered then CodexCapacity
      else Generic)"

subsection \<open>The pause before a retry\<close>

definition run_task_retry_delay :: "u32 \<Rightarrow> run_task_failure_class \<Rightarrow> duration" where
  "run_task_retry_delay retry_count failure_class =
     (let (base_secs, max_secs) =
            (if uses_extended_backoff failure_class then (180, 1800) else (30, 300 :: int));
          exponent = sat_dec retry_count;
          multiplier = sat_i64 (2 ^ unat (min exponent 10));
          s = min (sat_i64 (base_secs * multiplier)) max_secs
      in secs (max s 1))"

subsection \<open>HTML\<close>

definition escape_char :: "char \<Rightarrow> string" where
  "escape_char c =
     (if c = CHR ''&'' then ''&amp;''
      else if c = CHR ''<'' then ''&lt;''
      else if c = CHR ''>'' then ''&gt;''
      else if c = CHR 0x22 then ''&quot;''
      else if c = CHR 0x27 then ''&#39;''
      else [c])"

definition escape_html :: "string \<Rightarrow> string" where
  "escape_html v = concat (map escape_char v)"

definition build_run_task_report_html ::
    "string \<Rightarrow> uuid \<Rightarrow> run_task_task \<Rightarrow> run_task_failure_class \<Rightarrow> u32 \<Rightarrow> duration option \<Rightarrow> string
     \<Rightarrow> string" where
  "build_run_task_report_html headline task_id task failure_class retry_count retry_delay error_message =
     (let limit = nat_str (unat run_task_failure_limit);
          attempts_html =
            (case retry_delay of
               Some delay \<Rightarrow>
                 ''<p>Failed attempt: '' @ nat_str (unat retry_count) @ ''/'' @ limit
                 @ ''</p><p>Next attempt: '' @ nat_str (unat (retry_count + 1)) @ ''/'' @ limit
                 @ '' in '' @ int_str (num_seconds delay) @ '' seconds</p>''
             | None \<Rightarrow>
                 ''<p>Failed attempt: '' @ nat_str (unat retry_count) @ ''/'' @ limit
                 @ ''</p><p>Retry status: retries exhausted</p>'')
      in ''<p>'' @ escape_html headline @ ''</p><p>Task ID: '' @ escape_html task_id
         @ ''</p><p>Failure class: '' @ escape_html (failure_label failure_class) @ ''</p>''
         @ attempts_html @ ''<p>Channel: '' @ escape_html (channel_to_string (rt_channel task))
         @ ''</p><p>Runner: '' @ escape_html (rt_runner task)
         @ ''</p><p>Model: '' @ escape_html (rt_model_name task)
         @ ''</p><p>Workspace: '' @ escape_html (rt_workspace_dir task)
         @ ''</p><pre>'' @ escape_html error_message @ ''</pre>'')"

definition slack_thread_ts_from_thread_key :: "string option \<Rightarrow> string option" where
  "slack_thread_ts_from_thread_key thread_key =
     (case opt_filter (\<lambda>v. v \<noteq> []) (map_option trim thread_key) of
        None \<Rightarrow> None
      | Some raw \<Rightarrow>
          (case splitn 3 (CHR '':'') raw of
             [tag, _, thread_ts] \<Rightarrow>
               if tag = ''slack'' \<and> trim thread_ts \<noteq> [] then Some (trim thread_ts) else Some raw
           | _ \<Rightarrow> Some raw))"


subsection \<open>Properties of the pause and of the report\<close>

lemma sat_dec_mono: "a \<le> b \<Longrightarrow> sat_dec a \<le> sat_dec b" for a b :: "'w::len word"
  by (cases "b = 0") (auto simp: sat_dec_def word_le_nat_alt unat_minus_one)

lemma retry_multiplier:
  "sat_i64 (2 ^ unat (min e 10)) = 2 ^ min (unat e) 10" for e :: u32
proof -
  have u: "unat (min e 10) = min (unat e) 10" by (simp add: min_def word_le_nat_alt)
  have "(2::int) ^ min (unat e) 10 \<le> 2 ^ 10" by (rule power_increasing) simp_all
  moreover have "(1::int) \<le> 2 ^ min (unat e) 10" by simp
  ultimately show ?thesis unfolding u
    by (intro sat_i64_id) (simp_all add: i64_min_def i64_max_def del: one_le_power)
qed

lemma run_task_retry_delay_eq:
  "run_task_retry_delay n c =
     secs (if uses_extended_backoff c then min (180 * 2 ^ min (unat (sat_dec n)) 10) 1800
           else min (30 * 2 ^ min (unat (sat_dec n)) 10) 300)"
proof -
  let ?m = "2 ^ min (unat (sat_dec n)) 10 :: int"
  have "?m \<le> 2 ^ 10" by (rule power_increasing) simp_all
  moreover have one: "1 \<le> ?m" by simp
  ultimately have "sat_i64 (180 * ?m) = 180 * ?m" "sat_i64 (30 * ?m) = 30 * ?m"
    by (intro sat_i64_id; simp add: i64_min_def i64_max_def del: one_le_power)+
  moreover have "max (min (180 * ?m) 1800) 1 = min (180 * ?m) 1800"
    "max (min (30 * ?m) 300) 1 = min (30 * ?m) 300"
    using one by linarith+
  ultimately show ?thesis
    by (cases "uses_extended_backoff c")
       (simp_all only: run_task_retry_delay_def Let_def if_True if_False prod.case retry_multiplier)
qed

text \<open>
  The pause before a retry of a failed task is between 30 seconds and 5 minutes, or
  between 3 and 30 minutes when the failure was one of capacity; it never shrinks with the
  number of failures, and no count, however large, makes it overflow.
\<close>

theorem run_task_retry_delay_bounds:
  "secs (if uses_extended_backoff c then 180 else 30) \<le> run_task_retry_delay n c
   \<and> run_task_retry_delay n c \<le> secs (if uses_extended_backoff c then 1800 else 300)
   \<and> run_task_retry_delay n c \<le> run_task_retry_delay (max n m) c
   \<and> run_task_retry_delay 1 c = secs (if uses_extended_backoff c then 180 else 30)
   \<and> run_task_retry_delay 2 c = secs (if uses_extended_backoff c then 360 else 60)"
proof -
  define f where "f k = (2::int) ^ min (unat (sat_dec k)) 10" for k :: u32
  have d: "run_task_retry_delay k c = secs (if uses_extended_backoff c then min (180 * f k) 1800
             else min (30 * f k) 300)" for k
    by (simp only: run_task_retry_delay_eq f_def)
  have one: "1 \<le> f k" for k by (simp add: f_def)
  have "unat (sat_dec n) \<le> unat (sat_dec (max n m))"
    using sat_dec_mono [OF max.cobounded1 [of n m]] unfolding word_le_nat_alt .
  then have mono: "f n \<le> f (max n m)"
    unfolding f_def by (intro power_increasing) (auto simp: min_def)
  have "f 1 = 1" "f 2 = 2" by (simp_all add: f_def sat_dec_def)
  with one [of n] mono show ?thesis unfolding d secs_def by auto
qed

lemma escape_char_safe: "set (escape_char c) \<inter> {CHR ''<'', CHR ''>'', CHR 0x22, CHR 0x27} = {}"
  by (simp add: escape_char_def)

lemma escape_char_prefix_free: "escape_char a @ u = escape_char b @ v \<Longrightarrow> a = b \<and> u = v"
  by (auto simp: escape_char_def split: if_splits)

lemma escape_char_nonempty [simp]: "escape_char c \<noteq> []"
  by (simp add: escape_char_def)

lemma escape_html_Cons: "escape_html (c # s) = escape_char c @ escape_html s"
  by (simp add: escape_html_def)

lemma escape_html_inject: "escape_html a = escape_html b \<Longrightarrow> a = b"
proof (induction a arbitrary: b)
  case Nil
  then show ?case by (cases b) (simp_all add: escape_html_def)
next
  case (Cons x a)
  then show ?case
  proof (cases b)
    case Nil
    with Cons.prems show ?thesis by (simp add: escape_html_def)
  next
    case b: (Cons y b')
    with Cons.prems have "x = y \<and> escape_html a = escape_html b'"
      by (simp only: escape_html_Cons escape_char_prefix_free)
    with Cons.IH b show ?thesis by blast
  qed
qed

text \<open>
  Text that is put into a report for the administrator cannot open or close a tag or an
  attribute, and no information is lost: different texts stay different when escaped.
\<close>

theorem escape_html_safe:
  "set (escape_html s) \<inter> {CHR ''<'', CHR ''>'', CHR 0x22, CHR 0x27} = {}
   \<and> (escape_html s = escape_html t \<longleftrightarrow> s = t)
   \<and> escape_html (s @ t) = escape_html s @ escape_html t"
proof -
  have "set (escape_html s) \<inter> {CHR ''<'', CHR ''>'', CHR 0x22, CHR 0x27} = {}"
    using escape_char_safe unfolding escape_html_def set_concat set_map by blast
  then show ?thesis using escape_html_inject by (auto simp: escape_html_def)
qed


subsection \<open>Notices and reports\<close>

record send_email_params =
  ep_subject :: string
  ep_html_path :: string
  ep_attachments_dir :: string
  ep_from :: "string option"
  ep_to :: "string list"
  ep_cc :: "string list"
  ep_bcc :: "string list"
  ep_in_reply_to :: "string option"
  ep_references :: "string option"
  ep_reply_to :: "string option"

text \<open>Which adapter sends a message: the arms of the dispatch on the channel.\<close>

datatype sender =
    SlackSender | DiscordSender | TelegramSender | WhatsAppSender | WeChatSender | LarkSender
  | NotionSender | EmailSender

record notify_lib =
  nl_send :: "sender \<Rightarrow> send_reply_task \<Rightarrow> world \<Rightarrow> (scheduler_error + unit) \<times> world"
  nl_send_email :: "send_email_params \<Rightarrow> world \<Rightarrow> (string + unit) \<times> world"
  nl_md5 :: "string \<Rightarrow> string"
  nl_json :: reply_json
  nl_temp_dir :: string

fun failure_notice_sender :: "channel \<Rightarrow> sender" where
  "failure_notice_sender Slack = SlackSender"
| "failure_notice_sender Discord = DiscordSender"
| "failure_notice_sender Telegram = TelegramSender"
| "failure_notice_sender WhatsApp = WhatsAppSender"
| "failure_notice_sender WeChat = WeChatSender"
| "failure_notice_sender Lark = LarkSender"
| "failure_notice_sender Notion = NotionSender"
| "failure_notice_sender _ = EmailSender"

definition is_text_channel :: "channel \<Rightarrow> bool" where
  "is_text_channel c = (c \<in> set [Slack, Discord, Telegram, WhatsApp, WeChat, Lark, Notion])"

definition notification_sender_email :: "world \<Rightarrow> string option" where
  "notification_sender_email w =
     or_else (read_non_empty_env w ''POSTMARK_FROM_EMAIL'')
       (or_else (read_non_empty_env w ''HUMAN_APPROVAL_FROM'') (read_non_empty_env w ''ADMIN_EMAIL''))"

definition failure_dir :: "run_task_task \<Rightarrow> string" where
  "failure_dir task = path_join (rt_workspace_dir task) ''failure_notifications''"

definition failure_notice_identity :: "reply_json \<Rightarrow> world \<Rightarrow> run_task_task \<Rightarrow> string" where
  "failure_notice_identity js w task =
     (let non_blank = (\<lambda>v. opt_filter (\<lambda>s. s \<noteq> []) (map_option trim v));
          channel = ''channel:'' @ channel_to_string (rt_channel task)
      in case non_blank (rt_thread_id task) of
           Some thread_id \<Rightarrow> channel @ ''|thread:'' @ thread_id
         | None \<Rightarrow>
             (case non_blank (rc_in_reply_to (load_reply_context js w (rt_workspace_dir task))) of
                Some in_reply_to \<Rightarrow> channel @ ''|reply:'' @ in_reply_to
              | None \<Rightarrow> channel @ ''|workspace:'' @ rt_workspace_dir task))"

definition failure_notice_marker_path :: "notify_lib \<Rightarrow> world \<Rightarrow> run_task_task \<Rightarrow> string" where
  "failure_notice_marker_path lib w task =
     path_join (failure_dir task)
       (''user_notice_sent_'' @ nl_md5 lib (failure_notice_identity (nl_json lib) w task) @ ''.marker'')"

text \<open>\<open>trim_end_matches(".html")\<close>.\<close>

function trim_end_html :: "string \<Rightarrow> string" where
  "trim_end_html s = (if ends_with s ''.html'' then trim_end_html (take (length s - 5) s) else s)"
  by pat_completeness auto
termination
proof (relation "measure length")
  fix s assume "ends_with s ''.html''"
  then have "s \<noteq> []" by (auto simp: ends_with_def)
  then show "(take (length s - 5) s, s) \<in> measure length" by simp
qed simp

declare trim_end_html.simps [simp del]

definition send_admin_report ::
    "notify_lib \<Rightarrow> world \<Rightarrow> string \<Rightarrow> string \<Rightarrow> string \<Rightarrow> (scheduler_error + unit) \<times> world" where
  "send_admin_report lib w report_file_name subject html_body =
     (case read_non_empty_env w ''ADMIN_EMAIL'' of
        None \<Rightarrow> (Inr (), w)
      | Some admin_email \<Rightarrow>
     (case notification_sender_email w of
        None \<Rightarrow> (Inl (TaskFailed ''notification sender missing for admin report''), w)
      | Some from \<Rightarrow>
          let report_dir = path_join (nl_temp_dir lib) ''dowhiz_failure_reports'';
              report_path = path_join report_dir report_file_name;
              report_attachments = path_join report_dir (''attachments_'' @ trim_end_html report_file_name)
          in st_bind (io_result (fs_create_dir_all report_dir w)) (\<lambda>_ w.
             st_bind (io_result (fs_write report_path html_body w)) (\<lambda>_ w.
             st_bind (io_result (fs_create_dir_all report_attachments w)) (\<lambda>_ w.
               (case nl_send_email lib
                       \<lparr>ep_subject = subject, ep_html_path = report_path,
                        ep_attachments_dir = report_attachments, ep_from = Some from,
                        ep_to = [admin_email], ep_cc = [], ep_bcc = [], ep_in_reply_to = None,
                        ep_references = None, ep_reply_to = None\<rparr> w of
                  (r, w') \<Rightarrow> (map_err TaskFailed r, w')))))))"

definition failure_send_task ::
    "notify_lib \<Rightarrow> world \<Rightarrow> run_task_task \<Rightarrow> string \<Rightarrow> string \<Rightarrow> string \<Rightarrow> send_reply_task" where
  "failure_send_task lib w task notice notice_path notice_attachments =
     \<lparr>sr_channel = rt_channel task, sr_subject = notice, sr_html_path = notice_path,
      sr_attachments_dir = notice_attachments,
      sr_from = or_else (rt_reply_from task) (notification_sender_email w),
      sr_to = rt_reply_to task, sr_cc = [], sr_bcc = [],
      sr_in_reply_to =
        or_else (rc_in_reply_to (load_reply_context (nl_json lib) w (rt_workspace_dir task)))
          (slack_thread_ts_from_thread_key (rt_thread_id task)),
      sr_references = None, sr_archive_root = None, sr_thread_epoch = None,
      sr_thread_state_path = None, sr_employee_id = rt_employee_id task,
      sr_channel_metadata = run_normalized_channel_metadata task\<rparr>"

text \<open>The part of \<open>notify_run_task_failure\<close> that writes to the user.\<close>

definition send_failure_notice ::
    "notify_lib \<Rightarrow> world \<Rightarrow> uuid \<Rightarrow> run_task_task \<Rightarrow> string \<Rightarrow> string \<Rightarrow> string \<Rightarrow> string
     \<Rightarrow> (scheduler_error + unit) \<times> world" where
  "send_failure_notice lib w task_id task marker notice notice_path notice_attachments =
     (if rt_reply_to task = [] \<or> fs_exists w marker then (Inr (), w)
      else
        st_bind (nl_send lib (failure_notice_sender (rt_channel task))
                   (failure_send_task lib w task notice notice_path notice_attachments) w) (\<lambda>_ w.
        io_result (fs_write marker
          (''task_id='' @ task_id @ [CHR 0x0A] @ ''channel='' @ channel_to_string (rt_channel task)
           @ [CHR 0x0A] @ ''identity='' @ failure_notice_identity (nl_json lib) w task @ [CHR 0x0A]) w)))"

definition notify_run_task_failure ::
    "notify_lib \<Rightarrow> world \<Rightarrow> uuid \<Rightarrow> run_task_task \<Rightarrow> u32 \<Rightarrow> run_task_failure_class \<Rightarrow> string
     \<Rightarrow> (scheduler_error + unit) \<times> world" where
  "notify_run_task_failure lib w task_id task retry_count failure_class error_message =
     st_bind (io_result (fs_create_dir_all (failure_dir task) w)) (\<lambda>_ w.
       let marker = failure_notice_marker_path lib w task;
           notice = user_notice failure_class;
           (notice_path, notice_body) =
             (if is_text_channel (rt_channel task)
              then (path_join (failure_dir task) (''task_failure_'' @ task_id @ ''.txt''), notice)
              else (path_join (failure_dir task) (''task_failure_'' @ task_id @ ''.html''),
                    ''<p>'' @ notice @ ''</p>''));
           notice_attachments =
             path_join (failure_dir task) (''task_failure_'' @ task_id @ ''_attachments'')
       in st_bind (io_result (fs_write notice_path notice_body w)) (\<lambda>_ w.
          st_bind (io_result (fs_create_dir_all notice_attachments w)) (\<lambda>_ w.
          st_bind (send_failure_notice lib w task_id task marker notice notice_path notice_attachments)
            (\<lambda>_ w.
               send_admin_report lib w (''task_failure_'' @ task_id @ ''.html'')
                 (''Task failure: '' @ task_id @ '' ['' @ failure_label failure_class @ '']'')
                 (build_run_task_report_html notice task_id task failure_class retry_count None
                    error_message)))))"

definition notify_run_task_retry ::
    "notify_lib \<Rightarrow> world \<Rightarrow> uuid \<Rightarrow> run_task_task \<Rightarrow> u32 \<Rightarrow> duration \<Rightarrow> run_task_failure_class
     \<Rightarrow> string \<Rightarrow> (scheduler_error + unit) \<times> world" where
  "notify_run_task_retry lib w task_id task retry_count delay failure_class error_message =
     (if \<not> uses_extended_backoff failure_class then (Inr (), w)
      else send_admin_report lib w
             (''task_retry_alert_'' @ task_id @ ''_attempt_'' @ nat_str (unat retry_count) @ ''.html'')
             (''Task retry alert: '' @ task_id @ '' ['' @ failure_label failure_class @ '']'')
             (build_run_task_report_html ''Retry scheduled after a transient execution issue.''
                task_id task failure_class retry_count (Some delay) error_message))"


subsection \<open>One notice per conversation\<close>

lemma exists_after_create: "fs_create_dir_all d w = (r, w') \<Longrightarrow> fs_exists w p \<Longrightarrow> fs_exists w' p"
  by (auto simp: fs_create_dir_all_def fs_exists_def fs_is_file_def fs_is_dir_def
      split: option.splits if_splits)

lemma io_create_keeps:
  "io_result (fs_create_dir_all d w) = (Inr x, w') \<Longrightarrow> fs_exists w p \<Longrightarrow> fs_exists w' p"
  by (auto simp: io_result_ok exists_after_create)

lemma io_write_keeps:
  "io_result (fs_write f c w) = (Inr x, w') \<Longrightarrow> fs_exists w p \<Longrightarrow> fs_exists w' p"
  by (auto simp: io_result_ok fs_exists_after_write)

text \<open>The identity of a conversation with a thread does not depend on any file.\<close>

lemma identity_of_thread:
  "rt_thread_id task = Some k \<Longrightarrow> trim k \<noteq> [] \<Longrightarrow>
   failure_notice_identity js w task
     = ''channel:'' @ channel_to_string (rt_channel task) @ ''|thread:'' @ trim k"
  by (simp add: failure_notice_identity_def Let_def)

text \<open>The channel adapters and the mail client keep the files of the workspace in place.\<close>

locale notifier =
  fixes lib :: notify_lib
  assumes send_keeps: "nl_send lib k t w = (r, w') \<Longrightarrow> fs_exists w p \<Longrightarrow> fs_exists w' p"
    and email_keeps: "nl_send_email lib e w = (q, w') \<Longrightarrow> fs_exists w p \<Longrightarrow> fs_exists w' p"
begin

lemma report_keeps:
  assumes "send_admin_report lib w f subj b = (Inr x, w')" and "fs_exists w p"
  shows "fs_exists w' p"
proof (cases "read_non_empty_env w ''ADMIN_EMAIL''")
  case None
  with assms show ?thesis by (simp add: send_admin_report_def)
next
  case (Some a)
  with assms show ?thesis
    by (auto simp: send_admin_report_def Let_def dest!: st_bind_ok split: option.splits prod.splits)
       (blast dest: io_create_keeps io_write_keeps email_keeps)
qed

lemma notice_leaves_marker:
  assumes "send_failure_notice lib w i task marker n f a = (Inr x, w')"
    and "rt_reply_to task \<noteq> []"
  shows "fs_exists w' marker"
  using assms
  by (auto simp: send_failure_notice_def io_result_ok fs_exists_after_write
      dest!: st_bind_ok split: if_splits)

lemma failure_leaves_marker:
  assumes "notify_run_task_failure lib w i task n c msg = (Inr x, w')"
    and "rt_reply_to task \<noteq> []" and "rt_thread_id task = Some k" "trim k \<noteq> []"
  shows "fs_exists w' (failure_notice_marker_path lib v task)"
proof -
  have m: "failure_notice_marker_path lib u task = failure_notice_marker_path lib v task" for u
    by (simp add: failure_notice_marker_path_def identity_of_thread [OF assms(3,4)])
  from assms(1) obtain u1 y u2 t f a g subj b where
    "send_failure_notice lib u1 i task (failure_notice_marker_path lib t task) (user_notice c) f a
       = (Inr y, u2)"
    and rep: "send_admin_report lib u2 g subj b = (Inr x, w')"
    by (auto simp: notify_run_task_failure_def Let_def dest!: st_bind_ok split: if_splits)
  with notice_leaves_marker [OF _ assms(2)] have "fs_exists u2 (failure_notice_marker_path lib v task)"
    by (metis m)
  with report_keeps [OF rep] show ?thesis by blast
qed

end

lemma no_send_when_marked:
  assumes "fs_exists w marker"
  shows "send_failure_notice lib w i task marker n f a = (Inr (), w)"
  using assms by (simp add: send_failure_notice_def)


lemma st_bind_cong_ok:
  "r = r' \<Longrightarrow> (\<And>x s. r' = (Inr x, s) \<Longrightarrow> f x s = g x s) \<Longrightarrow> st_bind r f = st_bind r' g"
  by (cases r'; cases "fst r'") (auto simp: st_bind_def)

lemma nl_send_updates:
  "nl_send_email (lib\<lparr>nl_send := f\<rparr>) = nl_send_email lib"
  "nl_temp_dir (lib\<lparr>nl_send := f\<rparr>) = nl_temp_dir lib"
  "nl_md5 (lib\<lparr>nl_send := f\<rparr>) = nl_md5 lib" "nl_json (lib\<lparr>nl_send := f\<rparr>) = nl_json lib"
  by simp_all

lemma admin_report_ignores_send:
  "send_admin_report (lib\<lparr>nl_send := f\<rparr>) w = send_admin_report lib w"
  unfolding fun_eq_iff send_admin_report_def nl_send_updates by (intro allI refl)

lemma marked_never_sends:
  assumes "\<And>u. failure_notice_marker_path lib u task = marker" and "fs_exists w marker"
  shows "notify_run_task_failure (lib\<lparr>nl_send := f\<rparr>) w i task n c msg
           = notify_run_task_failure lib w i task n c msg"
proof -
  have m: "failure_notice_marker_path (lib\<lparr>nl_send := f\<rparr>) u task = marker" for u
    using assms(1) by (simp add: failure_notice_marker_path_def)
  have quiet: "send_failure_notice (lib\<lparr>nl_send := f\<rparr>) u i task marker nt p a
      = send_failure_notice lib u i task marker nt p a" if "fs_exists u marker" for u nt p a
    using that by (simp add: no_send_when_marked)
  show ?thesis
    unfolding notify_run_task_failure_def Let_def m assms(1) admin_report_ignores_send
      case_prod_unfold
    by (intro st_bind_cong_ok refl quiet)
       (elim io_create_keeps io_write_keeps, rule assms(2))
qed


text \<open>Adapters that deliver everything, and the mail client that refuses everything.\<close>

definition quiet_notify :: notify_lib where
  "quiet_notify =
     \<lparr>nl_send = (\<lambda>_ _ w. (Inr (), w)), nl_send_email = (\<lambda>_ w. (Inl ''refused'', w)),
      nl_md5 = (\<lambda>s. s), nl_json = \<lparr>rj_discord = (\<lambda>_. None), rj_slack = (\<lambda>_. None),
        rj_docs = (\<lambda>_. None), rj_postmark = (\<lambda>_. None)\<rparr>, nl_temp_dir = ''/tmp''\<rparr>"

interpretation qn: notifier quiet_notify
  by unfold_locales (simp_all add: quiet_notify_def)



end
