(* ===== verification/Scheduler_State.thy ===== *)
theory Scheduler_State
  imports Run_Task_Failure
begin

text \<open>
  The in-memory scheduler of \<open>scheduler/core.rs\<close>: its task list beside the store, and the
  operations that add, defer and disable tasks.  \<open>sy_world\<close> is the operating system, and
  \<open>sy_reconciliation_failures\<close> the process-wide counter of \<open>store/reconciliation_alert.rs\<close>.
  An operation that fails after it changed the task list leaves the change in place, as the
  code does.
\<close>

record ('t, 'e) system =
  sy_tasks :: "scheduled_task list"
  sy_store :: "('t, 'e) store"
  sy_world :: world
  sy_reconciliation_failures :: nat

type_synonym ('t, 'e, 'a) sys_result = "(scheduler_error + 'a) \<times> ('t, 'e) system"

definition on_store ::
    "(('t, 'e) store \<Rightarrow> ('t, 'e, 'a) store_result) \<Rightarrow> ('t, 'e) system \<Rightarrow> ('t, 'e, 'a) sys_result" where
  "on_store op y = (case op (sy_store y) of (r, s) \<Rightarrow> (r, y\<lparr>sy_store := s\<rparr>))"

definition on_world :: "(world \<Rightarrow> 'a \<times> world) \<Rightarrow> ('t, 'e) system \<Rightarrow> 'a \<times> ('t, 'e) system" where
  "on_world op y = (case op (sy_world y) of (r, w) \<Rightarrow> (r, y\<lparr>sy_world := w\<rparr>))"

lemma on_store_ok:
  "on_store op y = (Inr x, y') \<Longrightarrow>
   op (sy_store y) = (Inr x, sy_store y') \<and> sy_tasks y' = sy_tasks y \<and> sy_world y' = sy_world y"
  by (auto simp: on_store_def split: prod.splits)

subsection \<open>Adding tasks\<close>

text \<open>The tail every \<open>add_*\<close> function shares: push, then insert into the store.\<close>

definition push_task ::
    "('t, 'e, 'j) store_lib \<Rightarrow> ('t, 'e) system \<Rightarrow> scheduled_task \<Rightarrow> ('t, 'e, uuid) sys_result" where
  "push_task lib y task =
     st_bind (on_store (\<lambda>s. store_insert_task lib s task) (y\<lparr>sy_tasks := sy_tasks y @ [task]\<rparr>))
       (\<lambda>_ y1. (Inr (t_id task), y1))"

definition new_task :: "uuid \<Rightarrow> task_kind \<Rightarrow> schedule \<Rightarrow> datetime \<Rightarrow> scheduled_task" where
  "new_task i kind sched created_at =
     \<lparr>t_id = i, t_kind = kind, t_schedule = sched, t_enabled = True, t_created_at = created_at,
      t_last_run = None\<rparr>"

definition scheduler_load ::
    "('t, 'e, 'j) store_lib \<Rightarrow> ('t, 'e) system \<Rightarrow> ('t, 'e, unit) sys_result" where
  "scheduler_load lib y =
     (let (now, y) = on_world utc_now y in
      st_bind (on_store (\<lambda>s. store_load_tasks lib s now) y) (\<lambda>tasks y. (Inr (), y\<lparr>sy_tasks := tasks\<rparr>)))"

definition add_cron_task ::
    "('t, 'e, 'j) store_lib \<Rightarrow> ('t, 'e) system \<Rightarrow> string \<Rightarrow> task_kind \<Rightarrow> ('t, 'e, uuid) sys_result" where
  "add_cron_task lib y expression kind =
     st_bind (validate_cron_expression expression, y) (\<lambda>_ y.
     let (now, y) = on_world utc_now y in
     st_bind (next_run_after (sl_cron lib) expression now, y) (\<lambda>next_run y.
     let (i, y) = on_world new_uuid y in
     push_task lib y (new_task i kind (Cron expression next_run) now)))"

text \<open>\<open>chrono::Duration::from_std\<close> refuses what does not fit into 64 bits of milliseconds.\<close>

definition chrono_from_std :: "duration \<Rightarrow> scheduler_error + duration" where
  "chrono_from_std d = (if d \<le> millis i64_max then Inr d else Inl DurationOutOfRange)"

definition add_one_shot_in ::
    "('t, 'e, 'j) store_lib \<Rightarrow> ('t, 'e) system \<Rightarrow> duration \<Rightarrow> task_kind \<Rightarrow> ('t, 'e, uuid) sys_result" where
  "add_one_shot_in lib y delay kind =
     (let (now, y) = on_world utc_now y in
      st_bind (chrono_from_std delay, y) (\<lambda>chrono_delay y.
      let (i, y) = on_world new_uuid y in
      push_task lib y (new_task i kind (OneShot (now + chrono_delay)) now)))"

definition add_one_shot_in_with_id ::
    "('t, 'e, 'j) store_lib \<Rightarrow> ('t, 'e) system \<Rightarrow> uuid \<Rightarrow> duration \<Rightarrow> task_kind
     \<Rightarrow> ('t, 'e, unit) sys_result" where
  "add_one_shot_in_with_id lib y i delay kind =
     (let (now, y) = on_world utc_now y in
      st_bind (chrono_from_std delay, y) (\<lambda>chrono_delay y.
      st_bind (push_task lib y (new_task i kind (OneShot (now + chrono_delay)) now)) (\<lambda>_ y.
        (Inr (), y))))"

definition add_one_shot_in_if_absent_with_id ::
    "('t, 'e, 'j) store_lib \<Rightarrow> ('t, 'e) system \<Rightarrow> uuid \<Rightarrow> duration \<Rightarrow> task_kind
     \<Rightarrow> ('t, 'e, bool) sys_result" where
  "add_one_shot_in_if_absent_with_id lib y i delay kind =
     (if list_ex (\<lambda>t. t_id t = i) (sy_tasks y) then (Inr False, y)
      else st_bind (add_one_shot_in_with_id lib y i delay kind) (\<lambda>_ y. (Inr True, y)))"

definition add_one_shot_at ::
    "('t, 'e, 'j) store_lib \<Rightarrow> ('t, 'e) system \<Rightarrow> datetime \<Rightarrow> task_kind \<Rightarrow> ('t, 'e, uuid) sys_result" where
  "add_one_shot_at lib y run_at kind =
     (let (i, y) = on_world new_uuid y;
          (now, y) = on_world utc_now y
      in push_task lib y (new_task i kind (OneShot run_at) now))"

subsection \<open>Deferring and disabling\<close>

definition set_task :: "('t, 'e) system \<Rightarrow> nat \<Rightarrow> scheduled_task \<Rightarrow> ('t, 'e) system" where
  "set_task y index task = y\<lparr>sy_tasks := (sy_tasks y)[index := task]\<rparr>"

definition defer_one_shot_task_by_id ::
    "('t, 'e, 'j) store_lib \<Rightarrow> ('t, 'e) system \<Rightarrow> uuid \<Rightarrow> duration \<Rightarrow> ('t, 'e, bool) sys_result" where
  "defer_one_shot_task_by_id lib y task_id delay =
     (case position (\<lambda>t. t_id t = task_id) (sy_tasks y) of
        None \<Rightarrow> (Inr False, y)
      | Some index \<Rightarrow>
          let task = sy_tasks y ! index in
          if \<not> t_enabled task then (Inr False, y)
          else
            let effective_delay = (if delay > 0 then delay else secs 1) in
            (case t_schedule task of
               OneShot run_at \<Rightarrow>
                 let (now, y) = on_world utc_now y; deferred_until = now + effective_delay in
                 if run_at \<ge> deferred_until then (Inr False, y)
                 else
                   let task = task\<lparr>t_schedule := OneShot deferred_until\<rparr> in
                   st_bind (on_store (\<lambda>s. store_update_task lib s task) (set_task y index task))
                     (\<lambda>_ y. (Inr True, y))
             | Cron _ _ \<Rightarrow> (Inr False, y)))"

fun disable_tasks_loop ::
    "('t, 'e, 'j) store_lib \<Rightarrow> (scheduled_task \<Rightarrow> bool) \<Rightarrow> scheduled_task list \<Rightarrow> ('t, 'e) store
     \<Rightarrow> (scheduler_error + nat) \<times> scheduled_task list \<times> ('t, 'e) store" where
  "disable_tasks_loop lib p [] s = (Inr 0, [], s)"
| "disable_tasks_loop lib p (t # ts) s =
     (if \<not> t_enabled t \<or> \<not> p t then
        (case disable_tasks_loop lib p ts s of (r, ts', s') \<Rightarrow> (r, t # ts', s'))
      else
        let t' = t\<lparr>t_enabled := False\<rparr> in
        case store_update_task lib s t' of
          (Inl e, s1) \<Rightarrow> (Inl e, t' # ts, s1)
        | (Inr _, s1) \<Rightarrow>
            (case disable_tasks_loop lib p ts s1 of
               (r, ts', s') \<Rightarrow> (res_bind r (\<lambda>n. Inr (Suc n)), t' # ts', s')))"

definition disable_tasks_by ::
    "('t, 'e, 'j) store_lib \<Rightarrow> ('t, 'e) system \<Rightarrow> (scheduled_task \<Rightarrow> bool) \<Rightarrow> ('t, 'e, nat) sys_result" where
  "disable_tasks_by lib y p =
     (case disable_tasks_loop lib p (sy_tasks y) (sy_store y) of
        (r, ts, s) \<Rightarrow> (r, y\<lparr>sy_tasks := ts, sy_store := s\<rparr>))"

definition scheduler_disable_task_by_id ::
    "('t, 'e, 'j) store_lib \<Rightarrow> ('t, 'e) system \<Rightarrow> string \<Rightarrow> ('t, 'e, unit) sys_result" where
  "scheduler_disable_task_by_id lib y task_id =
     (let y1 = (case position (\<lambda>t. t_id t = task_id) (sy_tasks y) of
                  Some index \<Rightarrow> set_task y index ((sy_tasks y ! index)\<lparr>t_enabled := False\<rparr>)
                | None \<Rightarrow> y);
          (now, y2) = on_world utc_now y1
      in on_store (\<lambda>s. store_disable_task_by_id lib s task_id now) y2)"

end
