(* ===== verification/Snapshot.thy ===== *)
theory Snapshot
  imports Scheduler_State
begin

text \<open>
  \<open>scheduler/snapshot.rs\<close>: the view of the scheduler that is written for the agent before a
  task runs, and the copy of a reply draft that is kept.
\<close>

subsection \<open>The snapshot\<close>

record snapshot_task =
  st_id :: string
  st_kind :: string
  st_schedule :: schedule
  st_next_run :: datetime
  st_last_run :: "datetime option"
  st_status :: string
  st_label :: "string option"

record scheduler_snapshot =
  ss_generated_at :: datetime
  ss_window_start :: datetime
  ss_window_end :: datetime
  ss_total_enabled :: nat
  ss_due :: "snapshot_task list"
  ss_upcoming :: "snapshot_task list"
  ss_omitted_past_due :: nat
  ss_omitted_after_window :: nat

definition task_status_label :: "scheduled_task \<Rightarrow> datetime \<Rightarrow> string" where
  "task_status_label task now =
     (if \<not> t_enabled task then
        (if t_last_run task \<noteq> None then ''completed'' else ''disabled'')
      else if is_due task now then ''due'' else ''scheduled'')"

text \<open>\<open>str::is_char_boundary\<close>: the end of the text, or a byte that starts a character.\<close>

definition is_char_boundary :: "string \<Rightarrow> nat \<Rightarrow> bool" where
  "is_char_boundary v i = (i = 0 \<or> i = length v \<or> i < length v \<and> \<not> is_continuation (v ! i))"

fun boundary_at_or_before :: "string \<Rightarrow> nat \<Rightarrow> nat" where
  "boundary_at_or_before v 0 = 0"
| "boundary_at_or_before v (Suc n) =
     (if is_char_boundary v (Suc n) then Suc n else boundary_at_or_before v n)"

definition truncate_label :: "string \<Rightarrow> nat \<Rightarrow> string" where
  "truncate_label v max_len =
     (if length v \<le> max_len then v
      else take (boundary_at_or_before v (max_len - 1)) v @ ''...'')"

definition task_label :: "task_kind \<Rightarrow> string option" where
  "task_label kind =
     (case kind of
        SendReply task \<Rightarrow>
          if trim (sr_subject task) = [] then None
          else Some (truncate_label (trim (sr_subject task)) 120)
      | RunTask task \<Rightarrow>
          (case opt_filter (\<lambda>v. trim v \<noteq> []) (rt_thread_id task) of
             Some thread_id \<Rightarrow> Some (truncate_label thread_id 120)
           | None \<Rightarrow> map_option (\<lambda>n. truncate_label n 120) (path_file_name (rt_workspace_dir task)))
      | Noop \<Rightarrow> None)"

definition snapshot_task_of :: "scheduled_task \<Rightarrow> datetime \<Rightarrow> snapshot_task" where
  "snapshot_task_of task now =
     \<lparr>st_id = t_id task, st_kind = task_kind_label (t_kind task), st_schedule = t_schedule task,
      st_next_run = schedule_next_run_at (t_schedule task), st_last_run = t_last_run task,
      st_status = task_status_label task now, st_label = task_label (t_kind task)\<rparr>"

text \<open>The loop over the tasks, with the counters and the two lists it fills.\<close>

fun snapshot_loop ::
    "datetime \<Rightarrow> datetime \<Rightarrow> scheduled_task list \<Rightarrow> nat \<times> nat \<times> snapshot_task list \<times> snapshot_task list
     \<Rightarrow> nat \<times> nat \<times> snapshot_task list \<times> snapshot_task list" where
  "snapshot_loop now window_end [] acc = acc"
| "snapshot_loop now window_end (task # rest) (enabled, after, due, upcoming) =
     snapshot_loop now window_end rest
       (if \<not> t_enabled task then (enabled, after, due, upcoming)
        else if is_due task now then
          (enabled + 1, after, due @ [snapshot_task_of task now], upcoming)
        else if schedule_next_run_at (t_schedule task) > window_end then
          (enabled + 1, after + 1, due, upcoming)
        else (enabled + 1, after, due, upcoming @ [snapshot_task_of task now]))"

definition build_scheduler_snapshot :: "scheduled_task list \<Rightarrow> datetime \<Rightarrow> scheduler_snapshot" where
  "build_scheduler_snapshot tasks now =
     (let window_end = now + days 7;
          (enabled, after, due, upcoming) = snapshot_loop now window_end tasks (0, 0, [], [])
      in \<lparr>ss_generated_at = now, ss_window_start = now, ss_window_end = window_end,
          ss_total_enabled = enabled, ss_due = sort_key st_next_run due,
          ss_upcoming = sort_key st_next_run upcoming, ss_omitted_past_due = 0,
          ss_omitted_after_window = after\<rparr>)"

text \<open>\<open>to_json\<close> is serde's encoder.\<close>

definition write_scheduler_snapshot ::
    "(scheduler_snapshot \<Rightarrow> string + string) \<Rightarrow> world \<Rightarrow> string \<Rightarrow> scheduled_task list \<Rightarrow> datetime
     \<Rightarrow> (scheduler_error + unit) \<times> world" where
  "write_scheduler_snapshot to_json w workspace_dir tasks now =
     (case to_json (build_scheduler_snapshot tasks now) of
        Inl e \<Rightarrow> (Inl (Storage (''snapshot json error: '' @ e)), w)
      | Inr payload \<Rightarrow> io_result (fs_write (path_join workspace_dir ''scheduler_snapshot.json'') payload w))"

text \<open>\<open>stamp\<close> renders an instant with the format \<open>%Y%m%dT%H%M%S\<close>.\<close>

definition snapshot_reply_draft ::
    "(datetime \<Rightarrow> string) \<Rightarrow> world \<Rightarrow> run_task_task \<Rightarrow> (scheduler_error + unit) \<times> world" where
  "snapshot_reply_draft stamp w task =
     (let draft_path = path_join (rt_workspace_dir task) ''reply_email_draft.html'' in
      if \<not> fs_exists w draft_path then (Inr (), w)
      else
        let drafts_dir = path_join (rt_workspace_dir task) ''drafts'' in
        st_bind (io_result (fs_create_dir_all drafts_dir w)) (\<lambda>_ w.
        let (now, w) = utc_now w;
            filename =
              (case rt_thread_epoch task of
                 Some epoch \<Rightarrow> ''reply_email_draft_epoch_'' @ nat_str (unat epoch) @ ''_'' @ stamp now @ ''.html''
               | None \<Rightarrow> ''reply_email_draft_'' @ stamp now @ ''.html'')
        in case fs_read w draft_path of
             None \<Rightarrow> (Inl (Io (unwrap_or not_found (w_refuse w draft_path))), w)
           | Some content \<Rightarrow> io_result (fs_write (path_join drafts_dir filename) content w)))"


subsection \<open>What the snapshot shows\<close>

lemma snapshot_loop_eq:
  "snapshot_loop now window_end tasks (c, a, d, u) =
     (c + length (filter t_enabled tasks),
      a + length (filter (\<lambda>t. t_enabled t \<and> \<not> is_due t now
                              \<and> schedule_next_run_at (t_schedule t) > window_end) tasks),
      d @ map (\<lambda>t. snapshot_task_of t now) (filter (\<lambda>t. t_enabled t \<and> is_due t now) tasks),
      u @ map (\<lambda>t. snapshot_task_of t now) (filter (\<lambda>t. t_enabled t \<and> \<not> is_due t now
                              \<and> schedule_next_run_at (t_schedule t) \<le> window_end) tasks))"
  by (induction tasks arbitrary: c a d u) auto

lemma partition_count:
  "length (filter p xs) = length (filter (\<lambda>x. p x \<and> q x) xs)
     + length (filter (\<lambda>x. p x \<and> \<not> q x \<and> r x) xs) + length (filter (\<lambda>x. p x \<and> \<not> q x \<and> \<not> r x) xs)"
  by (induction xs) auto

text \<open>
  The snapshot accounts for every enabled task exactly once: due tasks, tasks of the
  coming week and tasks counted as beyond it add up to the number of enabled tasks; the two
  lists are in the order of their next run, due entries are not in the future, upcoming ones
  are, within seven days, and no entry shows a disabled task.
\<close>

theorem scheduler_snapshot_accounts:
  "let s = build_scheduler_snapshot tasks now in
     ss_total_enabled s = length (ss_due s) + length (ss_upcoming s) + ss_omitted_after_window s
     \<and> ss_total_enabled s = length (filter t_enabled tasks)
     \<and> sorted (map st_next_run (ss_due s)) \<and> sorted (map st_next_run (ss_upcoming s))
     \<and> (\<forall>x \<in> set (ss_due s). st_next_run x \<le> now \<and> st_status x = ''due'')
     \<and> (\<forall>x \<in> set (ss_upcoming s). now < st_next_run x \<and> st_next_run x \<le> now + days 7
            \<and> st_status x = ''scheduled'')
     \<and> set (map st_id (ss_due s @ ss_upcoming s))
         = {t_id t | t. t \<in> set tasks \<and> t_enabled t \<and> schedule_next_run_at (t_schedule t) \<le> now + days 7}"
proof -
  let ?late = "\<lambda>t. schedule_next_run_at (t_schedule t) > now + days 7"
  have "schedule_next_run_at (t_schedule t) \<le> now + days 7" if "is_due t now" for t
    using that by (simp add: is_due_iff time_simps)
  then show ?thesis
    using partition_count [of t_enabled tasks "\<lambda>t. is_due t now" ?late]
    by (auto simp: build_scheduler_snapshot_def Let_def snapshot_loop_eq snapshot_task_of_def
        task_status_label_def is_due_iff not_less image_iff) blast
qed

theorem scheduler_snapshot_accounts_witness:
  "ss_total_enabled (build_scheduler_snapshot [noop_task ''a'' True, noop_task ''b'' False] 0) = 1"
  using scheduler_snapshot_accounts [of "[noop_task ''a'' True, noop_task ''b'' False]" 0]
  by (simp add: Let_def noop_task_def)

lemma boundary_at_or_before_le: "boundary_at_or_before v n \<le> n"
  by (induction n) auto

lemma boundary_at_or_before_boundary: "is_char_boundary v (boundary_at_or_before v n)"
  by (induction n) (auto simp: is_char_boundary_def)

lemma boundary_here: "is_char_boundary v n \<Longrightarrow> boundary_at_or_before v n = n"
  by (cases n) auto

text \<open>
  A truncated label is cut between characters and carries three dots, and because only
  one byte is set aside for them a label of single-byte characters ends up two bytes longer
  than the limit it is given.
\<close>

theorem truncate_label_overshoots:
  assumes "max_len < length v" and "0 < max_len"
  shows "\<exists>n. truncate_label v max_len = take n v @ ''...'' \<and> is_char_boundary v n
         \<and> length (truncate_label v max_len) \<le> max_len + 2
         \<and> (\<not> is_continuation (v ! (max_len - 1)) \<longrightarrow>
              length (truncate_label v max_len) = max_len + 2)"
proof -
  let ?n = "boundary_at_or_before v (max_len - 1)"
  have t: "truncate_label v max_len = take ?n v @ ''...''"
    using assms by (simp add: truncate_label_def)
  have "?n = max_len - 1" if "\<not> is_continuation (v ! (max_len - 1))"
    using that assms by (intro boundary_here) (auto simp: is_char_boundary_def)
  then show ?thesis
    using t boundary_at_or_before_le [of v "max_len - 1"] boundary_at_or_before_boundary assms
    by (intro exI [of _ ?n]) auto
qed

theorem truncate_label_overshoots_witness:
  "truncate_label ''abcdef'' 5 = ''abcd...'' \<and> length (truncate_label ''abcdef'' 5) = 5 + 2"
proof -
  have "\<not> is_continuation (''abcdef'' ! (5 - 1))" by (simp add: is_continuation_def)
  with truncate_label_overshoots [of 5 "''abcdef''"]
  have "length (truncate_label ''abcdef'' 5) = 5 + 2" by auto
  moreover have "truncate_label ''abcdef'' 5 = ''abcd...''"
    by (simp add: truncate_label_def eval_nat_numeral is_char_boundary_def is_continuation_def)
  ultimately show ?thesis by blast
qed

end
