(* ===== verification/Thread_State.thy ===== *)
theory Thread_State
  imports World
begin

text \<open>
  \<open>thread_state.rs\<close>: the epoch of a conversation, kept in a JSON file of the workspace, and the
  comparison of \<open>scheduler/actions.rs\<close> by which a task that was started for an older message
  is recognised.  The JSON codec and the text of a time stamp are parameters.
\<close>

record thread_state =
  ts_thread_id :: string
  ts_epoch :: u64
  ts_last_email_seq :: u64
  ts_last_message_id :: "string option"
  ts_updated_at :: string

record thread_codec =
  tc_to_json :: "thread_state \<Rightarrow> string + string"
  tc_from_json :: "string \<Rightarrow> thread_state option"
  tc_rfc3339 :: "datetime \<Rightarrow> string"

definition thread_state_new :: "thread_codec \<Rightarrow> datetime \<Rightarrow> string \<Rightarrow> string option \<Rightarrow> thread_state" where
  "thread_state_new tc now thread_id message_id =
     \<lparr>ts_thread_id = thread_id, ts_epoch = 1, ts_last_email_seq = 1,
      ts_last_message_id = message_id, ts_updated_at = tc_rfc3339 tc now\<rparr>"

definition thread_state_bump ::
    "thread_codec \<Rightarrow> datetime \<Rightarrow> thread_state \<Rightarrow> string option \<Rightarrow> thread_state" where
  "thread_state_bump tc now st message_id =
     st\<lparr>ts_epoch := sat_inc (ts_epoch st), ts_last_email_seq := sat_inc (ts_last_email_seq st),
        ts_last_message_id := message_id, ts_updated_at := tc_rfc3339 tc now\<rparr>"

definition load_thread_state :: "thread_codec \<Rightarrow> world \<Rightarrow> string \<Rightarrow> thread_state option" where
  "load_thread_state tc w path = Option.bind (fs_read w path) (tc_from_json tc)"

definition write_thread_state ::
    "thread_codec \<Rightarrow> string \<Rightarrow> thread_state \<Rightarrow> world \<Rightarrow> (string + unit) \<times> world" where
  "write_thread_state tc path st w =
     st_bind (case path_parent path of
                Some parent \<Rightarrow> fs_create_dir_all parent w
              | None \<Rightarrow> (Inr (), w)) (\<lambda>_ w.
     st_bind (tc_to_json tc st, w) (\<lambda>serialized w.
       fs_write path serialized w))"

definition bump_thread_state ::
    "thread_codec \<Rightarrow> string \<Rightarrow> string \<Rightarrow> string option \<Rightarrow> world \<Rightarrow> (string + thread_state) \<times> world" where
  "bump_thread_state tc path thread_id message_id w =
     (let (st, w) =
            (case load_thread_state tc w path of
               Some st \<Rightarrow> (st, w)
             | None \<Rightarrow> (case utc_now w of (now, w) \<Rightarrow> (thread_state_new tc now thread_id message_id, w)));
          (now, w) = utc_now w;
          st = (if ts_thread_id st \<noteq> thread_id then thread_state_new tc now thread_id message_id
                else if ts_epoch st = 0 \<or> ts_last_email_seq st = 0 then
                  st\<lparr>ts_epoch := 1, ts_last_email_seq := 1, ts_last_message_id := message_id,
                     ts_updated_at := tc_rfc3339 tc now\<rparr>
                else thread_state_bump tc now st message_id)
      in st_bind (write_thread_state tc path st w) (\<lambda>_ w. (Inr st, w)))"

definition current_thread_epoch :: "thread_codec \<Rightarrow> world \<Rightarrow> string \<Rightarrow> u64 option" where
  "current_thread_epoch tc w path = map_option ts_epoch (load_thread_state tc w path)"

definition default_thread_state_path :: "string \<Rightarrow> string" where
  "default_thread_state_path workspace_dir = path_join workspace_dir ''thread_state.json''"

definition thread_epoch_matches :: "thread_codec \<Rightarrow> world \<Rightarrow> run_task_task \<Rightarrow> bool" where
  "thread_epoch_matches tc w task =
     (case rt_thread_epoch task of
        None \<Rightarrow> True
      | Some expected \<Rightarrow>
          let state_path = unwrap_or (default_thread_state_path (rt_workspace_dir task))
                             (rt_thread_state_path task)
          in case current_thread_epoch tc w state_path of
               Some current \<Rightarrow> current = expected
             | None \<Rightarrow> True)"

subsection \<open>The nearest state file\<close>

lemma length_path_parent: "path_parent p = Some q \<Longrightarrow> length q < length p"
proof -
  assume a: "path_parent p = Some q"
  define d where "d = rev (drop 1 (dropWhile (\<lambda>c. c \<noteq> CHR ''/'') (rev p)))"
  from a have p: "p \<noteq> []" "p \<noteq> ''/''" and q: "q = (if d = [] \<and> starts_with p ''/'' then ''/'' else d)"
    by (auto simp: path_parent_def d_def Let_def split: if_splits)
  have "length (dropWhile (\<lambda>c. c \<noteq> CHR ''/'') (rev p)) \<le> length p"
    using length_dropWhile_le [of _ "rev p"] by simp
  then have "length d < length p" using p(1) by (simp add: d_def) (cases p, auto)
  moreover have "1 < length p" if "starts_with p ''/''"
    using that p(2) by (cases p; cases "tl p") (auto simp: starts_with_def)
  ultimately show ?thesis using q by auto
qed

function find_thread_state_path :: "world \<Rightarrow> string \<Rightarrow> string option" where
  "find_thread_state_path w path =
     (let candidate = path_join path ''thread_state.json'' in
      if fs_exists w candidate then Some candidate
      else case path_parent path of
             None \<Rightarrow> None
           | Some parent \<Rightarrow> find_thread_state_path w parent)"
  by pat_completeness auto
termination
  by (relation "measure (\<lambda>(w, p). length p)") (auto simp: length_path_parent)

declare find_thread_state_path.simps [simp del]


subsection \<open>Epochs only grow\<close>

text \<open>The epochs a sequence of messages of one conversation is given.\<close>

fun run_bumps ::
    "thread_codec \<Rightarrow> string \<Rightarrow> string \<Rightarrow> string option list \<Rightarrow> world \<Rightarrow> (string + u64 list) \<times> world" where
  "run_bumps tc path tid [] w = (Inr [], w)"
| "run_bumps tc path tid (m # ms) w =
     st_bind (bump_thread_state tc path tid m w) (\<lambda>st w.
     st_bind (run_bumps tc path tid ms w) (\<lambda>es w. (Inr (ts_epoch st # es), w)))"

locale thread_store =
  fixes tc :: thread_codec
  assumes codec: "tc_to_json tc st = Inr j \<Longrightarrow> tc_from_json tc j = Some st"
begin

lemma write_then_load:
  assumes "write_thread_state tc path st w = (Inr x, w')"
  shows "load_thread_state tc w' path = Some st"
  using assms
  by (auto simp: write_thread_state_def load_thread_state_def fs_read_after_write codec
      dest!: st_bind_ok split: option.splits)

lemma bump_effect:
  assumes "bump_thread_state tc path tid m w = (Inr st, w')"
  shows "load_thread_state tc w' path = Some st \<and> ts_thread_id st = tid
         \<and> ts_epoch st \<noteq> 0 \<and> ts_last_email_seq st \<noteq> 0
         \<and> (\<forall>st0. load_thread_state tc w path = Some st0 \<longrightarrow> ts_thread_id st0 = tid \<longrightarrow>
              ts_last_email_seq st0 \<noteq> 0 \<longrightarrow> ts_epoch st0 \<noteq> - 1 \<longrightarrow> ts_epoch st0 < ts_epoch st)"
proof -
  from assms obtain u where "write_thread_state tc path st u = (Inr (), w')"
    by (auto simp: bump_thread_state_def Let_def split: prod.splits dest!: st_bind_ok)
  then have l: "load_thread_state tc w' path = Some st" by (rule write_then_load)
  from assms have "ts_thread_id st = tid \<and> ts_epoch st \<noteq> 0 \<and> ts_last_email_seq st \<noteq> 0"
    by (auto simp: bump_thread_state_def Let_def thread_state_new_def thread_state_bump_def
        sat_inc_nonzero split: prod.splits option.splits if_splits dest!: st_bind_ok)
  moreover have "ts_epoch st0 < ts_epoch st" if "load_thread_state tc w path = Some st0"
    "ts_thread_id st0 = tid" "ts_last_email_seq st0 \<noteq> 0" "ts_epoch st0 \<noteq> - 1" for st0
    using assms that
    by (auto simp: bump_thread_state_def Let_def thread_state_bump_def sat_inc_gt
        split: prod.splits if_splits dest!: st_bind_ok)
  ultimately show ?thesis using l by blast
qed

lemma run_bumps_grow:
  assumes "run_bumps tc path tid ms w = (Inr es, w')"
    and "load_thread_state tc w path = Some st0" "ts_thread_id st0 = tid"
    and "ts_last_email_seq st0 \<noteq> 0" "ts_epoch st0 \<noteq> - 1" "- 1 \<notin> set es"
  shows "sorted_wrt (<) (ts_epoch st0 # es)
         \<and> current_thread_epoch tc w' path = Some (last (ts_epoch st0 # es))"
  using assms
proof (induction ms arbitrary: w st0 es)
  case Nil
  then show ?case by (simp add: current_thread_epoch_def)
next
  case (Cons m ms)
  from Cons.prems(1) obtain st w1 es1 where b: "bump_thread_state tc path tid m w = (Inr st, w1)"
    and r: "run_bumps tc path tid ms w1 = (Inr es1, w')" and es: "es = ts_epoch st # es1"
    by (auto dest!: st_bind_ok)
  from bump_effect [OF b] Cons.prems(2-5) have n: "load_thread_state tc w1 path = Some st"
    "ts_thread_id st = tid" "ts_last_email_seq st \<noteq> 0" "ts_epoch st0 < ts_epoch st" by auto
  have "ts_epoch st \<noteq> - 1" "- 1 \<notin> set es1" using Cons.prems(6) es by auto
  from Cons.IH [OF r n(1-3) this] n(4) show ?case unfolding es by auto
qed

end

text \<open>
  C36.  Each message of a conversation gets an epoch larger than all before it, and a task
  started for an earlier message is recognised as stale after any later one, while the task
  of the latest message still matches; the bound is the end of the 64-bit range.
\<close>

theorem thread_epochs_order_messages:
  assumes "thread_store tc" and "run_bumps tc path tid (m # ms) w = (Inr es, w')"
    and "- 1 \<notin> set es"
    and "rt_thread_epoch task = Some e" and "e \<in> set es"
    and "unwrap_or (default_thread_state_path (rt_workspace_dir task)) (rt_thread_state_path task) = path"
  shows "sorted_wrt (<) es \<and> (thread_epoch_matches tc w' task \<longleftrightarrow> e = last es)"
proof -
  from assms(2) obtain st w1 es1 where b: "bump_thread_state tc path tid m w = (Inr st, w1)"
    and r: "run_bumps tc path tid ms w1 = (Inr es1, w')" and es: "es = ts_epoch st # es1"
    by (auto dest!: st_bind_ok)
  from thread_store.bump_effect [OF assms(1) b] have
    n: "load_thread_state tc w1 path = Some st" "ts_thread_id st = tid" "ts_last_email_seq st \<noteq> 0" by auto
  have "ts_epoch st \<noteq> - 1" "- 1 \<notin> set es1" using assms(3) es by auto
  from thread_store.run_bumps_grow [OF assms(1) r n this] es
  have "sorted_wrt (<) es" "current_thread_epoch tc w' path = Some (last es)" by auto
  with assms(4-6) show ?thesis by (auto simp: thread_epoch_matches_def Let_def)
qed

text \<open>A codec that keeps the numbers of a state with the empty message id.\<close>

definition pair_codec :: thread_codec where
  "pair_codec =
     \<lparr>tc_to_json = (\<lambda>st. if ts_last_message_id st = None \<and> ts_updated_at st = [] \<and> ts_thread_id st = ''k''
        \<and> ts_last_email_seq st = ts_epoch st then Inr (nat_str (unat (ts_epoch st))) else Inl ''unsupported''),
      tc_from_json = (\<lambda>j. map_option (\<lambda>n. \<lparr>ts_thread_id = ''k'', ts_epoch = word_of_nat n,
        ts_last_email_seq = word_of_nat n, ts_last_message_id = None, ts_updated_at = []\<rparr>) (parse_nat j)),
      tc_rfc3339 = (\<lambda>_. [])\<rparr>"

interpretation pc: thread_store pair_codec
  by unfold_locales (auto simp: pair_codec_def parse_nat_nat_str split: if_splits)


theorem thread_epochs_order_messages_witness:
  "\<exists>w'. run_bumps pair_codec ''/w/thread_state.json'' ''k'' [None, None] (plain_world [''/w'']) = (Inr [2, 3], w')
     \<and> \<not> thread_epoch_matches pair_codec w' (slack_run_task\<lparr>rt_thread_epoch := Some 2\<rparr>)"
proof -
  let ?task = "slack_run_task\<lparr>rt_thread_epoch := Some 2\<rparr>"
  have p: "path_parent ''/w/thread_state.json'' = Some ''/w''"
    by (simp add: path_parent_def starts_with_def)
  obtain w' where 1: "run_bumps pair_codec ''/w/thread_state.json'' ''k'' [None, None] (plain_world [''/w''])
      = (Inr [2, 3], w')"
    by (simp add: bump_thread_state_def load_thread_state_def fs_read_def plain_world_def utc_now_def
        thread_state_new_def thread_state_bump_def write_thread_state_def p fs_create_dir_all_def
        path_ancestors_def fs_is_file_def fs_write_def fs_parent_exists_def fs_is_dir_def pair_codec_def
        parse_nat_nat_str sat_inc_def)
  have d: "unwrap_or (default_thread_state_path (rt_workspace_dir ?task)) (rt_thread_state_path ?task)
      = ''/w/thread_state.json''"
    by (simp add: default_thread_state_path_def path_join_def path_is_absolute_def starts_with_def
        ends_with_def slack_run_task_def)
  from thread_epochs_order_messages [OF pc.thread_store_axioms 1 _ _ _ d] 1 show ?thesis by simp
qed

end
