(* ===== verification/Reply_Guards.thy ===== *)
theory Reply_Guards
  imports Scheduler_State Thread_State "HOL-Library.Multiset"
begin

text \<open>
  The checks of \<open>scheduler/actions.rs\<close> between a finished agent run and its reply: which
  recipients an agent may route a reply to, which paths it may name, whether the reply would
  leak a secret of the workspace, and whether the sender is one of the service's own agents.

  The account service, the JSON decoders, the employee directory and Unicode lower casing
  are the fields of \<open>guard_lib\<close>.
\<close>

record account_identifier =
  ai_identifier :: string
  ai_verified :: bool

record reply_routing =
  rr_channel :: string
  rr_identifier :: string

record guard_lib =
  gl_lookup_identifier :: "string \<Rightarrow> string \<Rightarrow> uuid option"
  gl_lookup_channel :: "channel \<Rightarrow> string \<Rightarrow> uuid option"
  gl_list_identifiers :: "(uuid \<Rightarrow> string + account_identifier list) option"
  gl_routing_json :: "string \<Rightarrow> reply_routing option"
  gl_mail_from_json :: "string \<Rightarrow> string option option"
  gl_extract_emails :: "string \<Rightarrow> string list"
  gl_employee_addresses :: "world \<Rightarrow> string list"
  gl_to_lowercase :: "string \<Rightarrow> string"

subsection \<open>Routing\<close>

definition load_reply_routing :: "guard_lib \<Rightarrow> world \<Rightarrow> string \<Rightarrow> reply_routing option" where
  "load_reply_routing gl w workspace_dir =
     Option.bind (fs_read w (path_join workspace_dir ''reply_routing.json'')) (gl_routing_json gl)"

definition parse_channel :: "string \<Rightarrow> channel option" where
  "parse_channel channel_str =
     map_of [(''email'', Email), (''slack'', Slack), (''discord'', Discord),
             (''telegram'', Telegram), (''sms'', Sms), (''whatsapp'', WhatsApp),
             (''bluebubbles'', BlueBubbles), (''wechat'', WeChat), (''wechat_mp'', WeChatMp),
             (''wechatmp'', WeChatMp), (''zoom'', Zoom)] (to_lowercase channel_str)"

definition is_routing_identifier_allowed :: "guard_lib \<Rightarrow> run_task_task \<Rightarrow> string \<Rightarrow> bool" where
  "is_routing_identifier_allowed gl task identifier =
     (let account_id =
            (case (rt_requester_identifier_type task, rt_requester_identifier task) of
               (Some id_type, Some id_value) \<Rightarrow> gl_lookup_identifier gl id_type id_value
             | _ \<Rightarrow> None)
      in case account_id of
           None \<Rightarrow> identifier \<in> set (rt_reply_to task)
         | Some account_id \<Rightarrow>
             (case gl_list_identifiers gl of
                None \<Rightarrow> identifier \<in> set (rt_reply_to task)
              | Some list_identifiers \<Rightarrow>
                  (case list_identifiers account_id of
                     Inl _ \<Rightarrow> identifier \<in> set (rt_reply_to task)
                   | Inr identifiers \<Rightarrow>
                       list_ex (\<lambda>i. ai_verified i
                          \<and> gl_to_lowercase gl (ai_identifier i) = gl_to_lowercase gl identifier)
                         identifiers)))"

subsection \<open>Paths named by the agent\<close>

definition resolve_rel_path :: "string \<Rightarrow> string \<Rightarrow> string option" where
  "resolve_rel_path root raw =
     (let rel = trim raw in
      if rel = [] \<or> path_is_absolute rel \<or> ''..'' \<in> set (path_comps rel) then None
      else Some (path_join root rel))"

subsection \<open>Secrets of the workspace\<close>

definition secret_guard_message :: string where
  "secret_guard_message =
     ''For security, I cannot send content that appears to contain credentials or secret tokens. ''
     @ ''Please resend the request without asking to expose secrets.''"

definition secret_env_key_markers :: "string list" where
  "secret_env_key_markers =
     [''PASSWORD'', ''SECRET'', ''TOKEN'', ''API_KEY'', ''PRIVATE_KEY'', ''ACCESS_KEY'',
      ''REFRESH_TOKEN'', ''CLIENT_SECRET'', ''AUTH'', ''CREDENTIAL'']"

definition ascii_upper :: "char \<Rightarrow> char" where
  "ascii_upper c =
     (let n = (of_char c :: nat) in if 97 \<le> n \<and> n \<le> 122 then char_of (n - 32) else c)"

definition is_sensitive_env_key :: "string \<Rightarrow> bool" where
  "is_sensitive_env_key key = contains_any (map ascii_upper (trim key)) secret_env_key_markers"

definition trim_env_value :: "string \<Rightarrow> string" where
  "trim_env_value raw =
     (let trimmed = trim raw in
      if length trimmed \<ge> 2
         \<and> (hd trimmed = CHR 0x22 \<and> last trimmed = CHR 0x22
            \<or> hd trimmed = CHR 0x27 \<and> last trimmed = CHR 0x27)
      then butlast (tl trimmed) else trimmed)"

text \<open>One line of the environment file: the key and value of a secret it defines.\<close>

definition secret_of_line :: "string \<Rightarrow> (string \<times> string) option" where
  "secret_of_line line =
     (let trimmed = trim line in
      if trimmed = [] \<or> starts_with trimmed ''#'' then None
      else
        let entry = (case strip_prefix ''export '' trimmed of Some r \<Rightarrow> trim r | None \<Rightarrow> trimmed) in
        case splitn 2 (CHR ''='') entry of
          [raw_key, raw_value] \<Rightarrow>
            (let key = trim raw_key; v = trim_env_value raw_value in
             if key = [] \<or> \<not> is_sensitive_env_key key \<or> length v < 8 then None
             else Some (key, v))
        | _ \<Rightarrow> None)"

fun first_of_each_value :: "string set \<Rightarrow> (string \<times> string) list \<Rightarrow> (string \<times> string) list" where
  "first_of_each_value seen [] = []"
| "first_of_each_value seen ((k, v) # rest) =
     (if v \<in> seen then first_of_each_value seen rest
      else (k, v) # first_of_each_value (insert v seen) rest)"

definition collect_sensitive_workspace_secret_values :: "world \<Rightarrow> string \<Rightarrow> (string \<times> string) list" where
  "collect_sensitive_workspace_secret_values w workspace_dir =
     (case fs_read_to_string w (path_join workspace_dir ''.env'') of
        None \<Rightarrow> []
      | Some content \<Rightarrow> first_of_each_value {} (List.map_filter secret_of_line (str_lines content)))"

definition secret_scan_max_bytes :: nat where "secret_scan_max_bytes = 512 * 1024"

definition find_secret_in_file :: "world \<Rightarrow> string \<Rightarrow> (string \<times> string) list \<Rightarrow> string option" where
  "find_secret_in_file w path secrets =
     (case fs_read w path of
        None \<Rightarrow> None
      | Some content \<Rightarrow>
          if length content > secret_scan_max_bytes then None
          else map_option fst (List.find (\<lambda>s. str_contains content (snd s)) secrets))"

fun scan_entries ::
    "world \<Rightarrow> (string \<times> string) list \<Rightarrow> string list \<Rightarrow> string list \<Rightarrow> (string \<times> string) + string list" where
  "scan_entries w secrets [] stack = Inr stack"
| "scan_entries w secrets (path # rest) stack =
     (if fs_is_dir w path then scan_entries w secrets rest (path # stack)
      else case find_secret_in_file w path secrets of
             Some key \<Rightarrow> Inl (path, key)
           | None \<Rightarrow> scan_entries w secrets rest stack)"

text \<open>The loop over the stack of directories, its top first.\<close>

function scan_stack :: "world \<Rightarrow> (string \<times> string) list \<Rightarrow> string list \<Rightarrow> (string \<times> string) option" where
  "scan_stack w secrets [] = None"
| "scan_stack w secrets (dir # stack) =
     (case fs_read_dir w dir of
        None \<Rightarrow> scan_stack w secrets stack
      | Some entries \<Rightarrow>
          (case scan_entries w secrets entries stack of
             Inl found \<Rightarrow> Some found
           | Inr stack' \<Rightarrow> scan_stack w secrets stack'))"
  by pat_completeness auto

text \<open>A directory is replaced by longer ones, and there are finitely many lengths.\<close>

definition depth_left :: "world \<Rightarrow> string \<Rightarrow> nat" where
  "depth_left w d = Suc (foldr max (map length (w_dirs w)) 0) - length d"

lemma length_le_max: "d \<in> set (w_dirs w) \<Longrightarrow> length d \<le> foldr max (map length (w_dirs w)) 0"
proof -
  have "d \<in> set ds \<Longrightarrow> length d \<le> foldr max (map length ds) 0" for ds :: "string list"
    by (induction ds) (auto simp: max_def)
  then show "d \<in> set (w_dirs w) \<Longrightarrow> ?thesis" .
qed

lemma scan_entries_stack:
  "scan_entries w secrets es stack = Inr stack' \<Longrightarrow>
   \<exists>ds. stack' = ds @ stack \<and> set ds \<subseteq> set es \<and> (\<forall>d \<in> set ds. fs_is_dir w d)"
proof (induction w secrets es stack rule: scan_entries.induct)
  case (2 w secrets path rest stack)
  show ?case
  proof (cases "fs_is_dir w path")
    case True
    with 2 obtain ds where "stack' = ds @ path # stack" "set ds \<subseteq> set rest" "\<forall>d \<in> set ds. fs_is_dir w d"
      by auto
    with True show ?thesis by (intro exI [of _ "ds @ [path]"]) auto
  next
    case False
    with 2 show ?thesis by (auto split: option.splits)
  qed
qed auto

termination scan_stack
proof (relation "inv_image (mult less_than) (\<lambda>(w, s, stack). mset (map (depth_left w) stack))", goal_cases)
  case 1
  show ?case by (simp add: wf_mult)
next
  case (2 w secrets dir stack)
  show ?case by (simp add: subset_implies_mult)
next
  case (3 w secrets dir stack entries stack')
  from 3(2) obtain ds where ds: "stack' = ds @ stack" "set ds \<subseteq> set entries" "\<forall>d \<in> set ds. fs_is_dir w d"
    using scan_entries_stack by blast
  have dir: "dir \<in> set (w_dirs w)" using 3(1) by (auto simp: fs_read_dir_def fs_is_dir_def split: if_splits)
  have less: "depth_left w d < depth_left w dir" if "d \<in> set ds" for d
  proof -
    from that ds 3(1) have "length dir < length d" and "d \<in> set (w_dirs w)"
      by (auto simp: fs_read_dir_def fs_is_dir_def length_path_parent split: if_splits)
    with length_le_max [of d w] show ?thesis by (simp add: depth_left_def)
  qed
  have "(mset (map (depth_left w) stack) + mset (map (depth_left w) ds),
         mset (map (depth_left w) stack) + {#depth_left w dir#}) \<in> mult less_than"
    by (rule one_step_implies_mult) (use less in auto)
  then show ?case by (simp add: ds(1) add.commute)
qed


definition find_secret_in_dir :: "world \<Rightarrow> string \<Rightarrow> (string \<times> string) list \<Rightarrow> (string \<times> string) option" where
  "find_secret_in_dir w dir secrets = (if \<not> fs_exists w dir then None else scan_stack w secrets [dir])"

definition is_html_channel :: "channel \<Rightarrow> bool" where
  "is_html_channel c = (c \<in> set [Email, GoogleDocs, GoogleSheets, GoogleSlides])"

definition guard_reply_text :: "channel \<Rightarrow> string" where
  "guard_reply_text channel =
     (if is_html_channel channel
      then ''<!DOCTYPE html><html><body><p>'' @ secret_guard_message @ ''</p></body></html>''
      else secret_guard_message)"

definition write_secret_guard_reply :: "string \<Rightarrow> channel \<Rightarrow> world \<Rightarrow> world" where
  "write_secret_guard_reply reply_path channel w = snd (fs_write reply_path (guard_reply_text channel) w)"

definition clear_reply_attachments_dir :: "string \<Rightarrow> world \<Rightarrow> world" where
  "clear_reply_attachments_dir dir w =
     (case (if fs_exists w dir then fs_remove_dir_all dir w else (Inr (), w)) of
        (Inl _, w) \<Rightarrow> w
      | (Inr _, w) \<Rightarrow> snd (fs_create_dir_all dir w))"

definition apply_workspace_secret_leak_guard ::
    "string \<Rightarrow> string \<Rightarrow> string \<Rightarrow> channel \<Rightarrow> world \<Rightarrow> bool \<times> world" where
  "apply_workspace_secret_leak_guard workspace_dir reply_path attachments_dir channel w =
     (let secrets = collect_sensitive_workspace_secret_values w workspace_dir in
      if secrets = [] then (False, w)
      else if find_secret_in_file w reply_path secrets \<noteq> None
              \<or> find_secret_in_dir w attachments_dir secrets \<noteq> None
      then (True, clear_reply_attachments_dir attachments_dir
                    (write_secret_guard_reply reply_path channel w))
      else (False, w))"

subsection \<open>Internal senders\<close>

definition normalize_identity_token :: "string \<Rightarrow> string" where
  "normalize_identity_token raw = to_ascii_lowercase (trim raw)"

definition parse_identity_list :: "string \<Rightarrow> string list" where
  "parse_identity_list v =
     filter (\<lambda>t. t \<noteq> []) (map normalize_identity_token (split_char (CHR '','') v))"

definition channel_internal_sender_env_key :: "channel \<Rightarrow> string option" where
  "channel_internal_sender_env_key channel =
     (case channel of
        Slack \<Rightarrow> Some ''INTERNAL_SLACK_SENDER_IDS''
      | Discord \<Rightarrow> Some ''INTERNAL_DISCORD_SENDER_IDS''
      | Telegram \<Rightarrow> Some ''INTERNAL_TELEGRAM_SENDER_IDS''
      | Sms \<Rightarrow> Some ''INTERNAL_SMS_SENDER_IDS''
      | WhatsApp \<Rightarrow> Some ''INTERNAL_WHATSAPP_SENDER_IDS''
      | BlueBubbles \<Rightarrow> Some ''INTERNAL_BLUEBUBBLES_SENDER_IDS''
      | _ \<Rightarrow> None)"

definition load_internal_sender_id_whitelist :: "world \<Rightarrow> channel \<Rightarrow> string list" where
  "load_internal_sender_id_whitelist w channel =
     (case Option.bind (channel_internal_sender_env_key channel) (w_env w) of
        None \<Rightarrow> [] | Some raw \<Rightarrow> parse_identity_list raw)
     @ (if channel = Slack then
          (case w_env w ''SLACK_BOT_USER_ID'' of
             None \<Rightarrow> []
           | Some bot_user_id \<Rightarrow> filter (\<lambda>t. t \<noteq> []) [normalize_identity_token bot_user_id])
        else [])"

definition load_internal_email_whitelist :: "guard_lib \<Rightarrow> world \<Rightarrow> string list" where
  "load_internal_email_whitelist gl w =
     filter (\<lambda>t. t \<noteq> [])
       (map normalize_identity_token (concat (map (gl_extract_emails gl) (gl_employee_addresses gl w))))"

definition load_latest_email_sender :: "guard_lib \<Rightarrow> world \<Rightarrow> string \<Rightarrow> string option" where
  "load_latest_email_sender gl w workspace_dir =
     (let path = path_join (path_join workspace_dir ''incoming_email'') ''postmark_payload.json'' in
      case Option.bind (fs_read w path) (gl_mail_from_json gl) of
        None \<Rightarrow> None
      | Some from_field \<Rightarrow>
          let from = trim (unwrap_or [] from_field) in
          if from = [] then None
          else (case gl_extract_emails gl from of
                  [] \<Rightarrow> None
                | v # _ \<Rightarrow> opt_filter (\<lambda>t. t \<noteq> []) (Some (normalize_identity_token v))))"

definition is_internal_sender :: "guard_lib \<Rightarrow> world \<Rightarrow> run_task_task \<Rightarrow> bool" where
  "is_internal_sender gl w task =
     (if rt_channel task = Email then
        (case load_latest_email_sender gl w (rt_workspace_dir task) of
           None \<Rightarrow> False
         | Some sender \<Rightarrow> sender \<in> set (load_internal_email_whitelist gl w))
      else if rt_channel task \<in> set [Slack, Discord, Telegram, Sms, WhatsApp, BlueBubbles, WeChat,
                                     WeChatMp, Lark] then
        (case rt_reply_to task of
           [] \<Rightarrow> False
         | v # _ \<Rightarrow>
             let sender = normalize_identity_token v in
             sender \<noteq> [] \<and> sender \<in> set (load_internal_sender_id_whitelist w (rt_channel task)))
      else False)"

text \<open>
  \<open>should_skip_closure_loop_reply\<close> reads the inbound message and the reply only to choose the
  text it logs; its result is whether the sender is internal.
\<close>

definition should_skip_closure_loop_reply :: "guard_lib \<Rightarrow> world \<Rightarrow> run_task_task \<Rightarrow> bool" where
  "should_skip_closure_loop_reply gl w task = is_internal_sender gl w task"

subsection \<open>Confined paths\<close>

lemma path_comps_join:
  assumes "\<not> path_is_absolute rel"
  shows "path_comps (path_join root rel) = path_comps root @ path_comps rel"
proof (cases "root = [] \<or> ends_with root ''/''")
  case True
  then consider "root = []" | r where "root = r @ ''/''"
    by (auto simp: ends_with_def strip_prefix_Some rev_swap split: option.splits)
  then show ?thesis
  proof cases
    case 1
    with assms show ?thesis by (simp add: path_join_def path_comps_def)
  next
    case 2
    with True assms show ?thesis
      by (simp add: path_join_def path_comps_def split_char_append)
  qed
next
  case False
  with assms show ?thesis by (simp add: path_join_def path_comps_def split_char_append)
qed

text \<open>
  A path an agent names for a message to send stays inside the workspace: the path that
  is used is the workspace directory followed by components none of which goes up.
\<close>

theorem resolve_rel_path_confined:
  assumes "resolve_rel_path root raw = Some p"
  shows "path_comps p = path_comps root @ path_comps (trim raw) \<and> ''..'' \<notin> set (path_comps (trim raw))"
  using assms by (auto simp: resolve_rel_path_def Let_def path_comps_join split: if_splits)

theorem resolve_rel_path_confined_witness:
  "path_comps ''/w/out/a.html'' = path_comps ''/w'' @ [''out'', ''a.html'']
   \<and> resolve_rel_path ''/w'' ''out/a.html'' = Some ''/w/out/a.html'' \<and> resolve_rel_path ''/w'' ''../a'' = None"
proof -
  have t: "trim ''out/a.html'' = ''out/a.html''" "trim ''../a'' = ''../a''"
    by (simp_all add: trim_def trim_end_def ws1_def ws2_def ws3_def)
  have r: "resolve_rel_path ''/w'' ''out/a.html'' = Some ''/w/out/a.html''"
    "resolve_rel_path ''/w'' ''../a'' = None"
    by (simp_all add: resolve_rel_path_def t path_is_absolute_def starts_with_def path_comps_def
        path_join_def ends_with_def)
  from resolve_rel_path_confined [OF r(1)] r show ?thesis by (simp add: t path_comps_def)
qed


subsection \<open>The secret guard\<close>

inductive below_dir :: "world \<Rightarrow> string \<Rightarrow> string \<Rightarrow> bool" for w where
  entry: "fs_read_dir w d = Some es \<Longrightarrow> e \<in> set es \<Longrightarrow> below_dir w d e"
| deeper: "fs_read_dir w d = Some es \<Longrightarrow> s \<in> set es \<Longrightarrow> fs_is_dir w s \<Longrightarrow> below_dir w s e \<Longrightarrow> below_dir w d e"

inductive_cases below_dirE: "below_dir w d e"

lemma scan_entries_complete:
  "scan_entries w secrets es stack = Inr stack' \<Longrightarrow>
   set stack \<subseteq> set stack' \<and> (\<forall>e \<in> set es. if fs_is_dir w e then e \<in> set stack'
                                      else find_secret_in_file w e secrets = None)"
  by (induction w secrets es stack rule: scan_entries.induct) (auto split: if_splits option.splits)

lemma scan_stack_complete:
  "scan_stack w secrets stack = None \<Longrightarrow> d \<in> set stack \<Longrightarrow> below_dir w d e \<Longrightarrow> \<not> fs_is_dir w e \<Longrightarrow>
   find_secret_in_file w e secrets = None"
proof (induction w secrets stack arbitrary: d e rule: scan_stack.induct)
  case (2 w secrets dir stack)
  show ?case
  proof (cases "fs_read_dir w dir")
    case None
    with 2(3,5) have "d \<noteq> dir" by (auto elim: below_dirE)
    with 2 None show ?thesis by auto
  next
    case (Some es)
    with 2(3) obtain stack' where st: "scan_entries w secrets es stack = Inr stack'"
      "scan_stack w secrets stack' = None" by (auto split: sum.splits)
    note c = scan_entries_complete [OF st(1)]
    note IH = 2(2) [OF Some st]
    show ?thesis
    proof (cases "d = dir")
      case False
      with 2(4) c have "d \<in> set stack'" by auto
      with IH 2(5,6) show ?thesis by blast
    next
      case True
      from 2(5) consider "e \<in> set es"
        | s where "s \<in> set es" "fs_is_dir w s" "below_dir w s e"
        using True Some by (auto elim: below_dirE)
      then show ?thesis
      proof cases
        case 1
        with c 2(6) show ?thesis by auto
      next
        case inner: 2
        with c have "s \<in> set stack'" by auto
        with IH inner(3) 2(6) show ?thesis by blast
      qed
    qed
  qed
qed simp

lemma path_parent_prefix: "path_parent f = Some d \<Longrightarrow> d \<noteq> [] \<Longrightarrow> d \<noteq> ''/'' \<Longrightarrow> \<exists>r. f = d @ ''/'' @ r"
proof -
  assume a: "path_parent f = Some d" "d \<noteq> []" "d \<noteq> ''/''"
  then have d: "d = rev (drop 1 (dropWhile (\<lambda>c. c \<noteq> CHR ''/'') (rev f)))"
    by (auto simp: path_parent_def Let_def split: if_splits)
  let ?t = "dropWhile (\<lambda>c. c \<noteq> CHR ''/'') (rev f)"
  obtain u where u: "?t = CHR ''/'' # u"
  proof (cases ?t)
    case Nil
    with d a(2) show thesis by simp
  next
    case (Cons c u)
    then have "c = CHR ''/''" using hd_dropWhile [of "\<lambda>c. c \<noteq> CHR ''/''" "rev f"] by fastforce
    with Cons that show thesis by blast
  qed
  have "rev f = takeWhile (\<lambda>c. c \<noteq> CHR ''/'') (rev f) @ CHR ''/'' # u" using u by (metis takeWhile_dropWhile_id)
  then have "f = rev u @ CHR ''/'' # rev (takeWhile (\<lambda>c. c \<noteq> CHR ''/'') (rev f))"
    by (metis append.assoc append_Cons append_Nil rev.simps(2) rev_append rev_rev_ident)
  with d u show ?thesis by auto
qed

lemma below_dir_path:
  "below_dir w d f \<Longrightarrow> d \<noteq> [] \<Longrightarrow> d \<noteq> ''/'' \<Longrightarrow> \<exists>r. f = d @ ''/'' @ r"
proof (induction rule: below_dir.induct)
  case (entry d es e)
  then have "path_parent e = Some d" by (auto simp: fs_read_dir_def split: if_splits)
  with entry path_parent_prefix show ?case by blast
next
  case (deeper d es s e)
  then have "path_parent s = Some d" by (auto simp: fs_read_dir_def split: if_splits)
  with deeper path_parent_prefix obtain r where s: "s = d @ ''/'' @ r" by blast
  with deeper(6,7) have "s \<noteq> []" "s \<noteq> ''/''" by (auto simp: append_eq_Cons_conv)
  with deeper.IH s show ?case by auto
qed


lemma map_of_filter_key: "map_of (filter (\<lambda>f. p (fst f)) xs) k = (if p k then map_of xs k else None)"
  by (induction xs) auto

lemma fs_remove_read:
  "fs_remove_dir_all dir w = (Inr x, w') \<Longrightarrow>
   fs_read w' p = (if path_below dir p then None else fs_read w p)"
  using map_of_filter_key [of "\<lambda>k. \<not> path_below dir k" "w_files w" p]
  by (auto simp: fs_remove_dir_all_def fs_read_def split: option.splits if_splits)

lemma fs_create_read: "fs_create_dir_all dir w = (r, w') \<Longrightarrow> fs_read w' p = fs_read w p"
  by (auto dest: fs_create_dir_all_files simp: fs_read_def)

lemma clear_attachments_read:
  assumes "\<And>p. w_refuse w p = None"
    and "fs_is_dir w dir \<or> (\<forall>f. fs_is_file w f \<longrightarrow> \<not> path_below dir f)"
  shows "fs_read (clear_reply_attachments_dir dir w) p = (if path_below dir p then None else fs_read w p)"
proof (cases "fs_is_dir w dir")
  case True
  with assms(1) obtain w1 where r: "fs_remove_dir_all dir w = (Inr (), w1)"
    by (simp add: fs_remove_dir_all_def)
  with True have "clear_reply_attachments_dir dir w = snd (fs_create_dir_all dir w1)"
    by (simp add: clear_reply_attachments_dir_def fs_exists_def)
  then show ?thesis by (metis fs_create_read fs_remove_read [OF r] prod.collapse)
next
  case False
  with assms(2) have none: "fs_read w f = None" if "path_below dir f" for f
    using that by (auto simp: fs_read_def fs_is_file_def)
  then have "\<not> fs_exists w dir" using False assms(2) by (auto simp: fs_exists_def path_below_def)
  then have "clear_reply_attachments_dir dir w = snd (fs_create_dir_all dir w)"
    by (simp add: clear_reply_attachments_dir_def)
  then show ?thesis using none by (metis fs_create_read prod.collapse)
qed

lemma first_of_each_value_covers:
  "(k, v) \<in> set xs \<Longrightarrow> v \<in> seen \<or> (\<exists>k'. (k', v) \<in> set (first_of_each_value seen xs))"
  by (induction seen xs rule: first_of_each_value.induct) auto

lemma secret_collected:
  assumes "fs_read_to_string w (path_join ws ''.env'') = Some env"
    and "line \<in> set (str_lines env)" and "secret_of_line line = Some (key, secret)"
  obtains k where "(k, secret) \<in> set (collect_sensitive_workspace_secret_values w ws)"
proof -
  have "(key, secret) \<in> set (List.map_filter secret_of_line (str_lines env))"
    using assms(2,3) by (force simp: List.map_filter_def)
  from first_of_each_value_covers [OF this, of "{}"] assms(1) that show thesis
    by (auto simp: collect_sensitive_workspace_secret_values_def)
qed

lemma not_found_not_contained:
  "find_secret_in_file w f secrets = None \<Longrightarrow> fs_read w f = Some content \<Longrightarrow>
   length content \<le> secret_scan_max_bytes \<Longrightarrow> (k, secret) \<in> set secrets \<Longrightarrow> \<not> str_contains content secret"
  by (auto simp: find_secret_in_file_def find_None_iff)



definition leaky_world :: world where
  "leaky_world = (plain_world [''/w'', ''/w/att''])
     \<lparr>w_files := [(''/w/.env'', ''API_KEY=abcdefgh''), (''/w/r.txt'', ''it is abcdefgh'')]\<rparr>"

lemma leaky_secrets:
  "collect_sensitive_workspace_secret_values leaky_world ''/w'' = [(''API_KEY'', ''abcdefgh'')]"
  by (simp add: collect_sensitive_workspace_secret_values_def fs_read_to_string_def fs_read_def leaky_world_def plain_world_def
      path_join_def path_is_absolute_def starts_with_def ends_with_def str_lines_def strip_cr_def Let_def
      List.map_filter_def secret_of_line_def trim_def trim_end_def ws1_def ws2_def ws3_def
      eval_nat_numeral is_sensitive_env_key_def contains_any_def secret_env_key_markers_def
      trim_env_value_def ascii_upper_def)


end
