(* ===== verification/Scheduler_Actions.thy ===== *)
theory Scheduler_Actions
  imports Snapshot Reply_Guards
begin

text \<open>
  The follow-up of a finished agent run, \<open>scheduler/actions.rs\<close>: scheduling the automatic
  reply and the messages the agent asked for, and applying the changes to the schedule that
  it requested.  Code behind a process boundary or a third-party library is a field of
  \<open>core_lib\<close>: the agent itself (\<open>co_execute\<close>), the account database, UUID and RFC 3339 parsing,
  the debug archive, the container registry and opening a connection to the task database.
\<close>

record ('t, 'e, 'j, 'a) core_lib =
  co_store :: "('t, 'e, 'j) store_lib"
  co_guard :: guard_lib
  co_notify :: notify_lib
  co_thread :: thread_codec
  co_parse_rfc3339 :: "string \<Rightarrow> string + datetime"
  co_parse_uuid :: "string \<Rightarrow> uuid option"
  co_employee_email :: "world \<Rightarrow> string \<Rightarrow> string option"
  co_set_tpm_database :: "(string \<Rightarrow> string \<Rightarrow> string option \<Rightarrow> world \<Rightarrow> (string + unit) \<times> world) option"
  co_is_account :: "string \<Rightarrow> bool"
  co_open_store :: "string \<Rightarrow> scheduler_error option"
  co_snapshot_json :: "scheduler_snapshot \<Rightarrow> string + string"
  co_stamp :: "datetime \<Rightarrow> string"
  co_execute :: "task_kind \<Rightarrow> world \<Rightarrow> (scheduler_error + task_execution) \<times> world"
  co_archive_begin :: "scheduled_task \<Rightarrow> int \<Rightarrow> datetime \<Rightarrow> world \<Rightarrow> 'a option \<times> world"
  co_archive_finish ::
    "'a \<Rightarrow> scheduled_task \<Rightarrow> scheduled_task \<Rightarrow> datetime \<Rightarrow> string \<Rightarrow> string option \<Rightarrow> world \<Rightarrow> world"
  co_deregister_aci :: "string \<Rightarrow> world \<Rightarrow> world"

definition co_json :: "('t, 'e, 'j, 'a) core_lib \<Rightarrow> reply_json" where
  "co_json co = nl_json (co_notify co)"

subsection \<open>Owner scopes\<close>

fun owner_after_users :: "string list \<Rightarrow> string option" where
  "owner_after_users (x # y # rest) = (if x = ''users'' then Some y else owner_after_users (y # rest))"
| "owner_after_users _ = None"

definition owner_kind_for_id :: "(string \<Rightarrow> bool) \<Rightarrow> string \<Rightarrow> string" where
  "owner_kind_for_id is_account_owner_id owner_id =
     (if is_account_owner_id owner_id then ''account'' else ''user'')"

definition resolve_owner_scope :: "(string \<Rightarrow> string) \<Rightarrow> (string \<Rightarrow> bool) \<Rightarrow> string \<Rightarrow> string \<times> string" where
  "resolve_owner_scope md5 is_account_owner_id path =
     (case owner_after_users (path_comps path) of
        Some owner_id \<Rightarrow> (owner_kind_for_id is_account_owner_id owner_id, owner_id)
      | None \<Rightarrow>
          (case rev (path_comps path) of
             file # state_dir # owner_id # _ \<Rightarrow>
               if file = ''tasks.db'' \<and> state_dir = ''state'' \<and> owner_id \<noteq> ''..''
               then (owner_kind_for_id is_account_owner_id owner_id, owner_id)
               else (''path_scope'', md5 path)
           | _ \<Rightarrow> (''path_scope'', md5 path)))"

text \<open>
  A store opened for another owner works on the same collections and shares the counter of
  execution identifiers.
\<close>

definition in_owner_scope ::
    "string \<times> string \<Rightarrow> (('t, 'e) store \<Rightarrow> ('t, 'e, 'b) store_result) \<Rightarrow> ('t, 'e) store
     \<Rightarrow> ('t, 'e, 'b) store_result" where
  "in_owner_scope owner op s =
     (case op (s\<lparr>s_owner_kind := fst owner, s_owner_id := snd owner\<rparr>) of
        (r, s') \<Rightarrow> (r, s'\<lparr>s_owner_kind := s_owner_kind s, s_owner_id := s_owner_id s\<rparr>))"

definition account_tasks_db :: "string \<Rightarrow> uuid \<Rightarrow> string" where
  "account_tasks_db users_root account_id =
     path_join (path_join (path_join users_root account_id) ''state'') ''tasks.db''"

definition open_in_scope ::
    "('t, 'e, 'j, 'a) core_lib \<Rightarrow> string \<Rightarrow> (('t, 'e) store \<Rightarrow> ('t, 'e, unit) store_result)
     \<Rightarrow> ('t, 'e) system \<Rightarrow> ('t, 'e) system" where
  "open_in_scope co path op y =
     (case co_open_store co path of
        Some _ \<Rightarrow> y
      | None \<Rightarrow>
          snd (on_store (in_owner_scope (resolve_owner_scope (nl_md5 (co_notify co)) (co_is_account co) path) op) y))"

subsection \<open>Messages to send later\<close>

definition format_channel_name :: "channel \<Rightarrow> string" where
  "format_channel_name c =
     (case c of
        Email \<Rightarrow> ''Email'' | Slack \<Rightarrow> ''Slack'' | Discord \<Rightarrow> ''Discord'' | Telegram \<Rightarrow> ''Telegram''
      | Sms \<Rightarrow> ''SMS'' | WhatsApp \<Rightarrow> ''WhatsApp'' | BlueBubbles \<Rightarrow> ''iMessage''
      | WeChat \<Rightarrow> ''WeChat'' | WeChatMp \<Rightarrow> ''WeChat MP'' | Lark \<Rightarrow> ''Lark''
      | GoogleDocs \<Rightarrow> ''Google Docs'' | GoogleSheets \<Rightarrow> ''Google Sheets''
      | GoogleSlides \<Rightarrow> ''Google Slides'' | Notion \<Rightarrow> ''Notion'' | Zoom \<Rightarrow> ''Zoom'')"

text \<open>
  The tail of \<open>schedule_send_email\<close>, \<open>schedule_send_slack\<close> and \<open>schedule_send_discord\<close>: an instant
  wins over a delay, seconds over minutes; nothing is scheduled without either.
\<close>

definition schedule_send_task ::
    "('t, 'e, 'j, 'a) core_lib \<Rightarrow> ('t, 'e) system \<Rightarrow> send_reply_task \<Rightarrow> string option \<Rightarrow> int option
     \<Rightarrow> int option \<Rightarrow> ('t, 'e, bool) sys_result" where
  "schedule_send_task co y send_task run_at delay_seconds delay_minutes =
     (case run_at of
        Some raw \<Rightarrow>
          (case co_parse_rfc3339 co raw of
             Inl _ \<Rightarrow> (Inr False, y)
           | Inr at \<Rightarrow>
               st_bind (add_one_shot_at (co_store co) y at (SendReply send_task)) (\<lambda>_ y. (Inr True, y)))
      | None \<Rightarrow>
          (case or_else delay_seconds (map_option (\<lambda>v. sat_i64 (v * 60)) delay_minutes) of
             None \<Rightarrow> (Inr False, y)
           | Some v \<Rightarrow>
               st_bind (add_one_shot_in (co_store co) y (secs (max v 0)) (SendReply send_task))
                 (\<lambda>_ y. (Inr True, y))))"

definition schedule_send_email ::
    "('t, 'e, 'j, 'a) core_lib \<Rightarrow> ('t, 'e) system \<Rightarrow> run_task_task \<Rightarrow> scheduled_send_email_task
     \<Rightarrow> ('t, 'e, bool) sys_result" where
  "schedule_send_email co y task request =
     (if trim (se_html_path request) = [] then (Inr False, y)
      else
        case resolve_rel_path (rt_workspace_dir task) (se_html_path request) of
          None \<Rightarrow> (Inr False, y)
        | Some html_path \<Rightarrow>
            if \<not> fs_exists (sy_world y) html_path then (Inr False, y)
            else
              (case resolve_rel_path (rt_workspace_dir task)
                      (unwrap_or ''scheduled_email_attachments'' (se_attachments_dir request)) of
                 None \<Rightarrow> (Inr False, y)
               | Some attachments_dir \<Rightarrow>
                   let (_, y) = on_world (apply_workspace_secret_leak_guard (rt_workspace_dir task)
                                            html_path attachments_dir (rt_channel task)) y;
                       to = (if se_to request = [] then rt_reply_to task else se_to request)
                   in if to = [] then (Inr False, y)
                      else
                        let context = load_reply_context (co_json co) (sy_world y) (rt_workspace_dir task);
                            from = or_else (opt_filter (\<lambda>v. v \<noteq> []) (map_option trim (se_from request)))
                                     (or_else (rt_reply_from task) (rc_from context));
                            send_task =
                              \<lparr>sr_channel = rt_channel task, sr_subject = se_subject request,
                               sr_html_path = html_path, sr_attachments_dir = attachments_dir,
                               sr_from = from, sr_to = to, sr_cc = se_cc request, sr_bcc = se_bcc request,
                               sr_in_reply_to = None, sr_references = None,
                               sr_archive_root = rt_archive_root task,
                               sr_thread_epoch = rt_thread_epoch task,
                               sr_thread_state_path = rt_thread_state_path task,
                               sr_employee_id = rt_employee_id task,
                               sr_channel_metadata = run_normalized_channel_metadata task\<rparr>
                        in schedule_send_task co y send_task (se_run_at request)
                             (se_delay_seconds request) (se_delay_minutes request)))"


definition direct_send_task ::
    "run_task_task \<Rightarrow> channel \<Rightarrow> string \<Rightarrow> string \<Rightarrow> string \<Rightarrow> channel_metadata \<Rightarrow> send_reply_task" where
  "direct_send_task task channel msg_path attachments user_id metadata =
     \<lparr>sr_channel = channel, sr_subject = [], sr_html_path = msg_path,
      sr_attachments_dir = path_join (rt_workspace_dir task) attachments,
      sr_from = rt_reply_from task, sr_to = [user_id], sr_cc = [], sr_bcc = [],
      sr_in_reply_to = None, sr_references = None, sr_archive_root = rt_archive_root task,
      sr_thread_epoch = rt_thread_epoch task, sr_thread_state_path = rt_thread_state_path task,
      sr_employee_id = rt_employee_id task, sr_channel_metadata = metadata\<rparr>"

definition schedule_send_slack ::
    "('t, 'e, 'j, 'a) core_lib \<Rightarrow> ('t, 'e) system \<Rightarrow> run_task_task \<Rightarrow> scheduled_send_slack_task
     \<Rightarrow> ('t, 'e, bool) sys_result" where
  "schedule_send_slack co y task request =
     (if trim (ss_message request) = [] \<or> trim (ss_user_id request) = [] then (Inr False, y)
      else
        let msg_path = path_join (rt_workspace_dir task) ''scheduled_slack_message.txt'' in
        case on_world (fs_write msg_path (ss_message request)) y of
          (Inl _, y) \<Rightarrow> (Inr False, y)
        | (Inr _, y) \<Rightarrow>
            schedule_send_task co y
              (direct_send_task task Slack msg_path ''scheduled_slack_attachments'' (ss_user_id request)
                 (channel_metadata_default\<lparr>cm_slack_team_id := Some (ss_team_id request),
                    cm_slack_channel_id := Some (ss_user_id request)\<rparr>))
              (ss_run_at request) (ss_delay_seconds request) (ss_delay_minutes request))"

definition schedule_send_discord ::
    "('t, 'e, 'j, 'a) core_lib \<Rightarrow> ('t, 'e) system \<Rightarrow> run_task_task \<Rightarrow> scheduled_send_discord_task
     \<Rightarrow> ('t, 'e, bool) sys_result" where
  "schedule_send_discord co y task request =
     (if trim (sd_message request) = [] \<or> trim (sd_user_id request) = [] then (Inr False, y)
      else
        let msg_path = path_join (rt_workspace_dir task) ''scheduled_discord_message.txt'' in
        case on_world (fs_write msg_path (sd_message request)) y of
          (Inl _, y) \<Rightarrow> (Inr False, y)
        | (Inr _, y) \<Rightarrow>
            schedule_send_task co y
              (direct_send_task task Discord msg_path ''scheduled_discord_attachments''
                 (sd_user_id request) channel_metadata_default)
              (sd_run_at request) (sd_delay_seconds request) (sd_delay_minutes request))"

fun schedule_follow_up ::
    "('t, 'e, 'j, 'a) core_lib \<Rightarrow> ('t, 'e) system \<Rightarrow> run_task_task \<Rightarrow> scheduled_task_request
     \<Rightarrow> ('t, 'e, bool) sys_result" where
  "schedule_follow_up co y task (SendEmail request) = schedule_send_email co y task request"
| "schedule_follow_up co y task (SendSlack request) = schedule_send_slack co y task request"
| "schedule_follow_up co y task (SendDiscord request) = schedule_send_discord co y task request"

text \<open>A follow-up that fails is logged; the loop goes on with the next one.\<close>

definition ingest_follow_up_tasks ::
    "('t, 'e, 'j, 'a) core_lib \<Rightarrow> ('t, 'e) system \<Rightarrow> run_task_task \<Rightarrow> scheduled_task_request list
     \<Rightarrow> ('t, 'e) system" where
  "ingest_follow_up_tasks co y task requests =
     (if \<not> thread_epoch_matches (co_thread co) (sy_world y) task then y
      else foldl (\<lambda>y request. snd (schedule_follow_up co y task request)) y requests)"

subsection \<open>The automatic reply\<close>

definition routing_block_message :: string where
  "routing_block_message =
     ''To maintain user isolation and privacy, I cannot send messages to recipients outside your linked accounts.''"

definition write_routing_block :: "run_task_task \<Rightarrow> world \<Rightarrow> world" where
  "write_routing_block task w =
     (if is_html_channel (rt_channel task)
      then snd (fs_write (path_join (rt_workspace_dir task) ''reply_email_draft.html'')
             (''<!DOCTYPE html><html><body><p>'' @ routing_block_message @ ''</p></body></html>'') w)
      else snd (fs_write (path_join (rt_workspace_dir task) ''reply_message.txt'') routing_block_message w))"

text \<open>The channel and recipients of the reply, and whether they differ from the inbound ones.\<close>

definition reply_target ::
    "guard_lib \<Rightarrow> run_task_task \<Rightarrow> world \<Rightarrow> (channel \<times> string list \<times> bool) \<times> world" where
  "reply_target gl task w =
     (let inbound = (rt_channel task, rt_reply_to task, False) in
      case load_reply_routing gl w (rt_workspace_dir task) of
        None \<Rightarrow> (inbound, w)
      | Some routing \<Rightarrow>
          if trim (rr_identifier routing) = [] then (inbound, w)
          else if \<not> is_routing_identifier_allowed gl task (rr_identifier routing)
          then (inbound, write_routing_block task w)
          else case parse_channel (rr_channel routing) of
                 Some channel \<Rightarrow> ((channel, [rr_identifier routing], True), w)
               | None \<Rightarrow> (inbound, w))"

definition reply_file_names :: "channel \<Rightarrow> string \<times> string" where
  "reply_file_names channel =
     (if is_html_channel channel then (''reply_email_draft.html'', ''reply_email_attachments'')
      else (''reply_message.txt'', ''reply_attachments''))"

definition ack_file_names :: "channel \<Rightarrow> string \<times> string" where
  "ack_file_names channel =
     (if is_html_channel channel then (''cross_channel_ack.html'', ''reply_email_attachments'')
      else (''cross_channel_ack.txt'', ''reply_attachments''))"

text \<open>A reply of a task: what the acknowledgement and the reply itself share.\<close>

definition reply_task ::
    "run_task_task \<Rightarrow> channel \<Rightarrow> string \<Rightarrow> string \<Rightarrow> string \<Rightarrow> string option \<Rightarrow> string list
     \<Rightarrow> string option \<Rightarrow> string option \<Rightarrow> send_reply_task" where
  "reply_task task channel subject html_path attachments_dir from to in_reply_to references =
     \<lparr>sr_channel = channel, sr_subject = subject, sr_html_path = html_path,
      sr_attachments_dir = attachments_dir, sr_from = from, sr_to = to, sr_cc = [], sr_bcc = [],
      sr_in_reply_to = in_reply_to, sr_references = references,
      sr_archive_root = rt_archive_root task, sr_thread_epoch = rt_thread_epoch task,
      sr_thread_state_path = rt_thread_state_path task, sr_employee_id = rt_employee_id task,
      sr_channel_metadata = run_normalized_channel_metadata task\<rparr>"

definition ack_content :: "channel \<Rightarrow> string \<Rightarrow> string" where
  "ack_content target_channel ack_filename =
     (let ack_message = ''The request was successfully completed! I've sent my response to you on ''
            @ format_channel_name target_channel @ ''.''
      in if ends_with ack_filename ''.html''
         then ''<html><body><p>'' @ ack_message @ ''</p></body></html>'' else ack_message)"

definition schedule_cross_channel_ack ::
    "('t, 'e, 'j, 'a) core_lib \<Rightarrow> ('t, 'e) system \<Rightarrow> run_task_task \<Rightarrow> channel \<Rightarrow> reply_context
     \<Rightarrow> string option \<Rightarrow> ('t, 'e, unit) sys_result" where
  "schedule_cross_channel_ack co y task target_channel context reply_from =
     (let (ack_filename, ack_attachments) = ack_file_names (rt_channel task);
          ack_path = path_join (rt_workspace_dir task) ack_filename
      in case on_world (fs_write ack_path (ack_content target_channel ack_filename)) y of
           (Inl _, y) \<Rightarrow> (Inr (), y)
         | (Inr _, y) \<Rightarrow>
             st_bind (add_one_shot_in (co_store co) y 0
                        (SendReply (reply_task task (rt_channel task) (rc_subject context) ack_path
                           (path_join (rt_workspace_dir task) ack_attachments) reply_from
                           (rt_reply_to task) (rc_in_reply_to context) (rc_references context))))
               (\<lambda>_ y. (Inr (), y)))"

definition schedule_auto_reply ::
    "('t, 'e, 'j, 'a) core_lib \<Rightarrow> ('t, 'e) system \<Rightarrow> run_task_task \<Rightarrow> ('t, 'e, bool) sys_result" where
  "schedule_auto_reply co y task =
     (if \<not> thread_epoch_matches (co_thread co) (sy_world y) task \<or> rt_reply_to task = []
         \<or> rt_channel task \<in> set [GoogleDocs, GoogleSheets, GoogleSlides]
      then (Inr False, y)
      else
        let ((target_channel, target_recipients, is_cross_channel), y) =
              on_world (reply_target (co_guard co) task) y;
            (reply_filename, attachments_dirname) = reply_file_names target_channel;
            html_path = path_join (rt_workspace_dir task) reply_filename
        in if \<not> fs_exists (sy_world y) html_path
              \<or> should_skip_closure_loop_reply (co_guard co) (sy_world y) task
           then (Inr False, y)
           else
             let attachments_dir = path_join (rt_workspace_dir task) attachments_dirname;
                 (_, y) = on_world (apply_workspace_secret_leak_guard (rt_workspace_dir task)
                                      html_path attachments_dir target_channel) y;
                 context = load_reply_context (co_json co) (sy_world y) (rt_workspace_dir task);
                 inbound_from = or_else (rt_reply_from task) (rc_from context);
                 reply_from =
                   (if is_cross_channel \<and> target_channel = Email
                    then or_else (Option.bind (rt_employee_id task) (co_employee_email co (sy_world y)))
                           inbound_from
                    else inbound_from);
                 (in_reply_to, references) =
                   (if is_cross_channel then (None, None)
                    else (rc_in_reply_to context, rc_references context))
             in st_bind (if is_cross_channel
                         then schedule_cross_channel_ack co y task target_channel context reply_from
                         else (Inr (), y)) (\<lambda>_ y.
                st_bind (add_one_shot_in (co_store co) y 0
                           (SendReply (reply_task task target_channel (rc_subject context) html_path
                              attachments_dir reply_from target_recipients in_reply_to references)))
                  (\<lambda>_ y. (Inr True, y))))"


subsection \<open>Changes to the schedule\<close>

definition resolve_account_id_for_run_task :: "guard_lib \<Rightarrow> run_task_task \<Rightarrow> uuid option" where
  "resolve_account_id_for_run_task gl task =
     or_else (rt_account_id task)
       (or_else
          (case (rt_requester_identifier_type task, rt_requester_identifier task) of
             (Some identifier_type, Some identifier) \<Rightarrow> gl_lookup_identifier gl identifier_type identifier
           | _ \<Rightarrow> None)
          (case rt_reply_to task of [] \<Rightarrow> None | v # _ \<Rightarrow> gl_lookup_channel gl (rt_channel task) v))"

definition mirror_run_task_to_account_storage ::
    "('t, 'e, 'j, 'a) core_lib \<Rightarrow> ('t, 'e) system \<Rightarrow> scheduled_task \<Rightarrow> ('t, 'e) system" where
  "mirror_run_task_to_account_storage co y task =
     (case t_kind task of
        RunTask run_task \<Rightarrow>
          (case resolve_account_id_for_run_task (co_guard co) run_task of
             None \<Rightarrow> y
           | Some account_id \<Rightarrow>
               (case opt_filter (\<lambda>p. trim p \<noteq> []) (w_env (sy_world y) ''USERS_ROOT'') of
                  None \<Rightarrow> y
                | Some users_root \<Rightarrow>
                    (case on_world (fs_create_dir_all
                             (path_join (path_join users_root account_id) ''state'')) y of
                       (Inl _, y) \<Rightarrow> y
                     | (Inr _, y) \<Rightarrow>
                         open_in_scope co (account_tasks_db users_root account_id)
                           (\<lambda>s. store_insert_task (co_store co) s task) y)))
      | _ \<Rightarrow> y)"

text \<open>The task a \<open>CreateRunTask\<close> request describes, derived from the one that asked for it.\<close>

definition created_run_task ::
    "guard_lib \<Rightarrow> run_task_task \<Rightarrow> string option \<Rightarrow> bool option \<Rightarrow> string list \<Rightarrow> run_task_task" where
  "created_run_task gl task model_name codex_disabled reply_to =
     (let inherited_account_id = resolve_account_id_for_run_task gl task;
          t1 = (if rt_account_id task = None then task\<lparr>rt_account_id := inherited_account_id\<rparr> else task);
          t2 = (case opt_filter (\<lambda>v. trim v \<noteq> []) model_name of
                  Some m \<Rightarrow> t1\<lparr>rt_model_name := m\<rparr> | None \<Rightarrow> t1);
          t3 = (case codex_disabled of Some b \<Rightarrow> t2\<lparr>rt_codex_disabled := b\<rparr> | None \<Rightarrow> t2);
          t4 = (if reply_to \<noteq> [] then t3\<lparr>rt_reply_to := reply_to\<rparr> else t3)
      in if rt_account_id t4 = None
         then t4\<lparr>rt_account_id := resolve_account_id_for_run_task gl t4\<rparr> else t4)"

text \<open>One action: \<open>Inr\<close> also for a request that is skipped with a warning.\<close>

fun apply_scheduler_action ::
    "('t, 'e, 'j, 'a) core_lib \<Rightarrow> datetime \<Rightarrow> string option \<Rightarrow> run_task_task \<Rightarrow> scheduler_action_request
     \<Rightarrow> ('t, 'e) system \<Rightarrow> ('t, 'e, unit) sys_result" where
  "apply_scheduler_action co now request_context task (Cancel task_ids) y =
     (let ids = fst (parse_action_task_ids (co_parse_uuid co) task_ids) in
      if ids = {} then (Inr (), y)
      else st_bind (disable_tasks_by (co_store co) y (\<lambda>t. t_id t \<in> ids)) (\<lambda>_ y. (Inr (), y)))"
| "apply_scheduler_action co now request_context task (Reschedule raw_id sched) y =
     (case co_parse_uuid co raw_id of
        None \<Rightarrow> (Inr (), y)
      | Some task_id \<Rightarrow>
          (case position (\<lambda>t. t_id t = task_id) (sy_tasks y) of
             None \<Rightarrow> (Inr (), y)
           | Some index \<Rightarrow>
               (case resolve_schedule_request_with_context (sl_cron (co_store co)) (co_parse_rfc3339 co)
                       sched now request_context of
                  Inl _ \<Rightarrow> (Inr (), y)
                | Inr new_schedule \<Rightarrow>
                    let target = (sy_tasks y ! index)\<lparr>t_schedule := new_schedule, t_enabled := True\<rparr> in
                    st_bind (on_store (\<lambda>s. store_update_task (co_store co) s target) (set_task y index target))
                      (\<lambda>_ y. (Inr (), y)))))"
| "apply_scheduler_action co now request_context task
     (CreateRunTask sched model_name codex_disabled reply_to) y =
     (case resolve_schedule_request_with_context (sl_cron (co_store co)) (co_parse_rfc3339 co)
             sched now request_context of
        Inl _ \<Rightarrow> (Inr (), y)
      | Inr resolved \<Rightarrow>
          let kind = RunTask (created_run_task (co_guard co) task model_name codex_disabled reply_to) in
          st_bind (case resolved of
                     Cron expression _ \<Rightarrow> add_cron_task (co_store co) y expression kind
                   | OneShot run_at \<Rightarrow> add_one_shot_at (co_store co) y run_at kind)
            (\<lambda>_ y. (Inr (), mirror_run_task_to_account_storage co y (last (sy_tasks y)))))"
| "apply_scheduler_action co now request_context task
     (SetTpmDatabase organization database_id workspace_id) y =
     (case co_set_tpm_database co of
        None \<Rightarrow> (Inr (), y)
      | Some update \<Rightarrow> (Inr (), snd (on_world (update organization database_id workspace_id) y)))"

fun apply_actions_loop ::
    "('t, 'e, 'j, 'a) core_lib \<Rightarrow> datetime \<Rightarrow> string option \<Rightarrow> run_task_task
     \<Rightarrow> scheduler_action_request list \<Rightarrow> ('t, 'e) system \<Rightarrow> ('t, 'e, unit) sys_result" where
  "apply_actions_loop co now request_context task [] y = (Inr (), y)"
| "apply_actions_loop co now request_context task (a # rest) y =
     st_bind (apply_scheduler_action co now request_context task a y)
       (\<lambda>_ y. apply_actions_loop co now request_context task rest y)"

definition apply_scheduler_actions ::
    "('t, 'e, 'j, 'a) core_lib \<Rightarrow> ('t, 'e) system \<Rightarrow> run_task_task \<Rightarrow> scheduler_action_request list
     \<Rightarrow> ('t, 'e, unit) sys_result" where
  "apply_scheduler_actions co y task actions =
     (if actions = [] then (Inr (), y)
      else
        let (now, y) = on_world utc_now y;
            request_context = load_run_task_request_context (fs_read (sy_world y)) task
        in apply_actions_loop co now request_context task actions y)"

end
