(* ===== verification/Action_Properties.thy ===== *)
theory Action_Properties
  imports Scheduler_Actions
begin

text \<open>
  What the follow-up of an agent run can and cannot do: who a reply reaches, what a
  cancellation and a new schedule do to the tasks, and which file a direct message is kept in.
\<close>

subsection \<open>Tasks that are added\<close>

text \<open>The task list grew by at most \<open>n\<close> tasks, all of which satisfy \<open>p\<close>.\<close>

definition added :: "nat \<Rightarrow> (scheduled_task \<Rightarrow> bool) \<Rightarrow> ('t, 'e) system \<Rightarrow> ('t, 'e) system \<Rightarrow> bool" where
  "added n p y y' = (\<exists>new. sy_tasks y' = sy_tasks y @ new \<and> length new \<le> n \<and> (\<forall>t \<in> set new. p t))"

lemma added_same: "sy_tasks y' = sy_tasks y \<Longrightarrow> added n p y y'"
  by (simp add: added_def)

lemma added_one: "sy_tasks y' = sy_tasks y @ [t] \<Longrightarrow> p t \<Longrightarrow> added (Suc 0) p y y'"
  by (simp add: added_def)

lemma added_mono: "added n p y y' \<Longrightarrow> n \<le> m \<Longrightarrow> added m p y y'"
  unfolding added_def by (meson le_trans)

lemma added_trans:
  assumes "added n p y y1" and "added m p y1 y2"
  shows "added (n + m) p y y2"
proof -
  from assms obtain a b where "sy_tasks y1 = sy_tasks y @ a" "length a \<le> n" "\<forall>t \<in> set a. p t"
    "sy_tasks y2 = sy_tasks y1 @ b" "length b \<le> m" "\<forall>t \<in> set b. p t"
    unfolding added_def by blast
  then show ?thesis unfolding added_def by (intro exI [of _ "a @ b"]) auto
qed

lemma added_base: "sy_tasks y = sy_tasks y0 \<Longrightarrow> added n p y y' \<Longrightarrow> added n p y0 y'"
  by (simp add: added_def)

lemma sy_tasks_on_world: "on_world op y = (r, y') \<Longrightarrow> sy_tasks y' = sy_tasks y"
  by (auto simp: on_world_def split: prod.splits)

lemma sy_tasks_snd_on_world [simp]: "sy_tasks (snd (on_world op y)) = sy_tasks y"
  by (simp add: on_world_def split: prod.splits)

lemma sy_tasks_snd_on_store [simp]: "sy_tasks (snd (on_store op y)) = sy_tasks y"
  by (simp add: on_store_def split: prod.splits)

lemma added_bind:
  assumes "added n p y (snd r)" and "\<And>x y1. r = (Inr x, y1) \<Longrightarrow> added m p y1 (snd (f x y1))"
  shows "added (n + m) p y (snd (st_bind r f))"
proof (cases r)
  case (Pair q y1)
  show ?thesis
  proof (cases q)
    case (Inl e)
    with Pair assms(1) show ?thesis by (auto intro: added_mono)
  next
    case (Inr x)
    with Pair assms added_trans show ?thesis by fastforce
  qed
qed

lemma added_final:
  assumes "added n p y (snd r)" and "\<And>x y1. sy_tasks (snd (f x y1)) = sy_tasks y1"
  shows "added n p y (snd (st_bind r f))"
  using added_bind [OF assms(1), of 0 f] assms(2) by (simp add: added_same)

lemma push_task_added: "p t \<Longrightarrow> added (Suc 0) p y (snd (push_task lib y t))"
  unfolding push_task_def
  by (rule added_final) (simp_all add: added_def)

lemma add_one_shot_in_added:
  assumes "\<And>i at now. p (new_task i k (OneShot at) now)"
  shows "added (Suc 0) p y (snd (add_one_shot_in lib y d k))"
proof -
  have "added (0 + Suc 0) p y0 (snd (st_bind (q, y0) (\<lambda>cd y. case on_world new_uuid y of (i, y) \<Rightarrow>
          push_task lib y (new_task i k (OneShot (now + cd)) now))))" for q y0 now
    by (rule added_bind)
       (auto simp: added_same split: prod.splits dest!: sy_tasks_on_world
         intro!: added_base [OF _ push_task_added] assms)
  then show ?thesis
    by (auto simp: add_one_shot_in_def Let_def split: prod.splits dest!: sy_tasks_on_world
        intro: added_base)
qed

lemma add_one_shot_at_added:
  assumes "\<And>i now. p (new_task i k (OneShot at) now)"
  shows "added (Suc 0) p y (snd (add_one_shot_at lib y at k))"
  by (auto simp: add_one_shot_at_def Let_def split: prod.splits dest!: sy_tasks_on_world
      intro!: added_base [OF _ push_task_added] assms)

subsection \<open>Who an automatic reply reaches\<close>

text \<open>A message to the inbound recipients, or to one identifier the account service vouches for.\<close>

definition confined_reply :: "guard_lib \<Rightarrow> run_task_task \<Rightarrow> scheduled_task \<Rightarrow> bool" where
  "confined_reply gl task t =
     (\<exists>s. t_kind t = SendReply s \<and> sr_cc s = [] \<and> sr_bcc s = []
        \<and> (sr_to s = rt_reply_to task \<and> sr_channel s = rt_channel task
           \<or> (\<exists>i. sr_to s = [i] \<and> is_routing_identifier_allowed gl task i
                 \<and> sr_in_reply_to s = None \<and> sr_references s = None)))"

lemma reply_target_cases:
  assumes "reply_target gl task w = ((c, to, cross), w')"
  shows "(\<not> cross \<and> c = rt_channel task \<and> to = rt_reply_to task)
         \<or> (cross \<and> (\<exists>i. to = [i] \<and> is_routing_identifier_allowed gl task i))"
  using assms by (auto simp: reply_target_def Let_def split: option.splits if_splits)

lemma ack_added:
  "added (Suc 0) (confined_reply (co_guard co) task) y
     (snd (schedule_cross_channel_ack co y task c ctx from))"
  by (auto simp: schedule_cross_channel_ack_def Let_def added_same split: prod.splits sum.splits
      dest!: sy_tasks_on_world
      intro!: added_base [OF _ added_final [OF add_one_shot_in_added]])
     (auto simp: confined_reply_def new_task_def reply_task_def)


lemma reply_confined:
  assumes "(\<not> cross \<and> c = rt_channel task \<and> to = rt_reply_to task)
           \<or> (cross \<and> (\<exists>i. to = [i] \<and> is_routing_identifier_allowed gl task i) \<and> irt = None \<and> refs = None)"
  shows "confined_reply gl task (new_task i (SendReply (reply_task task c subj html att from to irt refs)) sch now)"
  using assms by (auto simp: confined_reply_def new_task_def reply_task_def)

lemma auto_reply_tail_added:
  assumes "(\<not> cross \<and> c = rt_channel task \<and> to = rt_reply_to task)
           \<or> (cross \<and> (\<exists>i. to = [i] \<and> is_routing_identifier_allowed (co_guard co) task i)
              \<and> irt = None \<and> refs = None)"
  shows "added 2 (confined_reply (co_guard co) task) y
     (snd (st_bind (if cross then schedule_cross_channel_ack co y task c ctx from else (Inr (), y)) (\<lambda>_ y.
           st_bind (add_one_shot_in (co_store co) y 0 (SendReply (reply_task task c subj html att from to irt refs)))
             (\<lambda>_ y. (Inr True, y)))))"
proof -
  have "added (Suc 0 + Suc 0) (confined_reply (co_guard co) task) y
     (snd (st_bind (if cross then schedule_cross_channel_ack co y task c ctx from else (Inr (), y)) (\<lambda>_ y.
           st_bind (add_one_shot_in (co_store co) y 0 (SendReply (reply_task task c subj html att from to irt refs)))
             (\<lambda>_ y. (Inr True, y)))))"
  proof (rule added_bind, goal_cases)
    case 1
    then show ?case by (simp add: ack_added added_same)
  next
    case (2 x y1)
    show ?case by (rule added_final, rule add_one_shot_in_added, rule reply_confined [OF assms]) simp
  qed
  then show ?thesis by (simp add: numeral_2_eq_2)
qed

lemmas auto_reply_tails =
  auto_reply_tail_added [where cross = True, simplified]
  auto_reply_tail_added [where cross = False, simplified]

lemma auto_reply_added:
  "added 2 (confined_reply (co_guard co) task) y (snd (schedule_auto_reply co y task))"
proof -
  obtain tgt y1 where t: "on_world (reply_target (co_guard co) task) y = (tgt, y1)" by fastforce
  obtain c to cross where c: "tgt = (c, to, cross)" by (cases tgt) auto
  from t c have "\<exists>w w'. reply_target (co_guard co) task w = ((c, to, cross), w')"
    by (auto simp: on_world_def split: prod.splits)
  then have cases: "(\<not> cross \<and> c = rt_channel task \<and> to = rt_reply_to task)
         \<or> (cross \<and> (\<exists>i. to = [i] \<and> is_routing_identifier_allowed (co_guard co) task i))"
    using reply_target_cases by blast
  have "sy_tasks y1 = sy_tasks y" using t by (rule sy_tasks_on_world)
  then show ?thesis
    using cases t c
    by (auto simp: schedule_auto_reply_def Let_def added_same split: prod.splits dest!: sy_tasks_on_world
        intro!: added_base [OF _ auto_reply_tails(1)] added_base [OF _ auto_reply_tails(2)])
qed

text \<open>
  C3.  The automatic reply of a task adds at most two messages, and each goes to the
  recipients the task was started with, on the channel it came from, or to one identifier
  that the routing check admits, and then without any thread of the inbound channel; no copy
  goes to anybody else, whatever the files of the workspace say.
\<close>

theorem auto_reply_recipients_confined:
  "\<exists>new. sy_tasks (snd (schedule_auto_reply co y task)) = sy_tasks y @ new \<and> length new \<le> 2
     \<and> (\<forall>t \<in> set new. confined_reply (co_guard co) task t)"
  using auto_reply_added [of co task y] unfolding added_def .


subsection \<open>The file of a direct message\<close>

lemma fs_read_clock [simp]: "fs_read (w\<lparr>w_clock_reads := n\<rparr>) = fs_read w"
  "fs_read (w\<lparr>w_uuid_reads := n\<rparr>) = fs_read w"
  by (auto simp: fs_read_def fun_eq_iff)

lemma on_clock: "on_world utc_now y = (t, y') \<Longrightarrow>
    sy_tasks y' = sy_tasks y \<and> sy_store y' = sy_store y \<and> fs_read (sy_world y') = fs_read (sy_world y)"
  by (auto simp: on_world_def utc_now_def)

lemma on_uuid: "on_world new_uuid y = (t, y') \<Longrightarrow>
    sy_tasks y' = sy_tasks y \<and> sy_store y' = sy_store y \<and> fs_read (sy_world y') = fs_read (sy_world y)"
  by (auto simp: on_world_def new_uuid_def)

lemma push_task_ok:
  "push_task lib y t = (Inr i, y') \<Longrightarrow>
   i = t_id t \<and> sy_tasks y' = sy_tasks y @ [t] \<and> sy_world y' = sy_world y
   \<and> (\<exists>s'. store_insert_task lib (sy_store y) t = (Inr (), s') \<and> sy_store y' = s')"
  by (auto simp: push_task_def on_store_def split: prod.splits dest!: st_bind_ok)

lemma add_one_shot_in_ok:
  "add_one_shot_in lib y d k = (Inr i, y') \<Longrightarrow>
   \<exists>at now. sy_tasks y' = sy_tasks y @ [new_task i k (OneShot at) now]
            \<and> fs_read (sy_world y') = fs_read (sy_world y)"
  by (auto simp: add_one_shot_in_def Let_def new_task_def split: prod.splits
      dest!: st_bind_ok on_clock on_uuid push_task_ok)

lemma add_one_shot_at_ok:
  "add_one_shot_at lib y at k = (Inr i, y') \<Longrightarrow>
   \<exists>now. sy_tasks y' = sy_tasks y @ [new_task i k (OneShot at) now]
            \<and> fs_read (sy_world y') = fs_read (sy_world y)"
  by (auto simp: add_one_shot_at_def Let_def new_task_def split: prod.splits
      dest!: on_clock on_uuid push_task_ok)

lemma schedule_send_task_ok:
  "schedule_send_task co y st r ds dm = (Inr True, y') \<Longrightarrow>
   \<exists>t. sy_tasks y' = sy_tasks y @ [t] \<and> t_kind t = SendReply st
            \<and> fs_read (sy_world y') = fs_read (sy_world y)"
  by (auto simp: schedule_send_task_def new_task_def split: option.splits sum.splits
      dest!: st_bind_ok add_one_shot_in_ok add_one_shot_at_ok)

lemma schedule_send_slack_ok:
  assumes "schedule_send_slack co y task r = (Inr True, y')"
  shows "\<exists>t s. sy_tasks y' = sy_tasks y @ [t] \<and> t_kind t = SendReply s \<and> sr_to s = [ss_user_id r]
           \<and> sr_html_path s = path_join (rt_workspace_dir task) ''scheduled_slack_message.txt''
           \<and> fs_read (sy_world y') (sr_html_path s) = Some (ss_message r)"
  using assms
  by (auto simp: schedule_send_slack_def Let_def direct_send_task_def on_world_def fs_read_after_write
      split: if_splits prod.splits sum.splits dest!: schedule_send_task_ok)

text \<open>
  Two Slack messages that one run schedules are kept in the same file: after both were
  accepted, the task for the first recipient refers to a file that holds the text meant for
  the second.
\<close>

theorem slack_messages_share_file:
  assumes "schedule_send_slack co y task r1 = (Inr True, y1)"
    and "schedule_send_slack co y1 task r2 = (Inr True, y2)"
  shows "\<exists>t1 t2 s1 s2. sy_tasks y2 = sy_tasks y @ [t1, t2]
           \<and> t_kind t1 = SendReply s1 \<and> sr_to s1 = [ss_user_id r1]
           \<and> t_kind t2 = SendReply s2 \<and> sr_to s2 = [ss_user_id r2]
           \<and> sr_html_path s1 = sr_html_path s2
           \<and> fs_read (sy_world y2) (sr_html_path s1) = Some (ss_message r2)"
  using schedule_send_slack_ok [OF assms(1)] schedule_send_slack_ok [OF assms(2)] by fastforce


subsection \<open>Cancelling and rescheduling\<close>

definition stored_disabled :: "'j task_doc list \<Rightarrow> uuid \<Rightarrow> bool" where
  "stored_disabled ds i = (\<forall>d \<in> set ds. td_task_id d = Some i \<longrightarrow> td_enabled d = Some False)"

lemma update_disabled_stored:
  "\<not> t_enabled t \<Longrightarrow> i = t_id t \<or> stored_disabled ds i \<Longrightarrow>
   stored_disabled (update_all (update_task_filter t False) (update_task_set t False j) ds) i"
  by (auto simp: stored_disabled_def set_update_all update_task_filter_def update_task_set_def Let_def)

context task_store
begin

lemma disable_loop_effect:
  "disable_tasks_loop lib p ts s = (Inr n, ts', s') \<Longrightarrow>
   ts' = map (\<lambda>t. if p t then t\<lparr>t_enabled := False\<rparr> else t) ts
   \<and> (\<forall>i. stored_disabled (tdocs (s_tasks s)) i \<longrightarrow> stored_disabled (tdocs (s_tasks s')) i)
   \<and> (\<forall>t \<in> set ts. t_enabled t \<and> p t \<longrightarrow> stored_disabled (tdocs (s_tasks s')) (t_id t))"
proof (induction ts arbitrary: s n ts' s')
  case Nil
  then show ?case by simp
next
  case (Cons t ts)
  show ?case
  proof (cases "\<not> t_enabled t \<or> \<not> p t")
    case True
    obtain ts1 where l: "disable_tasks_loop lib p ts s = (Inr n, ts1, s')" and ts': "ts' = t # ts1"
      using Cons.prems True by (auto split: prod.splits)
    have "t\<lparr>t_enabled := False\<rparr> = t" if "\<not> t_enabled t" using that by (cases t) simp
    with Cons.IH [OF l] True show ?thesis unfolding ts' by auto
  next
    case False
    let ?t = "t\<lparr>t_enabled := False\<rparr>"
    from Cons.prems False obtain s1 m ts1 where u: "store_update_task lib s ?t = (Inr (), s1)"
      and l: "disable_tasks_loop lib p ts s1 = (Inr m, ts1, s')" and ts': "ts' = ?t # ts1"
      by (auto simp: Let_def res_bind_eq_Inr split: prod.splits sum.splits)
    from u obtain j where "tdocs (s_tasks s1) =
        update_all (update_task_filter ?t False) (update_task_set ?t False j) (tdocs (s_tasks s))"
      unfolding store_update_task_def by (rule update_internal_effect)
    then have k: "stored_disabled (tdocs (s_tasks s1)) i"
      if "i = t_id t \<or> stored_disabled (tdocs (s_tasks s)) i" for i
      using that update_disabled_stored [of ?t i] by simp
    from Cons.IH [OF l] have IH:
      "ts1 = map (\<lambda>t. if p t then t\<lparr>t_enabled := False\<rparr> else t) ts"
      "\<forall>i. stored_disabled (tdocs (s_tasks s1)) i \<longrightarrow> stored_disabled (tdocs (s_tasks s')) i"
      "\<forall>t \<in> set ts. t_enabled t \<and> p t \<longrightarrow> stored_disabled (tdocs (s_tasks s')) (t_id t)" by blast+
    with k [of "t_id t"] k False show ?thesis unfolding ts' by auto
  qed
qed

end


text \<open>
  A cancellation that succeeds disables exactly the tasks it names: their identifiers,
  kinds and schedules stay, every other task is left as it was, and whatever was enabled
  before is disabled in every owner's copy in the store.
\<close>

theorem cancel_disables_tasks:
  assumes "task_store (co_store co) tdocs edocs"
    and "apply_scheduler_action co now ctx task (Cancel raws) y = (Inr (), y')"
    and "ids = fst (parse_action_task_ids (co_parse_uuid co) raws)"
  shows "sy_tasks y' = map (\<lambda>t. if t_id t \<in> ids then t\<lparr>t_enabled := False\<rparr> else t) (sy_tasks y)
         \<and> (\<forall>t \<in> set (sy_tasks y). t_enabled t \<and> t_id t \<in> ids \<longrightarrow>
              (\<forall>d \<in> set (tdocs (s_tasks (sy_store y'))). td_task_id d = Some (t_id t) \<longrightarrow>
                 td_enabled d = Some False))"
proof (cases "ids = {}")
  case True
  with assms(2,3) show ?thesis by simp
next
  case False
  with assms(2) obtain n where "disable_tasks_by (co_store co) y (\<lambda>t. t_id t \<in> ids) = (Inr n, y')"
    unfolding apply_scheduler_action.simps Let_def assms(3) [symmetric]
    by (auto dest!: st_bind_ok)
  then obtain ts s where l: "disable_tasks_loop (co_store co) (\<lambda>t. t_id t \<in> ids) (sy_tasks y) (sy_store y)
      = (Inr n, ts, s)" and y': "sy_tasks y' = ts" "sy_store y' = s"
    by (auto simp: disable_tasks_by_def split: prod.splits)
  from task_store.disable_loop_effect [OF assms(1) l] show ?thesis
    unfolding y' stored_disabled_def by blast
qed

text \<open>
  Rescheduling a task that the system disabled for a reason is only half done: the task
  becomes enabled with the new schedule in memory, and the action counts as successful, but
  every copy in the store stays disabled, because the action writes with the guarded update.
\<close>

theorem reschedule_leaves_store_disabled:
  assumes "task_store (co_store co) tdocs edocs"
    and "apply_scheduler_action co now ctx task (Reschedule raw req) y = (Inr (), y')"
    and "co_parse_uuid co raw = Some i" and "t \<in> set (sy_tasks y)" "t_id t = i"
    and "resolve_schedule_request_with_context (sl_cron (co_store co)) (co_parse_rfc3339 co) req now ctx
           = Inr sch"
    and "reason \<noteq> []" and "\<forall>d \<in> set (tdocs (s_tasks (sy_store y))). disabled_for i reason d"
  shows "(\<exists>t' \<in> set (sy_tasks y'). t_id t' = i \<and> t_enabled t' \<and> t_schedule t' = sch)
         \<and> (\<forall>d \<in> set (tdocs (s_tasks (sy_store y'))). disabled_for i reason d)"
proof -
  let ?p = "\<lambda>t. t_id t = i"
  obtain k where k: "position ?p (sy_tasks y) = Some k"
    using assms(4,5) by (cases "position ?p (sy_tasks y)") (auto simp: position_None)
  note kp = position_SomeD [OF k]
  let ?t = "(sy_tasks y ! k)\<lparr>t_schedule := sch, t_enabled := True\<rparr>"
  from assms(2,3,6) k have "st_bind (on_store (\<lambda>s. store_update_task (co_store co) s ?t) (set_task y k ?t))
      (\<lambda>_ y. (Inr (), y)) = (Inr (), y')" by (simp add: Let_def)
  then obtain s where u: "store_update_task (co_store co) (sy_store y) ?t = (Inr (), s)"
    and y': "sy_tasks y' = (sy_tasks y)[k := ?t]" "sy_store y' = s"
    by (auto simp: on_store_def set_task_def split: prod.splits dest!: st_bind_ok)
  from u obtain j where "tdocs (s_tasks s) =
      update_all (update_task_filter ?t False) (update_task_set ?t False j) (tdocs (s_tasks (sy_store y)))"
    unfolding store_update_task_def by (rule task_store.update_internal_effect [OF assms(1)])
  with update_keeps_disabled_for [OF assms(7,8)]
  have "\<forall>d \<in> set (tdocs (s_tasks s)). disabled_for i reason d" by simp
  moreover have "?t \<in> set (sy_tasks y')" using kp by (simp add: y' set_update_memI)
  moreover have "t_id ?t = i" using kp by simp
  ultimately show ?thesis unfolding y'(2) by (intro conjI bexI [of _ ?t]) simp_all
qed

subsection \<open>A concrete core\<close>

definition plain_guard :: guard_lib where
  "plain_guard =
     \<lparr>gl_lookup_identifier = (\<lambda>_ _. None), gl_lookup_channel = (\<lambda>_ _. None),
      gl_list_identifiers = None, gl_routing_json = (\<lambda>_. None), gl_mail_from_json = (\<lambda>_. None),
      gl_extract_emails = (\<lambda>s. [s]), gl_employee_addresses = (\<lambda>_. []),
      gl_to_lowercase = to_lowercase\<rparr>"

definition memory_core :: "(memory_tasks, memory_execs, scheduled_task, unit) core_lib" where
  "memory_core =
     \<lparr>co_store = memory_lib, co_guard = plain_guard, co_notify = quiet_notify,
      co_thread = pair_codec, co_parse_rfc3339 = (\<lambda>_. Inr (secs 9)), co_parse_uuid = Some,
      co_employee_email = (\<lambda>_ _. None), co_set_tpm_database = None, co_is_account = (\<lambda>_. False),
      co_open_store = (\<lambda>_. None), co_snapshot_json = (\<lambda>_. Inr ''snapshot''),
      co_stamp = (\<lambda>_. ''t''), co_execute = (\<lambda>_ w. (Inr task_execution_empty, w)),
      co_archive_begin = (\<lambda>_ _ _ w. (None, w)), co_archive_finish = (\<lambda>_ _ _ _ _ _ w. w),
      co_deregister_aci = (\<lambda>_ w. w)\<rparr>"

lemma memory_core_simps [simp]:
  "co_store memory_core = memory_lib" "co_parse_uuid memory_core = Some"
  "co_parse_rfc3339 memory_core = (\<lambda>_. Inr (secs 9))" "co_guard memory_core = plain_guard"
  "co_notify memory_core = quiet_notify" "co_thread memory_core = pair_codec"
  "co_open_store memory_core = (\<lambda>_. None)" "co_set_tpm_database memory_core = None"
  by (simp_all add: memory_core_def)

definition memory_system ::
    "scheduled_task list \<Rightarrow> scheduled_task task_doc list \<Rightarrow> (memory_tasks, memory_execs) system" where
  "memory_system tasks docs =
     \<lparr>sy_tasks = tasks, sy_store = memory_store docs [], sy_world = plain_world [''/w''],
      sy_reconciliation_failures = 0\<rparr>"

lemma memory_system_simps [simp]:
  "sy_tasks (memory_system ts ds) = ts" "sy_store (memory_system ts ds) = memory_store ds []"
  "sy_world (memory_system ts ds) = plain_world [''/w'']"
  by (simp_all add: memory_system_def)

lemma memory_store_simps [simp]:
  "s_tasks (memory_store ds es) = (ds, [])" "s_execs (memory_store ds es) = (es, [])"
  "s_owner_kind (memory_store ds es) = ''user''" "s_owner_id (memory_store ds es) = ''u1''"
  "s_seq (memory_store ds es) = 0"
  by (simp_all add: memory_store_def)

interpretation mc: task_store "co_store memory_core" fst fst
  by (simp add: ms.task_store_axioms)

theorem cancel_disables_tasks_witness:
  "\<exists>y'. apply_scheduler_action memory_core 0 None slack_run_task (Cancel [''a''])
          (memory_system [noop_task ''a'' True, noop_task ''b'' True] [noop_doc ''a'' True]) = (Inr (), y')
     \<and> sy_tasks y' = [noop_task ''a'' False, noop_task ''b'' True]"
proof -
  let ?y = "memory_system [noop_task ''a'' True, noop_task ''b'' True] [noop_doc ''a'' True]"
  obtain y' where 1: "apply_scheduler_action memory_core 0 None slack_run_task (Cancel [''a'']) ?y = (Inr (), y')"
    by (simp add: disable_tasks_by_def Let_def noop_task_def store_update_task_def update_task_internal_def
        serialize_task_def)
  from cancel_disables_tasks [OF mc.task_store_axioms 1 refl] 1 show ?thesis
    by (simp add: noop_task_def)
qed

theorem reschedule_leaves_store_disabled_witness:
  "\<exists>y'. apply_scheduler_action memory_core 0 None slack_run_task (Reschedule ''a'' (ReqOneShot ''later''))
          (memory_system [noop_task ''a'' False] [auto_disable_set ''stuck'' 0 (noop_doc ''a'' True)])
          = (Inr (), y')
     \<and> (\<exists>t' \<in> set (sy_tasks y'). t_id t' = ''a'' \<and> t_enabled t')
     \<and> (\<forall>d \<in> set (fst (s_tasks (sy_store y'))). disabled_for ''a'' ''stuck'' d)"
proof -
  let ?y = "memory_system [noop_task ''a'' False] [auto_disable_set ''stuck'' 0 (noop_doc ''a'' True)]"
  have r: "resolve_schedule_request_with_context (sl_cron (co_store memory_core)) (co_parse_rfc3339 memory_core)
      (ReqOneShot ''later'') 0 None = Inr (OneShot (secs 9))"
    by (simp add: resolve_schedule_request_with_context_def time_simps)
  obtain y' where 1: "apply_scheduler_action memory_core 0 None slack_run_task
      (Reschedule ''a'' (ReqOneShot ''later'')) ?y = (Inr (), y')"
    using r by (simp add: Let_def noop_task_def on_store_def set_task_def store_update_task_def
        update_task_internal_def serialize_task_def)
  have "\<forall>d \<in> set (fst (s_tasks (sy_store ?y))). disabled_for ''a'' ''stuck'' d"
    by (simp add: disabled_for_def auto_disable_set_def)
  from reschedule_leaves_store_disabled [OF mc.task_store_axioms 1 _ _ _ r _ this] 1 show ?thesis
    by (auto simp: noop_task_def)
qed


lemma workspace_path [simp]:
  "\<not> path_is_absolute n \<Longrightarrow> path_join ''/w'' n = ''/w/'' @ n"
  by (simp add: path_join_def ends_with_def)

lemma path_is_absolute_Cons: "path_is_absolute (c # s) \<longleftrightarrow> c = CHR ''/''"
  by (simp add: path_is_absolute_def starts_with_def)

definition slack_request :: "string \<Rightarrow> string \<Rightarrow> scheduled_send_slack_task" where
  "slack_request user message =
     \<lparr>ss_team_id = ''T'', ss_user_id = user, ss_message = message, ss_delay_minutes = None,
      ss_delay_seconds = Some 60, ss_run_at = None\<rparr>"

lemma push_task_memory:
  "push_task memory_lib y t =
     (Inr (t_id t), y\<lparr>sy_tasks := sy_tasks y @ [t], sy_store := snd (store_insert_task memory_lib (sy_store y) t)\<rparr>)"
  if "snd (s_tasks (sy_store y)) = []"
  using that
  by (cases "s_tasks (sy_store y)")
     (simp add: push_task_def on_store_def store_insert_task_def serialize_task_def split: prod.splits)

lemma insert_memory_quiet:
  "snd (s_tasks s) = [] \<Longrightarrow> snd (s_tasks (snd (store_insert_task memory_lib s t))) = []"
  by (cases "s_tasks s") (simp add: store_insert_task_def serialize_task_def)

theorem slack_messages_share_file_witness:
  "\<exists>y1 y2 t1 t2. schedule_send_slack memory_core (memory_system [] []) slack_run_task (slack_request ''ann'' ''1'')
        = (Inr True, y1)
     \<and> schedule_send_slack memory_core y1 slack_run_task (slack_request ''bob'' ''2'') = (Inr True, y2)
     \<and> sy_tasks y2 = [t1, t2]
     \<and> (\<exists>s. t_kind t1 = SendReply s \<and> sr_to s = [''ann''] \<and> fs_read (sy_world y2) (sr_html_path s) = Some ''2'')"
proof -
  note evals = Let_def schedule_send_slack_def slack_request_def on_world_def fs_write_def
    fs_parent_exists_def path_parent_def starts_with_def fs_is_dir_def path_is_absolute_Cons
    schedule_send_task_def add_one_shot_in_def chrono_from_std_def utc_now_def new_uuid_def
    push_task_memory insert_memory_quiet trim_def trim_end_def ws1_def ws2_def ws3_def
    plain_world_def time_simps i64_max_def
  obtain y1 where 1: "schedule_send_slack memory_core (memory_system [] []) slack_run_task
      (slack_request ''ann'' ''1'') = (Inr True, y1)"
    and w1: "w_dirs (sy_world y1) = [''/w'']" "w_refuse (sy_world y1) = (\<lambda>_. None)"
      "w_torn (sy_world y1) = (\<lambda>_. None)" "snd (s_tasks (sy_store y1)) = []"
    by (simp add: evals)
  obtain y2 where 2: "schedule_send_slack memory_core y1 slack_run_task (slack_request ''bob'' ''2'')
      = (Inr True, y2)"
    by (simp add: evals w1)
  from slack_messages_share_file [OF 1 2] 1 2 show ?thesis
    by (auto simp: slack_request_def)
qed


theorem auto_reply_recipients_confined_witness:
  "\<exists>y' t. schedule_auto_reply memory_core
          ((memory_system [] [])\<lparr>sy_world := (plain_world [''/w''])\<lparr>w_files := [(''/w/reply_message.txt'', ''hi'')]\<rparr>\<rparr>)
          slack_run_task = (Inr True, y')
     \<and> sy_tasks y' = [t] \<and> confined_reply plain_guard slack_run_task t"
proof -
  let ?w = "(plain_world [''/w''])\<lparr>w_files := [(''/w/reply_message.txt'', ''hi'')]\<rparr>"
  let ?y = "(memory_system [] [])\<lparr>sy_world := ?w\<rparr>"
  have e: "thread_epoch_matches pair_codec ?w slack_run_task"
    by (simp add: thread_epoch_matches_def)
  have t: "reply_target plain_guard slack_run_task ?w = ((Slack, [''U1''], False), ?w)"
    by (simp add: reply_target_def load_reply_routing_def path_is_absolute_Cons fs_read_def plain_world_def
        plain_guard_def)
  have f: "reply_file_names Slack = (''reply_message.txt'', ''reply_attachments'')"
    by (simp add: reply_file_names_def is_html_channel_def)
  have i: "\<not> should_skip_closure_loop_reply plain_guard ?w slack_run_task"
    by (simp add: should_skip_closure_loop_reply_def is_internal_sender_def Let_def
        load_internal_sender_id_whitelist_def channel_internal_sender_env_key_def plain_world_def)
  have g: "apply_workspace_secret_leak_guard ''/w'' r a c ?w = (False, ?w)" for r a c
    by (simp add: apply_workspace_secret_leak_guard_def collect_sensitive_workspace_secret_values_def
        path_is_absolute_Cons fs_read_to_string_def fs_read_def plain_world_def)
  have x: "fs_exists ?w ''/w/reply_message.txt''"
    by (simp add: fs_exists_def fs_is_file_def)
  obtain y' where 1: "schedule_auto_reply memory_core ?y slack_run_task = (Inr True, y')"
    and l: "length (sy_tasks y') = 1"
    by (simp add: schedule_auto_reply_def e t f i g x on_world_def path_is_absolute_Cons Let_def
        add_one_shot_in_def chrono_from_std_def utc_now_def new_uuid_def push_task_memory time_simps
        i64_max_def)
  obtain t where "sy_tasks y' = [t]" using l by (cases "sy_tasks y'") auto
  with auto_reply_recipients_confined [of memory_core ?y slack_run_task] 1 show ?thesis
    by auto
qed

end
