(* ===== verification/Scheduler_Core.thy ===== *)
theory Scheduler_Core
  imports Action_Properties
begin

text \<open>
  Running tasks, \<open>Scheduler::execute_task_at_index\<close>, \<open>tick\<close> and \<open>run_loop\<close> of
  \<open>scheduler/core.rs\<close>: the bookkeeping around one execution of the agent, with its success and
  failure branches, the retry policy and the mirror of the outcome in the account's storage.
\<close>

subsection \<open>The outcome\<close>

definition execution_terminal_outcome :: "task_execution \<Rightarrow> string \<times> string option" where
  "execution_terminal_outcome execution =
     (if te_superseded execution then ''superseded''
      else unwrap_or ''success'' (te_terminal_status execution),
      or_else (te_terminal_error_message execution) (te_terminal_note execution))"

text \<open>The account whose storage mirrors the executions of a task, if there is one.\<close>

definition sync_account :: "guard_lib \<Rightarrow> run_task_task \<Rightarrow> uuid option" where
  "sync_account gl task =
     (if rt_channel task \<notin> set [Discord, Slack, Email, GoogleDocs, GoogleSheets, GoogleSlides, Lark, Notion]
      then None
      else
        case rt_account_id task of
          Some i \<Rightarrow> Some i
        | None \<Rightarrow>
            (case (rt_requester_identifier_type task, rt_requester_identifier task) of
               (Some id_type, Some id_value) \<Rightarrow> gl_lookup_identifier gl id_type id_value
             | _ \<Rightarrow>
                 (case rt_reply_to task of
                    [] \<Rightarrow> None
                  | identifier # _ \<Rightarrow> gl_lookup_channel gl (rt_channel task) identifier)))"

definition sync_task_status_to_user_storage ::
    "('t, 'e, 'j, 'a) core_lib \<Rightarrow> ('t, 'e) system \<Rightarrow> uuid \<Rightarrow> task_kind \<Rightarrow> execution_record_handle
     \<Rightarrow> datetime \<Rightarrow> string \<Rightarrow> string option \<Rightarrow> ('t, 'e) system" where
  "sync_task_status_to_user_storage co y task_id kind execution finished_at status error_message =
     (case kind of
        RunTask task \<Rightarrow>
          (case sync_account (co_guard co) task of
             None \<Rightarrow> y
           | Some account_id \<Rightarrow>
               (case w_env (sy_world y) ''USERS_ROOT'' of
                  None \<Rightarrow> y
                | Some users_root \<Rightarrow>
                    let (oid, y) = on_world new_uuid y in
                    open_in_scope co (account_tasks_db users_root account_id)
                      (\<lambda>s. store_upsert_terminal_execution (co_store co) s oid task_id execution
                             finished_at status error_message) y))
      | _ \<Rightarrow> y)"

definition cleanup_run_task_aci_recovery_registration ::
    "('t, 'e, 'j, 'a) core_lib \<Rightarrow> task_kind \<Rightarrow> ('t, 'e) system \<Rightarrow> ('t, 'e) system" where
  "cleanup_run_task_aci_recovery_registration co kind y =
     (case kind of
        RunTask task \<Rightarrow> y\<lparr>sy_world := co_deregister_aci co (rt_workspace_dir task) (sy_world y)\<rparr>
      | _ \<Rightarrow> y)"

definition reset_reconciliation_failure_counter :: "('t, 'e) system \<Rightarrow> ('t, 'e) system" where
  "reset_reconciliation_failure_counter y = y\<lparr>sy_reconciliation_failures := 0\<rparr>"

definition finalize_archive ::
    "('t, 'e, 'j, 'a) core_lib \<Rightarrow> 'a option \<Rightarrow> scheduled_task \<Rightarrow> nat \<Rightarrow> datetime \<Rightarrow> string
     \<Rightarrow> string option \<Rightarrow> ('t, 'e) system \<Rightarrow> ('t, 'e) system" where
  "finalize_archive co session before index executed_at status note y =
     (case session of
        None \<Rightarrow> y
      | Some a \<Rightarrow>
          y\<lparr>sy_world := co_archive_finish co a before (sy_tasks y ! index) executed_at status note
                         (sy_world y)\<rparr>)"

subsection \<open>After a success\<close>

text \<open>What a completed run does to its task: a reason disables it, a cron task moves on.\<close>

definition completed_task ::
    "cron_lib \<Rightarrow> scheduled_task \<Rightarrow> datetime \<Rightarrow> string option \<Rightarrow> scheduler_error + scheduled_task" where
  "completed_task cron task executed_at disable_reason =
     (if disable_reason \<noteq> None then Inr (task\<lparr>t_enabled := False\<rparr>)
      else case t_schedule task of
             Cron expression _ \<Rightarrow>
               res_bind (next_run_after cron expression executed_at)
                 (\<lambda>next_run. Inr (task\<lparr>t_schedule := Cron expression next_run\<rparr>))
           | OneShot _ \<Rightarrow> Inr (task\<lparr>t_enabled := False\<rparr>))"

text \<open>The messages and schedule changes of a run; errors are logged and passed over.\<close>

definition follow_up_run_task ::
    "('t, 'e, 'j, 'a) core_lib \<Rightarrow> run_task_task \<Rightarrow> task_execution \<Rightarrow> ('t, 'e) system \<Rightarrow> ('t, 'e) system"
where
  "follow_up_run_task co task execution y =
     (let y = snd (on_world (\<lambda>w. snapshot_reply_draft (co_stamp co) w task) y);
          y = ingest_follow_up_tasks co y task (te_follow_up_tasks execution);
          y = (if te_skip_auto_reply execution then y else snd (schedule_auto_reply co y task))
      in snd (apply_scheduler_actions co y task (te_scheduler_actions execution)))"

text \<open>
  What remains after the completed task was stored: the reason is kept with an automatic
  disable, the run is followed up unless it was superseded, and its outcome is mirrored.
\<close>

definition after_success ::
    "('t, 'e, 'j, 'a) core_lib \<Rightarrow> nat \<Rightarrow> scheduled_task \<Rightarrow> execution_record_handle
     \<Rightarrow> datetime \<Rightarrow> task_execution \<Rightarrow> 'a option \<Rightarrow> ('t, 'e) system \<Rightarrow> ('t, 'e) system" where
  "after_success co index before handle executed_at execution session y =
     (let (status, note) = execution_terminal_outcome execution;
          y = (case te_disable_current_task_reason execution of
                 Some r \<Rightarrow>
                   let (loaded_at, y) = on_world utc_now y; (now, y) = on_world utc_now y in
                   snd (on_store (\<lambda>s. store_disable_task_by_id_with_reason (co_store co) s
                                        (t_id before) r loaded_at now) y)
               | None \<Rightarrow> y);
          y = (if te_superseded execution then y
               else case t_kind before of
                      RunTask run_task \<Rightarrow> follow_up_run_task co run_task execution y
                    | _ \<Rightarrow> y);
          y = sync_task_status_to_user_storage co y (t_id before) (t_kind before) handle executed_at
                status note
      in finalize_archive co session before index executed_at status note y)"

definition finish_success ::
    "('t, 'e, 'j, 'a) core_lib \<Rightarrow> ('t, 'e) system \<Rightarrow> nat \<Rightarrow> scheduled_task \<Rightarrow> execution_record_handle
     \<Rightarrow> datetime \<Rightarrow> task_execution \<Rightarrow> 'a option \<Rightarrow> ('t, 'e, unit) sys_result" where
  "finish_success co y index before handle executed_at execution session =
     (let kind = t_kind before; task_id = t_id before;
          (status, note) = execution_terminal_outcome execution;
          y = (if status \<noteq> ''failed''
               then snd (on_store (\<lambda>s. store_reset_retry_count (co_store co) s task_id) y) else y)
      in st_bind (on_store (\<lambda>s. store_record_execution_finish (co_store co) s task_id handle
                               executed_at status note) y) (\<lambda>_ y.
         let y = cleanup_run_task_aci_recovery_registration co kind y;
             y = (if status = ''success'' then reset_reconciliation_failure_counter y else y);
             task = (sy_tasks y ! index)\<lparr>t_last_run := Some executed_at\<rparr>;
             y = set_task y index task
         in st_bind (completed_task (sl_cron (co_store co)) task executed_at
                       (te_disable_current_task_reason execution), y) (\<lambda>task y.
            st_bind (on_store (\<lambda>s. store_update_task (co_store co) s task) (set_task y index task)) (\<lambda>_ y.
              (Inr (), after_success co index before handle executed_at execution session y)))))"

subsection \<open>After a failure\<close>

definition disable_after_failure ::
    "('t, 'e, 'j, 'a) core_lib \<Rightarrow> nat \<Rightarrow> ('t, 'e) system \<Rightarrow> ('t, 'e, unit) sys_result" where
  "disable_after_failure co index y =
     (let task = (sy_tasks y ! index)\<lparr>t_enabled := False\<rparr>
      in on_store (\<lambda>s. store_update_task (co_store co) s task) (set_task y index task))"

text \<open>The retry policy for a one-shot task; a failed notice or report is only logged.\<close>

definition retry_or_disable ::
    "('t, 'e, 'j, 'a) core_lib \<Rightarrow> nat \<Rightarrow> uuid \<Rightarrow> run_task_task \<Rightarrow> datetime \<Rightarrow> string
     \<Rightarrow> ('t, 'e) system \<Rightarrow> ('t, 'e, unit) sys_result" where
  "retry_or_disable co index task_id run_task executed_at message y =
     st_bind (on_store (\<lambda>s. store_increment_retry_count (co_store co) s task_id) y) (\<lambda>retry_count y.
     let failure_class = classify_run_task_failure message in
     if retry_count < run_task_failure_limit \<and> \<not> should_not_retry failure_class then
       let delay = run_task_retry_delay retry_count failure_class;
           task = (sy_tasks y ! index)\<lparr>t_schedule := OneShot (executed_at + delay)\<rparr>
       in st_bind (on_store (\<lambda>s. store_update_task (co_store co) s task) (set_task y index task)) (\<lambda>_ y.
            (Inr (), snd (on_world (\<lambda>w. notify_run_task_retry (co_notify co) w task_id run_task
                            retry_count delay failure_class message) y)))
     else
       let y = snd (on_world (\<lambda>w. notify_run_task_failure (co_notify co) w task_id run_task
                      retry_count failure_class message) y);
           y = snd (on_store (\<lambda>s. store_reset_retry_count (co_store co) s task_id) y)
       in disable_after_failure co index y)"

definition handle_failed_one_shot ::
    "('t, 'e, 'j, 'a) core_lib \<Rightarrow> nat \<Rightarrow> datetime \<Rightarrow> string \<Rightarrow> ('t, 'e) system \<Rightarrow> ('t, 'e, unit) sys_result"
where
  "handle_failed_one_shot co index executed_at message y =
     (let task = sy_tasks y ! index in
      case t_schedule task of
        Cron _ _ \<Rightarrow> (Inr (), y)
      | OneShot _ \<Rightarrow>
          (case t_kind task of
             RunTask run_task \<Rightarrow> retry_or_disable co index (t_id task) run_task executed_at message y
           | _ \<Rightarrow> disable_after_failure co index y))"

definition finish_failure ::
    "('t, 'e, 'j, 'a) core_lib \<Rightarrow> ('t, 'e) system \<Rightarrow> nat \<Rightarrow> scheduled_task \<Rightarrow> execution_record_handle
     \<Rightarrow> datetime \<Rightarrow> scheduler_error \<Rightarrow> 'a option \<Rightarrow> ('t, 'e, unit) sys_result" where
  "finish_failure co y index before handle executed_at err session =
     (let kind = t_kind before; task_id = t_id before; message = scheduler_error_to_string err in
      st_bind (on_store (\<lambda>s. store_record_execution_finish (co_store co) s task_id handle
                               executed_at ''failed'' (Some message)) y) (\<lambda>_ y.
      let y = cleanup_run_task_aci_recovery_registration co kind y;
          y = sync_task_status_to_user_storage co y task_id kind handle executed_at ''failed'' (Some message)
      in st_bind (handle_failed_one_shot co index executed_at message y) (\<lambda>_ y.
           (Inl err, finalize_archive co session before index executed_at ''failed'' (Some message) y))))"

subsection \<open>One execution\<close>

definition snapshot_before_run ::
    "('t, 'e, 'j, 'a) core_lib \<Rightarrow> task_kind \<Rightarrow> ('t, 'e) system \<Rightarrow> ('t, 'e) system" where
  "snapshot_before_run co kind y =
     (case kind of
        RunTask run_task \<Rightarrow>
          let (now, y) = on_world utc_now y in
          snd (on_world (\<lambda>w. write_scheduler_snapshot (co_snapshot_json co) w
                               (rt_workspace_dir run_task) (sy_tasks y) now) y)
      | _ \<Rightarrow> y)"

definition execute_task_at_index ::
    "('t, 'e, 'j, 'a) core_lib \<Rightarrow> ('t, 'e) system \<Rightarrow> nat \<Rightarrow> ('t, 'e, unit) sys_result" where
  "execute_task_at_index co y index =
     (let before = sy_tasks y ! index;
          y = snapshot_before_run co (t_kind before) y;
          (started_at, y) = on_world utc_now y;
          (oid, y) = on_world new_uuid y
      in st_bind (on_store (\<lambda>s. store_record_execution_start (co_store co) s oid (t_id before) started_at) y)
           (\<lambda>handle y.
              let (session, y) = on_world (co_archive_begin co before (h_execution_id handle) started_at) y;
                  (result, y) = on_world (co_execute co (t_kind before)) y;
                  (executed_at, y) = on_world utc_now y
              in case result of
                   Inr execution \<Rightarrow> finish_success co y index before handle executed_at execution session
                 | Inl err \<Rightarrow> finish_failure co y index before handle executed_at err session))"

subsection \<open>The loop\<close>

definition execute_task_by_id ::
    "('t, 'e, 'j, 'a) core_lib \<Rightarrow> ('t, 'e) system \<Rightarrow> uuid \<Rightarrow> ('t, 'e, bool) sys_result" where
  "execute_task_by_id co y task_id =
     (let (now, y) = on_world utc_now y in
      case position (\<lambda>t. t_id t = task_id) (sy_tasks y) of
        None \<Rightarrow> (Inr False, y)
      | Some index \<Rightarrow>
          let task = sy_tasks y ! index in
          if \<not> t_enabled task \<or> \<not> is_due task now then (Inr False, y)
          else st_bind (execute_task_at_index co y index) (\<lambda>_ y. (Inr True, y)))"

fun tick_indices ::
    "('t, 'e, 'j, 'a) core_lib \<Rightarrow> datetime \<Rightarrow> nat list \<Rightarrow> ('t, 'e) system \<Rightarrow> ('t, 'e, unit) sys_result" where
  "tick_indices co now [] y = (Inr (), y)"
| "tick_indices co now (index # rest) y =
     (let task = sy_tasks y ! index in
      if \<not> t_enabled task \<or> \<not> is_due task now then tick_indices co now rest y
      else st_bind (execute_task_at_index co y index) (\<lambda>_ y. tick_indices co now rest y))"

definition tick :: "('t, 'e, 'j, 'a) core_lib \<Rightarrow> ('t, 'e) system \<Rightarrow> ('t, 'e, unit) sys_result" where
  "tick co y =
     (let (now, y) = on_world utc_now y in tick_indices co now [0..<length (sy_tasks y)] y)"

text \<open>
  \<open>run_loop\<close> on the values the stop flag is found to have before each round, as long as they
  last: \<open>None\<close> is a loop that is still running.
\<close>

fun run_loop ::
    "('t, 'e, 'j, 'a) core_lib \<Rightarrow> bool list \<Rightarrow> ('t, 'e) system \<Rightarrow> ('t, 'e, unit) sys_result option" where
  "run_loop co [] y = None"
| "run_loop co (stop # rest) y =
     (if stop then Some (Inr (), y)
      else case tick co y of
             (Inl e, y) \<Rightarrow> Some (Inl e, y)
           | (Inr _, y) \<Rightarrow> run_loop co rest y)"

end
