(* ===== verification/Core_Properties.thy ===== *)
theory Core_Properties
  imports Scheduler_Core
begin

text \<open>
  What one execution and one tick do to the tasks: a one-shot task runs once, a failed one is
  tried three times in all, a tick runs what was due when it began and nothing else.
\<close>

subsection \<open>Steps that keep the task list\<close>

lemma sync_keeps_tasks [simp]:
  "sy_tasks (sync_task_status_to_user_storage co y i k h t st err) = sy_tasks y"
  by (auto simp: sync_task_status_to_user_storage_def open_in_scope_def Let_def
      split: task_kind.splits option.splits prod.splits dest!: sy_tasks_on_world)

lemma cleanup_keeps_tasks [simp]:
  "sy_tasks (cleanup_run_task_aci_recovery_registration co k y) = sy_tasks y"
  by (simp add: cleanup_run_task_aci_recovery_registration_def split: task_kind.splits)

lemma reset_keeps_tasks [simp]: "sy_tasks (reset_reconciliation_failure_counter y) = sy_tasks y"
  by (simp add: reset_reconciliation_failure_counter_def)

lemma archive_keeps_tasks [simp]: "sy_tasks (finalize_archive co a b k t st n y) = sy_tasks y"
  by (simp add: finalize_archive_def split: option.splits)

lemma sy_tasks_set_task [simp]: "sy_tasks (set_task y k t) = (sy_tasks y)[k := t]"
  by (simp add: set_task_def)

lemma sy_tasks_on_store: "on_store op y = (r, y') \<Longrightarrow> sy_tasks y' = sy_tasks y"
  by (auto simp: on_store_def split: prod.splits)

subsection \<open>Follow-ups only add tasks\<close>

lemma st_bind_append:
  assumes "\<exists>n. sy_tasks (snd r) = sy_tasks y @ n"
    and "\<And>x y1. r = (Inr x, y1) \<Longrightarrow> \<exists>n. sy_tasks (snd (f x y1)) = sy_tasks y1 @ n"
  shows "\<exists>n. sy_tasks (snd (st_bind r f)) = sy_tasks y @ n"
proof (cases r)
  case (Pair q y1)
  with assms show ?thesis by (cases q) fastforce+
qed

lemma send_task_appends: "\<exists>n. sy_tasks (snd (schedule_send_task co y st r ds dm)) = sy_tasks y @ n"
proof -
  have a: "\<exists>n. sy_tasks (snd (add_one_shot_in lib y d k)) = sy_tasks y @ n" for lib d k
    using add_one_shot_in_added [of "\<lambda>_. True"] unfolding added_def by blast
  have b: "\<exists>n. sy_tasks (snd (add_one_shot_at lib y at k)) = sy_tasks y @ n" for lib at k
    using add_one_shot_at_added [of "\<lambda>_. True"] unfolding added_def by blast
  show ?thesis
    by (auto simp: schedule_send_task_def split: option.splits sum.splits intro!: st_bind_append a b)
qed

lemma send_task_appends_from:
  "sy_tasks y = sy_tasks y0 \<Longrightarrow> \<exists>n. sy_tasks (snd (schedule_send_task co y st r ds dm)) = sy_tasks y0 @ n"
  using send_task_appends by metis

lemma follow_up_appends: "\<exists>n. sy_tasks (snd (schedule_follow_up co y task req)) = sy_tasks y @ n"
  by (cases req)
     (auto simp: schedule_send_email_def schedule_send_slack_def schedule_send_discord_def Let_def
        split: option.splits prod.splits sum.splits if_splits dest!: sy_tasks_on_world
        intro!: send_task_appends_from)

lemma ingest_appends: "\<exists>n. sy_tasks (ingest_follow_up_tasks co y task reqs) = sy_tasks y @ n"
proof -
  have "\<exists>n. sy_tasks (foldl (\<lambda>y request. snd (schedule_follow_up co y task request)) y reqs) = sy_tasks y @ n"
  proof (induction reqs arbitrary: y)
    case (Cons r rs)
    obtain n where "sy_tasks (snd (schedule_follow_up co y task r)) = sy_tasks y @ n"
      using follow_up_appends by blast
    with Cons [of "snd (schedule_follow_up co y task r)"] show ?case by auto
  qed simp
  then show ?thesis by (simp add: ingest_follow_up_tasks_def)
qed

lemma auto_reply_appends: "\<exists>n. sy_tasks (snd (schedule_auto_reply co y task)) = sy_tasks y @ n"
  using auto_reply_added [of co task y] unfolding added_def by blast

lemma follow_up_run_appends:
  assumes "te_scheduler_actions ex = []"
  shows "\<exists>n. sy_tasks (follow_up_run_task co task ex y) = sy_tasks y @ n"
proof -
  let ?y1 = "snd (on_world (\<lambda>w. snapshot_reply_draft (co_stamp co) w task) y)"
  let ?y2 = "ingest_follow_up_tasks co ?y1 task (te_follow_up_tasks ex)"
  obtain n where n: "sy_tasks ?y2 = sy_tasks y @ n" using ingest_appends [of co ?y1] by auto
  obtain m where "sy_tasks (snd (schedule_auto_reply co ?y2 task)) = sy_tasks ?y2 @ m"
    using auto_reply_appends by blast
  with n assms show ?thesis
    by (auto simp: follow_up_run_task_def Let_def apply_scheduler_actions_def)
qed

subsection \<open>One execution\<close>

text \<open>
  The list after an execution: the task at the index was replaced, others are untouched, and
  new ones follow.
\<close>

definition stepped :: "nat \<Rightarrow> (scheduled_task \<Rightarrow> bool) \<Rightarrow> ('t, 'e) system \<Rightarrow> ('t, 'e) system \<Rightarrow> bool" where
  "stepped k p y y' = (\<exists>t n. sy_tasks y' = (sy_tasks y)[k := t] @ n \<and> p t)"

text \<open>What one execution guarantees of the task it ran.\<close>

definition ran :: "cron_lib \<Rightarrow> scheduled_task \<Rightarrow> scheduled_task \<Rightarrow> bool" where
  "ran cron before after =
     (\<exists>at. t_last_run after = Some at \<and> t_id after = t_id before \<and> t_kind after = t_kind before
        \<and> (t_enabled after \<longrightarrow>
             (\<exists>e n n'. t_schedule before = Cron e n \<and> next_run_after cron e at = Inr n'
                \<and> t_schedule after = Cron e n')))"

lemma completed_ran:
  "completed_task cron (t\<lparr>t_last_run := Some at\<rparr>) at reason = Inr t' \<Longrightarrow> ran cron t t'"
  by (auto simp: completed_task_def ran_def res_bind_def split: if_splits schedule.splits sum.splits)

lemma after_success_appends:
  assumes "te_scheduler_actions ex = []"
  shows "\<exists>n. sy_tasks (after_success co k before h at ex session y) = sy_tasks y @ n"
proof -
  let ?f = "\<lambda>y1. if te_superseded ex then y1
            else case t_kind before of RunTask r \<Rightarrow> follow_up_run_task co r ex y1 | _ \<Rightarrow> y1"
  let ?y1 = "case te_disable_current_task_reason ex of
                 Some r \<Rightarrow>
                   (case on_world utc_now y of (loaded_at, y) \<Rightarrow>
                   case on_world utc_now y of (now, y) \<Rightarrow>
                   snd (on_store (\<lambda>s. store_disable_task_by_id_with_reason (co_store co) s
                                        (t_id before) r loaded_at now) y))
               | None \<Rightarrow> y"
  have "\<exists>n. sy_tasks (?f y1) = sy_tasks y1 @ n" for y1
    using follow_up_run_appends [OF assms] by (auto split: task_kind.splits)
  moreover have "sy_tasks ?y1 = sy_tasks y"
    by (auto split: option.splits prod.splits dest!: sy_tasks_on_world)
  ultimately have "\<exists>n. sy_tasks (?f ?y1) = sy_tasks y @ n" by metis
  moreover obtain st nt where "execution_terminal_outcome ex = (st, nt)" by fastforce
  ultimately show ?thesis
    by (simp only: after_success_def Let_def prod.case sync_keeps_tasks archive_keeps_tasks)
qed

lemma finish_success_ok:
  assumes "finish_success co y k before h at ex session = (Inr x, y')"
  shows "\<exists>t y1. completed_task (sl_cron (co_store co)) ((sy_tasks y ! k)\<lparr>t_last_run := Some at\<rparr>) at
                  (te_disable_current_task_reason ex) = Inr t
           \<and> sy_tasks y1 = (sy_tasks y)[k := t] \<and> y' = after_success co k before h at ex session y1"
  using assms
  by (auto simp: finish_success_def Let_def split: prod.splits if_splits
      dest!: st_bind_ok sy_tasks_on_store)

lemma finish_success_steps:
  assumes "finish_success co y k before h at ex session = (Inr x, y')"
    and "te_scheduler_actions ex = []"
  shows "stepped k (ran (sl_cron (co_store co)) (sy_tasks y ! k)) y y'"
proof -
  from finish_success_ok [OF assms(1)] obtain t y1 where
    c: "completed_task (sl_cron (co_store co)) ((sy_tasks y ! k)\<lparr>t_last_run := Some at\<rparr>) at
          (te_disable_current_task_reason ex) = Inr t"
    and y1: "sy_tasks y1 = (sy_tasks y)[k := t]"
    and y': "y' = after_success co k before h at ex session y1" by blast
  from completed_ran [OF c] y1 after_success_appends [OF assms(2)] show ?thesis unfolding stepped_def y' by metis
qed


lemma snapshot_keeps_tasks [simp]: "sy_tasks (snapshot_before_run co k y) = sy_tasks y"
  by (auto simp: snapshot_before_run_def Let_def split: task_kind.splits prod.splits dest!: sy_tasks_on_world)

lemma on_world_D: "on_world op y = (r, y') \<Longrightarrow> sy_tasks y' = sy_tasks y \<and> (\<exists>w w'. op w = (r, w'))"
  by (auto simp: on_world_def split: prod.splits)

lemma finish_failure_not_ok: "finish_failure co y k before h at err session \<noteq> (Inr x, y')"
  by (auto simp: finish_failure_def Let_def dest!: st_bind_ok)

lemma execute_ok:
  assumes "execute_task_at_index co y k = (Inr x, y')"
  shows "\<exists>h at ex session y1. finish_success co y1 k (sy_tasks y ! k) h at ex session = (Inr x, y')
           \<and> sy_tasks y1 = sy_tasks y \<and> (\<exists>w w'. co_execute co (t_kind (sy_tasks y ! k)) w = (Inr ex, w'))"
proof -
  let ?b = "sy_tasks y ! k"
  from assms obtain t0 ya oid yb h yc session yd q ye at yf where
    1: "on_world utc_now (snapshot_before_run co (t_kind ?b) y) = (t0, ya)" "on_world new_uuid ya = (oid, yb)"
    and 2: "on_store (\<lambda>s. store_record_execution_start (co_store co) s oid (t_id ?b) t0) yb = (Inr h, yc)"
    and 3: "on_world (co_archive_begin co ?b (h_execution_id h) t0) yc = (session, yd)"
    and 4: "on_world (co_execute co (t_kind ?b)) yd = (q, ye)"
    and 5: "on_world utc_now ye = (at, yf)"
    and r: "(case q of Inr ex \<Rightarrow> finish_success co yf k ?b h at ex session
              | Inl err \<Rightarrow> finish_failure co yf k ?b h at err session) = (Inr x, y')"
    unfolding execute_task_at_index_def Let_def by (auto split: prod.splits dest!: st_bind_ok)
  have "sy_tasks yf = sy_tasks y"
    using 1 2 3 4 5 by (auto dest!: sy_tasks_on_world sy_tasks_on_store)
  moreover obtain ex where q: "q = Inr ex" using r by (cases q) (simp_all add: finish_failure_not_ok)
  moreover obtain w w' where "co_execute co (t_kind ?b) w = (q, w')" using on_world_D [OF 4] by blast
  moreover have "finish_success co yf k ?b h at ex session = (Inr x, y')" using r q by simp
  ultimately show ?thesis by blast
qed

text \<open>The agent never asks for a change of the schedule.\<close>

definition no_scheduler_actions :: "('t, 'e, 'j, 'a) core_lib \<Rightarrow> bool" where
  "no_scheduler_actions co =
     (\<forall>k w ex w'. co_execute co k w = (Inr ex, w') \<longrightarrow> te_scheduler_actions ex = [])"

lemma execute_steps:
  assumes "no_scheduler_actions co" and "execute_task_at_index co y k = (Inr x, y')"
  shows "stepped k (ran (sl_cron (co_store co)) (sy_tasks y ! k)) y y'"
proof -
  from execute_ok [OF assms(2)] obtain h at ex session y1 w w' where
    f: "finish_success co y1 k (sy_tasks y ! k) h at ex session = (Inr x, y')"
    and y1: "sy_tasks y1 = sy_tasks y" and "co_execute co (t_kind (sy_tasks y ! k)) w = (Inr ex, w')" by blast
  with assms(1) have "te_scheduler_actions ex = []" unfolding no_scheduler_actions_def by blast
  from finish_success_steps [OF f this] y1 show ?thesis by (simp add: stepped_def)
qed


subsection \<open>One tick\<close>

lemma stepped_length: "stepped k p y y' \<Longrightarrow> length (sy_tasks y) \<le> length (sy_tasks y')"
  by (auto simp: stepped_def)

lemma stepped_other: "stepped k p y y' \<Longrightarrow> j \<noteq> k \<Longrightarrow> j < length (sy_tasks y) \<Longrightarrow> sy_tasks y' ! j = sy_tasks y ! j"
  by (auto simp: stepped_def nth_append)

lemma stepped_this: "stepped k p y y' \<Longrightarrow> k < length (sy_tasks y) \<Longrightarrow> p (sy_tasks y' ! k)"
  by (auto simp: stepped_def nth_append)

definition runs_at :: "datetime \<Rightarrow> scheduled_task \<Rightarrow> bool" where
  "runs_at now t = (t_enabled t \<and> is_due t now)"

text \<open>What a tick does to the task at an index.\<close>

definition ticked :: "cron_lib \<Rightarrow> datetime \<Rightarrow> bool \<Rightarrow> scheduled_task \<Rightarrow> scheduled_task \<Rightarrow> bool" where
  "ticked cron now listed before after =
     (if listed \<and> runs_at now before then ran cron before after else after = before)"

lemma tick_indices_effect:
  assumes "no_scheduler_actions co"
  shows "tick_indices co now ks y = (Inr x, y') \<Longrightarrow> distinct ks \<Longrightarrow>
         \<forall>k \<in> set ks. k < length (sy_tasks y) \<Longrightarrow>
         length (sy_tasks y) \<le> length (sy_tasks y')
         \<and> (\<forall>j < length (sy_tasks y). ticked (sl_cron (co_store co)) now (j \<in> set ks) (sy_tasks y ! j) (sy_tasks y' ! j))"
proof (induction ks arbitrary: y)
  case Nil
  then show ?case by (simp add: ticked_def)
next
  case (Cons k ks)
  show ?case
  proof (cases "runs_at now (sy_tasks y ! k)")
    case False
    with Cons.prems have "tick_indices co now ks y = (Inr x, y')"
      by (auto simp: runs_at_def Let_def)
    from Cons.IH [OF this] Cons.prems False show ?thesis by (auto simp: ticked_def)
  next
    case True
    with Cons.prems(1) obtain y1 where e: "execute_task_at_index co y k = (Inr (), y1)"
      and r: "tick_indices co now ks y1 = (Inr x, y')"
      by (auto simp: runs_at_def Let_def dest!: st_bind_ok)
    have s: "stepped k (ran (sl_cron (co_store co)) (sy_tasks y ! k)) y y1" by (rule execute_steps [OF assms e])
    note keep = stepped_other [OF s]
    have k: "ran (sl_cron (co_store co)) (sy_tasks y ! k) (sy_tasks y1 ! k)" "k \<notin> set ks"
      using stepped_this [OF s] Cons.prems(2,3) by auto
    have "distinct ks" "\<forall>i \<in> set ks. i < length (sy_tasks y1)"
      using Cons.prems stepped_length [OF s] by (auto intro: less_le_trans)
    from Cons.IH [OF r this] have IH: "length (sy_tasks y1) \<le> length (sy_tasks y')"
      "\<And>j. j < length (sy_tasks y1) \<Longrightarrow> ticked (sl_cron (co_store co)) now (j \<in> set ks) (sy_tasks y1 ! j) (sy_tasks y' ! j)" by blast+
    have "ticked (sl_cron (co_store co)) now (j \<in> set (k # ks)) (sy_tasks y ! j) (sy_tasks y' ! j)"
      if j: "j < length (sy_tasks y)" for j
    proof (cases "j = k")
      case eq: True
      have "j < length (sy_tasks y1)" using j stepped_length [OF s] by simp
      with IH(2) [of j] k eq True show ?thesis by (simp add: ticked_def)
    next
      case False
      have "j < length (sy_tasks y1)" using j stepped_length [OF s] by simp
      with IH(2) [of j] keep [OF False j] False show ?thesis by (simp add: ticked_def)
    qed
    then show ?thesis using IH(1) stepped_length [OF s] by simp
  qed
qed



lemma memory_core_no_actions: "no_scheduler_actions memory_core"
  by (simp add: no_scheduler_actions_def memory_core_def task_execution_empty_def)

definition due_system :: "(memory_tasks, memory_execs) system" where
  "due_system =
     (memory_system [noop_task ''a'' True, noop_task ''b'' False] [noop_doc ''a'' True])
       \<lparr>sy_world := (plain_world [''/w''])\<lparr>w_clock_reads := 1\<rparr>\<rparr>"



subsection \<open>Retries\<close>

lemma find_update_all:
  "(\<And>d. q (u d) = q d) \<Longrightarrow>
   List.find q (update_all p u ds) = map_option (\<lambda>d. if p d then u d else d) (List.find q ds)"
  by (induction ds) (auto simp: update_all_def)

lemma task_filter_same_owner:
  "s_owner_kind s' = s_owner_kind s \<Longrightarrow> s_owner_id s' = s_owner_id s \<Longrightarrow> task_filter s' i = task_filter s i"
  by (auto simp: task_filter_def owner_filter_def fun_eq_iff)

text \<open>The retry counter the owner's document of a task holds.\<close>

definition stored_retries :: "('t, 'e) store \<Rightarrow> 'j task_doc list \<Rightarrow> uuid \<Rightarrow> bson_number option" where
  "stored_retries s ds i = Option.bind (List.find (task_filter s i) ds) td_retry_count"

context task_store
begin

lemma on_tasks_owner: "on_tasks lib op s = (r, s') \<Longrightarrow>
    s_owner_kind s' = s_owner_kind s \<and> s_owner_id s' = s_owner_id s"
  by (auto simp: on_tasks_def split: prod.splits)

lemma increment_effect:
  assumes "store_increment_retry_count lib s i = (Inr n, s')"
    and "stored_retries s (tdocs (s_tasks s)) i = Some (Int32 c)" and "0 \<le> c" "c + 1 < 2 ^ 31"
  shows "n = word_of_int (c + 1) \<and> stored_retries s' (tdocs (s_tasks s')) i = Some (Int32 (c + 1))"
proof -
  let ?inc = "\<lambda>d. d\<lparr>td_retry_count := inc_number (td_retry_count d)\<rparr>"
  from assms(1) obtain m s1 where u: "on_tasks lib (retry_mongo_operation
      (c_update_many (sl_tasks lib) (by_task_id i) ?inc)) s = (Inr m, s1)"
    and g: "store_get_retry_count lib s1 i = (Inr n, s')"
    by (auto simp: store_increment_retry_count_def dest!: st_bind_ok)
  from g obtain ds where f: "on_tasks lib (c_find (sl_tasks lib) (task_filter s1 i)) s1 = (Inr ds, s')"
    and n: "n = (case ds of [] \<Rightarrow> 0 | d # _ \<Rightarrow> unwrap_or 0 (numeric_field_to_u32 (td_retry_count d)))"
    by (auto simp: store_get_retry_count_def dest!: st_bind_ok)
  have tf: "(task_filter s1 i :: 'j task_doc \<Rightarrow> bool) = task_filter s i"
    "(task_filter s' i :: 'j task_doc \<Rightarrow> bool) = task_filter s i"
    using on_tasks_owner [OF u] on_tasks_owner [OF f] by (auto intro!: task_filter_same_owner)
  from assms(2) obtain d where d: "List.find (task_filter s i) (tdocs (s_tasks s)) = Some d"
    "td_retry_count d = Some (Int32 c)" by (auto simp: stored_retries_def bind_eq_Some_conv)
  then have "by_task_id i d" by (auto simp: find_Some_iff task_filter_def by_task_id_def)
  have keep: "task_filter s i (?inc x) = task_filter s i x" for x
    by (simp add: task_filter_def owner_filter_def)
  have "tdocs (s_tasks s1) = update_all (by_task_id i) ?inc (tdocs (s_tasks s))"
    using on_tasks_update_many [OF u] by (rule conjunct1)
  with find_update_all [of "task_filter s i" ?inc, OF keep, of "by_task_id i" "tdocs (s_tasks s)"] d(1)
    \<open>by_task_id i d\<close>
  have fd: "List.find (task_filter s i) (tdocs (s_tasks s1)) = Some (?inc d)" by simp
  from on_tasks_find [OF f] have ds: "ds = filter (task_filter s i) (tdocs (s_tasks s1))"
    "tdocs (s_tasks s') = tdocs (s_tasks s1)" using tf by auto
  from fd ds(1) obtain rest where "ds = ?inc d # rest"
    by (auto simp: find_eq_hd_filter split: list.splits)
  then have "n = word_of_int (c + 1)"
    using n d(2) assms(3,4) by (simp add: inc_number_def numeric_field_to_u32_def)
  moreover have "stored_retries s' (tdocs (s_tasks s')) i = Some (Int32 (c + 1))"
    using fd ds(2) tf d(2) assms(4) by (simp add: stored_retries_def inc_number_def)
  ultimately show ?thesis by blast
qed

lemma update_keeps_retries:
  assumes "store_update_task lib s t = (Inr x, s')"
  shows "stored_retries s' (tdocs (s_tasks s')) i = stored_retries s (tdocs (s_tasks s)) i"
proof -
  from assms obtain j where s': "s' = s\<lparr>s_tasks := s_tasks s'\<rparr>" and docs: "tdocs (s_tasks s') =
      update_all (update_task_filter t False) (update_task_set t False j) (tdocs (s_tasks s))"
    unfolding store_update_task_def by (rule update_internal_effect)
  have "s_owner_kind s' = s_owner_kind s" "s_owner_id s' = s_owner_id s"
    by (subst s', simp)+
  then have tf: "(task_filter s' i :: 'j task_doc \<Rightarrow> bool) = task_filter s i" by (rule task_filter_same_owner)
  have "task_filter s i (update_task_set t False j d) = task_filter s i d" for d
    by (simp add: task_filter_def owner_filter_def update_task_set_def Let_def)
  from find_update_all [of "task_filter s i", OF this]
  have f: "List.find (task_filter s' i) (tdocs (s_tasks s')) =
      map_option (\<lambda>d. if update_task_filter t False d then update_task_set t False j d else d)
        (List.find (task_filter s i) (tdocs (s_tasks s)))"
    unfolding tf docs .
  have "td_retry_count (update_task_set t False j d) = td_retry_count d" for d
    by (simp add: update_task_set_def Let_def)
  then show ?thesis unfolding stored_retries_def f
    by (cases "List.find (task_filter s i) (tdocs (s_tasks s))") simp_all
qed

end


lemma sy_store_on_world [simp]: "sy_store (snd (on_world op y)) = sy_store y"
  by (simp add: on_world_def split: prod.splits)

text \<open>The verdict of the policy on the next failure of a task with the stored count \<open>c\<close>.\<close>

definition retried :: "int \<Rightarrow> string \<Rightarrow> bool" where
  "retried c message = (c + 1 < 3 \<and> classify_run_task_failure message \<noteq> ContentFilter)"

definition after_failed_run :: "int \<Rightarrow> datetime \<Rightarrow> string \<Rightarrow> scheduled_task \<Rightarrow> scheduled_task" where
  "after_failed_run c executed_at message t =
     (if retried c message
      then t\<lparr>t_schedule := OneShot (executed_at
               + run_task_retry_delay (word_of_int (c + 1)) (classify_run_task_failure message))\<rparr>
      else t\<lparr>t_enabled := False\<rparr>)"

lemma retry_test:
  assumes "0 \<le> c" "c + 1 < 2 ^ 31"
  shows "(word_of_int (c + 1) < run_task_failure_limit \<and> \<not> should_not_retry (classify_run_task_failure m))
           = retried c m"
proof -
  have "uint (word_of_int n :: u32) = n" if "0 \<le> n" "n < 2 ^ 31" for n
    using that by (simp add: uint_word_of_int)
  from this [of "c + 1"] assms have "uint (word_of_int (c + 1) :: u32) = c + 1" by simp
  then show ?thesis
    by (cases "classify_run_task_failure m")
       (simp_all add: word_less_def run_task_failure_limit_def retried_def should_not_retry_def)
qed

lemma retry_or_disable_effect:
  assumes "task_store (co_store co) tdocs edocs"
    and "retry_or_disable co k i rt at msg y = (Inr x, y')"
    and "stored_retries (sy_store y) (tdocs (s_tasks (sy_store y))) i = Some (Int32 c)"
    and "0 \<le> c" "c + 1 < 2 ^ 31"
  shows "sy_tasks y' = (sy_tasks y)[k := after_failed_run c at msg (sy_tasks y ! k)]
         \<and> (retried c msg \<longrightarrow>
              stored_retries (sy_store y') (tdocs (s_tasks (sy_store y'))) i = Some (Int32 (c + 1)))"
proof -
  from assms(2) obtain n y1 where inc: "on_store (\<lambda>s. store_increment_retry_count (co_store co) s i) y
      = (Inr n, y1)"
    and rest: "(let failure_class = classify_run_task_failure msg in
     if n < run_task_failure_limit \<and> \<not> should_not_retry failure_class then
       let delay = run_task_retry_delay n failure_class;
           task = (sy_tasks y1 ! k)\<lparr>t_schedule := OneShot (at + delay)\<rparr>
       in st_bind (on_store (\<lambda>s. store_update_task (co_store co) s task) (set_task y1 k task)) (\<lambda>_ y.
            (Inr (), snd (on_world (\<lambda>w. notify_run_task_retry (co_notify co) w i rt
                            n delay failure_class msg) y)))
     else
       let y = snd (on_world (\<lambda>w. notify_run_task_failure (co_notify co) w i rt
                      n failure_class msg) y1);
           y = snd (on_store (\<lambda>s. store_reset_retry_count (co_store co) s i) y)
       in disable_after_failure co k y) = (Inr x, y')"
    unfolding retry_or_disable_def by (blast dest: st_bind_ok)
  from on_store_ok [OF inc] have i1: "store_increment_retry_count (co_store co) (sy_store y) i = (Inr n, sy_store y1)"
    and t1: "sy_tasks y1 = sy_tasks y" by auto
  from task_store.increment_effect [OF assms(1) i1 assms(3-5)] have n: "n = word_of_int (c + 1)"
    and c1: "stored_retries (sy_store y1) (tdocs (s_tasks (sy_store y1))) i = Some (Int32 (c + 1))" by auto
  note test = retry_test [OF assms(4,5), of msg, folded n]
  show ?thesis
  proof (cases "retried c msg")
    case True
    let ?t = "after_failed_run c at msg (sy_tasks y ! k)"
    from rest True test t1 obtain z y2 where
      "on_store (\<lambda>s. store_update_task (co_store co) s ?t) (set_task y1 k ?t) = (Inr z, y2)"
      and y': "sy_tasks y' = sy_tasks y2" "sy_store y' = sy_store y2"
      by (auto simp: Let_def after_failed_run_def n dest!: st_bind_ok)
    from on_store_ok [OF this(1)] have u: "store_update_task (co_store co) (sy_store y1) ?t = (Inr z, sy_store y2)"
      and "sy_tasks y2 = (sy_tasks y)[k := ?t]" by (auto simp: t1 set_task_def)
    with y' c1 task_store.update_keeps_retries [OF assms(1) u] show ?thesis by simp
  next
    case False
    with rest test have "\<exists>y2. disable_after_failure co k y2 = (Inr x, y') \<and> sy_tasks y2 = sy_tasks y"
      by (auto simp: Let_def t1)
    with False show ?thesis
      by (auto simp: disable_after_failure_def Let_def after_failed_run_def dest!: on_store_ok)
  qed
qed


fun run_failures ::
    "('t, 'e, 'j, 'a) core_lib \<Rightarrow> nat \<Rightarrow> uuid \<Rightarrow> run_task_task \<Rightarrow> (datetime \<times> string) list
     \<Rightarrow> ('t, 'e) system \<Rightarrow> ('t, 'e, unit) sys_result" where
  "run_failures co k i rt [] y = (Inr (), y)"
| "run_failures co k i rt ((at, msg) # rest) y =
     st_bind (retry_or_disable co k i rt at msg y) (\<lambda>_ y. run_failures co k i rt rest y)"

lemma run_failures_effect:
  assumes "task_store (co_store co) tdocs edocs"
  shows "run_failures co k i rt fs y = (Inr x, y') \<Longrightarrow> k < length (sy_tasks y) \<Longrightarrow>
    stored_retries (sy_store y) (tdocs (s_tasks (sy_store y))) i = Some (Int32 c) \<Longrightarrow> 0 \<le> c \<Longrightarrow>
    \<forall>f \<in> set fs. classify_run_task_failure (snd f) \<noteq> ContentFilter \<Longrightarrow> c + int (length fs) \<le> 3 \<Longrightarrow>
    t_enabled (sy_tasks y ! k) \<Longrightarrow> c < 3 \<Longrightarrow>
    length (sy_tasks y') = length (sy_tasks y)
    \<and> (\<forall>j. j \<noteq> k \<longrightarrow> sy_tasks y' ! j = sy_tasks y ! j)
    \<and> (t_enabled (sy_tasks y' ! k) \<longleftrightarrow> c + int (length fs) < 3)"
proof (induction fs arbitrary: y c)
  case Nil
  then show ?case by simp
next
  case (Cons f fs)
  obtain at msg where f: "f = (at, msg)" by (cases f) auto
  with Cons.prems(1) obtain z y1 where r: "retry_or_disable co k i rt at msg y = (Inr z, y1)"
    and rest: "run_failures co k i rt fs y1 = (Inr x, y')" by (auto dest!: st_bind_ok)
  have c: "c + 1 < 2 ^ 31" using Cons.prems(8) by simp
  from retry_or_disable_effect [OF assms r Cons.prems(3,4) c]
  have t1: "sy_tasks y1 = (sy_tasks y)[k := after_failed_run c at msg (sy_tasks y ! k)]"
    and s1: "retried c msg \<Longrightarrow>
      stored_retries (sy_store y1) (tdocs (s_tasks (sy_store y1))) i = Some (Int32 (c + 1))" by auto
  have cf: "classify_run_task_failure msg \<noteq> ContentFilter" using Cons.prems(5) f by simp
  show ?case
  proof (cases "c + 1 < 3")
    case True
    with cf have ret: "retried c msg" by (simp add: retried_def)
    have "t_enabled (sy_tasks y1 ! k)"
      using Cons.prems(2,7) ret by (simp add: t1 after_failed_run_def)
    with Cons.IH [OF rest _ s1 [OF ret]] Cons.prems(2,4,5,6) True show ?thesis by (simp add: t1)
  next
    case False
    have "c + (1 + int (length fs)) \<le> 3" using Cons.prems(6) by simp
    with False have "int (length fs) \<le> 0" by linarith
    then have "fs = []" by simp
    moreover from this rest have "y' = y1" by simp
    moreover have "\<not> retried c msg" using False by (simp add: retried_def)
    ultimately show ?thesis using Cons.prems(2,8) False by (simp add: t1 after_failed_run_def)
  qed
qed

text \<open>
  C12.  The next failure of a one-shot run whose stored retry count is \<open>c\<close> reschedules it after
  the pause for its class, between 30 seconds and 30 minutes later, when this is its first or
  second failure and not a content filter; otherwise it disables it.  No other task changes.
\<close>

theorem failed_run_retry_policy:
  assumes "task_store (co_store co) tdocs edocs"
    and "retry_or_disable co k i rt executed_at msg y = (Inr (), y')"
    and "stored_retries (sy_store y) (tdocs (s_tasks (sy_store y))) i = Some (Int32 c)"
    and "0 \<le> c" and "c + 1 < 2 ^ 31"
  shows "let retry = (c + 1 < 3 \<and> classify_run_task_failure msg \<noteq> ContentFilter); t = sy_tasks y ! k;
             at = executed_at + run_task_retry_delay (word_of_int (c + 1)) (classify_run_task_failure msg)
         in sy_tasks y' = (sy_tasks y)[k := (if retry then t\<lparr>t_schedule := OneShot at\<rparr>
                                             else t\<lparr>t_enabled := False\<rparr>)]
            \<and> executed_at + secs 30 \<le> at \<and> at \<le> executed_at + minutes 30"
proof -
  let ?c = "classify_run_task_failure msg"
  have "secs 30 \<le> run_task_retry_delay n ?c \<and> run_task_retry_delay n ?c \<le> minutes 30" for n
  proof -
    define f where "f = (2::int) ^ min (unat (sat_dec n)) 10"
    have "1 \<le> f" by (simp add: f_def)
    then show ?thesis by (simp add: run_task_retry_delay_eq flip: f_def) (auto simp: time_simps min_def)
  qed
  moreover have "sy_tasks y' = (sy_tasks y)[k := after_failed_run c executed_at msg (sy_tasks y ! k)]"
    using retry_or_disable_effect [OF assms] by blast
  ultimately show ?thesis unfolding Let_def after_failed_run_def retried_def by auto
qed

text \<open>
  C11.  A one-shot run is attempted three times in all: starting from a fresh retry count, the
  task is still enabled after one and after two failures that may be retried and disabled by
  the third.
\<close>

theorem three_attempts_in_all:
  assumes "task_store (co_store co) tdocs edocs"
    and "run_failures co k i rt fs y = (Inr (), y')" and "k < length (sy_tasks y)"
    and "stored_retries (sy_store y) (tdocs (s_tasks (sy_store y))) i = Some (Int32 0)"
    and "\<forall>f \<in> set fs. classify_run_task_failure (snd f) \<noteq> ContentFilter"
    and "t_enabled (sy_tasks y ! k)" and "length fs \<le> 3"
  shows "t_enabled (sy_tasks y' ! k) \<longleftrightarrow> length fs < 3"
  using run_failures_effect [OF assms(1-4) _ assms(5) _ assms(6)] assms(7) by simp

definition failing_system :: "(memory_tasks, memory_execs) system" where
  "failing_system =
     memory_system [(noop_task ''a'' True)\<lparr>t_kind := RunTask slack_run_task\<rparr>] [noop_doc ''a'' True]"

lemma classify_x: "classify_run_task_failure ''x'' = Generic"
  by (simp add: classify_run_task_failure_def is_content_filter_error_text_def contains_any_def
      is_aci_capacity_error_text_def is_codex_stream_disconnect_error_text_def
      is_codex_capacity_error_text_def to_ascii_lowercase_def ascii_lower_def)

lemma failing_count:
  "stored_retries (sy_store failing_system) (fst (s_tasks (sy_store failing_system))) ''a'' = Some (Int32 0)"
  by (simp add: stored_retries_def failing_system_def task_filter_def owner_filter_def noop_doc_def
      inserted_task_doc_def noop_task_def)

lemma failing_step:
  "\<exists>y'. retry_or_disable memory_core 0 ''a'' slack_run_task (secs 9) ''x'' failing_system = (Inr (), y')"
  by (simp add: retry_or_disable_def failing_system_def on_store_def store_increment_retry_count_def
      store_get_retry_count_def task_filter_def owner_filter_def noop_doc_def inserted_task_doc_def
      noop_task_def update_all_def by_task_id_def inc_number_def numeric_field_to_u32_def Let_def
      classify_x should_not_retry_def run_task_failure_limit_def set_task_def store_update_task_def
      update_task_internal_def serialize_task_def)

theorem failed_run_retry_policy_witness:
  "\<exists>y'. retry_or_disable memory_core 0 ''a'' slack_run_task (secs 9) ''x'' failing_system = (Inr (), y')
     \<and> t_schedule (sy_tasks y' ! 0) = OneShot (secs 39)"
proof -
  obtain y' where 1: "retry_or_disable memory_core 0 ''a'' slack_run_task (secs 9) ''x'' failing_system
      = (Inr (), y')" using failing_step by blast
  from failed_run_retry_policy [OF mc.task_store_axioms 1 failing_count] 1 show ?thesis
    by (simp add: Let_def classify_x run_task_retry_delay_eq uses_extended_backoff_def sat_dec_def
        time_simps failing_system_def)
qed

theorem three_attempts_in_all_witness:
  "\<exists>y'. run_failures memory_core 0 ''a'' slack_run_task [(secs 9, ''x'')] failing_system = (Inr (), y')
     \<and> t_enabled (sy_tasks y' ! 0)"
proof -
  obtain y' where 1: "run_failures memory_core 0 ''a'' slack_run_task [(secs 9, ''x'')] failing_system
      = (Inr (), y')" using failing_step by auto
  from three_attempts_in_all [OF mc.task_store_axioms 1 _ failing_count] 1 show ?thesis
    by (simp add: classify_x failing_system_def noop_task_def)
qed

end
