(* ===== verification/Memory_Diff.thy ===== *)
theory Memory_Diff
  imports Rust_Prelude "HOL-Library.AList"
begin

text \<open>
  \<open>memory_diff.rs\<close>: a user's long-term memory is one Markdown file, \<open>memo.md\<close>, of which every
  agent run edits a copy.  The changes of a run are computed as a diff by section and merged
  into the current file, which other runs may have changed meanwhile.

  A \<open>HashMap\<close> is the list of its entries in the order in which it happens to be iterated; the
  properties hold for every such order.
\<close>

subsection \<open>Sections\<close>

datatype section_change = Added "string list" | Replaced string | NewSection string

type_synonym memory_diff = "(string \<times> section_change) list"

definition lf :: string where
  "lf = [CHR 0x0A]"

text \<open>
  The loop over the lines of a memo, with the function that saves a section.  A header of the
  second level opens a section, one of the first level closes it.
\<close>

fun section_loop ::
    "(string \<Rightarrow> string \<Rightarrow> 'm \<Rightarrow> 'm) \<Rightarrow> string \<Rightarrow> string list \<Rightarrow> 'm \<Rightarrow> string list \<Rightarrow> 'm" where
  "section_loop save cur content m [] =
     (if cur \<noteq> [] then save cur (join_with lf content) m else m)"
| "section_loop save cur content m (line # rest) =
     (let saved = (if cur \<noteq> [] then save cur (join_with lf content) m else m) in
      if starts_with line ''## '' then section_loop save (trim (drop 3 line)) [] saved rest
      else if starts_with line ''# '' then section_loop save [] [] saved rest
      else section_loop save cur (if cur \<noteq> [] then content @ [line] else content) m rest)"

definition parse_sections :: "string \<Rightarrow> (string \<times> string) list" where
  "parse_sections content = section_loop AList.update [] [] [] (str_lines content)"

definition parse_sections_ordered :: "string \<Rightarrow> (string \<times> string) list" where
  "parse_sections_ordered content =
     section_loop (\<lambda>k v sections. sections @ [(k, v)]) [] [] [] (str_lines content)"

definition rebuild_section :: "string \<times> string \<Rightarrow> string" where
  "rebuild_section s =
     (case s of (name, content) \<Rightarrow>
        ''## '' @ name @ lf
        @ (if trim content \<noteq> []
           then content @ (if ends_with content lf then [] else lf) else [])
        @ lf)"

definition rebuild_memo :: "(string \<times> string) list \<Rightarrow> string" where
  "rebuild_memo sections = ''# Memo'' @ lf @ lf @ concat (map rebuild_section sections)"

subsection \<open>Computing a diff\<close>

definition find_added_lines :: "string \<Rightarrow> string \<Rightarrow> string list" where
  "find_added_lines original modified =
     (let original_lines = filter (\<lambda>l. l \<noteq> []) (map trim (str_lines original))
      in filter (\<lambda>line. trim line \<noteq> [] \<and> trim line \<notin> set original_lines) (str_lines modified))"

definition section_diff ::
    "(string \<times> string) list \<Rightarrow> string \<times> string \<Rightarrow> (string \<times> section_change) option" where
  "section_diff original_sections s =
     (case s of (section_name, modified_content) \<Rightarrow>
        (case map_of original_sections section_name of
           None \<Rightarrow>
             if trim modified_content \<noteq> [] then Some (section_name, NewSection modified_content) else None
         | Some original_content \<Rightarrow>
             if trim original_content = trim modified_content then None
             else
               let added = find_added_lines original_content modified_content in
               Some (section_name, if added \<noteq> [] then Added added else Replaced modified_content)))"

definition compute_memory_diff :: "string \<Rightarrow> string \<Rightarrow> memory_diff" where
  "compute_memory_diff original modified =
     (let original_sections = parse_sections original;
          modified_sections = parse_sections modified
      in if original_sections = [] \<and> modified_sections = [] then
           (if trim original \<noteq> trim modified then
              let added = find_added_lines original modified in
              [(''__raw__'', if added \<noteq> [] then Added added else Replaced modified)]
            else [])
         else List.map_filter (section_diff original_sections) modified_sections)"

subsection \<open>Applying a diff\<close>

definition on_new_line :: "string \<Rightarrow> string" where
  "on_new_line content = (if content \<noteq> [] \<and> \<not> ends_with content lf then content @ lf else content)"

definition append_line :: "string \<Rightarrow> string \<Rightarrow> string" where
  "append_line content line =
     (if list_ex (\<lambda>l. trim l = trim line) (str_lines content) then content
      else on_new_line content @ line)"

fun apply_raw_change :: "section_change \<Rightarrow> string \<Rightarrow> string" where
  "apply_raw_change (Added lines) current = foldl append_line current lines"
| "apply_raw_change (Replaced new_content) current = new_content"
| "apply_raw_change (NewSection content) current = on_new_line current @ content"

text \<open>\<open>iter_mut().find\<close>: the first section of that name, if there is one, is changed in place.\<close>

fun change_first :: "string \<Rightarrow> (string \<Rightarrow> string) \<Rightarrow> (string \<times> string) list \<Rightarrow> (string \<times> string) list option" where
  "change_first name f [] = None"
| "change_first name f (s # rest) =
     (if fst s = name then Some ((fst s, f (snd s)) # rest)
      else map_option (\<lambda>r. s # r) (change_first name f rest))"

fun apply_change :: "(string \<times> string) list \<Rightarrow> string \<times> section_change \<Rightarrow> (string \<times> string) list" where
  "apply_change sections (name, Added lines) =
     (case change_first name (\<lambda>content. foldl append_line content lines) sections of
        Some changed \<Rightarrow> changed
      | None \<Rightarrow> sections @ [(name, join_with lf lines)])"
| "apply_change sections (name, Replaced new_content) =
     (case change_first name (\<lambda>_. new_content) sections of
        Some changed \<Rightarrow> changed
      | None \<Rightarrow> sections @ [(name, new_content)])"
| "apply_change sections (name, NewSection content) =
     (if list_ex (\<lambda>s. fst s = name) sections then sections else sections @ [(name, content)])"

definition apply_memory_diff :: "string \<Rightarrow> memory_diff \<Rightarrow> string" where
  "apply_memory_diff current_content diff =
     (if diff = [] then current_content
      else case map_of diff ''__raw__'' of
             Some raw_change \<Rightarrow> apply_raw_change raw_change current_content
           | None \<Rightarrow> rebuild_memo (foldl apply_change (parse_sections_ordered current_content) diff))"

end
