(* ===== verification/Memory_Sections.thy ===== *)
theory Memory_Sections
  imports Memory_Diff
begin

text \<open>
  Sections that survive being written and read again: when a memo is rebuilt from its sections,
  parsing gives them back, and no line of theirs is lost.
\<close>

subsection \<open>Sections that can be written back\<close>

definition header :: "string \<Rightarrow> bool" where
  "header line = (starts_with line ''## '' \<or> starts_with line ''# '')"

definition body_lines :: "string \<Rightarrow> bool" where
  "body_lines c = (no_cr c \<and> (\<forall>l \<in> set (split_char (CHR 0x0A) c). \<not> header l))"

definition good_name :: "string \<Rightarrow> bool" where
  "good_name n = (n \<noteq> [] \<and> trim n = n \<and> no_cr n \<and> CHR 0x0A \<notin> set n)"

definition good_section :: "string \<times> string \<Rightarrow> bool" where
  "good_section s = (good_name (fst s) \<and> body_lines (snd s))"

text \<open>The content of a section after it was written and read again.\<close>

definition section_body :: "string \<Rightarrow> string" where
  "section_body c =
     (if trim c = [] then [] else if ends_with c lf then c else c @ lf)"

lemma header_Nil [simp]: "\<not> header []"
  by (simp add: header_def starts_with_def)

lemma ends_with_iff: "ends_with s p \<longleftrightarrow> (\<exists>u. s = u @ p)"
proof -
  have "rev s = rev p @ r \<longleftrightarrow> s = rev r @ p" for r
    by (metis rev_append rev_rev_ident)
  then show ?thesis by (auto simp: ends_with_def strip_prefix_None) (metis rev_rev_ident)
qed

lemma body_lines_lf [simp]: "body_lines (c @ lf) \<longleftrightarrow> body_lines c"
  by (auto simp: body_lines_def lf_def split_char_append no_cr_def)

lemma body_lines_Nil [simp]: "body_lines []"
  by (simp add: body_lines_def no_cr_def)

lemma body_lines_section_body: "body_lines c \<Longrightarrow> body_lines (section_body c)"
  by (simp add: section_body_def)

lemma rebuild_section_eq: "rebuild_section (n, c) = (''## '' @ n) @ CHR 0x0A # section_body c @ [CHR 0x0A]"
  by (simp add: rebuild_section_def section_body_def lf_def)

subsection \<open>The round trip\<close>

lemma section_loop_body:
  "\<forall>l \<in> set ls. \<not> header l \<Longrightarrow>
   section_loop sv cur content m (ls @ rest)
     = section_loop sv cur (if cur = [] then content else content @ ls) m rest"
  by (induction ls arbitrary: content) (auto simp: header_def Let_def)

lemma sections_of_rebuilt:
  "\<forall>s \<in> set ss. good_section s \<Longrightarrow>
   section_loop (\<lambda>k v acc. acc @ [(k, v)]) cur content m (str_lines (concat (map rebuild_section ss)))
     = (if cur = [] then m else m @ [(cur, join_with lf content)]) @ map (apsnd section_body) ss"
proof (induction ss arbitrary: cur content m)
  case Nil
  then show ?case by (simp add: str_lines_def)
next
  case (Cons s ss)
  obtain n c where s: "s = (n, c)" by fastforce
  with Cons.prems have good: "good_name n" "body_lines c" by (simp_all add: good_section_def)
  then have body: "body_lines (section_body c)" by (simp add: body_lines_section_body)
  let ?rest = "concat (map rebuild_section ss)" and ?b = "split_char (CHR 0x0A) (section_body c)"
  have "str_lines (rebuild_section s @ ?rest) = (''## '' @ n) # ?b @ str_lines ?rest"
    using good body str_lines_append [of "''## '' @ n" "section_body c @ CHR 0x0A # ?rest"]
      str_lines_append [of "section_body c" ?rest]
    by (simp add: s rebuild_section_eq split_char_none good_name_def body_lines_def no_cr_def)
  moreover have "\<not> (''## '' @ n) = []" "starts_with (''## '' @ n) ''## ''" "trim (drop 3 (''## '' @ n)) = n"
    using good(1) starts_with_append [of "''## ''" n] by (simp_all add: good_name_def del: starts_with_append)
  moreover have "join_with lf ?b = section_body c" by (simp add: lf_def join_split_char)
  ultimately show ?case
    using Cons.IH [of n ?b] Cons.prems good(1) body
    by (simp add: section_loop_body Let_def s good_name_def body_lines_def)
qed

lemma parse_rebuild:
  assumes "\<forall>s \<in> set ss. good_section s"
  shows "parse_sections_ordered (rebuild_memo ss) = map (apsnd section_body) ss"
proof -
  have "str_lines (rebuild_memo ss) = [''# Memo'', []] @ str_lines (concat (map rebuild_section ss))"
    using str_lines_append [of "''# Memo''"] str_lines_append [of "[]"]
    by (simp add: rebuild_memo_def lf_def no_cr_def split_char_none)
  then show ?thesis
    using sections_of_rebuilt [OF assms, of "[]" "[]" "[]"]
    by (simp add: parse_sections_ordered_def starts_with_def Let_def)
qed

subsection \<open>Blank text\<close>

lemma ws_len_token: "ws_len (u @ r) = length u \<Longrightarrow> u \<noteq> [] \<Longrightarrow> ws_len (u @ w) = length u"
  by (cases u rule: ws_len.cases; cases w rule: ws_len.cases; cases r rule: ws_len.cases)
     (auto split: if_splits)

lemma ws_token_lf: "ws_len (u @ r) = length u \<Longrightarrow> CHR 0x0A \<in> set u \<Longrightarrow> u = lf"
  by (cases u rule: ws_len.cases; cases r rule: ws_len.cases)
     (auto simp: lf_def ws1_def ws2_def ws3_def split: if_splits)

lemma trim_start_token:
  assumes "ws_len (u @ r) = length u" and "u \<noteq> []"
  shows "trim_start (u @ w) = trim_start w"
proof -
  from assms(2) obtain c s where u: "u = c # s" by (cases u) auto
  have "ws_len (c # s @ w) = Suc (length s)" using ws_len_token [OF assms, of w] by (simp add: u)
  then show ?thesis by (simp add: u)
qed

lemma blank_lines: "trim_start s = [] \<Longrightarrow> \<forall>l \<in> set (split_char (CHR 0x0A) s). trim_start l = []"
proof (induction s rule: trim_start.induct)
  case 1
  then show ?case by simp
next
  case (2 c s)
  let ?n = "ws_len (c # s)"
  have n: "?n \<noteq> 0"
  proof
    assume "?n = 0"
    then have "trim_start (c # s) = c # s" by (subst trim_start.simps) simp
    with 2(2) show False by (metis list.distinct(1))
  qed
  define u where "u = take ?n (c # s)"
  define r where "r = drop ?n (c # s)"
  have ur: "c # s = u @ r" unfolding u_def r_def by (rule append_take_drop_id [symmetric])
  have len: "ws_len (u @ r) = length u" 
  proof -
    have "length u = ?n" unfolding u_def using ws_len_le [of "c # s"] by simp
    then show ?thesis using ur by simp
  qed
  have u: "u \<noteq> []" using n unfolding u_def by simp
  have r: "r = drop (?n - 1) s" unfolding r_def using n by (cases ?n) auto
  have tr: "trim_start r = []" using 2(2) trim_start_token [OF len u, of r] unfolding ur by argo
  have IH: "\<forall>l \<in> set (split_char (CHR 0x0A) r). trim_start l = []"
    using 2(1) [OF n] tr unfolding r by blast
  show ?case
  proof (cases "CHR 0x0A \<in> set u")
    case True
    then have "u = lf" using ws_token_lf [OF len] by blast
    with IH show ?thesis unfolding ur by (simp add: lf_def)
  next
    case False
    obtain w ws where w: "split_char (CHR 0x0A) r = w # ws" by (cases "split_char (CHR 0x0A) r") auto
    have "split_char (CHR 0x0A) (u @ r) = (u @ w) # ws" if "CHR 0x0A \<notin> set u" for u
      using that by (induction u) (auto simp: w)
    with False IH trim_start_token [OF len u, of w] show ?thesis unfolding ur w by auto
  qed
qed

lemma trim_blank: "trim s = [] \<Longrightarrow> trim_start s = []"
  using trim_nonempty [of "trim_start s"] trim_start_fixed [of "trim_start s"]
  by (auto simp: trim_def)

subsection \<open>The lines of a section\<close>

text \<open>The lines of a text up to surrounding white space, without the blank ones.\<close>

definition lines_of :: "string \<Rightarrow> string set" where
  "lines_of c = {t. t \<noteq> [] \<and> t \<in> trim ` set (str_lines c)}"

lemma lines_of_split: "no_cr c \<Longrightarrow> lines_of c = trim ` set (split_char (CHR 0x0A) c) - {[]}"
  unfolding lines_of_def
  by (auto dest: str_lines_parts intro!: image_eqI split_parts_lines)

lemma lines_of_append:
  "no_cr a \<Longrightarrow> no_cr b \<Longrightarrow> lines_of (a @ CHR 0x0A # b) = lines_of a \<union> lines_of b"
  by (simp add: lines_of_split split_char_append image_Un Un_Diff no_cr_def)

lemma lines_of_Nil [simp]: "lines_of [] = {}"
  by (simp add: lines_of_def str_lines_def)

lemma lines_of_lf [simp]: "no_cr c \<Longrightarrow> lines_of (c @ lf) = lines_of c"
  using lines_of_append [of c "[]"] by (simp add: lf_def no_cr_def)

lemma lines_of_line: "no_cr l \<Longrightarrow> CHR 0x0A \<notin> set l \<Longrightarrow> lines_of l = {trim l} - {[]}"
  by (simp add: lines_of_split split_char_none)

lemma lines_of_section_body: "no_cr c \<Longrightarrow> lines_of (section_body c) = lines_of c"
proof (cases "trim c = []")
  case True
  assume "no_cr c"
  have "trim l = []" if "l \<in> set (split_char (CHR 0x0A) c)" for l
    using blank_lines [OF trim_blank [OF True]] that by (simp add: trim_def trim_end_def)
  with True \<open>no_cr c\<close> show ?thesis by (auto simp: section_body_def lines_of_split)
qed (simp add: section_body_def)

end
