(* ===== verification/Memory_Properties.thy ===== *)
theory Memory_Properties
  imports Memory_Sections
begin

text \<open>
  What merging keeps and what it forgets: additions of concurrent runs all arrive, a merge
  refines an operation on maps from section names to contents, the edits of a run arrive in an
  unchanged memo; text before the first section and a section created twice do not.
\<close>

subsection \<open>Lines that runs add\<close>

definition good_line :: "string \<Rightarrow> bool" where
  "good_line l = (no_cr l \<and> CHR 0x0A \<notin> set l \<and> \<not> header l \<and> trim l \<noteq> [])"

lemma body_lines_append: "body_lines (a @ CHR 0x0A # b) \<longleftrightarrow> body_lines a \<and> body_lines b"
  by (auto simp: body_lines_def split_char_append no_cr_def)

lemma good_line_body: "good_line l \<Longrightarrow> body_lines l \<and> lines_of l = {trim l}"
  by (auto simp: good_line_def body_lines_def split_char_none lines_of_line)

lemma append_line_keeps:
  assumes "body_lines c" and "good_line l"
  shows "body_lines (append_line c l) \<and> lines_of (append_line c l) = insert (trim l) (lines_of c)"
proof (cases "list_ex (\<lambda>x. trim x = trim l) (str_lines c)")
  case True
  then have "trim l \<in> lines_of c"
    using assms(2) by (auto simp: lines_of_def list_ex_iff good_line_def) (metis imageI)
  with True assms(1) show ?thesis by (auto simp: append_line_def)
next
  case False
  note l = good_line_body [OF assms(2)]
  show ?thesis
  proof (cases "c = []")
    case True
    with l show ?thesis by (simp add: append_line_def on_new_line_def str_lines_def)
  next
    case nonempty: False
    obtain c0 where c0: "on_new_line c = c0 @ lf" and c: "c = c0 \<or> c = c0 @ lf"
      using nonempty by (cases "ends_with c lf") (auto simp: on_new_line_def ends_with_iff)
    with assms(1) have b: "body_lines c0" by auto
    then have "lines_of c0 = lines_of c" using c by (auto simp: body_lines_def)
    with b show ?thesis
      using l assms False c0 lines_of_append [of c0 l] body_lines_append [of c0 l]
      by (simp add: append_line_def lf_def body_lines_def)
  qed
qed

lemma append_lines_keep:
  "body_lines c \<Longrightarrow> \<forall>l \<in> set ls. good_line l \<Longrightarrow>
   body_lines (foldl append_line c ls) \<and> lines_of (foldl append_line c ls) = lines_of c \<union> trim ` set ls"
proof (induction ls arbitrary: c)
  case (Cons l ls)
  with append_line_keeps [of c l] Cons.IH [of "append_line c l"] show ?case by auto
qed simp

lemma join_lines:
  assumes "\<forall>l \<in> set ls. good_line l"
  shows "body_lines (join_with lf ls) \<and> lines_of (join_with lf ls) = trim ` set ls"
  using assms
proof (induction lf ls rule: join_with.induct)
  case (2 w)
  then show ?case using good_line_body [of w] by simp
next
  case (3 w v ws)
  then have IH: "body_lines (join_with lf (v # ws)) \<and> lines_of (join_with lf (v # ws)) = trim ` set (v # ws)"
    and w: "good_line w" by auto
  from IH good_line_body [OF w] lines_of_append [of w "join_with lf (v # ws)"]
    body_lines_append [of w "join_with lf (v # ws)"]
  show ?case by (simp add: lf_def body_lines_def insert_commute)
qed simp

lemma change_first_Some:
  "change_first n f ss = Some ss' \<Longrightarrow>
   \<exists>pre c post. ss = pre @ (n, c) # post \<and> ss' = pre @ (n, f c) # post"
proof (induction ss arbitrary: ss')
  case (Cons s ss)
  show ?case
  proof (cases "fst s = n")
    case True
    with Cons.prems show ?thesis
      by (intro exI [of _ "[]"] exI [of _ "snd s"] exI [of _ ss]) (cases s, auto)
  next
    case False
    with Cons.prems obtain r where r: "change_first n f ss = Some r" "ss' = s # r" by auto
    from Cons.IH [OF r(1)] obtain pre c post where "ss = pre @ (n, c) # post" "r = pre @ (n, f c) # post"
      by blast
    with r(2) show ?thesis by (intro exI [of _ "s # pre"]) auto
  qed
qed simp

text \<open>A section named \<open>n\<close> holds the line \<open>t\<close>.\<close>

definition entry :: "(string \<times> string) list \<Rightarrow> string \<Rightarrow> string \<Rightarrow> bool" where
  "entry ss n t = (\<exists>c. (n, c) \<in> set ss \<and> t \<in> lines_of c)"

text \<open>A change that only adds lines, of the kind that a run with good lines leads to.\<close>

definition addition :: "string \<times> section_change \<Rightarrow> bool" where
  "addition ch =
     (good_name (fst ch) \<and> fst ch \<noteq> ''__raw__''
      \<and> (\<exists>ls. snd ch = Added ls \<and> (\<forall>l \<in> set ls. good_line l)))"

definition added_by :: "string \<times> section_change \<Rightarrow> string \<Rightarrow> string \<Rightarrow> bool" where
  "added_by ch n t = (n = fst ch \<and> (\<exists>ls. snd ch = Added ls \<and> t \<in> trim ` set ls))"

lemma apply_addition:
  assumes "\<forall>s \<in> set ss. good_section s" and "addition ch"
  shows "(\<forall>s \<in> set (apply_change ss ch). good_section s)
         \<and> (\<forall>n t. entry (apply_change ss ch) n t \<longleftrightarrow> entry ss n t \<or> added_by ch n t)"
proof -
  obtain n ls where ch: "ch = (n, Added ls)" and n: "good_name n" and ls: "\<forall>l \<in> set ls. good_line l"
    using assms(2) by (cases ch) (auto simp: addition_def)
  show ?thesis
  proof (cases "change_first n (\<lambda>content. foldl append_line content ls) ss")
    case None
    with ch n assms(1) join_lines [OF ls] show ?thesis
      by (auto simp: entry_def added_by_def good_section_def)
  next
    case (Some ss')
    from change_first_Some [OF this] obtain pre c post where
      ss: "ss = pre @ (n, c) # post" and ss': "ss' = pre @ (n, foldl append_line c ls) # post" by blast
    from assms(1) ss have "body_lines c" by (simp add: good_section_def)
    with append_lines_keep [OF _ ls, of c] Some ch n assms(1) show ?thesis
      by (auto simp: ss ss' entry_def added_by_def good_section_def)
  qed
qed

lemma apply_additions:
  "\<forall>s \<in> set ss. good_section s \<Longrightarrow> \<forall>ch \<in> set d. addition ch \<Longrightarrow>
   (\<forall>s \<in> set (foldl apply_change ss d). good_section s)
   \<and> (\<forall>n t. entry (foldl apply_change ss d) n t \<longleftrightarrow> entry ss n t \<or> (\<exists>ch \<in> set d. added_by ch n t))"
proof (induction d arbitrary: ss)
  case (Cons ch d)
  then have "addition ch" "\<forall>ch \<in> set d. addition ch" by simp_all
  note step = apply_addition [OF Cons.prems(1) this(1)] and rest = this(2)
  from Cons.IH [OF conjunct1 [OF step] rest] conjunct2 [OF step] show ?case
    by (simp del: split_paired_All)
qed simp

subsection \<open>Sections that were read\<close>

lemma str_lines_plain_parts: "no_cr s \<Longrightarrow> l \<in> set (str_lines s) \<Longrightarrow> no_cr l \<and> CHR 0x0A \<notin> set l"
  using str_lines_parts [of s l] split_char_parts [of l "CHR 0x0A" s] by (auto simp: no_cr_def)

lemma good_name_trim:
  assumes "no_cr l" and "CHR 0x0A \<notin> set l" and "trim (drop n l) \<noteq> []"
  shows "good_name (trim (drop n l))"
proof -
  have sub: "set (trim (drop n l)) \<subseteq> set l"
    using set_trim set_drop_subset by (rule order_trans)
  with assms(1,2) have "no_cr (trim (drop n l))" "CHR 0x0A \<notin> set (trim (drop n l))"
    unfolding no_cr_def by blast+
  with assms(3) show ?thesis unfolding good_name_def trim_idem by blast
qed

lemma body_lines_join:
  "\<forall>l \<in> set ls. no_cr l \<and> CHR 0x0A \<notin> set l \<and> \<not> header l \<Longrightarrow> body_lines (join_with lf ls)"
proof (induction lf ls rule: join_with.induct)
  case (2 w)
  then show ?case by (simp add: body_lines_def split_char_none)
next
  case (3 w v ws)
  then have "body_lines (join_with lf (v # ws))" "body_lines w"
    by (simp_all add: body_lines_def split_char_none)
  with body_lines_append [of w "join_with lf (v # ws)"] show ?case by (simp add: lf_def)
qed simp

lemma section_loop_good:
  assumes "\<forall>l \<in> set ls. no_cr l \<and> CHR 0x0A \<notin> set l"
    and "cur = [] \<or> good_name cur"
    and "\<forall>l \<in> set content. no_cr l \<and> CHR 0x0A \<notin> set l \<and> \<not> header l"
    and "\<forall>s \<in> set acc. good_section s"
  shows "\<forall>s \<in> set (section_loop (\<lambda>k v acc. acc @ [(k, v)]) cur content acc ls). good_section s"
  using assms
proof (induction ls arbitrary: cur content acc)
  case Nil
  then show ?case using body_lines_join [of content] by (auto simp: good_section_def)
next
  case (Cons l ls)
  let ?saved = "if cur \<noteq> [] then acc @ [(cur, join_with lf content)] else acc"
  have saved: "\<forall>s \<in> set ?saved. good_section s"
    using Cons.prems body_lines_join [of content] by (auto simp: good_section_def)
  have tail: "\<forall>l \<in> set ls. no_cr l \<and> CHR 0x0A \<notin> set l" and l: "no_cr l" "CHR 0x0A \<notin> set l"
    using Cons.prems(1) by auto
  consider (second) "starts_with l ''## ''" | (first) "\<not> starts_with l ''## ''" "starts_with l ''# ''"
    | (body) "\<not> header l" by (auto simp: header_def)
  then show ?case
  proof cases
    case second
    have "trim (drop 3 l) = [] \<or> good_name (trim (drop 3 l))" using good_name_trim [OF l] by blast
    from Cons.IH [OF tail this _ saved, of "[]"] second show ?thesis by (simp add: Let_def)
  next
    case first
    from Cons.IH [OF tail _ _ saved, of "[]" "[]"] first show ?thesis by (simp add: Let_def)
  next
    case body
    then have "\<not> starts_with l ''## ''" "\<not> starts_with l ''# ''" by (simp_all add: header_def)
    with Cons.IH [OF tail Cons.prems(2) _ Cons.prems(4), of "if cur \<noteq> [] then content @ [l] else content"]
      Cons.prems(3) l body show ?thesis by (simp add: Let_def)
  qed
qed

lemma parsed_good: "no_cr memo \<Longrightarrow> \<forall>s \<in> set (parse_sections_ordered memo). good_section s"
  unfolding parse_sections_ordered_def
  by (rule section_loop_good) (auto dest: str_lines_plain_parts)

lemma no_cr_rebuild:
  assumes "\<forall>s \<in> set ss. good_section s"
  shows "no_cr (rebuild_memo ss)"
proof -
  have "no_cr (rebuild_section s)" if "good_section s" for s
    using that body_lines_section_body [of "snd s"]
    by (cases s) (simp add: rebuild_section_eq good_section_def good_name_def body_lines_def no_cr_def)
  with assms have "no_cr (concat (map rebuild_section ss))" by (auto simp: no_cr_def)
  then show ?thesis by (simp add: rebuild_memo_def lf_def no_cr_def)
qed

subsection \<open>What a merge does\<close>

lemma entry_section_body:
  "\<forall>s \<in> set ss. good_section s \<Longrightarrow> entry (map (apsnd section_body) ss) n t \<longleftrightarrow> entry ss n t"
  unfolding entry_def by (force simp: good_section_def body_lines_def lines_of_section_body)

lemma additions_not_raw: "\<forall>ch \<in> set d. addition ch \<Longrightarrow> map_of d ''__raw__'' = None"
  by (auto simp: map_of_eq_None_iff addition_def)

lemma merge_additions:
  assumes "no_cr memo" and "\<forall>ch \<in> set d. addition ch"
  shows "no_cr (apply_memory_diff memo d)
         \<and> (\<forall>n t. entry (parse_sections_ordered (apply_memory_diff memo d)) n t
                \<longleftrightarrow> entry (parse_sections_ordered memo) n t \<or> (\<exists>ch \<in> set d. added_by ch n t))"
proof (cases "d = []")
  case True
  with assms show ?thesis by (simp add: apply_memory_diff_def)
next
  case False
  let ?ss = "foldl apply_change (parse_sections_ordered memo) d"
  have m: "apply_memory_diff memo d = rebuild_memo ?ss"
    using False additions_not_raw [OF assms(2)] by (simp add: apply_memory_diff_def)
  note a = apply_additions [OF parsed_good [OF assms(1)] assms(2)]
  show ?thesis
    unfolding m parse_rebuild [OF conjunct1 [OF a]] entry_section_body [OF conjunct1 [OF a]]
    using a no_cr_rebuild [OF conjunct1 [OF a]] by blast
qed



subsection \<open>Sections as a map\<close>

text \<open>What a change makes of the content a section had, if there was one.\<close>

fun changed_content :: "section_change \<Rightarrow> string option \<Rightarrow> string" where
  "changed_content (Added ls) None = join_with lf ls"
| "changed_content (Added ls) (Some c) = foldl append_line c ls"
| "changed_content (Replaced c) old = c"
| "changed_content (NewSection c) None = c"
| "changed_content (NewSection c) (Some c') = c'"

lemma change_first_map_of:
  "case change_first n f ss of
     None \<Rightarrow> map_of ss n = None
   | Some ss' \<Rightarrow> (\<exists>c. map_of ss n = Some c \<and> map_of ss' = (map_of ss)(n \<mapsto> f c))"
  by (induction ss) (auto split: option.splits simp: fun_eq_iff)

lemma map_of_snoc: "map_of ss n = None \<Longrightarrow> [n \<mapsto> c] ++ map_of ss = (map_of ss)(n \<mapsto> c)"
  by (auto simp: map_add_def fun_eq_iff split: option.splits)

lemma list_ex_map_of: "list_ex (\<lambda>s. fst s = n) ss \<longleftrightarrow> map_of ss n \<noteq> None"
  by (induction ss) auto

lemma map_of_apply_change:
  "map_of (apply_change ss ch) = (map_of ss)(fst ch \<mapsto> changed_content (snd ch) (map_of ss (fst ch)))"
proof (cases ch)
  case (Pair n x)
  show ?thesis
  proof (cases x)
    case (Added ls)
    with Pair change_first_map_of [where n = n and f = "\<lambda>c. foldl append_line c ls" and ss = ss] show ?thesis
      by (auto split: option.splits simp: map_of_snoc)
  next
    case (Replaced c)
    with Pair change_first_map_of [where n = n and f = "\<lambda>_. c" and ss = ss] show ?thesis
      by (auto split: option.splits simp: map_of_snoc)
  next
    case (NewSection c)
    then show ?thesis
      by (cases "map_of ss n") (auto simp: Pair list_ex_map_of map_of_snoc fun_eq_iff)
  qed
qed

text \<open>The diff as a function on maps from names to contents: what a merge has to do.\<close>

definition merge_spec :: "(string \<rightharpoonup> section_change) \<Rightarrow> (string \<rightharpoonup> string) \<Rightarrow> (string \<rightharpoonup> string)" where
  "merge_spec d m n = (case d n of None \<Rightarrow> m n | Some ch \<Rightarrow> Some (changed_content ch (m n)))"

lemma foldl_apply_change:
  "distinct (map fst d) \<Longrightarrow> map_of (foldl apply_change ss d) = merge_spec (map_of d) (map_of ss)"
proof (induction d arbitrary: ss)
  case Nil
  then show ?case by (simp add: merge_spec_def fun_eq_iff)
next
  case (Cons ch d)
  then have "map_of d (fst ch) = None" by (simp add: map_of_eq_None_iff)
  with Cons show ?case
    by (auto simp: merge_spec_def map_of_apply_change fun_eq_iff split: option.splits)
qed

definition good_change :: "string \<times> section_change \<Rightarrow> bool" where
  "good_change ch =
     (good_name (fst ch)
      \<and> (case snd ch of Added ls \<Rightarrow> \<forall>l \<in> set ls. good_line l | Replaced c \<Rightarrow> body_lines c
                      | NewSection c \<Rightarrow> body_lines c))"

lemma change_first_good:
  assumes "change_first n f ss = Some ss'" and "\<forall>s \<in> set ss. good_section s"
    and "\<And>c. body_lines c \<Longrightarrow> body_lines (f c)"
  shows "\<forall>s \<in> set ss'. good_section s"
proof -
  from change_first_Some [OF assms(1)] obtain pre c post where
    ss: "ss = pre @ (n, c) # post" and ss': "ss' = pre @ (n, f c) # post" by blast
  from assms(2,3) have "good_section (n, f c)" by (simp add: ss good_section_def)
  with assms(2) show ?thesis by (simp add: ss ss')
qed

lemma apply_change_good:
  assumes "\<forall>s \<in> set ss. good_section s" and "good_change ch"
  shows "\<forall>s \<in> set (apply_change ss ch). good_section s"
proof (cases ch)
  case (Pair n x)
  with assms(2) have n: "good_name n" by (simp add: good_change_def)
  show ?thesis
  proof (cases x)
    case (Added ls)
    with Pair assms(2) have ls: "\<forall>l \<in> set ls. good_line l" by (simp add: good_change_def)
    then have "body_lines c \<Longrightarrow> body_lines (foldl append_line c ls)" for c
      using append_lines_keep by blast
    from change_first_good [OF _ assms(1) this] assms(1) n join_lines [OF ls] show ?thesis
      by (auto simp: Pair Added good_section_def split: option.splits)
  next
    case (Replaced c)
    with Pair assms(2) have c: "body_lines c" by (simp add: good_change_def)
    from change_first_good [OF _ assms(1), of n "\<lambda>_. c"] assms(1) n c show ?thesis
      by (auto simp: Pair Replaced good_section_def split: option.splits)
  next
    case (NewSection c)
    with Pair assms n show ?thesis by (auto simp: good_change_def good_section_def)
  qed
qed

lemma changed_content_body:
  "good_change (n, ch) \<Longrightarrow> (\<And>c. old = Some c \<Longrightarrow> body_lines c) \<Longrightarrow> body_lines (changed_content ch old)"
  by (cases ch; cases old) (auto simp: good_change_def append_lines_keep join_lines)

lemma foldl_change_good:
  "\<forall>s \<in> set ss. good_section s \<Longrightarrow> \<forall>ch \<in> set d. good_change ch \<Longrightarrow>
   \<forall>s \<in> set (foldl apply_change ss d). good_section s"
proof (induction d arbitrary: ss)
  case (Cons ch d)
  then have "good_change ch" "\<forall>ch \<in> set d. good_change ch" by simp_all
  from Cons.IH [OF apply_change_good [OF Cons.prems(1) this(1)] this(2)] show ?case by simp
qed simp

lemma merged_map:
  assumes "no_cr memo" and "distinct (map fst d)" and "\<forall>ch \<in> set d. good_change ch"
    and "d \<noteq> []" and "map_of d ''__raw__'' = None"
  shows "map_of (parse_sections_ordered (apply_memory_diff memo d))
         = map_option section_body \<circ> merge_spec (map_of d) (map_of (parse_sections_ordered memo))"
proof -
  let ?ss = "foldl apply_change (parse_sections_ordered memo) d"
  have "apply_memory_diff memo d = rebuild_memo ?ss" using assms(4,5) by (simp add: apply_memory_diff_def)
  moreover have "\<forall>s \<in> set ?ss. good_section s" by (rule foldl_change_good [OF parsed_good [OF assms(1)] assms(3)])
  moreover have "map_of (map (apsnd section_body) ss) = map_option section_body \<circ> map_of ss"
    for ss :: "(string \<times> string) list"
    by (induction ss) (auto simp: fun_eq_iff)
  ultimately show ?thesis by (simp only: parse_rebuild foldl_apply_change [OF assms(2)])
qed

text \<open>
  C32.  Merging refines an operation on maps.  Take a memo without carriage returns and a diff that
  names no section twice, with names that are trimmed, of one line and not empty, added lines that are
  not blank, of one line and no headings, and new contents without carriage returns and headings.
  An empty diff changes nothing; one with an entry for the whole text does what this entry says;
  any other refines the operation on maps: read as a map from section names to contents, the
  merged memo has for every section of the diff what the change makes of the section's old content,
  and every other section as it was, where contents are compared after \<open>section_body\<close>, which ends a
  text that is not blank with a line feed and makes a blank one empty.  It does not matter in which
  order the entries of the diff are visited.
\<close>

theorem merge_refines_map:
  assumes "no_cr memo" and "distinct (map fst d)" and "\<forall>ch \<in> set d. good_change ch"
  shows "if d = [] then apply_memory_diff memo d = memo
    else case map_of d ''__raw__'' of
           Some ch \<Rightarrow> apply_memory_diff memo d = apply_raw_change ch memo
         | None \<Rightarrow> map_of (parse_sections_ordered (apply_memory_diff memo d))
             = map_option section_body \<circ> merge_spec (map_of d) (map_of (parse_sections_ordered memo))"
  using merged_map [OF assms] by (simp add: apply_memory_diff_def split: option.splits)

text \<open>The two parsers save the same sections; one collects them in a map, the other in a list.\<close>

lemma section_loop_fold:
  "foldl (\<lambda>m s. sv (fst s) (snd s) m) m (section_loop (\<lambda>k v acc. acc @ [(k, v)]) cur content acc ls)
     = section_loop sv cur content (foldl (\<lambda>m s. sv (fst s) (snd s) m) m acc) ls"
  by (induction ls arbitrary: cur content acc) (simp_all add: Let_def)

lemma parse_sections_fold:
  "parse_sections s = foldl (\<lambda>m x. AList.update (fst x) (snd x) m) [] (parse_sections_ordered s)"
  unfolding parse_sections_def parse_sections_ordered_def section_loop_fold by simp

lemma foldl_update:
  "distinct (map fst m) \<Longrightarrow>
   distinct (map fst (foldl (\<lambda>m x. AList.update (fst x) (snd x) m) m xs))
   \<and> set (foldl (\<lambda>m x. AList.update (fst x) (snd x) m) m xs) \<subseteq> set m \<union> set xs"
proof (induction xs arbitrary: m)
  case (Cons x xs)
  have "set (AList.update (fst x) (snd x) m) \<subseteq> insert x (set m)" for m
    by (induction m) auto
  note upd = this [of m]
  have "distinct (map fst (AList.update (fst x) (snd x) m))" using Cons.prems by (rule distinct_update)
  from Cons.IH [OF this] upd show ?case by simp blast
qed simp

lemma parse_sections_set:
  "distinct (map fst (parse_sections s)) \<and> set (parse_sections s) \<subseteq> set (parse_sections_ordered s)"
  using foldl_update [of "[]" "parse_sections_ordered s"] by (simp add: parse_sections_fold)

lemma foldl_update_map_of:
  "distinct (map fst xs) \<Longrightarrow>
   map_of (foldl (\<lambda>m x. AList.update (fst x) (snd x) m) m xs) = map_of m ++ map_of xs"
proof (induction xs arbitrary: m)
  case (Cons x xs)
  then have "fst x \<notin> dom (map_of xs)" by (simp add: dom_map_of_conv_image_fst)
  with Cons show ?case
    by (auto simp: update_conv' map_add_def fun_eq_iff domIff split: option.splits)
qed simp

lemma parse_sections_map_of:
  "distinct (map fst (parse_sections_ordered s)) \<Longrightarrow>
   map_of (parse_sections s) = map_of (parse_sections_ordered s)"
  using foldl_update_map_of [of "parse_sections_ordered s" "[]"] by (simp add: parse_sections_fold)

subsection \<open>The edits of a run\<close>

lemma parsed_section_good:
  assumes "no_cr m" and "(n, c) \<in> set (parse_sections m)"
  shows "good_name n" and "body_lines c"
proof -
  have "(n, c) \<in> set (parse_sections_ordered m)" using assms(2) parse_sections_set by blast
  with parsed_good [OF assms(1)] have "good_section (n, c)" by blast
  then show "good_name n" "body_lines c" by (simp_all add: good_section_def)
qed

lemma computed_good:
  assumes "no_cr m" and "(n, ch) \<in> set (List.map_filter (section_diff os) (parse_sections m))"
  shows "good_change (n, ch)"
proof -
  from assms(2) obtain c where c: "(n, c) \<in> set (parse_sections m)" and d: "section_diff os (n, c) = Some (n, ch)"
    by (auto simp: List.map_filter_def section_diff_def Let_def split: option.splits if_splits)
  note g = parsed_section_good [OF assms(1) c]
  have "good_line l" if "l \<in> set (find_added_lines oc c)" for l oc
    using that g(2) str_lines_plain_parts [of c l] str_lines_parts [of c l]
    by (auto simp: find_added_lines_def Let_def good_line_def body_lines_def)
  with g d show ?thesis
    by (auto simp: good_change_def section_diff_def Let_def split: option.splits if_splits)
qed

lemma map_of_computed:
  "map_of (List.map_filter (section_diff os) xs) n = Some ch \<Longrightarrow>
   \<exists>c. (n, c) \<in> set xs \<and> section_diff os (n, c) = Some (n, ch)"
  by (drule map_of_SomeD)
     (auto simp: List.map_filter_def section_diff_def Let_def split: option.splits if_splits)

lemma section_diff_key: "section_diff os x = Some y \<Longrightarrow> fst y = fst x"
  by (cases x) (auto simp: section_diff_def Let_def split: option.splits if_splits)

lemma distinct_computed:
  "distinct (map fst xs) \<Longrightarrow>
   distinct (map fst (List.map_filter (section_diff os) xs))
   \<and> fst ` set (List.map_filter (section_diff os) xs) \<subseteq> fst ` set xs"
proof (induction xs)
  case (Cons x xs)
  then have IH: "distinct (map fst (List.map_filter (section_diff os) xs))"
    "fst ` set (List.map_filter (section_diff os) xs) \<subseteq> fst ` set xs" "fst x \<notin> fst ` set xs" by simp_all
  show ?case
  proof (cases "section_diff os x")
    case None
    with IH show ?thesis by (auto simp: map_filter_simps)
  next
    case (Some y)
    with IH section_diff_key [OF Some] show ?thesis
      by (simp add: map_filter_simps del: split_paired_All) blast
  qed
qed (simp add: map_filter_simps)

lemma added_lines_cover:
  assumes "body_lines c" and "\<forall>l \<in> set (find_added_lines oc c). good_line l" and "body_lines oc"
  shows "lines_of c \<subseteq> lines_of (foldl append_line oc (find_added_lines oc c))"
proof
  fix t assume "t \<in> lines_of c"
  then obtain l where l: "l \<in> set (str_lines c)" "t = trim l" "t \<noteq> []" by (auto simp: lines_of_def)
  have "t \<in> lines_of oc \<or> l \<in> set (find_added_lines oc c)"
    using l by (auto simp: find_added_lines_def lines_of_def Let_def)
  with append_lines_keep [OF assms(3,2)] l show "t \<in> lines_of (foldl append_line oc (find_added_lines oc c))"
    by auto
qed

text \<open>
  The edits of a run arrive: when the diff between a memo and the copy a run edited is
  merged into that memo, every section the run changed holds all lines it has in the copy.
\<close>

theorem own_edits_arrive:
  assumes "no_cr original" and "no_cr modified"
    and "distinct (map fst (parse_sections_ordered original))"
    and "parse_sections modified \<noteq> []"
    and "d = compute_memory_diff original modified" and "map_of d ''__raw__'' = None"
    and "(n, ch) \<in> set d" and "map_of (parse_sections modified) n = Some c"
  shows "\<exists>c'. map_of (parse_sections_ordered (apply_memory_diff original d)) n = Some c'
              \<and> lines_of c \<subseteq> lines_of c'"
proof -
  let ?os = "parse_sections original"
  have d: "d = List.map_filter (section_diff ?os) (parse_sections modified)"
    using assms(4,5) by (simp add: compute_memory_diff_def)
  have dist: "distinct (map fst d)"
    unfolding d using distinct_computed parse_sections_set by blast
  have good: "\<forall>x \<in> set d. good_change x" using computed_good [OF assms(2)] d by auto
  have mo: "map_of d n = Some ch" using assms(7) dist by simp
  from map_of_computed [of ?os, OF mo [unfolded d]] obtain c0 where
    "(n, c0) \<in> set (parse_sections modified)" and sd: "section_diff ?os (n, c0) = Some (n, ch)" by blast
  with assms(8) have c0: "(n, c) \<in> set (parse_sections modified)" "c0 = c"
    using parse_sections_set [of modified] by (auto dest: map_of_SomeD eq_key_imp_eq_value)
  let ?old = "map_of (parse_sections_ordered original) n"
  have old: "map_of ?os n = ?old" using parse_sections_map_of [OF assms(3)] by simp
  have body: "body_lines c" by (rule parsed_section_good(2) [OF assms(2) c0(1)])
  have oldbody: "body_lines oc" if "?old = Some oc" for oc
    using map_of_SomeD [OF that] parsed_good [OF assms(1)] by (auto simp: good_section_def)
  have "good_change (n, ch)" using good assms(7) by blast
  with sd c0(2) have new: "lines_of c \<subseteq> lines_of (changed_content ch ?old)"
    using added_lines_cover [OF body] oldbody
    by (auto simp: section_diff_def old Let_def good_change_def split: option.splits if_splits) blast
  have "no_cr (changed_content ch ?old)"
    using changed_content_body [OF \<open>good_change (n, ch)\<close>, of ?old] oldbody by (simp add: body_lines_def)
  with new have "lines_of c \<subseteq> lines_of (section_body (changed_content ch ?old))"
    by (simp add: lines_of_section_body)
  moreover have "map_of (parse_sections_ordered (apply_memory_diff original d)) n
      = Some (section_body (changed_content ch ?old))"
  proof -
    have "d \<noteq> []" using assms(7) by auto
    then show ?thesis by (simp add: merged_map [OF assms(1) dist good _ assms(6)] merge_spec_def mo)
  qed
  ultimately show ?thesis by blast
qed

subsection \<open>What a merge forgets\<close>

lemma loop_before_sections:
  "\<forall>l \<in> set ls. \<not> starts_with l ''## '' \<Longrightarrow>
   section_loop sv [] [] m (ls @ rest) = section_loop sv [] [] m rest"
  by (induction ls) (simp_all add: Let_def)

text \<open>
  Text outside of sections is forgotten: whatever stands in a memo before its first
  section, the merge of a diff gives the same result as without it, so a memo that was kept
  as plain text is lost when a run adds the first section.
\<close>

theorem text_before_sections_lost:
  assumes "no_cr pre" and "\<forall>l \<in> set (split_char (CHR 0x0A) pre). \<not> starts_with l ''## ''"
    and "d \<noteq> []" and "map_of d ''__raw__'' = None"
  shows "apply_memory_diff (pre @ lf @ memo) d = apply_memory_diff memo d"
proof -
  have "parse_sections_ordered (pre @ lf @ memo) = parse_sections_ordered memo"
    using assms(1,2) by (simp add: parse_sections_ordered_def lf_def str_lines_append loop_before_sections)
  then show ?thesis using assms(3,4) by (simp add: apply_memory_diff_def)
qed

text \<open>
  When two runs create the same section, only the first is kept: the second diff leaves
  the merged memo as it is, and none of its lines is in it unless the first run wrote it too.
\<close>

theorem second_new_section_lost:
  assumes "no_cr memo" and "good_section (n, c1)" and "n \<noteq> ''__raw__''"
    and "map_of (parse_sections_ordered memo) n = None"
    and "memo1 = apply_memory_diff memo [(n, NewSection c1)]"
    and "memo2 = apply_memory_diff memo1 [(n, NewSection c2)]"
  shows "parse_sections_ordered memo2 = map (apsnd section_body) (parse_sections_ordered memo1)
         \<and> map_of (parse_sections_ordered memo1) n = Some (section_body c1)"
proof -
  have "good_change (n, NewSection c1)" using assms(2) by (simp add: good_change_def good_section_def)
  then have 1: "map_of (parse_sections_ordered memo1) n = Some (section_body c1)"
    unfolding assms(5) using assms(1,3,4) by (subst merged_map) (simp_all add: merge_spec_def)
  have "apply_memory_diff memo [(n, NewSection c1)]
      = rebuild_memo (apply_change (parse_sections_ordered memo) (n, NewSection c1))"
    using assms(3) by (simp add: apply_memory_diff_def)
  then have "no_cr memo1"
    unfolding assms(5) using apply_change_good [OF parsed_good [OF assms(1)]] \<open>good_change _\<close> no_cr_rebuild
    by metis
  moreover have "memo2 = rebuild_memo (parse_sections_ordered memo1)"
    using 1 assms(3,6) by (simp add: apply_memory_diff_def list_ex_map_of)
  ultimately show ?thesis using 1 parse_rebuild [OF parsed_good] by simp
qed

text \<open>
  A memo that is rebuilt from its sections is read back as it was: the same sections in
  the same order, up to the normalised end of each section's text.
\<close>

theorem memo_roundtrip:
  assumes "no_cr memo"
  shows "parse_sections_ordered (rebuild_memo (parse_sections_ordered memo))
         = map (apsnd section_body) (parse_sections_ordered memo)"
  by (rule parse_rebuild [OF parsed_good [OF assms]])

subsection \<open>Examples\<close>

lemma trim_letters:
  "trim ''A'' = ''A''" "trim ''B'' = ''B''" "trim ''x'' = ''x''" "trim ''y'' = ''y''"
  "trim ''B'' = ''B''" "trim (''x'' @ lf @ ''y'') = ''x'' @ lf @ ''y''"
  by (simp_all add: trim_def trim_end_def ws1_def ws2_def ws3_def lf_def)

definition small_memo :: string where
  "small_memo = ''## A'' @ lf @ ''x''"

lemma small_sections [simp]:
  "parse_sections_ordered small_memo = [(''A'', ''x'')]" "parse_sections small_memo = [(''A'', ''x'')]"
  "no_cr small_memo" "CHR 0x0D \<notin> set small_memo"
  by (simp_all add: parse_sections_ordered_def parse_sections_def small_memo_def lf_def str_lines_def
      strip_cr_def Let_def starts_with_def trim_letters no_cr_def)

theorem memo_roundtrip_witness:
  "parse_sections_ordered (rebuild_memo (parse_sections_ordered small_memo)) = [(''A'', ''x'' @ lf)]"
  using memo_roundtrip [of small_memo]
  by (simp add: section_body_def trim_letters ends_with_def lf_def)

theorem merge_refines_map_witness:
  "map_of (parse_sections_ordered (apply_memory_diff small_memo [(''B'', NewSection ''y'')])) ''A''
     = Some (''x'' @ lf)"
  using merge_refines_map [of small_memo "[(''B'', NewSection ''y'')]"]
  by (simp add: good_change_def good_name_def body_lines_def no_cr_def header_def starts_with_def
      trim_letters merge_spec_def section_body_def ends_with_def lf_def)

theorem second_new_section_lost_witness:
  "map_of (parse_sections_ordered (apply_memory_diff small_memo [(''B'', NewSection ''x'')])) ''B''
     = Some (''x'' @ lf)"
  using second_new_section_lost [OF _ _ _ _ refl refl, of small_memo "''B''" "''x''"]
  by (simp add: good_section_def good_name_def body_lines_def no_cr_def header_def starts_with_def
      trim_letters section_body_def ends_with_def lf_def)

theorem text_before_sections_lost_witness:
  "apply_memory_diff (''x'' @ lf @ small_memo) [(''B'', NewSection ''y'')]
     = apply_memory_diff small_memo [(''B'', NewSection ''y'')]"
  using text_before_sections_lost [of "''x''" "[(''B'', NewSection ''y'')]" small_memo]
  by (simp add: no_cr_def starts_with_def)

definition edited_memo :: string where
  "edited_memo = ''## A'' @ lf @ ''x'' @ lf @ ''y''"

lemma edited_sections [simp]: "parse_sections edited_memo = [(''A'', ''x'' @ lf @ ''y'')]" "no_cr edited_memo"
  by (simp_all add: parse_sections_def edited_memo_def lf_def str_lines_def
      strip_cr_def Let_def starts_with_def trim_letters no_cr_def)

theorem own_edits_arrive_witness:
  "\<exists>c'. map_of (parse_sections_ordered
           (apply_memory_diff small_memo (compute_memory_diff small_memo edited_memo))) ''A'' = Some c'
      \<and> lines_of (''x'' @ lf @ ''y'') \<subseteq> lines_of c'"
proof -
  have d: "compute_memory_diff small_memo edited_memo = [(''A'', Added [''y''])]"
    using trim_letters
    by (simp add: compute_memory_diff_def section_diff_def map_filter_simps find_added_lines_def
        str_lines_def strip_cr_def Let_def lf_def)
  show ?thesis
    by (rule own_edits_arrive [OF _ _ _ _ refl]) (simp_all add: d)
qed

end
