(* ===== verification/Blob_Store.thy ===== *)
theory Blob_Store
  imports Rust_Prelude "HOL-Library.AList"
begin

text \<open>
  \<open>blob_store.rs\<close>: the memos of unified accounts in Azure Blob Storage.  The Azure client is
  the record \<open>blob_client\<close> of the requests the code sends, on an opaque state of the service;
  the locale \<open>blob_service\<close> states what the service documents of them.
\<close>

datatype blob_store_error =
    MissingConnectionString
  | MissingContainer
  | InvalidConnectionString string
  | Azure string

fun blob_store_error_to_string :: "blob_store_error \<Rightarrow> string" where
  "blob_store_error_to_string MissingConnectionString = ''missing AZURE_STORAGE_CONNECTION_STRING''"
| "blob_store_error_to_string MissingContainer = ''missing AZURE_STORAGE_CONTAINER''"
| "blob_store_error_to_string (InvalidConnectionString e) = ''invalid connection string: '' @ e"
| "blob_store_error_to_string (Azure e) = ''azure error: '' @ e"

definition default_memo_content :: string where
  "default_memo_content =
     concat (map (\<lambda>l. l @ [CHR 0x0A])
       [''# Memo'', '''', ''## Profile'', '''', ''## Preferences'', '''', ''## Projects'', '''',
        ''## Contacts'', '''', ''## Decisions'', '''', ''## Processes''])"

subsection \<open>Configuration\<close>

text \<open>The loop over the parts of a connection string: a later entry overrides an earlier one.\<close>

fun connection_parts ::
    "string option \<times> string option \<Rightarrow> string list \<Rightarrow> string option \<times> string option" where
  "connection_parts found [] = found"
| "connection_parts (name, key) (part # rest) =
     (case strip_prefix ''AccountName='' part of
        Some v \<Rightarrow> connection_parts (Some v, key) rest
      | None \<Rightarrow>
          (case strip_prefix ''AccountKey='' part of
             Some v \<Rightarrow> connection_parts (name, Some v) rest
           | None \<Rightarrow> connection_parts (name, key) rest))"

definition parse_connection_string :: "string \<Rightarrow> blob_store_error + string \<times> string" where
  "parse_connection_string s =
     (case connection_parts (None, None) (split_char (CHR '';'') s) of
        (Some name, Some key) \<Rightarrow> Inr (name, key)
      | _ \<Rightarrow> Inl (InvalidConnectionString ''missing AccountName or AccountKey''))"

text \<open>\<open>from_env\<close> up to the construction of the client from the parsed credentials.\<close>

definition blob_store_from_env ::
    "(string \<Rightarrow> string option) \<Rightarrow> blob_store_error + (string \<times> string) \<times> string" where
  "blob_store_from_env env =
     (case opt_filter (\<lambda>s. trim s \<noteq> []) (env ''AZURE_STORAGE_CONNECTION_STRING'') of
        None \<Rightarrow> Inl MissingConnectionString
      | Some connection_string \<Rightarrow>
          (case opt_filter (\<lambda>s. trim s \<noteq> []) (env ''AZURE_STORAGE_CONTAINER'') of
             None \<Rightarrow> Inl MissingContainer
           | Some container_name \<Rightarrow>
               res_bind (parse_connection_string connection_string)
                 (\<lambda>credentials. Inr (credentials, container_name))))"

subsection \<open>Reading and writing memos\<close>

record 'b blob_client =
  bc_get :: "string \<Rightarrow> 'b \<Rightarrow> string + string"
  bc_put :: "string \<Rightarrow> string \<Rightarrow> 'b \<Rightarrow> (string + unit) \<times> 'b"
  bc_delete :: "string \<Rightarrow> 'b \<Rightarrow> (string + unit) \<times> 'b"
  bc_properties :: "string \<Rightarrow> 'b \<Rightarrow> string + unit"
  bc_utf8_error :: "string \<Rightarrow> string option"

definition memo_blob_path :: "string \<Rightarrow> string" where
  "memo_blob_path account_id = account_id @ ''/memo.md''"

definition is_not_found :: "string \<Rightarrow> bool" where
  "is_not_found e = (str_contains e ''BlobNotFound'' \<or> str_contains e ''404'')"

definition blob_read_memo :: "'b blob_client \<Rightarrow> string \<Rightarrow> 'b \<Rightarrow> blob_store_error + string" where
  "blob_read_memo bc account_id b =
     (case bc_get bc (memo_blob_path account_id) b of
        Inr data \<Rightarrow>
          (case bc_utf8_error bc data of
             Some e \<Rightarrow> Inl (Azure (''invalid UTF-8: '' @ e))
           | None \<Rightarrow> Inr data)
      | Inl e \<Rightarrow> if is_not_found e then Inr default_memo_content else Inl (Azure e))"

definition blob_write_memo ::
    "'b blob_client \<Rightarrow> string \<Rightarrow> string \<Rightarrow> 'b \<Rightarrow> (blob_store_error + unit) \<times> 'b" where
  "blob_write_memo bc account_id content b =
     (case bc_put bc (memo_blob_path account_id) content b of (r, b') \<Rightarrow> (map_err Azure r, b'))"

definition blob_delete_memo ::
    "'b blob_client \<Rightarrow> string \<Rightarrow> 'b \<Rightarrow> (blob_store_error + unit) \<times> 'b" where
  "blob_delete_memo bc account_id b =
     (case bc_delete bc (memo_blob_path account_id) b of
        (Inr _, b') \<Rightarrow> (Inr (), b')
      | (Inl e, b') \<Rightarrow> (if is_not_found e then Inr () else Inl (Azure e), b'))"

definition blob_memo_exists :: "'b blob_client \<Rightarrow> string \<Rightarrow> 'b \<Rightarrow> blob_store_error + bool" where
  "blob_memo_exists bc account_id b =
     (case bc_properties bc (memo_blob_path account_id) b of
        Inr _ \<Rightarrow> Inr True
      | Inl e \<Rightarrow> if is_not_found e then Inr False else Inl (Azure e))"

subsection \<open>The contract of the service\<close>

text \<open>
  \<open>blobs\<close> reads the stored texts off a state.  A request that succeeds reads, replaces or removes
  exactly the blob it names.  One that writes and fails, by a time-out say, has either changed nothing
  or replaced the blob in full: blobs are replaced as a whole.  Stored texts are the UTF-8 this code
  wrote.
\<close>

locale blob_service =
  fixes bc :: "'b blob_client" and blobs :: "'b \<Rightarrow> string \<rightharpoonup> string"
  assumes get_ok: "bc_get bc p b = Inr c \<Longrightarrow> blobs b p = Some c"
    and put_ok: "bc_put bc p c b = (Inr (), b') \<Longrightarrow> blobs b' = (blobs b)(p \<mapsto> c)"
    and put_failed: "bc_put bc p c b = (Inl e, b') \<Longrightarrow> blobs b' = blobs b \<or> blobs b' = (blobs b)(p \<mapsto> c)"
    and delete_ok: "bc_delete bc p b = (Inr (), b') \<Longrightarrow> blobs b' = (blobs b)(p := None)"
    and utf8: "bc_utf8_error bc c = None"
begin

lemma read_present:
  "blob_read_memo bc a b = Inr c \<Longrightarrow>
   blobs b (memo_blob_path a) = Some c \<or> c = default_memo_content"
  by (auto simp: blob_read_memo_def utf8 dest: get_ok split: sum.splits if_splits)

lemma write_ok:
  "blob_write_memo bc a c b = (Inr (), b') \<Longrightarrow> blobs b' = (blobs b)(memo_blob_path a \<mapsto> c)"
  by (auto simp: blob_write_memo_def map_err_eq_Inr dest: put_ok split: prod.splits)

lemma write_failed: "blob_write_memo bc a c b = (Inl e, b') \<Longrightarrow>
    blobs b' = blobs b \<or> blobs b' = (blobs b)(memo_blob_path a \<mapsto> c)"
  by (auto simp: blob_write_memo_def map_err_eq_Inl dest: put_failed split: prod.splits)

end

text \<open>
  The code takes an error for a missing blob when its text contains \<open>404\<close> anywhere.  A service
  is unambiguous when that is never said of a blob that is there.
\<close>

locale unambiguous_blob_service = blob_service +
  assumes not_found: "bc_get bc p b = Inl e \<Longrightarrow> is_not_found e \<Longrightarrow> blobs b p = None"
begin

lemma read_memo: "blob_read_memo bc a b = Inr c \<Longrightarrow>
    c = (case blobs b (memo_blob_path a) of Some s \<Rightarrow> s | None \<Rightarrow> default_memo_content)"
  by (auto simp: blob_read_memo_def utf8 dest: get_ok not_found split: sum.splits if_splits)

end

text \<open>The service in memory: the stored texts, and a script of the faults to come by path.\<close>

record memory_blobs =
  mb_blobs :: "(string \<times> string) list"
  mb_faults :: "(string \<times> string) list"

definition memory_client :: "memory_blobs blob_client" where
  "memory_client =
     \<lparr>bc_get = (\<lambda>p b. case map_of (mb_faults b) p of
         Some e \<Rightarrow> Inl e
       | None \<Rightarrow> (case map_of (mb_blobs b) p of Some c \<Rightarrow> Inr c | None \<Rightarrow> Inl ''BlobNotFound'')),
      bc_put = (\<lambda>p c b. (Inr (), b\<lparr>mb_blobs := AList.update p c (mb_blobs b)\<rparr>)),
      bc_delete = (\<lambda>p b. (Inr (), b\<lparr>mb_blobs := AList.delete p (mb_blobs b)\<rparr>)),
      bc_properties = (\<lambda>p b. if map_of (mb_blobs b) p = None then Inl ''BlobNotFound'' else Inr ()),
      bc_utf8_error = (\<lambda>_. None)\<rparr>"

interpretation mb: blob_service memory_client "\<lambda>b. map_of (mb_blobs b)"
  by unfold_locales
     (auto simp: memory_client_def update_conv' delete_conv' split: option.splits)

text \<open>The same service, where a fault is a time-out whatever its text.\<close>

definition timeout_client :: "memory_blobs blob_client" where
  "timeout_client =
     memory_client\<lparr>bc_get := (\<lambda>p b. if map_of (mb_faults b) p \<noteq> None then Inl ''timeout''
                                 else bc_get memory_client p b)\<rparr>"

interpretation tb: unambiguous_blob_service timeout_client "\<lambda>b. map_of (mb_blobs b)"
proof unfold_locales
  fix p b e
  assume "bc_get timeout_client p b = Inl e" "is_not_found e"
  then show "map_of (mb_blobs b) p = None"
    by (auto simp: timeout_client_def memory_client_def is_not_found_def split: option.splits if_splits)
qed (auto simp: timeout_client_def memory_client_def update_conv' delete_conv' split: option.splits if_splits)

end
