(* ===== verification/Memory_Queue.thy ===== *)
theory Memory_Queue
  imports Memory_Properties Blob_Store World
begin

text \<open>
  \<open>memory_queue.rs\<close>: the write queue of the memory.  Each user or account has a channel and a
  worker thread of its own; a worker reads the current memo, merges the diff of the request and
  writes the result back.  The threads are the step relation \<open>mq_step\<close>, in which reading and
  writing are separate steps, so that every interleaving of the workers is a run.
\<close>

record write_request =
  wr_account_id :: "uuid option"
  wr_user_id :: string
  wr_user_memory_dir :: string
  wr_diff :: memory_diff

datatype memory_queue_error = QueueIo | LockPoisoned | ChannelClosed | BlobStoreFailed string

text \<open>What the workers share: the file system and the blob service, if one is configured.\<close>

record 'b memory_system =
  my_world :: world
  my_blobs :: 'b

definition queue_key :: "write_request \<Rightarrow> string" where
  "queue_key r =
     (case wr_account_id r of
        Some i \<Rightarrow> ''account:'' @ i
      | None \<Rightarrow> ''user:'' @ wr_user_id r)"

subsection \<open>Applying a diff\<close>

definition memo_path :: "write_request \<Rightarrow> string" where
  "memo_path r = path_join (wr_user_memory_dir r) ''memo.md''"

definition read_memo_file :: "string \<Rightarrow> world \<Rightarrow> memory_queue_error + string" where
  "read_memo_file path w =
     (if fs_exists w path
      then (case fs_read w path of Some c \<Rightarrow> Inr c | None \<Rightarrow> Inl QueueIo)
      else Inr default_memo_content)"

definition write_memo_file :: "string \<Rightarrow> string \<Rightarrow> world \<Rightarrow> (memory_queue_error + unit) \<times> world" where
  "write_memo_file path content w =
     st_bind (case path_parent path of
                Some parent \<Rightarrow> (case fs_create_dir_all parent w of (r, w) \<Rightarrow> (map_err (\<lambda>_. QueueIo) r, w))
              | None \<Rightarrow> (Inr (), w)) (\<lambda>_ w.
     case fs_write path content w of (r, w) \<Rightarrow> (map_err (\<lambda>_. QueueIo) r, w))"

text \<open>Reading and writing the memo of a request, in the file system or the blob store.\<close>

definition read_current ::
    "'b blob_client option \<Rightarrow> write_request \<Rightarrow> 'b memory_system \<Rightarrow> memory_queue_error + string" where
  "read_current store r y =
     (case wr_account_id r of
        None \<Rightarrow> read_memo_file (memo_path r) (my_world y)
      | Some account_id \<Rightarrow>
          (case store of
             None \<Rightarrow> Inl (BlobStoreFailed ''BlobStore not configured'')
           | Some bc \<Rightarrow>
               map_err (\<lambda>e. BlobStoreFailed (blob_store_error_to_string e))
                 (blob_read_memo bc account_id (my_blobs y))))"

definition write_merged ::
    "'b blob_client option \<Rightarrow> write_request \<Rightarrow> string \<Rightarrow> 'b memory_system
     \<Rightarrow> (memory_queue_error + unit) \<times> 'b memory_system" where
  "write_merged store r content y =
     (case wr_account_id r of
        None \<Rightarrow> (case write_memo_file (memo_path r) content (my_world y) of (q, w) \<Rightarrow> (q, y\<lparr>my_world := w\<rparr>))
      | Some account_id \<Rightarrow>
          (case store of
             None \<Rightarrow> (Inl (BlobStoreFailed ''BlobStore not configured''), y)
           | Some bc \<Rightarrow>
               (case blob_write_memo bc account_id content (my_blobs y) of
                  (q, b) \<Rightarrow> (map_err (\<lambda>e. BlobStoreFailed (blob_store_error_to_string e)) q,
                             y\<lparr>my_blobs := b\<rparr>))))"

text \<open>\<open>apply_diff_to_file\<close> and \<open>apply_diff_to_blob\<close>: what a worker does with one request.\<close>

definition apply_diff ::
    "'b blob_client option \<Rightarrow> write_request \<Rightarrow> 'b memory_system
     \<Rightarrow> (memory_queue_error + unit) \<times> 'b memory_system" where
  "apply_diff store r y =
     (case read_current store r y of
        Inl e \<Rightarrow> (Inl e, y)
      | Inr current_content \<Rightarrow>
          write_merged store r (apply_memory_diff current_content (wr_diff r)) y)"

subsection \<open>The threads\<close>

definition channel_capacity :: nat where
  "channel_capacity = 100"

record 'b memory_queue =
  mq_channel :: "string \<Rightarrow> write_request list"
  mq_merged :: "string \<Rightarrow> (write_request \<times> string) option"
  mq_system :: "'b memory_system"
  mq_answers :: "(write_request \<times> (memory_queue_error + unit)) list"

definition memory_queue_new :: "'b memory_system \<Rightarrow> 'b memory_queue" where
  "memory_queue_new y =
     \<lparr>mq_channel = (\<lambda>_. []), mq_merged = (\<lambda>_. None), mq_system = y, mq_answers = []\<rparr>"

datatype mq_event = Submitted write_request | WorkerRead string | WorkerWrote string

text \<open>
  A submitter blocks while the channel of its key is full; a worker takes the next request when
  it has answered the last one.  The answers are the history of what was completed.
\<close>

inductive mq_step ::
    "'b blob_client option \<Rightarrow> 'b memory_queue \<Rightarrow> mq_event \<Rightarrow> 'b memory_queue \<Rightarrow> bool"
  for store :: "'b blob_client option" where
  submit:
    "length (mq_channel q (queue_key r)) < channel_capacity \<Longrightarrow>
     mq_step store q (Submitted r)
       (q\<lparr>mq_channel := (mq_channel q)(queue_key r := mq_channel q (queue_key r) @ [r])\<rparr>)"
| read_failed:
    "mq_merged q k = None \<Longrightarrow> mq_channel q k = r # rest \<Longrightarrow>
     read_current store r (mq_system q) = Inl e \<Longrightarrow>
     mq_step store q (WorkerRead k)
       (q\<lparr>mq_channel := (mq_channel q)(k := rest), mq_answers := mq_answers q @ [(r, Inl e)]\<rparr>)"
| read:
    "mq_merged q k = None \<Longrightarrow> mq_channel q k = r # rest \<Longrightarrow>
     read_current store r (mq_system q) = Inr c \<Longrightarrow>
     mq_step store q (WorkerRead k)
       (q\<lparr>mq_channel := (mq_channel q)(k := rest),
          mq_merged := (mq_merged q)(k \<mapsto> (r, apply_memory_diff c (wr_diff r)))\<rparr>)"
| wrote:
    "mq_merged q k = Some (r, c) \<Longrightarrow> write_merged store r c (mq_system q) = (a, y') \<Longrightarrow>
     mq_step store q (WorkerWrote k)
       (q\<lparr>mq_merged := (mq_merged q)(k := None), mq_system := y',
          mq_answers := mq_answers q @ [(r, a)]\<rparr>)"

inductive mq_run ::
    "'b blob_client option \<Rightarrow> 'b memory_queue \<Rightarrow> mq_event list \<Rightarrow> 'b memory_queue \<Rightarrow> bool"
  for store :: "'b blob_client option" and q0 :: "'b memory_queue" where
  start: "mq_run store q0 [] q0"
| snoc: "mq_run store q0 es q \<Longrightarrow> mq_step store q e q' \<Longrightarrow> mq_run store q0 (es @ [e]) q'"

inductive_cases mq_submitE [elim!]: "mq_step store q (Submitted r) q'"
inductive_cases mq_readE [elim!]: "mq_step store q (WorkerRead k) q'"
inductive_cases mq_wroteE [elim!]: "mq_step store q (WorkerWrote k) q'"

subsection \<open>Where memos are kept\<close>

definition location :: "write_request \<Rightarrow> string + uuid" where
  "location r = (case wr_account_id r of None \<Rightarrow> Inl (memo_path r) | Some i \<Rightarrow> Inr i)"

text \<open>The memo kept at a place, given the texts that the blob service stores.\<close>

definition memo_at :: "('b \<Rightarrow> string \<rightharpoonup> string) \<Rightarrow> string + uuid \<Rightarrow> 'b memory_system \<Rightarrow> string" where
  "memo_at blobs l y =
     unwrap_or default_memo_content
       (case l of Inl p \<Rightarrow> map_of (w_files (my_world y)) p
                | Inr i \<Rightarrow> blobs (my_blobs y) (memo_blob_path i))"

text \<open>A write that is not cut short either succeeds or leaves the files as they were.\<close>

lemma write_memo_file_effect:
  assumes "write_memo_file p c w = (a, w')" and "w_torn w p = None"
  shows "map_of (w_files w') = (case a of Inr _ \<Rightarrow> (map_of (w_files w))(p \<mapsto> c) | Inl _ \<Rightarrow> map_of (w_files w))
    \<and> w_torn w' = w_torn w"
proof (cases "path_parent p")
  case None
  with assms show ?thesis
    by (auto simp: write_memo_file_def update_conv' map_err_eq_Inr map_err_eq_Inl split: prod.splits sum.splits
        dest!: fs_write_ok fs_write_untorn)
next
  case (Some d)
  obtain q w1 where d: "fs_create_dir_all d w = (q, w1)" by fastforce
  note files = fs_create_dir_all_files [OF d]
  show ?thesis
  proof (cases q)
    case (Inl e)
    with assms Some d files show ?thesis by (auto simp: write_memo_file_def)
  next
    case (Inr u)
    obtain r w2 where w: "fs_write p c w1 = (r, w2)" by fastforce
    with assms Some d Inr have "a = map_err (\<lambda>_. QueueIo) r" "w' = w2" by (simp_all add: write_memo_file_def)
    with w files assms(2) show ?thesis
      by (cases r) (auto simp: update_conv' dest!: fs_write_ok fs_write_untorn)
  qed
qed

lemma memo_blob_path_inject [simp]: "memo_blob_path a = memo_blob_path b \<longleftrightarrow> a = b"
  by (simp add: memo_blob_path_def)

context unambiguous_blob_service
begin

lemma read_current_memo:
  "read_current (Some bc) r y = Inr c \<Longrightarrow> c = memo_at blobs (location r) y"
  by (auto simp: read_current_def location_def memo_at_def read_memo_file_def fs_exists_def fs_is_file_def
      fs_read_def map_err_eq_Inr dest: read_memo split: option.splits if_splits)

lemma write_merged_memo:
  assumes "write_merged (Some bc) r c y = (a, y')" and "\<And>p. w_torn (my_world y) p = None"
  shows "(\<forall>l. l \<noteq> location r \<longrightarrow> memo_at blobs l y' = memo_at blobs l y)
    \<and> (memo_at blobs (location r) y' = c
       \<or> a \<noteq> Inr () \<and> memo_at blobs (location r) y' = memo_at blobs (location r) y)
    \<and> w_torn (my_world y') = w_torn (my_world y)"
proof (cases "wr_account_id r")
  case None
  with assms(1) obtain w where w: "write_memo_file (memo_path r) c (my_world y) = (a, w)" "y' = y\<lparr>my_world := w\<rparr>"
    by (auto simp: write_merged_def split: prod.splits)
  with None write_memo_file_effect [OF w(1) assms(2)] show ?thesis
    by (cases a) (auto simp: memo_at_def location_def split: sum.splits)
next
  case (Some i)
  with assms(1) obtain q b where b: "blob_write_memo bc i c (my_blobs y) = (q, b)" "y' = y\<lparr>my_blobs := b\<rparr>"
    and a: "a = map_err (\<lambda>e. BlobStoreFailed (blob_store_error_to_string e)) q"
    by (auto simp: write_merged_def split: prod.splits)
  show ?thesis
  proof (cases q)
    case (Inl e)
    with b write_failed [of i c "my_blobs y"] a Some show ?thesis
      by (auto simp: memo_at_def location_def split: sum.splits)
  next
    case (Inr u)
    with b write_ok [of i c "my_blobs y"] a Some show ?thesis
      by (auto simp: memo_at_def location_def split: sum.splits)
  qed
qed

end

end
