(* ===== verification/Queue_Properties.thy ===== *)
theory Queue_Properties
  imports Memory_Queue "HOL-Library.Sublist"
begin

text \<open>
  The write queue as a whole: whatever the threads do, the diffs are applied as if one after
  the other, each key is served in order, and every request is answered.
\<close>

subsection \<open>Histories\<close>

definition submitted :: "mq_event list \<Rightarrow> write_request list" where
  "submitted es = List.map_filter (\<lambda>e. case e of Submitted r \<Rightarrow> Some r | _ \<Rightarrow> None) es"

definition of_key :: "string \<Rightarrow> write_request list \<Rightarrow> write_request list" where
  "of_key k rs = filter (\<lambda>r. queue_key r = k) rs"

definition in_progress :: "(write_request \<times> string) option \<Rightarrow> write_request list" where
  "in_progress m = (case m of None \<Rightarrow> [] | Some (r, _) \<Rightarrow> [r])"

text \<open>The diffs that were merged at a place, in the order of the answers.\<close>

definition applied_at ::
    "string + uuid \<Rightarrow> (write_request \<times> (memory_queue_error + unit)) list \<Rightarrow> memory_diff list" where
  "applied_at l as = map (\<lambda>a. wr_diff (fst a)) (filter (\<lambda>a. snd a = Inr () \<and> location (fst a) = l) as)"

lemma submitted_snoc [simp]:
  "submitted [] = []" "submitted (es @ [Submitted r]) = submitted es @ [r]"
  "submitted (es @ [WorkerRead k]) = submitted es" "submitted (es @ [WorkerWrote k]) = submitted es"
  by (simp_all add: submitted_def List.map_filter_def)

lemma of_key_simps [simp]:
  "of_key k [] = []" "of_key k (rs @ rs') = of_key k rs @ of_key k rs'"
  "of_key k (r # rs) = (if queue_key r = k then r # of_key k rs else of_key k rs)"
  by (simp_all add: of_key_def)

lemma in_progress_simps [simp]: "in_progress None = []" "in_progress (Some (r, c)) = [r]"
  by (simp_all add: in_progress_def)

lemma applied_at_simps [simp]:
  "applied_at l [] = []" "applied_at l (as @ as') = applied_at l as @ applied_at l as'"
  "applied_at l [(r, a)] = (if a = Inr () \<and> location r = l then [wr_diff r] else [])"
  by (auto simp: applied_at_def)

text \<open>The diffs of all answered requests for a place, those whose write failed included.\<close>

definition tried_at ::
    "string + uuid \<Rightarrow> (write_request \<times> (memory_queue_error + unit)) list \<Rightarrow> memory_diff list" where
  "tried_at l as = map (\<lambda>a. wr_diff (fst a)) (filter (\<lambda>a. location (fst a) = l) as)"

lemma tried_at_simps [simp]:
  "tried_at l [] = []" "tried_at l (as @ as') = tried_at l as @ tried_at l as'"
  "tried_at l [(r, a)] = (if location r = l then [wr_diff r] else [])"
  by (auto simp: tried_at_def)

text \<open>Each channel and each worker holds requests of its key only.\<close>

definition keyed :: "'b memory_queue \<Rightarrow> bool" where
  "keyed q = (\<forall>k. (\<forall>r \<in> set (mq_channel q k). queue_key r = k)
                \<and> (\<forall>r c. mq_merged q k = Some (r, c) \<longrightarrow> queue_key r = k))"

lemma run_keyed: "mq_run store (memory_queue_new y) es q \<Longrightarrow> keyed q"
proof (induction rule: mq_run.induct)
  case (snoc es q e q')
  from snoc.hyps(2) snoc.IH show ?case by cases (auto simp: keyed_def)
qed (simp add: keyed_def memory_queue_new_def)

text \<open>The requests of a key, in the order in which they were submitted, by how far they got.\<close>

definition in_order :: "mq_event list \<Rightarrow> 'b memory_queue \<Rightarrow> bool" where
  "in_order es q =
     (\<forall>k. of_key k (submitted es)
           = of_key k (map fst (mq_answers q)) @ in_progress (mq_merged q k) @ mq_channel q k)"

lemma run_in_order: "mq_run store (memory_queue_new y) es q \<Longrightarrow> in_order es q"
proof (induction rule: mq_run.induct)
  case (snoc es q e q')
  have keyed: "keyed q" by (rule run_keyed [OF snoc.hyps(1)])
  from snoc.hyps(2) snoc.IH show ?case
  proof cases
    case (wrote k r c a y')
    with keyed snoc.IH show ?thesis by (auto simp: in_order_def keyed_def)
  next
    case (read k r rest c)
    with keyed snoc.IH show ?thesis by (auto simp: in_order_def keyed_def)
  next
    case (read_failed k r rest e)
    with keyed snoc.IH show ?thesis by (auto simp: in_order_def keyed_def)
  next
    case (submit r)
    with snoc.IH show ?thesis by (auto simp: in_order_def)
  qed
qed (simp add: in_order_def memory_queue_new_def)

text \<open>Requests for the same place have the same key.\<close>

definition keys_separate :: "write_request list \<Rightarrow> bool" where
  "keys_separate rs = (\<forall>r \<in> set rs. \<forall>r' \<in> set rs. location r = location r' \<longrightarrow> queue_key r = queue_key r')"

lemma held_submitted:
  assumes "mq_run store (memory_queue_new y) es q"
  shows "r \<in> set (mq_channel q k) \<Longrightarrow> r \<in> set (submitted es)"
    and "mq_merged q k = Some (r, c) \<Longrightarrow> r \<in> set (submitted es)"
proof -
  from run_in_order [OF assms] have "set (in_progress (mq_merged q k) @ mq_channel q k) \<subseteq> set (submitted es)"
    unfolding in_order_def of_key_def by (metis filter_is_subset set_append Un_subset_iff)
  then show "r \<in> set (mq_channel q k) \<Longrightarrow> r \<in> set (submitted es)"
    and "mq_merged q k = Some (r, c) \<Longrightarrow> r \<in> set (submitted es)" by auto
qed

subsection \<open>One after the other\<close>

text \<open>
  The memo at each place is the one at the beginning with diffs merged in the order of their
  answers: all those that were confirmed, and perhaps some whose write failed.  What a worker is
  about to write is based on the memo as it is now.
\<close>

definition serial_memo :: "string \<Rightarrow> memory_diff list \<Rightarrow> memory_diff list \<Rightarrow> string \<Rightarrow> bool" where
  "serial_memo memo confirmed tried memo' =
     (\<exists>ds. memo' = foldl apply_memory_diff memo ds \<and> subseq confirmed ds \<and> subseq ds tried)"

lemma serial_memo_start: "serial_memo memo [] [] memo"
  unfolding serial_memo_def by (rule exI [of _ "[]"]) simp

lemma serial_memo_merged:
  assumes "serial_memo memo ds es memo'"
  shows "serial_memo memo (ds @ (if ok then [d] else [])) (es @ [d]) (apply_memory_diff memo' d)"
proof -
  from assms obtain ds' where "memo' = foldl apply_memory_diff memo ds'" "subseq ds ds'" "subseq ds' es"
    by (auto simp: serial_memo_def)
  then show ?thesis unfolding serial_memo_def
    by (intro exI [of _ "ds' @ [d]"]) (auto intro: list_emb_append_mono)
qed

lemma serial_memo_tried: "serial_memo memo ds es memo' \<Longrightarrow> serial_memo memo ds (es @ es') memo'"
  unfolding serial_memo_def by (auto intro: list_emb_prefix)

definition serial ::
    "('b \<Rightarrow> string \<rightharpoonup> string) \<Rightarrow> 'b memory_system \<Rightarrow> 'b memory_queue \<Rightarrow> bool" where
  "serial blobs y q =
     ((\<forall>l. serial_memo (memo_at blobs l y) (applied_at l (mq_answers q)) (tried_at l (mq_answers q))
              (memo_at blobs l (mq_system q)))
      \<and> (\<forall>k r c. mq_merged q k = Some (r, c) \<longrightarrow>
             c = apply_memory_diff (memo_at blobs (location r) (mq_system q)) (wr_diff r))
      \<and> (\<forall>p. w_torn (my_world (mq_system q)) p = None))"

lemma serial_frame:
  assumes "serial blobs y q" and "mq_system q' = mq_system q"
    and "\<And>l. applied_at l (mq_answers q') = applied_at l (mq_answers q)"
    and "\<And>l. \<exists>ds. tried_at l (mq_answers q') = tried_at l (mq_answers q) @ ds"
    and "\<And>k r c. mq_merged q' k = Some (r, c) \<Longrightarrow> mq_merged q k = Some (r, c)
           \<or> c = apply_memory_diff (memo_at blobs (location r) (mq_system q)) (wr_diff r)"
  shows "serial blobs y q'"
proof -
  have "c = apply_memory_diff (memo_at blobs (location r) (mq_system q)) (wr_diff r)"
    if "mq_merged q' k = Some (r, c)" for k r c
    using assms(5) [OF that] assms(1) unfolding serial_def by blast
  moreover have "serial_memo (memo_at blobs l y) (applied_at l (mq_answers q)) (tried_at l (mq_answers q'))
      (memo_at blobs l (mq_system q))" for l
    using assms(1) assms(4) [of l] serial_memo_tried unfolding serial_def by metis
  ultimately show ?thesis using assms(1) unfolding serial_def assms(2,3) by blast
qed

lemma keys_separate_append: "keys_separate (rs @ rs') \<Longrightarrow> keys_separate rs"
  by (simp add: keys_separate_def)

context unambiguous_blob_service
begin

lemma serial_wrote:
  assumes ser: "serial blobs y0 q" and m: "mq_merged q k = Some (r, c)"
    and w: "write_merged (Some bc) r c (mq_system q) = (a, y')"
    and sep: "\<And>k' r' c'. mq_merged q k' = Some (r', c') \<Longrightarrow> k' \<noteq> k \<Longrightarrow> location r' \<noteq> location r"
  shows "serial blobs y0 (q\<lparr>mq_merged := (mq_merged q)(k := None), mq_system := y',
                            mq_answers := mq_answers q @ [(r, a)]\<rparr>)"
proof -
  from ser have torn: "w_torn (my_world (mq_system q)) p = None" for p unfolding serial_def by blast
  from ser m have c: "c = apply_memory_diff (memo_at blobs (location r) (mq_system q)) (wr_diff r)"
    unfolding serial_def by blast
  note eff = write_merged_memo [OF w torn]
  have old: "serial_memo (memo_at blobs l y0) (applied_at l (mq_answers q)) (tried_at l (mq_answers q))
      (memo_at blobs l (mq_system q))" for l
    using ser unfolding serial_def by blast
  have "serial_memo (memo_at blobs l y0) (applied_at l (mq_answers q @ [(r, a)]))
      (tried_at l (mq_answers q @ [(r, a)])) (memo_at blobs l y')" for l
  proof (cases "l = location r \<and> memo_at blobs (location r) y' = c")
    case True
    with serial_memo_merged [OF old [of l], of "a = Inr ()" "wr_diff r"] c show ?thesis
      by (simp split: if_splits)
  next
    case False
    then have "memo_at blobs l y' = memo_at blobs l (mq_system q) \<and> (l \<noteq> location r \<or> a \<noteq> Inr ())"
      using eff by (cases "l = location r") auto
    with serial_memo_tried [OF old [of l]] old [of l] show ?thesis by auto
  qed
  moreover have "c' = apply_memory_diff (memo_at blobs (location r') y') (wr_diff r')"
    if "((mq_merged q)(k := None)) k' = Some (r', c')" for k' r' c'
    using that ser eff sep [of k' r' c'] unfolding serial_def by (auto split: if_splits)
  ultimately show ?thesis using eff torn unfolding serial_def by simp
qed

lemma run_serial:
  "mq_run (Some bc) (memory_queue_new y) es q \<Longrightarrow> keys_separate (submitted es) \<Longrightarrow>
   (\<And>p. w_torn (my_world y) p = None) \<Longrightarrow> serial blobs y q"
proof (induction rule: mq_run.induct)
  case start
  then show ?case by (simp add: serial_def memory_queue_new_def serial_memo_start)
next
  case (snoc es q e q')
  have sep: "keys_separate (submitted es)"
    using snoc.prems(1) by (cases e) (auto dest: keys_separate_append)
  note IH = snoc.IH [OF sep snoc.prems(2)]
  note keyed = run_keyed [OF snoc.hyps(1)]
  note held = held_submitted [OF snoc.hyps(1)]
  from snoc.hyps(2) show ?case
  proof cases
    case (submit r)
    then show ?thesis by (intro serial_frame [OF IH]) auto
  next
    case (read_failed k r rest e)
    then show ?thesis by (intro serial_frame [OF IH]) auto
  next
    case (read k r rest c)
    with read_current_memo [OF read(5)] show ?thesis
      by (intro serial_frame [OF IH]) (auto split: if_splits)
  next
    case (wrote k r c a y')
    have "location r' \<noteq> location r" if "mq_merged q k' = Some (r', c')" "k' \<noteq> k" for k' r' c'
    proof
      assume "location r' = location r"
      with sep held(2) [OF that(1)] held(2) [OF wrote(3)] have "queue_key r' = queue_key r"
        unfolding keys_separate_def by blast
      with keyed that wrote(3) show False unfolding keyed_def by metis
    qed
    from serial_wrote [OF IH wrote(3,4) this] wrote(2) show ?thesis by simp
  qed
qed

end


subsection \<open>Every request is answered\<close>

lemma run_trans:
  "mq_run store q' es' q'' \<Longrightarrow> mq_run store q es q' \<Longrightarrow> mq_run store q (es @ es') q''"
proof (induction rule: mq_run.induct)
  case (snoc es' q1 e q2)
  from mq_run.snoc [OF snoc.IH [OF snoc.prems] snoc.hyps(2)] show ?case by simp
qed simp

lemma run_one: "mq_step store q e q' \<Longrightarrow> mq_run store q [e] q'"
  using mq_run.snoc [OF mq_run.start, of store q e q'] by simp

text \<open>A worker that has a result writes it; an idle one takes the next request and answers it.\<close>

lemma finish_busy:
  "\<exists>es q'. mq_run store q es q' \<and> submitted es = [] \<and> mq_merged q' k = None
     \<and> mq_channel q' = mq_channel q
     \<and> map fst (mq_answers q') = map fst (mq_answers q) @ in_progress (mq_merged q k)"
proof (cases "mq_merged q k")
  case None
  then show ?thesis by (intro exI [of _ "[]"] exI [of _ q]) (simp add: mq_run.start)
next
  case (Some m)
  obtain r c where m: "m = (r, c)" by fastforce
  obtain a y' where w: "write_merged store r c (mq_system q) = (a, y')" by fastforce
  note run = run_one [OF mq_step.wrote [OF Some [unfolded m] w]]
  show ?thesis
    by (intro exI [of _ "[WorkerWrote k]"] exI conjI, rule run)
       (simp_all add: Some m submitted_def List.map_filter_def)
qed

lemma serve_next:
  assumes "mq_merged q k = None" and "mq_channel q k = r # rest"
  shows "\<exists>es q'. mq_run store q es q' \<and> submitted es = [] \<and> mq_merged q' k = None
     \<and> mq_channel q' k = rest \<and> map fst (mq_answers q') = map fst (mq_answers q) @ [r]"
proof (cases "read_current store r (mq_system q)")
  case (Inl e)
  note run = run_one [OF mq_step.read_failed [OF assms Inl]]
  show ?thesis
    by (intro exI [of _ "[WorkerRead k]"] exI conjI, rule run)
       (simp_all add: assms submitted_def List.map_filter_def)
next
  case (Inr c)
  let ?q = "q\<lparr>mq_channel := (mq_channel q)(k := rest),
              mq_merged := (mq_merged q)(k \<mapsto> (r, apply_memory_diff c (wr_diff r)))\<rparr>"
  note 1 = run_one [OF mq_step.read [OF assms Inr]]
  obtain es q' where 2: "mq_run store ?q es q'" "submitted es = []" "mq_merged q' k = None"
    "mq_channel q' = mq_channel ?q" "map fst (mq_answers q') = map fst (mq_answers q) @ [r]"
    using finish_busy [of store ?q k] by auto
  from run_trans [OF 2(1) 1] 2 show ?thesis
    by (intro exI [of _ "WorkerRead k # es"] exI [of _ q']) (simp add: submitted_def List.map_filter_def)
qed

lemma submitted_append: "submitted (es @ es') = submitted es @ submitted es'"
  by (simp add: submitted_def List.map_filter_def)

lemma drain:
  "mq_merged q k = None \<Longrightarrow> mq_channel q k = rs \<Longrightarrow>
   \<exists>es q'. mq_run store q es q' \<and> submitted es = []
     \<and> map fst (mq_answers q') = map fst (mq_answers q) @ rs"
proof (induction rs arbitrary: q)
  case Nil
  then show ?case by (intro exI [of _ "[]"] exI [of _ q]) (simp add: mq_run.start)
next
  case (Cons r rs)
  from serve_next [OF Cons.prems, of store] obtain es q1 where
    1: "mq_run store q es q1" "submitted es = []" "mq_merged q1 k = None" "mq_channel q1 k = rs"
       "map fst (mq_answers q1) = map fst (mq_answers q) @ [r]" by blast
  from Cons.IH [OF 1(3,4)] obtain es' q' where
    2: "mq_run store q1 es' q'" "submitted es' = []" "map fst (mq_answers q') = map fst (mq_answers q1) @ rs"
    by blast
  from run_trans [OF 2(1) 1(1)] 1 2 show ?case
    by (intro exI [of _ "es @ es'"] exI [of _ q']) (simp add: submitted_append)
qed

text \<open>
  C33.  No request waits for ever: from every state the queue can get into, the worker of a key
  alone can go on until all requests submitted for that key so far are answered, in their
  order; neither other workers nor failing reads and writes can block it.
\<close>

theorem every_request_is_answered:
  assumes "mq_run store (memory_queue_new y) es q"
  shows "\<exists>es' q'. mq_run store (memory_queue_new y) (es @ es') q' \<and> submitted es' = []
           \<and> of_key k (map fst (mq_answers q')) = of_key k (submitted es)"
proof -
  obtain es1 q1 where 1: "mq_run store q es1 q1" "submitted es1 = []" "mq_merged q1 k = None"
    "mq_channel q1 = mq_channel q"
    "map fst (mq_answers q1) = map fst (mq_answers q) @ in_progress (mq_merged q k)"
    using finish_busy by blast
  obtain es2 q2 where 2: "mq_run store q1 es2 q2" "submitted es2 = []"
    "map fst (mq_answers q2) = map fst (mq_answers q1) @ mq_channel q k"
    using drain [OF 1(3) refl] 1(4) by metis
  have run: "mq_run store (memory_queue_new y) (es @ es1 @ es2) q2"
    by (rule run_trans [OF run_trans [OF 2(1) 1(1)] assms])
  have "of_key k (map fst (mq_answers q2)) = of_key k (submitted es)"
    using run_in_order [OF assms] run_keyed [OF assms] 1(5) 2(3)
    by (cases "mq_merged q k")
       (auto simp: in_order_def keyed_def of_key_def filter_id_conv in_progress_def split: prod.splits)
  with run 1(2) 2(2) show ?thesis by (intro exI [of _ "es1 @ es2"] exI [of _ q2]) (simp add: submitted_append)
qed

subsection \<open>Errors taken for a missing memo\<close>

text \<open>
  A failed read whose error text happens to contain \<open>404\<close> is taken for a missing memo:
  the request then succeeds and replaces the whole memory of the account by the default memo
  with the diff merged, whatever was stored before.
\<close>

theorem ambiguous_error_resets_memo:
  assumes "blob_service bc blobs" and "wr_account_id r = Some i"
    and "bc_get bc (memo_blob_path i) (my_blobs y) = Inl e" and "str_contains e ''404''"
    and "apply_diff (Some bc) r y = (Inr (), y')"
  shows "memo_at blobs (Inr i) y' = apply_memory_diff default_memo_content (wr_diff r)"
proof -
  have "read_current (Some bc) r y = Inr default_memo_content"
    using assms(2-4) by (simp add: read_current_def blob_read_memo_def is_not_found_def)
  with assms(2,5) obtain b where
    "blob_write_memo bc i (apply_memory_diff default_memo_content (wr_diff r)) (my_blobs y) = (Inr (), b)"
    and "my_blobs y' = b"
    by (auto simp: apply_diff_def write_merged_def map_err_eq_Inr split: prod.splits)
  with blob_service.write_ok [OF assms(1)] show ?thesis by (simp add: memo_at_def)
qed

subsection \<open>Examples\<close>

definition note_request :: "string \<Rightarrow> write_request" where
  "note_request line =
     \<lparr>wr_account_id = Some ''a'', wr_user_id = ''u'', wr_user_memory_dir = ''/m'',
      wr_diff = [(''A'', Added [line])]\<rparr>"

definition stored_memo :: "(string \<times> string) list \<Rightarrow> memory_blobs memory_system" where
  "stored_memo faults =
     \<lparr>my_world = plain_world [''/m''],
      my_blobs = \<lparr>mb_blobs = [(''a/memo.md'', small_memo)], mb_faults = faults\<rparr>\<rparr>"

lemma note_request_simps [simp]:
  "queue_key (note_request l) = ''account:a''" "location (note_request l) = Inr ''a''"
  "wr_account_id (note_request l) = Some ''a''"
  by (simp_all add: note_request_def queue_key_def location_def)

lemma two_submissions:
  "\<exists>q. mq_run store (memory_queue_new y) [Submitted (note_request l1), Submitted (note_request l2)] q
     \<and> mq_merged q k = None \<and> mq_channel q ''account:a'' = [note_request l1, note_request l2]
     \<and> mq_answers q = []"
proof -
  let ?r1 = "note_request l1" and ?r2 = "note_request l2"
  let ?sub = "\<lambda>q r. q\<lparr>mq_channel := (mq_channel q)(queue_key r := mq_channel q (queue_key r) @ [r])\<rparr>"
  let ?q1 = "?sub (memory_queue_new y) ?r1"
  have 1: "mq_run store (memory_queue_new y) [Submitted ?r1] ?q1"
    by (rule run_one [OF mq_step.submit]) (simp add: memory_queue_new_def channel_capacity_def)
  have 2: "mq_run store ?q1 [Submitted ?r2] (?sub ?q1 ?r2)"
    by (rule run_one [OF mq_step.submit]) (simp add: memory_queue_new_def channel_capacity_def)
  from run_trans [OF 2 1] show ?thesis
    by (intro exI [of _ "?sub ?q1 ?r2"]) (simp add: memory_queue_new_def)
qed

lemma two_notes_separate: "keys_separate [note_request l1, note_request l2]"
  by (simp add: keys_separate_def)


theorem every_request_is_answered_witness:
  "\<exists>es q. mq_run (None :: memory_blobs blob_client option) (memory_queue_new (stored_memo [])) es q
     \<and> of_key ''account:a'' (map fst (mq_answers q)) = [note_request ''x'', note_request ''y'']"
proof -
  obtain q where 1: "mq_run (None :: memory_blobs blob_client option) (memory_queue_new (stored_memo []))
      [Submitted (note_request ''x''), Submitted (note_request ''y'')] q"
    using two_submissions by blast
  have "submitted [Submitted (note_request ''x''), Submitted (note_request ''y'')]
      = [note_request ''x'', note_request ''y'']" by (simp add: submitted_def List.map_filter_def)
  with every_request_is_answered [OF 1, of "''account:a''"] show ?thesis by auto
qed

theorem ambiguous_error_resets_memo_witness:
  "\<exists>y'. apply_diff (Some memory_client) (note_request ''x'') (stored_memo [(''a/memo.md'', ''id 8404: busy'')])
         = (Inr (), y')
     \<and> memo_at (\<lambda>b. map_of (mb_blobs b)) (Inr ''a'') y'
         = apply_memory_diff default_memo_content [(''A'', Added [''x''])]"
proof -
  let ?y = "stored_memo [(''a/memo.md'', ''id 8404: busy'')]"
  have 1: "bc_get memory_client (memo_blob_path ''a'') (my_blobs ?y) = Inl ''id 8404: busy''"
    by (simp add: memory_client_def stored_memo_def memo_blob_path_def)
  have 2: "str_contains ''id 8404: busy'' ''404''" by (simp add: starts_with_def)
  obtain y' where 3: "apply_diff (Some memory_client) (note_request ''x'') ?y = (Inr (), y')"
    using 1 2 by (simp add: apply_diff_def read_current_def blob_read_memo_def is_not_found_def
        write_merged_def blob_write_memo_def memory_client_def)
  from ambiguous_error_resets_memo [OF mb.blob_service_axioms _ 1 2 3] 3 show ?thesis
    by (simp add: note_request_def)
qed

end
