(* ===== verification/Index_Store.thy ===== *)
theory Index_Store
  imports Task_Types Mongo_Client "HOL-Library.AList" "HOL-Library.List_Lexorder" "HOL-Library.Char_ord"
begin

text \<open>
  \<open>index_store/mod.rs\<close>: the index of the enabled tasks of all users by their next run, which the
  worker polls for due tasks.  The collection is a parameter like that of the task store, here
  with deletion and limited queries; \<open>il_is_account\<close> is \<open>is_global_account_id\<close> of
  \<open>account_store.rs\<close>, a lookup in the account database.
\<close>

record task_ref =
  tr_task_id :: string
  tr_user_id :: string

record index_doc =
  ix_user_id :: "string option"
  ix_task_id :: "string option"
  ix_next_run :: datetime
  ix_enabled :: bool

datatype index_store_error = IndexMongo mongo_error | IndexIo string | IndexMongoConfig string

text \<open>A query with a sort key or without one, and the limit as the 64-bit number it is sent as.\<close>

record 'c index_coll =
  ic_coll :: "('c, index_doc) coll"
  ic_delete_many :: "(index_doc \<Rightarrow> bool) \<Rightarrow> 'c \<Rightarrow> (mongo_error + nat) \<times> 'c"
  ic_find_limited :: "(index_doc \<Rightarrow> bool) \<Rightarrow> (index_doc \<Rightarrow> int) option \<Rightarrow> int \<Rightarrow> 'c
                      \<Rightarrow> (mongo_error + index_doc list) \<times> 'c"

record 'c index_lib =
  il_coll :: "'c index_coll"
  il_is_account :: "string \<Rightarrow> bool"

type_synonym ('c, 'a) index_result = "(index_store_error + 'a) \<times> 'c"

definition index_op :: "('c \<Rightarrow> (mongo_error + 'a) \<times> 'c) \<Rightarrow> 'c \<Rightarrow> ('c, 'a) index_result" where
  "index_op f c = (case f c of (r, c) \<Rightarrow> (map_err IndexMongo r, c))"

subsection \<open>Keeping the index\<close>

definition schedule_next_run :: "schedule \<Rightarrow> datetime" where
  "schedule_next_run s = (case s of Cron _ next_run \<Rightarrow> next_run | OneShot run_at \<Rightarrow> run_at)"

text \<open>The entries of the \<open>BTreeMap\<close>: ordered by task id, the last task of an id counts.\<close>

definition enabled_task_next_runs :: "scheduled_task list \<Rightarrow> (string \<times> datetime) list" where
  "enabled_task_next_runs tasks =
     sort_key fst (fold (\<lambda>task deduped.
         if \<not> t_enabled task then deduped
         else AList.update (t_id task) (schedule_next_run (t_schedule task)) deduped) tasks [])"

definition should_schedule_for_user_id :: "'c index_lib \<Rightarrow> string \<Rightarrow> bool" where
  "should_schedule_for_user_id il user_id = (\<not> il_is_account il user_id)"

definition index_entry :: "string \<Rightarrow> string \<Rightarrow> index_doc \<Rightarrow> bool" where
  "index_entry user_id task_id d = (ix_task_id d = Some task_id \<and> ix_user_id d = Some user_id)"

definition index_set :: "datetime \<Rightarrow> index_doc \<Rightarrow> index_doc" where
  "index_set next_run d = d\<lparr>ix_next_run := bson_time next_run, ix_enabled := True\<rparr>"

definition index_insert :: "string \<Rightarrow> string \<Rightarrow> datetime \<Rightarrow> index_doc" where
  "index_insert user_id task_id next_run =
     \<lparr>ix_user_id = Some user_id, ix_task_id = Some task_id, ix_next_run = bson_time next_run,
      ix_enabled = True\<rparr>"

definition upsert_entry ::
    "'c index_lib \<Rightarrow> string \<Rightarrow> string \<times> datetime \<Rightarrow> 'c \<Rightarrow> ('c, unit) index_result" where
  "upsert_entry il user_id row c =
     (case row of (task_id, next_run) \<Rightarrow>
        st_bind (index_op (c_upsert_one (ic_coll (il_coll il)) (index_entry user_id task_id)
                             (index_set next_run) (index_insert user_id task_id next_run)) c)
          (\<lambda>_ c. (Inr (), c)))"

fun upsert_entries ::
    "'c index_lib \<Rightarrow> string \<Rightarrow> (string \<times> datetime) list \<Rightarrow> 'c \<Rightarrow> ('c, unit) index_result" where
  "upsert_entries il user_id [] c = (Inr (), c)"
| "upsert_entries il user_id (row # rows) c =
     st_bind (upsert_entry il user_id row c) (\<lambda>_ c. upsert_entries il user_id rows c)"

definition sync_user_tasks ::
    "'c index_lib \<Rightarrow> string \<Rightarrow> scheduled_task list \<Rightarrow> 'c \<Rightarrow> ('c, unit) index_result" where
  "sync_user_tasks il user_id tasks c =
     (if \<not> should_schedule_for_user_id il user_id then (Inr (), c)
      else
        let task_rows = enabled_task_next_runs tasks; task_ids = map fst task_rows in
        if task_ids = [] then
          st_bind (index_op (ic_delete_many (il_coll il) (\<lambda>d. ix_user_id d = Some user_id)) c)
            (\<lambda>_ c. (Inr (), c))
        else
          st_bind (index_op (ic_delete_many (il_coll il)
                     (\<lambda>d. ix_user_id d = Some user_id
                          \<and> (case ix_task_id d of Some i \<Rightarrow> i \<notin> set task_ids | None \<Rightarrow> True))) c)
            (\<lambda>_ c. upsert_entries il user_id task_rows c))"

definition upsert_user_task ::
    "'c index_lib \<Rightarrow> string \<Rightarrow> scheduled_task \<Rightarrow> 'c \<Rightarrow> ('c, unit) index_result" where
  "upsert_user_task il user_id task c =
     (if \<not> should_schedule_for_user_id il user_id then (Inr (), c)
      else if t_enabled task
      then upsert_entry il user_id (t_id task, schedule_next_run (t_schedule task)) c
      else st_bind (index_op (ic_delete_many (il_coll il) (index_entry user_id (t_id task))) c)
             (\<lambda>_ c. (Inr (), c)))"

subsection \<open>Due tasks\<close>

definition is_order_by_index_excluded :: "mongo_error \<Rightarrow> bool" where
  "is_order_by_index_excluded err =
     (case err of
        CommandError code _ message \<Rightarrow>
          code = 2 \<and> str_contains (to_ascii_lowercase message)
             ''the index path corresponding to the specified order-by item is excluded''
      | _ \<Rightarrow> False)"

definition due_filter :: "datetime \<Rightarrow> index_doc \<Rightarrow> bool" where
  "due_filter now d = (ix_enabled d \<and> ix_next_run d \<le> bson_time now)"

text \<open>The sorted query, or the unsorted one where the server cannot sort.\<close>

definition find_due ::
    "'c index_lib \<Rightarrow> datetime \<Rightarrow> int \<Rightarrow> int \<Rightarrow> 'c \<Rightarrow> ('c, index_doc list) index_result" where
  "find_due il now limit unsorted_limit c =
     (case ic_find_limited (il_coll il) (due_filter now) (Some ix_next_run) limit c of
        (Inr docs, c) \<Rightarrow> (Inr docs, c)
      | (Inl err, c) \<Rightarrow>
          if is_order_by_index_excluded err
          then index_op (ic_find_limited (il_coll il) (due_filter now) None unsorted_limit) c
          else (Inl (IndexMongo err), c))"

fun distinct_user_ids :: "nat \<Rightarrow> string list \<Rightarrow> index_doc list \<Rightarrow> string list" where
  "distinct_user_ids limit ids [] = ids"
| "distinct_user_ids limit ids (d # docs) =
     (case ix_user_id d of
        None \<Rightarrow> distinct_user_ids limit ids docs
      | Some user_id \<Rightarrow>
          if user_id \<in> set ids then distinct_user_ids limit ids docs
          else let ids = ids @ [user_id] in
               if length ids \<ge> limit then ids else distinct_user_ids limit ids docs)"

text \<open>\<open>limit as i64\<close> reads the 64 bits of a \<open>usize\<close> as a signed number.\<close>

definition due_user_ids ::
    "'c index_lib \<Rightarrow> datetime \<Rightarrow> u64 \<Rightarrow> 'c \<Rightarrow> ('c, string list) index_result" where
  "due_user_ids il now limit c =
     st_bind (find_due il now (sint limit) (max (sat_i64 (sint limit * 8)) (sint limit)) c)
       (\<lambda>docs c. (Inr (distinct_user_ids (unat limit) [] docs), c))"

definition task_ref_of :: "index_doc \<Rightarrow> task_ref option" where
  "task_ref_of d =
     (case (ix_task_id d, ix_user_id d) of
        (Some task_id, Some user_id) \<Rightarrow> Some \<lparr>tr_task_id = task_id, tr_user_id = user_id\<rparr>
      | _ \<Rightarrow> None)"

definition due_task_refs ::
    "'c index_lib \<Rightarrow> datetime \<Rightarrow> u64 \<Rightarrow> 'c \<Rightarrow> ('c, task_ref list) index_result" where
  "due_task_refs il now limit c =
     st_bind (find_due il now (sint limit) (sint limit) c)
       (\<lambda>docs c. (Inr (List.map_filter task_ref_of docs), c))"

subsection \<open>The contract of the collection\<close>

text \<open>
  A limited query returns the first documents of some order of all that match, sorted by the
  key if there is one; a limit that is not positive is none (or a batch size).
\<close>

locale index_collection =
  doc_collection "ic_coll ic" docs for ic :: "'c index_coll" and docs :: "'c \<Rightarrow> index_doc list" +
  assumes delete_many_ok:
      "ic_delete_many ic p c = (Inr m, c') \<Longrightarrow> docs c' = filter (\<lambda>d. \<not> p d) (docs c)"
    and find_limited_ok:
      "ic_find_limited ic p key n c = (Inr ds, c') \<Longrightarrow>
       docs c' = docs c
       \<and> (\<exists>all. mset all = mset (filter p (docs c))
              \<and> (\<forall>k. key = Some k \<longrightarrow> sorted (map k all))
              \<and> (n > 0 \<longrightarrow> ds = take (nat n) all))"
    and find_limited_err: "ic_find_limited ic p key n c = (Inl e, c') \<Longrightarrow> docs c' = docs c"


subsection \<open>The index mirrors the tasks\<close>

text \<open>The next run with which the index lists a task of a user, if it does.\<close>

definition indexed_run :: "string \<Rightarrow> index_doc list \<Rightarrow> string \<Rightarrow> datetime option" where
  "indexed_run user_id ds task_id =
     map_option ix_next_run (List.find (\<lambda>d. index_entry user_id task_id d \<and> ix_enabled d) ds)"

text \<open>The next run of the enabled task of an id in a task list, as the index stores it.\<close>

definition enabled_run :: "scheduled_task list \<Rightarrow> string \<Rightarrow> datetime option" where
  "enabled_run tasks task_id =
     map_option (\<lambda>t. bson_time (schedule_next_run (t_schedule t)))
       (List.find (\<lambda>t. t_enabled t \<and> t_id t = task_id) (rev tasks))"

lemma find_rev_Cons:
  "List.find p (rev (x # xs)) = or_else (List.find p (rev xs)) (if p x then Some x else None)"
proof -
  have "List.find p (ys @ [x]) = or_else (List.find p ys) (if p x then Some x else None)" for ys
    by (induction ys) auto
  then show ?thesis by simp
qed

lemma map_of_enabled_fold:
  "map_of (fold (\<lambda>task deduped. if \<not> t_enabled task then deduped
       else AList.update (t_id task) (schedule_next_run (t_schedule task)) deduped) tasks m) i
   = or_else (map_option (\<lambda>t. schedule_next_run (t_schedule t))
        (List.find (\<lambda>t. t_enabled t \<and> t_id t = i) (rev tasks))) (map_of m i)"
proof (induction tasks arbitrary: m)
  case (Cons t ts)
  then show ?case
    by (simp add: find_rev_Cons update_conv' del: rev.simps)
       (cases "List.find (\<lambda>t. t_enabled t \<and> t_id t = i) (rev ts)"; auto)
qed simp

lemma distinct_enabled_fold:
  "distinct (map fst m) \<Longrightarrow>
   distinct (map fst (fold (\<lambda>task deduped. if \<not> t_enabled task then deduped
       else AList.update (t_id task) (schedule_next_run (t_schedule task)) deduped) tasks m))"
  by (induction tasks arbitrary: m) (simp_all add: distinct_update)

lemma map_of_sort_key:
  assumes "distinct (map fst m)"
  shows "distinct (map fst (sort_key fst m)) \<and> map_of (sort_key fst m) = map_of m"
proof -
  have d: "distinct (map fst (sort_key fst m))" using assms by (simp add: distinct_map)
  with map_of_inject_set [OF d assms] show ?thesis by simp
qed

lemma enabled_runs:
  "map_option bson_time (map_of (enabled_task_next_runs tasks) i) = enabled_run tasks i
   \<and> distinct (map fst (enabled_task_next_runs tasks))"
proof -
  let ?m = "fold (\<lambda>task deduped. if \<not> t_enabled task then deduped
       else AList.update (t_id task) (schedule_next_run (t_schedule task)) deduped) tasks []"
  have d: "distinct (map fst ?m)" by (rule distinct_enabled_fold) simp
  have m: "map_of ?m i = map_option (\<lambda>t. schedule_next_run (t_schedule t))
        (List.find (\<lambda>t. t_enabled t \<and> t_id t = i) (rev tasks))"
    by (subst map_of_enabled_fold) (cases "List.find (\<lambda>t. t_enabled t \<and> t_id t = i) (rev tasks)"; simp)
  show ?thesis
    unfolding enabled_task_next_runs_def map_of_sort_key [OF d, THEN conjunct2] m enabled_run_def
    using map_of_sort_key [OF d] by (simp add: option.map_comp comp_def)
qed

lemma index_entry_other: "index_entry u i d \<Longrightarrow> index_entry u' i' d \<longleftrightarrow> u' = u \<and> i' = i"
  by (auto simp: index_entry_def)

lemma indexed_run_none: "\<not> list_ex (index_entry u i) ds \<Longrightarrow> indexed_run u ds i = None"
  by (induction ds) (auto simp: indexed_run_def)

lemma find_update_entry:
  "indexed_run u' (update_first (index_entry u i) (index_set r) ds) j
   = (if u' = u \<and> j = i then (if list_ex (index_entry u i) ds then Some (bson_time r) else None)
      else indexed_run u' ds j)"
proof (induction ds)
  case (Cons d ds)
  have set: "index_entry u' j (index_set r d) = index_entry u' j d" for u' j
    by (simp add: index_set_def index_entry_def)
  show ?case
  proof (cases "index_entry u i d")
    case True
    with set show ?thesis
      by (auto simp: indexed_run_def index_entry_other) (simp_all add: index_set_def)
  next
    case False
    with Cons show ?thesis by (auto simp: indexed_run_def)
  qed
qed (simp add: indexed_run_def)

lemma filter_update_entry:
  "filter (\<lambda>d. ix_user_id d \<noteq> Some u) (update_first (index_entry u i) (index_set r) ds)
   = filter (\<lambda>d. ix_user_id d \<noteq> Some u) ds"
  by (induction ds) (auto simp: index_set_def index_entry_def)

lemma indexed_run_append:
  "indexed_run u (ds @ [d]) i = or_else (indexed_run u ds i)
     (if index_entry u i d \<and> ix_enabled d then Some (ix_next_run d) else None)"
  by (induction ds) (auto simp: indexed_run_def)

lemma index_op_ok: "index_op f c = (Inr x, c') \<longleftrightarrow> f c = (Inr x, c')"
  by (auto simp: index_op_def split: prod.splits)

lemma any_doc_list_ex: "any_doc p ds = (if list_ex p ds then 1 else 0)"
  by (simp add: any_doc_def list_ex_iff)

context index_collection
begin

lemma upsert_entry_effect:
  assumes "ic = il_coll il" and "upsert_entry il u (i, r) c = (Inr x, c')"
  shows "indexed_run u' (docs c') j = (if u' = u \<and> j = i then Some (bson_time r) else indexed_run u' (docs c) j)
         \<and> filter (\<lambda>d. ix_user_id d \<noteq> Some u) (docs c') = filter (\<lambda>d. ix_user_id d \<noteq> Some u) (docs c)"
proof -
  from assms obtain n where "c_upsert_one (ic_coll ic) (index_entry u i) (index_set r) (index_insert u i r) c
      = (Inr n, c')" by (auto simp: upsert_entry_def index_op_ok dest!: st_bind_ok)
  note eff = upsert_one_ok [OF this, THEN conjunct1]
  show ?thesis
  proof (cases "list_ex (index_entry u i) (docs c)")
    case True
    with eff show ?thesis by (simp add: any_doc_list_ex find_update_entry filter_update_entry)
  next
    case False
    with eff show ?thesis
      by (auto simp: any_doc_list_ex indexed_run_append indexed_run_none index_insert_def index_entry_def)
  qed
qed

lemma upsert_entries_effect:
  assumes "ic = il_coll il"
  shows "upsert_entries il u rows c = (Inr x, c') \<Longrightarrow> distinct (map fst rows) \<Longrightarrow>
    indexed_run u' (docs c') j = (case map_of rows j of
        Some r \<Rightarrow> if u' = u then Some (bson_time r) else indexed_run u' (docs c) j
      | None \<Rightarrow> indexed_run u' (docs c) j)
    \<and> filter (\<lambda>d. ix_user_id d \<noteq> Some u) (docs c') = filter (\<lambda>d. ix_user_id d \<noteq> Some u) (docs c)"
proof (induction rows arbitrary: c)
  case (Cons row rows)
  obtain i r where row: "row = (i, r)" by fastforce
  from Cons.prems(1) obtain y c1 where 1: "upsert_entry il u (i, r) c = (Inr y, c1)"
    and 2: "upsert_entries il u rows c1 = (Inr x, c')" by (auto simp: row dest!: st_bind_ok)
  have "map_of rows i = None" using Cons.prems(2) by (simp add: row map_of_eq_None_iff)
  with upsert_entry_effect [OF assms 1, of u' j] Cons.IH [OF 2] Cons.prems(2) show ?case
    by (auto simp: row split: option.splits)
qed simp

lemma sync_effect:
  assumes "ic = il_coll il" and "sync_user_tasks il u tasks c = (Inr x, c')" and "\<not> il_is_account il u"
  shows "indexed_run u (docs c') i = enabled_run tasks i
         \<and> filter (\<lambda>d. ix_user_id d \<noteq> Some u) (docs c') = filter (\<lambda>d. ix_user_id d \<noteq> Some u) (docs c)"
proof (cases "enabled_task_next_runs tasks = []")
  case True
  with assms obtain n where "ic_delete_many ic (\<lambda>d. ix_user_id d = Some u) c = (Inr n, c')"
    by (auto simp: sync_user_tasks_def should_schedule_for_user_id_def index_op_ok dest!: st_bind_ok)
  from delete_many_ok [OF this] enabled_runs [of tasks i] True show ?thesis
    by (auto simp: indexed_run_none list_ex_iff index_entry_def)
next
  case False
  let ?rows = "enabled_task_next_runs tasks"
  let ?gone = "\<lambda>d. ix_user_id d = Some u
                    \<and> (case ix_task_id d of Some i \<Rightarrow> i \<notin> set (map fst ?rows) | None \<Rightarrow> True)"
  from False assms obtain n c1 where 1: "ic_delete_many ic ?gone c = (Inr n, c1)"
    and 2: "upsert_entries il u ?rows c1 = (Inr x, c')"
    by (auto simp: sync_user_tasks_def should_schedule_for_user_id_def index_op_ok Let_def dest!: st_bind_ok)
  note eff = upsert_entries_effect [OF assms(1) 2, of u i] enabled_runs [of tasks i]
  have "indexed_run u (docs c1) i = None" if "map_of ?rows i = None"
    using that delete_many_ok [OF 1]
    by (intro indexed_run_none) (auto simp: list_ex_iff index_entry_def map_of_eq_None_iff)
  moreover have "filter (\<lambda>d. ix_user_id d \<noteq> Some u) (docs c1) = filter (\<lambda>d. ix_user_id d \<noteq> Some u) (docs c)"
    unfolding delete_many_ok [OF 1] filter_filter by (rule filter_cong) auto
  ultimately show ?thesis using eff by (cases "map_of ?rows i") auto
qed

end

text \<open>
  C40.  The index refines the task list.  When a synchronisation succeeds for a user whose
  identifier is not that of an account, the index lists for the user, task by task, the next run of
  the task if it is enabled and nothing otherwise, whatever it listed before, and the entries of all
  other users are what they were.  For the identifier of an account, whose tasks are not to be
  scheduled from this index, it succeeds and changes nothing at all.
\<close>

theorem index_mirrors_tasks:
  assumes "index_collection (il_coll il) docs" and "sync_user_tasks il u tasks c = (Inr x, c')"
  shows "if il_is_account il u then c' = c
         else (\<forall>i. indexed_run u (docs c') i = enabled_run tasks i)
           \<and> filter (\<lambda>d. ix_user_id d \<noteq> Some u) (docs c') = filter (\<lambda>d. ix_user_id d \<noteq> Some u) (docs c)"
  using index_collection.sync_effect [OF assms(1) refl assms(2)] assms(2)
  by (cases "il_is_account il u") (simp_all add: sync_user_tasks_def should_schedule_for_user_id_def)

subsection \<open>An index in memory\<close>

definition list_index :: "index_doc scripted index_coll" where
  "list_index =
     \<lparr>ic_coll = list_coll,
      ic_delete_many = (\<lambda>p. scripted (\<lambda>ds. (length (filter p ds), filter (\<lambda>d. \<not> p d) ds))),
      ic_find_limited = (\<lambda>p key n. scripted (\<lambda>ds.
         let all = (case key of Some k \<Rightarrow> sort_key k (filter p ds) | None \<Rightarrow> filter p ds)
         in (if n > 0 then take (nat n) all else all, ds)))\<rparr>"

interpretation li: index_collection list_index fst
proof (intro index_collection.intro index_collection_axioms.intro)
  show "doc_collection (ic_coll list_index) fst"
    by (simp add: list_index_def lc.doc_collection_axioms)
  show "fst c' = filter (\<lambda>d. \<not> p d) (fst c)" if "ic_delete_many list_index p c = (Inr m, c')" for p m c c'
    using that by (auto simp: list_index_def dest!: scripted_ok)
  show "fst c' = fst c \<and> (\<exists>all. mset all = mset (filter p (fst c)) \<and> (\<forall>k. key = Some k \<longrightarrow> sorted (map k all))
          \<and> (n > 0 \<longrightarrow> ds = take (nat n) all))"
    if "ic_find_limited list_index p key n c = (Inr ds, c')" for p key n ds c c'
  proof -
    let ?all = "case key of Some k \<Rightarrow> sort_key k (filter p (fst c)) | None \<Rightarrow> filter p (fst c)"
    from that have "ds = (if n > 0 then take (nat n) ?all else ?all) \<and> fst c' = fst c"
      by (auto simp: list_index_def Let_def dest!: scripted_ok)
    then show ?thesis by (intro conjI exI [of _ ?all]) (auto split: option.splits)
  qed
  show "fst c' = fst c" if "ic_find_limited list_index p key n c = (Inl e, c')" for p key n e c c'
    using that by (auto simp: list_index_def dest!: scripted_err)
qed

definition memory_index :: "index_doc scripted index_lib" where
  "memory_index = \<lparr>il_coll = list_index, il_is_account = (\<lambda>u. False)\<rparr>"

theorem index_mirrors_tasks_witness:
  "\<exists>c'. sync_user_tasks memory_index ''u''
          [\<lparr>t_id = ''a'', t_kind = Noop, t_schedule = OneShot 5000000, t_enabled = True, t_created_at = 0,
            t_last_run = None\<rparr>] ([index_insert ''u'' ''b'' 0, index_insert ''v'' ''c'' 0], []) = (Inr (), c')
     \<and> indexed_run ''u'' (fst c') ''a'' = Some 5000000 \<and> indexed_run ''u'' (fst c') ''b'' = None"
proof -
  let ?t = "\<lparr>t_id = ''a'', t_kind = Noop, t_schedule = OneShot 5000000, t_enabled = True, t_created_at = 0,
            t_last_run = None\<rparr>"
  let ?c = "([index_insert ''u'' ''b'' 0, index_insert ''v'' ''c'' 0], [])"
  obtain c' where 1: "sync_user_tasks memory_index ''u'' [?t] ?c = (Inr (), c')"
    by (simp add: sync_user_tasks_def should_schedule_for_user_id_def memory_index_def list_index_def
        enabled_task_next_runs_def schedule_next_run_def index_op_def list_coll_def scripted_def
        upsert_entry_def index_insert_def index_entry_def any_doc_def Let_def)
  from index_mirrors_tasks [of memory_index fst "''u''" "[?t]" ?c "()" c'] li.index_collection_axioms 1
  show ?thesis by (simp add: memory_index_def enabled_run_def schedule_next_run_def time_simps)
qed

end
