(* ===== verification/Worker_Claims.thy ===== *)
theory Worker_Claims
  imports Index_Store World Mongo_Client
begin

text \<open>
  The claims of the worker service: \<open>service/state.rs\<close>, and from \<open>service/scheduler.rs\<close> the
  limits, the loop that hands due tasks to worker threads and the watchdog, as far as they act
  on what the threads share: the claimed tasks, the count of permits and the backoffs.  Each
  step of \<open>sched_step\<close> is what one thread does between taking a lock and giving it back, so
  every interleaving of the threads is a sequence of steps.  What a worker does with its task
  is the subject of \<open>Worker_Threads\<close>.
\<close>

subsection \<open>Timeouts\<close>

definition watchdog_timeout_headroom_secs :: nat where
  "watchdog_timeout_headroom_secs = 30"

definition default_run_task_timeout_secs :: nat where
  "default_run_task_timeout_secs = 36000"

definition default_task_timeout_secs :: nat where
  "default_task_timeout_secs = default_run_task_timeout_secs * 2 + watchdog_timeout_headroom_secs"

definition max_task_retries :: u32 where
  "max_task_retries = 3"

definition watchdog_interval_secs :: nat where
  "watchdog_interval_secs = 30"

definition stale_execution_reconcile_interval_secs :: nat where
  "stale_execution_reconcile_interval_secs = 10 * 60"

text \<open>\<open>saturating_mul\<close> and \<open>saturating_add\<close> of \<open>u64\<close>.\<close>

definition sat_u64 :: "nat \<Rightarrow> nat" where
  "sat_u64 n = min n u64_max"

definition parse_timeout_secs_env :: "world \<Rightarrow> string \<Rightarrow> nat option" where
  "parse_timeout_secs_env w key =
     opt_filter (\<lambda>n. n > 0) (Option.bind (w_env w key) (\<lambda>value. parse_u64 (trim value)))"

definition resolve_watchdog_task_timeout_secs :: "world \<Rightarrow> nat" where
  "resolve_watchdog_task_timeout_secs w =
     (case parse_timeout_secs_env w ''TASK_TIMEOUT_SECS'' of
        Some explicit_timeout \<Rightarrow> explicit_timeout
      | None \<Rightarrow>
          let run_task_timeout =
                unwrap_or default_run_task_timeout_secs (parse_timeout_secs_env w ''RUN_TASK_TIMEOUT_SECS'')
          in sat_u64 (sat_u64 (run_task_timeout * 2) + watchdog_timeout_headroom_secs))"

text \<open>
  \<open>chrono::Duration::seconds\<close> panics (\<open>None\<close>) on seconds it cannot hold in milliseconds, and
  \<open>as i64\<close> reads the bits of an unsigned number as a signed one.
\<close>

definition chrono_seconds :: "int \<Rightarrow> duration option" where
  "chrono_seconds n = (if \<bar>n\<bar> \<le> i64_max div 1000 then Some (secs n) else None)"

definition as_i64 :: "nat \<Rightarrow> int" where
  "as_i64 n = sint (of_nat n :: u64)"

definition resolve_stale_execution_timeout :: "world \<Rightarrow> duration option" where
  "resolve_stale_execution_timeout w =
     chrono_seconds (as_i64 (min (resolve_watchdog_task_timeout_secs w) (nat i64_max)))"

definition resolve_stale_reconcile_interval :: "world \<Rightarrow> duration" where
  "resolve_stale_reconcile_interval w =
     secs (int (unwrap_or stale_execution_reconcile_interval_secs
                 (parse_timeout_secs_env w ''STALE_EXECUTION_RECONCILE_INTERVAL_SECS'')))"

definition watchdog_interval_ms :: "world \<Rightarrow> nat" where
  "watchdog_interval_ms w =
     unwrap_or (watchdog_interval_secs * 1000)
       (opt_filter (\<lambda>n. n > 0) (Option.bind (w_env w ''WATCHDOG_INTERVAL_MS'') parse_u64))"

subsection \<open>Claims and permits\<close>

record task_claim =
  cl_task_id :: string
  cl_user_id :: string
  cl_started_at :: datetime
  cl_thread_id :: "string option"
  cl_retry_count :: u32

record scheduler_claims =
  running_tasks :: "(string \<times> task_claim) list"
  running_users :: "(string \<times> nat) list"

definition scheduler_claims_default :: scheduler_claims where
  "scheduler_claims_default = \<lparr>running_tasks = [], running_users = []\<rparr>"

datatype claim_result = Claimed | UserBusy | TaskBusy

definition active_of :: "string \<Rightarrow> scheduler_claims \<Rightarrow> nat" where
  "active_of user_id claims = unwrap_or 0 (map_of (running_users claims) user_id)"

definition try_claim ::
    "task_ref \<Rightarrow> nat \<Rightarrow> u32 \<Rightarrow> datetime \<Rightarrow> scheduler_claims \<Rightarrow> claim_result \<times> scheduler_claims" where
  "try_claim r user_limit retry_count now claims =
     (let active = active_of (tr_user_id r) claims in
      if active \<ge> user_limit then (UserBusy, claims)
      else if map_of (running_tasks claims) (tr_task_id r) \<noteq> None then (TaskBusy, claims)
      else let claim = \<lparr>cl_task_id = tr_task_id r, cl_user_id = tr_user_id r, cl_started_at = now,
                        cl_thread_id = None, cl_retry_count = retry_count\<rparr>
           in (Claimed, \<lparr>running_tasks = AList.update (tr_task_id r) claim (running_tasks claims),
                         running_users = AList.update (tr_user_id r) (active + 1) (running_users claims)\<rparr>))"

text \<open>One task less for a user, whose entry goes with the last one.\<close>

definition user_less :: "string \<Rightarrow> (string \<times> nat) list \<Rightarrow> (string \<times> nat) list" where
  "user_less user_id users =
     (case map_of users user_id of
        None \<Rightarrow> users
      | Some active \<Rightarrow>
          if active \<le> 1 then AList.delete user_id users else AList.update user_id (active - 1) users)"

definition release_claim :: "task_ref \<Rightarrow> scheduler_claims \<Rightarrow> scheduler_claims" where
  "release_claim r claims =
     \<lparr>running_tasks = AList.delete (tr_task_id r) (running_tasks claims),
      running_users = user_less (tr_user_id r) (running_users claims)\<rparr>"

definition find_stale_tasks :: "nat \<Rightarrow> datetime \<Rightarrow> scheduler_claims \<Rightarrow> task_claim list option" where
  "find_stale_tasks timeout_secs now claims =
     map_option (\<lambda>timeout. filter (\<lambda>claim. now - cl_started_at claim > timeout)
                            (map snd (running_tasks claims)))
       (chrono_seconds (as_i64 timeout_secs))"

definition force_release :: "string \<Rightarrow> scheduler_claims \<Rightarrow> task_claim option \<times> scheduler_claims" where
  "force_release task_id claims =
     (case map_of (running_tasks claims) task_id of
        None \<Rightarrow> (None, claims)
      | Some claim \<Rightarrow>
          (Some claim, \<lparr>running_tasks = AList.delete task_id (running_tasks claims),
                        running_users = user_less (cl_user_id claim) (running_users claims)\<rparr>))"

record concurrency_limiter =
  lim_max :: nat
  in_flight :: nat

definition concurrency_limiter_new :: "nat \<Rightarrow> concurrency_limiter" where
  "concurrency_limiter_new m = \<lparr>lim_max = m, in_flight = 0\<rparr>"

definition try_acquire :: "concurrency_limiter \<Rightarrow> bool \<times> concurrency_limiter" where
  "try_acquire l = (if in_flight l \<ge> lim_max l then (False, l) else (True, l\<lparr>in_flight := in_flight l + 1\<rparr>))"

definition release_permit :: "concurrency_limiter \<Rightarrow> concurrency_limiter" where
  "release_permit l = (if in_flight l > 0 then l\<lparr>in_flight := in_flight l - 1\<rparr> else l)"

subsection \<open>Backoffs for tasks with an open execution\<close>

definition mongo_running_defer_secs :: int where
  "mongo_running_defer_secs = 30"

definition due_task_key :: "string \<Rightarrow> string \<Rightarrow> string" where
  "due_task_key task_id user_id = task_id @ ''@'' @ user_id"

definition mongo_running_defer_deadline :: "datetime \<Rightarrow> datetime" where
  "mongo_running_defer_deadline now = now + secs (max mongo_running_defer_secs 1)"

definition should_skip_mongo_running_backoff ::
    "(string \<times> datetime) list \<Rightarrow> string \<Rightarrow> datetime \<Rightarrow> bool \<times> (string \<times> datetime) list" where
  "should_skip_mongo_running_backoff backoffs task_key now =
     (case map_of backoffs task_key of
        None \<Rightarrow> (False, backoffs)
      | Some deadline \<Rightarrow> if deadline > now then (True, backoffs) else (False, AList.delete task_key backoffs))"

definition record_mongo_running_backoff ::
    "(string \<times> datetime) list \<Rightarrow> string \<Rightarrow> datetime \<Rightarrow> (string \<times> datetime) list" where
  "record_mongo_running_backoff backoffs task_key now =
     AList.update task_key (mongo_running_defer_deadline now) backoffs"

definition clear_mongo_running_backoff ::
    "(string \<times> datetime) list \<Rightarrow> string \<Rightarrow> (string \<times> datetime) list" where
  "clear_mongo_running_backoff backoffs task_key = AList.delete task_key backoffs"

subsection \<open>The threads\<close>

text \<open>
  A worker thread works on its task, gives its claim back, then its permit.  A panic ends the
  thread where it is: the closure of the thread releases nothing on unwinding.
\<close>

datatype worker_phase = Working | ClaimReleased | Finished | Panicked

record worker =
  wk_ref :: task_ref
  wk_phase :: worker_phase

record sched_config =
  sc_max_concurrency :: nat
  sc_user_max_concurrency :: nat
  sc_task_timeout_secs :: nat

text \<open>
  \<open>th_round\<close> are the due tasks that the dispatcher still has to look at in this round, of which
  it holds a permit for the first if \<open>th_permit\<close>; \<open>th_stale\<close> is what the watchdog found and has
  still to release.
\<close>

record sched_threads =
  th_claims :: scheduler_claims
  th_limiter :: concurrency_limiter
  th_backoffs :: "(string \<times> datetime) list"
  th_now :: datetime
  th_round :: "task_ref list"
  th_permit :: bool
  th_workers :: "worker list"
  th_stale :: "task_claim list"

definition sched_threads_init :: "sched_config \<Rightarrow> sched_threads" where
  "sched_threads_init cfg =
     \<lparr>th_claims = scheduler_claims_default,
      th_limiter = concurrency_limiter_new (sc_max_concurrency cfg), th_backoffs = [],
      th_now = 0, th_round = [], th_permit = False, th_workers = [], th_stale = []\<rparr>"

definition query_limit :: "sched_config \<Rightarrow> nat" where
  "query_limit cfg = max (sat_u64 (sc_max_concurrency cfg * 4)) 1"

datatype sched_event =
    QueryDue datetime "task_ref list"
  | AcquirePermit
  | TryClaim datetime
  | RecordBackoff nat datetime
  | ReleaseClaim nat
  | ReleasePermit nat
  | WorkerPanics nat
  | WatchdogScan datetime
  | WatchdogRelease

definition ref_key :: "task_ref \<Rightarrow> string" where
  "ref_key r = due_task_key (tr_task_id r) (tr_user_id r)"

text \<open>A task in backoff is passed over; without a permit the round is over.\<close>

definition acquire_step :: "task_ref \<Rightarrow> task_ref list \<Rightarrow> sched_threads \<Rightarrow> sched_threads" where
  "acquire_step r rest s =
     (case should_skip_mongo_running_backoff (th_backoffs s) (ref_key r) (th_now s) of
        (True, backoffs) \<Rightarrow> s\<lparr>th_backoffs := backoffs, th_round := rest\<rparr>
      | (False, backoffs) \<Rightarrow>
          (case try_acquire (th_limiter s) of
             (False, _) \<Rightarrow> s\<lparr>th_backoffs := backoffs, th_round := []\<rparr>
           | (True, limiter) \<Rightarrow> s\<lparr>th_backoffs := backoffs, th_limiter := limiter, th_permit := True\<rparr>))"

definition claim_step ::
    "sched_config \<Rightarrow> datetime \<Rightarrow> task_ref \<Rightarrow> task_ref list \<Rightarrow> sched_threads \<Rightarrow> sched_threads" where
  "claim_step cfg now r rest s =
     (case try_claim r (sc_user_max_concurrency cfg) 0 now (th_claims s) of
        (Claimed, claims) \<Rightarrow>
          s\<lparr>th_claims := claims, th_round := rest, th_permit := False,
            th_backoffs := clear_mongo_running_backoff (th_backoffs s) (ref_key r),
            th_workers := th_workers s @ [\<lparr>wk_ref = r, wk_phase = Working\<rparr>]\<rparr>
      | (_, claims) \<Rightarrow>
          s\<lparr>th_claims := claims, th_round := rest, th_permit := False,
            th_limiter := release_permit (th_limiter s)\<rparr>)"

definition to_phase :: "nat \<Rightarrow> worker_phase \<Rightarrow> worker list \<Rightarrow> worker list" where
  "to_phase i p ws = ws[i := (ws ! i)\<lparr>wk_phase := p\<rparr>]"

definition at_phase :: "nat \<Rightarrow> worker_phase \<Rightarrow> sched_threads \<Rightarrow> bool" where
  "at_phase i p s = (i < length (th_workers s) \<and> wk_phase (th_workers s ! i) = p)"

fun sched_step :: "sched_config \<Rightarrow> sched_threads \<Rightarrow> sched_event \<Rightarrow> sched_threads option" where
  "sched_step cfg s (QueryDue now refs) =
     (if th_round s = [] then Some (s\<lparr>th_now := now, th_round := refs\<rparr>) else None)"
| "sched_step cfg s AcquirePermit =
     (case th_round s of
        [] \<Rightarrow> None
      | r # rest \<Rightarrow> if th_permit s then None else Some (acquire_step r rest s))"
| "sched_step cfg s (TryClaim now) =
     (case th_round s of
        [] \<Rightarrow> None
      | r # rest \<Rightarrow> if th_permit s then Some (claim_step cfg now r rest s) else None)"
| "sched_step cfg s (RecordBackoff i now) =
     (if at_phase i Working s
      then Some (s\<lparr>th_backoffs := record_mongo_running_backoff (th_backoffs s)
                                   (ref_key (wk_ref (th_workers s ! i))) now\<rparr>)
      else None)"
| "sched_step cfg s (ReleaseClaim i) =
     (if at_phase i Working s
      then Some (s\<lparr>th_claims := release_claim (wk_ref (th_workers s ! i)) (th_claims s),
                   th_workers := to_phase i ClaimReleased (th_workers s)\<rparr>)
      else None)"
| "sched_step cfg s (ReleasePermit i) =
     (if at_phase i ClaimReleased s
      then Some (s\<lparr>th_limiter := release_permit (th_limiter s),
                   th_workers := to_phase i Finished (th_workers s)\<rparr>)
      else None)"
| "sched_step cfg s (WorkerPanics i) =
     (if at_phase i Working s then Some (s\<lparr>th_workers := to_phase i Panicked (th_workers s)\<rparr>) else None)"
| "sched_step cfg s (WatchdogScan now) =
     (if th_stale s = []
      then map_option (\<lambda>stale. s\<lparr>th_stale := stale\<rparr>)
             (find_stale_tasks (sc_task_timeout_secs cfg) now (th_claims s))
      else None)"
| "sched_step cfg s WatchdogRelease =
     (case th_stale s of
        [] \<Rightarrow> None
      | claim # rest \<Rightarrow>
          Some (s\<lparr>th_claims := snd (force_release (cl_task_id claim) (th_claims s)), th_stale := rest\<rparr>))"

text \<open>Runs from a state, and the states the service can get into.\<close>

inductive sched_run :: "sched_config \<Rightarrow> sched_threads \<Rightarrow> sched_event list \<Rightarrow> sched_threads \<Rightarrow> bool"
  for cfg :: sched_config and s0 :: sched_threads where
  start: "sched_run cfg s0 [] s0"
| snoc: "sched_run cfg s0 es s \<Longrightarrow> sched_step cfg s e = Some s' \<Longrightarrow> sched_run cfg s0 (es @ [e]) s'"

fun sched_exec :: "sched_config \<Rightarrow> sched_event list \<Rightarrow> sched_threads \<Rightarrow> sched_threads option" where
  "sched_exec cfg [] s = Some s"
| "sched_exec cfg (e # es) s =
     (case sched_step cfg s e of None \<Rightarrow> None | Some s' \<Rightarrow> sched_exec cfg es s')"

lemma sched_exec_append:
  "sched_exec cfg (es @ es') s = Option.bind (sched_exec cfg es s) (sched_exec cfg es')"
  by (induction es arbitrary: s) (auto split: option.splits)

lemma sched_run_exec: "sched_run cfg s0 es s \<longleftrightarrow> sched_exec cfg es s0 = Some s"
proof
  assume "sched_run cfg s0 es s"
  then show "sched_exec cfg es s0 = Some s" by induction (auto simp: sched_exec_append)
next
  assume "sched_exec cfg es s0 = Some s"
  then show "sched_run cfg s0 es s"
  proof (induction es arbitrary: s rule: rev_induct)
    case Nil
    then show ?case by (simp add: sched_run.start)
  next
    case (snoc e es)
    then show ?case
      by (auto simp: sched_exec_append bind_eq_Some_conv split: option.splits intro: sched_run.snoc)
  qed
qed

end
