(* ===== verification/Worker_Properties.thy ===== *)
theory Worker_Properties
  imports Worker_Claims
begin

text \<open>
  What the limits of the worker service guarantee under every interleaving of its threads, and
  what the watchdog and crashed workers do to these guarantees.
\<close>

subsection \<open>Lemmas on the pieces\<close>

lemma update_split:
  assumes "i < length ws"
  obtains a b where "ws = a @ ws ! i # b" and "\<And>x. ws[i := x] = a @ x # b"
proof (rule that)
  show "ws = take i ws @ ws ! i # drop (Suc i) ws" using assms by (rule id_take_nth_drop)
  show "ws[i := x] = take i ws @ x # drop (Suc i) ws" for x using assms by (rule upd_conv_take_nth_drop)
qed

text \<open>Any selection of the workers before and after one of them changes its phase.\<close>

lemma at_phase_split:
  assumes "at_phase i p s"
  obtains a b where
    "\<And>P. filter P (th_workers s)
          = filter P a @ filter P [\<lparr>wk_ref = wk_ref (th_workers s ! i), wk_phase = p\<rparr>] @ filter P b"
    and "\<And>P q. filter P (to_phase i q (th_workers s))
          = filter P a @ filter P [\<lparr>wk_ref = wk_ref (th_workers s ! i), wk_phase = q\<rparr>] @ filter P b"
proof -
  from assms have i: "i < length (th_workers s)" and p: "wk_phase (th_workers s ! i) = p"
    by (simp_all add: at_phase_def)
  from i obtain a b where ab: "th_workers s = a @ th_workers s ! i # b"
      "\<And>x. (th_workers s)[i := x] = a @ x # b" by (rule update_split) blast
  have w: "\<lparr>wk_ref = wk_ref (th_workers s ! i), wk_phase = q\<rparr> = (th_workers s ! i)\<lparr>wk_phase := q\<rparr>" for q
    by (cases "th_workers s ! i") simp
  have same: "(th_workers s ! i)\<lparr>wk_phase := p\<rparr> = th_workers s ! i" using p by (cases "th_workers s ! i") simp
  show thesis
  proof (rule that)
    show "filter P (th_workers s)
          = filter P a @ filter P [\<lparr>wk_ref = wk_ref (th_workers s ! i), wk_phase = p\<rparr>] @ filter P b" for P
      unfolding w same using arg_cong [OF ab(1), of "filter P"] by simp
    show "filter P (to_phase i q (th_workers s))
          = filter P a @ filter P [\<lparr>wk_ref = wk_ref (th_workers s ! i), wk_phase = q\<rparr>] @ filter P b" for P q
      unfolding w to_phase_def ab(2) by simp
  qed
qed

lemma active_of_user_less:
  "unwrap_or 0 (map_of (user_less u users) v)
   = (if v = u then unwrap_or 0 (map_of users u) - 1 else unwrap_or 0 (map_of users v))"
  by (auto simp: user_less_def update_conv' delete_conv' split: option.splits)

lemma release_claim_simps [simp]:
  "map_of (running_tasks (release_claim r c)) = (map_of (running_tasks c))(tr_task_id r := None)"
  "active_of v (release_claim r c) = (if v = tr_user_id r then active_of v c - 1 else active_of v c)"
  by (simp_all add: release_claim_def active_of_def active_of_user_less delete_conv')

lemma try_claim_cases:
  obtains "try_claim r n rc now c = (UserBusy, c)" and "active_of (tr_user_id r) c \<ge> n"
  | "try_claim r n rc now c = (TaskBusy, c)" and "active_of (tr_user_id r) c < n"
      "map_of (running_tasks c) (tr_task_id r) \<noteq> None"
  | c' cl where "try_claim r n rc now c = (Claimed, c')" and "active_of (tr_user_id r) c < n"
      and "map_of (running_tasks c) (tr_task_id r) = None"
      and "map_of (running_tasks c') = (map_of (running_tasks c))(tr_task_id r \<mapsto> cl)"
      and "\<And>v. active_of v c' = active_of v c + (if v = tr_user_id r then 1 else 0)"
proof -
  let ?cl = "\<lparr>cl_task_id = tr_task_id r, cl_user_id = tr_user_id r, cl_started_at = now,
              cl_thread_id = None, cl_retry_count = rc\<rparr>"
  let ?c = "\<lparr>running_tasks = AList.update (tr_task_id r) ?cl (running_tasks c),
            running_users = AList.update (tr_user_id r) (active_of (tr_user_id r) c + 1) (running_users c)\<rparr>"
  have 1: "map_of (running_tasks ?c) = (map_of (running_tasks c))(tr_task_id r \<mapsto> ?cl)"
    by (simp add: update_conv')
  have 2: "active_of v ?c = active_of v c + (if v = tr_user_id r then 1 else 0)" for v
    by (simp add: active_of_def update_conv')
  show thesis
  proof (cases "active_of (tr_user_id r) c \<ge> n")
    case True
    then show thesis by (intro that(1)) (simp_all add: try_claim_def Let_def)
  next
    case n: False
    show thesis
    proof (cases "map_of (running_tasks c) (tr_task_id r) = None")
      case True
      with n have "try_claim r n rc now c = (Claimed, ?c)" by (simp add: try_claim_def Let_def)
      from that(3) [OF this _ True 1 2] n show thesis by simp
    next
      case False
      with n show thesis by (intro that(2)) (simp_all add: try_claim_def Let_def)
    qed
  qed
qed

subsection \<open>Permits\<close>

definition holds_permit :: "worker \<Rightarrow> bool" where
  "holds_permit w = (wk_phase w \<noteq> Finished)"

definition permits_exact :: "sched_config \<Rightarrow> sched_threads \<Rightarrow> bool" where
  "permits_exact cfg s =
     (lim_max (th_limiter s) = sc_max_concurrency cfg
      \<and> in_flight (th_limiter s) = length (filter holds_permit (th_workers s)) + (if th_permit s then 1 else 0)
      \<and> in_flight (th_limiter s) \<le> sc_max_concurrency cfg)"

lemma permits_acquire:
  assumes "permits_exact cfg s" and "\<not> th_permit s"
  shows "permits_exact cfg (acquire_step r rest s)"
  using assms
  by (auto simp: permits_exact_def acquire_step_def try_acquire_def split: prod.splits bool.splits if_splits)

lemma permits_claim:
  assumes "permits_exact cfg s" and "th_permit s"
  shows "permits_exact cfg (claim_step cfg now r rest s)"
  by (rule try_claim_cases [of r "sc_user_max_concurrency cfg" 0 now "th_claims s"])
    (use assms in \<open>auto simp: permits_exact_def claim_step_def release_permit_def holds_permit_def\<close>)

lemma permits_step: "permits_exact cfg s \<Longrightarrow> sched_step cfg s e = Some s' \<Longrightarrow> permits_exact cfg s'"
proof (induction cfg s e rule: sched_step.induct)
  case (2 cfg s)
  then show ?case by (auto split: list.splits if_splits intro: permits_acquire)
next
  case (3 cfg s now)
  then show ?case by (auto split: list.splits if_splits intro: permits_claim)
next
  case (5 cfg s i)
  then show ?case
    by (auto simp: permits_exact_def holds_permit_def split: if_splits elim!: at_phase_split)
next
  case (6 cfg s i)
  then show ?case
    by (auto simp: permits_exact_def holds_permit_def release_permit_def split: if_splits elim!: at_phase_split)
next
  case (7 cfg s i)
  then show ?case
    by (auto simp: permits_exact_def holds_permit_def split: if_splits elim!: at_phase_split)
qed (auto simp: permits_exact_def split: if_splits list.splits)

lemma permits_init: "permits_exact cfg (sched_threads_init cfg)"
  by (simp add: permits_exact_def sched_threads_init_def concurrency_limiter_new_def)

lemma permits_run: "sched_run cfg s0 es s \<Longrightarrow> permits_exact cfg s0 \<Longrightarrow> permits_exact cfg s"
  by (induction rule: sched_run.induct) (auto dest: permits_step)

text \<open>
  C28.  The limiter counts exactly: in every state that the threads of the scheduler can reach from
  their start, the permits in use are one for each worker thread that has not come to its end,
  crashed ones included, and one for the dispatcher while it hands out a task, and in all they
  never exceed the configured concurrency, whatever the interleaving of dispatcher, workers and
  watchdog.
\<close>

theorem permits_bound_workers:
  assumes "sched_run cfg (sched_threads_init cfg) es s"
  shows "in_flight (th_limiter s)
           = length (filter (\<lambda>w. wk_phase w \<noteq> Finished) (th_workers s)) + (if th_permit s then 1 else 0)
         \<and> in_flight (th_limiter s) \<le> sc_max_concurrency cfg"
proof -
  have "permits_exact cfg s" by (rule permits_run [OF assms permits_init])
  then show ?thesis unfolding permits_exact_def holds_permit_def by (simp split: if_splits)
qed

subsection \<open>Claims\<close>

definition has_claim :: "worker \<Rightarrow> bool" where
  "has_claim w = (wk_phase w = Working \<or> wk_phase w = Panicked)"

text \<open>The tasks that a worker is responsible for.\<close>

definition claimed :: "worker list \<Rightarrow> task_ref list" where
  "claimed ws = map wk_ref (filter has_claim ws)"

definition of_user :: "string \<Rightarrow> task_ref list \<Rightarrow> nat" where
  "of_user u rs = length (filter (\<lambda>r. tr_user_id r = u) rs)"

lemma of_user_simps [simp]:
  "of_user u [] = 0" "of_user u (rs @ rs') = of_user u rs + of_user u rs'"
  "of_user u (r # rs) = (if tr_user_id r = u then 1 else 0) + of_user u rs"
  by (simp_all add: of_user_def)

lemma claimed_phase:
  assumes "at_phase i p s"
  obtains A B where
    "claimed (th_workers s) = A @ (if p = Working \<or> p = Panicked then [wk_ref (th_workers s ! i)] else []) @ B"
    and "\<forall>q. claimed (to_phase i q (th_workers s))
           = A @ (if q = Working \<or> q = Panicked then [wk_ref (th_workers s ! i)] else []) @ B"
proof -
  from assms obtain a b where
    "\<forall>P. filter P (th_workers s)
          = filter P a @ filter P [\<lparr>wk_ref = wk_ref (th_workers s ! i), wk_phase = p\<rparr>] @ filter P b"
    "\<forall>P q. filter P (to_phase i q (th_workers s))
          = filter P a @ filter P [\<lparr>wk_ref = wk_ref (th_workers s ! i), wk_phase = q\<rparr>] @ filter P b"
    by (rule at_phase_split) blast
  note ab = this [rule_format]
  show thesis
    by (rule that [of "claimed a" "claimed b"]) (unfold claimed_def ab, auto simp: has_claim_def)
qed

definition claims_exact :: "sched_config \<Rightarrow> sched_threads \<Rightarrow> bool" where
  "claims_exact cfg s =
     (let rs = claimed (th_workers s) in
      distinct (map tr_task_id rs)
      \<and> dom (map_of (running_tasks (th_claims s))) = tr_task_id ` set rs
      \<and> (\<forall>u. active_of u (th_claims s) = of_user u rs \<and> of_user u rs \<le> sc_user_max_concurrency cfg))"

lemma claims_exact_frame:
  assumes "claims_exact cfg s" and "claimed (th_workers s') = claimed (th_workers s)"
    and "th_claims s' = th_claims s"
  shows "claims_exact cfg s'"
  using assms by (simp add: claims_exact_def)

lemma acquire_frame [simp]:
  "th_workers (acquire_step r rest s) = th_workers s" "th_claims (acquire_step r rest s) = th_claims s"
  "th_stale (acquire_step r rest s) = th_stale s"
  by (auto simp: acquire_step_def split: prod.splits bool.splits)

lemma claims_claim:
  assumes "claims_exact cfg s"
  shows "claims_exact cfg (claim_step cfg now r rest s)"
proof (rule try_claim_cases [of r "sc_user_max_concurrency cfg" 0 now "th_claims s"])
  fix c' cl
  assume c: "try_claim r (sc_user_max_concurrency cfg) 0 now (th_claims s) = (Claimed, c')"
    "active_of (tr_user_id r) (th_claims s) < sc_user_max_concurrency cfg"
    "map_of (running_tasks (th_claims s)) (tr_task_id r) = None"
    "map_of (running_tasks c') = (map_of (running_tasks (th_claims s)))(tr_task_id r \<mapsto> cl)"
    "\<And>v. active_of v c' = active_of v (th_claims s) + (if v = tr_user_id r then 1 else 0)"
  let ?s = "claim_step cfg now r rest s"
  have "claimed (th_workers ?s) = claimed (th_workers s) @ [r]"
    by (simp add: claim_step_def c(1) claimed_def has_claim_def)
  moreover have "th_claims ?s = c'" by (simp add: claim_step_def c(1))
  moreover from c(3) assms have "tr_task_id r \<notin> tr_task_id ` set (claimed (th_workers s))"
    unfolding claims_exact_def Let_def by blast
  ultimately show ?thesis using assms c(2,4,5) by (auto simp: claims_exact_def Let_def)
qed (use assms in \<open>simp_all add: claim_step_def claims_exact_def\<close>)

lemma claims_release:
  assumes "claims_exact cfg s" and "at_phase i Working s"
    and "s' = s\<lparr>th_claims := release_claim (wk_ref (th_workers s ! i)) (th_claims s),
               th_workers := to_phase i ClaimReleased (th_workers s)\<rparr>"
  shows "claims_exact cfg s'"
proof -
  let ?r = "wk_ref (th_workers s ! i)"
  from assms(2) obtain A B where ab: "claimed (th_workers s) = A @ [?r] @ B"
    "claimed (th_workers s') = A @ B"
    by (rule claimed_phase) (auto simp: assms(3))
  from assms(1) have d: "distinct (map tr_task_id (A @ [?r] @ B))"
    "dom (map_of (running_tasks (th_claims s))) = tr_task_id ` set (A @ [?r] @ B)"
    "\<And>u. active_of u (th_claims s) = of_user u (A @ [?r] @ B)"
    "\<And>u. of_user u (A @ [?r] @ B) \<le> sc_user_max_concurrency cfg"
    unfolding claims_exact_def ab Let_def by blast+
  have "dom (map_of (running_tasks (th_claims s'))) = dom (map_of (running_tasks (th_claims s))) - {tr_task_id ?r}"
    by (simp add: assms(3))
  also have "\<dots> = tr_task_id ` set (A @ B)"
  proof -
    have "tr_task_id ` set (A @ [?r] @ B) = insert (tr_task_id ?r) (tr_task_id ` set (A @ B))" by auto
    moreover have "tr_task_id ?r \<notin> tr_task_id ` set (A @ B)" using d(1) by auto
    ultimately show ?thesis unfolding d(2) by simp
  qed
  finally have "dom (map_of (running_tasks (th_claims s'))) = tr_task_id ` set (A @ B)" .
  moreover have "active_of u (th_claims s') = of_user u (A @ B)" for u
    using d(3) [of u] by (cases "tr_user_id ?r = u") (simp_all add: assms(3))
  moreover have "of_user u (A @ B) \<le> sc_user_max_concurrency cfg" for u
    using d(4) [of u] by simp
  ultimately show ?thesis using d(1) unfolding claims_exact_def ab Let_def by simp
qed

lemma claims_other_phase:
  assumes "claims_exact cfg s" and "at_phase i p s"
    and "p = Working \<or> p = Panicked \<longleftrightarrow> q = Working \<or> q = Panicked"
    and "th_workers s' = to_phase i q (th_workers s)" and "th_claims s' = th_claims s"
  shows "claims_exact cfg s'"
proof -
  have "claimed (th_workers s') = claimed (th_workers s)"
    by (rule claimed_phase [OF assms(2)]) (simp add: assms(3,4))
  from claims_exact_frame [OF assms(1) this assms(5)] show ?thesis .
qed

lemma claims_step:
  "claims_exact cfg s \<Longrightarrow> sched_step cfg s e = Some s' \<Longrightarrow> e \<noteq> WatchdogRelease \<Longrightarrow> claims_exact cfg s'"
proof (induction cfg s e rule: sched_step.induct)
  case (2 cfg s)
  then show ?case by (auto simp: claims_exact_def split: list.splits if_splits)
next
  case (3 cfg s now)
  then show ?case by (auto split: list.splits if_splits intro: claims_claim)
next
  case (5 cfg s i)
  then show ?case by (auto split: if_splits intro: claims_release)
next
  case (6 cfg s i)
  then have "at_phase i ClaimReleased s" "th_workers s' = to_phase i Finished (th_workers s)" "th_claims s' = th_claims s"
    by (auto split: if_splits)
  from claims_other_phase [OF 6(1) this(1) _ this(2,3)] show ?case by simp
next
  case (7 cfg s i)
  then have "at_phase i Working s" "th_workers s' = to_phase i Panicked (th_workers s)" "th_claims s' = th_claims s"
    by (auto split: if_splits)
  from claims_other_phase [OF 7(1) this(1) _ this(2,3)] show ?case by simp
qed (auto simp: claims_exact_def split: if_splits list.splits)

lemma claims_run:
  "sched_run cfg s0 es s \<Longrightarrow> claims_exact cfg s0 \<Longrightarrow> WatchdogRelease \<notin> set es \<Longrightarrow> claims_exact cfg s"
  by (induction rule: sched_run.induct) (auto dest: claims_step)

lemma claims_init: "claims_exact cfg (sched_threads_init cfg)"
  by (simp add: claims_exact_def sched_threads_init_def scheduler_claims_default_def active_of_def claimed_def)

subsection \<open>Crashed and late workers\<close>

lemma sched_run_workers_grow:
  "sched_run cfg s es s' \<Longrightarrow> length (th_workers s) \<le> length (th_workers s')
     \<and> length (filter (\<lambda>w. wk_phase w = Panicked) (th_workers s))
       \<le> length (filter (\<lambda>w. wk_phase w = Panicked) (th_workers s'))"
proof (induction rule: sched_run.induct)
  case (snoc es s1 e s2)
  have "length (th_workers s1) \<le> length (th_workers s2)
     \<and> length (filter (\<lambda>w. wk_phase w = Panicked) (th_workers s1))
       \<le> length (filter (\<lambda>w. wk_phase w = Panicked) (th_workers s2))"
    using snoc.hyps(2)
  proof (induction cfg s1 e rule: sched_step.induct)
    case (3 cfg s now)
    then show ?case by (auto simp: claim_step_def split: list.splits if_splits prod.splits claim_result.splits)
  next
    case (5 cfg s i)
    then show ?case by (auto simp: to_phase_def split: if_splits elim!: at_phase_split)
  next
    case (6 cfg s i)
    then show ?case by (auto simp: to_phase_def split: if_splits elim!: at_phase_split)
  next
    case (7 cfg s i)
    then show ?case by (auto simp: to_phase_def split: if_splits elim!: at_phase_split)
  qed (auto split: list.splits if_splits)
  with snoc.IH show ?case by linarith
qed simp

lemma length_filter_mono: "(\<And>x. P x \<Longrightarrow> Q x) \<Longrightarrow> length (filter P xs) \<le> length (filter Q xs)"
  by (induction xs) (auto simp: le_SucI)

lemma all_permits_lost:
  assumes "sched_run cfg s es s'" and "permits_exact cfg s"
    and "length (filter (\<lambda>w. wk_phase w = Panicked) (th_workers s)) = sc_max_concurrency cfg"
  shows "length (th_workers s') = length (th_workers s)"
  using assms
proof (induction rule: sched_run.induct)
  case (snoc es s1 e s2)
  let ?p = "\<lambda>s. length (filter (\<lambda>w. wk_phase w = Panicked) (th_workers s))"
  have p: "permits_exact cfg s1" by (rule permits_run [OF snoc.hyps(1) snoc.prems(1)])
  have "?p s1 \<le> length (filter holds_permit (th_workers s1))"
    by (rule length_filter_mono) (simp add: holds_permit_def)
  moreover have "?p s \<le> ?p s1" using sched_run_workers_grow [OF snoc.hyps(1)] by blast
  ultimately have "\<not> th_permit s1" using p snoc.prems(2) by (auto simp: permits_exact_def)
  with snoc.hyps(2) have "length (th_workers s2) = length (th_workers s1)"
    by (cases e) (auto simp: to_phase_def split: list.splits if_splits)
  with snoc.IH [OF snoc.prems] show ?case by simp
qed simp

text \<open>
  A worker thread that crashes keeps its permit for good: the watchdog gives back the claim
  of its task but not the permit.  Once as many threads have crashed as tasks may run at a time,
  no task is ever started again, whatever becomes due and whatever the watchdog releases.
\<close>

theorem crashed_workers_exhaust_permits:
  assumes "sched_run cfg (sched_threads_init cfg) es s"
    and "length (filter (\<lambda>w. wk_phase w = Panicked) (th_workers s)) = sc_max_concurrency cfg"
    and "sched_run cfg s es' s'"
  shows "length (th_workers s') = length (th_workers s)"
  by (rule all_permits_lost [OF assms(3) permits_run [OF assms(1) permits_init] assms(2)])

text \<open>
  A thread that outlives the watchdog releases the claim of its successor: when two threads
  work on one task, the first because the watchdog took its claim away, then the end of either
  leaves the task unclaimed while the other still works on it, and if another task of the user
  may run a third thread can claim it.
\<close>

theorem late_worker_frees_successor:
  assumes "at_phase i Working s" and "at_phase j Working s" and "i \<noteq> j"
    and "tr_task_id (wk_ref (th_workers s ! i)) = tr_task_id (wk_ref (th_workers s ! j))"
    and "sched_step cfg s (ReleaseClaim i) = Some s'"
  shows "at_phase j Working s'
         \<and> map_of (running_tasks (th_claims s')) (tr_task_id (wk_ref (th_workers s' ! j))) = None
         \<and> (active_of (tr_user_id (wk_ref (th_workers s' ! j))) (th_claims s') < sc_user_max_concurrency cfg \<longrightarrow>
             fst (try_claim (wk_ref (th_workers s' ! j)) (sc_user_max_concurrency cfg) 0 now (th_claims s'))
               = Claimed)"
proof -
  have s': "s' = s\<lparr>th_claims := release_claim (wk_ref (th_workers s ! i)) (th_claims s),
                   th_workers := to_phase i ClaimReleased (th_workers s)\<rparr>"
    using assms(1,5) by simp
  have j: "th_workers s' ! j = th_workers s ! j" "at_phase j Working s'"
    using assms(2,3) by (simp_all add: s' to_phase_def at_phase_def)
  have n: "map_of (running_tasks (th_claims s')) (tr_task_id (wk_ref (th_workers s' ! j))) = None"
    unfolding j(1) by (simp add: s' assms(4))
  show ?thesis
  proof (intro conjI impI j(2) n)
    assume "active_of (tr_user_id (wk_ref (th_workers s' ! j))) (th_claims s') < sc_user_max_concurrency cfg"
    with n show "fst (try_claim (wk_ref (th_workers s' ! j)) (sc_user_max_concurrency cfg) 0 now (th_claims s'))
               = Claimed" by (simp add: try_claim_def Let_def)
  qed
qed

subsection \<open>When the watchdog steps in\<close>

lemma as_i64_small: "int n \<le> i64_max \<Longrightarrow> as_i64 n = int n"
  unfolding as_i64_def i64_max_def
  by (simp add: sint_uint unsigned_of_nat signed_take_bit_int_eq_self take_bit_nat_eq_self)

lemma sat_u64_small: "sat_u64 n \<le> m \<Longrightarrow> m < u64_max \<Longrightarrow> sat_u64 n = n"
  by (simp add: sat_u64_def min_def split: if_splits)

lemma service_starts_small:
  assumes "resolve_stale_execution_timeout w = Some d"
  shows "int (resolve_watchdog_task_timeout_secs w) \<le> i64_max div 1000"
proof -
  let ?n = "resolve_watchdog_task_timeout_secs w"
  have "as_i64 (min ?n (nat i64_max)) = int (min ?n (nat i64_max))"
    by (rule as_i64_small) (simp add: i64_max_def)
  with assms have "int (min ?n (nat i64_max)) \<le> i64_max div 1000"
    by (simp add: resolve_stale_execution_timeout_def chrono_seconds_def split: if_splits)
  then show ?thesis by (simp add: i64_max_def min_def split: if_splits)
qed

text \<open>
  Where no timeout is set for it and the service starts at all (it panics on a timeout that
  \<open>chrono\<close> cannot hold), the watchdog finds exactly the tasks that have been claimed for longer
  than two full runs of the agent and half a minute.
\<close>

theorem watchdog_leaves_two_budgets:
  assumes "parse_timeout_secs_env w ''TASK_TIMEOUT_SECS'' = None"
    and "unwrap_or default_run_task_timeout_secs (parse_timeout_secs_env w ''RUN_TASK_TIMEOUT_SECS'') = budget"
    and "resolve_stale_execution_timeout w = Some d"
  shows "d = secs (2 * int budget + 30)
         \<and> find_stale_tasks (resolve_watchdog_task_timeout_secs w) now claims
           = Some (filter (\<lambda>claim. now - cl_started_at claim > secs (2 * int budget + 30))
                     (map snd (running_tasks claims)))"
proof -
  let ?n = "resolve_watchdog_task_timeout_secs w"
  have n: "?n = sat_u64 (sat_u64 (budget * 2) + 30)"
    using assms(1,2) by (simp add: resolve_watchdog_task_timeout_secs_def watchdog_timeout_headroom_secs_def Let_def)
  have small: "int ?n \<le> i64_max div 1000" by (rule service_starts_small [OF assms(3)])
  then have "?n = sat_u64 (budget * 2) + 30"
    unfolding n by (intro sat_u64_small [of _ "nat (i64_max div 1000)"]) (simp_all add: i64_max_def u64_max_def)
  moreover from this small have "sat_u64 (budget * 2) = budget * 2"
    by (intro sat_u64_small [of _ "nat (i64_max div 1000)"]) (simp_all add: i64_max_def u64_max_def)
  ultimately have eq: "int ?n = 2 * int budget + 30" by simp
  have "as_i64 ?n = int ?n" by (rule as_i64_small) (use small in \<open>simp add: i64_max_def\<close>)
  moreover have "min ?n (nat i64_max) = ?n" using small by (simp add: i64_max_def)
  moreover have "chrono_seconds (int ?n) = Some (secs (2 * int budget + 30))"
    using small by (simp add: chrono_seconds_def eq)
  ultimately show ?thesis
    using assms(3) by (simp add: find_stale_tasks_def resolve_stale_execution_timeout_def)
qed
subsection \<open>A busy user keeps the others waiting\<close>

lemma sorted_prefix_early:
  "sorted (map k xs) \<Longrightarrow> n \<le> length (filter P xs) \<Longrightarrow> (\<And>x. x \<in> set xs \<Longrightarrow> P x \<longleftrightarrow> k x \<le> T) \<Longrightarrow>
   x \<in> set (take n xs) \<Longrightarrow> P x"
proof (induction xs arbitrary: n)
  case (Cons y xs)
  show ?case
  proof (cases "P y")
    case True
    show ?thesis
    proof (cases n)
      case (Suc m)
      with Cons True show ?thesis by (cases "x = y") auto
    qed (use Cons.prems in simp)
  next
    case False
    with Cons.prems(1,3) have "filter P xs = []" by (force simp: filter_empty_conv)
    with False Cons.prems(2,4) show ?thesis by simp
  qed
qed simp

text \<open>The entries of a user that come before those of all others fill the answer to the query.\<close>

definition first_in_line :: "string \<Rightarrow> datetime \<Rightarrow> index_doc list \<Rightarrow> bool" where
  "first_in_line u T ds = (\<forall>d \<in> set ds. ix_enabled d \<longrightarrow> (ix_user_id d = Some u \<longleftrightarrow> ix_next_run d \<le> T))"

lemma early_refs:
  assumes ic: "index_collection (il_coll il) docs"
    and sorts: "\<And>p k n e c'. ic_find_limited (il_coll il) p (Some k) n c = (Inl e, c')
                  \<Longrightarrow> \<not> is_order_by_index_excluded e"
    and q: "due_task_refs il now limit c = (Inr refs, c')"
    and u: "first_in_line u T (docs c)" and T: "T \<le> bson_time now"
    and n: "0 < sint limit"
      "nat (sint limit) \<le> length (filter (\<lambda>d. ix_enabled d \<and> ix_user_id d = Some u) (docs c))"
    and r: "r \<in> set refs"
  shows "tr_user_id r = u"
proof -
  from q sorts obtain ds where f: "ic_find_limited (il_coll il) (due_filter now) (Some ix_next_run) (sint limit) c = (Inr ds, c')"
    and refs: "refs = List.map_filter task_ref_of ds"
    by (auto simp: due_task_refs_def find_due_def st_bind_def split: prod.splits sum.splits if_splits)
  from index_collection.find_limited_ok [OF ic f] n(1) obtain all
    where all: "mset all = mset (filter (due_filter now) (docs c))" "sorted (map ix_next_run all)"
      "ds = take (nat (sint limit)) all" by blast
  from r refs obtain d where d: "d \<in> set ds" "task_ref_of d = Some r"
    by (auto simp: List.map_filter_def)
  have mem: "x \<in> set all \<longleftrightarrow> x \<in> set (docs c) \<and> due_filter now x" for x
    using arg_cong [OF all(1), of set_mset] by auto
  let ?P = "\<lambda>d. ix_user_id d = Some u"
  have "length (filter ?P all) = size (filter_mset ?P (mset all))" by (metis mset_filter size_mset)
  also have "\<dots> = length (filter ?P (filter (due_filter now) (docs c)))"
    unfolding all(1) by (metis mset_filter size_mset)
  also have "filter ?P (filter (due_filter now) (docs c))
             = filter (\<lambda>d. ix_enabled d \<and> ix_user_id d = Some u) (docs c)"
    unfolding filter_filter using u T
    by (intro filter_cong refl) (auto simp: due_filter_def first_in_line_def)
  finally have len: "nat (sint limit) \<le> length (filter ?P all)" using n(2) by simp
  have "?P d"
  proof (rule sorted_prefix_early [OF all(2) len])
    show "?P x \<longleftrightarrow> ix_next_run x \<le> T" if "x \<in> set all" for x
      using that u mem [of x] by (auto simp: due_filter_def first_in_line_def)
    show "d \<in> set (take (nat (sint limit)) all)" using d(1) all(3) by simp
  qed
  with d(2) show ?thesis by (auto simp: task_ref_of_def split: option.splits)
qed

definition starving :: "sched_config \<Rightarrow> string \<Rightarrow> sched_threads \<Rightarrow> sched_threads \<Rightarrow> bool" where
  "starving cfg u s0 s =
     (map wk_ref (th_workers s) = map wk_ref (th_workers s0)
      \<and> active_of u (th_claims s) \<ge> sc_user_max_concurrency cfg
      \<and> (\<forall>r \<in> set (th_round s). tr_user_id r = u))"

lemma to_phase_refs [simp]: "map wk_ref (to_phase i p ws) = map wk_ref ws"
  by (simp add: to_phase_def map_update) (metis list_update_id map_update)

lemma starving_step:
  assumes "starving cfg u s0 s" and "sched_step cfg s e = Some s'" and "e \<noteq> WatchdogRelease"
    and "\<And>i. e = ReleaseClaim i \<Longrightarrow> i < length (th_workers s0) \<Longrightarrow> tr_user_id (wk_ref (th_workers s0 ! i)) \<noteq> u"
    and "\<And>now refs r. e = QueryDue now refs \<Longrightarrow> r \<in> set refs \<Longrightarrow> tr_user_id r = u"
  shows "starving cfg u s0 s'"
proof (cases e)
  case AcquirePermit
  with assms(1,2) show ?thesis
    by (auto simp: starving_def acquire_step_def split: list.splits if_splits prod.splits bool.splits)
next
  case (TryClaim now)
  with assms(2) obtain r rest where r: "th_round s = r # rest" "s' = claim_step cfg now r rest s"
    by (auto split: list.splits if_splits)
  with assms(1) have "tr_user_id r = u" "active_of u (th_claims s) \<ge> sc_user_max_concurrency cfg"
    by (simp_all add: starving_def)
  then have "try_claim r (sc_user_max_concurrency cfg) 0 now (th_claims s) = (UserBusy, th_claims s)"
    by (simp add: try_claim_def Let_def)
  with assms(1) r show ?thesis by (simp add: starving_def claim_step_def)
next
  case (ReleaseClaim i)
  with assms(2) have i: "at_phase i Working s"
    and s': "s' = s\<lparr>th_claims := release_claim (wk_ref (th_workers s ! i)) (th_claims s),
                   th_workers := to_phase i ClaimReleased (th_workers s)\<rparr>"
    by (auto split: if_splits)
  from assms(1) have m: "map wk_ref (th_workers s) = map wk_ref (th_workers s0)" by (simp add: starving_def)
  have l: "i < length (th_workers s)" "i < length (th_workers s0)"
    using i map_eq_imp_length_eq [OF m] by (simp_all add: at_phase_def)
  have "wk_ref (th_workers s ! i) = wk_ref (th_workers s0 ! i)"
    using m l by (metis nth_map)
  with assms(4) [OF ReleaseClaim l(2)] assms(1) show ?thesis by (simp add: starving_def s')
next
  case (WatchdogScan now)
  with assms(1,2) show ?thesis by (auto simp: starving_def split: if_splits)
qed (use assms in \<open>auto simp: starving_def split: if_splits\<close>)

text \<open>
  One user can keep all others waiting: while a user runs as many tasks as allowed and has
  more due tasks in the index, all before those of the others, than the dispatcher asks for,
  no task of anyone is started, even though permits are free, until one of that user's tasks
  ends.
\<close>

theorem busy_user_starves_others:
  assumes "index_collection (il_coll il) docs"
    and "\<forall>p k n e c'. ic_find_limited (il_coll il) p (Some k) n c = (Inl e, c')
           \<longrightarrow> \<not> is_order_by_index_excluded e"
    and "first_in_line u T (docs c)" and "int (query_limit cfg) \<le> i64_max"
    and "query_limit cfg \<le> length (filter (\<lambda>d. ix_enabled d \<and> ix_user_id d = Some u) (docs c))"
    and "active_of u (th_claims s) \<ge> sc_user_max_concurrency cfg" and "th_round s = []"
    and "sched_run cfg s es s'" and "WatchdogRelease \<notin> set es"
    and "\<forall>i < length (th_workers s). ReleaseClaim i \<in> set es \<longrightarrow> tr_user_id (wk_ref (th_workers s ! i)) \<noteq> u"
    and "\<forall>now refs. QueryDue now refs \<in> set es \<longrightarrow> T \<le> bson_time now
           \<and> (\<exists>c'. due_task_refs il now (of_nat (query_limit cfg)) c = (Inr refs, c'))"
  shows "length (th_workers s') = length (th_workers s)"
proof -
  have lim: "sint (of_nat (query_limit cfg) :: u64) = int (query_limit cfg)"
    using as_i64_small [OF assms(4)] by (simp add: as_i64_def)
  have pos: "0 < sint (of_nat (query_limit cfg) :: u64)" unfolding lim by (simp add: query_limit_def)
  have en: "nat (sint (of_nat (query_limit cfg) :: u64))
            \<le> length (filter (\<lambda>d. ix_enabled d \<and> ix_user_id d = Some u) (docs c))"
    unfolding lim using assms(5) by simp
  have refs: "tr_user_id r = u" if "QueryDue now refs \<in> set es" "r \<in> set refs" for now refs r
  proof -
    from assms(11) that(1) obtain c' where T: "T \<le> bson_time now"
      and q: "due_task_refs il now (of_nat (query_limit cfg)) c = (Inr refs, c')" by blast
    show ?thesis by (rule early_refs [OF assms(1) _ q assms(3) T pos en that(2)]) (use assms(2) in blast)
  qed
  from assms(8-10) refs have "starving cfg u s s'"
  proof (induction rule: sched_run.induct)
    case start
    show ?case using assms(6,7) by (simp add: starving_def)
  next
    case (snoc es s1 e s2)
    have "starving cfg u s s1" by (rule snoc.IH) (use snoc.prems in auto)
    then show ?case by (rule starving_step [OF _ snoc.hyps(2)]) (use snoc.prems in auto)
  qed
  then have "map wk_ref (th_workers s') = map wk_ref (th_workers s)" by (simp add: starving_def)
  then show ?thesis by (rule map_eq_imp_length_eq)
qed
subsection \<open>Examples\<close>

definition slots :: "nat \<Rightarrow> nat \<Rightarrow> sched_config" where
  "slots n user = \<lparr>sc_max_concurrency = n, sc_user_max_concurrency = user, sc_task_timeout_secs = 60\<rparr>"

definition job :: "string \<Rightarrow> task_ref" where
  "job i = \<lparr>tr_task_id = i, tr_user_id = ''u''\<rparr>"

definition start_job :: "string \<Rightarrow> datetime \<Rightarrow> sched_event list" where
  "start_job i now = [QueryDue now [job i], AcquirePermit, TryClaim now]"

lemma sched_run_by_exec:
  assumes "map_option f (sched_exec cfg es s0) = Some x"
  obtains s where "sched_run cfg s0 es s" and "f s = x"
  using assms by (auto simp: sched_run_exec)

theorem permits_bound_workers_witness:
  "\<exists>s. sched_run (slots 2 2) (sched_threads_init (slots 2 2))
         (start_job ''a'' 0 @ start_job ''b'' 1 @ [WorkerPanics 0, QueryDue 2 [job ''c''], AcquirePermit]) s
       \<and> in_flight (th_limiter s) = 2"
proof -
  let ?es = "start_job ''a'' 0 @ start_job ''b'' 1 @ [WorkerPanics 0, QueryDue 2 [job ''c''], AcquirePermit]"
  have "map_option (\<lambda>s. (map wk_phase (th_workers s), th_permit s))
          (sched_exec (slots 2 2) ?es (sched_threads_init (slots 2 2))) = Some ([Panicked, Working], False)"
    by code_simp
  then obtain s where s: "sched_run (slots 2 2) (sched_threads_init (slots 2 2)) ?es s"
    "(map wk_phase (th_workers s), th_permit s) = ([Panicked, Working], False)" by (rule sched_run_by_exec)
  then obtain w v where "th_workers s = [w, v]" "wk_phase w = Panicked" "wk_phase v = Working" by auto
  with permits_bound_workers [OF s(1)] s show ?thesis by auto
qed


theorem crashed_workers_exhaust_permits_witness:
  "\<exists>s s'. sched_run (slots 1 1) (sched_threads_init (slots 1 1)) (start_job ''a'' 0 @ [WorkerPanics 0]) s
        \<and> sched_run (slots 1 1) s ([WatchdogScan (secs 61), WatchdogRelease]
             @ [QueryDue (secs 62) [job ''b''], AcquirePermit]) s'
        \<and> running_tasks (th_claims s') = [] \<and> length (th_workers s') = length (th_workers s)"
proof -
  let ?c = "slots 1 1"
  let ?es = "start_job ''a'' 0 @ [WorkerPanics 0]"
  let ?es' = "[WatchdogScan (secs 61), WatchdogRelease] @ [QueryDue (secs 62) [job ''b''], AcquirePermit]"
  have "map_option (\<lambda>s. (map wk_phase (th_workers s),
            map_option (\<lambda>s'. running_tasks (th_claims s')) (sched_exec ?c ?es' s)))
          (sched_exec ?c ?es (sched_threads_init ?c)) = Some ([Panicked], Some [])"
    by code_simp
  then obtain s where s: "sched_run ?c (sched_threads_init ?c) ?es s"
    and p: "(map wk_phase (th_workers s), map_option (\<lambda>s'. running_tasks (th_claims s')) (sched_exec ?c ?es' s))
            = ([Panicked], Some [])"
    by (rule sched_run_by_exec)
  note p = Pair_inject [OF p]
  have w: "map wk_phase (th_workers s) = [Panicked]" by (rule p)
  have "map_option (\<lambda>s'. running_tasks (th_claims s')) (sched_exec ?c ?es' s) = Some []" by (rule p)
  then obtain s' where s': "sched_run ?c s ?es' s'" "running_tasks (th_claims s') = []"
    by (rule sched_run_by_exec)
  have "length (filter (\<lambda>w. wk_phase w = Panicked) (th_workers s)) = sc_max_concurrency ?c"
    using w by (auto simp: slots_def)
  from crashed_workers_exhaust_permits [OF s this s'(1)] s s' show ?thesis by blast
qed
theorem late_worker_frees_successor_witness:
  "\<exists>s s'. sched_run (slots 3 3) (sched_threads_init (slots 3 3))
           (start_job ''a'' 0 @ [WatchdogScan (secs 61), WatchdogRelease] @ start_job ''a'' (secs 62)) s
        \<and> sched_step (slots 3 3) s (ReleaseClaim 0) = Some s' \<and> at_phase 1 Working s'
        \<and> map_of (running_tasks (th_claims s')) ''a'' = None"
proof -
  let ?c = "slots 3 3"
  let ?es = "start_job ''a'' 0 @ [WatchdogScan (secs 61), WatchdogRelease] @ start_job ''a'' (secs 62)"
  have "map_option (\<lambda>s. map (\<lambda>w. (wk_ref w, wk_phase w)) (th_workers s))
          (sched_exec ?c ?es (sched_threads_init ?c)) = Some [(job ''a'', Working), (job ''a'', Working)]"
    by code_simp
  then obtain s where s: "sched_run ?c (sched_threads_init ?c) ?es s"
    "map (\<lambda>w. (wk_ref w, wk_phase w)) (th_workers s) = [(job ''a'', Working), (job ''a'', Working)]"
    by (rule sched_run_by_exec)
  then obtain w v where ws: "th_workers s = [w, v]" "wk_ref w = job ''a''" "wk_ref v = job ''a''"
    "wk_phase w = Working" "wk_phase v = Working" by auto
  then obtain s' where s': "sched_step ?c s (ReleaseClaim 0) = Some s'" by (simp add: at_phase_def)
  have 1: "at_phase 0 Working s" "at_phase 1 Working s" using ws by (simp_all add: at_phase_def)
  have same: "tr_task_id (wk_ref (th_workers s ! 0)) = tr_task_id (wk_ref (th_workers s ! 1))" using ws by simp
  have "th_workers s' ! 1 = v" using s' ws by (auto simp: at_phase_def to_phase_def)
  then have "tr_task_id (wk_ref (th_workers s' ! 1)) = ''a''" using ws by (simp add: job_def)
  with late_worker_frees_successor [OF 1 zero_neq_one same s'] s(1) s' show ?thesis by metis
qed

theorem watchdog_leaves_two_budgets_witness:
  "\<exists>w claims c. find_stale_tasks (resolve_watchdog_task_timeout_secs w) (secs 72031) claims = Some [c]"
proof -
  let ?w = "plain_world []"
  let ?claims = "\<lparr>running_tasks = [(''a'', \<lparr>cl_task_id = ''a'', cl_user_id = ''u'', cl_started_at = 0,
                    cl_thread_id = None, cl_retry_count = 0\<rparr>),
                   (''b'', \<lparr>cl_task_id = ''b'', cl_user_id = ''u'', cl_started_at = secs 1,
                    cl_thread_id = None, cl_retry_count = 0\<rparr>)], running_users = [(''u'', 2)]\<rparr>"
  have e: "parse_timeout_secs_env ?w k = None" for k by (simp add: parse_timeout_secs_env_def plain_world_def)
  have n: "resolve_watchdog_task_timeout_secs ?w = 72030"
    by (simp add: resolve_watchdog_task_timeout_secs_def e default_run_task_timeout_secs_def sat_u64_def
        u64_max_def watchdog_timeout_headroom_secs_def)
  have "as_i64 72030 = 72030" using as_i64_small [of 72030] by (simp add: i64_max_def)
  then have d: "resolve_stale_execution_timeout ?w = Some (secs 72030)"
    by (simp add: resolve_stale_execution_timeout_def n i64_max_def chrono_seconds_def)
  from watchdog_leaves_two_budgets [OF e _ d, of 36000 "secs 72031" ?claims]
  have "find_stale_tasks (resolve_watchdog_task_timeout_secs ?w) (secs 72031) ?claims
        = Some [\<lparr>cl_task_id = ''a'', cl_user_id = ''u'', cl_started_at = 0, cl_thread_id = None, cl_retry_count = 0\<rparr>]"
    by (simp add: e default_run_task_timeout_secs_def secs_def)
  then show ?thesis by blast
qed
definition waiting_index :: "index_doc list" where
  "waiting_index = index_insert ''v'' ''z'' (millis 2) # map (\<lambda>i. index_insert ''u'' i (millis 1))
     [''a'', ''b'', ''c'', ''d'', ''e'', ''f'', ''g'', ''h'']"

theorem busy_user_starves_others_witness:
  "\<exists>s refs s'. sched_run (slots 2 1) (sched_threads_init (slots 2 1)) (start_job ''a'' (millis 3)) s
     \<and> (\<exists>c'. due_task_refs memory_index (millis 4) (of_nat (query_limit (slots 2 1))) (waiting_index, [])
              = (Inr refs, c'))
     \<and> due_filter (millis 4) (index_insert ''v'' ''z'' (millis 2))
     \<and> index_insert ''v'' ''z'' (millis 2) \<in> set waiting_index \<and> in_flight (th_limiter s) < 2
     \<and> sched_run (slots 2 1) s [QueryDue (millis 4) refs, AcquirePermit, TryClaim (millis 4), AcquirePermit] s'
     \<and> length (th_workers s') = length (th_workers s)"
proof -
  let ?c = "slots 2 1" and ?es = "start_job ''a'' (millis 3)"
  let ?refs = "map job [''a'', ''b'', ''c'', ''d'', ''e'', ''f'', ''g'', ''h'']"
  let ?es' = "[QueryDue (millis 4) ?refs, AcquirePermit, TryClaim (millis 4), AcquirePermit]"
  have "map_option (\<lambda>s. (active_of ''u'' (th_claims s), th_round s, in_flight (th_limiter s),
            map_option (\<lambda>s'. ()) (sched_exec ?c ?es' s)))
          (sched_exec ?c ?es (sched_threads_init ?c)) = Some (1, [], 1, Some ())"
    by code_simp
  then obtain s where s: "sched_run ?c (sched_threads_init ?c) ?es s"
    and p: "(active_of ''u'' (th_claims s), th_round s, in_flight (th_limiter s),
              map_option (\<lambda>s'. ()) (sched_exec ?c ?es' s)) = (1, [], 1, Some ())"
    by (rule sched_run_by_exec)
  from p have p: "active_of ''u'' (th_claims s) = 1" "th_round s = []" "in_flight (th_limiter s) = 1"
    "map_option (\<lambda>s'. ()) (sched_exec ?c ?es' s) = Some ()"
    by (simp_all only: prod.inject)
  from p(4) obtain s' where s': "sched_run ?c s ?es' s'" by (rule sched_run_by_exec)
  have n: "query_limit ?c = 8" by (simp add: query_limit_def slots_def sat_u64_def u64_max_def)
  have q: "fst (due_task_refs memory_index (millis 4) (of_nat (query_limit ?c)) (waiting_index, []))
           = Inr ?refs"
    unfolding n by code_simp
  then obtain c' where q: "due_task_refs memory_index (millis 4) (of_nat (query_limit ?c)) (waiting_index, [])
           = (Inr ?refs, c')" by (metis prod.collapse)
  have ic: "index_collection (il_coll memory_index) fst"
    using li.index_collection_axioms by (simp add: memory_index_def)
  have sorts: "\<forall>p k n e c'. ic_find_limited (il_coll memory_index) p (Some k) n (waiting_index, []) = (Inl e, c')
           \<longrightarrow> \<not> is_order_by_index_excluded e"
    by (simp add: memory_index_def list_index_def scripted_def Let_def)
  have f: "first_in_line ''u'' (millis 1) (fst (waiting_index, [] :: mongo_error option list))"
    by (simp add: first_in_line_def waiting_index_def index_insert_def time_simps)
  have "length (th_workers s') = length (th_workers s)"
  proof (rule busy_user_starves_others [OF ic sorts f])
    show "int (query_limit ?c) \<le> i64_max" unfolding n by (simp add: i64_max_def)
    show "query_limit ?c \<le> length (filter (\<lambda>d. ix_enabled d \<and> ix_user_id d = Some ''u'')
                              (fst (waiting_index, [] :: mongo_error option list)))"
      unfolding n by (simp add: waiting_index_def index_insert_def)
    show "sc_user_max_concurrency ?c \<le> active_of ''u'' (th_claims s)" by (simp add: p slots_def)
    show "\<forall>now refs. QueryDue now refs \<in> set ?es' \<longrightarrow> millis 1 \<le> bson_time now
           \<and> (\<exists>c'. due_task_refs memory_index now (of_nat (query_limit ?c)) (waiting_index, []) = (Inr refs, c'))"
      using q by (simp add: time_simps)
  qed (use p(2) s' in auto)
  moreover have "due_filter (millis 4) (index_insert ''v'' ''z'' (millis 2))"
    by (simp add: due_filter_def index_insert_def time_simps)
  moreover have "index_insert ''v'' ''z'' (millis 2) \<in> set waiting_index" by (simp add: waiting_index_def)
  ultimately show ?thesis using s q s' p(3) by force
qed
end

