(* ===== verification/Reconciliation.thy ===== *)
theory Reconciliation
  imports Scheduler_State Thread_State
begin

text \<open>
  The reconciliation of stale executions, \<open>reconcile_stale_running_executions_for_task\<close> of
  \<open>scheduler/store/mongo.rs\<close>: execution rows that are still open although their worker is gone
  are closed, and tasks whose run is lost are disabled.  What it looks at besides the store is
  in \<open>reconcile_lib\<close>: the decoded trace files of the workspace, modification times, the registry
  of containers (\<open>run_task/aci_container_store.rs\<close>) and the \<open>az\<close> command (\<open>run_task/codex.rs\<close>).
\<close>

subsection \<open>What is looked at\<close>

record run_task_trace_metadata =
  tm_backend :: string
  tm_current_stage :: string
  tm_started_at_unix_ms :: "int option"
  tm_finished_at_unix_ms :: "int option"
  tm_stage_updated_at_unix_ms :: "int option"
  tm_success :: "bool option"

record run_task_reconciliation_context =
  ctx_workspace_dir :: "string option"
  ctx_thread_epoch :: "u64 option"
  ctx_thread_state_path :: "string option"

datatype unfinished_fallback_action = KeepRunning | FailFallback string string

datatype aci_container_status = AciRunning | AciTerminal string | AciNotFound | AciError string

record aci_container_doc =
  ac_container_name :: "string option"
  ac_workspace_path :: "string option"
  ac_resource_group :: "string option"

record execution_reconciliation_summary =
  superseded_count :: nat
  failed_count :: nat

text \<open>
  \<open>rl_trace\<close> and \<open>rl_context\<close> are the serde decoders with the accessors the code applies,
  \<open>rl_mtime_ms\<close> is \<open>metadata().modified()\<close> in milliseconds, \<open>rl_from_millis\<close> chrono's partial
  conversion, \<open>rl_registry\<close> a \<open>find_one\<close> in the container registry (\<open>None\<close> without a
  connection) and \<open>rl_az\<close> the exit status, output and error text of \<open>az container show\<close>.
\<close>

record ('t, 'e, 'j) reconcile_lib =
  rl_store :: "('t, 'e, 'j) store_lib"
  rl_codec :: thread_codec
  rl_trace :: "string \<Rightarrow> run_task_trace_metadata option"
  rl_context :: "'j \<Rightarrow> run_task_reconciliation_context option"
  rl_mtime_ms :: "world \<Rightarrow> string \<Rightarrow> int option"
  rl_from_millis :: "int \<Rightarrow> datetime option"
  rl_registry :: "world \<Rightarrow> string \<Rightarrow> (string + aci_container_doc option) option"
  rl_az :: "world \<Rightarrow> string \<Rightarrow> string \<Rightarrow> string + bool \<times> string \<times> string"

definition summary_default :: execution_reconciliation_summary where
  "summary_default = \<lparr>superseded_count = 0, failed_count = 0\<rparr>"

definition total_reconciled :: "execution_reconciliation_summary \<Rightarrow> nat" where
  "total_reconciled m = superseded_count m + failed_count m"

definition summary_merge ::
    "execution_reconciliation_summary \<Rightarrow> execution_reconciliation_summary \<Rightarrow> execution_reconciliation_summary"
where
  "summary_merge m other =
     \<lparr>superseded_count = superseded_count m + superseded_count other,
      failed_count = failed_count m + failed_count other\<rparr>"

subsection \<open>Periods of grace\<close>

definition positive_secs_env :: "world \<Rightarrow> string \<Rightarrow> int option" where
  "positive_secs_env w key =
     opt_filter (\<lambda>n. n > 0) (Option.bind (w_env w key) (\<lambda>value. parse_i64 (trim value)))"

definition default_aci_registration_grace_secs :: int where
  "default_aci_registration_grace_secs = 15 * 60"

definition default_aci_trace_activity_grace_secs :: int where
  "default_aci_trace_activity_grace_secs = 15 * 60"

definition default_local_fallback_timeout_secs :: int where
  "default_local_fallback_timeout_secs = 15 * 60"

definition current_trace_start_match_tolerance_ms :: int where
  "current_trace_start_match_tolerance_ms = 10 * 60 * 1000"

definition resolve_aci_registration_grace_period :: "world \<Rightarrow> duration" where
  "resolve_aci_registration_grace_period w =
     secs (unwrap_or default_aci_registration_grace_secs
             (positive_secs_env w ''RUN_TASK_ACI_REGISTRATION_GRACE_SECS''))"

definition resolve_aci_trace_activity_grace_period :: "world \<Rightarrow> duration" where
  "resolve_aci_trace_activity_grace_period w =
     secs (unwrap_or default_aci_trace_activity_grace_secs
             (positive_secs_env w ''RUN_TASK_ACI_TRACE_ACTIVITY_GRACE_SECS''))"

definition resolve_local_fallback_timeout_grace_period :: "world \<Rightarrow> duration" where
  "resolve_local_fallback_timeout_grace_period w =
     (let overall_timeout_secs = positive_secs_env w ''RUN_TASK_TIMEOUT_SECS'';
          fallback_timeout_secs =
            unwrap_or default_local_fallback_timeout_secs
              (positive_secs_env w ''RUN_TASK_CODEX_FALLBACK_TIMEOUT_SECS'');
          effective_timeout_secs =
            max (case overall_timeout_secs of
                   Some overall \<Rightarrow> min overall fallback_timeout_secs
                 | None \<Rightarrow> fallback_timeout_secs) 1
      in secs effective_timeout_secs)"

subsection \<open>Traces in the workspace\<close>

definition load_run_task_trace_metadata ::
    "('t, 'e, 'j) reconcile_lib \<Rightarrow> world \<Rightarrow> string \<Rightarrow> run_task_trace_metadata option" where
  "load_run_task_trace_metadata rl w workspace_dir =
     Option.bind (fs_read w (path_join workspace_dir ''.run_task_trace/metadata.json'')) (rl_trace rl)"

text \<open>\<open>i64::abs\<close> without overflow checks: the least number is its own absolute value.\<close>

definition abs_i64 :: "int \<Rightarrow> int" where
  "abs_i64 n = (if n = i64_min then n else abs n)"

definition near_start :: "int \<Rightarrow> datetime \<Rightarrow> bool" where
  "near_start at_ms started_at =
     (abs_i64 (sat_i64 (at_ms - timestamp_millis started_at)) \<le> current_trace_start_match_tolerance_ms)"

definition trace_started_at_matches_execution :: "int option \<Rightarrow> datetime \<Rightarrow> bool" where
  "trace_started_at_matches_execution trace_started_at_unix_ms started_at =
     (case trace_started_at_unix_ms of None \<Rightarrow> False | Some ms \<Rightarrow> near_start ms started_at)"

definition path_mtime_matches_execution ::
    "('t, 'e, 'j) reconcile_lib \<Rightarrow> world \<Rightarrow> string \<Rightarrow> datetime \<Rightarrow> bool" where
  "path_mtime_matches_execution rl w path started_at =
     (case rl_mtime_ms rl w path of None \<Rightarrow> False | Some ms \<Rightarrow> near_start ms started_at)"

definition evidence_files :: "string list" where
  "evidence_files =
     [''.run_task_trace_codex_primary/aci/container_show.json'',
      ''.run_task_trace_codex_primary/aci/remote_exit_code.txt'',
      ''.run_task_trace_codex_primary/aci/remote_output.log'',
      ''.codex_remote_output.log'', ''.aci_recovery_context.json'']"

definition workspace_has_current_aci_execution_evidence ::
    "('t, 'e, 'j) reconcile_lib \<Rightarrow> world \<Rightarrow> string \<Rightarrow> datetime \<Rightarrow> bool" where
  "workspace_has_current_aci_execution_evidence rl w workspace_dir started_at =
     ((case load_run_task_trace_metadata rl w workspace_dir of
         Some metadata \<Rightarrow> trace_started_at_matches_execution (tm_started_at_unix_ms metadata) started_at
       | None \<Rightarrow> False)
      \<or> list_ex (\<lambda>path. fs_exists w path \<and> path_mtime_matches_execution rl w path started_at)
          (map (path_join workspace_dir) evidence_files))"

definition current_run_path_activity_ms ::
    "('t, 'e, 'j) reconcile_lib \<Rightarrow> world \<Rightarrow> datetime \<Rightarrow> string \<Rightarrow> int option" where
  "current_run_path_activity_ms rl w started_at path =
     opt_filter (\<lambda>modified_at_ms.
         modified_at_ms \<ge> sat_i64 (timestamp_millis started_at - current_trace_start_match_tolerance_ms))
       (rl_mtime_ms rl w path)"

definition current_run_output_artifact_activity_ms ::
    "('t, 'e, 'j) reconcile_lib \<Rightarrow> world \<Rightarrow> string \<Rightarrow> datetime \<Rightarrow> int option" where
  "current_run_output_artifact_activity_ms rl w workspace_dir started_at =
     max_opt (List.map_filter (current_run_path_activity_ms rl w started_at)
       (map (path_join workspace_dir)
          [''reply_email_draft.html'', ''reply_message.txt'', ''.notion_api_replied'',
           ''reply_email_attachments'']))"

definition workspace_suggests_recent_inflight_aci_result_handling ::
    "('t, 'e, 'j) reconcile_lib \<Rightarrow> world \<Rightarrow> string \<Rightarrow> datetime \<Rightarrow> datetime \<Rightarrow> bool" where
  "workspace_suggests_recent_inflight_aci_result_handling rl w workspace_dir started_at now =
     (if \<not> workspace_has_current_aci_execution_evidence rl w workspace_dir started_at then False
      else case load_run_task_trace_metadata rl w workspace_dir of
             None \<Rightarrow> False
           | Some metadata \<Rightarrow>
               if tm_backend metadata \<noteq> ''codex_azure_aci'' then False
               else if tm_current_stage metadata = [] \<or> tm_current_stage metadata = ''completed'' then False
               else if tm_finished_at_unix_ms metadata \<noteq> None \<or> tm_success metadata \<noteq> None then False
               else
                 let activity_at_ms =
                       unwrap_or 0 (max_opt (List.map_filter id
                         [tm_stage_updated_at_unix_ms metadata, tm_started_at_unix_ms metadata,
                          current_run_output_artifact_activity_ms rl w workspace_dir started_at]))
                 in if activity_at_ms = 0 then False
                    else sat_i64 (timestamp_millis now - activity_at_ms)
                           \<le> num_milliseconds (resolve_aci_trace_activity_grace_period w))"

definition unfinished_fallback_trace_metadata ::
    "('t, 'e, 'j) reconcile_lib \<Rightarrow> world \<Rightarrow> string \<Rightarrow> datetime \<Rightarrow> run_task_trace_metadata option" where
  "unfinished_fallback_trace_metadata rl w workspace_dir started_at =
     (if \<not> workspace_has_current_aci_execution_evidence rl w workspace_dir started_at then None
      else opt_filter (\<lambda>metadata.
               tm_backend metadata = ''claude_local''
               \<and> tm_current_stage metadata = ''executing_claude_local''
               \<and> tm_finished_at_unix_ms metadata = None \<and> tm_success metadata = None)
             (load_run_task_trace_metadata rl w workspace_dir))"

definition trace_activity_at_ms :: "run_task_trace_metadata \<Rightarrow> datetime \<Rightarrow> int" where
  "trace_activity_at_ms metadata started_at =
     unwrap_or (timestamp_millis started_at)
       (or_else (tm_stage_updated_at_unix_ms metadata) (tm_started_at_unix_ms metadata))"

definition workspace_suggests_unfinished_fallback_after_aci_run ::
    "('t, 'e, 'j) reconcile_lib \<Rightarrow> world \<Rightarrow> string \<Rightarrow> datetime \<Rightarrow> datetime \<Rightarrow> bool" where
  "workspace_suggests_unfinished_fallback_after_aci_run rl w workspace_dir started_at now =
     (case unfinished_fallback_trace_metadata rl w workspace_dir started_at of
        None \<Rightarrow> False
      | Some metadata \<Rightarrow>
          sat_i64 (timestamp_millis now - trace_activity_at_ms metadata started_at)
            \<le> num_milliseconds (resolve_local_fallback_timeout_grace_period w))"

definition workspace_records_unfinished_fallback_after_aci_run ::
    "('t, 'e, 'j) reconcile_lib \<Rightarrow> world \<Rightarrow> string \<Rightarrow> datetime \<Rightarrow> bool" where
  "workspace_records_unfinished_fallback_after_aci_run rl w workspace_dir started_at =
     (unfinished_fallback_trace_metadata rl w workspace_dir started_at \<noteq> None)"

definition fallback_activity_started_before_or_at ::
    "('t, 'e, 'j) reconcile_lib \<Rightarrow> world \<Rightarrow> string \<Rightarrow> datetime \<Rightarrow> datetime \<Rightarrow> bool" where
  "fallback_activity_started_before_or_at rl w workspace_dir started_at cutoff =
     (case load_run_task_trace_metadata rl w workspace_dir of
        None \<Rightarrow> started_at \<le> cutoff
      | Some metadata \<Rightarrow>
          (case rl_from_millis rl (trace_activity_at_ms metadata started_at) of
             Some activity_at \<Rightarrow> activity_at \<le> cutoff
           | None \<Rightarrow> started_at \<le> cutoff))"

definition unfinished_fallback_reconciliation_reason :: "string \<times> string" where
  "unfinished_fallback_reconciliation_reason =
     (''auto-disabled: primary runner failed and fallback never reached a terminal state'',
      ''reconciled stale running execution after primary ACI run failed and fallback never reached a terminal state'')"

definition unfinished_fallback_reconciliation_action ::
    "('t, 'e, 'j) reconcile_lib \<Rightarrow> world \<Rightarrow> string option \<Rightarrow> datetime \<Rightarrow> datetime \<Rightarrow> datetime
     \<Rightarrow> unfinished_fallback_action option" where
  "unfinished_fallback_reconciliation_action rl w workspace started_at now stale_before =
     (case workspace of
        None \<Rightarrow> None
      | Some workspace_dir \<Rightarrow>
          if \<not> workspace_records_unfinished_fallback_after_aci_run rl w workspace_dir started_at then None
          else if fallback_activity_started_before_or_at rl w workspace_dir started_at stale_before
               \<or> \<not> workspace_suggests_unfinished_fallback_after_aci_run rl w workspace_dir started_at now
          then (case unfinished_fallback_reconciliation_reason of
                  (disable_reason, error_reason) \<Rightarrow> Some (FailFallback disable_reason error_reason))
          else Some KeepRunning)"

definition missing_aci_registry_reconciliation_reason ::
    "('t, 'e, 'j) reconcile_lib \<Rightarrow> world \<Rightarrow> string option \<Rightarrow> datetime \<Rightarrow> string \<times> string" where
  "missing_aci_registry_reconciliation_reason rl w workspace started_at =
     (let never_created =
            (''auto-disabled: execution started but ACI container was never created'',
             ''reconciled stale running execution; ACI container not found'')
      in case workspace of
           None \<Rightarrow> never_created
         | Some workspace_dir \<Rightarrow>
             if workspace_records_unfinished_fallback_after_aci_run rl w workspace_dir started_at
             then unfinished_fallback_reconciliation_reason
             else if workspace_has_current_aci_execution_evidence rl w workspace_dir started_at
             then (''auto-disabled: execution lost terminal reconciliation after an ACI-backed runner failure'',
                   ''reconciled stale running execution after an ACI-backed runner executed but no live registry record remained'')
             else never_created)"

subsection \<open>Superseded runs\<close>

definition current_thread_supersede_reason ::
    "('t, 'e, 'j) reconcile_lib \<Rightarrow> world \<Rightarrow> run_task_reconciliation_context \<Rightarrow> string option" where
  "current_thread_supersede_reason rl w ctx =
     (case (ctx_thread_epoch ctx, ctx_workspace_dir ctx) of
        (Some expected_epoch, Some workspace_dir) \<Rightarrow>
          let state_path = unwrap_or (default_thread_state_path workspace_dir) (ctx_thread_state_path ctx)
          in (case current_thread_epoch (rl_codec rl) w state_path of
                None \<Rightarrow> None
              | Some current_epoch \<Rightarrow>
                  if current_epoch > expected_epoch
                  then Some (''thread superseded by a newer follow-up (expected epoch ''
                             @ nat_str (unat expected_epoch) @ '', current epoch ''
                             @ nat_str (unat current_epoch) @ '')'')
                  else None)
      | _ \<Rightarrow> None)"

text \<open>The loops over the rows of the other tasks keep a minimum and a maximum.\<close>

definition in_start_window :: "datetime \<Rightarrow> datetime \<Rightarrow> bool" where
  "in_start_window started_at t =
     (t \<ge> started_at - millis current_trace_start_match_tolerance_ms
      \<and> t \<le> started_at + millis current_trace_start_match_tolerance_ms)"

definition peer_running :: "datetime \<Rightarrow> execution_row \<Rightarrow> bool" where
  "peer_running started_at row =
     (row_status row = ''running'' \<and> in_start_window started_at (row_started_at row))"

definition peer_finished :: "datetime \<Rightarrow> execution_row \<Rightarrow> datetime option" where
  "peer_finished started_at row =
     (if peer_running started_at row then None
      else opt_filter (\<lambda>t. t \<ge> started_at - millis current_trace_start_match_tolerance_ms)
             (row_finished_at row))"

definition min_opt :: "int list \<Rightarrow> int option" where
  "min_opt ts = map_option uminus (max_opt (map uminus ts))"

definition workspace_peer_supersede_reason ::
    "('t, 'e, 'j) reconcile_lib \<Rightarrow> world \<Rightarrow> string \<Rightarrow> (string \<times> execution_row list) list
     \<Rightarrow> string option \<Rightarrow> datetime \<Rightarrow> string option" where
  "workspace_peer_supersede_reason rl w task_id workspace_peer_rows workspace started_at =
     (case workspace of
        None \<Rightarrow> None
      | Some workspace_dir \<Rightarrow>
          if workspace_has_current_aci_execution_evidence rl w workspace_dir started_at then None
          else
            let rows = concat (map snd (filter (\<lambda>p. fst p \<noteq> task_id) workspace_peer_rows)) in
            (case min_opt (map row_started_at (filter (peer_running started_at) rows)) of
               Some peer_started_at \<Rightarrow>
                 Some (''another task for the same workspace was already running at ''
                       @ sl_rfc3339 (rl_store rl) peer_started_at)
             | None \<Rightarrow>
                 map_option (\<lambda>finished_at.
                     ''another task for the same workspace already completed at ''
                     @ sl_rfc3339 (rl_store rl) finished_at)
                   (max_opt (List.map_filter (peer_finished started_at) rows))))"

subsection \<open>Containers\<close>

text \<open>\<open>parse_container_record\<close>, of which only the name is used here.\<close>

definition parse_container_record :: "aci_container_doc \<Rightarrow> string option" where
  "parse_container_record d =
     (case (ac_container_name d, ac_workspace_path d, ac_resource_group d) of
        (Some container_name, Some _, Some _) \<Rightarrow> Some container_name
      | _ \<Rightarrow> None)"

definition find_aci_container_by_workspace ::
    "('t, 'e, 'j) reconcile_lib \<Rightarrow> world \<Rightarrow> string \<Rightarrow> string option" where
  "find_aci_container_by_workspace rl w workspace_path =
     (case rl_registry rl w workspace_path of
        None \<Rightarrow> None
      | Some (Inl err) \<Rightarrow> None
      | Some (Inr found) \<Rightarrow> Option.bind found parse_container_record)"

definition query_aci_container_status ::
    "('t, 'e, 'j) reconcile_lib \<Rightarrow> world \<Rightarrow> string \<Rightarrow> string \<Rightarrow> aci_container_status" where
  "query_aci_container_status rl w container_name resource_group =
     (case rl_az rl w container_name resource_group of
        Inl err \<Rightarrow> AciError (''failed to run az command: '' @ err)
      | Inr (success, stdout, stderr) \<Rightarrow>
          if \<not> success then
            (if str_contains stderr ''ResourceNotFound'' \<or> str_contains stderr ''was not found''
             then AciNotFound
             else AciError (''az command failed: '' @ stderr))
          else
            let state = trim stdout in
            if list_ex (eq_ignore_ascii_case state) [''Succeeded'', ''Failed'', ''Terminated'', ''Stopped'']
            then AciTerminal state
            else AciRunning)"

subsection \<open>The verdict on one open row\<close>

datatype reconcile_verdict =
    LeaveOpen
  | CloseRow string string
  | DisableAndClose string string string

text \<open>What is computed once for the rows of a task.\<close>

record reconcile_view =
  rv_task_id :: string
  rv_now :: datetime
  rv_latest_started_at :: "datetime option"
  rv_latest_terminal_finished_at :: "datetime option"
  rv_stale_before :: datetime
  rv_stale_timeout_secs :: int
  rv_aci_resource_group :: "string option"
  rv_workspace_dir :: "string option"
  rv_thread_supersede_reason :: "string option"
  rv_workspace_peer_rows :: "(string \<times> execution_row list) list"

text \<open>
  The branches for a lost container: a local fallback that still works or results that are
  still being handled keep the row open, a stuck fallback fails with its own reason.
\<close>

definition lost_container_verdict ::
    "unfinished_fallback_action option \<Rightarrow> bool \<Rightarrow> reconcile_verdict \<Rightarrow> reconcile_verdict" where
  "lost_container_verdict fallback inflight otherwise =
     (case fallback of
        Some KeepRunning \<Rightarrow> LeaveOpen
      | Some (FailFallback disable_reason error_reason) \<Rightarrow>
          DisableAndClose ''failed'' disable_reason error_reason
      | None \<Rightarrow> if inflight then LeaveOpen else otherwise)"

definition aci_verdict ::
    "('t, 'e, 'j) reconcile_lib \<Rightarrow> world \<Rightarrow> reconcile_view \<Rightarrow> string \<Rightarrow> datetime
     \<Rightarrow> unfinished_fallback_action option \<Rightarrow> bool \<Rightarrow> reconcile_verdict" where
  "aci_verdict rl w v rg started_at fallback inflight =
     (case Option.bind (rv_workspace_dir v) (find_aci_container_by_workspace rl w) of
        Some container_name \<Rightarrow>
          (case query_aci_container_status rl w container_name rg of
             AciNotFound \<Rightarrow>
               lost_container_verdict fallback inflight
                 (DisableAndClose ''failed''
                    ''auto-disabled: ACI container was registered but no longer exists in Azure''
                    ''reconciled stale running execution; ACI container was registered but no longer exists in Azure'')
           | AciTerminal state \<Rightarrow>
               if eq_ignore_ascii_case state ''Succeeded'' then LeaveOpen
               else lost_container_verdict fallback inflight
                 (DisableAndClose ''failed''
                    (''auto-disabled: ACI container terminated with state: '' @ state)
                    (''reconciled stale running execution; ACI container terminated with state: '' @ state))
           | AciRunning \<Rightarrow> LeaveOpen
           | AciError err \<Rightarrow>
               if fallback = Some KeepRunning then LeaveOpen
               else if inflight then LeaveOpen
               else if started_at \<le> rv_stale_before v then
                 CloseRow ''failed''
                   (''reconciled stale running execution after worker restart; ACI status query kept failing for ''
                    @ int_str (rv_stale_timeout_secs v) @ ''s: '' @ err)
               else LeaveOpen)
      | None \<Rightarrow>
          lost_container_verdict fallback inflight
            (if rv_now v - started_at > resolve_aci_registration_grace_period w
             then (case missing_aci_registry_reconciliation_reason rl w (rv_workspace_dir v) started_at of
                     (disable_reason, error_reason) \<Rightarrow>
                       DisableAndClose ''failed'' disable_reason error_reason)
             else LeaveOpen))"

definition row_verdict ::
    "('t, 'e, 'j) reconcile_lib \<Rightarrow> world \<Rightarrow> reconcile_view \<Rightarrow> execution_row \<Rightarrow> reconcile_verdict" where
  "row_verdict rl w v row =
     (let started_at = row_started_at row;
          fallback = unfinished_fallback_reconciliation_action rl w (rv_workspace_dir v) started_at
                       (rv_now v) (rv_stale_before v);
          inflight = (case rv_workspace_dir v of
                        Some workspace \<Rightarrow>
                          workspace_suggests_recent_inflight_aci_result_handling rl w workspace started_at (rv_now v)
                      | None \<Rightarrow> False)
      in case opt_filter (\<lambda>finished_at. started_at \<le> finished_at) (rv_latest_terminal_finished_at v) of
           Some finished_at \<Rightarrow>
             CloseRow ''superseded''
               (''reconciled stale running execution after a later execution completed at ''
                @ sl_rfc3339 (rl_store rl) finished_at)
         | None \<Rightarrow>
         (case opt_filter (\<lambda>t. started_at < t) (rv_latest_started_at v) of
           Some t \<Rightarrow>
             CloseRow ''superseded''
               (''reconciled stale running execution after a newer execution started at ''
                @ sl_rfc3339 (rl_store rl) t)
         | None \<Rightarrow>
         (case rv_thread_supersede_reason v of
           Some reason \<Rightarrow>
             DisableAndClose ''superseded''
               ''auto-disabled: task was superseded by a newer follow-up''
               (''reconciled stale running execution because '' @ reason)
         | None \<Rightarrow>
         (case workspace_peer_supersede_reason rl w (rv_task_id v) (rv_workspace_peer_rows v)
                 (rv_workspace_dir v) started_at of
           Some reason \<Rightarrow>
             DisableAndClose ''superseded''
               ''auto-disabled: duplicate task was superseded by another run in the same thread workspace''
               (''reconciled stale running execution because '' @ reason)
         | None \<Rightarrow>
         (case rv_aci_resource_group v of
           Some rg \<Rightarrow> aci_verdict rl w v rg started_at fallback inflight
         | None \<Rightarrow>
             if started_at \<le> rv_stale_before v then
               CloseRow ''failed''
                 (''reconciled stale running execution after worker restart; execution exceeded ''
                  @ int_str (rv_stale_timeout_secs v) @ ''s without a terminal status'')
             else LeaveOpen)))))"

subsection \<open>The pass over the rows of a task\<close>

definition get_task_run_task_context ::
    "('t, 'e, 'j) reconcile_lib \<Rightarrow> ('t, 'e) store \<Rightarrow> string
     \<Rightarrow> run_task_reconciliation_context option \<times> ('t, 'e) store" where
  "get_task_run_task_context rl s task_id =
     (case on_tasks (rl_store rl) (retry_mongo_operation
             (c_find (sl_tasks (rl_store rl)) (task_filter s task_id))) s of
        (Inr (d # _), s) \<Rightarrow> (Option.bind (td_task_json d) (rl_context rl), s)
      | (_, s) \<Rightarrow> (None, s))"

definition find_task_ids_for_workspace ::
    "('t, 'e, 'j) reconcile_lib \<Rightarrow> ('t, 'e) store \<Rightarrow> string \<Rightarrow> ('t, 'e, string list) store_result" where
  "find_task_ids_for_workspace rl s workspace_dir =
     st_bind (on_tasks (rl_store rl) (retry_mongo_operation
                (c_find (sl_tasks (rl_store rl)) (owner_filter s))) s)
       (\<lambda>docs s.
          (Inr (List.map_filter (\<lambda>d.
                  if Option.bind (Option.bind (td_task_json d) (rl_context rl)) ctx_workspace_dir
                       = Some workspace_dir
                  then td_task_id d else None) docs), s))"

definition auto_disable_terminal_action ::
    "('t, 'e, 'j) reconcile_lib \<Rightarrow> ('t, 'e) system \<Rightarrow> string \<Rightarrow> string \<Rightarrow> bool \<times> ('t, 'e) system" where
  "auto_disable_terminal_action rl y task_id disable_reason =
     (let (now, y) = on_world utc_now y in
      case on_store (\<lambda>s. mongo_disable_task_by_id (rl_store rl) s task_id disable_reason now) y of
        (Inl _, y) \<Rightarrow> (False, y)
      | (Inr _, y) \<Rightarrow> (True, y))"

definition count_status ::
    "string \<Rightarrow> execution_reconciliation_summary \<Rightarrow> execution_reconciliation_summary" where
  "count_status status m =
     (if status = ''superseded'' then m\<lparr>superseded_count := Suc (superseded_count m)\<rparr>
      else if status = ''failed'' then m\<lparr>failed_count := Suc (failed_count m)\<rparr>
      else m)"

definition apply_verdict ::
    "('t, 'e, 'j) reconcile_lib \<Rightarrow> reconcile_view \<Rightarrow> execution_row \<Rightarrow> execution_reconciliation_summary
     \<Rightarrow> reconcile_verdict \<Rightarrow> ('t, 'e) system \<Rightarrow> ('t, 'e, execution_reconciliation_summary) sys_result" where
  "apply_verdict rl v row m verdict y =
     (let close = (\<lambda>status reason y.
            st_bind (on_store (\<lambda>s. finish_execution_row (rl_store rl) s (row_doc_id row) (rv_now v)
                                     status (Some reason)) y)
              (\<lambda>_ y. (Inr (count_status status m), y)))
      in case verdict of
           LeaveOpen \<Rightarrow> (Inr m, y)
         | CloseRow status reason \<Rightarrow> close status reason y
         | DisableAndClose status disable_reason reason \<Rightarrow>
             (case auto_disable_terminal_action rl y (rv_task_id v) disable_reason of
                (disabled, y) \<Rightarrow> if disabled then close status reason y else (Inr m, y)))"

fun reconcile_rows ::
    "('t, 'e, 'j) reconcile_lib \<Rightarrow> reconcile_view \<Rightarrow> execution_row list \<Rightarrow> execution_reconciliation_summary
     \<Rightarrow> ('t, 'e) system \<Rightarrow> ('t, 'e, execution_reconciliation_summary) sys_result" where
  "reconcile_rows rl v [] m y = (Inr m, y)"
| "reconcile_rows rl v (row # rows) m y =
     (if row_status row \<noteq> ''running'' then reconcile_rows rl v rows m y
      else st_bind (apply_verdict rl v row m (row_verdict rl (sy_world y) v row) y)
             (\<lambda>m y. reconcile_rows rl v rows m y))"

definition reconcile_view_of ::
    "('t, 'e, 'j) reconcile_lib \<Rightarrow> world \<Rightarrow> string \<Rightarrow> datetime \<Rightarrow> duration \<Rightarrow> execution_row list
     \<Rightarrow> run_task_reconciliation_context option \<Rightarrow> (string \<times> execution_row list) list \<Rightarrow> reconcile_view" where
  "reconcile_view_of rl w task_id now stale_after rows ctx peers =
     \<lparr>rv_task_id = task_id, rv_now = now,
      rv_latest_started_at = map_option row_started_at (nth_opt rows 0),
      rv_latest_terminal_finished_at =
        max_opt (List.map_filter row_finished_at (filter (\<lambda>row. row_status row \<noteq> ''running'') rows)),
      rv_stale_before = now - stale_after,
      rv_stale_timeout_secs = num_seconds stale_after,
      rv_aci_resource_group = w_env w ''RUN_TASK_AZURE_ACI_RESOURCE_GROUP'',
      rv_workspace_dir = Option.bind ctx ctx_workspace_dir,
      rv_thread_supersede_reason = Option.bind ctx (current_thread_supersede_reason rl w),
      rv_workspace_peer_rows = peers\<rparr>"

definition reconcile_stale_running_executions_for_task ::
    "('t, 'e, 'j) reconcile_lib \<Rightarrow> ('t, 'e) system \<Rightarrow> string \<Rightarrow> datetime \<Rightarrow> duration
     \<Rightarrow> ('t, 'e, execution_reconciliation_summary) sys_result" where
  "reconcile_stale_running_executions_for_task rl y task_id now stale_after =
     st_bind (on_store (\<lambda>s. load_execution_rows_for_task (rl_store rl) s task_id) y) (\<lambda>rows y.
     if list_all (\<lambda>row. row_status row \<noteq> ''running'') rows then (Inr summary_default, y)
     else
       case get_task_run_task_context rl (sy_store y) task_id of (ctx, s) \<Rightarrow>
       let y = y\<lparr>sy_store := s\<rparr> in
       st_bind (case Option.bind ctx ctx_workspace_dir of
                  Some workspace_dir \<Rightarrow>
                    st_bind (on_store (\<lambda>s. find_task_ids_for_workspace rl s workspace_dir) y) (\<lambda>task_ids y.
                      on_store (\<lambda>s. load_execution_rows_for_tasks (rl_store rl) s task_ids) y)
                | None \<Rightarrow> (Inr [], y)) (\<lambda>peers y.
       reconcile_rows rl (reconcile_view_of rl (sy_world y) task_id now stale_after rows ctx peers) rows
         summary_default y))"

fun reconcile_tasks ::
    "('t, 'e, 'j) reconcile_lib \<Rightarrow> datetime \<Rightarrow> duration \<Rightarrow> string list
     \<Rightarrow> execution_reconciliation_summary \<Rightarrow> ('t, 'e) system
     \<Rightarrow> ('t, 'e, execution_reconciliation_summary) sys_result" where
  "reconcile_tasks rl now stale_after [] m y = (Inr m, y)"
| "reconcile_tasks rl now stale_after (task_id # ids) m y =
     st_bind (reconcile_stale_running_executions_for_task rl y task_id now stale_after)
       (\<lambda>other y. reconcile_tasks rl now stale_after ids (summary_merge m other) y)"

text \<open>
  \<open>distinct\<close> on \<open>task_id\<close> of the owner's running rows: the identifiers in some order; rows
  without one give a value that is not a string and is passed over.
\<close>

definition reconcile_stale_running_executions ::
    "('t, 'e, 'j) reconcile_lib \<Rightarrow> ('t, 'e) system \<Rightarrow> datetime \<Rightarrow> duration
     \<Rightarrow> ('t, 'e, execution_reconciliation_summary) sys_result" where
  "reconcile_stale_running_executions rl y now stale_after =
     st_bind (on_store (\<lambda>s. on_execs (rl_store rl) (retry_mongo_operation
                (c_find (sl_execs (rl_store rl)) (\<lambda>d. exec_owner s d \<and> ed_status d = Some ''running''))) s) y)
       (\<lambda>docs y. reconcile_tasks rl now stale_after (remdups (List.map_filter ed_task_id docs))
                   summary_default y)"

end
