(* ===== verification/Reconcile_Properties.thy ===== *)
theory Reconcile_Properties
  imports Reconciliation
begin

text \<open>
  What the reconciliation of stale executions may change, that a wrong verdict of it is repaired
  by the execution itself, and two ways in which it fails healthy runs.
\<close>

subsection \<open>Verdicts\<close>

lemma stale_message:
  "starts_with r ''reconciled stale running execution'' \<Longrightarrow> is_stale_reconciliation_error (Some r)"
  by (auto simp: is_stale_reconciliation_error_def starts_with_iff ws1_def ws2_def ws3_def)

text \<open>The status and the message with which a verdict closes a row.\<close>

fun closes_with :: "reconcile_verdict \<Rightarrow> (string \<times> string) option" where
  "closes_with LeaveOpen = None"
| "closes_with (CloseRow st r) = Some (st, r)"
| "closes_with (DisableAndClose st dr r) = Some (st, r)"

definition terminal_by_reconciliation :: "string \<times> string \<Rightarrow> bool" where
  "terminal_by_reconciliation c =
     ((fst c = ''superseded'' \<or> fst c = ''failed'')
      \<and> starts_with (snd c) ''reconciled stale running execution'')"

lemma terminal_Pair [simp]:
  "terminal_by_reconciliation (st, r) \<longleftrightarrow>
   (st = ''superseded'' \<or> st = ''failed'') \<and> starts_with r ''reconciled stale running execution''"
  by (simp add: terminal_by_reconciliation_def)

lemma fallback_reason:
  "unfinished_fallback_reconciliation_action rl w ws t now sb = Some (FailFallback dr r) \<Longrightarrow>
   starts_with r ''reconciled stale running execution''"
  by (auto simp: unfinished_fallback_reconciliation_action_def unfinished_fallback_reconciliation_reason_def
      starts_with_def split: option.splits if_splits prod.splits)

lemma missing_reason:
  "missing_aci_registry_reconciliation_reason rl w ws t = (dr, r) \<Longrightarrow>
   starts_with r ''reconciled stale running execution''"
  by (auto simp: missing_aci_registry_reconciliation_reason_def unfinished_fallback_reconciliation_reason_def
      starts_with_def Let_def split: option.splits if_splits)

lemma lost_closes:
  "closes_with (lost_container_verdict fb inflight v) = Some c \<Longrightarrow>
   (\<And>dr r. fb = Some (FailFallback dr r) \<Longrightarrow> starts_with r ''reconciled stale running execution'') \<Longrightarrow>
   (closes_with v = Some c \<Longrightarrow> terminal_by_reconciliation c) \<Longrightarrow> terminal_by_reconciliation c"
  by (auto simp: lost_container_verdict_def split: option.splits unfinished_fallback_action.splits if_splits)

lemma aci_closes:
  assumes "closes_with (aci_verdict rl w v rg t fb inflight) = Some c"
    and "\<And>dr r. fb = Some (FailFallback dr r) \<Longrightarrow> starts_with r ''reconciled stale running execution''"
  shows "terminal_by_reconciliation c \<and> fst c = ''failed''"
proof (cases "Option.bind (rv_workspace_dir v) (find_aci_container_by_workspace rl w)")
  case None
  with assms show ?thesis
    by (auto simp: aci_verdict_def lost_container_verdict_def
        split: option.splits if_splits prod.splits unfinished_fallback_action.splits dest: missing_reason)
next
  case (Some n)
  with assms show ?thesis
    by (auto simp: aci_verdict_def lost_container_verdict_def starts_with_def
        split: option.splits if_splits aci_container_status.splits unfinished_fallback_action.splits)
qed

lemma row_closes:
  assumes "closes_with (row_verdict rl w v row) = Some c"
  shows "terminal_by_reconciliation c"
proof -
  let ?fb = "unfinished_fallback_reconciliation_action rl w (rv_workspace_dir v) (row_started_at row)
               (rv_now v) (rv_stale_before v)"
  have "terminal_by_reconciliation c"
    if "closes_with (aci_verdict rl w v rg (row_started_at row) ?fb b) = Some c" for rg b
    using aci_closes [OF that] by (meson fallback_reason)
  with assms show ?thesis
    by (auto simp: row_verdict_def Let_def starts_with_def split: option.splits if_splits)
qed

subsection \<open>What changes in the store\<close>

text \<open>Rows of a list of documents that were open for the task and got closed.\<close>

definition closed_row :: "('t, 'e) store \<Rightarrow> string \<Rightarrow> datetime \<Rightarrow> exec_doc \<Rightarrow> exec_doc \<Rightarrow> bool" where
  "closed_row s i now d d' =
     (running_filter s i d
      \<and> (\<exists>c. terminal_by_reconciliation c \<and> d' = finish_set now (fst c) (Some (snd c)) d))"

definition reconciled ::
    "('t, 'e) store \<Rightarrow> string \<Rightarrow> datetime \<Rightarrow> exec_doc list \<Rightarrow> exec_doc list \<Rightarrow> bool" where
  "reconciled s i now = list_all2 (\<lambda>d d'. d' = d \<or> closed_row s i now d d')"

lemma reconciled_refl [simp]: "reconciled s i now ds ds"
  by (simp add: reconciled_def list_all2_same)

lemma terminal_not_running: "terminal_by_reconciliation c \<Longrightarrow> fst c \<noteq> ''running''"
  by (auto simp: terminal_by_reconciliation_def)

lemma reconciled_trans:
  assumes "reconciled s i now as bs" and "reconciled s i now bs cs"
  shows "reconciled s i now as cs"
  unfolding reconciled_def
  by (rule list_all2_trans [OF _ assms [unfolded reconciled_def]])
     (auto simp: closed_row_def running_filter_def finish_set_def dest: terminal_not_running)

lemma reconciled_ids: "reconciled s i now as bs \<Longrightarrow> map ed_id bs = map ed_id as"
  unfolding reconciled_def
  by (induction rule: list_all2_induct) (auto simp: closed_row_def finish_set_def)

lemma reconciled_member:
  "reconciled s i now as bs \<Longrightarrow> d' \<in> set bs \<Longrightarrow>
   \<exists>d \<in> set as. ed_id d = ed_id d' \<and> ed_task_id d = ed_task_id d'"
  unfolding reconciled_def
  by (induction rule: list_all2_induct) (auto simp: closed_row_def finish_set_def)

lemma update_first_reconciled:
  "(\<And>d. d \<in> set ds \<Longrightarrow> p d \<Longrightarrow> closed_row s i now d (u d)) \<Longrightarrow>
   reconciled s i now ds (update_first p u ds)"
  unfolding reconciled_def
  by (induction ds) (auto simp: list_all2_same)

lemma same_id_same_doc:
  "distinct (map ed_id ds) \<Longrightarrow> d \<in> set ds \<Longrightarrow> d' \<in> set ds \<Longrightarrow> ed_id d = ed_id d' \<Longrightarrow> d = d'"
  by (metis distinct_map inj_on_def)

lemma count_status_simps [simp]:
  "count_status ''superseded'' m = m\<lparr>superseded_count := Suc (superseded_count m)\<rparr>"
  "count_status ''failed'' m = m\<lparr>failed_count := Suc (failed_count m)\<rparr>"
  by (simp_all add: count_status_def)

context task_store
begin

lemma finish_row_effect:
  assumes "finish_execution_row lib s oid now st r = (Inr x, s')"
  shows "edocs (s_execs s') = update_first (\<lambda>d. ed_id d = Some oid \<and> exec_owner s d
             \<and> ed_status d = Some ''running'') (finish_set now st r) (edocs (s_execs s))
         \<and> s' = s\<lparr>s_execs := s_execs s'\<rparr>"
proof -
  let ?p = "\<lambda>d. ed_id d = Some oid \<and> exec_owner s d \<and> ed_status d = Some ''running''"
  from assms obtain n s1 where 1: "on_execs lib (retry_mongo_operation
      (c_update_one (sl_execs lib) ?p (finish_set now st r))) s = (Inr n, s1)"
    and rest: "(if n = 0 then
            st_bind (on_execs lib (retry_mongo_operation
                       (c_find (sl_execs lib) (\<lambda>d. ed_id d = Some oid \<and> exec_owner s1 d))) s1)
              (\<lambda>docs s2.
                 let missing =
                       (Inl (Storage ''missing running execution row while reconciling stale execution''), s2)
                 in case docs of
                   [] \<Rightarrow> missing
                 | d # _ \<Rightarrow>
                     (case parse_execution_row (sl_access_error lib) d of
                        Inl e \<Rightarrow> (Inl e, s2)
                      | Inr row \<Rightarrow> if row_status row \<noteq> ''running'' then (Inr (), s2) else missing))
          else (Inr (), s1)) = (Inr x, s')"
    unfolding finish_execution_row_def by (blast dest: st_bind_ok)
  note u = on_execs_update_one [OF 1]
  show ?thesis
  proof (cases "n = 0")
    case False
    with rest u show ?thesis by auto
  next
    case True
    with rest obtain ds where f: "on_execs lib (retry_mongo_operation
        (c_find (sl_execs lib) (\<lambda>d. ed_id d = Some oid \<and> exec_owner s1 d))) s1 = (Inr ds, s')"
      by (auto dest!: st_bind_ok simp: Let_def split: list.splits sum.splits if_splits)
    from on_execs_find [OF f] have "edocs (s_execs s') = edocs (s_execs s1)"
      and k: "s' = s1\<lparr>s_execs := s_execs s'\<rparr>" by blast+
    moreover have "s' = s\<lparr>s_execs := s_execs s'\<rparr>"
      using k u by (cases s; cases s1; cases s') simp
    ultimately show ?thesis using u by simp
  qed
qed

end

definition same_owner :: "('t, 'e) store \<Rightarrow> ('t, 'e) store \<Rightarrow> bool" where
  "same_owner s s' = (s_owner_kind s' = s_owner_kind s \<and> s_owner_id s' = s_owner_id s)"

lemma same_owner_simps [simp]:
  "same_owner s s" "same_owner s (s'\<lparr>s_tasks := ts\<rparr>) = same_owner s s'"
  "same_owner s (s'\<lparr>s_execs := es\<rparr>) = same_owner s s'"
  by (simp_all add: same_owner_def)

lemma same_owner_trans: "same_owner s s' \<Longrightarrow> same_owner s' s'' \<Longrightarrow> same_owner s s''"
  by (simp add: same_owner_def)

lemma same_owner_exec: "same_owner s s' \<Longrightarrow> exec_owner s' = exec_owner s"
  by (simp add: same_owner_def exec_owner_def fun_eq_iff)

lemma execs_only: "s' = s\<lparr>s_execs := es\<rparr> \<Longrightarrow> same_owner s s' \<and> s_tasks s' = s_tasks s"
  by simp

lemma on_tasks_keeps: "on_tasks lib op s = (r, s') \<Longrightarrow> s_execs s' = s_execs s \<and> same_owner s s'"
  by (auto simp: on_tasks_def split: prod.splits)

lemma parse_rows_all2:
  "parse_rows ae ds = Inr rows \<Longrightarrow> list_all2 (\<lambda>d row. parse_execution_row ae d = Inr row) ds rows"
  by (induction ds arbitrary: rows) (auto simp: res_bind_eq_Inr)

lemma parse_rows_member:
  "parse_rows ae ds = Inr rows \<Longrightarrow> row \<in> set rows \<Longrightarrow> \<exists>d \<in> set ds. parse_execution_row ae d = Inr row"
proof (induction ds arbitrary: rows)
  case (Cons d ds)
  then show ?case by (fastforce simp: res_bind_eq_Inr)
qed simp

context task_store
begin

lemma load_rows_effect:
  assumes "load_execution_rows_for_task lib s i = (Inr rows, s')"
  shows "edocs (s_execs s') = edocs (s_execs s) \<and> same_owner s s'
         \<and> (\<exists>ds. mset ds = mset (filter (\<lambda>d. exec_owner s d \<and> ed_task_id d = Some i) (edocs (s_execs s)))
              \<and> sorted_wrt (\<lambda>a b. started_key b \<le> started_key a) ds
              \<and> parse_rows (sl_access_error lib) ds = Inr rows)"
proof -
  let ?p = "\<lambda>d. exec_owner s d \<and> ed_task_id d = Some i"
  from assms obtain ds where f: "on_execs lib (c_find_desc (sl_execs lib) ?p started_key) s = (Inr ds, s')"
    and r: "parse_rows (sl_access_error lib) ds = Inr rows"
    by (auto simp: load_execution_rows_for_task_def dest!: st_bind_ok)
  from f obtain c where "c_find_desc (sl_execs lib) ?p started_key (s_execs s) = (Inr ds, c)"
    and "s' = s\<lparr>s_execs := c\<rparr>" by (auto simp: on_execs_def split: prod.splits)
  with ex.find_desc_ok [of ?p started_key "s_execs s"] r show ?thesis by auto
qed

lemma loaded_row_doc:
  assumes "load_execution_rows_for_task lib s i = (Inr rows, s')" and "row \<in> set rows"
  obtains d where "d \<in> set (edocs (s_execs s))" "exec_owner s d" "ed_task_id d = Some i"
    "parse_execution_row (sl_access_error lib) d = Inr row"
proof -
  from load_rows_effect [OF assms(1)] obtain ds where
    m: "mset ds = mset (filter (\<lambda>d. exec_owner s d \<and> ed_task_id d = Some i) (edocs (s_execs s)))"
    and r: "parse_rows (sl_access_error lib) ds = Inr rows" by blast
  from parse_rows_member [OF r assms(2)] obtain d where d: "d \<in> set ds"
    "parse_execution_row (sl_access_error lib) d = Inr row" by blast
  have "d \<in> set_mset (mset ds)" using d by simp
  then show thesis unfolding m using d by (intro that [of d]) auto
qed

lemma find_ids_keeps:
  "find_task_ids_for_workspace rl s ws = (r, s') \<Longrightarrow> s_execs s' = s_execs s \<and> same_owner s s'"
  unfolding find_task_ids_for_workspace_def
  by (auto simp: st_bind_def on_tasks_def split: prod.splits sum.splits)

lemma context_keeps:
  "get_task_run_task_context rl s i = (c, s') \<Longrightarrow> s_execs s' = s_execs s \<and> same_owner s s'"
  unfolding get_task_run_task_context_def
  by (auto simp: on_tasks_def split: prod.splits sum.splits list.splits)

lemma load_peers_keeps:
  assumes "load_execution_rows_for_tasks lib s ids = (Inr peers, s')"
  shows "edocs (s_execs s') = edocs (s_execs s) \<and> same_owner s s'"
proof (cases "ids = []")
  case True
  with assms show ?thesis by (simp add: load_execution_rows_for_tasks_def)
next
  case False
  let ?p = "\<lambda>d. exec_owner s d \<and> (\<exists>i \<in> set ids. ed_task_id d = Some i)"
  from assms False obtain ds where f: "on_execs lib (c_find_desc (sl_execs lib) ?p started_key) s = (Inr ds, s')"
    by (auto simp: load_execution_rows_for_tasks_def dest!: st_bind_ok)
  from f obtain c where "c_find_desc (sl_execs lib) ?p started_key (s_execs s) = (Inr ds, c)"
    and "s' = s\<lparr>s_execs := c\<rparr>" by (auto simp: on_execs_def split: prod.splits)
  with ex.find_desc_ok [of ?p started_key "s_execs s"] show ?thesis by auto
qed

end

subsection \<open>A pass\<close>

lemma auto_disable_keeps:
  "auto_disable_terminal_action rl y i dr = (b, y') \<Longrightarrow>
   s_execs (sy_store y') = s_execs (sy_store y) \<and> same_owner (sy_store y) (sy_store y')"
  unfolding auto_disable_terminal_action_def
  by (auto simp: Let_def on_world_def on_store_def mongo_disable_task_by_id_def st_bind_def on_tasks_def
      split: prod.splits sum.splits if_splits)

text \<open>The state of a pass over the rows of task \<open>i\<close> that began with the store \<open>s0\<close>.\<close>

definition pass_inv ::
    "('e \<Rightarrow> exec_doc list) \<Rightarrow> ('t, 'e) store \<Rightarrow> string \<Rightarrow> datetime \<Rightarrow> ('t, 'e) system \<Rightarrow> bool" where
  "pass_inv edocs s0 i now y =
     (reconciled s0 i now (edocs (s_execs s0)) (edocs (s_execs (sy_store y)))
      \<and> same_owner s0 (sy_store y))"

lemma close_keeps_pass:
  assumes "task_store lib tdocs edocs" and "distinct (map ed_id (edocs (s_execs s0)))"
    and inv: "pass_inv edocs s0 i now y"
    and d: "d \<in> set (edocs (s_execs s0))" "ed_id d = Some oid" "ed_task_id d = Some i"
    and c: "terminal_by_reconciliation (st, r)"
    and fin: "on_store (\<lambda>s. finish_execution_row lib s oid now st (Some r)) y = (Inr x, y')"
  shows "pass_inv edocs s0 i now y'"
proof -
  let ?s = "sy_store y" and ?D0 = "edocs (s_execs s0)"
  note rec = inv [unfolded pass_inv_def]
  from on_store_ok [OF fin] have "finish_execution_row lib ?s oid now st (Some r) = (Inr x, sy_store y')" by simp
  note eff = task_store.finish_row_effect [OF assms(1) this]
  have own: "exec_owner ?s = exec_owner s0" using rec by (simp add: same_owner_exec)
  have "reconciled s0 i now (edocs (s_execs ?s)) (edocs (s_execs (sy_store y')))"
    unfolding eff [THEN conjunct1]
  proof (rule update_first_reconciled)
    fix e assume e: "e \<in> set (edocs (s_execs ?s))"
      and p: "ed_id e = Some oid \<and> exec_owner ?s e \<and> ed_status e = Some ''running''"
    from reconciled_member [OF rec [THEN conjunct1] e] obtain e0 where
      e0: "e0 \<in> set ?D0" "ed_id e0 = ed_id e" "ed_task_id e0 = ed_task_id e" by blast
    with p d(2) have "ed_id e0 = ed_id d" by simp
    from same_id_same_doc [OF assms(2) e0(1) d(1) this] e0(3) d(3) have "ed_task_id e = Some i" by simp
    with p own c show "closed_row s0 i now e (finish_set now st (Some r) e)"
      unfolding closed_row_def running_filter_def by (intro conjI exI [of _ "(st, r)"]) auto
  qed
  note closed = reconciled_trans [OF rec [THEN conjunct1] this]
  from same_owner_trans [OF rec [THEN conjunct2]] execs_only [OF eff [THEN conjunct2]]
  have "same_owner s0 (sy_store y')" by blast
  with closed show ?thesis by (simp add: pass_inv_def)
qed

lemma verdict_keeps_pass:
  assumes "task_store (rl_store rl) tdocs edocs" and "distinct (map ed_id (edocs (s_execs s0)))"
    and inv: "pass_inv edocs s0 i now y"
    and d: "d \<in> set (edocs (s_execs s0))" "ed_id d = Some (row_doc_id row)" "ed_task_id d = Some i"
    and c: "\<And>c. closes_with verdict = Some c \<Longrightarrow> terminal_by_reconciliation c"
    and v: "rv_now v = now"
    and app: "apply_verdict rl v row m verdict y = (Inr m', y')"
  shows "pass_inv edocs s0 i now y'"
proof -
  note close = close_keeps_pass [OF assms(1,2) _ d]
  show ?thesis
  proof (cases verdict)
    case LeaveOpen
    with app inv show ?thesis by (simp add: apply_verdict_def Let_def)
  next
    case (CloseRow st r)
    with app v obtain x where "on_store (\<lambda>s. finish_execution_row (rl_store rl) s (row_doc_id row) now
        st (Some r)) y = (Inr x, y')"
      by (auto simp: apply_verdict_def Let_def dest!: st_bind_ok)
    from close [OF inv _ this] c CloseRow show ?thesis by simp
  next
    case (DisableAndClose st dr r)
    obtain b y1 where a: "auto_disable_terminal_action rl y (rv_task_id v) dr = (b, y1)" by fastforce
    from auto_disable_keeps [OF a] inv have inv1: "pass_inv edocs s0 i now y1"
      by (auto simp: pass_inv_def intro: same_owner_trans)
    show ?thesis
    proof (cases b)
      case False
      with app DisableAndClose a inv1 show ?thesis by (auto simp: apply_verdict_def Let_def)
    next
      case True
      with app DisableAndClose a v obtain x where "on_store (\<lambda>s. finish_execution_row (rl_store rl) s
          (row_doc_id row) now st (Some r)) y1 = (Inr x, y')"
        by (auto simp: apply_verdict_def Let_def dest!: st_bind_ok)
      from close [OF inv1 _ this] c DisableAndClose show ?thesis by simp
    qed
  qed
qed

lemma rows_keep_pass:
  assumes "task_store (rl_store rl) tdocs edocs" and "distinct (map ed_id (edocs (s_execs s0)))"
    and "rv_now v = now"
  shows "pass_inv edocs s0 i now y \<Longrightarrow>
     (\<And>row. row \<in> set rows \<Longrightarrow> \<exists>d \<in> set (edocs (s_execs s0)). ed_id d = Some (row_doc_id row)
        \<and> ed_task_id d = Some i) \<Longrightarrow>
     reconcile_rows rl v rows m y = (Inr m', y') \<Longrightarrow> pass_inv edocs s0 i now y'"
proof (induction rows arbitrary: m y)
  case Nil
  then show ?case by simp
next
  case (Cons row rows)
  show ?case
  proof (cases "row_status row = ''running''")
    case False
    with Cons show ?thesis by simp
  next
    case True
    with Cons.prems(3) obtain m1 y1 where
      1: "apply_verdict rl v row m (row_verdict rl (sy_world y) v row) y = (Inr m1, y1)"
      and 2: "reconcile_rows rl v rows m1 y1 = (Inr m', y')" by (auto dest!: st_bind_ok)
    from Cons.prems(2) [of row] obtain d where d: "d \<in> set (edocs (s_execs s0))"
      "ed_id d = Some (row_doc_id row)" "ed_task_id d = Some i" by auto
    have "pass_inv edocs s0 i now y1"
      by (rule verdict_keeps_pass [OF assms(1,2) Cons.prems(1) d _ assms(3) 1]) (rule row_closes)
    from Cons.IH [OF this _ 2] Cons.prems(2) show ?thesis by simp
  qed
qed

lemma reconcile_pass:
  assumes ts: "task_store (rl_store rl) tdocs edocs"
    and di: "distinct (map ed_id (edocs (s_execs (sy_store y))))"
    and run: "reconcile_stale_running_executions_for_task rl y i now sa = (Inr m, y')"
  shows "pass_inv edocs (sy_store y) i now y'"
proof -
  let ?s0 = "sy_store y" and ?lib = "rl_store rl"
  from run obtain rows y1 where 1: "on_store (\<lambda>s. load_execution_rows_for_task ?lib s i) y = (Inr rows, y1)"
    and rest: "(if list_all (\<lambda>row. row_status row \<noteq> ''running'') rows then (Inr summary_default, y1)
     else
       case get_task_run_task_context rl (sy_store y1) i of (ctx, s) \<Rightarrow>
       let y = y1\<lparr>sy_store := s\<rparr> in
       st_bind (case Option.bind ctx ctx_workspace_dir of
                  Some workspace_dir \<Rightarrow>
                    st_bind (on_store (\<lambda>s. find_task_ids_for_workspace rl s workspace_dir) y) (\<lambda>task_ids y.
                      on_store (\<lambda>s. load_execution_rows_for_tasks ?lib s task_ids) y)
                | None \<Rightarrow> (Inr [], y)) (\<lambda>peers y.
       reconcile_rows rl (reconcile_view_of rl (sy_world y) i now sa rows ctx peers) rows
         summary_default y)) = (Inr m, y')"
    unfolding reconcile_stale_running_executions_for_task_def by (blast dest: st_bind_ok)
  from on_store_ok [OF 1] have ld: "load_execution_rows_for_task ?lib ?s0 i = (Inr rows, sy_store y1)" by simp
  from task_store.load_rows_effect [OF ts ld] have inv1: "pass_inv edocs ?s0 i now y1"
    by (simp add: pass_inv_def)
  have docs: "\<exists>d \<in> set (edocs (s_execs ?s0)). ed_id d = Some (row_doc_id row) \<and> ed_task_id d = Some i"
    if row: "row \<in> set rows" for row
    using task_store.loaded_row_doc [OF ts ld row] parse_execution_row_fields by metis
  show ?thesis
  proof (cases "list_all (\<lambda>row. row_status row \<noteq> ''running'') rows")
    case True
    with rest inv1 show ?thesis by simp
  next
    case False
    obtain ctx s2 where c: "get_task_run_task_context rl (sy_store y1) i = (ctx, s2)" by fastforce
    let ?y2 = "y1\<lparr>sy_store := s2\<rparr>"
    from task_store.context_keeps [OF ts c] inv1 have inv2: "pass_inv edocs ?s0 i now ?y2"
      by (auto simp: pass_inv_def intro: same_owner_trans)
    from rest False c obtain peers y3 where
      p: "(case Option.bind ctx ctx_workspace_dir of
            Some ws \<Rightarrow> st_bind (on_store (\<lambda>s. find_task_ids_for_workspace rl s ws) ?y2)
              (\<lambda>ids y. on_store (\<lambda>s. load_execution_rows_for_tasks ?lib s ids) y)
          | None \<Rightarrow> (Inr [], ?y2)) = (Inr peers, y3)"
      and r: "reconcile_rows rl (reconcile_view_of rl (sy_world y3) i now sa rows ctx peers) rows
                summary_default y3 = (Inr m, y')"
      by (auto simp: Let_def dest!: st_bind_ok)
    from p have inv3: "pass_inv edocs ?s0 i now y3"
    proof (cases "Option.bind ctx ctx_workspace_dir")
      case None
      with p inv2 show ?thesis by simp
    next
      case (Some ws)
      with p obtain ids ya where
        a: "on_store (\<lambda>s. find_task_ids_for_workspace rl s ws) ?y2 = (Inr ids, ya)"
        and b: "on_store (\<lambda>s. load_execution_rows_for_tasks ?lib s ids) ya = (Inr peers, y3)"
        by (auto dest!: st_bind_ok)
      from on_store_ok [OF a] have "find_task_ids_for_workspace rl s2 ws = (Inr ids, sy_store ya)" by simp
      from task_store.find_ids_keeps [OF ts this] inv2 have inva: "pass_inv edocs ?s0 i now ya"
        by (auto simp: pass_inv_def intro: same_owner_trans)
      from on_store_ok [OF b] have "load_execution_rows_for_tasks ?lib (sy_store ya) ids
          = (Inr peers, sy_store y3)" by simp
      from task_store.load_peers_keeps [OF ts this] inva show ?thesis
        by (auto simp: pass_inv_def intro: same_owner_trans)
    qed
    have "rv_now (reconcile_view_of rl (sy_world y3) i now sa rows ctx peers) = now"
      by (simp add: reconcile_view_of_def)
    from rows_keep_pass [OF ts di this inv3 docs r] show ?thesis by simp
  qed
qed

text \<open>
  C39.  The reconciliation of the executions of a task closes rows and does nothing else to them:
  a row that it changes was an open row of that very task, becomes superseded or failed with a
  message that marks the verdict as one of the reconciliation, and keeps its other fields.
  Rows that were already closed, and rows of other tasks and owners, are left alone.
\<close>

theorem reconciliation_closes_open_rows:
  assumes "task_store (rl_store rl) tdocs edocs"
    and "distinct (map ed_id (edocs (s_execs (sy_store y))))"
    and "reconcile_stale_running_executions_for_task rl y i now sa = (Inr m, y')"
    and "k < length (edocs (s_execs (sy_store y)))"
  shows "edocs (s_execs (sy_store y')) ! k = edocs (s_execs (sy_store y)) ! k
         \<or> running_filter (sy_store y) i (edocs (s_execs (sy_store y)) ! k)
           \<and> (\<exists>st r. (st = ''superseded'' \<or> st = ''failed'') \<and> is_stale_reconciliation_error (Some r)
                \<and> edocs (s_execs (sy_store y')) ! k
                    = finish_set now st (Some r) (edocs (s_execs (sy_store y)) ! k))"
proof -
  have "reconciled (sy_store y) i now (edocs (s_execs (sy_store y))) (edocs (s_execs (sy_store y')))"
    using reconcile_pass [OF assms(1-3)] by (simp add: pass_inv_def)
  from list_all2_nthD [OF this [unfolded reconciled_def] assms(4)] show ?thesis
    by (auto simp: closed_row_def terminal_by_reconciliation_def intro: stale_message)
qed

subsection \<open>Wrong verdicts are repaired\<close>

lemma update_first_only:
  "distinct ds \<Longrightarrow> d \<in> set ds \<Longrightarrow> (\<And>e. e \<in> set ds \<Longrightarrow> p e \<longleftrightarrow> e = d) \<Longrightarrow>
   update_first p u ds = map (\<lambda>e. if e = d then u d else e) ds"
proof (induction ds)
  case (Cons e ds)
  show ?case
  proof (cases "e = d")
    case True
    with Cons.prems(1) have "map (\<lambda>e. if e = d then u d else e) ds = ds" by (intro map_idI) auto
    with True Cons.prems(3) show ?thesis by simp
  next
    case False
    with Cons show ?thesis by simp
  qed
qed simp

context task_store
begin

lemma clear_effect:
  assumes "clear_auto_disabled_reason lib s i = (Inr x, s')"
  shows "tdocs (s_tasks s') = update_all (by_task_id i) clear_auto_disabled_set (tdocs (s_tasks s))
         \<and> s_execs s' = s_execs s"
proof -
  from assms obtain n where "on_tasks lib (retry_mongo_operation (c_update_many (sl_tasks lib)
      (by_task_id i) clear_auto_disabled_set)) s = (Inr n, s')"
    by (auto simp: clear_auto_disabled_reason_def dest!: st_bind_ok)
  from on_tasks_update_many [OF this] on_tasks_keeps [OF this] show ?thesis by blast
qed

lemma on_execs_keeps: "on_execs lib op s = (r, s') \<Longrightarrow> s_tasks s' = s_tasks s \<and> same_owner s s'"
  by (auto simp: on_execs_def split: prod.splits)

lemma repair_effect:
  assumes fin: "store_record_execution_finish lib s i h t st err = (Inr (), s')"
    and d: "d \<in> set (edocs (s_execs s))" "execution_filter s i (h_execution_id h) (h_started_at h) d"
    and stale: "ed_status d = Some ''failed''" "is_stale_reconciliation_error (ed_error_message d)"
    and uniq: "\<And>e. e \<in> set (edocs (s_execs s)) \<Longrightarrow>
                 execution_filter s i (h_execution_id h) (h_started_at h) e \<Longrightarrow> e = d"
    and di: "distinct (map ed_id (edocs (s_execs s)))"
    and st: "st = ''success'' \<or> st = ''superseded''"
  shows "edocs (s_execs s') = map (\<lambda>e. if e = d then finish_set t st err d else e) (edocs (s_execs s))
         \<and> tdocs (s_tasks s') = update_all (by_task_id i) clear_auto_disabled_set (tdocs (s_tasks s))"
proof -
  let ?D = "edocs (s_execs s)"
  let ?f = "\<lambda>s. execution_filter s i (h_execution_id h) (h_started_at h)"
  let ?p = "\<lambda>d. ?f s d \<and> ed_status d = Some ''running''"
  from fin [unfolded store_record_execution_finish_eq] obtain n s1 where 1: "on_execs lib
      (retry_mongo_operation (c_update_one (sl_execs lib) ?p (finish_set t st err))) s = (Inr n, s1)"
    and rest: "(if n = 0 then st_bind (find_execution_row lib s1 i (h_execution_id h) (h_started_at h))
        (finish_missed lib i h t st err) else (Inr (), s1)) = (Inr (), s')" by (blast dest: st_bind_ok)
  have none: "any_doc ?p ?D = 0" using uniq stale(1) by (fastforce simp: any_doc_def)
  with on_execs_update_one [OF 1] have n: "n = 0" and D1: "edocs (s_execs s1) = ?D"
    by (auto simp: update_first_none)
  note k1 = on_execs_keeps [OF 1]
  then have f1: "?f s1 = ?f s" by (auto simp: execution_filter_def same_owner_exec fun_eq_iff)
  from rest n obtain q s2 where 2: "find_execution_row lib s1 i (h_execution_id h) (h_started_at h) = (Inr q, s2)"
    and m: "finish_missed lib i h t st err q s2 = (Inr (), s')" by (auto dest!: st_bind_ok)
  from 2 [unfolded find_execution_row_def] obtain docs where
    3: "on_execs lib (retry_mongo_operation (c_find (sl_execs lib) (?f s1))) s1 = (Inr docs, s2)"
    and q: "(case docs of [] \<Rightarrow> Inr None
             | d # _ \<Rightarrow> res_bind (parse_execution_row (sl_access_error lib) d) (\<lambda>r. Inr (Some r))) = Inr q"
    by (auto dest!: st_bind_ok split: list.splits)
  from on_execs_find [OF 3] D1 f1 have docs: "docs = filter (?f s) ?D" and D2: "edocs (s_execs s2) = ?D" by auto
  note k2 = on_execs_keeps [OF 3]
  have "e = d" if "e \<in> set docs" for e using that unfolding docs by (intro uniq) auto
  moreover have "d \<in> set docs" using d by (simp add: docs)
  ultimately obtain ds where "docs = d # ds" by (cases docs) auto
  with q obtain row where row: "parse_execution_row (sl_access_error lib) d = Inr row" "q = Some row"
    by (auto simp: res_bind_eq_Inr)
  note fields = parse_execution_row_fields [OF row(1)]
  have rep: "should_replace_stale_reconciliation_terminal_row row st err"
    "should_clear_auto_disabled_reason_after_stale_replacement st err"
    using fields stale st by (auto simp: should_replace_stale_reconciliation_terminal_row_def
        should_clear_auto_disabled_reason_after_stale_replacement_def)
  have "row_status row \<noteq> ''running''" using fields stale(1) by auto
  with m row(2) rep have "st_bind (overwrite_terminal_execution_row lib s2 (row_doc_id row) t st err)
      (\<lambda>_ s3. clear_auto_disabled_reason lib s3 i) = (Inr (), s')" by (simp add: finish_missed_def)
  then obtain s3 where
    4: "overwrite_terminal_execution_row lib s2 (row_doc_id row) t st err = (Inr (), s3)"
    and 5: "clear_auto_disabled_reason lib s3 i = (Inr (), s')" by (auto dest!: st_bind_ok)
  have own: "exec_owner s2 = exec_owner s" using k1 k2 by (auto simp: same_owner_exec)
  have od: "exec_owner s d" using d(2) by (simp add: execution_filter_def)
  have "edocs (s_execs s3) = map (\<lambda>e. if e = d then finish_set t st err d else e) ?D"
    unfolding overwrite_effect [OF 4] D2
  proof (rule update_first_only [OF _ d(1)])
    show "distinct ?D" using di by (simp add: distinct_map)
    show "ed_id e = Some (row_doc_id row) \<and> exec_owner s2 e \<longleftrightarrow> e = d" if "e \<in> set ?D" for e
      using same_id_same_doc [OF di that d(1)] fields own od by auto
  qed
  moreover from 4 have "s_tasks s3 = s_tasks s2"
    by (auto simp: overwrite_terminal_execution_row_def dest!: st_bind_ok on_execs_keeps)
  ultimately show ?thesis using clear_effect [OF 5] k1 k2 by simp
qed

end
text \<open>
  A run that the reconciliation gave up, closing its row as failed and perhaps disabling its
  task, loses nothing if it was alive after all: when it reports its success and its worker
  stores the task, the row says success, and every copy of the task is enabled as the worker
  has it, with no trace of an automatic disable.
\<close>

theorem stale_failure_repaired:
  assumes ts: "task_store (rl_store rl) tdocs edocs"
    and di: "distinct (map ed_id (edocs (s_execs (sy_store y))))"
    and run: "reconcile_stale_running_executions_for_task rl y i now sa = (Inr m, y')"
    and k: "k < length (edocs (s_execs (sy_store y)))"
    and closed: "edocs (s_execs (sy_store y')) ! k \<noteq> edocs (s_execs (sy_store y)) ! k"
      "ed_status (edocs (s_execs (sy_store y')) ! k) = Some ''failed''"
    and own: "execution_filter (sy_store y) i (h_execution_id h) (h_started_at h)
                (edocs (s_execs (sy_store y)) ! k)"
    and uniq: "\<forall>e \<in> set (edocs (s_execs (sy_store y))).
                 execution_filter (sy_store y) i (h_execution_id h) (h_started_at h) e
                 \<longrightarrow> e = edocs (s_execs (sy_store y)) ! k"
    and fin: "store_record_execution_finish (rl_store rl) (sy_store y') i h t ''success'' note = (Inr (), s2)"
    and upd: "store_update_task (rl_store rl) s2 task = (Inr (), s3)" "t_id task = i"
  shows "ed_status (edocs (s_execs s3) ! k) = Some ''success''
         \<and> (\<forall>d \<in> set (tdocs (s_tasks s3)). td_task_id d = Some i \<longrightarrow>
               td_enabled d = Some (t_enabled task) \<and> td_auto_disabled_reason d = Absent)"
proof -
  let ?D = "edocs (s_execs (sy_store y))" and ?D' = "edocs (s_execs (sy_store y'))"
  have inv: "reconciled (sy_store y) i now ?D ?D'" "same_owner (sy_store y) (sy_store y')"
    using reconcile_pass [OF ts di run] by (simp_all add: pass_inv_def)
  let ?f = "execution_filter (sy_store y') i (h_execution_id h) (h_started_at h)"
  have f: "?f = execution_filter (sy_store y) i (h_execution_id h) (h_started_at h)"
    using same_owner_exec [OF inv(2)] by (simp add: execution_filter_def fun_eq_iff)
  have ids: "map ed_id ?D' = map ed_id ?D" by (rule reconciled_ids [OF inv(1)])
  have len: "length ?D' = length ?D" using inv(1) by (simp add: reconciled_def list_all2_lengthD)
  have row: "?D' ! j = ?D ! j \<or> closed_row (sy_store y) i now (?D ! j) (?D' ! j)" if "j < length ?D" for j
    using list_all2_nthD [OF inv(1) [unfolded reconciled_def] that] .
  have keeps: "?f (?D' ! j) = ?f (?D ! j)" if "j < length ?D" for j
    using row [OF that] by (auto simp: closed_row_def finish_set_def execution_filter_def exec_owner_def)
  have d: "?D' ! k \<in> set ?D'" "?f (?D' ! k)" using k len own keeps [OF k] f by auto
  have only: "e = ?D' ! k" if e: "e \<in> set ?D'" "?f e" for e
  proof -
    from e(1) len obtain j where j: "j < length ?D" "e = ?D' ! j" by (auto simp: in_set_conv_nth)
    with e(2) keeps f have "?f (?D ! j)" by simp
    with uniq j(1) f have "?D ! j = ?D ! k" by simp
    with di j(1) k have "j = k" by (metis distinct_map nth_eq_iff_index_eq)
    with j show ?thesis by simp
  qed
  from row [OF k] closed(1) obtain c where c: "terminal_by_reconciliation c"
    "?D' ! k = finish_set now (fst c) (Some (snd c)) (?D ! k)" unfolding closed_row_def by blast
  then have stale: "is_stale_reconciliation_error (ed_error_message (?D' ! k))"
    by (auto simp: finish_set_def terminal_by_reconciliation_def intro: stale_message)
  have di': "distinct (map ed_id ?D')" using di ids by simp
  note rep = task_store.repair_effect [OF ts fin d closed(2) stale only di']
  from rep have rows: "edocs (s_execs s2) ! k = finish_set t ''success'' note (?D' ! k)"
    and docs: "tdocs (s_tasks s2) = update_all (by_task_id i) clear_auto_disabled_set (tdocs (s_tasks (sy_store y')))"
    using k len by simp_all
  from task_store.update_internal_effect [OF ts upd(1) [unfolded store_update_task_def]] obtain j where
    e: "s_execs s3 = s_execs s2"
    and u: "tdocs (s_tasks s3) = update_all (update_task_filter task False) (update_task_set task False j)
              (tdocs (s_tasks s2))" by (metis store.ext_inject store.surjective store.update_convs(1))
  have "td_enabled d = Some (t_enabled task) \<and> td_auto_disabled_reason d = Absent"
    if "d \<in> set (tdocs (s_tasks s3))" "td_task_id d = Some i" for d
    using that upd(2) unfolding u docs
    by (auto simp: set_update_all update_task_set_def update_task_filter_def by_task_id_def
        clear_auto_disabled_set_def split: if_splits)
  with rows e show ?thesis by (simp add: finish_set_def)
qed

subsection \<open>Verdicts that hit healthy runs\<close>

lemma min_opt_Some: "x \<in> set ts \<Longrightarrow> \<exists>m. min_opt ts = Some m"
  using max_opt_None [of "map uminus ts"] by (cases "max_opt (map uminus ts)") (auto simp: min_opt_def)

lemma max_opt_Some: "x \<in> set ts \<Longrightarrow> \<exists>m. max_opt ts = Some m"
  using max_opt_None [of ts] by (cases "max_opt ts") auto

lemma peer_supersedes:
  assumes "rv_workspace_dir v = Some ws" and "rv_latest_terminal_finished_at v = None"
    and "rv_latest_started_at v = Some (row_started_at row)" and "rv_thread_supersede_reason v = None"
    and "(j, peers) \<in> set (rv_workspace_peer_rows v)" and "j \<noteq> rv_task_id v" and "peer \<in> set peers"
    and "peer_running (row_started_at row) peer \<or> peer_finished (row_started_at row) peer \<noteq> None"
    and "\<not> workspace_has_current_aci_execution_evidence rl w ws (row_started_at row)"
  shows "\<exists>dr r. row_verdict rl w v row = DisableAndClose ''superseded'' dr r"
proof -
  let ?rows = "concat (map snd (filter (\<lambda>p. fst p \<noteq> rv_task_id v) (rv_workspace_peer_rows v)))"
  let ?t = "row_started_at row"
  have p: "peer \<in> set ?rows" using assms(5-7) by fastforce
  have "\<exists>m. min_opt (map row_started_at (filter (peer_running ?t) ?rows)) = Some m"
    if "peer_running ?t peer" using p that by (intro min_opt_Some [of "row_started_at peer"]) simp
  moreover have "\<exists>m. max_opt (List.map_filter (peer_finished ?t) ?rows) = Some m"
    if pf: "peer_finished ?t peer \<noteq> None"
  proof -
    from pf obtain q where "peer_finished ?t peer = Some q" by blast
    with p show ?thesis by (intro max_opt_Some [of q]) (force simp: List.map_filter_def)
  qed
  ultimately obtain r where "workspace_peer_supersede_reason rl w (rv_task_id v) (rv_workspace_peer_rows v)
      (Some ws) ?t = Some r"
    using assms(8,9) by (fastforce simp: workspace_peer_supersede_reason_def Let_def split: option.splits)
  with assms(1-4) show ?thesis by (simp add: row_verdict_def Let_def opt_filter_def)
qed

text \<open>
  Two runs of one workspace that started within ten minutes of each other supersede each
  other as long as their containers have left no trace: reconciling the first disables its task
  because of the second, and reconciling the second then disables that task too, because the
  first is now closed.  None of the two runs is left to answer.
\<close>

theorem peers_supersede_each_other:
  assumes "row_status a = ''running''" and "row_status b = ''running''"
    and "abs (row_started_at a - row_started_at b) \<le> millis current_trace_start_match_tolerance_ms"
    and "i \<noteq> j" and "rv_task_id va = i" and "rv_task_id vb = j"
    and "rv_workspace_dir va = Some ws" and "rv_workspace_dir vb = Some ws"
    and "rv_thread_supersede_reason va = None" and "rv_thread_supersede_reason vb = None"
    and "rv_latest_terminal_finished_at va = None" and "rv_latest_terminal_finished_at vb = None"
    and "rv_latest_started_at va = Some (row_started_at a)"
    and "rv_latest_started_at vb = Some (row_started_at b)"
    and "(j, [b]) \<in> set (rv_workspace_peer_rows va)"
    and "(i, [a\<lparr>row_status := ''superseded'', row_finished_at := Some t\<rparr>]) \<in> set (rv_workspace_peer_rows vb)"
    and "row_started_at a \<le> t"
    and "\<forall>s. \<not> workspace_has_current_aci_execution_evidence rl w ws s"
  shows "(\<exists>dr r. row_verdict rl w va a = DisableAndClose ''superseded'' dr r)
         \<and> (\<exists>dr r. row_verdict rl w vb b = DisableAndClose ''superseded'' dr r)"
proof
  show "\<exists>dr r. row_verdict rl w va a = DisableAndClose ''superseded'' dr r"
    using assms by (intro peer_supersedes [of va ws a j "[b]" b])
      (auto simp: peer_running_def in_start_window_def)
  show "\<exists>dr r. row_verdict rl w vb b = DisableAndClose ''superseded'' dr r"
    using assms by (intro peer_supersedes [of vb ws b i
        "[a\<lparr>row_status := ''superseded'', row_finished_at := Some t\<rparr>]"
        "a\<lparr>row_status := ''superseded'', row_finished_at := Some t\<rparr>"])
      (auto simp: peer_running_def peer_finished_def opt_filter_def)
qed

text \<open>
  When the registry of containers cannot be read, a run is treated as if its container had
  never been created: once the period of grace is over its task is disabled and its row closed
  as failed, even though Azure would report the container as running.
\<close>

theorem registry_failure_fails_live_run:
  assumes "rl_registry rl w ws = Some (Inl e)" and "rv_workspace_dir v = Some ws"
    and "rv_aci_resource_group v = Some rg"
    and "rv_latest_terminal_finished_at v = None" and "rv_latest_started_at v = Some (row_started_at row)"
    and "rv_thread_supersede_reason v = None" and "rv_workspace_peer_rows v = []"
    and "\<not> workspace_has_current_aci_execution_evidence rl w ws (row_started_at row)"
    and "rv_now v - row_started_at row > resolve_aci_registration_grace_period w"
  shows "row_verdict (rl\<lparr>rl_az := \<lambda>_ _ _. Inr (True, ''Running'', [])\<rparr>) w v row
         = DisableAndClose ''failed'' ''auto-disabled: execution started but ACI container was never created''
             ''reconciled stale running execution; ACI container not found''"
proof -
  let ?rl = "rl\<lparr>rl_az := \<lambda>_ _ _. Inr (True, ''Running'', [])\<rparr>"
  have ev: "\<not> workspace_has_current_aci_execution_evidence ?rl w ws (row_started_at row)"
    using assms(8) by (simp add: workspace_has_current_aci_execution_evidence_def
        load_run_task_trace_metadata_def path_mtime_matches_execution_def)
  then have fb: "unfinished_fallback_trace_metadata ?rl w ws (row_started_at row) = None"
    by (simp add: unfinished_fallback_trace_metadata_def)
  from assms ev fb show ?thesis
    by (simp add: row_verdict_def Let_def opt_filter_def unfinished_fallback_reconciliation_action_def
        workspace_records_unfinished_fallback_after_aci_run_def workspace_peer_supersede_reason_def min_opt_def
        max_opt_def List.map_filter_def aci_verdict_def find_aci_container_by_workspace_def
        lost_container_verdict_def workspace_suggests_recent_inflight_aci_result_handling_def
        missing_aci_registry_reconciliation_reason_def)
qed

subsection \<open>Examples\<close>

definition memory_reconcile :: "(memory_tasks, memory_execs, scheduled_task) reconcile_lib" where
  "memory_reconcile =
     \<lparr>rl_store = memory_lib, rl_codec = pair_codec, rl_trace = (\<lambda>_. None),
      rl_context = (\<lambda>task. Some (case t_kind task of
         RunTask r \<Rightarrow> \<lparr>ctx_workspace_dir = Some (rt_workspace_dir r), ctx_thread_epoch = rt_thread_epoch r,
                       ctx_thread_state_path = rt_thread_state_path r\<rparr>
       | _ \<Rightarrow> \<lparr>ctx_workspace_dir = None, ctx_thread_epoch = None, ctx_thread_state_path = None\<rparr>)),
      rl_mtime_ms = (\<lambda>_ _. None), rl_from_millis = (\<lambda>n. Some (millis n)),
      rl_registry = (\<lambda>_ _. Some (Inl ''timeout'')), rl_az = (\<lambda>_ _ _. Inl ''no az'')\<rparr>"

lemma memory_reconcile_simps [simp]:
  "rl_store memory_reconcile = memory_lib" "rl_codec memory_reconcile = pair_codec"
  "rl_trace memory_reconcile = (\<lambda>_. None)" "rl_mtime_ms memory_reconcile = (\<lambda>_ _. None)"
  "rl_registry memory_reconcile = (\<lambda>_ _. Some (Inl ''timeout''))"
  by (simp_all add: memory_reconcile_def)

lemma memory_no_evidence [simp]: "\<not> workspace_has_current_aci_execution_evidence memory_reconcile w ws t"
  by (simp add: workspace_has_current_aci_execution_evidence_def load_run_task_trace_metadata_def
      path_mtime_matches_execution_def evidence_files_def split: option.splits)

text \<open>An open row of a task without a workspace, found after twenty minutes.\<close>

definition open_row :: exec_doc where
  "open_row =
     \<lparr>ed_id = Some ''o1'', ed_owner_kind = ''user'', ed_owner_id = ''u1'',
      ed_execution_id = Some (Int64 9), ed_task_id = Some ''a'', ed_started_at = Some 0,
      ed_finished_at = None, ed_status = Some ''running'', ed_error_message = None\<rparr>"

definition lost_system :: "(memory_tasks, memory_execs) system" where
  "lost_system =
     \<lparr>sy_tasks = [], sy_store = memory_store [inserted_task_doc (memory_store [] [] :: (memory_tasks, memory_execs) store)
          (noop_task ''a'' True) (noop_task ''a'' True)] [open_row],
      sy_world = (plain_world [])\<lparr>w_env := (\<lambda>k. if k = ''RUN_TASK_AZURE_ACI_RESOURCE_GROUP'' then Some ''rg'' else None)\<rparr>,
      sy_reconciliation_failures = 0\<rparr>"

lemma parse_open_row: "parse_execution_row ae open_row =
    Inr \<lparr>row_doc_id = ''o1'', row_task_id = ''a'', row_execution_id = 9, row_started_at = 0,
         row_finished_at = None, row_status = ''running'', row_error_message = None\<rparr>"
  by (simp add: parse_execution_row_def open_row_def bson_i64_def)

lemma lost_reconciled:
  "\<exists>y'. reconcile_stale_running_executions_for_task memory_reconcile lost_system ''a'' (secs 1200) (secs 60)
         = (Inr \<lparr>superseded_count = 0, failed_count = 1\<rparr>, y')
     \<and> fst (s_execs (sy_store y')) = [finish_set (secs 1200) ''failed''
          (Some ''reconciled stale running execution; ACI container not found'') open_row]
     \<and> s_owner_kind (sy_store y') = ''user'' \<and> s_owner_id (sy_store y') = ''u1''
     \<and> s_tasks (sy_store y') = (update_all (by_task_id ''a'') (auto_disable_set
          ''auto-disabled: execution started but ACI container was never created'' (secs 0))
          (fst (s_tasks (sy_store lost_system))), []) \<and> snd (s_execs (sy_store y')) = []"
proof -
  let ?y = lost_system
  let ?row = "\<lparr>row_doc_id = ''o1'', row_task_id = ''a'', row_execution_id = 9, row_started_at = 0,
         row_finished_at = None, row_status = ''running'', row_error_message = None\<rparr>"
  let ?ctx = "\<lparr>ctx_workspace_dir = None, ctx_thread_epoch = None, ctx_thread_state_path = None\<rparr>"
  let ?v = "reconcile_view_of memory_reconcile (sy_world ?y) ''a'' (secs 1200) (secs 60) [?row] (Some ?ctx) []"
  let ?dr = "''auto-disabled: execution started but ACI container was never created''"
  let ?r = "''reconciled stale running execution; ACI container not found''"
  have docs: "filter (\<lambda>d. exec_owner (sy_store ?y) d \<and> ed_task_id d = Some ''a'') [open_row] = [open_row]"
    by (simp add: exec_owner_def open_row_def lost_system_def memory_store_def)
  have 1: "on_store (\<lambda>s. load_execution_rows_for_task memory_lib s ''a'') ?y = (Inr [?row], ?y)"
    using docs by (simp add: on_store_def load_execution_rows_for_task_def lost_system_def memory_store_def
        parse_open_row)
  have 2: "get_task_run_task_context memory_reconcile (sy_store ?y) ''a'' = (Some ?ctx, sy_store ?y)"
    by (simp add: get_task_run_task_context_def lost_system_def memory_store_def task_filter_def owner_filter_def
        inserted_task_doc_def noop_task_def memory_reconcile_def)
  have v: "row_verdict memory_reconcile (sy_world ?y) ?v ?row = DisableAndClose ''failed'' ?dr ?r"
    by (simp add: row_verdict_def Let_def reconcile_view_of_def opt_filter_def max_opt_def List.map_filter_def
        nth_opt_def current_thread_supersede_reason_def workspace_peer_supersede_reason_def aci_verdict_def
        lost_container_verdict_def unfinished_fallback_reconciliation_action_def lost_system_def
        resolve_aci_registration_grace_period_def positive_secs_env_def default_aci_registration_grace_secs_def
        missing_aci_registry_reconciliation_reason_def time_simps)
  have 3: "\<exists>y'. apply_verdict memory_reconcile ?v ?row summary_default (DisableAndClose ''failed'' ?dr ?r) ?y
      = (Inr \<lparr>superseded_count = 0, failed_count = 1\<rparr>, y')
     \<and> fst (s_execs (sy_store y')) = [finish_set (secs 1200) ''failed'' (Some ?r) open_row]
     \<and> s_owner_kind (sy_store y') = ''user'' \<and> s_owner_id (sy_store y') = ''u1''
     \<and> s_tasks (sy_store y') = (update_all (by_task_id ''a'') (auto_disable_set ?dr (secs 0))
          (fst (s_tasks (sy_store ?y))), []) \<and> snd (s_execs (sy_store y')) = []"
    by (simp add: apply_verdict_def auto_disable_terminal_action_def on_world_def utc_now_def on_store_def
        mongo_disable_task_by_id_def finish_execution_row_def reconcile_view_of_def lost_system_def
        memory_store_def by_task_id_def inserted_task_doc_def noop_task_def any_doc_def open_row_def
        exec_owner_def summary_default_def plain_world_def Let_def)
  from 3 obtain y' where a: "apply_verdict memory_reconcile ?v ?row summary_default
      (DisableAndClose ''failed'' ?dr ?r) ?y = (Inr \<lparr>superseded_count = 0, failed_count = 1\<rparr>, y')"
    and rest: "fst (s_execs (sy_store y')) = [finish_set (secs 1200) ''failed'' (Some ?r) open_row]"
      "s_owner_kind (sy_store y') = ''user''" "s_owner_id (sy_store y') = ''u1''"
      "s_tasks (sy_store y') = (update_all (by_task_id ''a'') (auto_disable_set ?dr (secs 0))
          (fst (s_tasks (sy_store ?y))), [])" "snd (s_execs (sy_store y')) = []" by blast
  have "reconcile_stale_running_executions_for_task memory_reconcile ?y ''a'' (secs 1200) (secs 60)
      = (Inr \<lparr>superseded_count = 0, failed_count = 1\<rparr>, y')"
    by (simp add: reconcile_stale_running_executions_for_task_def 1 2 v a)
  with rest show ?thesis by blast
qed


theorem reconciliation_closes_open_rows_witness:
  "\<exists>m y'. reconcile_stale_running_executions_for_task memory_reconcile lost_system ''a'' (secs 1200) (secs 60)
           = (Inr m, y')
     \<and> fst (s_execs (sy_store y')) ! 0 \<noteq> fst (s_execs (sy_store lost_system)) ! 0
     \<and> running_filter (sy_store lost_system) ''a'' (fst (s_execs (sy_store lost_system)) ! 0)"
proof -
  obtain y' where r: "reconcile_stale_running_executions_for_task memory_reconcile lost_system ''a'' (secs 1200)
      (secs 60) = (Inr \<lparr>superseded_count = 0, failed_count = 1\<rparr>, y')"
    and e: "fst (s_execs (sy_store y')) = [finish_set (secs 1200) ''failed''
          (Some ''reconciled stale running execution; ACI container not found'') open_row]"
    using lost_reconciled by blast
  have ts: "task_store (rl_store memory_reconcile) fst fst" using ms.task_store_axioms by simp
  have "fst (s_execs (sy_store y')) ! 0 \<noteq> fst (s_execs (sy_store lost_system)) ! 0"
    by (simp add: e lost_system_def memory_store_def finish_set_def open_row_def)
  with reconciliation_closes_open_rows [OF ts _ r, of 0] r show ?thesis
    by (auto simp: lost_system_def memory_store_def)
qed

theorem stale_failure_repaired_witness:
  "\<exists>m y' s2 s3. reconcile_stale_running_executions_for_task memory_reconcile lost_system ''a'' (secs 1200)
        (secs 60) = (Inr m, y')
     \<and> store_record_execution_finish memory_lib (sy_store y') ''a'' \<lparr>h_execution_id = 9, h_started_at = 0\<rparr>
         (secs 1500) ''success'' None = (Inr (), s2)
     \<and> store_update_task memory_lib s2 (noop_task ''a'' True) = (Inr (), s3)
     \<and> ed_status (fst (s_execs s3) ! 0) = Some ''success''"
proof -
  let ?h = "\<lparr>h_execution_id = 9, h_started_at = 0\<rparr>"
  let ?e = "finish_set (secs 1200) ''failed''
          (Some ''reconciled stale running execution; ACI container not found'') open_row"
  obtain m y' where r: "reconcile_stale_running_executions_for_task memory_reconcile lost_system ''a'' (secs 1200)
      (secs 60) = (Inr m, y')"
    and e: "fst (s_execs (sy_store y')) = [?e]"
    and y': "s_owner_kind (sy_store y') = ''user''" "s_owner_id (sy_store y') = ''u1''"
      "snd (s_execs (sy_store y')) = []" "snd (s_tasks (sy_store y')) = []"
    using lost_reconciled by force
  have es: "s_execs (sy_store y') = ([?e], [])" using e y'(3) by (metis prod.collapse)
  obtain ds where tk: "s_tasks (sy_store y') = (ds, [])" using y'(4) by (metis prod.collapse)
  obtain s2 where f: "store_record_execution_finish memory_lib (sy_store y') ''a'' ?h (secs 1500) ''success'' None
      = (Inr (), s2)" and s2: "\<exists>ds. s_tasks s2 = (ds, [])"
    using es tk y'(1,2) by (simp add: store_record_execution_finish_def finish_set_def
        open_row_def any_doc_def execution_filter_def exec_owner_def find_execution_row_def parse_execution_row_def
        bson_i64_def should_replace_stale_reconciliation_terminal_row_def is_stale_reconciliation_error_def
        starts_with_def ws1_def ws2_def ws3_def overwrite_terminal_execution_row_def
        should_clear_auto_disabled_reason_after_stale_replacement_def clear_auto_disabled_reason_def
        time_simps)
  obtain s3 where u: "store_update_task memory_lib s2 (noop_task ''a'' True) = (Inr (), s3)"
    using s2 by (auto simp: store_update_task_def update_task_internal_def serialize_task_def)
  have ts: "task_store (rl_store memory_reconcile) fst fst" using ms.task_store_axioms by simp
  from stale_failure_repaired [OF ts _ r, of 0 ?h "secs 1500" None s2 "noop_task ''a'' True" s3] r f u e
  show ?thesis
    by (auto simp: lost_system_def memory_store_def finish_set_def open_row_def execution_filter_def
        exec_owner_def time_simps noop_task_def)
qed

theorem peers_supersede_each_other_witness:
  "\<exists>va vb a b. (\<exists>dr r. row_verdict memory_reconcile (plain_world []) va a = DisableAndClose ''superseded'' dr r)
     \<and> (\<exists>dr r. row_verdict memory_reconcile (plain_world []) vb b = DisableAndClose ''superseded'' dr r)
     \<and> row_task_id a = ''a'' \<and> row_task_id b = ''b''"
proof -
  let ?a = "\<lparr>row_doc_id = ''o1'', row_task_id = ''a'', row_execution_id = 9, row_started_at = 0,
         row_finished_at = None, row_status = ''running'', row_error_message = None\<rparr>"
  let ?b = "\<lparr>row_doc_id = ''o2'', row_task_id = ''b'', row_execution_id = 10, row_started_at = secs 60,
         row_finished_at = None, row_status = ''running'', row_error_message = None\<rparr>"
  let ?ctx = "Some \<lparr>ctx_workspace_dir = Some ''/w'', ctx_thread_epoch = None, ctx_thread_state_path = None\<rparr>"
  let ?va = "reconcile_view_of memory_reconcile (plain_world []) ''a'' (secs 90) (secs 600) [?a] ?ctx
      [(''a'', [?a]), (''b'', [?b])]"
  let ?vb = "reconcile_view_of memory_reconcile (plain_world []) ''b'' (secs 91) (secs 600) [?b] ?ctx
      [(''a'', [?a\<lparr>row_status := ''superseded'', row_finished_at := Some (secs 90)\<rparr>]), (''b'', [?b])]"
  have "(\<exists>dr r. row_verdict memory_reconcile (plain_world []) ?va ?a = DisableAndClose ''superseded'' dr r)
     \<and> (\<exists>dr r. row_verdict memory_reconcile (plain_world []) ?vb ?b = DisableAndClose ''superseded'' dr r)"
    by (rule peers_supersede_each_other [where i = "''a''" and j = "''b''" and ws = "''/w''" and t = "secs 90"])
       (simp_all add: reconcile_view_of_def current_thread_supersede_reason_def max_opt_def List.map_filter_def
          nth_opt_def current_trace_start_match_tolerance_ms_def time_simps)
  then show ?thesis by (intro exI [of _ ?va] exI [of _ ?vb] exI [of _ ?a] exI [of _ ?b]) simp
qed

theorem registry_failure_fails_live_run_witness:
  "\<exists>v row dr r. row_verdict (memory_reconcile\<lparr>rl_az := \<lambda>_ _ _. Inr (True, ''Running'', [])\<rparr>) (plain_world []) v row
     = DisableAndClose ''failed'' dr r \<and> rv_workspace_dir v = Some ''/w''"
proof -
  let ?a = "\<lparr>row_doc_id = ''o1'', row_task_id = ''a'', row_execution_id = 9, row_started_at = 0,
         row_finished_at = None, row_status = ''running'', row_error_message = None\<rparr>"
  let ?v = "(reconcile_view_of memory_reconcile (plain_world []) ''a'' (secs 1200) (secs 7200) [?a]
      (Some \<lparr>ctx_workspace_dir = Some ''/w'', ctx_thread_epoch = None, ctx_thread_state_path = None\<rparr>) [])
      \<lparr>rv_aci_resource_group := Some ''rg''\<rparr>"
  from registry_failure_fails_live_run [of memory_reconcile "plain_world []" "''/w''" "''timeout''" ?v "''rg''" ?a]
  show ?thesis
    by (intro exI [of _ ?v] exI [of _ ?a])
       (simp add: reconcile_view_of_def current_thread_supersede_reason_def max_opt_def List.map_filter_def
          nth_opt_def resolve_aci_registration_grace_period_def positive_secs_env_def plain_world_def
          default_aci_registration_grace_secs_def time_simps)
qed

end
