(* ===== verification/User_Store.thy ===== *)
theory User_Store
  imports World Mongo_Client Blob_Store
begin

text \<open>
  \<open>user_store/mod.rs\<close>: the users of the service.  A user is found by an identifier (a mail
  address, a phone number, a Slack name) in a normal form, or created on first contact, and
  owns a directory tree.  The collection is a parameter as in \<open>Mongo_Client\<close>; its requests are
  sent once, without the retry loop.
\<close>

record user_record =
  ur_user_id :: string
  ur_identifier_type :: string
  ur_identifier :: string
  ur_created_at :: datetime
  ur_last_seen_at :: datetime

record user_paths =
  up_root :: string
  up_state_dir :: string
  up_tasks_db_path :: string
  up_memory_dir :: string
  up_secrets_dir :: string
  up_mail_root :: string
  up_workspaces_root :: string

datatype user_store_error =
    UserMongo mongo_error
  | UserIo string
  | InvalidIdentifier string
  | UserDateTimeParse string
  | UserMongoConfig string

subsection \<open>Directories\<close>

definition user_paths_of :: "string \<Rightarrow> string \<Rightarrow> user_paths" where
  "user_paths_of users_root user_id =
     (let root = path_join users_root user_id; state_dir = path_join root ''state''
      in \<lparr>up_root = root, up_state_dir = state_dir, up_tasks_db_path = path_join state_dir ''tasks.db'',
          up_memory_dir = path_join root ''memory'', up_secrets_dir = path_join root ''secrets'',
          up_mail_root = path_join root ''mail'', up_workspaces_root = path_join root ''workspaces''\<rparr>)"

text \<open>\<open>Path::extension\<close> of a file name: what follows its last dot unless that is its first character.\<close>

definition path_extension :: "string \<Rightarrow> string option" where
  "path_extension p =
     Option.bind (path_file_name p) (\<lambda>name.
       let ext = rev (takeWhile (\<lambda>c. c \<noteq> CHR ''.'') (rev name))
       in if name = ''..'' \<or> length name - length ext \<le> 1 then None else Some ext)"

definition is_markdown_file :: "string \<Rightarrow> bool" where
  "is_markdown_file p =
     (case path_extension p of
        None \<Rightarrow> False
      | Some ext \<Rightarrow> to_ascii_lowercase ext \<in> set [''md'', ''markdown''])"

definition has_markdown_files :: "world \<Rightarrow> string \<Rightarrow> string + bool" where
  "has_markdown_files w dir =
     (case fs_read_dir w dir of
        None \<Rightarrow> Inl (unwrap_or not_found (w_refuse w dir))
      | Some entries \<Rightarrow> Inr (list_ex (\<lambda>p. fs_is_file w p \<and> is_markdown_file p) entries))"

definition ensure_default_user_memo :: "string \<Rightarrow> world \<Rightarrow> (string + unit) \<times> world" where
  "ensure_default_user_memo memory_dir w =
     st_bind (fs_create_dir_all memory_dir w) (\<lambda>_ w.
     st_bind (has_markdown_files w memory_dir, w) (\<lambda>found w.
       if found then (Inr (), w)
       else fs_write (path_join memory_dir ''memo.md'') default_memo_content w))"

definition ensure_user_dirs :: "user_paths \<Rightarrow> world \<Rightarrow> (user_store_error + unit) \<times> world" where
  "ensure_user_dirs paths w =
     (case st_bind (fs_create_dir_all (up_state_dir paths) w) (\<lambda>_ w.
           st_bind (fs_create_dir_all (up_memory_dir paths) w) (\<lambda>_ w.
           st_bind (fs_create_dir_all (up_secrets_dir paths) w) (\<lambda>_ w.
           st_bind (fs_create_dir_all (up_mail_root paths) w) (\<lambda>_ w.
           st_bind (fs_create_dir_all (up_workspaces_root paths) w) (\<lambda>_ w.
             ensure_default_user_memo (up_memory_dir paths) w))))) of
        (r, w) \<Rightarrow> (map_err UserIo r, w))"

subsection \<open>Normal forms of identifiers\<close>

definition is_ascii_digit :: "char \<Rightarrow> bool" where
  "is_ascii_digit c = (digit_val c \<noteq> None)"

definition normalize_phone :: "string \<Rightarrow> string option" where
  "normalize_phone raw =
     (let trimmed = trim raw in
      if trimmed = [] then None
      else let has_plus = starts_with trimmed ''+''; digits = filter is_ascii_digit trimmed in
           if digits = [] then None
           else if has_plus then Some (''+'' @ digits) else Some digits)"

text \<open>\<open>to_uppercase\<close> on the letters of ASCII; text beyond it is left as it is.\<close>

definition ascii_upper :: "char \<Rightarrow> char" where
  "ascii_upper c =
     (let n = (of_char c :: nat) in if 97 \<le> n \<and> n \<le> 122 then char_of (n - 32) else c)"

definition normalize_slack_id :: "string \<Rightarrow> string option" where
  "normalize_slack_id raw =
     (let trimmed = trim raw in if trimmed = [] then None else Some (map ascii_upper trimmed))"

text \<open>\<open>trim_matches\<close> with a set of characters.\<close>

definition trim_matches :: "char list \<Rightarrow> string \<Rightarrow> string" where
  "trim_matches cs s =
     rev (dropWhile (\<lambda>c. c \<in> set cs) (rev (dropWhile (\<lambda>c. c \<in> set cs) s)))"

definition normalize_email :: "string \<Rightarrow> string option" where
  "normalize_email raw =
     (let value = trim raw in
      if value = [] then None
      else
        let value = (case strip_prefix ''mailto:'' value of Some stripped \<Rightarrow> trim stripped | None \<Rightarrow> value);
            value = trim_matches [CHR ''<'', CHR ''>'', CHR 0x22, CHR 0x27, CHR '','', CHR '';''] value
        in if CHR ''@'' \<notin> set value then None
           else
             let parts = splitn 2 (CHR ''@'') value;
                 local = trim (unwrap_or [] (nth_opt parts 0));
                 domain = trim (unwrap_or [] (nth_opt parts 1))
             in if local = [] \<or> domain = [] then None
                else
                  let local = unwrap_or local (nth_opt (split_char (CHR ''+'') local) 0)
                  in Some (to_ascii_lowercase local @ ''@'' @ to_ascii_lowercase domain))"

definition normalize_identifier :: "string \<Rightarrow> string \<Rightarrow> string option" where
  "normalize_identifier identifier_type raw =
     (if identifier_type = ''email'' then normalize_email raw
      else if identifier_type = ''phone'' then normalize_phone raw
      else if identifier_type = ''slack'' then normalize_slack_id raw
      else let trimmed = trim raw in
           if trimmed = [] then None else Some (to_lowercase trimmed))"

text \<open>The addresses in angle brackets first, then the words of the text; each address once.\<close>

definition push_email :: "string \<Rightarrow> string list \<Rightarrow> string list" where
  "push_email raw emails =
     (case normalize_email raw of
        None \<Rightarrow> emails
      | Some email \<Rightarrow> if email \<in> set emails then emails else emails @ [email])"

function bracketed_emails :: "string list \<Rightarrow> string \<Rightarrow> string list" where
  "bracketed_emails emails remainder =
     (case dropWhile (\<lambda>c. c \<noteq> CHR ''<'') remainder of
        [] \<Rightarrow> emails
      | _ # after_start \<Rightarrow>
          (case dropWhile (\<lambda>c. c \<noteq> CHR ''>'') after_start of
             [] \<Rightarrow> emails
           | _ # rest \<Rightarrow>
               bracketed_emails (push_email (takeWhile (\<lambda>c. c \<noteq> CHR ''>'') after_start) emails) rest))"
  by pat_completeness auto
termination
proof (relation "measure (\<lambda>(emails, remainder). length remainder)")
  show "((push_email x emails, rest), emails, remainder) \<in> measure (\<lambda>(emails, remainder). length remainder)"
    if "dropWhile (\<lambda>c. c \<noteq> CHR ''<'') remainder = a # after_start"
      and "dropWhile (\<lambda>c. c \<noteq> CHR ''>'') after_start = b # rest"
    for emails remainder a after_start b rest x
  proof -
    have "length (a # after_start) \<le> length remainder" "length (b # rest) \<le> length after_start"
      using length_dropWhile_le that by metis+
    then show ?thesis by simp
  qed
qed simp

fun split_any :: "char list \<Rightarrow> string \<Rightarrow> string list" where
  "split_any ds [] = [[]]"
| "split_any ds (c # s) =
     (if c \<in> set ds then [] # split_any ds s
      else case split_any ds s of [] \<Rightarrow> [[c]] | w # ws \<Rightarrow> (c # w) # ws)"

definition extract_emails :: "string \<Rightarrow> string list" where
  "extract_emails raw =
     foldl (\<lambda>emails token. push_email token emails) (bracketed_emails [] raw)
       (split_any [CHR '','', CHR '';'', CHR '' '', CHR 0x09, CHR 0x0A, CHR 0x0D] raw)"

subsection \<open>The collection\<close>

datatype user_time = UserTime datetime | UserTimeText string | NoUserTime

record user_doc =
  ud_user_id :: "string option"
  ud_identifier_type :: "string option"
  ud_identifier :: "string option"
  ud_created_at :: user_time
  ud_last_seen_at :: user_time

text \<open>\<open>ul_access_error\<close> is the text of a failed \<open>get_str\<close> on a field, \<open>ul_rfc3339\<close> chrono's parser.\<close>

record 'c user_lib =
  ul_users :: "('c, user_doc) coll"
  ul_access_error :: "string \<Rightarrow> string"
  ul_rfc3339 :: "string \<Rightarrow> string + datetime"

type_synonym ('c, 'a) user_result = "(user_store_error + 'a) \<times> 'c"

definition user_op :: "('c \<Rightarrow> (mongo_error + 'a) \<times> 'c) \<Rightarrow> 'c \<Rightarrow> ('c, 'a) user_result" where
  "user_op f c = (case f c of (r, c) \<Rightarrow> (map_err UserMongo r, c))"

definition bson_datetime_to_utc :: "'c user_lib \<Rightarrow> user_time \<Rightarrow> string \<Rightarrow> user_store_error + datetime" where
  "bson_datetime_to_utc ul v key =
     (case v of
        UserTime t \<Rightarrow> Inr t
      | UserTimeText s \<Rightarrow> map_err UserDateTimeParse (ul_rfc3339 ul s)
      | NoUserTime \<Rightarrow> Inl (UserMongoConfig (''missing datetime field: '' @ key)))"

definition user_field :: "'c user_lib \<Rightarrow> string option \<Rightarrow> string \<Rightarrow> user_store_error + string" where
  "user_field ul v key =
     (case v of
        Some s \<Rightarrow> Inr s
      | None \<Rightarrow> Inl (UserMongoConfig (''missing '' @ key @ '': '' @ ul_access_error ul key)))"

definition document_to_user_record :: "'c user_lib \<Rightarrow> user_doc \<Rightarrow> user_store_error + user_record" where
  "document_to_user_record ul d =
     res_bind (user_field ul (ud_user_id d) ''user_id'') (\<lambda>user_id.
     res_bind (user_field ul (ud_identifier_type d) ''identifier_type'') (\<lambda>identifier_type.
     res_bind (user_field ul (ud_identifier d) ''identifier'') (\<lambda>identifier.
     res_bind (bson_datetime_to_utc ul (ud_created_at d) ''created_at'') (\<lambda>created_at.
     res_bind (bson_datetime_to_utc ul (ud_last_seen_at d) ''last_seen_at'') (\<lambda>last_seen_at.
       Inr \<lparr>ur_user_id = user_id, ur_identifier_type = identifier_type, ur_identifier = identifier,
            ur_created_at = created_at, ur_last_seen_at = last_seen_at\<rparr>)))))"

definition last_seen_update_interval_secs :: int where
  "last_seen_update_interval_secs = 5 * 60"

definition should_refresh_last_seen :: "datetime \<Rightarrow> datetime \<Rightarrow> bool" where
  "should_refresh_last_seen last_seen_at now =
     (num_seconds (now - last_seen_at) \<ge> last_seen_update_interval_secs)"

definition by_identifier :: "string \<Rightarrow> string \<Rightarrow> user_doc \<Rightarrow> bool" where
  "by_identifier identifier_type identifier d =
     (ud_identifier_type d = Some identifier_type \<and> ud_identifier d = Some identifier)"

text \<open>\<open>find_one\<close> is the first document of the find.\<close>

definition find_user :: "'c user_lib \<Rightarrow> string \<Rightarrow> string \<Rightarrow> 'c \<Rightarrow> ('c, user_doc option) user_result" where
  "find_user ul identifier_type identifier c =
     st_bind (user_op (c_find (ul_users ul) (by_identifier identifier_type identifier)) c)
       (\<lambda>ds c. (Inr (nth_opt ds 0), c))"

definition get_user_by_identifier ::
    "'c user_lib \<Rightarrow> string \<Rightarrow> string \<Rightarrow> 'c \<Rightarrow> ('c, user_record option) user_result" where
  "get_user_by_identifier ul identifier_type identifier c =
     (case normalize_identifier identifier_type identifier of
        None \<Rightarrow> (Inl (InvalidIdentifier identifier), c)
      | Some normalized \<Rightarrow>
          st_bind (find_user ul identifier_type normalized c) (\<lambda>found c.
            (case found of
               None \<Rightarrow> Inr None
             | Some d \<Rightarrow> res_bind (document_to_user_record ul d) (\<lambda>r. Inr (Some r)), c)))"

text \<open>
  The two halves of \<open>get_or_create_user\<close>, between which other requests can reach the
  collection: looking for the user, and inserting a new one.
\<close>

definition existing_user ::
    "'c user_lib \<Rightarrow> string \<Rightarrow> string \<Rightarrow> datetime \<Rightarrow> 'c \<Rightarrow> ('c, user_record option) user_result" where
  "existing_user ul identifier_type normalized now c =
     st_bind (find_user ul identifier_type normalized c) (\<lambda>found c.
       case found of
         None \<Rightarrow> (Inr None, c)
       | Some d \<Rightarrow>
           st_bind (document_to_user_record ul d, c) (\<lambda>rec c.
             if should_refresh_last_seen (ur_last_seen_at rec) now
             then st_bind (user_op (c_update_one (ul_users ul) (\<lambda>d. ud_user_id d = Some (ur_user_id rec))
                             (\<lambda>d. d\<lparr>ud_last_seen_at := UserTime (bson_time now)\<rparr>)) c)
                    (\<lambda>_ c. (Inr (Some (rec\<lparr>ur_last_seen_at := now\<rparr>)), c))
             else (Inr (Some rec), c)))"

definition new_user_doc :: "string \<Rightarrow> string \<Rightarrow> uuid \<Rightarrow> datetime \<Rightarrow> user_doc" where
  "new_user_doc identifier_type normalized new_user_id now =
     \<lparr>ud_user_id = Some new_user_id, ud_identifier_type = Some identifier_type,
      ud_identifier = Some normalized, ud_created_at = UserTime (bson_time now),
      ud_last_seen_at = UserTime (bson_time now)\<rparr>"

definition insert_user ::
    "'c user_lib \<Rightarrow> string \<Rightarrow> string \<Rightarrow> datetime \<Rightarrow> uuid \<Rightarrow> 'c \<Rightarrow> ('c, user_record) user_result" where
  "insert_user ul identifier_type normalized now new_user_id c =
     (case c_insert_one (ul_users ul) (new_user_doc identifier_type normalized new_user_id now) c of
        (Inr _, c) \<Rightarrow>
          (Inr \<lparr>ur_user_id = new_user_id, ur_identifier_type = identifier_type, ur_identifier = normalized,
                ur_created_at = now, ur_last_seen_at = now\<rparr>, c)
      | (Inl err, c) \<Rightarrow>
          st_bind (find_user ul identifier_type normalized c) (\<lambda>found c.
            (case found of
               Some d \<Rightarrow> document_to_user_record ul d
             | None \<Rightarrow> Inl (UserMongo err), c)))"

definition get_or_create_user ::
    "'c user_lib \<Rightarrow> string \<Rightarrow> string \<Rightarrow> datetime \<Rightarrow> uuid \<Rightarrow> 'c \<Rightarrow> ('c, user_record) user_result" where
  "get_or_create_user ul identifier_type identifier now new_user_id c =
     (case normalize_identifier identifier_type identifier of
        None \<Rightarrow> (Inl (InvalidIdentifier identifier), c)
      | Some normalized \<Rightarrow>
          st_bind (existing_user ul identifier_type normalized now c) (\<lambda>found c.
            case found of
              Some r \<Rightarrow> (Inr r, c)
            | None \<Rightarrow> insert_user ul identifier_type normalized now new_user_id c))"

text \<open>\<open>find\<close> sorted by \<open>created_at\<close>, oldest first; a sort key that is no time comes first.\<close>

definition created_key :: "user_doc \<Rightarrow> int" where
  "created_key d = (case ud_created_at d of UserTime t \<Rightarrow> t | _ \<Rightarrow> i64_min)"

definition list_user_ids :: "'c user_lib \<Rightarrow> 'c \<Rightarrow> ('c, string list) user_result" where
  "list_user_ids ul c =
     st_bind (user_op (c_find_desc (ul_users ul) (\<lambda>_. True) (\<lambda>d. - created_key d)) c)
       (\<lambda>ds c. (Inr (List.map_filter ud_user_id ds), c))"

definition lookup_user_id_by_identifier ::
    "'c user_lib option \<Rightarrow> string \<Rightarrow> string \<Rightarrow> 'c \<Rightarrow> string option \<times> 'c" where
  "lookup_user_id_by_identifier store identifier_type identifier c =
     (case store of
        None \<Rightarrow> (None, c)
      | Some ul \<Rightarrow>
          (case get_user_by_identifier ul identifier_type identifier c of
             (Inr (Some r), c) \<Rightarrow> (Some (ur_user_id r), c)
           | (_, c) \<Rightarrow> (None, c)))"

end
