(* ===== verification/Due_Task.thy ===== *)
theory Due_Task
  imports Worker_Claims Reconcile_Properties Scheduler_Core User_Store
begin

text \<open>
  What a worker thread does with a due task, \<open>execute_due_task\<close> of \<open>service/scheduler.rs\<close>: it
  reconciles lost executions of the task, loads the scheduler of the user, makes sure that no
  other run of the task or of its workspace is going on, runs the task and updates the index.
  Log lines and the summaries they print are left out.
\<close>

subsection \<open>State and libraries\<close>

record running_thread =
  rth_task_id :: uuid
  rth_thread_epoch :: u64

text \<open>
  What a worker works on: its scheduler (\<open>ds_system\<close>, with the store and the world that all
  threads share), the index, the workspaces in use and the backoffs.
\<close>

record ('t, 'e, 'x) due_state =
  ds_system :: "('t, 'e) system"
  ds_index :: 'x
  ds_threads :: "(string \<times> running_thread) list"
  ds_backoffs :: "(string \<times> datetime) list"

text \<open>
  \<open>du_open_shared\<close> tells whether the store can be opened with the client all threads share,
  \<open>du_stale_after\<close> is what \<open>resolve_stale_execution_timeout\<close> gives for the environment of the
  process, \<open>du_parse_uuid\<close> is \<open>Uuid::parse_str\<close>.
\<close>

record ('t, 'e, 'j, 'a, 'x) due_lib =
  du_core :: "('t, 'e, 'j, 'a) core_lib"
  du_reconcile :: "('t, 'e, 'j) reconcile_lib"
  du_index :: "'x index_lib"
  du_parse_uuid :: "string \<Rightarrow> string + uuid"
  du_open_shared :: "string \<Rightarrow> scheduler_error option"
  du_stale_after :: duration
  du_users_root :: string
  du_workspace_root :: string

datatype due_error = DueUuid string | DueScheduler scheduler_error | DueIndex index_store_error

definition on_system ::
    "(('t, 'e) system \<Rightarrow> ('t, 'e, 'b) sys_result) \<Rightarrow> ('t, 'e, 'x) due_state
     \<Rightarrow> (scheduler_error + 'b) \<times> ('t, 'e, 'x) due_state" where
  "on_system op s = (case op (ds_system s) of (r, y) \<Rightarrow> (r, s\<lparr>ds_system := y\<rparr>))"

definition thread_supersede_defer_secs :: int where
  "thread_supersede_defer_secs = 1"

definition busy_defer_secs :: int where
  "busy_defer_secs = 15"

definition thread_busy_defer_secs :: "u64 \<Rightarrow> u64 \<Rightarrow> int" where
  "thread_busy_defer_secs task_epoch running_epoch =
     (if task_epoch > running_epoch then thread_supersede_defer_secs else busy_defer_secs)"

subsection \<open>Where the tasks of a user are\<close>

definition discord_guild_tasks_db_path :: "string \<Rightarrow> string \<Rightarrow> string" where
  "discord_guild_tasks_db_path workspace_root guild_id =
     path_join (path_join (path_join (path_join workspace_root ''discord'') guild_id) ''state'') ''tasks.db''"

definition tasks_db_path_of :: "('t, 'e, 'j, 'a, 'x) due_lib \<Rightarrow> string \<Rightarrow> string" where
  "tasks_db_path_of du user_id =
     (case strip_prefix ''discord:'' user_id of
        Some guild_id \<Rightarrow> discord_guild_tasks_db_path (du_workspace_root du) guild_id
      | None \<Rightarrow> up_tasks_db_path (user_paths_of (du_users_root du) user_id))"

definition open_scope :: "('t, 'e, 'j, 'a) core_lib \<Rightarrow> string \<Rightarrow> ('t, 'e) system \<Rightarrow> ('t, 'e) system" where
  "open_scope co path y =
     (case resolve_owner_scope (nl_md5 (co_notify co)) (co_is_account co) path of
        (kind, i) \<Rightarrow> y\<lparr>sy_store := (sy_store y)\<lparr>s_owner_kind := kind, s_owner_id := i\<rparr>\<rparr>)"

text \<open>\<open>Scheduler::load\<close> of a path: a store of its own, then the tasks.\<close>

definition load_scheduler ::
    "('t, 'e, 'j, 'a) core_lib \<Rightarrow> string \<Rightarrow> ('t, 'e) system \<Rightarrow> ('t, 'e, unit) sys_result" where
  "load_scheduler co path y =
     (case co_open_store co path of
        Some err \<Rightarrow> (Inl err, y)
      | None \<Rightarrow> scheduler_load (co_store co) (open_scope co path y))"

definition reconcile_before_load ::
    "('t, 'e, 'j, 'a, 'x) due_lib \<Rightarrow> string \<Rightarrow> string \<Rightarrow> ('t, 'e) system \<Rightarrow> ('t, 'e) system" where
  "reconcile_before_load du path task_id y =
     (case du_open_shared du path of
        Some _ \<Rightarrow> y
      | None \<Rightarrow>
          let y = open_scope (du_core du) path y; (now, y) = on_world utc_now y
          in snd (reconcile_stale_running_executions_for_task (du_reconcile du) y task_id now (du_stale_after du)))"

subsection \<open>The slot of a workspace\<close>

text \<open>Workspace and epoch of a run, for which a slot is needed.\<close>

definition slot_of :: "scheduled_task list \<Rightarrow> uuid \<Rightarrow> (string \<times> u64) option" where
  "slot_of tasks task_id =
     Option.bind (List.find (\<lambda>t. t_id t = task_id) tasks) (\<lambda>task.
       case t_kind task of
         RunTask run \<Rightarrow> Some (rt_workspace_dir run, unwrap_or 0 (rt_thread_epoch run))
       | _ \<Rightarrow> None)"

definition insert_slot :: "string \<Rightarrow> uuid \<Rightarrow> u64 \<Rightarrow> ('t, 'e, 'x) due_state \<Rightarrow> ('t, 'e, 'x) due_state" where
  "insert_slot key task_id epoch s =
     s\<lparr>ds_threads := AList.update key \<lparr>rth_task_id = task_id, rth_thread_epoch = epoch\<rparr> (ds_threads s)\<rparr>"

text \<open>\<open>RunningThreadGuard::drop\<close>.\<close>

definition drop_guard :: "string option \<Rightarrow> ('t, 'e, 'x) due_state \<Rightarrow> ('t, 'e, 'x) due_state" where
  "drop_guard guard s =
     (case guard of None \<Rightarrow> s | Some key \<Rightarrow> s\<lparr>ds_threads := AList.delete key (ds_threads s)\<rparr>)"

text \<open>Whether the run that holds the slot is on record; an error counts as if it were.\<close>

definition owner_still_runs ::
    "('t, 'e, 'j, 'a, 'x) due_lib \<Rightarrow> running_thread \<Rightarrow> ('t, 'e) system \<Rightarrow> bool \<times> ('t, 'e) system" where
  "owner_still_runs du running y =
     (let (now, y) = on_world utc_now y;
          y = snd (reconcile_stale_running_executions_for_task (du_reconcile du) y (rth_task_id running) now
                     (du_stale_after du))
      in case on_store (\<lambda>s. store_has_running_execution (co_store (du_core du)) s (rth_task_id running)) y of
           (Inr False, y) \<Rightarrow> (False, y)
         | (_, y) \<Rightarrow> (True, y))"

definition take_slot ::
    "string \<Rightarrow> running_thread \<Rightarrow> ('t, 'e, 'x) due_state \<Rightarrow> bool \<times> ('t, 'e, 'x) due_state" where
  "take_slot key running s =
     (case map_of (ds_threads s) key of
        Some active \<Rightarrow>
          if rth_task_id active = rth_task_id running
          then (True, s\<lparr>ds_threads := AList.delete key (ds_threads s)\<rparr>) else (False, s)
      | None \<Rightarrow> (False, s))"

definition try_reclaim_orphaned_thread_claim ::
    "('t, 'e, 'j, 'a, 'x) due_lib \<Rightarrow> string \<Rightarrow> running_thread \<Rightarrow> ('t, 'e, 'x) due_state
     \<Rightarrow> bool \<times> ('t, 'e, 'x) due_state" where
  "try_reclaim_orphaned_thread_claim du key running s =
     (case owner_still_runs du running (ds_system s) of
        (True, y) \<Rightarrow> (False, s\<lparr>ds_system := y\<rparr>)
      | (False, y) \<Rightarrow> take_slot key running (s\<lparr>ds_system := y\<rparr>))"

text \<open>What claiming gives: a guard on the workspace, or the seconds by which the task is put off.\<close>

record thread_execution_claim =
  tc_guard :: "string option"
  tc_deferred :: "int option"

definition no_claim :: thread_execution_claim where
  "no_claim = \<lparr>tc_guard = None, tc_deferred = None\<rparr>"

definition defer_busy_task ::
    "('t, 'e, 'j, 'a, 'x) due_lib \<Rightarrow> uuid \<Rightarrow> u64 \<Rightarrow> running_thread \<Rightarrow> ('t, 'e, 'x) due_state
     \<Rightarrow> (scheduler_error + thread_execution_claim) \<times> ('t, 'e, 'x) due_state" where
  "defer_busy_task du task_id task_epoch running s =
     (let defer_secs = thread_busy_defer_secs task_epoch (rth_thread_epoch running)
      in st_bind (on_system (\<lambda>y. defer_one_shot_task_by_id (co_store (du_core du)) y task_id (secs defer_secs)) s)
           (\<lambda>_ s. (Inr (no_claim\<lparr>tc_deferred := Some defer_secs\<rparr>), s)))"

definition claim_thread_execution_slot ::
    "('t, 'e, 'j, 'a, 'x) due_lib \<Rightarrow> uuid \<Rightarrow> ('t, 'e, 'x) due_state
     \<Rightarrow> (scheduler_error + thread_execution_claim) \<times> ('t, 'e, 'x) due_state" where
  "claim_thread_execution_slot du task_id s =
     (case slot_of (sy_tasks (ds_system s)) task_id of
        None \<Rightarrow> (Inr no_claim, s)
      | Some (key, task_epoch) \<Rightarrow>
          (case map_of (ds_threads s) key of
             None \<Rightarrow> (Inr (no_claim\<lparr>tc_guard := Some key\<rparr>), insert_slot key task_id task_epoch s)
           | Some running \<Rightarrow>
               (case try_reclaim_orphaned_thread_claim du key running s of
                  (False, s) \<Rightarrow> defer_busy_task du task_id task_epoch running s
                | (True, s) \<Rightarrow>
                    (case map_of (ds_threads s) key of
                       Some active \<Rightarrow> defer_busy_task du task_id task_epoch active s
                     | None \<Rightarrow> (Inr (no_claim\<lparr>tc_guard := Some key\<rparr>),
                               insert_slot key task_id task_epoch s)))))"

subsection \<open>The whole of it\<close>

definition sync_index ::
    "('t, 'e, 'j, 'a, 'x) due_lib \<Rightarrow> string \<Rightarrow> ('t, 'e, 'x) due_state
     \<Rightarrow> (due_error + unit) \<times> ('t, 'e, 'x) due_state" where
  "sync_index du user_id s =
     (case sync_user_tasks (du_index du) user_id (sy_tasks (ds_system s)) (ds_index s) of
        (r, x) \<Rightarrow> (map_err DueIndex r, s\<lparr>ds_index := x\<rparr>))"

definition record_backoff :: "task_ref \<Rightarrow> ('t, 'e, 'x) due_state \<Rightarrow> ('t, 'e, 'x) due_state" where
  "record_backoff r s =
     (let (now, y) = on_world utc_now (ds_system s)
      in s\<lparr>ds_system := y, ds_backoffs := record_mongo_running_backoff (ds_backoffs s) (ref_key r) now\<rparr>)"

text \<open>What follows the run: the index is brought in line with the tasks, after a success with
  those now in the store.\<close>

definition after_run ::
    "('t, 'e, 'j, 'a, 'x) due_lib \<Rightarrow> task_ref \<Rightarrow> scheduler_error + bool \<Rightarrow> ('t, 'e, 'x) due_state
     \<Rightarrow> (due_error + unit) \<times> ('t, 'e, 'x) due_state" where
  "after_run du r executed s =
     (case executed of
        Inr True \<Rightarrow>
          let s = snd (on_system (on_store (\<lambda>st. store_reset_retry_count (co_store (du_core du)) st (tr_task_id r))) s)
          in (case on_system (load_scheduler (du_core du) (tasks_db_path_of du (tr_user_id r))) s of
                (Inr _, s) \<Rightarrow> sync_index du (tr_user_id r) s
              | (Inl err, s) \<Rightarrow> (Inl (DueScheduler err), snd (sync_index du (tr_user_id r) s)))
      | Inr False \<Rightarrow> sync_index du (tr_user_id r) s
      | Inl err \<Rightarrow> (Inl (DueScheduler err), snd (sync_index du (tr_user_id r) s)))"

definition run_claimed ::
    "('t, 'e, 'j, 'a, 'x) due_lib \<Rightarrow> task_ref \<Rightarrow> uuid \<Rightarrow> ('t, 'e, 'x) due_state
     \<Rightarrow> (due_error + unit) \<times> ('t, 'e, 'x) due_state" where
  "run_claimed du r task_id s =
     (case claim_thread_execution_slot du task_id s of
        (Inl err, s) \<Rightarrow> (Inl (DueScheduler err), s)
      | (Inr claim, s) \<Rightarrow>
          (case tc_deferred claim of
             Some _ \<Rightarrow> (Inr (), snd (sync_index du (tr_user_id r) s))
           | None \<Rightarrow>
               (case on_system (\<lambda>y. execute_task_by_id (du_core du) y task_id) s of
                  (executed, s) \<Rightarrow> after_run du r executed (drop_guard (tc_guard claim) s))))"

definition execute_due_task ::
    "('t, 'e, 'j, 'a, 'x) due_lib \<Rightarrow> task_ref \<Rightarrow> ('t, 'e, 'x) due_state
     \<Rightarrow> (due_error + unit) \<times> ('t, 'e, 'x) due_state" where
  "execute_due_task du r s =
     (case du_parse_uuid du (tr_task_id r) of
        Inl e \<Rightarrow> (Inl (DueUuid e), s)
      | Inr task_id \<Rightarrow>
          let path = tasks_db_path_of du (tr_user_id r);
              s = s\<lparr>ds_system := reconcile_before_load du path (tr_task_id r) (ds_system s)\<rparr>
          in (case on_system (load_scheduler (du_core du) path) s of
                (Inl err, s) \<Rightarrow> (Inl (DueScheduler err), s)
              | (Inr _, s) \<Rightarrow>
                  (case on_system (on_store (\<lambda>st.
                            store_has_running_execution (co_store (du_core du)) st (tr_task_id r))) s of
                     (Inr True, s) \<Rightarrow> (Inr (), record_backoff r s)
                   | (_, s) \<Rightarrow> run_claimed du r task_id s)))"

subsection \<open>The index afterwards\<close>

lemma sync_index_mirrors:
  assumes "index_collection (il_coll (du_index du)) docs" and "\<not> il_is_account (du_index du) u"
    and "sync_index du u s = (Inr x, s')"
  shows "\<forall>i. indexed_run u (docs (ds_index s')) i = enabled_run (sy_tasks (ds_system s')) i"
proof -
  from assms(3) obtain y where "sync_user_tasks (du_index du) u (sy_tasks (ds_system s)) (ds_index s) = (Inr y, ds_index s')"
    and "ds_system s' = ds_system s"
    by (auto simp: sync_index_def map_err_eq_Inr split: prod.splits)
  with index_collection.sync_effect [OF assms(1) refl _ assms(2)] show ?thesis by auto
qed

lemma after_run_mirrors:
  assumes "index_collection (il_coll (du_index du)) docs" and "\<not> il_is_account (du_index du) (tr_user_id r)"
    and "after_run du r ex s = (Inr x, s')"
  shows "\<forall>i. indexed_run (tr_user_id r) (docs (ds_index s')) i = enabled_run (sy_tasks (ds_system s')) i"
proof -
  have "\<exists>s1. sync_index du (tr_user_id r) s1 = (Inr x, s')"
    using assms(3) by (auto simp: after_run_def Let_def split: sum.splits bool.splits prod.splits)
  with sync_index_mirrors [OF assms(1,2)] show ?thesis by blast
qed

lemma on_system_index: "on_system op s = (r, s') \<Longrightarrow> ds_index s' = ds_index s"
  by (auto simp: on_system_def split: prod.splits)

lemma claim_index:
  assumes "claim_thread_execution_slot du i s = (r, s')"
  shows "ds_index s' = ds_index s"
proof -
  have put_off: "ds_index s2 = ds_index s1" if "defer_busy_task du i e rt s1 = (q, s2)" for e rt s1 q s2
    using that by (auto simp: defer_busy_task_def st_bind_def Let_def split: prod.splits sum.splits dest: on_system_index)
  have reclaim: "ds_index s1 = ds_index s" if "try_reclaim_orphaned_thread_claim du key rt s = (q, s1)" for key rt q s1
    using that by (auto simp: try_reclaim_orphaned_thread_claim_def take_slot_def
        split: prod.splits bool.splits option.splits if_splits)
  from assms show ?thesis
    by (auto simp: claim_thread_execution_slot_def insert_slot_def
        split: option.splits prod.splits bool.splits dest!: put_off dest: reclaim)
qed

lemma on_system_snd [simp]: "ds_index (snd (on_system op s)) = ds_index s"
  by (simp add: on_system_def split: prod.splits)

text \<open>Nothing is written to the index for the identifier of an account.\<close>

lemma sync_index_account: "il_is_account (du_index du) u \<Longrightarrow> sync_index du u s = (Inr (), s)"
  by (simp add: sync_index_def sync_user_tasks_def should_schedule_for_user_id_def)

lemma after_run_account:
  assumes "il_is_account (du_index du) (tr_user_id r)" and "after_run du r ex s = (x, s')"
  shows "ds_index s' = ds_index s"
  using assms(2) by (auto simp: after_run_def Let_def sync_index_account [OF assms(1)]
      split: sum.splits bool.splits prod.splits dest: on_system_index)

lemma account_index_kept:
  assumes "il_is_account (du_index du) (tr_user_id r)" and "execute_due_task du r s = (x, s')"
  shows "ds_index s' = ds_index s"
proof -
  have claimed: "ds_index s2 = ds_index s1" if "run_claimed du r i s1 = (q, s2)" for i s1 q s2
    using that
    by (auto simp: run_claimed_def drop_guard_def sync_index_account [OF assms(1)]
        split: sum.splits option.splits prod.splits
        dest!: claim_index on_system_index after_run_account [OF assms(1)])
  from assms(2) show ?thesis
    by (auto simp: execute_due_task_def Let_def record_backoff_def
        split: sum.splits bool.splits prod.splits dest!: claimed on_system_index)
qed

lemma index_mirrors_run:
  assumes "index_collection (il_coll (du_index du)) docs" and "\<not> il_is_account (du_index du) (tr_user_id r)"
    and "execute_due_task du r s = (Inr x, s')"
  shows "(\<forall>i. indexed_run (tr_user_id r) (docs (ds_index s')) i = enabled_run (sy_tasks (ds_system s')) i)
       \<or> ds_index s' = ds_index s \<and> (\<exists>now. map_of (ds_backoffs s') (ref_key r) = Some (now + secs 30))
       \<or> (\<exists>e. sync_user_tasks (du_index du) (tr_user_id r) (sy_tasks (ds_system s')) (ds_index s)
               = (Inl e, ds_index s'))"
proof -
  let ?path = "tasks_db_path_of du (tr_user_id r)"
  let ?s = "s\<lparr>ds_system := reconcile_before_load du ?path (tr_task_id r) (ds_system s)\<rparr>"
  from assms(3) obtain i where i: "du_parse_uuid du (tr_task_id r) = Inr i"
    by (auto simp: execute_due_task_def split: sum.splits)
  with assms(3) obtain u s1 where l: "on_system (load_scheduler (du_core du) ?path) ?s = (Inr u, s1)"
    by (auto simp: execute_due_task_def Let_def split: prod.splits sum.splits)
  then have x1: "ds_index s1 = ds_index s" by (auto dest: on_system_index)
  obtain h s2 where h: "on_system (on_store (\<lambda>st.
      store_has_running_execution (co_store (du_core du)) st (tr_task_id r))) s1 = (h, s2)" by fastforce
  then have x2: "ds_index s2 = ds_index s1" by (auto simp: on_system_def split: prod.splits)
  show ?thesis
  proof (cases "h = Inr True")
    case True
    with assms(3) i l h have "s' = record_backoff r s2" by (auto simp: execute_due_task_def Let_def)
    then have "ds_index s' = ds_index s \<and> (\<exists>now. map_of (ds_backoffs s') (ref_key r) = Some (now + secs 30))"
      using x1 x2 by (auto simp: record_backoff_def record_mongo_running_backoff_def
          mongo_running_defer_deadline_def mongo_running_defer_secs_def update_conv' split: prod.splits)
    then show ?thesis by blast
  next
    case False
    with assms(3) i l h have run: "run_claimed du r i s2 = (Inr x, s')"
      by (auto simp: execute_due_task_def Let_def split: sum.splits bool.splits)
    then obtain claim s3 where c: "claim_thread_execution_slot du i s2 = (Inr claim, s3)"
      by (auto simp: run_claimed_def split: prod.splits sum.splits)
    show ?thesis
    proof (cases "tc_deferred claim")
      case None
      with run c obtain ex s4 where "after_run du r ex s4 = (Inr x, s')"
        by (auto simp: run_claimed_def split: prod.splits)
      from after_run_mirrors [OF assms(1,2) this] show ?thesis by blast
    next
      case (Some d)
      obtain y s4 where y: "sync_index du (tr_user_id r) s3 = (y, s4)" by fastforce
      with run c Some have s': "s' = s4" by (simp add: run_claimed_def)
      show ?thesis
      proof (cases y)
        case (Inr z)
        with sync_index_mirrors [OF assms(1,2)] y s' show ?thesis by blast
      next
        case (Inl e)
        with y obtain e' where "sync_user_tasks (du_index du) (tr_user_id r) (sy_tasks (ds_system s3)) (ds_index s3)
            = (Inl e', ds_index s4)" and "ds_system s4 = ds_system s3"
          by (auto simp: sync_index_def map_err_eq_Inl split: prod.splits)
        with s' claim_index [OF c] x1 x2 show ?thesis by metis
      qed
    qed
  qed
qed

text \<open>
  C29.  When the handling of a due task succeeds for a user whose identifier is not that of an
  account, the index lists for the user just the enabled tasks of the scheduler at that moment with
  their next runs, so a finished task is not picked up again and a new or postponed one is found,
  except in two cases: another run of the task is on record, and then the index is left alone and
  the task passed over for thirty seconds; or the index could not be written when a busy workspace
  put the task off.  For the identifier of an account the index is never written.
\<close>

theorem index_follows_run:
  assumes "index_collection (il_coll (du_index du)) docs" and "execute_due_task du r s = (Inr x, s')"
  shows "if il_is_account (du_index du) (tr_user_id r) then ds_index s' = ds_index s
       else (\<forall>i. indexed_run (tr_user_id r) (docs (ds_index s')) i = enabled_run (sy_tasks (ds_system s')) i)
         \<or> ds_index s' = ds_index s \<and> (\<exists>now. map_of (ds_backoffs s') (ref_key r) = Some (now + secs 30))
         \<or> (\<exists>e. sync_user_tasks (du_index du) (tr_user_id r) (sy_tasks (ds_system s')) (ds_index s)
                 = (Inl e, ds_index s'))"
  using account_index_kept [OF _ assms(2)] index_mirrors_run [OF assms(1) _ assms(2)] by simp

subsection \<open>The slots afterwards\<close>

text \<open>The system of a worker when it asks for the slot: tasks loaded, running executions looked up.\<close>

definition system_at_claim ::
    "('t, 'e, 'j, 'a, 'x) due_lib \<Rightarrow> task_ref \<Rightarrow> ('t, 'e, 'x) due_state \<Rightarrow> ('t, 'e) system" where
  "system_at_claim du r s =
     (let path = tasks_db_path_of du (tr_user_id r);
          y = reconcile_before_load du path (tr_task_id r) (ds_system s);
          y = snd (load_scheduler (du_core du) path y)
      in snd (on_store (\<lambda>st. store_has_running_execution (co_store (du_core du)) st (tr_task_id r)) y))"

text \<open>The slots in use are those of before, except that the one of the task's workspace may be
  gone when its owner had no run on record.\<close>

definition slots_given_back ::
    "('t, 'e, 'j, 'a, 'x) due_lib \<Rightarrow> uuid \<Rightarrow> ('t, 'e) system \<Rightarrow> (string \<times> running_thread) list
     \<Rightarrow> (string \<times> running_thread) list \<Rightarrow> bool" where
  "slots_given_back du i y old new =
     (map_of new \<subseteq>\<^sub>m map_of old
      \<and> (\<forall>key rt. map_of old key = Some rt \<longrightarrow> map_of new key = None \<longrightarrow>
           (\<exists>epoch. slot_of (sy_tasks y) i = Some (key, epoch)) \<and> \<not> fst (owner_still_runs du rt y)))"

lemma slots_same [simp]: "slots_given_back du i y old old"
  by (simp add: slots_given_back_def)

lemma slots_cut:
  assumes "slot_of (sy_tasks y) i = Some (key, epoch)" and "\<forall>k. k \<noteq> key \<longrightarrow> map_of new k = map_of old k"
    and "map_of new key = None" and "\<And>rt. map_of old key = Some rt \<Longrightarrow> \<not> fst (owner_still_runs du rt y)"
  shows "slots_given_back du i y old new"
proof -
  have "map_of new k = (if k = key then None else map_of old k)" for k using assms(2,3) by simp
  then show ?thesis using assms(1,4) by (auto simp: slots_given_back_def map_le_def split: if_splits)
qed

lemma on_system_threads: "on_system op s = (r, s') \<Longrightarrow> ds_threads s' = ds_threads s"
  by (auto simp: on_system_def split: prod.splits)

lemma on_system_snd_threads [simp]: "ds_threads (snd (on_system op s)) = ds_threads s"
  by (simp add: on_system_def split: prod.splits)

lemma sync_index_threads: "sync_index du u s = (r, s') \<Longrightarrow> ds_threads s' = ds_threads s"
  by (auto simp: sync_index_def split: prod.splits)

lemma sync_index_snd_threads [simp]: "ds_threads (snd (sync_index du u s)) = ds_threads s"
  by (simp add: sync_index_def split: prod.splits)

lemma after_run_threads: "after_run du r ex s = (x, s') \<Longrightarrow> ds_threads s' = ds_threads s"
  by (auto simp: after_run_def Let_def split: sum.splits bool.splits prod.splits
      dest!: sync_index_threads on_system_threads)

lemma defer_threads: "defer_busy_task du i e rt s = (x, s') \<Longrightarrow> ds_threads s' = ds_threads s"
  by (auto simp: defer_busy_task_def st_bind_def Let_def split: prod.splits sum.splits dest: on_system_threads)

lemma defer_guard: "defer_busy_task du i e rt s = (Inr c, s') \<Longrightarrow> tc_guard c = None"
  by (auto simp: defer_busy_task_def no_claim_def st_bind_def Let_def split: prod.splits sum.splits)

lemma reclaim_threads:
  assumes "try_reclaim_orphaned_thread_claim du key rt s = (b, s')" and "map_of (ds_threads s) key = Some rt"
  shows "if b then \<not> fst (owner_still_runs du rt (ds_system s)) \<and> ds_threads s' = AList.delete key (ds_threads s)
         else ds_threads s' = ds_threads s"
  using assms by (auto simp: try_reclaim_orphaned_thread_claim_def take_slot_def split: prod.splits bool.splits if_splits)

lemma claim_gives_back:
  assumes "claim_thread_execution_slot du i s = (x, s')"
  shows "case x of
      Inl e \<Rightarrow> slots_given_back du i (ds_system s) (ds_threads s) (ds_threads s')
    | Inr c \<Rightarrow> slots_given_back du i (ds_system s) (ds_threads s) (ds_threads (drop_guard (tc_guard c) s'))"
proof (cases "slot_of (sy_tasks (ds_system s)) i")
  case None
  with assms show ?thesis by (auto simp: claim_thread_execution_slot_def no_claim_def drop_guard_def)
next
  case (Some slot)
  obtain key epoch where slot: "slot_of (sy_tasks (ds_system s)) i = Some (key, epoch)" using Some by (cases slot) simp
  note cut = slots_cut [OF slot]
  show ?thesis
  proof (cases "map_of (ds_threads s) key")
    case None
    with assms slot show ?thesis
      by (auto simp: claim_thread_execution_slot_def no_claim_def drop_guard_def insert_slot_def delete_conv' update_conv'
          intro!: cut)
  next
    case (Some rt)
    obtain b s1 where r: "try_reclaim_orphaned_thread_claim du key rt s = (b, s1)" by fastforce
    note eff = reclaim_threads [OF r Some]
    show ?thesis
    proof (cases b)
      case False
      with assms slot Some r have "defer_busy_task du i epoch rt s1 = (x, s')"
        by (simp add: claim_thread_execution_slot_def)
      from defer_threads [OF this] defer_guard [of du i epoch rt s1 _ s'] this eff False show ?thesis
        by (auto simp: drop_guard_def split: sum.splits)
    next
      case True
      with eff have free: "map_of (ds_threads s1) key = None" by (simp add: delete_conv')
      with assms slot Some r True have "x = Inr (no_claim\<lparr>tc_guard := Some key\<rparr>)" "s' = insert_slot key i epoch s1"
        by (simp_all add: claim_thread_execution_slot_def)
      with eff True Some show ?thesis
        by (auto simp: no_claim_def drop_guard_def insert_slot_def delete_conv' update_conv' intro!: cut)
    qed
  qed
qed

lemma run_claimed_gives_back:
  assumes "run_claimed du r i s = (x, s')"
  shows "slots_given_back du i (ds_system s) (ds_threads s) (ds_threads s')"
proof -
  obtain c s1 where claim: "claim_thread_execution_slot du i s = (c, s1)" by fastforce
  note given = claim_gives_back [OF claim]
  show ?thesis
  proof (cases c)
    case (Inl e)
    with assms claim given show ?thesis by (simp add: run_claimed_def)
  next
    case (Inr g)
    show ?thesis
    proof (cases "tc_deferred g")
      case None
      obtain ex s2 where run: "on_system (\<lambda>y. execute_task_by_id (du_core du) y i) s1 = (ex, s2)" by fastforce
      with assms claim Inr None have "after_run du r ex (drop_guard (tc_guard g) s2) = (x, s')"
        by (simp add: run_claimed_def)
      from after_run_threads [OF this] on_system_threads [OF run] given Inr show ?thesis
        by (simp add: drop_guard_def split: option.splits)
    next
      case (Some d)
      have "tc_guard g = None"
        using claim Inr Some
        by (auto simp: claim_thread_execution_slot_def no_claim_def split: option.splits prod.splits bool.splits
            dest!: defer_guard)
      with assms claim given Inr Some show ?thesis by (auto simp: run_claimed_def drop_guard_def)
    qed
  qed
qed

text \<open>
  C27.  A worker gives its slot back however its task ends.  After the handling of a due task,
  whether it succeeded, failed or was put off, and as long as no other worker came in between, the
  slots of workspaces in use are those that were in use before, each with its owner: the slot the
  worker took is free again and no other was touched.  Only the slot of the task's own workspace may
  have disappeared, namely when the run it belonged to was no longer on record.
\<close>

theorem slot_given_back:
  assumes "execute_due_task du r s = (x, s')"
  shows "map_of (ds_threads s') \<subseteq>\<^sub>m map_of (ds_threads s)
    \<and> (\<forall>key rt. map_of (ds_threads s) key = Some rt \<longrightarrow> map_of (ds_threads s') key = None \<longrightarrow>
         (\<exists>i epoch. du_parse_uuid du (tr_task_id r) = Inr i
            \<and> slot_of (sy_tasks (system_at_claim du r s)) i = Some (key, epoch))
         \<and> \<not> fst (owner_still_runs du rt (system_at_claim du r s)))"
proof (cases "ds_threads s' = ds_threads s")
  case False
  let ?path = "tasks_db_path_of du (tr_user_id r)"
  let ?s = "s\<lparr>ds_system := reconcile_before_load du ?path (tr_task_id r) (ds_system s)\<rparr>"
  obtain l s1 where l: "on_system (load_scheduler (du_core du) ?path) ?s = (l, s1)" by fastforce
  obtain h s2 where h: "on_system (on_store (\<lambda>st.
      store_has_running_execution (co_store (du_core du)) st (tr_task_id r))) s1 = (h, s2)" by fastforce
  have same: "ds_threads s2 = ds_threads s" using on_system_threads [OF l] on_system_threads [OF h] by simp
  from assms False same l h obtain i where i: "du_parse_uuid du (tr_task_id r) = Inr i"
    and "run_claimed du r i s2 = (x, s')"
    by (auto simp: execute_due_task_def Let_def record_backoff_def split: sum.splits bool.splits prod.splits
        dest!: on_system_threads)
  moreover have "ds_system s2 = system_at_claim du r s"
    using l h by (auto simp: system_at_claim_def on_system_def Let_def split: prod.splits)
  ultimately have "slots_given_back du i (system_at_claim du r s) (ds_threads s) (ds_threads s')"
    using run_claimed_gives_back same by metis
  with i show ?thesis by (auto simp: slots_given_back_def)
qed simp

subsection \<open>An example\<close>

definition memory_due :: "(memory_tasks, memory_execs, scheduled_task, unit, index_doc scripted) due_lib" where
  "memory_due =
     \<lparr>du_core = memory_core, du_reconcile = memory_reconcile, du_index = memory_index, du_parse_uuid = Inr,
      du_open_shared = (\<lambda>_. None), du_stale_after = secs 72030, du_users_root = ''/users'',
      du_workspace_root = ''/ws''\<rparr>"

text \<open>Two tasks of a user, with their workspaces.\<close>

definition thread_task :: "(uuid \<Rightarrow> string) \<Rightarrow> datetime \<Rightarrow> uuid \<Rightarrow> scheduled_task" where
  "thread_task ws run_at i =
     (noop_task i True)\<lparr>t_kind := RunTask (slack_run_task\<lparr>rt_workspace_dir := ws i\<rparr>),
                        t_schedule := OneShot run_at\<rparr>"

definition thread_ref :: "uuid \<Rightarrow> task_ref" where
  "thread_ref i = \<lparr>tr_task_id = i, tr_user_id = ''u1''\<rparr>"

definition due_start :: "(uuid \<Rightarrow> string) \<Rightarrow> datetime \<Rightarrow> (memory_tasks, memory_execs, index_doc scripted) due_state" where
  "due_start ws run_at =
     \<lparr>ds_system = memory_system [] (map (\<lambda>i. inserted_task_doc
         (memory_store [] [] :: (memory_tasks, memory_execs) store) (thread_task ws run_at i) (thread_task ws run_at i))
         [''a'', ''b'']),
      ds_index = ([index_insert ''u1'' ''a'' 0, index_insert ''u1'' ''c'' 0], []), ds_threads = [], ds_backoffs = []\<rparr>"

theorem index_follows_run_witness:
  "\<exists>s'. execute_due_task memory_due (thread_ref ''a'') (due_start (\<lambda>i. ''/w'') (secs 9000)) = (Inr (), s')
      \<and> indexed_run ''u1'' (fst (ds_index s')) ''a'' = Some (secs 9000)
      \<and> indexed_run ''u1'' (fst (ds_index s')) ''c'' = None"
proof -
  let ?s = "due_start (\<lambda>i. ''/w'') (secs 9000)"
  have "(case execute_due_task memory_due (thread_ref ''a'') ?s of
           (r, s') \<Rightarrow> (r, ds_backoffs s',
              fst (sync_user_tasks memory_index ''u1'' (sy_tasks (ds_system s')) (ds_index ?s)),
              enabled_run (sy_tasks (ds_system s')) ''a'', enabled_run (sy_tasks (ds_system s')) ''c''))
        = (Inr (), [], Inr (), Some (secs 9000), None)"
    by code_simp
  moreover obtain r s' where run: "execute_due_task memory_due (thread_ref ''a'') ?s = (r, s')" by fastforce
  ultimately have r: "r = Inr ()" and e: "ds_backoffs s' = []"
    "fst (sync_user_tasks memory_index ''u1'' (sy_tasks (ds_system s')) (ds_index ?s)) = Inr ()"
    "enabled_run (sy_tasks (ds_system s')) ''a'' = Some (secs 9000)" "enabled_run (sy_tasks (ds_system s')) ''c'' = None"
    by simp_all
  have ic: "index_collection (il_coll (du_index memory_due)) fst"
    using li.index_collection_axioms by (simp add: memory_due_def memory_index_def)
  have acc: "\<not> il_is_account (du_index memory_due) (tr_user_id (thread_ref ''a''))"
    by (simp add: memory_due_def memory_index_def)
  have u: "tr_user_id (thread_ref ''a'') = ''u1''" "du_index memory_due = memory_index"
    by (simp_all add: thread_ref_def memory_due_def)
  from index_follows_run [OF ic run [unfolded r], unfolded if_not_P [OF acc]]
  have "\<forall>i. indexed_run ''u1'' (fst (ds_index s')) i = enabled_run (sy_tasks (ds_system s')) i"
    unfolding u using e by (elim disjE conjE exE) simp_all
  with e run r show ?thesis by auto
qed

text \<open>The slot of the workspace belongs to a task that is not running: it is taken over and freed.\<close>

theorem slot_given_back_witness:
  "\<exists>s'. execute_due_task memory_due (thread_ref ''a'')
      ((due_start (\<lambda>i. ''/w'') (secs 9000))\<lparr>ds_threads := [(''/w'', \<lparr>rth_task_id = ''b'', rth_thread_epoch = 0\<rparr>),
          (''/v'', \<lparr>rth_task_id = ''c'', rth_thread_epoch = 0\<rparr>)]\<rparr>) = (Inr (), s')
    \<and> map_of (ds_threads s') ''/w'' = None \<and> map_of (ds_threads s') ''/v'' \<noteq> None"
proof -
  let ?s = "(due_start (\<lambda>i. ''/w'') (secs 9000))\<lparr>ds_threads := [(''/w'', \<lparr>rth_task_id = ''b'', rth_thread_epoch = 0\<rparr>),
          (''/v'', \<lparr>rth_task_id = ''c'', rth_thread_epoch = 0\<rparr>)]\<rparr>"
  obtain x s' where run: "execute_due_task memory_due (thread_ref ''a'') ?s = (x, s')" by fastforce
  have "(case execute_due_task memory_due (thread_ref ''a'') ?s of
      (x, s') \<Rightarrow> (x, map_of (ds_threads s') ''/w'')) = (Inr (), None)" by code_simp
  with run have ends: "x = Inr ()" "map_of (ds_threads s') ''/w'' = None" by simp_all
  have "slot_of (sy_tasks (system_at_claim memory_due (thread_ref ''a'') ?s)) ''a'' = Some (''/w'', 0)" by code_simp
  moreover have "du_parse_uuid memory_due (tr_task_id (thread_ref ''a'')) = Inr ''a''"
    by (simp add: memory_due_def thread_ref_def)
  ultimately have "map_of (ds_threads s') ''/v'' \<noteq> None"
    using slot_given_back [OF run, THEN conjunct2, rule_format, of "''/v''"] by fastforce
  with run ends show ?thesis by blast
qed

end
