(* ===== verification/Worker_Threads.thy ===== *)
theory Worker_Threads
  imports Due_Task
begin

text \<open>
  The worker threads at work together.  \<open>execute_due_task\<close> is cut where other threads can come
  between: at the accesses to the store, at the lock on the workspaces in use, and around the
  run of the agent.  \<open>due_step\<close> is one such piece; a pool of workers takes the pieces in any
  order, with changes by other processes in between, and a worker may panic, which drops its
  guard.  An operation on the store is one piece here even where it sends several requests.
\<close>

subsection \<open>The pieces of a run\<close>

text \<open>\<open>execute_task_by_id\<close> up to the start of the agent; nothing if the task is not to be run.\<close>

definition begin_run ::
    "('t, 'e, 'j, 'a) core_lib \<Rightarrow> uuid \<Rightarrow> ('t, 'e) system
     \<Rightarrow> ('t, 'e, (nat \<times> scheduled_task \<times> execution_record_handle \<times> 'a option) option) sys_result" where
  "begin_run co task_id y =
     (let (now, y) = on_world utc_now y in
      case position (\<lambda>t. t_id t = task_id) (sy_tasks y) of
        None \<Rightarrow> (Inr None, y)
      | Some index \<Rightarrow>
          let before = sy_tasks y ! index in
          if \<not> t_enabled before \<or> \<not> is_due before now then (Inr None, y)
          else
            let y = snapshot_before_run co (t_kind before) y;
                (started_at, y) = on_world utc_now y;
                (oid, y) = on_world new_uuid y
            in st_bind (on_store (\<lambda>s. store_record_execution_start (co_store co) s oid (t_id before) started_at) y)
                 (\<lambda>handle y.
                    let (session, y) = on_world (co_archive_begin co before (h_execution_id handle) started_at) y
                    in (Inr (Some (index, before, handle, session)), y)))"

definition run_agent ::
    "('t, 'e, 'j, 'a) core_lib \<Rightarrow> scheduled_task \<Rightarrow> ('t, 'e) system
     \<Rightarrow> (scheduler_error + task_execution) \<times> datetime \<times> ('t, 'e) system" where
  "run_agent co before y =
     (let (result, y) = on_world (co_execute co (t_kind before)) y;
          (executed_at, y) = on_world utc_now y
      in (result, executed_at, y))"

definition close_run ::
    "('t, 'e, 'j, 'a) core_lib \<Rightarrow> nat \<Rightarrow> scheduled_task \<Rightarrow> execution_record_handle \<Rightarrow> 'a option
     \<Rightarrow> scheduler_error + task_execution \<Rightarrow> datetime \<Rightarrow> ('t, 'e) system \<Rightarrow> ('t, 'e, bool) sys_result" where
  "close_run co index before handle session result executed_at y =
     st_bind (case result of
                Inr execution \<Rightarrow> finish_success co y index before handle executed_at execution session
              | Inl err \<Rightarrow> finish_failure co y index before handle executed_at err session)
       (\<lambda>_ y. (Inr True, y))"

lemma execute_in_pieces:
  "execute_task_by_id co y task_id =
     (case begin_run co task_id y of
        (Inl e, y) \<Rightarrow> (Inl e, y)
      | (Inr None, y) \<Rightarrow> (Inr False, y)
      | (Inr (Some (index, before, handle, session)), y) \<Rightarrow>
          (case run_agent co before y of
             (result, executed_at, y) \<Rightarrow> close_run co index before handle session result executed_at y))"
  by (auto simp: execute_task_by_id_def execute_task_at_index_def begin_run_def run_agent_def close_run_def
      st_bind_def Let_def split: prod.splits option.splits sum.splits)

datatype 'a due_phase =
    Reconciling
  | LoadingTasks
  | CheckingRunning
  | Claiming
  | CheckingOwner string u64 running_thread
  | TakingSlot string u64 running_thread
  | InsertingSlot string u64 running_thread
  | PuttingOff u64 running_thread
  | SyncingPutOff
  | Starting "string option"
  | RunningAgent "string option" nat scheduled_task execution_record_handle "'a option"
  | ClosingRun "string option" nat scheduled_task execution_record_handle "'a option"
      "scheduler_error + task_execution" datetime
  | DroppingGuard "string option" "scheduler_error + bool"
  | Following "scheduler_error + bool"
  | Ended "due_error + unit"
  | Crashed

fun due_step ::
    "('t, 'e, 'j, 'a, 'x) due_lib \<Rightarrow> task_ref \<Rightarrow> uuid \<Rightarrow> 'a due_phase \<Rightarrow> ('t, 'e, 'x) due_state
     \<Rightarrow> 'a due_phase \<times> ('t, 'e, 'x) due_state" where
  "due_step du r task_id Reconciling s =
     (LoadingTasks, s\<lparr>ds_system := reconcile_before_load du (tasks_db_path_of du (tr_user_id r))
                                    (tr_task_id r) (ds_system s)\<rparr>)"
| "due_step du r task_id LoadingTasks s =
     (case on_system (load_scheduler (du_core du) (tasks_db_path_of du (tr_user_id r))) s of
        (Inl err, s) \<Rightarrow> (Ended (Inl (DueScheduler err)), s)
      | (Inr _, s) \<Rightarrow> (CheckingRunning, s))"
| "due_step du r task_id CheckingRunning s =
     (case on_system (on_store (\<lambda>st. store_has_running_execution (co_store (du_core du)) st (tr_task_id r))) s of
        (Inr True, s) \<Rightarrow> (Ended (Inr ()), record_backoff r s)
      | (_, s) \<Rightarrow> (Claiming, s))"
| "due_step du r task_id Claiming s =
     (case slot_of (sy_tasks (ds_system s)) task_id of
        None \<Rightarrow> (Starting None, s)
      | Some (key, task_epoch) \<Rightarrow>
          (case map_of (ds_threads s) key of
             None \<Rightarrow> (Starting (Some key), insert_slot key task_id task_epoch s)
           | Some running \<Rightarrow> (CheckingOwner key task_epoch running, s)))"
| "due_step du r task_id (CheckingOwner key task_epoch running) s =
     (case owner_still_runs du running (ds_system s) of
        (still, y) \<Rightarrow> (if still then PuttingOff task_epoch running else TakingSlot key task_epoch running,
                       s\<lparr>ds_system := y\<rparr>))"
| "due_step du r task_id (TakingSlot key task_epoch running) s =
     (case take_slot key running s of
        (taken, s) \<Rightarrow> (if taken then InsertingSlot key task_epoch running else PuttingOff task_epoch running, s))"
| "due_step du r task_id (InsertingSlot key task_epoch running) s =
     (case map_of (ds_threads s) key of
        Some active \<Rightarrow> (PuttingOff task_epoch active, s)
      | None \<Rightarrow> (Starting (Some key), insert_slot key task_id task_epoch s))"
| "due_step du r task_id (PuttingOff task_epoch running) s =
     (case defer_busy_task du task_id task_epoch running s of
        (Inl err, s) \<Rightarrow> (Ended (Inl (DueScheduler err)), s)
      | (Inr _, s) \<Rightarrow> (SyncingPutOff, s))"
| "due_step du r task_id SyncingPutOff s = (Ended (Inr ()), snd (sync_index du (tr_user_id r) s))"
| "due_step du r task_id (Starting guard) s =
     (case on_system (begin_run (du_core du) task_id) s of
        (Inl e, s) \<Rightarrow> (DroppingGuard guard (Inl e), s)
      | (Inr None, s) \<Rightarrow> (DroppingGuard guard (Inr False), s)
      | (Inr (Some (index, before, handle, session)), s) \<Rightarrow> (RunningAgent guard index before handle session, s))"
| "due_step du r task_id (RunningAgent guard index before handle session) s =
     (case run_agent (du_core du) before (ds_system s) of
        (result, executed_at, y) \<Rightarrow>
          (ClosingRun guard index before handle session result executed_at, s\<lparr>ds_system := y\<rparr>))"
| "due_step du r task_id (ClosingRun guard index before handle session result executed_at) s =
     (case on_system (close_run (du_core du) index before handle session result executed_at) s of
        (executed, s) \<Rightarrow> (DroppingGuard guard executed, s))"
| "due_step du r task_id (DroppingGuard guard executed) s = (Following executed, drop_guard guard s)"
| "due_step du r task_id (Following executed) s =
     (case after_run du r executed s of (result, s) \<Rightarrow> (Ended result, s))"
| "due_step du r task_id (Ended result) s = (Ended result, s)"
| "due_step du r task_id Crashed s = (Crashed, s)"

text \<open>How many more pieces a worker has at most.\<close>

fun pieces_left :: "'a due_phase \<Rightarrow> nat" where
  "pieces_left Reconciling = 12"
| "pieces_left LoadingTasks = 11"
| "pieces_left CheckingRunning = 10"
| "pieces_left Claiming = 9"
| "pieces_left (CheckingOwner _ _ _) = 8"
| "pieces_left (TakingSlot _ _ _) = 7"
| "pieces_left (InsertingSlot _ _ _) = 6"
| "pieces_left (PuttingOff _ _) = 2"
| "pieces_left SyncingPutOff = 1"
| "pieces_left (Starting _) = 5"
| "pieces_left (RunningAgent _ _ _ _ _) = 4"
| "pieces_left (ClosingRun _ _ _ _ _ _ _) = 3"
| "pieces_left (DroppingGuard _ _) = 2"
| "pieces_left (Following _) = 1"
| "pieces_left (Ended _) = 0"
| "pieces_left Crashed = 0"

lemma due_step_fewer:
  "pieces_left p \<noteq> 0 \<Longrightarrow> pieces_left (fst (due_step du r i p s)) < pieces_left p"
  by (cases p) (auto split: prod.splits sum.splits option.splits bool.splits)

function run_alone ::
    "('t, 'e, 'j, 'a, 'x) due_lib \<Rightarrow> task_ref \<Rightarrow> uuid \<Rightarrow> 'a due_phase \<Rightarrow> ('t, 'e, 'x) due_state
     \<Rightarrow> 'a due_phase \<times> ('t, 'e, 'x) due_state" where
  "run_alone du r i p s =
     (if pieces_left p = 0 then (p, s)
      else case due_step du r i p s of (p', s') \<Rightarrow> run_alone du r i p' s')"
  by pat_completeness auto
termination
  by (relation "measure (\<lambda>(du, r, i, p, s). pieces_left p)") (auto simp: case_prod_beta due_step_fewer)

declare run_alone.simps [simp del]

lemma run_alone_step:
  "due_step du r i p s = (p', s') \<Longrightarrow> pieces_left p \<noteq> 0 \<Longrightarrow> run_alone du r i p s = run_alone du r i p' s'"
  by (subst run_alone.simps) simp

lemma run_alone_end [simp]: "run_alone du r i (Ended x) s = (Ended x, s)"
  by (subst run_alone.simps) simp

subsection \<open>The pieces in a row\<close>

lemma alone_following:
  "run_alone du r i (Following ex) s = (case after_run du r ex s of (res, s) \<Rightarrow> (Ended res, s))"
  by (subst run_alone.simps) (simp split: prod.splits)

lemma alone_dropping:
  "run_alone du r i (DroppingGuard g ex) s
   = (case after_run du r ex (drop_guard g s) of (res, s) \<Rightarrow> (Ended res, s))"
  by (subst run_alone.simps) (simp add: alone_following)

lemma alone_closing:
  "run_alone du r i (ClosingRun g k b h se res t) s
   = (case on_system (close_run (du_core du) k b h se res t) s of (ex, s) \<Rightarrow>
        case after_run du r ex (drop_guard g s) of (res, s) \<Rightarrow> (Ended res, s))"
  by (subst run_alone.simps) (simp add: alone_dropping split: prod.splits)

lemma alone_agent:
  "run_alone du r i (RunningAgent g k b h se) s
   = (case run_agent (du_core du) b (ds_system s) of (res, t, y) \<Rightarrow>
        case on_system (close_run (du_core du) k b h se res t) (s\<lparr>ds_system := y\<rparr>) of (ex, s) \<Rightarrow>
          case after_run du r ex (drop_guard g s) of (res, s) \<Rightarrow> (Ended res, s))"
  by (subst run_alone.simps) (simp add: alone_closing split: prod.splits)

lemma alone_starting:
  "run_alone du r i (Starting g) s
   = (case on_system (\<lambda>y. execute_task_by_id (du_core du) y i) s of (ex, s) \<Rightarrow>
        case after_run du r ex (drop_guard g s) of (res, s) \<Rightarrow> (Ended res, s))"
proof (cases "begin_run (du_core du) i (ds_system s)")
  case (Pair a y)
  note b = this
  show ?thesis
  proof (cases a)
    case (Inl e)
    with b have "due_step du r i (Starting g) s = (DroppingGuard g (Inl e), s\<lparr>ds_system := y\<rparr>)"
      by (simp add: on_system_def)
    from run_alone_step [OF this] b Inl show ?thesis
      by (simp add: alone_dropping on_system_def execute_in_pieces)
  next
    case (Inr o1)
    show ?thesis
    proof (cases o1)
      case None
      with b Inr have "due_step du r i (Starting g) s = (DroppingGuard g (Inr False), s\<lparr>ds_system := y\<rparr>)"
        by (simp add: on_system_def)
      from run_alone_step [OF this] b Inr None show ?thesis
        by (simp add: alone_dropping on_system_def execute_in_pieces)
    next
      case (Some q)
      obtain k bf h se where q: "q = (k, bf, h, se)" by (cases q) auto
      with b Inr Some have "due_step du r i (Starting g) s = (RunningAgent g k bf h se, s\<lparr>ds_system := y\<rparr>)"
        by (simp add: on_system_def)
      from run_alone_step [OF this] b Inr Some q show ?thesis
        by (simp add: alone_agent on_system_def execute_in_pieces split: prod.splits)
    qed
  qed
qed

lemma alone_putting_off:
  "run_alone du r i (PuttingOff e rt) s
   = (case defer_busy_task du i e rt s of
        (Inl err, s) \<Rightarrow> (Ended (Inl (DueScheduler err)), s)
      | (Inr _, s) \<Rightarrow> (Ended (Inr ()), snd (sync_index du (tr_user_id r) s)))"
proof -
  have sync: "run_alone du r i SyncingPutOff s = (Ended (Inr ()), snd (sync_index du (tr_user_id r) s))" for s
    by (subst run_alone.simps) simp
  show ?thesis by (subst run_alone.simps) (simp add: sync split: prod.splits sum.splits)
qed

lemma deferred_run_claimed:
  "claim_thread_execution_slot du i s = defer_busy_task du i e rt s1 \<Longrightarrow>
   (case run_claimed du r i s of (res, s) \<Rightarrow> (Ended res, s)) = run_alone du r i (PuttingOff e rt) s1"
  by (auto simp: run_claimed_def alone_putting_off defer_busy_task_def no_claim_def st_bind_def Let_def
      split: prod.splits sum.splits)

lemma guarded_run_claimed:
  "claim_thread_execution_slot du i s = (Inr (no_claim\<lparr>tc_guard := g\<rparr>), s1) \<Longrightarrow>
   (case run_claimed du r i s of (res, s) \<Rightarrow> (Ended res, s)) = run_alone du r i (Starting g) s1"
  by (simp add: run_claimed_def alone_starting no_claim_def split: prod.splits)

lemma alone_claiming:
  "run_alone du r i Claiming s = (case run_claimed du r i s of (res, s) \<Rightarrow> (Ended res, s))"
proof (cases "slot_of (sy_tasks (ds_system s)) i")
  case None
  then have "claim_thread_execution_slot du i s = (Inr (no_claim\<lparr>tc_guard := None\<rparr>), s)"
    by (simp add: claim_thread_execution_slot_def no_claim_def)
  from guarded_run_claimed [OF this] None show ?thesis by (subst run_alone.simps) simp
next
  case (Some ke)
  obtain key ep where ke: "ke = (key, ep)" by (cases ke)
  note slot = Some [unfolded ke]
  show ?thesis
  proof (cases "map_of (ds_threads s) key")
    case None
    then have "claim_thread_execution_slot du i s = (Inr (no_claim\<lparr>tc_guard := Some key\<rparr>), insert_slot key i ep s)"
      by (simp add: claim_thread_execution_slot_def slot)
    from guarded_run_claimed [OF this] None slot show ?thesis by (subst run_alone.simps) simp
  next
    case (Some rt)
    obtain still y where o1: "owner_still_runs du rt (ds_system s) = (still, y)" by fastforce
    let ?s = "s\<lparr>ds_system := y\<rparr>"
    have 1: "run_alone du r i Claiming s = run_alone du r i (CheckingOwner key ep rt) s"
      by (rule run_alone_step) (simp_all add: slot Some)
    show ?thesis
    proof (cases still)
      case True
      with o1 have "run_alone du r i (CheckingOwner key ep rt) s = run_alone du r i (PuttingOff ep rt) ?s"
        by (intro run_alone_step) simp_all
      moreover have "claim_thread_execution_slot du i s = defer_busy_task du i ep rt ?s"
        using o1 True Some by (simp add: claim_thread_execution_slot_def slot try_reclaim_orphaned_thread_claim_def)
      ultimately show ?thesis using 1 deferred_run_claimed by metis
    next
      case False
      with o1 have 2: "run_alone du r i (CheckingOwner key ep rt) s = run_alone du r i (TakingSlot key ep rt) ?s"
        by (intro run_alone_step) simp_all
      obtain taken s1 where t: "take_slot key rt ?s = (taken, s1)" by fastforce
      have reclaim: "try_reclaim_orphaned_thread_claim du key rt s = (taken, s1)"
        using o1 False t by (simp add: try_reclaim_orphaned_thread_claim_def)
      show ?thesis
      proof (cases taken)
        case False
        with t have "run_alone du r i (TakingSlot key ep rt) ?s = run_alone du r i (PuttingOff ep rt) s1"
          by (intro run_alone_step) simp_all
        moreover have "claim_thread_execution_slot du i s = defer_busy_task du i ep rt s1"
          using reclaim False Some by (simp add: claim_thread_execution_slot_def slot)
        ultimately show ?thesis using 1 2 deferred_run_claimed by metis
      next
        case True
        with t have 3: "run_alone du r i (TakingSlot key ep rt) ?s = run_alone du r i (InsertingSlot key ep rt) s1"
          by (intro run_alone_step) simp_all
        have free: "map_of (ds_threads s1) key = None"
          using t True by (auto simp: take_slot_def delete_conv' split: option.splits if_splits)
        then have "run_alone du r i (InsertingSlot key ep rt) s1
                   = run_alone du r i (Starting (Some key)) (insert_slot key i ep s1)"
          by (intro run_alone_step) simp_all
        moreover have "claim_thread_execution_slot du i s
                       = (Inr (no_claim\<lparr>tc_guard := Some key\<rparr>), insert_slot key i ep s1)"
          using reclaim True Some free by (simp add: claim_thread_execution_slot_def slot)
        ultimately show ?thesis using 1 2 3 guarded_run_claimed by metis
      qed
    qed
  qed
qed

end

