(* ===== verification/Worker_Pool.thy ===== *)
theory Worker_Pool
  imports Worker_Threads
begin

text \<open>
  The worker threads together: any interleaving of their pieces, with other processes changing
  the store, the files and the index in between.  The workspaces in use exclude each other
  unless a slot is reclaimed, and a reclaimed slot is always that of a living worker.
\<close>

subsection \<open>The pool\<close>

text \<open>A thread has its own scheduler: the tasks it loaded and the owner its store is opened for.\<close>

record 'a frame =
  fr_ref :: task_ref
  fr_uuid :: uuid
  fr_tasks :: "scheduled_task list"
  fr_owner :: "string \<times> string"
  fr_phase :: "'a due_phase"

record ('t, 'e, 'a, 'x) pool =
  pl_shared :: "('t, 'e, 'x) due_state"
  pl_frames :: "'a frame list"

definition enter :: "'a frame \<Rightarrow> ('t, 'e, 'x) due_state \<Rightarrow> ('t, 'e, 'x) due_state" where
  "enter f s =
     s\<lparr>ds_system := (ds_system s)\<lparr>sy_tasks := fr_tasks f,
         sy_store := (sy_store (ds_system s))\<lparr>s_owner_kind := fst (fr_owner f), s_owner_id := snd (fr_owner f)\<rparr>\<rparr>\<rparr>"

definition thread_step ::
    "('t, 'e, 'j, 'a, 'x) due_lib \<Rightarrow> 'a frame \<Rightarrow> ('t, 'e, 'x) due_state \<Rightarrow> 'a frame \<times> ('t, 'e, 'x) due_state"
where
  "thread_step du f s =
     (case due_step du (fr_ref f) (fr_uuid f) (fr_phase f) (enter f s) of
        (p, s') \<Rightarrow>
          (f\<lparr>fr_tasks := sy_tasks (ds_system s'),
             fr_owner := (s_owner_kind (sy_store (ds_system s')), s_owner_id (sy_store (ds_system s'))),
             fr_phase := p\<rparr>, s'))"

definition new_frame :: "task_ref \<Rightarrow> uuid \<Rightarrow> 'a frame" where
  "new_frame r i = \<lparr>fr_ref = r, fr_uuid = i, fr_tasks = [], fr_owner = ('''', ''''), fr_phase = Reconciling\<rparr>"

text \<open>The guard on a workspace that a worker holds.\<close>

fun guard_of :: "'a due_phase \<Rightarrow> string option" where
  "guard_of (Starting g) = g"
| "guard_of (RunningAgent g _ _ _ _) = g"
| "guard_of (ClosingRun g _ _ _ _ _ _) = g"
| "guard_of (DroppingGuard g _) = g"
| "guard_of _ = None"

datatype pool_event = Spawned task_ref | Stepped nat | Panics nat | Elsewhere

definition ended :: "'a frame \<Rightarrow> bool" where
  "ended f = (pieces_left (fr_phase f) = 0)"

text \<open>Whether the next piece of a worker takes the slot of a workspace away.\<close>

definition reclaims :: "('t, 'e, 'a, 'x) pool \<Rightarrow> pool_event \<Rightarrow> bool" where
  "reclaims p e =
     (case e of
        Stepped i \<Rightarrow>
          i < length (pl_frames p)
          \<and> (case fr_phase (pl_frames p ! i) of
               TakingSlot key _ running \<Rightarrow> fst (take_slot key running (pl_shared p))
             | _ \<Rightarrow> False)
      | _ \<Rightarrow> False)"

inductive pool_step ::
    "('t, 'e, 'j, 'a, 'x) due_lib \<Rightarrow> ('t, 'e, 'a, 'x) pool \<Rightarrow> pool_event \<Rightarrow> ('t, 'e, 'a, 'x) pool \<Rightarrow> bool"
  for du :: "('t, 'e, 'j, 'a, 'x) due_lib" where
  spawned:
    "du_parse_uuid du (tr_task_id r) = Inr i \<Longrightarrow>
     pool_step du p (Spawned r) (p\<lparr>pl_frames := pl_frames p @ [new_frame r i]\<rparr>)"
| stepped:
    "i < length (pl_frames p) \<Longrightarrow> \<not> ended (pl_frames p ! i) \<Longrightarrow>
     thread_step du (pl_frames p ! i) (pl_shared p) = (f, s) \<Longrightarrow>
     pool_step du p (Stepped i) \<lparr>pl_shared = s, pl_frames = (pl_frames p)[i := f]\<rparr>"
| panics:
    "i < length (pl_frames p) \<Longrightarrow> \<not> ended (pl_frames p ! i) \<Longrightarrow>
     pool_step du p (Panics i)
       \<lparr>pl_shared = drop_guard (guard_of (fr_phase (pl_frames p ! i))) (pl_shared p),
        pl_frames = (pl_frames p)[i := (pl_frames p ! i)\<lparr>fr_phase := Crashed\<rparr>]\<rparr>"
| elsewhere:
    "ds_threads s = ds_threads (pl_shared p) \<Longrightarrow> pool_step du p Elsewhere (p\<lparr>pl_shared := s\<rparr>)"

inductive pool_run ::
    "('t, 'e, 'j, 'a, 'x) due_lib \<Rightarrow> ('t, 'e, 'a, 'x) pool \<Rightarrow> pool_event list \<Rightarrow> ('t, 'e, 'a, 'x) pool
     \<Rightarrow> bool \<Rightarrow> bool"
  for du :: "('t, 'e, 'j, 'a, 'x) due_lib" and p0 :: "('t, 'e, 'a, 'x) pool" where
  start: "pool_run du p0 [] p0 False"
| snoc: "pool_run du p0 es p b \<Longrightarrow> pool_step du p e p' \<Longrightarrow> pool_run du p0 (es @ [e]) p' (b \<or> reclaims p e)"

inductive_cases spawnedE [elim!]: "pool_step du p (Spawned r) p'"
inductive_cases steppedE [elim!]: "pool_step du p (Stepped i) p'"
inductive_cases panicsE [elim!]: "pool_step du p (Panics i) p'"
inductive_cases elsewhereE [elim!]: "pool_step du p Elsewhere p'"

definition empty_pool :: "('t, 'e, 'x) due_state \<Rightarrow> ('t, 'e, 'a, 'x) pool" where
  "empty_pool s = \<lparr>pl_shared = s\<lparr>ds_threads := []\<rparr>, pl_frames = []\<rparr>"

subsection \<open>Every worker ends\<close>

lemma thread_step_phase:
  "fr_phase (fst (thread_step du f s)) = fst (due_step du (fr_ref f) (fr_uuid f) (fr_phase f) (enter f s))"
  by (simp add: thread_step_def split: prod.splits)

lemma pool_step_pieces:
  assumes "pool_step du p e p'" and "i < length (pl_frames p)"
  shows "i < length (pl_frames p') \<and>
         pieces_left (fr_phase (pl_frames p' ! i)) + (if e = Stepped i then 1 else 0)
         \<le> pieces_left (fr_phase (pl_frames p ! i))"
  using assms(1)
proof cases
  case (stepped j f s)
  have "pieces_left (fr_phase f) < pieces_left (fr_phase (pl_frames p ! j))"
    using due_step_fewer [of "fr_phase (pl_frames p ! j)"] thread_step_phase [of du "pl_frames p ! j" "pl_shared p"]
      stepped by (simp add: ended_def)
  with stepped assms(2) show ?thesis by (cases "i = j") auto
next
  case (panics j)
  with assms(2) show ?thesis by (cases "i = j") auto
qed (use assms(2) in \<open>auto simp: nth_append\<close>)

text \<open>
  C38.  A worker does not go on for ever: whatever the other threads and processes do, it takes
  at most as many pieces as its phase has left, twelve from the beginning.
\<close>

theorem worker_ends:
  assumes "pool_run du p es p' b" and "i < length (pl_frames p)"
  shows "count_list es (Stepped i) + pieces_left (fr_phase (pl_frames p' ! i))
         \<le> pieces_left (fr_phase (pl_frames p ! i))
       \<and> pieces_left (fr_phase (pl_frames p ! i)) \<le> 12"
proof -
  have "i < length (pl_frames p') \<and> count_list es (Stepped i) + pieces_left (fr_phase (pl_frames p' ! i))
         \<le> pieces_left (fr_phase (pl_frames p ! i))"
    using assms
  proof (induction rule: pool_run.induct)
    case (snoc es p1 b e p2)
    from snoc.IH [OF snoc.prems] pool_step_pieces [OF snoc.hyps(2), of i] show ?case by auto
  qed simp
  moreover have "pieces_left q \<le> 12" for q :: "'d due_phase" by (cases q) simp_all
  ultimately show ?thesis by blast
qed

subsection \<open>Slots and guards\<close>

text \<open>What a piece of work that takes no slot away does to the slots.\<close>

lemma due_step_slots:
  assumes step: "due_step du r i ph s = (ph', s')"
    and ph: "\<And>key ep rt. ph = TakingSlot key ep rt \<Longrightarrow> \<not> fst (take_slot key rt s)"
      "\<And>key ep rt. ph \<noteq> InsertingSlot key ep rt"
  shows "ds_threads s' = ds_threads s \<and> guard_of ph' = guard_of ph
       \<or> (\<exists>key rt. guard_of ph = None \<and> guard_of ph' = Some key \<and> map_of (ds_threads s) key = None
            \<and> ds_threads s' = AList.update key rt (ds_threads s))
       \<or> (\<exists>key. guard_of ph = Some key \<and> guard_of ph' = None \<and> ds_threads s' = AList.delete key (ds_threads s))"
  using step
proof (cases ph)
  case (DroppingGuard g ex)
  with step show ?thesis by (cases g) (auto simp: drop_guard_def)
next
  case (TakingSlot key ep rt)
  with ph(1) step show ?thesis by (auto simp: take_slot_def split: option.splits if_splits)
next
  case (Following ex)
  with step show ?thesis by (auto dest: after_run_threads split: prod.splits)
next
  case (PuttingOff e rt)
  with step show ?thesis by (auto dest: defer_threads split: prod.splits sum.splits)
next
  case (Claiming)
  with step show ?thesis by (fastforce simp: insert_slot_def split: option.splits)
next
  case (ClosingRun g k b h se res t)
  with step show ?thesis by (auto dest: on_system_threads split: prod.splits)
next
  case (Starting g)
  with step show ?thesis by (auto dest: on_system_threads split: prod.splits sum.splits option.splits)
next
  case CheckingRunning
  with step show ?thesis
    by (auto dest: on_system_threads simp: record_backoff_def split: prod.splits sum.splits bool.splits)
next
  case LoadingTasks
  with step show ?thesis by (auto dest: on_system_threads split: prod.splits sum.splits)
qed (use ph(2) in \<open>auto split: prod.splits\<close>)

lemma no_insertion:
  assumes "due_step du r i ph s = (InsertingSlot key ep rt, s')"
  shows "\<exists>key' ep' rt'. ph = TakingSlot key' ep' rt' \<and> fst (take_slot key' rt' s)"
  using assms by (cases ph) (auto split: prod.splits sum.splits option.splits bool.splits if_splits)

definition guards :: "('t, 'e, 'a, 'x) pool \<Rightarrow> string list" where
  "guards p = List.map_filter (\<lambda>f. guard_of (fr_phase f)) (pl_frames p)"

definition slots_exact :: "('t, 'e, 'a, 'x) pool \<Rightarrow> bool" where
  "slots_exact p =
     (distinct (guards p) \<and> set (guards p) = dom (map_of (ds_threads (pl_shared p)))
      \<and> (\<forall>f \<in> set (pl_frames p). \<forall>key ep rt. fr_phase f \<noteq> InsertingSlot key ep rt))"

text \<open>The guards when one worker changes its phase.\<close>

definition guards_in :: "'a frame list \<Rightarrow> string list" where
  "guards_in fs = List.map_filter (\<lambda>f. guard_of (fr_phase f)) fs"

lemma guards_in_split:
  "guards_in (xs @ f # ys)
   = guards_in xs @ (case guard_of (fr_phase f) of None \<Rightarrow> [] | Some k \<Rightarrow> [k]) @ guards_in ys"
  by (auto simp: guards_in_def List.map_filter_def split: option.splits)

lemma guards_update:
  assumes "i < length (pl_frames p)"
  obtains a b where
    "guards p = a @ (case guard_of (fr_phase (pl_frames p ! i)) of None \<Rightarrow> [] | Some k \<Rightarrow> [k]) @ b"
    and "\<And>f s. guards \<lparr>pl_shared = s, pl_frames = (pl_frames p)[i := f]\<rparr>
               = a @ (case guard_of (fr_phase f) of None \<Rightarrow> [] | Some k \<Rightarrow> [k]) @ b"
proof (rule that)
  show "guards p = guards_in (take i (pl_frames p))
          @ (case guard_of (fr_phase (pl_frames p ! i)) of None \<Rightarrow> [] | Some k \<Rightarrow> [k])
          @ guards_in (drop (Suc i) (pl_frames p))"
    unfolding guards_def guards_in_def [symmetric]
    by (subst id_take_nth_drop [OF assms]) (rule guards_in_split)
  show "guards \<lparr>pl_shared = s, pl_frames = (pl_frames p)[i := f]\<rparr>
        = guards_in (take i (pl_frames p)) @ (case guard_of (fr_phase f) of None \<Rightarrow> [] | Some k \<Rightarrow> [k])
          @ guards_in (drop (Suc i) (pl_frames p))" for f s
    unfolding guards_def guards_in_def [symmetric]
    by (simp add: upd_conv_take_nth_drop [OF assms] guards_in_split)
qed

lemma slots_exact_change:
  assumes inv: "slots_exact p" and i: "i < length (pl_frames p)"
    and ch: "ds_threads s' = ds_threads (pl_shared p) \<and> guard_of (fr_phase f) = guard_of (fr_phase (pl_frames p ! i))
       \<or> (\<exists>key rt. guard_of (fr_phase (pl_frames p ! i)) = None \<and> guard_of (fr_phase f) = Some key
            \<and> map_of (ds_threads (pl_shared p)) key = None
            \<and> ds_threads s' = AList.update key rt (ds_threads (pl_shared p)))
       \<or> (\<exists>key. guard_of (fr_phase (pl_frames p ! i)) = Some key \<and> guard_of (fr_phase f) = None
            \<and> ds_threads s' = AList.delete key (ds_threads (pl_shared p)))"
    and f: "\<And>key ep rt. fr_phase f \<noteq> InsertingSlot key ep rt"
  shows "slots_exact \<lparr>pl_shared = s', pl_frames = (pl_frames p)[i := f]\<rparr>"
proof -
  let ?p = "\<lparr>pl_shared = s', pl_frames = (pl_frames p)[i := f]\<rparr>"
  from i obtain a b where g: "guards p = a @ (case guard_of (fr_phase (pl_frames p ! i)) of None \<Rightarrow> [] | Some k \<Rightarrow> [k]) @ b"
    "guards ?p = a @ (case guard_of (fr_phase f) of None \<Rightarrow> [] | Some k \<Rightarrow> [k]) @ b"
    by (rule guards_update) blast
  have no: "\<forall>f \<in> set (pl_frames ?p). \<forall>key ep rt. fr_phase f \<noteq> InsertingSlot key ep rt"
    using inv f set_update_subset_insert [of "pl_frames p" i f] unfolding slots_exact_def by fastforce
  have "distinct (guards ?p) \<and> set (guards ?p) = dom (map_of (ds_threads s'))"
    using ch
  proof (elim disjE exE conjE)
    assume "ds_threads s' = ds_threads (pl_shared p)" "guard_of (fr_phase f) = guard_of (fr_phase (pl_frames p ! i))"
    with inv g show ?thesis by (simp add: slots_exact_def)
  next
    fix key rt
    assume "guard_of (fr_phase (pl_frames p ! i)) = None" "guard_of (fr_phase f) = Some key"
      "map_of (ds_threads (pl_shared p)) key = None"
      "ds_threads s' = AList.update key rt (ds_threads (pl_shared p))"
    with inv g show ?thesis by (auto simp: slots_exact_def update_conv' domIff)
  next
    fix key
    assume a1: "guard_of (fr_phase (pl_frames p ! i)) = Some key" "guard_of (fr_phase f) = None"
      "ds_threads s' = AList.delete key (ds_threads (pl_shared p))"
    with inv g have "distinct (a @ key # b)" "set (a @ key # b) = dom (map_of (ds_threads (pl_shared p)))"
      by (simp_all add: slots_exact_def)
    with a1 g show ?thesis by (auto simp: delete_conv')
  qed
  with no show ?thesis by (simp add: slots_exact_def)
qed

lemma slots_step:
  assumes inv: "slots_exact p" and step: "pool_step du p e p'" and calm: "\<not> reclaims p e"
  shows "slots_exact p'"
  using step
proof cases
  case (spawned r i)
  with inv show ?thesis
    by (auto simp: slots_exact_def guards_def List.map_filter_def new_frame_def)
next
  case (stepped i f s)
  let ?f = "pl_frames p ! i"
  have d: "due_step du (fr_ref ?f) (fr_uuid ?f) (fr_phase ?f) (enter ?f (pl_shared p)) = (fr_phase f, s)"
    using stepped by (auto simp: thread_step_def split: prod.splits)
  have t: "ds_threads (enter ?f (pl_shared p)) = ds_threads (pl_shared p)" by (simp add: enter_def)
  have take: "fst (take_slot key rt (enter ?f (pl_shared p))) = fst (take_slot key rt (pl_shared p))" for key rt
    using t by (simp add: take_slot_def split: option.splits)
  have 1: "\<not> fst (take_slot key rt (enter ?f (pl_shared p)))" if "fr_phase ?f = TakingSlot key ep rt" for key ep rt
    unfolding take using calm stepped that by (simp add: reclaims_def)
  have 2: "fr_phase ?f \<noteq> InsertingSlot key ep rt" for key ep rt
    using inv stepped nth_mem [of i "pl_frames p"] unfolding slots_exact_def by blast
  have 3: "fr_phase f \<noteq> InsertingSlot key ep rt" for key ep rt
    using no_insertion [of du "fr_ref ?f" "fr_uuid ?f" "fr_phase ?f" "enter ?f (pl_shared p)"] d 1 by metis
  from slots_exact_change [OF inv _ due_step_slots [OF d 1 2, unfolded t] 3] stepped show ?thesis by simp
next
  case (panics i)
  let ?g = "guard_of (fr_phase (pl_frames p ! i))"
  show ?thesis unfolding panics
    by (rule slots_exact_change [OF inv \<open>i < length (pl_frames p)\<close>]) (auto simp: drop_guard_def split: option.splits)
next
  case (elsewhere s)
  with inv show ?thesis by (simp add: slots_exact_def guards_def)
qed

lemma slots_run: "pool_run du p es p' b \<Longrightarrow> slots_exact p \<Longrightarrow> \<not> b \<Longrightarrow> slots_exact p'"
  by (induction rule: pool_run.induct) (auto dest: slots_step)

lemma slots_empty: "slots_exact (empty_pool s)"
  by (simp add: slots_exact_def empty_pool_def guards_def List.map_filter_def)
subsection \<open>One run in a workspace\<close>

definition run_workspace :: "scheduled_task \<Rightarrow> string option" where
  "run_workspace task = (case t_kind task of RunTask run \<Rightarrow> Some (rt_workspace_dir run) | _ \<Rightarrow> None)"

text \<open>The guard of a worker is on the workspace of its task.\<close>

definition frame_ok :: "'a frame \<Rightarrow> bool" where
  "frame_ok f =
     (case fr_phase f of
        Starting g \<Rightarrow> map_option fst (slot_of (fr_tasks f) (fr_uuid f)) = g
      | RunningAgent g _ b _ _ \<Rightarrow> run_workspace b = g
      | ClosingRun g _ b _ _ _ _ \<Rightarrow> run_workspace b = g
      | _ \<Rightarrow> True)"

lemma position_find: "position p xs = Some k \<Longrightarrow> List.find p xs = Some (xs ! k)"
  by (induction xs arbitrary: k) (auto split: if_splits option.splits)

lemma slot_of_workspace:
  "position (\<lambda>t. t_id t = i) tasks = Some k \<Longrightarrow> map_option fst (slot_of tasks i) = run_workspace (tasks ! k)"
  by (auto simp: slot_of_def run_workspace_def position_find split: task_kind.splits)

lemma begin_run_workspace:
  assumes "begin_run co i y = (Inr (Some (k, b, h, se)), y')"
  shows "run_workspace b = map_option fst (slot_of (sy_tasks y) i)"
proof -
  obtain now y1 where n: "on_world utc_now y = (now, y1)" by fastforce
  then have "sy_tasks y1 = sy_tasks y" by (auto simp: on_world_def split: prod.splits)
  with assms n obtain j where "position (\<lambda>t. t_id t = i) (sy_tasks y) = Some j" "b = sy_tasks y ! j"
    by (auto simp: begin_run_def st_bind_def Let_def split: option.splits if_splits prod.splits sum.splits)
  with slot_of_workspace show ?thesis by metis
qed

lemma thread_step_ok:
  assumes "frame_ok f" and "thread_step du f s = (f', s')"
    and "\<And>key ep rt. fr_phase f \<noteq> InsertingSlot key ep rt"
  shows "frame_ok f'"
proof -
  from assms(2) obtain p where d: "due_step du (fr_ref f) (fr_uuid f) (fr_phase f) (enter f s) = (p, s')"
    and f': "f' = f\<lparr>fr_tasks := sy_tasks (ds_system s'),
             fr_owner := (s_owner_kind (sy_store (ds_system s')), s_owner_id (sy_store (ds_system s'))), fr_phase := p\<rparr>"
    by (auto simp: thread_step_def split: prod.splits)
  show ?thesis
  proof (cases "fr_phase f")
    case Claiming
    with d show ?thesis
      by (auto simp: frame_ok_def f' insert_slot_def split: option.splits prod.splits)
  next
    case (Starting g)
    have "g = map_option fst (slot_of (sy_tasks (ds_system (enter f s))) (fr_uuid f))"
      using assms(1) Starting by (simp add: frame_ok_def enter_def)
    with d Starting begin_run_workspace show ?thesis
      by (auto simp: frame_ok_def f' on_system_def split: prod.splits sum.splits option.splits)
  next
    case (RunningAgent g k b h se)
    with d assms(1) show ?thesis by (auto simp: frame_ok_def f' split: prod.splits)
  next
    case (Ended x)
    with d have "p = Ended x" by simp
    then show ?thesis by (simp add: frame_ok_def f')
  next
    case Crashed
    with d have "p = Crashed" by simp
    then show ?thesis by (simp add: frame_ok_def f')
  qed (use d assms(3) in \<open>auto simp: frame_ok_def f' split: prod.splits sum.splits bool.splits if_splits\<close>)
qed

lemma frames_ok_run:
  "pool_run du (empty_pool s) es p b \<Longrightarrow> \<not> b \<Longrightarrow> slots_exact p \<and> (\<forall>f \<in> set (pl_frames p). frame_ok f)"
proof (induction rule: pool_run.induct)
  case start
  show ?case using slots_empty by (simp add: empty_pool_def)
next
  case (snoc es p b e p')
  then have IH: "slots_exact p" "\<forall>f \<in> set (pl_frames p). frame_ok f" and calm: "\<not> reclaims p e" by auto
  from snoc.hyps(2) have "\<forall>f \<in> set (pl_frames p'). frame_ok f"
  proof cases
    case (spawned r i)
    with IH show ?thesis by (auto simp: new_frame_def frame_ok_def)
  next
    case (stepped i f s)
    have "frame_ok f"
    proof (rule thread_step_ok)
      show "frame_ok (pl_frames p ! i)" using IH stepped by simp
      show "thread_step du (pl_frames p ! i) (pl_shared p) = (f, s)" by (rule stepped)
      show "fr_phase (pl_frames p ! i) \<noteq> InsertingSlot key ep rt" for key ep rt
        using IH(1) stepped nth_mem [of i "pl_frames p"] unfolding slots_exact_def by blast
    qed
    with IH stepped set_update_subset_insert [of "pl_frames p" i f] show ?thesis by auto
  next
    case (panics i)
    let ?f = "(pl_frames p ! i)\<lparr>fr_phase := Crashed\<rparr>"
    have "frame_ok ?f" by (simp add: frame_ok_def)
    with IH panics set_update_subset_insert [of "pl_frames p" i ?f] show ?thesis by auto
  qed (use IH in simp)
  with slots_step [OF IH(1) snoc.hyps(2) calm] show ?case by blast
qed

lemma same_guard_same_worker:
  assumes "distinct (guards p)" and "i < j" and "j < length (pl_frames p)"
    and "guard_of (fr_phase (pl_frames p ! i)) = Some k"
  shows "guard_of (fr_phase (pl_frames p ! j)) \<noteq> Some k"
proof
  assume g: "guard_of (fr_phase (pl_frames p ! j)) = Some k"
  have "pl_frames p ! j \<in> set (drop (Suc i) (pl_frames p))"
    using assms(2,3) by (auto simp: in_set_conv_nth intro!: exI [of _ "j - Suc i"])
  with g have "k \<in> set (guards_in (drop (Suc i) (pl_frames p)))"
    by (auto simp: guards_in_def List.map_filter_def intro!: image_eqI)
  moreover have "guards p = guards_in (take i (pl_frames p)) @ [k] @ guards_in (drop (Suc i) (pl_frames p))"
    unfolding guards_def guards_in_def [symmetric]
    using assms(2-4) by (subst id_take_nth_drop [of i]) (simp_all add: guards_in_split)
  ultimately show False using assms(1) by simp
qed

text \<open>
  C13.  As long as no slot is reclaimed, at most one agent works in a workspace at a time,
  whatever the interleaving of the workers, their crashes and the changes by other processes.
\<close>

theorem workspaces_exclusive:
  assumes "pool_run du (empty_pool s) es p False"
    and "i < length (pl_frames p)" and "j < length (pl_frames p)" and "i \<noteq> j"
    and "fr_phase (pl_frames p ! i) = RunningAgent g k b h se" and "t_kind b = RunTask run"
    and "fr_phase (pl_frames p ! j) = RunningAgent g' k' b' h' se'" and "t_kind b' = RunTask run'"
  shows "rt_workspace_dir run \<noteq> rt_workspace_dir run'"
proof
  assume same: "rt_workspace_dir run = rt_workspace_dir run'"
  have inv: "slots_exact p" "\<forall>f \<in> set (pl_frames p). frame_ok f" using frames_ok_run [OF assms(1)] by simp_all
  from inv(2) assms(2,3) have "frame_ok (pl_frames p ! i)" "frame_ok (pl_frames p ! j)" by simp_all
  with assms same have g: "guard_of (fr_phase (pl_frames p ! i)) = Some (rt_workspace_dir run)"
    "guard_of (fr_phase (pl_frames p ! j)) = Some (rt_workspace_dir run)"
    by (simp_all add: frame_ok_def run_workspace_def)
  have "distinct (guards p)" using inv(1) by (simp add: slots_exact_def)
  from same_guard_same_worker [OF this] g assms(2-4) show False by (metis linorder_neqE_nat)
qed

text \<open>
  A reclaimed slot is never an orphan: as workers drop their guards even when they panic,
  the slot that the first reclaim takes belongs to a worker that still holds it, which has
  not recorded its execution yet or has already closed it.  Two pieces later both workers
  hold the workspace.
\<close>

theorem reclaim_evicts_live_worker:
  assumes "pool_run du (empty_pool s) es p False" and "reclaims p (Stepped i)"
  shows "\<exists>j key p1 p2. j \<noteq> i \<and> j < length (pl_frames p)
           \<and> guard_of (fr_phase (pl_frames p ! j)) = Some key
           \<and> pool_step du p (Stepped i) p1 \<and> pool_step du p1 (Stepped i) p2
           \<and> guard_of (fr_phase (pl_frames p2 ! i)) = Some key
           \<and> guard_of (fr_phase (pl_frames p2 ! j)) = Some key"
proof -
  let ?f = "pl_frames p ! i"
  from assms(2) obtain key ep rt where i: "i < length (pl_frames p)" and ph: "fr_phase ?f = TakingSlot key ep rt"
    and t: "fst (take_slot key rt (pl_shared p))"
    by (auto simp: reclaims_def split: due_phase.splits)
  have inv: "slots_exact p" using frames_ok_run [OF assms(1)] by simp
  from t have "key \<in> dom (map_of (ds_threads (pl_shared p)))" by (auto simp: take_slot_def split: option.splits)
  with inv have "key \<in> set (guards p)" by (simp add: slots_exact_def)
  then obtain f where "f \<in> set (pl_frames p)" "guard_of (fr_phase f) = Some key"
    by (auto simp: guards_def List.map_filter_def)
  then obtain j where j: "j < length (pl_frames p)" "guard_of (fr_phase (pl_frames p ! j)) = Some key"
    by (auto simp: in_set_conv_nth)
  with ph have ij: "j \<noteq> i" by auto
  obtain s1 where s1: "take_slot key rt (enter ?f (pl_shared p)) = (True, s1)"
    using t by (auto simp: take_slot_def enter_def split: option.splits if_splits)
  obtain f1 where f1: "thread_step du ?f (pl_shared p) = (f1, s1)" "fr_phase f1 = InsertingSlot key ep rt"
    using s1 ph by (simp add: thread_step_def)
  let ?p1 = "\<lparr>pl_shared = s1, pl_frames = (pl_frames p)[i := f1]\<rparr>"
  have st1: "pool_step du p (Stepped i) ?p1"
    by (rule pool_step.stepped [OF i _ f1(1)]) (simp add: ended_def ph)
  have free: "map_of (ds_threads (enter f1 s1)) key = None"
    using s1 by (auto simp: take_slot_def enter_def delete_conv' split: option.splits if_splits)
  obtain f2 s2 where f2: "thread_step du f1 s1 = (f2, s2)" by fastforce
  then have ph2: "fr_phase f2 = Starting (Some key)"
    using f1(2) free by (auto simp: thread_step_def)
  let ?p2 = "\<lparr>pl_shared = s2, pl_frames = (pl_frames ?p1)[i := f2]\<rparr>"
  have st2: "pool_step du ?p1 (Stepped i) ?p2"
    by (rule pool_step.stepped) (use i f1 f2 in \<open>simp_all add: ended_def\<close>)
  from j ij i ph2 st1 st2 show ?thesis
    by (intro exI [of _ j] exI [of _ key] exI [of _ ?p1] exI [of _ ?p2]) simp
qed
subsection \<open>Examples\<close>

text \<open>A run without panics and without changes from elsewhere, as far as it reclaims no slot.\<close>

definition pool_next ::
    "('t, 'e, 'j, 'a, 'x) due_lib \<Rightarrow> pool_event \<Rightarrow> ('t, 'e, 'a, 'x) pool \<Rightarrow> ('t, 'e, 'a, 'x) pool option" where
  "pool_next du e p =
     (case e of
        Spawned r \<Rightarrow>
          (case du_parse_uuid du (tr_task_id r) of
             Inr i \<Rightarrow> Some (p\<lparr>pl_frames := pl_frames p @ [new_frame r i]\<rparr>)
           | Inl _ \<Rightarrow> None)
      | Stepped i \<Rightarrow>
          if i < length (pl_frames p) \<and> \<not> ended (pl_frames p ! i)
          then case thread_step du (pl_frames p ! i) (pl_shared p) of
                 (f, s) \<Rightarrow> Some \<lparr>pl_shared = s, pl_frames = (pl_frames p)[i := f]\<rparr>
          else None
      | _ \<Rightarrow> None)"

fun pool_exec ::
    "('t, 'e, 'j, 'a, 'x) due_lib \<Rightarrow> pool_event list \<Rightarrow> ('t, 'e, 'a, 'x) pool \<Rightarrow> ('t, 'e, 'a, 'x) pool option" where
  "pool_exec du [] p = Some p"
| "pool_exec du (e # es) p =
     (if reclaims p e then None
      else case pool_next du e p of None \<Rightarrow> None | Some p' \<Rightarrow> pool_exec du es p')"

lemma pool_next_step: "pool_next du e p = Some p' \<Longrightarrow> pool_step du p e p'"
  by (cases e) (auto simp: pool_next_def split: sum.splits if_splits prod.splits
      intro: pool_step.spawned pool_step.stepped)

lemma pool_run_cons:
  "pool_run du p1 es p' b \<Longrightarrow> pool_step du p e p1 \<Longrightarrow> pool_run du p (e # es) p' (reclaims p e \<or> b)"
proof (induction rule: pool_run.induct)
  case start
  then show ?case using pool_run.snoc [OF pool_run.start, of du p e p1] by simp
next
  case (snoc es q b e' q')
  from pool_run.snoc [OF snoc.IH [OF snoc.prems] snoc.hyps(2)] show ?case by (simp add: disj_assoc)
qed

lemma pool_run_by_exec:
  assumes "map_option f (pool_exec du es p) = Some x"
  obtains p' where "pool_run du p es p' False" and "f p' = x"
proof -
  have "pool_exec du es p = Some p' \<Longrightarrow> pool_run du p es p' False" for p'
  proof (induction es arbitrary: p)
    case Nil
    then show ?case by (simp add: pool_run.start)
  next
    case (Cons e es)
    then obtain p1 where "\<not> reclaims p e" "pool_next du e p = Some p1" "pool_exec du es p1 = Some p'"
      by (auto split: if_splits option.splits)
    with Cons.IH pool_run_cons [OF _ pool_next_step] show ?case by fastforce
  qed
  with assms that show thesis by auto
qed

theorem worker_ends_witness:
  "\<exists>p p'. pool_run memory_due p [Stepped 0] p' False
     \<and> count_list [Stepped 0] (Stepped 0) + pieces_left (fr_phase (pl_frames p' ! 0)) \<le> 12"
proof -
  let ?p = "\<lparr>pl_shared = due_start (\<lambda>i. ''/w'') 0, pl_frames = [new_frame (thread_ref ''a'') ''a'']\<rparr>"
  obtain f s where "thread_step memory_due (pl_frames ?p ! 0) (pl_shared ?p) = (f, s)" by fastforce
  then have "pool_step memory_due ?p (Stepped 0) \<lparr>pl_shared = s, pl_frames = (pl_frames ?p)[0 := f]\<rparr>"
    by (intro pool_step.stepped) (simp_all add: ended_def new_frame_def)
  from pool_run.snoc [OF pool_run.start this]
  have run: "pool_run memory_due ?p [Stepped 0] \<lparr>pl_shared = s, pl_frames = (pl_frames ?p)[0 := f]\<rparr> False"
    by (simp add: reclaims_def new_frame_def)
  have "0 < length (pl_frames ?p)" by simp
  from worker_ends [OF run this] run show ?thesis by (meson order_trans)
qed

definition two_runs :: "pool_event list" where
  "two_runs = [Spawned (thread_ref ''a''), Spawned (thread_ref ''b'')] @ replicate 5 (Stepped 0) @ replicate 5 (Stepped 1)"

definition is_agent_in :: "string \<Rightarrow> 'a frame \<Rightarrow> bool" where
  "is_agent_in ws f =
     (case fr_phase f of RunningAgent _ _ b _ _ \<Rightarrow> run_workspace b = Some ws | _ \<Rightarrow> False)"

lemma is_agent_inD:
  "is_agent_in ws f \<Longrightarrow>
   \<exists>g k b h se run. fr_phase f = RunningAgent g k b h se \<and> t_kind b = RunTask run \<and> rt_workspace_dir run = ws"
  by (auto simp: is_agent_in_def run_workspace_def split: due_phase.splits task_kind.splits)

theorem workspaces_exclusive_witness:
  "\<exists>p b b' run run'. pool_run memory_due (empty_pool (due_start (\<lambda>i. ''/w'' @ i) 0)) two_runs p False
     \<and> t_kind b = RunTask run \<and> t_kind b' = RunTask run'
     \<and> (\<exists>g k h se. fr_phase (pl_frames p ! 0) = RunningAgent g k b h se)
     \<and> (\<exists>g k h se. fr_phase (pl_frames p ! 1) = RunningAgent g k b' h se)
     \<and> rt_workspace_dir run \<noteq> rt_workspace_dir run'"
proof -
  have "map_option (\<lambda>p. (length (pl_frames p), is_agent_in ''/wa'' (pl_frames p ! 0), is_agent_in ''/wb'' (pl_frames p ! 1)))
          (pool_exec memory_due two_runs (empty_pool (due_start (\<lambda>i. ''/w'' @ i) 0)))
        = Some (2, True, True)"
    by code_simp
  then obtain p where p: "pool_run memory_due (empty_pool (due_start (\<lambda>i. ''/w'' @ i) 0)) two_runs p False"
    "(length (pl_frames p), is_agent_in ''/wa'' (pl_frames p ! 0), is_agent_in ''/wb'' (pl_frames p ! 1)) = (2, True, True)"
    by (rule pool_run_by_exec)
  then have len: "0 < length (pl_frames p)" "1 < length (pl_frames p)"
    and agents: "is_agent_in ''/wa'' (pl_frames p ! 0)" "is_agent_in ''/wb'' (pl_frames p ! 1)" by simp_all
  from is_agent_inD [OF agents(1)] obtain g k b h se run where
    a: "fr_phase (pl_frames p ! 0) = RunningAgent g k b h se" "t_kind b = RunTask run" by blast
  from is_agent_inD [OF agents(2)] obtain g' k' b' h' se' run' where
    b: "fr_phase (pl_frames p ! 1) = RunningAgent g' k' b' h' se'" "t_kind b' = RunTask run'" by blast
  have "rt_workspace_dir run \<noteq> rt_workspace_dir run'"
    by (rule workspaces_exclusive [OF p(1) len zero_neq_one a b])
  with p(1) a b show ?thesis by blast
qed

definition second_at_slot :: "pool_event list" where
  "second_at_slot = [Spawned (thread_ref ''a''), Spawned (thread_ref ''b'')] @ replicate 4 (Stepped 0) @ replicate 5 (Stepped 1)"

theorem reclaim_evicts_live_worker_witness:
  "\<exists>p j key p1 p2. pool_run memory_due (empty_pool (due_start (\<lambda>i. ''/w'') 0)) second_at_slot p False
     \<and> j \<noteq> 1 \<and> pool_step memory_due p (Stepped 1) p1 \<and> pool_step memory_due p1 (Stepped 1) p2
     \<and> guard_of (fr_phase (pl_frames p2 ! 1)) = Some key \<and> guard_of (fr_phase (pl_frames p2 ! j)) = Some key"
proof -
  have "map_option (\<lambda>p. reclaims p (Stepped 1))
          (pool_exec memory_due second_at_slot (empty_pool (due_start (\<lambda>i. ''/w'') 0))) = Some True"
    by code_simp
  then obtain p where p: "pool_run memory_due (empty_pool (due_start (\<lambda>i. ''/w'') 0)) second_at_slot p False"
    "reclaims p (Stepped 1) = True" by (rule pool_run_by_exec)
  then have "reclaims p (Stepped 1)" by simp
  from reclaim_evicts_live_worker [OF p(1) this] obtain j key p1 p2 where
    "j \<noteq> 1" "pool_step memory_due p (Stepped 1) p1" "pool_step memory_due p1 (Stepped 1) p2"
    "guard_of (fr_phase (pl_frames p2 ! 1)) = Some key" "guard_of (fr_phase (pl_frames p2 ! j)) = Some key"
    by (elim exE conjE)
  with p(1) show ?thesis by (intro exI conjI)
qed

end

