(* ===== verification/User_Properties.thy ===== *)
theory User_Properties
  imports User_Store
begin

text \<open>
  Users keep their identity between messages, unless their first two arrive together, and
  addresses that differ may have the same normal form.
\<close>

subsection \<open>Normal forms\<close>

lemma cut_at:
  assumes "d \<notin> set a"
  shows "takeWhile (\<lambda>c. c \<noteq> d) (a @ d # b) = a" "dropWhile (\<lambda>c. c \<noteq> d) (a @ d # b) = d # b"
  using assms by (induction a) auto

lemma splitn_2: "d \<notin> set a \<Longrightarrow> splitn 2 d (a @ d # b) = [a, b]"
  by (simp add: numeral_2_eq_2 cut_at Let_def del: takeWhile_append dropWhile_append)

lemma split_char_at: "d \<notin> set a \<Longrightarrow> split_char d (a @ d # b) = a # split_char d b"
  by (induction a) auto

text \<open>
  A mail address whose local part begins with a plus sign loses all of it: every such
  address of a domain gets the same normal form, hence the same user.
\<close>

theorem plus_addresses_collapse:
  assumes "set tag \<inter> {CHR ''@'', CHR ''+''} = {}" and "CHR ''@'' \<notin> set domain"
    and "trim (''+'' @ tag @ ''@'' @ domain) = ''+'' @ tag @ ''@'' @ domain"
    and "trim (''+'' @ tag) = ''+'' @ tag" and "trim domain = domain" and "domain \<noteq> []"
    and "last domain \<notin> {CHR ''<'', CHR ''>'', CHR 0x22, CHR 0x27, CHR '','', CHR '';''}"
  shows "normalize_email (''+'' @ tag @ ''@'' @ domain) = Some (''@'' @ to_ascii_lowercase domain)"
proof -
  let ?v = "''+'' @ tag @ ''@'' @ domain"
  let ?cs = "[CHR ''<'', CHR ''>'', CHR 0x22, CHR 0x27, CHR '','', CHR '';'']"
  have m: "strip_prefix ''mailto:'' ?v = None" by simp
  have "dropWhile (\<lambda>c. c \<in> set ?cs) ?v = ?v" by simp
  moreover have "dropWhile (\<lambda>c. c \<in> set ?cs) (rev ?v) = rev ?v"
    using assms(6,7) by (cases domain rule: rev_cases) auto
  ultimately have t: "trim_matches ?cs ?v = ?v" by (simp only: trim_matches_def rev_rev_ident)
  have "splitn 2 (CHR ''@'') ((''+'' @ tag) @ CHR ''@'' # domain) = [''+'' @ tag, domain]"
    using assms(1) by (intro splitn_2) auto
  then have s: "splitn 2 (CHR ''@'') ?v = [''+'' @ tag, domain]" by simp
  have p: "nth_opt (split_char (CHR ''+'') (''+'' @ tag)) 0 = Some []"
    by (simp add: nth_opt_def)
  have at: "CHR ''@'' \<in> set ?v" by simp
  show ?thesis
    unfolding normalize_email_def assms(3) Let_def m option.case t s
    using assms(4-6) p at by (simp add: nth_opt_def to_ascii_lowercase_def)
qed

subsection \<open>One user for one sender\<close>

lemma find_user_ok:
  assumes "doc_collection (ul_users ul) docs" and "find_user ul ty i c = (Inr f, c')"
  shows "f = List.find (by_identifier ty i) (docs c) \<and> docs c' = docs c"
proof -
  from assms(2) obtain ds where "c_find (ul_users ul) (by_identifier ty i) c = (Inr ds, c')" "f = nth_opt ds 0"
    by (auto simp: find_user_def user_op_def st_bind_def map_err_eq_Inr split: prod.splits sum.splits)
  with doc_collection.find_ok [OF assms(1)] show ?thesis
    by (auto simp: find_eq_hd_filter nth_opt_def split: list.splits)
qed

lemma find_append: "List.find p (xs @ ys) = (case List.find p xs of None \<Rightarrow> List.find p ys | Some x \<Rightarrow> Some x)"
  by (induction xs) auto

lemma find_after_update_first:
  assumes "List.find p ds = Some d" and "\<And>d. p (u d) = p d"
  shows "\<exists>d'. List.find p (update_first q u ds) = Some d' \<and> (d' = d \<or> d' = u d)"
  using assms(1) by (induction ds) (auto simp: assms(2) split: if_splits)

lemma map_update_first: "(\<And>d. f (u d) = f d) \<Longrightarrow> map f (update_first q u ds) = map f ds"
  by (induction ds) auto

lemma record_of_document:
  "document_to_user_record ul d = Inr r \<Longrightarrow> ud_user_id d = Some (ur_user_id r)"
  by (auto simp: document_to_user_record_def user_field_def res_bind_eq_Inr split: option.splits)

lemma existing_user_ok:
  assumes dc: "doc_collection (ul_users ul) docs" and e: "existing_user ul ty n now c = (Inr f, c')"
  shows "case List.find (by_identifier ty n) (docs c) of
           None \<Rightarrow> f = None \<and> docs c' = docs c
         | Some d \<Rightarrow> (\<exists>r d'. f = Some r \<and> ud_user_id d = Some (ur_user_id r)
              \<and> List.find (by_identifier ty n) (docs c') = Some d' \<and> ud_user_id d' = ud_user_id d
              \<and> map ud_user_id (docs c') = map ud_user_id (docs c))"
proof -
  from e obtain g c1 where g: "find_user ul ty n c = (Inr g, c1)"
    by (auto simp: existing_user_def st_bind_def split: prod.splits sum.splits)
  note found = find_user_ok [OF dc g]
  show ?thesis
  proof (cases g)
    case None
    with e g found show ?thesis by (auto simp: existing_user_def)
  next
    case (Some d)
    with e g obtain r where r: "document_to_user_record ul d = Inr r"
      by (auto simp: existing_user_def st_bind_def split: sum.splits prod.splits)
    show ?thesis
    proof (cases "should_refresh_last_seen (ur_last_seen_at r) now")
      case False
      with e g Some r found have "f = Some r" "docs c' = docs c" by (auto simp: existing_user_def)
      moreover have "List.find (by_identifier ty n) (docs c) = Some d" using found Some by simp
      ultimately show ?thesis using record_of_document [OF r] by simp
    next
      case True
      let ?q = "\<lambda>d. ud_user_id d = Some (ur_user_id r)"
      let ?u = "\<lambda>d. d\<lparr>ud_last_seen_at := UserTime (bson_time now)\<rparr>"
      from e g Some r True obtain k where u: "c_update_one (ul_users ul) ?q ?u c1 = (Inr k, c')"
        and f: "f = Some (r\<lparr>ur_last_seen_at := now\<rparr>)"
        by (auto simp: existing_user_def user_op_def st_bind_def map_err_eq_Inr split: prod.splits sum.splits)
      have docs: "docs c' = update_first ?q ?u (docs c)"
        using doc_collection.update_one_ok [OF dc u] found by simp
      have "by_identifier ty n (?u d) = by_identifier ty n d" for d by (simp add: by_identifier_def)
      from find_after_update_first [of "by_identifier ty n" "docs c" d ?u ?q, OF _ this] found Some
      obtain d' where "List.find (by_identifier ty n) (docs c') = Some d'" "d' = d \<or> d' = ?u d"
        unfolding docs by auto
      moreover have "map ud_user_id (docs c') = map ud_user_id (docs c)"
        unfolding docs by (rule map_update_first) simp
      moreover have "List.find (by_identifier ty n) (docs c) = Some d" using found Some by simp
      ultimately show ?thesis using f record_of_document [OF r] by auto
    qed
  qed
qed

lemma insert_user_ok:
  assumes dc: "doc_collection (ul_users ul) docs" and e: "insert_user ul ty n now uid c = (Inr r, c')"
    and none: "List.find (by_identifier ty n) (docs c) = None"
  shows "\<exists>d. List.find (by_identifier ty n) (docs c') = Some d \<and> ud_user_id d = Some (ur_user_id r)"
proof (cases "c_insert_one (ul_users ul) (new_user_doc ty n uid now) c")
  case (Pair a c1)
  show ?thesis
  proof (cases a)
    case (Inr x)
    with Pair e have r: "ur_user_id r = uid" "c' = c1" by (auto simp: insert_user_def)
    have "docs c' = docs c @ [new_user_doc ty n uid now]"
      using doc_collection.insert_one_ok [OF dc] Pair Inr r by blast
    moreover have "by_identifier ty n (new_user_doc ty n uid now)" by (simp add: by_identifier_def new_user_doc_def)
    ultimately have "List.find (by_identifier ty n) (docs c') = Some (new_user_doc ty n uid now)"
      using none by (simp add: find_append)
    with r show ?thesis by (simp add: new_user_doc_def)
  next
    case (Inl err)
    with Pair e obtain g where g: "find_user ul ty n c1 = (Inr g, c')"
      and r: "(case g of Some d \<Rightarrow> document_to_user_record ul d | None \<Rightarrow> Inl (UserMongo err)) = Inr r"
      by (auto simp: insert_user_def st_bind_def split: prod.splits sum.splits)
    from r obtain d where "g = Some d" "document_to_user_record ul d = Inr r" by (auto split: option.splits)
    with find_user_ok [OF dc g] record_of_document [of ul d r] show ?thesis by metis
  qed
qed

lemma get_or_create_user_ok:
  assumes dc: "doc_collection (ul_users ul) docs" and n: "normalize_identifier ty i = Some n"
    and e: "get_or_create_user ul ty i now uid c = (Inr r, c')"
  shows "(\<exists>d. List.find (by_identifier ty n) (docs c') = Some d \<and> ud_user_id d = Some (ur_user_id r))
         \<and> (\<forall>d. List.find (by_identifier ty n) (docs c) = Some d \<longrightarrow>
               ud_user_id d = Some (ur_user_id r) \<and> map ud_user_id (docs c') = map ud_user_id (docs c))"
proof -
  from e n obtain f c1 where f: "existing_user ul ty n now c = (Inr f, c1)"
    by (auto simp: get_or_create_user_def st_bind_def split: prod.splits sum.splits)
  note ex = existing_user_ok [OF dc f]
  show ?thesis
  proof (cases f)
    case None
    then have none: "List.find (by_identifier ty n) (docs c) = None" "docs c1 = docs c"
      using ex by (auto split: option.splits)
    from None e n f have "insert_user ul ty n now uid c1 = (Inr r, c')" by (auto simp: get_or_create_user_def)
    from insert_user_ok [OF dc this] none show ?thesis by simp
  next
    case (Some r')
    with e n f have "r' = r" "c' = c1" by (auto simp: get_or_create_user_def)
    with ex Some show ?thesis by (auto split: option.splits)
  qed
qed

text \<open>
  A write to one document is atomic: when it fails, for whatever reason, it was made in full or
  not at all.
\<close>

locale atomic_collection = doc_collection +
  assumes update_one_err: "c_update_one ops p u c = (Inl e, c') \<Longrightarrow>
      contents c' = contents c \<or> contents c' = update_first p u (contents c)"
    and insert_one_err: "c_insert_one ops d c = (Inl e, c') \<Longrightarrow>
      contents c' = contents c \<or> contents c' = contents c @ [d]"
begin

lemma update_one_any: "c_update_one ops p u c = (r, c') \<Longrightarrow>
    contents c' = contents c \<or> contents c' = update_first p u (contents c)"
  by (cases r) (use update_one_ok update_one_err in \<open>blast+\<close>)

lemma insert_one_any: "c_insert_one ops d c = (r, c') \<Longrightarrow>
    contents c' = contents c \<or> contents c' = contents c @ [d]"
  by (cases r) (use insert_one_ok insert_one_err in \<open>blast+\<close>)

lemma find_any: "c_find ops p c = (r, c') \<Longrightarrow> contents c' = contents c"
  by (cases r) (use find_ok find_err in \<open>blast+\<close>)

end

text \<open>The first document for an identifier, and with it the user, stays whatever is requested.\<close>

definition known_as :: "string \<Rightarrow> string \<Rightarrow> uuid \<Rightarrow> user_doc list \<Rightarrow> bool" where
  "known_as ty n u ds =
     (case List.find (by_identifier ty n) ds of None \<Rightarrow> False | Some d \<Rightarrow> ud_user_id d = Some u)"

lemma known_as_append: "known_as ty n u ds \<Longrightarrow> known_as ty n u (ds @ ds')"
  by (auto simp: known_as_def find_append split: option.splits)

lemma known_as_seen:
  assumes "known_as ty n u ds"
  shows "known_as ty n u (update_first q (\<lambda>d. d\<lparr>ud_last_seen_at := t\<rparr>) ds)"
proof -
  obtain d where d: "List.find (by_identifier ty n) ds = Some d" "ud_user_id d = Some u"
    using assms by (auto simp: known_as_def split: option.splits)
  from find_after_update_first [OF d(1), of "\<lambda>d. d\<lparr>ud_last_seen_at := t\<rparr>" q] d(2) show ?thesis
    by (auto simp: known_as_def by_identifier_def)
qed

lemma find_user_any:
  assumes "atomic_collection (ul_users ul) docs" and "find_user ul ty n c = (r, c')"
  shows "docs c' = docs c"
  using assms(2) atomic_collection.find_any [OF assms(1)]
  by (auto simp: find_user_def user_op_def st_bind_def map_err_def split: prod.splits sum.splits)

lemma existing_user_any:
  assumes ac: "atomic_collection (ul_users ul) docs" and "existing_user ul ty' m now c = (r, c')"
    and "known_as ty n u (docs c)"
  shows "known_as ty n u (docs c')"
proof -
  obtain f c1 where f: "find_user ul ty' m c = (f, c1)" by force
  with find_user_any [OF ac] have "docs c1 = docs c" by blast
  with assms(2,3) f atomic_collection.update_one_any [OF ac] known_as_seen show ?thesis
    by (fastforce simp: existing_user_def user_op_def st_bind_def map_err_def
        split: sum.splits option.splits prod.splits if_splits)
qed

lemma insert_user_any:
  assumes ac: "atomic_collection (ul_users ul) docs" and "insert_user ul ty' m now uid c = (r, c')"
    and "known_as ty n u (docs c)"
  shows "known_as ty n u (docs c')"
proof -
  obtain x c1 where x: "c_insert_one (ul_users ul) (new_user_doc ty' m uid now) c = (x, c1)" by force
  with atomic_collection.insert_one_any [OF ac] assms(3) known_as_append have k: "known_as ty n u (docs c1)" by metis
  obtain f c2 where f: "find_user ul ty' m c1 = (f, c2)" by force
  with find_user_any [OF ac] have "docs c2 = docs c1" by blast
  with assms(2) x f k show ?thesis
    by (auto simp: insert_user_def st_bind_def split: sum.splits option.splits)
qed

lemma get_or_create_user_any:
  assumes ac: "atomic_collection (ul_users ul) docs" and g: "get_or_create_user ul ty' j now uid c = (r, c')"
    and k: "known_as ty n u (docs c)"
  shows "known_as ty n u (docs c')"
proof (cases "normalize_identifier ty' j")
  case None
  with g k show ?thesis by (simp add: get_or_create_user_def)
next
  case (Some m)
  obtain f c1 where f: "existing_user ul ty' m now c = (f, c1)" by force
  with existing_user_any [OF ac f k] g Some insert_user_any [OF ac] show ?thesis
    by (auto simp: get_or_create_user_def st_bind_def split: sum.splits option.splits)
qed

text \<open>Requests one after the other: type of identifier, identifier, instant, identifier for a new user.\<close>

type_synonym user_request = "string \<times> string \<times> datetime \<times> uuid"

definition user_requests :: "'c user_lib \<Rightarrow> user_request list \<Rightarrow> 'c \<Rightarrow> 'c" where
  "user_requests ul reqs c =
     foldl (\<lambda>c (ty, i, now, uid). snd (get_or_create_user ul ty i now uid c)) c reqs"

lemma known_as_run:
  assumes "atomic_collection (ul_users ul) docs" and "known_as ty n u (docs c)"
  shows "known_as ty n u (docs (user_requests ul reqs c))"
  using assms(2) unfolding user_requests_def
proof (induction reqs arbitrary: c)
  case (Cons q reqs)
  obtain ty' j now uid where q: "q = (ty', j, now, uid)" by (cases q)
  have "known_as ty n u (docs (snd (get_or_create_user ul ty' j now uid c)))"
    by (rule get_or_create_user_any [OF assms(1) _ Cons.prems]) (rule prod.collapse [symmetric])
  with Cons.IH q show ?case by simp
qed simp

text \<open>
  C37.  A sender keeps one user, as long as requests are served one after the other: when a
  request for an identifier has succeeded, and after any number of further requests for whatever
  identifiers, successful or not, a request for an identifier of the same type and with the same
  normal form that succeeds gets the same user, and creates no other.  Writes to one document are
  atomic.  (Two first requests that run at the same time can create two users.)
\<close>

theorem same_sender_same_user:
  assumes "atomic_collection (ul_users ul) docs"
    and "normalize_identifier ty i = normalize_identifier ty j"
    and "get_or_create_user ul ty i now uid c = (Inr r, c1)"
    and "get_or_create_user ul ty j now' uid' (user_requests ul reqs c1) = (Inr r', c2)"
  shows "ur_user_id r' = ur_user_id r
    \<and> map ud_user_id (docs c2) = map ud_user_id (docs (user_requests ul reqs c1))"
proof -
  note dc = atomic_collection.axioms(1) [OF assms(1)]
  obtain n where n: "normalize_identifier ty i = Some n"
    using assms(3) by (auto simp: get_or_create_user_def split: option.splits)
  from get_or_create_user_ok [OF dc n assms(3)] have "known_as ty n (ur_user_id r) (docs c1)"
    by (auto simp: known_as_def)
  from known_as_run [OF assms(1) this, of reqs] obtain d
    where d: "List.find (by_identifier ty n) (docs (user_requests ul reqs c1)) = Some d" "ud_user_id d = Some (ur_user_id r)"
    by (auto simp: known_as_def split: option.splits)
  from n assms(2) have "normalize_identifier ty j = Some n" by simp
  from get_or_create_user_ok [OF dc this assms(4)] d show ?thesis by auto
qed

text \<open>
  Two first messages of one sender can create two users: the index on the identifier is
  not unique, so when both requests look before either inserts, both inserts succeed, the two
  conversations run under different users, and the second one is never found again: every
  later request gets the user of the first.
\<close>

theorem first_messages_create_two_users:
  assumes dc: "doc_collection (ul_users ul) docs"
    and "existing_user ul ty n now c = (Inr None, c1)" and "existing_user ul ty n now' c1 = (Inr None, c2)"
    and "c_insert_one (ul_users ul) (new_user_doc ty n uid now) c2 = (Inr x, c3)"
    and "c_insert_one (ul_users ul) (new_user_doc ty n uid' now') c3 = (Inr x', c4)"
    and "normalize_identifier ty i = Some n" and "get_or_create_user ul ty i later uid'' c4 = (Inr r, c5)"
  shows "insert_user ul ty n now uid c2 = (Inr \<lparr>ur_user_id = uid, ur_identifier_type = ty,
            ur_identifier = n, ur_created_at = now, ur_last_seen_at = now\<rparr>, c3)
         \<and> insert_user ul ty n now' uid' c3 = (Inr \<lparr>ur_user_id = uid', ur_identifier_type = ty,
            ur_identifier = n, ur_created_at = now', ur_last_seen_at = now'\<rparr>, c4)
         \<and> new_user_doc ty n uid now \<in> set (docs c4) \<and> new_user_doc ty n uid' now' \<in> set (docs c4)
         \<and> ur_user_id r = uid"
proof -
  have none: "List.find (by_identifier ty n) (docs c) = None" "docs c2 = docs c"
    using existing_user_ok [OF dc assms(2)] existing_user_ok [OF dc assms(3)] by (auto split: option.splits)
  have docs: "docs c4 = docs c @ [new_user_doc ty n uid now, new_user_doc ty n uid' now']"
    using doc_collection.insert_one_ok [OF dc assms(4)] doc_collection.insert_one_ok [OF dc assms(5)] none(2) by simp
  have "by_identifier ty n (new_user_doc ty n uid now)" by (simp add: by_identifier_def new_user_doc_def)
  with none(1) have "List.find (by_identifier ty n) (docs c4) = Some (new_user_doc ty n uid now)"
    unfolding docs by (simp add: find_append)
  from get_or_create_user_ok [OF dc assms(6,7)] this have "ur_user_id r = uid" by (auto simp: new_user_doc_def)
  with docs assms(4,5) show ?thesis by (auto simp: insert_user_def)
qed
subsection \<open>Examples\<close>

theorem plus_addresses_collapse_witness:
  "normalize_email ''+x@Example.com'' = Some ''@example.com''"
proof -
  have "trim (''+'' @ ''x'' @ ''@'' @ ''Example.com'') = ''+'' @ ''x'' @ ''@'' @ ''Example.com''"
    "trim (''+'' @ ''x'') = ''+'' @ ''x''" "trim ''Example.com'' = ''Example.com''"
    "to_ascii_lowercase ''Example.com'' = ''example.com''" by code_simp+
  with plus_addresses_collapse [of "''x''" "''Example.com''"] show ?thesis by simp
qed

definition memory_users :: "user_doc scripted user_lib" where
  "memory_users = \<lparr>ul_users = list_coll, ul_access_error = (\<lambda>_. ''no such field''), ul_rfc3339 = (\<lambda>_. Inl ''bad'')\<rparr>"

interpretation la: atomic_collection list_coll fst
  by unfold_locales (auto simp: list_coll_def scripted_def split: list.splits option.splits prod.splits)

theorem same_sender_same_user_witness:
  "\<exists>c1 c2 r r'. get_or_create_user memory_users ''email'' ''Ann@Example.com'' 0 ''u1'' ([], []) = (Inr r, c1)
     \<and> get_or_create_user memory_users ''email'' ''<ann+news@example.com>'' (secs 900) ''u2''
         (user_requests memory_users [(''phone'', ''+1 555'', 5, ''u3'')] c1) = (Inr r', c2)
     \<and> ur_user_id r' = ''u1'' \<and> map ud_user_id (fst c2) = [Some ''u1'', Some ''u3'']"
proof -
  let ?c1 = "([new_user_doc ''email'' ''ann@example.com'' ''u1'' 0], [] :: mongo_error option list)"
  let ?r = "\<lparr>ur_user_id = ''u1'', ur_identifier_type = ''email'', ur_identifier = ''ann@example.com'',
             ur_created_at = 0, ur_last_seen_at = 0\<rparr>"
  let ?reqs = "[(''phone'', ''+1 555'', 5, ''u3'')] :: user_request list"
  have dc: "atomic_collection (ul_users memory_users) fst"
    by (simp add: memory_users_def la.atomic_collection_axioms)
  have n: "normalize_identifier ''email'' ''Ann@Example.com'' = Some ''ann@example.com''"
    "normalize_identifier ''email'' ''<ann+news@example.com>'' = Some ''ann@example.com''"
    by code_simp+
  have 1: "get_or_create_user memory_users ''email'' ''Ann@Example.com'' 0 ''u1'' ([], []) = (Inr ?r, ?c1)"
    by (simp add: get_or_create_user_def n existing_user_def find_user_def user_op_def insert_user_def
        memory_users_def list_coll_def scripted_def nth_opt_def)
  have "fst (get_or_create_user memory_users ''email'' ''<ann+news@example.com>'' (secs 900) ''u2''
      (user_requests memory_users ?reqs ?c1)) = Inr (?r\<lparr>ur_last_seen_at := secs 900\<rparr>)" by code_simp
  then obtain r' c2 where 2: "get_or_create_user memory_users ''email'' ''<ann+news@example.com>'' (secs 900) ''u2''
      (user_requests memory_users ?reqs ?c1) = (Inr r', c2)" by (metis prod.collapse)
  have ids: "map ud_user_id (fst (user_requests memory_users ?reqs ?c1)) = [Some ''u1'', Some ''u3'']" by code_simp
  from n have "normalize_identifier ''email'' ''Ann@Example.com''
      = normalize_identifier ''email'' ''<ann+news@example.com>''" by simp
  from same_sender_same_user [OF dc this 1 2] ids
  have "ur_user_id r' = ''u1'' \<and> map ud_user_id (fst c2) = [Some ''u1'', Some ''u3'']" by simp
  with 1 2 show ?thesis
    by (intro exI [of _ ?c1] exI [of _ c2] exI [of _ ?r] exI [of _ r'] conjI) blast+
qed

theorem first_messages_create_two_users_witness:
  "\<exists>c4 c5 r. get_or_create_user memory_users ''phone'' ''+1 555'' (secs 9) ''u3'' c4 = (Inr r, c5)
     \<and> ur_user_id r = ''u1'' \<and> map ud_user_id (fst c4) = [Some ''u1'', Some ''u2'']
     \<and> fst (insert_user memory_users ''phone'' ''+1555'' 0 ''u1'' ([], []))
         = Inr \<lparr>ur_user_id = ''u1'', ur_identifier_type = ''phone'', ur_identifier = ''+1555'',
                ur_created_at = 0, ur_last_seen_at = 0\<rparr>"
proof -
  let ?d = "new_user_doc ''phone'' ''+1555'' ''u1'' 0" and ?d' = "new_user_doc ''phone'' ''+1555'' ''u2'' 0"
  let ?c = "([], []) :: user_doc scripted"
  have dc: "doc_collection (ul_users memory_users) fst"
    by (simp add: memory_users_def lc.doc_collection_axioms)
  have n: "normalize_identifier ''phone'' ''+1 555'' = Some ''+1555''" by code_simp
  have e: "existing_user memory_users ''phone'' ''+1555'' 0 ?c = (Inr None, ?c)"
    by (simp add: existing_user_def find_user_def user_op_def memory_users_def list_coll_def scripted_def nth_opt_def)
  have i: "c_insert_one (ul_users memory_users) ?d ?c = (Inr (), ([?d], []))"
    "c_insert_one (ul_users memory_users) ?d' ([?d], []) = (Inr (), ([?d, ?d'], []))"
    by (simp_all add: memory_users_def list_coll_def scripted_def)
  obtain r c5 where g: "get_or_create_user memory_users ''phone'' ''+1 555'' (secs 9) ''u3'' ([?d, ?d'], []) = (Inr r, c5)"
    by (simp add: get_or_create_user_def n existing_user_def find_user_def user_op_def
        memory_users_def list_coll_def scripted_def nth_opt_def new_user_doc_def by_identifier_def
        document_to_user_record_def user_field_def bson_datetime_to_utc_def should_refresh_last_seen_def
        last_seen_update_interval_secs_def num_seconds_def time_simps)
  from first_messages_create_two_users [OF dc e e i n g] g show ?thesis
    by (intro exI conjI) (auto simp: new_user_doc_def)
qed
end

