(* ===== verification/Inbound_Types.thy ===== *)
theory Inbound_Types
  imports User_Store
begin

text \<open>
  The message that every channel is normalised to (\<open>InboundMessage\<close> of \<open>channel.rs\<close>) and the
  envelope in which the gateway hands it to a worker (\<open>ingestion.rs\<close>).  Bytes are \<open>string\<close>, as
  everywhere.  \<open>raw_payload_store::download_raw_payload\<close> is the parameter \<open>download\<close>.
\<close>

record attachment =
  at_name :: string
  at_content_type :: string
  at_content :: string

record inbound_message =
  im_channel :: channel
  im_sender :: string
  im_sender_name :: "string option"
  im_recipient :: string
  im_subject :: "string option"
  im_text_body :: "string option"
  im_html_body :: "string option"
  im_thread_id :: string
  im_message_id :: "string option"
  im_attachments :: "attachment list"
  im_reply_to :: "string list"
  im_raw_payload :: string
  im_metadata :: channel_metadata

record ingestion_payload =
  ip_sender :: string
  ip_sender_name :: "string option"
  ip_recipient :: string
  ip_subject :: "string option"
  ip_text_body :: "string option"
  ip_html_body :: "string option"
  ip_thread_id :: string
  ip_message_id :: "string option"
  ip_attachments :: "attachment list"
  ip_reply_to :: "string list"
  ip_metadata :: channel_metadata

record ingestion_envelope =
  ie_envelope_id :: uuid
  ie_received_at :: datetime
  ie_tenant_id :: "string option"
  ie_employee_id :: string
  ie_channel :: channel
  ie_external_message_id :: "string option"
  ie_dedupe_key :: string
  ie_payload :: ingestion_payload
  ie_raw_payload_ref :: "string option"
  ie_account_id :: "uuid option"

definition payload_from_inbound :: "inbound_message \<Rightarrow> ingestion_payload" where
  "payload_from_inbound message =
     \<lparr>ip_sender = im_sender message, ip_sender_name = im_sender_name message,
      ip_recipient = im_recipient message, ip_subject = im_subject message,
      ip_text_body = im_text_body message, ip_html_body = im_html_body message,
      ip_thread_id = im_thread_id message, ip_message_id = im_message_id message,
      ip_attachments = im_attachments message, ip_reply_to = im_reply_to message,
      ip_metadata = im_metadata message\<rparr>"

definition payload_to_inbound :: "ingestion_payload \<Rightarrow> channel \<Rightarrow> string \<Rightarrow> inbound_message" where
  "payload_to_inbound p channel raw_payload =
     \<lparr>im_channel = channel, im_sender = ip_sender p, im_sender_name = ip_sender_name p,
      im_recipient = ip_recipient p, im_subject = ip_subject p, im_text_body = ip_text_body p,
      im_html_body = ip_html_body p, im_thread_id = ip_thread_id p, im_message_id = ip_message_id p,
      im_attachments = ip_attachments p, im_reply_to = ip_reply_to p, im_raw_payload = raw_payload,
      im_metadata = ip_metadata p\<rparr>"

lemma payload_roundtrip [simp]:
  "payload_to_inbound (payload_from_inbound m) (im_channel m) (im_raw_payload m) = m"
  by (cases m) (simp add: payload_from_inbound_def payload_to_inbound_def)

text \<open>Without a reference, and when the download fails, there are no bytes.\<close>

definition raw_payload_bytes :: "(string \<Rightarrow> string + string) \<Rightarrow> ingestion_envelope \<Rightarrow> string" where
  "raw_payload_bytes download e =
     (case ie_raw_payload_ref e of
        None \<Rightarrow> []
      | Some payload_ref \<Rightarrow> (case download payload_ref of Inr bytes \<Rightarrow> bytes | Inl _ \<Rightarrow> []))"

definition to_inbound_message :: "(string \<Rightarrow> string + string) \<Rightarrow> ingestion_envelope \<Rightarrow> inbound_message" where
  "to_inbound_message download e =
     payload_to_inbound (ie_payload e) (ie_channel e) (raw_payload_bytes download e)"

definition is_ascii_alphanumeric :: "char \<Rightarrow> bool" where
  "is_ascii_alphanumeric c =
     (let n = of_char c :: nat in 48 \<le> n \<and> n \<le> 57 \<or> 65 \<le> n \<and> n \<le> 90 \<or> 97 \<le> n \<and> n \<le> 122)"

end
