(* ===== verification/Mailbox.thy ===== *)
theory Mailbox
  imports Inbound_Types
begin

text \<open>
  Inbound e-mail as Postmark delivers it, and who it is from and for: the payload of
  \<open>adapters/postmark.rs\<close> and \<open>service/postmark.rs\<close> (the same structure twice, the first with one
  field more), the addresses of the service in \<open>mailbox.rs\<close>, the recipients of a reply in
  \<open>service/recipients.rs\<close>, the thread of a message and the senders that are not answered in
  \<open>service/email.rs\<close>.
\<close>

subsection \<open>The payload\<close>

record postmark_header =
  ph_name :: string
  ph_value :: string

record postmark_attachment =
  pa_name :: string
  pa_content :: string
  pa_storage_ref :: "string option"
  pa_content_type :: string

text \<open>\<open>pm_original_recipient\<close> is known to the gateway only; of recipients the address is used.\<close>

record postmark_mail =
  pm_from :: "string option"
  pm_to :: "string option"
  pm_cc :: "string option"
  pm_bcc :: "string option"
  pm_to_full :: "string list option"
  pm_cc_full :: "string list option"
  pm_bcc_full :: "string list option"
  pm_reply_to :: "string option"
  pm_subject :: "string option"
  pm_text_body :: "string option"
  pm_stripped_text_reply :: "string option"
  pm_html_body :: "string option"
  pm_message_id :: "string option"
  pm_headers :: "postmark_header list option"
  pm_attachments :: "postmark_attachment list option"
  pm_original_recipient :: "string option"

definition mail_headers :: "postmark_mail \<Rightarrow> string \<Rightarrow> string list" where
  "mail_headers p name =
     map ph_value (filter (\<lambda>h. eq_ignore_ascii_case (ph_name h) name) (unwrap_or [] (pm_headers p)))"

definition mail_header :: "postmark_mail \<Rightarrow> string \<Rightarrow> string option" where
  "mail_header p name =
     map_option ph_value (List.find (\<lambda>h. eq_ignore_ascii_case (ph_name h) name) (unwrap_or [] (pm_headers p)))"

definition header_message_id :: "postmark_mail \<Rightarrow> string option" where
  "header_message_id p = mail_header p ''Message-ID''"

definition normalize_message_id :: "string \<Rightarrow> string option" where
  "normalize_message_id raw =
     (let trimmed = trim_matches [CHR ''<'', CHR ''>''] (trim raw)
      in if trimmed = [] then None else Some (to_ascii_lowercase trimmed))"

definition header_addresses :: "string list" where
  "header_addresses =
     [''X-Original-To'', ''Delivered-To'', ''Envelope-To'', ''X-Envelope-To'', ''X-Forwarded-To'',
      ''X-Original-Recipient'', ''Original-Recipient'']"

definition address_fields :: "postmark_mail \<Rightarrow> string list" where
  "address_fields p =
     List.map_filter id [pm_to p, pm_cc p, pm_bcc p]
     @ unwrap_or [] (pm_to_full p) @ unwrap_or [] (pm_cc_full p) @ unwrap_or [] (pm_bcc_full p)"

text \<open>The candidates of the worker, and those of the gateway.\<close>

definition collect_service_address_candidates :: "postmark_mail \<Rightarrow> string list" where
  "collect_service_address_candidates p =
     address_fields p @ concat (map (mail_headers p) header_addresses)"

definition gateway_address_candidates :: "postmark_mail \<Rightarrow> string list" where
  "gateway_address_candidates p =
     address_fields p @ List.map_filter id [pm_original_recipient p]
     @ concat (map (mail_headers p) header_addresses)"

subsection \<open>Addresses of the service\<close>

record service_mailbox =
  sm_address :: string
  sm_display_name :: "string option"

definition mailbox_formatted :: "service_mailbox \<Rightarrow> string" where
  "mailbox_formatted m =
     (case opt_filter (\<lambda>n. n \<noteq> []) (map_option trim (sm_display_name m)) of
        Some name \<Rightarrow> name @ '' <'' @ sm_address m @ ''>''
      | None \<Rightarrow> sm_address m)"

definition is_service_address :: "string \<Rightarrow> string set \<Rightarrow> bool" where
  "is_service_address address service_addresses = (to_ascii_lowercase (trim address) \<in> service_addresses)"

definition display_name_for_address :: "string \<Rightarrow> string \<Rightarrow> string option" where
  "display_name_for_address raw address =
     (let address_lower = to_ascii_lowercase address;
          segment = unwrap_or raw
            (List.find (\<lambda>s. str_contains (to_ascii_lowercase s) address_lower) (split_char (CHR '','') raw))
      in if CHR ''<'' \<notin> set segment then None
         else
           let name = trim (trim_matches [CHR 0x22] (trim (takeWhile (\<lambda>c. c \<noteq> CHR ''<'') segment)))
           in if name = [] then None else Some name)"

fun select_inbound_service_mailbox :: "string list \<Rightarrow> string set \<Rightarrow> service_mailbox option" where
  "select_inbound_service_mailbox [] service_addresses = None"
| "select_inbound_service_mailbox (raw # raws) service_addresses =
     (case List.find (\<lambda>email. is_service_address email service_addresses) (extract_emails raw) of
        Some email \<Rightarrow> Some \<lparr>sm_address = email, sm_display_name = display_name_for_address raw email\<rparr>
      | None \<Rightarrow> select_inbound_service_mailbox raws service_addresses)"

subsection \<open>To whom a reply goes\<close>

text \<open>The loop of \<open>split_recipients\<close> with its variables \<open>current\<close>, \<open>in_quotes\<close> and \<open>escaped\<close>.\<close>

definition push_trimmed :: "string \<Rightarrow> string list" where
  "push_trimmed current = (if trim current = [] then [] else [trim current])"

fun split_loop :: "string \<Rightarrow> bool \<Rightarrow> bool \<Rightarrow> string \<Rightarrow> string list" where
  "split_loop current in_quotes escaped [] = push_trimmed current"
| "split_loop current in_quotes escaped (c # s) =
     (if escaped then split_loop (current @ [c]) in_quotes False s
      else if c = CHR 0x5C then split_loop (current @ [c]) in_quotes True s
      else if c = CHR 0x22 then split_loop (current @ [c]) (\<not> in_quotes) False s
      else if c \<in> set [CHR '','', CHR '';''] \<and> \<not> in_quotes then push_trimmed current @ split_loop [] False False s
      else split_loop (current @ [c]) in_quotes False s)"

definition split_recipients :: "string \<Rightarrow> string list" where
  "split_recipients s = split_loop [] False False s"

definition no_reply_local_parts :: "string list" where
  "no_reply_local_parts = [''noreply'', ''no-reply'', ''do-not-reply'', ''mailer-daemon'', ''postmaster'']"

definition local_part :: "string \<Rightarrow> string" where
  "local_part address = takeWhile (\<lambda>c. c \<noteq> CHR ''@'') (to_ascii_lowercase (trim address))"

definition is_no_reply_address :: "string \<Rightarrow> bool" where
  "is_no_reply_address address = (local_part address \<in> set no_reply_local_parts)"

definition contains_replyable_address :: "string \<Rightarrow> bool" where
  "contains_replyable_address v =
     (extract_emails v \<noteq> [] \<and> list_ex (\<lambda>a. \<not> is_no_reply_address a) (extract_emails v))"

definition replyable_recipients :: "string \<Rightarrow> string list" where
  "replyable_recipients raw = filter contains_replyable_address (split_recipients raw)"

text \<open>The recipients of the answer to a message: of \<open>Reply-To\<close>, or else of \<open>From\<close>.\<close>

definition reply_recipients :: "postmark_mail \<Rightarrow> string list" where
  "reply_recipients p =
     (case replyable_recipients (unwrap_or [] (pm_reply_to p)) of
        [] \<Rightarrow> replyable_recipients (unwrap_or [] (pm_from p))
      | rs \<Rightarrow> rs)"

subsection \<open>Senders that are not answered\<close>

definition is_auto_reply_address :: "string \<Rightarrow> bool" where
  "is_auto_reply_address address = (local_part address \<in> set no_reply_local_parts)"

definition is_blacklisted_address :: "string \<Rightarrow> string set \<Rightarrow> bool" where
  "is_blacklisted_address address service_addresses =
     (is_service_address address service_addresses \<or> is_auto_reply_address address)"

definition is_blacklisted_sender :: "string \<Rightarrow> string set \<Rightarrow> bool" where
  "is_blacklisted_sender sender service_addresses =
     (sender \<noteq> [] \<and> list_ex (\<lambda>a. is_blacklisted_address a service_addresses) (extract_emails sender))"

subsection \<open>The thread of a message\<close>

definition extract_first_message_id :: "string \<Rightarrow> string option" where
  "extract_first_message_id v =
     nth_opt (List.map_filter (\<lambda>token. if trim token = [] then None else normalize_message_id (trim token))
       (split_any [CHR '' '', CHR 0x09, CHR 0x0A, CHR 0x0D, CHR '','', CHR '';''] v)) 0"

definition email_thread_key :: "(string \<Rightarrow> string) \<Rightarrow> postmark_mail \<Rightarrow> string \<Rightarrow> string" where
  "email_thread_key md5 p raw_payload =
     (case Option.bind (mail_header p ''References'') extract_first_message_id of
        Some i \<Rightarrow> i
      | None \<Rightarrow>
          (case Option.bind (mail_header p ''In-Reply-To'') extract_first_message_id of
             Some i \<Rightarrow> i
           | None \<Rightarrow>
               (case Option.bind (or_else (header_message_id p) (pm_message_id p)) normalize_message_id of
                  Some i \<Rightarrow> i
                | None \<Rightarrow> md5 raw_payload)))"

text \<open>\<open>md5_uuid\<close> is the UUID made of the sixteen bytes of the digest.\<close>

definition email_message_task_id :: "(string \<Rightarrow> uuid) \<Rightarrow> string \<Rightarrow> string option \<Rightarrow> uuid option" where
  "email_message_task_id md5_uuid thread_key message_id =
     (case message_id of
        None \<Rightarrow> None
      | Some m \<Rightarrow>
          if trim thread_key = [] \<or> trim m = [] then None
          else Some (md5_uuid (''email:'' @ trim thread_key @ '':'' @ trim m)))"

subsection \<open>Replies to approval requests\<close>

definition is_human_approval_gate_subject :: "string \<Rightarrow> bool" where
  "is_human_approval_gate_subject subject =
     (let normalized = trim subject; lowered = to_ascii_lowercase normalized in
      normalized \<noteq> [] \<and>
      (starts_with lowered ''[hag:'' \<or>
       (case strip_prefix ''re:'' lowered of
          Some rest \<Rightarrow> starts_with (trim_start rest) ''[hag:''
        | None \<Rightarrow> False)))"

text \<open>The position is found in the lowered text, the identifier is cut from the original.\<close>

definition extract_human_approval_gate_challenge_id :: "string \<Rightarrow> string option" where
  "extract_human_approval_gate_challenge_id subject =
     (let normalized = trim subject in
      case after_first ''[hag:'' (to_ascii_lowercase normalized) of
        None \<Rightarrow> None
      | Some rest \<Rightarrow>
          let remainder = drop (length normalized - length rest) normalized in
          if CHR '']'' \<notin> set remainder then None
          else let challenge_id = trim (takeWhile (\<lambda>c. c \<noteq> CHR '']'') remainder)
               in if challenge_id = [] then None else Some challenge_id)"

definition human_approval_gate_subject :: "postmark_mail \<Rightarrow> bool" where
  "human_approval_gate_subject p = is_human_approval_gate_subject (unwrap_or [] (pm_subject p))"

end
