(* ===== verification/Reconcile_Alerts.thy ===== *)
theory Reconcile_Alerts
  imports Due_Task Snapshot
begin

text \<open>
  \<open>scheduler/store/reconciliation_alert.rs\<close>: the counter of failed reconciliations and the mail
  that is sent when it reaches its threshold.  \<open>mongosh\<close>, its JSON, chrono's formatting and the
  mail service are parameters.  A slice at a byte inside a character panics: \<open>None\<close>.
\<close>

record reconciliation_failure =
  rf_task_id :: string
  rf_started_at :: string
  rf_finished_at :: string
  rf_error_message :: string

text \<open>
  \<open>al_mongosh\<close> is the exit status and output of \<open>mongosh\<close>, \<open>al_format\<close> gives the text of an
  instant that \<open>parse_from_rfc3339\<close> accepts.
\<close>

record alert_lib =
  al_mongosh :: "string \<Rightarrow> string \<Rightarrow> world \<Rightarrow> string + bool \<times> string"
  al_parse :: "string \<Rightarrow> string + reconciliation_failure list"
  al_format :: "string \<Rightarrow> string option"
  al_rfc3339 :: "datetime \<Rightarrow> string"
  al_temp_dir :: string
  al_send_email :: "string \<Rightarrow> string \<Rightarrow> string \<Rightarrow> world \<Rightarrow> (string + unit) \<times> world"

definition consecutive_failure_threshold :: nat where
  "consecutive_failure_threshold = 2"

definition alert_database :: "world \<Rightarrow> string" where
  "alert_database w =
     (case opt_filter (\<lambda>v. trim v \<noteq> []) (w_env w ''MONGODB_DATABASE'') of
        Some name \<Rightarrow> name
      | None \<Rightarrow>
          let target = unwrap_or ''production''
                (opt_filter (\<lambda>v. v \<noteq> [])
                   (map_option (\<lambda>v. to_ascii_lowercase (trim v)) (w_env w ''DEPLOY_TARGET'')));
              employee = unwrap_or ''default'' (opt_filter (\<lambda>v. trim v \<noteq> []) (w_env w ''EMPLOYEE_ID''))
          in ''dowhiz_'' @ target @ ''_'' @ employee)"

definition alert_query :: "string \<Rightarrow> nat \<Rightarrow> string" where
  "alert_query db_name limit =
     ''db.getSiblingDB('' @ [CHR 0x22] @ db_name @ [CHR 0x22] @ '').task_executions.find(
            {status: '' @ [CHR 0x22] @ ''failed'' @ [CHR 0x22]
     @ '', error_message: /reconciled/, finished_at: {$gte: new Date(Date.now() - 24*60*60*1000)}},
            {task_id: 1, started_at: 1, finished_at: 1, error_message: 1, _id: 0}
        ).limit('' @ nat_str limit @ '').toArray()''"

definition query_recent_reconciliation_failures ::
    "alert_lib \<Rightarrow> nat \<Rightarrow> world \<Rightarrow> reconciliation_failure list" where
  "query_recent_reconciliation_failures al limit w =
     (case opt_filter (\<lambda>v. trim v \<noteq> []) (w_env w ''MONGODB_URI'') of
        None \<Rightarrow> []
      | Some uri \<Rightarrow>
          (case al_mongosh al uri (alert_query (alert_database w) limit) w of
             Inr (True, stdout) \<Rightarrow> (case al_parse al stdout of Inr fs \<Rightarrow> fs | Inl _ \<Rightarrow> [])
           | _ \<Rightarrow> []))"

definition alert_format_datetime :: "alert_lib \<Rightarrow> string \<Rightarrow> string" where
  "alert_format_datetime al text = unwrap_or text (al_format al text)"

text \<open>
  \<open>html_escape\<close>: four replacements one after the other, the ampersand first; on text this is
  the replacement of each character on its own.
\<close>

fun replace_char :: "char \<Rightarrow> string \<Rightarrow> string \<Rightarrow> string" where
  "replace_char c t [] = []"
| "replace_char c t (x # s) = (if x = c then t else [x]) @ replace_char c t s"

definition html_escape :: "string \<Rightarrow> string" where
  "html_escape s =
     replace_char (CHR 0x22) ''&quot;'' (replace_char (CHR ''>'') ''&gt;''
       (replace_char (CHR ''<'') ''&lt;'' (replace_char (CHR ''&'') ''&amp;'' s)))"

text \<open>\<open>&s[..n]\<close>.\<close>

definition slice_to :: "nat \<Rightarrow> string \<Rightarrow> string option" where
  "slice_to n s = (if n \<le> length s \<and> is_char_boundary s n then Some (take n s) else None)"

definition error_preview :: "string \<Rightarrow> string option" where
  "error_preview message =
     (if length message > 80 then map_option (\<lambda>p. p @ ''...'') (slice_to 80 message) else Some message)"

definition alert_row :: "alert_lib \<Rightarrow> reconciliation_failure \<Rightarrow> string option" where
  "alert_row al f =
     map_option (\<lambda>p.
       ''<tr><td class='' @ [CHR 0x22] @ ''task-id'' @ [CHR 0x22] @ ''>'' @ rf_task_id f @ ''</td><td>''
       @ alert_format_datetime al (rf_started_at f) @ ''</td><td>''
       @ alert_format_datetime al (rf_finished_at f) @ ''</td><td>'' @ html_escape p @ ''</td></tr>\<newline>'')
       (error_preview (rf_error_message f))"

definition alert_detail :: "alert_lib \<Rightarrow> reconciliation_failure \<Rightarrow> string" where
  "alert_detail al f =
     ''<div class='' @ [CHR 0x22] @ ''detail-section'' @ [CHR 0x22] @ ''>\<newline>''
     @ ''<h3>Task: <span class='' @ [CHR 0x22] @ ''task-id'' @ [CHR 0x22] @ ''>'' @ rf_task_id f @ ''</span></h3>\<newline>''
     @ ''<p><strong>Started:</strong> '' @ alert_format_datetime al (rf_started_at f)
     @ '' | <strong>Finished:</strong> '' @ alert_format_datetime al (rf_finished_at f) @ ''</p>\<newline>''
     @ ''<pre>'' @ html_escape (rf_error_message f) @ ''</pre>\<newline></div>\<newline>''"

fun all_rows :: "string option list \<Rightarrow> string option" where
  "all_rows [] = Some []"
| "all_rows (r # rs) = (case r of None \<Rightarrow> None | Some s \<Rightarrow> map_option ((@) s) (all_rows rs))"

definition alert_head :: string where
  "alert_head =
     ''<!DOCTYPE html>\<newline><html>\<newline><head>\<newline><style>\<newline>''
     @ ''body { font-family: -apple-system, BlinkMacSystemFont, 'Segoe UI', Roboto, sans-serif; margin: 20px; }\<newline>''
     @ ''h1 { color: #d32f2f; }\<newline>table { border-collapse: collapse; width: 100%; margin: 20px 0; }\<newline>''
     @ ''th, td { border: 1px solid #ddd; padding: 8px; text-align: left; }\<newline>''
     @ ''th { background-color: #f5f5f5; }\<newline>''
     @ ''pre { background: #f5f5f5; padding: 12px; overflow-x: auto; white-space: pre-wrap; word-wrap: break-word; font-size: 12px; }\<newline>''
     @ ''.detail-section { margin: 20px 0; padding: 15px; border: 1px solid #e0e0e0; border-radius: 4px; }\<newline>''
     @ ''.task-id { font-family: monospace; font-weight: bold; }\<newline></style>\<newline></head>\<newline><body>\<newline>''"

definition format_reconciliation_alert_html ::
    "alert_lib \<Rightarrow> datetime \<Rightarrow> reconciliation_failure list \<Rightarrow> nat \<Rightarrow> string option" where
  "format_reconciliation_alert_html al now failures consecutive_passes =
     map_option (\<lambda>rows.
       alert_head @ ''<h1>Reconciliation Alert: failures in '' @ nat_str consecutive_passes
       @ '' consecutive passes</h1>\<newline><p>Generated at: '' @ al_rfc3339 al now
       @ ''</p>\<newline><h2>Summary</h2>\<newline><table>\<newline>''
       @ ''<tr><th>Task ID</th><th>Started</th><th>Finished</th><th>Error (truncated)</th></tr>\<newline>'' @ rows
       @ ''</table>\<newline><h2>Full Error Details</h2>\<newline>'' @ concat (map (alert_detail al) failures)
       @ ''</body>\<newline></html>\<newline>'')
       (all_rows (map (alert_row al) failures))"

subsection \<open>Sending\<close>

text \<open>The outcome of sending: \<open>None\<close> when the thread panics on the way.\<close>

definition send_reconciliation_alert ::
    "alert_lib \<Rightarrow> nat \<Rightarrow> world \<Rightarrow> (string + unit) option \<times> world" where
  "send_reconciliation_alert al consecutive_passes w =
     (let failures = query_recent_reconciliation_failures al 20 w in
      if failures = [] then (Some (Inr ()), w)
      else
        let (now, w) = utc_now w in
        case format_reconciliation_alert_html al now failures consecutive_passes of
          None \<Rightarrow> (None, w)
        | Some html \<Rightarrow>
            let html_path = path_join (al_temp_dir al) ''reconciliation_alert.html'';
                attachments_dir = path_join (al_temp_dir al) ''reconciliation_alert_attachments''
            in (case fs_write html_path html w of
                  (Inl e, w) \<Rightarrow> (Some (Inl (''failed to write HTML: '' @ e)), w)
                | (Inr _, w) \<Rightarrow>
                    (case fs_create_dir_all attachments_dir w of
                       (Inl e, w) \<Rightarrow> (Some (Inl (''failed to create attachments dir: '' @ e)), w)
                     | (Inr _, w) \<Rightarrow>
                         let employee_id = unwrap_or ''unknown'' (w_env w ''EMPLOYEE_ID'');
                             subject = ''[Alert] Reconciliation failures - '' @ nat_str consecutive_passes
                               @ '' consecutive passes ('' @ employee_id @ '')''
                         in (case al_send_email al subject html_path attachments_dir w of
                               (Inr _, w) \<Rightarrow> (Some (Inr ()), w)
                             | (Inl e, w) \<Rightarrow> (Some (Inl (''postmark error: '' @ e)), w)))))"

text \<open>The counter as the thread leaves it, and whether the thread goes on.\<close>

definition check_and_send_alert_if_needed ::
    "alert_lib \<Rightarrow> nat \<Rightarrow> ('t, 'e) system \<Rightarrow> bool \<times> ('t, 'e) system" where
  "check_and_send_alert_if_needed al failures_this_pass y =
     (if failures_this_pass = 0 then (True, y)
      else
        let consecutive = sy_reconciliation_failures y + failures_this_pass;
            y = y\<lparr>sy_reconciliation_failures := consecutive\<rparr>
        in if consecutive < consecutive_failure_threshold then (True, y)
           else (case send_reconciliation_alert al consecutive (sy_world y) of
                   (None, w) \<Rightarrow> (False, y\<lparr>sy_world := w\<rparr>)
                 | (Some (Inl _), w) \<Rightarrow> (True, y\<lparr>sy_world := w\<rparr>)
                 | (Some (Inr _), w) \<Rightarrow> (True, y\<lparr>sy_world := w, sy_reconciliation_failures := 0\<rparr>)))"

subsection \<open>What is escaped stays text\<close>

lemma set_replace_char: "set (replace_char c t s) \<subseteq> (set s - {c}) \<union> set t"
  by (induction s) auto

lemma html_escape_safe: "set (html_escape s) \<inter> {CHR ''<'', CHR ''>'', CHR 0x22} = {}"
proof -
  let ?a = "replace_char (CHR ''&'') ''&amp;'' s"
  let ?b = "replace_char (CHR ''<'') ''&lt;'' ?a"
  let ?c = "replace_char (CHR ''>'') ''&gt;'' ?b"
  have "set ?b \<subseteq> set ?a - {CHR ''<''} \<union> set ''&lt;''" "set ?c \<subseteq> set ?b - {CHR ''>''} \<union> set ''&gt;''"
    "set (html_escape s) \<subseteq> set ?c - {CHR 0x22} \<union> set ''&quot;''"
    unfolding html_escape_def by (rule set_replace_char)+
  then show ?thesis by auto
qed

end
