(* ===== verification/Worker_Upkeep.thy ===== *)
theory Worker_Upkeep
  imports Reconcile_Alerts
begin

text \<open>
  The threads of \<open>service/scheduler.rs\<close> that look after the others: what the watchdog does with a
  task it took away from its worker, and the periodic pass over the owners of running executions.
  Also the summaries the service logs, and \<open>cancel_pending_thread_tasks\<close>, by which a new message
  disables what is still waiting for older ones of its conversation.
\<close>

subsection \<open>Summaries\<close>

record task_summary =
  sum_total :: nat
  sum_enabled :: nat
  sum_due :: nat
  sum_completed :: nat
  sum_disabled :: nat
  sum_lines :: "string list"

text \<open>\<open>is_task_due\<close> of the service looks at the time alone, \<open>rfc3339\<close> is chrono's rendering.\<close>

definition is_task_due :: "scheduled_task \<Rightarrow> datetime \<Rightarrow> bool" where
  "is_task_due task now = (schedule_next_run_at (t_schedule task) \<le> now)"

definition service_task_status :: "scheduled_task \<Rightarrow> datetime \<Rightarrow> string" where
  "service_task_status task now =
     (if \<not> t_enabled task then (if t_last_run task \<noteq> None then ''completed'' else ''disabled'')
      else if is_task_due task now then ''due'' else ''scheduled'')"

definition service_kind_label :: "task_kind \<Rightarrow> string" where
  "service_kind_label kind =
     (case kind of SendReply _ \<Rightarrow> ''send_email'' | RunTask _ \<Rightarrow> ''run_task'' | Noop \<Rightarrow> ''noop'')"

definition format_task_line :: "(datetime \<Rightarrow> string) \<Rightarrow> scheduled_task \<Rightarrow> datetime \<Rightarrow> string" where
  "format_task_line rfc3339 task now =
     ''id='' @ t_id task @ '' kind='' @ service_kind_label (t_kind task) @ '' status=''
     @ service_task_status task now @ '' next_run='' @ rfc3339 (schedule_next_run_at (t_schedule task))
     @ '' last_run='' @ unwrap_or ''-'' (map_option rfc3339 (t_last_run task))"

definition count_task :: "(datetime \<Rightarrow> string) \<Rightarrow> datetime \<Rightarrow> task_summary \<Rightarrow> scheduled_task \<Rightarrow> task_summary" where
  "count_task rfc3339 now m task =
     (let m = (if t_enabled task then
                 m\<lparr>sum_enabled := Suc (sum_enabled m),
                   sum_due := (if is_task_due task now then Suc (sum_due m) else sum_due m)\<rparr>
               else if t_last_run task \<noteq> None then m\<lparr>sum_completed := Suc (sum_completed m)\<rparr>
               else m\<lparr>sum_disabled := Suc (sum_disabled m)\<rparr>)
      in m\<lparr>sum_lines := sum_lines m @ [format_task_line rfc3339 task now]\<rparr>)"

definition summarize_tasks :: "(datetime \<Rightarrow> string) \<Rightarrow> scheduled_task list \<Rightarrow> datetime \<Rightarrow> task_summary" where
  "summarize_tasks rfc3339 tasks now =
     foldl (count_task rfc3339 now)
       \<lparr>sum_total = length tasks, sum_enabled = 0, sum_due = 0, sum_completed = 0, sum_disabled = 0,
        sum_lines = []\<rparr> tasks"

lemma count_loop:
  "let m' = foldl (count_task rfc3339 now) m tasks in
     sum_enabled m' = sum_enabled m + length (filter t_enabled tasks)
     \<and> sum_enabled m' + sum_completed m' + sum_disabled m'
       = sum_enabled m + sum_completed m + sum_disabled m + length tasks
     \<and> sum_due m' = sum_due m + length (filter (\<lambda>t. t_enabled t \<and> is_task_due t now) tasks)
     \<and> sum_lines m' = sum_lines m @ map (\<lambda>t. format_task_line rfc3339 t now) tasks
     \<and> sum_total m' = sum_total m"
proof (induction tasks arbitrary: m)
  case (Cons a tasks)
  define m1 where "m1 = count_task rfc3339 now m a"
  define m' where "m' = foldl (count_task rfc3339 now) m1 tasks"
  have "sum_enabled m1 = sum_enabled m + length (filter t_enabled [a])"
    "sum_enabled m1 + sum_completed m1 + sum_disabled m1
       = Suc (sum_enabled m + sum_completed m + sum_disabled m)"
    "sum_due m1 = sum_due m + length (filter (\<lambda>t. t_enabled t \<and> is_task_due t now) [a])"
    "sum_lines m1 = sum_lines m @ [format_task_line rfc3339 a now]" "sum_total m1 = sum_total m"
    by (simp_all add: m1_def count_task_def Let_def)
  with Cons.IH [of m1, unfolded Let_def, folded m'_def] show ?case
    by (simp add: Let_def m1_def [symmetric] m'_def [symmetric])
qed simp

lemma summary_adds_up:
  assumes "summarize_tasks rfc3339 tasks now = m"
  shows "sum_total m = sum_enabled m + sum_completed m + sum_disabled m" and "sum_due m \<le> sum_enabled m"
    and "length (sum_lines m) = sum_total m"
proof -
  note c = count_loop [of rfc3339 now "\<lparr>sum_total = length tasks, sum_enabled = 0, sum_due = 0,
      sum_completed = 0, sum_disabled = 0, sum_lines = []\<rparr>" tasks, unfolded Let_def, folded summarize_tasks_def,
      unfolded assms, simplified]
  have "length (filter (\<lambda>t. t_enabled t \<and> is_task_due t now) tasks) \<le> length (filter t_enabled tasks)"
    by (induction tasks) auto
  with c show "sum_total m = sum_enabled m + sum_completed m + sum_disabled m" "sum_due m \<le> sum_enabled m"
    "length (sum_lines m) = sum_total m" by simp_all
qed

subsection \<open>Cancelling what a newer message replaces\<close>

text \<open>\<open>==\<close> and \<open>starts_with\<close> on paths compare whole components.\<close>

definition cancels :: "string \<Rightarrow> u64 \<Rightarrow> scheduled_task \<Rightarrow> bool" where
  "cancels workspace current_epoch task =
     (t_enabled task \<and>
      (case t_kind task of
         RunTask run \<Rightarrow> path_eq (rt_workspace_dir run) workspace \<and> unwrap_or 0 (rt_thread_epoch run) < current_epoch
       | SendReply send \<Rightarrow>
           (case sr_thread_state_path send of
              Some path \<Rightarrow> path_eq path (default_thread_state_path workspace)
            | None \<Rightarrow> path_starts_with (sr_html_path send) workspace)
           \<and> unwrap_or 0 (sr_thread_epoch send) < current_epoch
       | Noop \<Rightarrow> False))"

text \<open>
  The tasks of the conversation that works in a workspace and the epoch each was made for: of
  these, \<open>cancels\<close> takes the enabled ones with an older epoch.
\<close>

definition of_conversation :: "string \<Rightarrow> scheduled_task \<Rightarrow> bool" where
  "of_conversation workspace t =
     (case t_kind t of
        RunTask run \<Rightarrow> path_eq (rt_workspace_dir run) workspace
      | SendReply send \<Rightarrow>
          (case sr_thread_state_path send of
             Some path \<Rightarrow> path_eq path (default_thread_state_path workspace)
           | None \<Rightarrow> path_starts_with (sr_html_path send) workspace)
      | Noop \<Rightarrow> False)"

definition epoch_of_task :: "scheduled_task \<Rightarrow> u64" where
  "epoch_of_task t =
     (case t_kind t of
        RunTask run \<Rightarrow> unwrap_or 0 (rt_thread_epoch run)
      | SendReply send \<Rightarrow> unwrap_or 0 (sr_thread_epoch send)
      | Noop \<Rightarrow> 0)"

lemma cancels_iff:
  "cancels workspace e t \<longleftrightarrow> t_enabled t \<and> of_conversation workspace t \<and> epoch_of_task t < e"
  by (auto simp: cancels_def of_conversation_def epoch_of_task_def split: task_kind.splits)

definition cancel_pending_thread_tasks ::
    "('t, 'e, 'j) store_lib \<Rightarrow> ('t, 'e) system \<Rightarrow> string \<Rightarrow> u64 \<Rightarrow> ('t, 'e, nat) sys_result" where
  "cancel_pending_thread_tasks lib y workspace current_epoch =
     disable_tasks_by lib y (cancels workspace current_epoch)"

subsection \<open>The watchdog\<close>

text \<open>
  The text of a failure notice: \<open>stamp\<close> is \<open>format("%Y%m%d_%H%M%S")\<close>, \<open>display\<close> the display of an
  instant, \<open>debug\<close> the debug rendering of an optional text.
\<close>

record notice_lib =
  no_stamp :: "datetime \<Rightarrow> string"
  no_display :: "datetime \<Rightarrow> string"
  no_debug :: "string option \<Rightarrow> string"

definition failure_notice :: "notice_lib \<Rightarrow> task_claim \<Rightarrow> datetime \<Rightarrow> string" where
  "failure_notice no claim now =
     ''Task Failure Notification\<newline>==========================\<newline>\<newline>Task ID: '' @ cl_task_id claim
     @ ''\<newline>User ID: '' @ cl_user_id claim @ ''\<newline>Thread ID: '' @ no_debug no (cl_thread_id claim)
     @ ''\<newline>Started at: '' @ no_display no (cl_started_at claim) @ ''\<newline>Failed at: '' @ no_display no now
     @ ''\<newline>Retry count: '' @ nat_str (unat (cl_retry_count claim)) @ '' (max: ''
     @ nat_str (unat max_task_retries) @ '')\<newline>\<newline>''
     @ ''The task has been automatically disabled after exceeding the maximum retry attempts.\<newline>\<newline>''
     @ ''Possible causes:\<newline>- The task timed out (took longer than '' @ nat_str default_task_timeout_secs
     @ '' seconds)\<newline>- The processing service crashed or became unresponsive\<newline>''
     @ ''- Network or external service issues\<newline>\<newline>Recommended actions:\<newline>''
     @ ''- Check the service logs for more details\<newline>''
     @ ''- Try the operation again by creating a new request\<newline>''
     @ ''- Contact support if the issue persists\<newline>''"

definition notify_task_failure ::
    "notice_lib \<Rightarrow> string \<Rightarrow> task_claim \<Rightarrow> world \<Rightarrow> (string + unit) \<times> world" where
  "notify_task_failure no users_root claim w =
     (let dir = path_join (up_workspaces_root (user_paths_of users_root (cl_user_id claim))) ''_notifications'' in
      st_bind (fs_create_dir_all dir w) (\<lambda>_ w.
      let (stamped, w) = utc_now w; (now, w) = utc_now w
      in fs_write (path_join dir (''task_failure_'' @ no_stamp no stamped @ ''.txt''))
           (failure_notice no claim now) w))"

text \<open>What the watchdog does once it has taken the claim of a stale task away.\<close>

definition watchdog_recover ::
    "('t, 'e, 'j, 'a) core_lib \<Rightarrow> notice_lib \<Rightarrow> string \<Rightarrow> task_claim \<Rightarrow> ('t, 'e) system \<Rightarrow> ('t, 'e) system" where
  "watchdog_recover co no users_root claim y =
     (case load_scheduler co (up_tasks_db_path (user_paths_of users_root (cl_user_id claim))) y of
        (Inl _, y) \<Rightarrow> y
      | (Inr _, y) \<Rightarrow>
          (case on_store (\<lambda>s. store_increment_retry_count (co_store co) s (cl_task_id claim)) y of
             (Inl _, y) \<Rightarrow> y
           | (Inr new_count, y) \<Rightarrow>
               if new_count < max_task_retries then y
               else
                 let y = snd (scheduler_disable_task_by_id (co_store co) y (cl_task_id claim))
                 in snd (on_world (notify_task_failure no users_root claim) y)))"

subsection \<open>The periodic pass\<close>

text \<open>A sorted list without repetitions of both lists.\<close>

definition merge_reconciliation_owner_ids :: "string list \<Rightarrow> string list \<Rightarrow> string list" where
  "merge_reconciliation_owner_ids user_ids running_owner_ids =
     sort (remdups (user_ids @ running_owner_ids))"

text \<open>\<open>distinct\<close> of the owners of kind user with a running row; blank and other values are left out.\<close>

definition list_running_execution_owner_ids ::
    "('t, 'e, 'j) store_lib \<Rightarrow> ('t, 'e) store \<Rightarrow> ('t, 'e, string list) store_result" where
  "list_running_execution_owner_ids lib s =
     st_bind (on_execs lib (retry_mongo_operation
                (c_find (sl_execs lib) (\<lambda>d. ed_owner_kind d = ''user'' \<and> ed_status d = Some ''running''))) s)
       (\<lambda>docs s. (Inr (filter (\<lambda>i. trim i \<noteq> []) (remdups (map ed_owner_id docs))), s))"

text \<open>
  The loop over the owners: \<open>stopped\<close> tells whether the stop signal is seen before an owner, and
  then the whole pass ends at once.
\<close>

fun reconcile_owners ::
    "('t, 'e, 'j, 'a) core_lib \<Rightarrow> ('t, 'e, 'j) reconcile_lib \<Rightarrow> string \<Rightarrow> (string \<Rightarrow> bool) \<Rightarrow> duration
     \<Rightarrow> string list \<Rightarrow> nat \<Rightarrow> ('t, 'e) system \<Rightarrow> nat option \<times> ('t, 'e) system" where
  "reconcile_owners co rl users_root stopped stale_after [] failed y = (Some failed, y)"
| "reconcile_owners co rl users_root stopped stale_after (u # us) failed y =
     (if stopped u then (None, y)
      else
        case load_scheduler co (up_tasks_db_path (user_paths_of users_root u)) y of
          (Inl _, y) \<Rightarrow> reconcile_owners co rl users_root stopped stale_after us failed y
        | (Inr _, y) \<Rightarrow>
            let (now, y) = on_world utc_now y in
            (case reconcile_stale_running_executions rl y now stale_after of
               (Inl _, y) \<Rightarrow> reconcile_owners co rl users_root stopped stale_after us failed y
             | (Inr m, y) \<Rightarrow>
                 reconcile_owners co rl users_root stopped stale_after us (failed + failed_count m) y))"

text \<open>
  \<open>known_user_ids\<close> is the outcome of \<open>list_user_ids\<close>, with whose error the pass ends.  The first
  component tells whether the thread of the pass goes on.
\<close>

definition reconcile_stale_executions_pass ::
    "('t, 'e, 'j, 'a) core_lib \<Rightarrow> ('t, 'e, 'j) reconcile_lib \<Rightarrow> alert_lib \<Rightarrow> string \<Rightarrow> (string \<Rightarrow> bool)
     \<Rightarrow> duration \<Rightarrow> user_store_error + string list \<Rightarrow> ('t, 'e) system
     \<Rightarrow> bool \<times> (user_store_error + unit) \<times> ('t, 'e) system" where
  "reconcile_stale_executions_pass co rl al users_root stopped stale_after known_user_ids y =
     (case known_user_ids of
        Inl e \<Rightarrow> (True, Inl e, y)
      | Inr known \<Rightarrow>
          (case on_store (list_running_execution_owner_ids (co_store co)) y of
             (r, y) \<Rightarrow>
               let running = (case r of Inr ids \<Rightarrow> ids | Inl _ \<Rightarrow> [])
               in (case reconcile_owners co rl users_root stopped stale_after
                          (merge_reconciliation_owner_ids known running) 0 y of
                     (None, y) \<Rightarrow> (True, Inr (), y)
                   | (Some failed, y) \<Rightarrow>
                       (case check_and_send_alert_if_needed al failed y of (goes_on, y) \<Rightarrow> (goes_on, Inr (), y)))))"

end
