(* ===== verification/Inbound_Email.thy ===== *)
theory Inbound_Email
  imports Mailbox Worker_Upkeep
begin

text \<open>
  \<open>service/email.rs\<close>: what a worker makes of an e-mail.  It finds or creates the user, brings the
  workspace of the conversation up to date, raises the epoch of the conversation, disables the
  tasks that wait for older messages and adds a task for this one.  The text in which the code
  wraps the error of a step is left out: the constructors of \<open>inbound_error\<close> name the step.
\<close>

subsection \<open>Settings and libraries\<close>

record employee_profile =
  ep_id :: string
  ep_runner :: string
  ep_model :: "string option"
  ep_addresses :: "string list"
  ep_address_set :: "string set"
  ep_agents_path :: "string option"
  ep_claude_path :: "string option"
  ep_soul_path :: "string option"
  ep_skills_dir :: "string option"

record service_config =
  cf_users_root :: string
  cf_employee :: employee_profile
  cf_service_addresses :: "string set"
  cf_codex_model :: string
  cf_codex_disabled :: bool
  cf_skills_source_dir :: "string option"

text \<open>
  What a worker that handles a message works on: the scheduler of the user (with the store and the
  world that all share), the users and the index.
\<close>

record ('t, 'e, 'c, 'x) inbound_state =
  ns_system :: "('t, 'e) system"
  ns_users :: 'c
  ns_index :: 'x

text \<open>
  The file in which an agent waits for an approval, as far as it is touched here; \<open>gs_other\<close> are
  its remaining fields.  Of \<open>seen_inbound_message_ids\<close> only an array is kept.
\<close>

record gate_reply =
  gr_message_id :: "string option"
  gr_received_at :: string
  gr_reply_from :: string
  gr_from_email :: "string option"
  gr_from_header :: string
  gr_subject :: string
  gr_stripped_text_reply :: string
  gr_text_body :: string
  gr_html_body :: string

record gate_state =
  gs_status :: "string option"
  gs_seen :: "string list"
  gs_reply :: "gate_reply option"
  gs_updated_at :: "string option"
  gs_other :: string

text \<open>
  \<open>nb_md5\<close> is the digest in hexadecimal and \<open>nb_md5_uuid\<close> the UUID of its bytes,
  \<open>nb_github_login\<close> is \<open>github_inbound.rs\<close>, the three lookups are queries of the account store,
  \<open>nb_html\<close> and \<open>nb_payload_json\<close> render a message, \<open>nb_base64\<close> and \<open>nb_download\<close> give the bytes of
  an attachment.  The rest prepares a workspace: past mails, skills, the merged view of a
  conversation, and what is done about links to documents; errors in these are only logged.
  \<open>nb_gate_parse\<close> and \<open>nb_gate_render\<close> are serde's codec of the approval file.
\<close>

record ('t, 'e, 'j, 'a, 'c, 'x) inbound_lib =
  nb_core :: "('t, 'e, 'j, 'a) core_lib"
  nb_users :: "'c user_lib"
  nb_index :: "'x index_lib"
  nb_md5 :: "string \<Rightarrow> string"
  nb_md5_uuid :: "string \<Rightarrow> uuid"
  nb_github_login :: "string \<Rightarrow> string option"
  nb_account_by_auth :: "uuid \<Rightarrow> string + uuid option"
  nb_identifiers :: "uuid \<Rightarrow> string + (string \<times> string) list"
  nb_account_by_identifier :: "string \<Rightarrow> string \<Rightarrow> string + uuid option"
  nb_html :: "postmark_mail \<Rightarrow> string"
  nb_payload_json :: "postmark_mail \<Rightarrow> string \<Rightarrow> string \<Rightarrow> string"
  nb_base64 :: "string \<Rightarrow> string option"
  nb_download :: "string \<Rightarrow> string + string"
  nb_hydrate :: "user_paths \<Rightarrow> string \<Rightarrow> string \<Rightarrow> world \<Rightarrow> world"
  nb_copy_skills :: "string \<Rightarrow> string \<Rightarrow> world \<Rightarrow> world"
  nb_refresh_view :: "string \<Rightarrow> string \<Rightarrow> world \<Rightarrow> world"
  nb_artifacts :: "postmark_mail \<Rightarrow> string \<Rightarrow> world \<Rightarrow> world"
  nb_gate_parse :: "string \<Rightarrow> string + gate_state option"
  nb_gate_render :: "gate_state \<Rightarrow> string"
  nb_rfc3339_secs :: "datetime \<Rightarrow> string"
  nb_stamp :: "datetime \<Rightarrow> string"
  nb_year :: "datetime \<Rightarrow> string"
  nb_month :: "datetime \<Rightarrow> string"

datatype inbound_error =
    MissingSender
  | GateFailed string
  | UserFailed user_store_error
  | UserDirsFailed user_store_error
  | WorkspaceFailed string
  | ThreadStateFailed string
  | AppendFailed string
  | LoadFailed scheduler_error
  | EnqueueFailed scheduler_error
  | IndexFailed index_store_error

definition ns_world ::
    "(world \<Rightarrow> 'b \<times> world) \<Rightarrow> ('t, 'e, 'c, 'x) inbound_state \<Rightarrow> 'b \<times> ('t, 'e, 'c, 'x) inbound_state" where
  "ns_world op s = (case on_world op (ns_system s) of (r, y) \<Rightarrow> (r, s\<lparr>ns_system := y\<rparr>))"

definition ns_sys ::
    "(('t, 'e) system \<Rightarrow> 'b \<times> ('t, 'e) system) \<Rightarrow> ('t, 'e, 'c, 'x) inbound_state
     \<Rightarrow> 'b \<times> ('t, 'e, 'c, 'x) inbound_state" where
  "ns_sys op s = (case op (ns_system s) of (r, y) \<Rightarrow> (r, s\<lparr>ns_system := y\<rparr>))"

definition step_err ::
    "('d \<Rightarrow> inbound_error) \<Rightarrow> ('d + 'b) \<times> 's \<Rightarrow> (inbound_error + 'b) \<times> 's" where
  "step_err f r = (case r of (x, s) \<Rightarrow> (map_err f x, s))"

subsection \<open>Who wrote\<close>

record inbound_requester =
  rq_identifier_type :: string
  rq_identifier :: string

definition resolve_inbound_requester ::
    "('t, 'e, 'j, 'a, 'c, 'x) inbound_lib \<Rightarrow> postmark_mail \<Rightarrow> string \<Rightarrow> inbound_error + inbound_requester" where
  "resolve_inbound_requester nb p raw_payload =
     (case nb_github_login nb raw_payload of
        Some login \<Rightarrow> Inr \<lparr>rq_identifier_type = ''github'', rq_identifier = login\<rparr>
      | None \<Rightarrow>
          (case extract_emails (trim (unwrap_or [] (pm_from p))) of
             [] \<Rightarrow> Inl MissingSender
           | email # _ \<Rightarrow> Inr \<lparr>rq_identifier_type = ''email'', rq_identifier = email\<rparr>))"

text \<open>The account of a signed-in sender; failed lookups count as none.\<close>

definition resolved_account ::
    "('t, 'e, 'j, 'a, 'c, 'x) inbound_lib \<Rightarrow> uuid option \<Rightarrow> uuid option" where
  "resolved_account nb account_id =
     Option.bind account_id (\<lambda>i. case nb_account_by_auth nb i of Inr found \<Rightarrow> found | Inl _ \<Rightarrow> None)"

text \<open>The identifier under which the user is looked up: the account's mail address, or the requester.\<close>

definition lookup_identifier ::
    "('t, 'e, 'j, 'a, 'c, 'x) inbound_lib \<Rightarrow> uuid option \<Rightarrow> inbound_requester \<Rightarrow> string \<times> string" where
  "lookup_identifier nb account requester =
     (let own = (rq_identifier_type requester, rq_identifier requester) in
      case account of
        None \<Rightarrow> own
      | Some i \<Rightarrow>
          (case nb_identifiers nb i of
             Inl _ \<Rightarrow> own
           | Inr identifiers \<Rightarrow> unwrap_or own (List.find (\<lambda>x. fst x = ''email'') identifiers)))"

definition user_of_sender ::
    "('t, 'e, 'j, 'a, 'c, 'x) inbound_lib \<Rightarrow> string \<times> string \<Rightarrow> ('t, 'e, 'c, 'x) inbound_state
     \<Rightarrow> (inbound_error + user_record) \<times> ('t, 'e, 'c, 'x) inbound_state" where
  "user_of_sender nb identifier s =
     (let (now, s) = ns_world utc_now s; (i, s) = ns_world new_uuid s
      in case get_or_create_user (nb_users nb) (fst identifier) (snd identifier) now i (ns_users s) of
           (r, c) \<Rightarrow> (map_err UserFailed r, s\<lparr>ns_users := c\<rparr>))"

subsection \<open>The workspace of a conversation\<close>

definition thread_workspace_name :: "('t, 'e, 'j, 'a, 'c, 'x) inbound_lib \<Rightarrow> string \<Rightarrow> string" where
  "thread_workspace_name nb key = ''thread_'' @ nb_md5 nb key"

definition thread_workspace ::
    "('t, 'e, 'j, 'a, 'c, 'x) inbound_lib \<Rightarrow> user_paths \<Rightarrow> string \<Rightarrow> string" where
  "thread_workspace nb paths key = path_join (up_workspaces_root paths) (thread_workspace_name nb key)"

text \<open>\<open>std::fs::copy\<close>, and the copy of a file of the employee when there is one.\<close>

definition fs_copy :: "string \<Rightarrow> string \<Rightarrow> world \<Rightarrow> (string + unit) \<times> world" where
  "fs_copy src dest w =
     (case fs_read w src of
        None \<Rightarrow> (Inl (unwrap_or not_found (w_refuse w src)), w)
      | Some content \<Rightarrow> fs_write dest content w)"

definition copy_if_present :: "string option \<Rightarrow> string \<Rightarrow> world \<Rightarrow> (string + unit) \<times> world" where
  "copy_if_present src dest w =
     (case src of
        None \<Rightarrow> (Inr (), w)
      | Some path \<Rightarrow> if fs_exists w path then fs_copy path dest w else (Inr (), w))"

definition ensure_workspace_employee_files ::
    "string \<Rightarrow> employee_profile \<Rightarrow> world \<Rightarrow> (string + unit) \<times> world" where
  "ensure_workspace_employee_files workspace employee w =
     st_bind (copy_if_present (ep_agents_path employee) (path_join workspace ''AGENTS.md'') w) (\<lambda>_ w.
     st_bind (copy_if_present (ep_claude_path employee) (path_join workspace ''CLAUDE.md'') w) (\<lambda>_ w.
       copy_if_present (ep_soul_path employee) (path_join workspace ''SOUL.md'') w))"

definition copy_workspace_skills ::
    "('t, 'e, 'j, 'a, 'c, 'x) inbound_lib \<Rightarrow> string \<Rightarrow> employee_profile \<Rightarrow> string option \<Rightarrow> world \<Rightarrow> world" where
  "copy_workspace_skills nb workspace employee skills_source_dir w =
     (let dest = path_join (path_join workspace ''.agents'') ''skills'';
          w = (case skills_source_dir of Some src \<Rightarrow> nb_copy_skills nb src dest w | None \<Rightarrow> w)
      in case ep_skills_dir employee of
           None \<Rightarrow> w
         | Some skills \<Rightarrow> if skills_source_dir \<noteq> Some skills then nb_copy_skills nb skills dest w else w)"

definition ensure_thread_workspace ::
    "('t, 'e, 'j, 'a, 'c, 'x) inbound_lib \<Rightarrow> user_paths \<Rightarrow> string \<Rightarrow> string \<Rightarrow> employee_profile \<Rightarrow> string option
     \<Rightarrow> world \<Rightarrow> (string + string) \<times> world" where
  "ensure_thread_workspace nb paths user_id key employee skills_source_dir w =
     st_bind (fs_create_dir_all (up_workspaces_root paths) w) (\<lambda>_ w.
     let workspace = thread_workspace nb paths key;
         is_new = (\<not> fs_exists w workspace);
         references = path_join workspace ''references''
     in st_bind (if is_new then fs_create_dir_all workspace w else (Inr (), w)) (\<lambda>_ w.
        st_bind (fs_create_dir_all (path_join workspace ''incoming_email'') w) (\<lambda>_ w.
        st_bind (fs_create_dir_all (path_join workspace ''incoming_attachments'') w) (\<lambda>_ w.
        st_bind (fs_create_dir_all (path_join workspace ''memory'') w) (\<lambda>_ w.
        st_bind (fs_create_dir_all references w) (\<lambda>_ w.
        let w = (if is_new \<or> \<not> fs_exists w (path_join references ''past_emails'')
                 then nb_hydrate nb paths references user_id w else w)
        in st_bind (ensure_workspace_employee_files workspace employee w) (\<lambda>_ w.
             (Inr workspace, copy_workspace_skills nb workspace employee skills_source_dir w))))))))"

subsection \<open>The message in the workspace\<close>

definition sanitize_token :: "string \<Rightarrow> string \<Rightarrow> string" where
  "sanitize_token v fallback =
     (let trimmed = rev (dropWhile (\<lambda>c. c = CHR ''>'') (rev (dropWhile (\<lambda>c. c = CHR ''<'') (trim v))));
          out = concat (map (\<lambda>c. if is_continuation c then []
                                 else if is_ascii_alphanumeric c \<or> c \<in> set ''._-'' then [c] else ''_'') trimmed);
          cleaned = User_Store.trim_matches ''._-'' out
      in if cleaned = [] then fallback else cleaned)"

definition truncate_ascii :: "string \<Rightarrow> nat \<Rightarrow> string" where
  "truncate_ascii v max_len =
     (if length v \<le> max_len then v
      else let out = rev (dropWhile (\<lambda>c. c \<in> set ''._-'') (rev (take max_len v)))
           in if out = [] then v else out)"

text \<open>\<open>{:04}\<close>.\<close>

definition pad4 :: "nat \<Rightarrow> string" where
  "pad4 n = replicate (4 - length (nat_str n)) (CHR ''0'') @ nat_str n"

definition build_inbound_entry_name :: "(datetime \<Rightarrow> string) \<Rightarrow> postmark_mail \<Rightarrow> nat \<Rightarrow> datetime \<Rightarrow> string" where
  "build_inbound_entry_name stamp p n now =
     pad4 n @ ''_'' @ stamp now @ ''_''
     @ truncate_ascii (sanitize_token (unwrap_or [] (pm_subject p)) ''no_subject'') 48"

definition resolve_attachment_bytes ::
    "('t, 'e, 'j, 'a, 'c, 'x) inbound_lib \<Rightarrow> postmark_attachment \<Rightarrow> string + string" where
  "resolve_attachment_bytes nb a =
     (let content = trim (pa_content a) in
      case (if content = [] then None else nb_base64 nb content) of
        Some bytes \<Rightarrow> Inr bytes
      | None \<Rightarrow>
          (case opt_filter (\<lambda>v. v \<noteq> []) (map_option trim (pa_storage_ref a)) of
             Some storage_ref \<Rightarrow> nb_download nb storage_ref
           | None \<Rightarrow> Inr []))"

fun write_attachments ::
    "('t, 'e, 'j, 'a, 'c, 'x) inbound_lib \<Rightarrow> string \<Rightarrow> postmark_attachment list \<Rightarrow> world \<Rightarrow> (string + unit) \<times> world" where
  "write_attachments nb dir [] w = (Inr (), w)"
| "write_attachments nb dir (a # as) w =
     (let target = path_join dir (sanitize_token (pa_name a) ''attachment'') in
      st_bind (resolve_attachment_bytes nb a, w) (\<lambda>data w.
      st_bind (fs_write target data w) (\<lambda>_ w. write_attachments nb dir as w)))"

definition write_inbound_payload ::
    "('t, 'e, 'j, 'a, 'c, 'x) inbound_lib \<Rightarrow> postmark_mail \<Rightarrow> string \<Rightarrow> string \<Rightarrow> string \<Rightarrow> world
     \<Rightarrow> (string + unit) \<times> world" where
  "write_inbound_payload nb p raw_payload incoming_email incoming_attachments w =
     (let email_html = nb_html nb p in
      st_bind (fs_write (path_join incoming_email ''postmark_payload.json'')
                 (nb_payload_json nb p raw_payload email_html) w) (\<lambda>_ w.
      st_bind (fs_write (path_join incoming_email ''email.html'') email_html w) (\<lambda>_ w.
        write_attachments nb incoming_attachments (unwrap_or [] (pm_attachments p)) w)))"

definition fs_remove_file :: "string \<Rightarrow> world \<Rightarrow> (string + unit) \<times> world" where
  "fs_remove_file p w =
     (case w_refuse w p of
        Some e \<Rightarrow> (Inl e, w)
      | None \<Rightarrow> if fs_is_file w p then (Inr (), w\<lparr>w_files := AList.delete p (w_files w)\<rparr>) else (Inl not_found, w))"

fun clear_entries :: "string \<Rightarrow> string list \<Rightarrow> world \<Rightarrow> (string + unit) \<times> world" where
  "clear_entries keep [] w = (Inr (), w)"
| "clear_entries keep (p # ps) w =
     (if p = keep then clear_entries keep ps w
      else st_bind (if fs_is_dir w p then fs_remove_dir_all p w else fs_remove_file p w)
             (\<lambda>_ w. clear_entries keep ps w))"

definition clear_dir_except :: "string \<Rightarrow> string \<Rightarrow> world \<Rightarrow> (string + unit) \<times> world" where
  "clear_dir_except root keep w =
     (if \<not> fs_exists w root then fs_create_dir_all root w
      else case fs_read_dir w root of
             None \<Rightarrow> (Inl (unwrap_or not_found (w_refuse w root)), w)
           | Some entries \<Rightarrow> clear_entries keep entries w)"

definition append_inbound_payload ::
    "('t, 'e, 'j, 'a, 'c, 'x) inbound_lib \<Rightarrow> string \<Rightarrow> postmark_mail \<Rightarrow> string \<Rightarrow> nat \<Rightarrow> world
     \<Rightarrow> (string + unit) \<times> world" where
  "append_inbound_payload nb workspace p raw_payload n w =
     (let incoming_email = path_join workspace ''incoming_email'';
          incoming_attachments = path_join workspace ''incoming_attachments'';
          entries_email = path_join incoming_email ''entries'';
          entries_attachments = path_join incoming_attachments ''entries''
      in st_bind (fs_create_dir_all entries_email w) (\<lambda>_ w.
         st_bind (fs_create_dir_all entries_attachments w) (\<lambda>_ w.
         let (now, w) = utc_now w;
             entry_name = build_inbound_entry_name (nb_stamp nb) p n now;
             entry_email_dir = path_join entries_email entry_name;
             entry_attachments_dir = path_join entries_attachments entry_name
         in st_bind (fs_create_dir_all entry_email_dir w) (\<lambda>_ w.
            st_bind (fs_create_dir_all entry_attachments_dir w) (\<lambda>_ w.
            st_bind (write_inbound_payload nb p raw_payload entry_email_dir entry_attachments_dir w) (\<lambda>_ w.
            st_bind (clear_dir_except incoming_attachments entries_attachments w) (\<lambda>_ w.
            st_bind (write_inbound_payload nb p raw_payload incoming_email incoming_attachments w) (\<lambda>_ w.
              (Inr (), nb_refresh_view nb incoming_email incoming_attachments w)))))))))"

text \<open>\<open>create_unique_dir\<close>: the name itself, then with the numbers up to 999.\<close>

function numbered_free :: "world \<Rightarrow> string \<Rightarrow> string \<Rightarrow> nat \<Rightarrow> string option" where
  "numbered_free w root base i =
     (if i \<ge> 1000 then None
      else let candidate = path_join root (base @ ''_'' @ nat_str i)
           in if fs_exists w candidate then numbered_free w root base (i + 1) else Some candidate)"
  by pat_completeness auto
termination
  by (relation "measure (\<lambda>(w, root, base, i). 1000 - i)") auto

declare numbered_free.simps [simp del]

definition create_unique_dir :: "string \<Rightarrow> string \<Rightarrow> world \<Rightarrow> (string + string) \<times> world" where
  "create_unique_dir root base w =
     (case (if fs_exists w (path_join root base) then numbered_free w root base 1 else Some (path_join root base)) of
        None \<Rightarrow> (Inl ''failed to create unique workspace directory'', w)
      | Some candidate \<Rightarrow> st_bind (fs_create_dir_all candidate w) (\<lambda>_ w. (Inr candidate, w)))"

text \<open>The archive of the user; a message without an identifier gets the time as its name.\<close>

definition archive_inbound ::
    "('t, 'e, 'j, 'a, 'c, 'x) inbound_lib \<Rightarrow> user_paths \<Rightarrow> postmark_mail \<Rightarrow> string \<Rightarrow> world
     \<Rightarrow> (string + unit) \<times> world" where
  "archive_inbound nb paths p raw_payload w =
     (let (t1, w) = utc_now w;
          base = sanitize_token (unwrap_or [] (or_else (header_message_id p) (pm_message_id p)))
                   (''email_'' @ int_str (t1 div 1000000000));
          (t2, w) = utc_now w; (t3, w) = utc_now w;
          mail_root = path_join (path_join (up_mail_root paths) (nb_year nb t2)) (nb_month nb t3)
      in st_bind (fs_create_dir_all mail_root w) (\<lambda>_ w.
         st_bind (create_unique_dir mail_root base w) (\<lambda>mail_dir w.
         let incoming_email = path_join mail_dir ''incoming_email'';
             incoming_attachments = path_join mail_dir ''incoming_attachments''
         in st_bind (fs_create_dir_all incoming_email w) (\<lambda>_ w.
            st_bind (fs_create_dir_all incoming_attachments w) (\<lambda>_ w.
              write_inbound_payload nb p raw_payload incoming_email incoming_attachments w)))))"

subsection \<open>Answers to approval requests\<close>

definition build_human_approval_gate_reply_payload ::
    "(datetime \<Rightarrow> string) \<Rightarrow> postmark_mail \<Rightarrow> datetime \<Rightarrow> gate_reply" where
  "build_human_approval_gate_reply_payload rfc3339 p now =
     (let from_header = unwrap_or [] (pm_from p);
          from_email = nth_opt (extract_emails from_header) 0
      in \<lparr>gr_message_id = opt_filter (\<lambda>v. v \<noteq> []) (map_option trim (or_else (pm_message_id p) (header_message_id p))),
          gr_received_at = rfc3339 now, gr_reply_from = unwrap_or from_header from_email,
          gr_from_email = from_email, gr_from_header = from_header, gr_subject = unwrap_or [] (pm_subject p),
          gr_stripped_text_reply = unwrap_or [] (pm_stripped_text_reply p),
          gr_text_body = unwrap_or [] (pm_text_body p), gr_html_body = unwrap_or [] (pm_html_body p)\<rparr>)"

definition answered_state ::
    "(datetime \<Rightarrow> string) \<Rightarrow> postmark_mail \<Rightarrow> datetime \<Rightarrow> datetime \<Rightarrow> gate_state \<Rightarrow> gate_state" where
  "answered_state rfc3339 p received updated st =
     (let inbound_id = opt_filter (\<lambda>v. v \<noteq> []) (map_option trim (or_else (pm_message_id p) (header_message_id p)))
      in st\<lparr>gs_seen := (case inbound_id of
                         Some i \<Rightarrow> if i \<in> set (gs_seen st) then gs_seen st else gs_seen st @ [i]
                       | None \<Rightarrow> gs_seen st),
            gs_status := Some ''replied'',
            gs_reply := Some (build_human_approval_gate_reply_payload rfc3339 p received),
            gs_updated_at := Some (rfc3339 updated)\<rparr>)"

text \<open>\<open>fs::rename\<close> of a file.\<close>

definition fs_rename :: "string \<Rightarrow> string \<Rightarrow> world \<Rightarrow> (string + unit) \<times> world" where
  "fs_rename a b w =
     (case or_else (w_refuse w a) (w_refuse w b) of
        Some e \<Rightarrow> (Inl e, w)
      | None \<Rightarrow>
          (case map_of (w_files w) a of
             None \<Rightarrow> (Inl not_found, w)
           | Some content \<Rightarrow>
               if fs_is_dir w b then (Inl not_found, w)
               else (Inr (), w\<lparr>w_files := AList.update b content (AList.delete a (w_files w))\<rparr>)))"

text \<open>\<open>with_extension("json.tmp")\<close> of a path that ends in \<open>.json\<close>, as those found all do.\<close>

definition update_human_approval_gate_state ::
    "('t, 'e, 'j, 'a, 'c, 'x) inbound_lib \<Rightarrow> string \<Rightarrow> postmark_mail \<Rightarrow> world \<Rightarrow> (string + bool) \<times> world" where
  "update_human_approval_gate_state nb state_path p w =
     (case fs_read w state_path of
        None \<Rightarrow> (Inl (unwrap_or not_found (w_refuse w state_path)), w)
      | Some raw \<Rightarrow>
          (case nb_gate_parse nb raw of
             Inl e \<Rightarrow> (Inl e, w)
           | Inr None \<Rightarrow> (Inl (''human approval gate state is not a JSON object: '' @ state_path), w)
           | Inr (Some st) \<Rightarrow>
               if gs_status st = Some ''replied'' then (Inr False, w)
               else
                 let (received, w) = utc_now w; (updated, w) = utc_now w;
                     st = answered_state (nb_rfc3339_secs nb) p received updated st
                 in st_bind (fs_write (state_path @ ''.tmp'') (nb_gate_render nb st) w) (\<lambda>_ w.
                    st_bind (fs_rename (state_path @ ''.tmp'') state_path w) (\<lambda>_ w. (Inr True, w)))))"

definition gate_candidate :: "string \<Rightarrow> string \<Rightarrow> string" where
  "gate_candidate workspace challenge_id =
     path_join (path_join (path_join workspace ''.human_approval_gate'') ''challenges'') (challenge_id @ ''.json'')"

text \<open>A directory that cannot be listed ends the search with its error.\<close>

fun gate_paths_of_users :: "world \<Rightarrow> string \<Rightarrow> string list \<Rightarrow> string + string list" where
  "gate_paths_of_users w challenge_id [] = Inr []"
| "gate_paths_of_users w challenge_id (user_dir # user_dirs) =
     (let workspaces_dir = path_join user_dir ''workspaces'' in
      if \<not> fs_is_dir w workspaces_dir then gate_paths_of_users w challenge_id user_dirs
      else case fs_read_dir w workspaces_dir of
             None \<Rightarrow> Inl (unwrap_or not_found (w_refuse w workspaces_dir))
           | Some workspaces \<Rightarrow>
               res_bind (gate_paths_of_users w challenge_id user_dirs) (\<lambda>rest.
                 Inr (filter (fs_is_file w) (map (\<lambda>ws. gate_candidate ws challenge_id) workspaces) @ rest)))"

definition find_human_approval_gate_state_paths :: "world \<Rightarrow> string \<Rightarrow> string \<Rightarrow> string + string list" where
  "find_human_approval_gate_state_paths w users_root challenge_id =
     (if \<not> fs_exists w users_root then Inr []
      else case fs_read_dir w users_root of
             None \<Rightarrow> Inl (unwrap_or not_found (w_refuse w users_root))
           | Some user_dirs \<Rightarrow> gate_paths_of_users w challenge_id user_dirs)"

fun update_gate_states ::
    "('t, 'e, 'j, 'a, 'c, 'x) inbound_lib \<Rightarrow> postmark_mail \<Rightarrow> string list \<Rightarrow> nat \<Rightarrow> world \<Rightarrow> (string + nat) \<times> world" where
  "update_gate_states nb p [] updated w = (Inr updated, w)"
| "update_gate_states nb p (path # paths) updated w =
     st_bind (update_human_approval_gate_state nb path p w) (\<lambda>changed w.
       update_gate_states nb p paths (if changed then Suc updated else updated) w)"

definition record_human_approval_gate_reply ::
    "('t, 'e, 'j, 'a, 'c, 'x) inbound_lib \<Rightarrow> string \<Rightarrow> postmark_mail \<Rightarrow> world \<Rightarrow> (string + nat) \<times> world" where
  "record_human_approval_gate_reply nb users_root p w =
     (case extract_human_approval_gate_challenge_id (unwrap_or [] (pm_subject p)) of
        None \<Rightarrow> (Inr 0, w)
      | Some challenge_id \<Rightarrow>
          st_bind (find_human_approval_gate_state_paths w users_root challenge_id, w) (\<lambda>paths w.
            update_gate_states nb p paths 0 w))"

subsection \<open>The task for the message\<close>

text \<open>Subjects of notifications from Notion: the last two are Chinese, in UTF-8.\<close>

definition notion_marks :: "string list" where
  "notion_marks =
     [''mentioned you'', ''replied to'', ''commented in'', ''commented on'',
      [CHR 0xE5, CHR 0x8F, CHR 0x91, CHR 0xE8, CHR 0xA1, CHR 0xA8, CHR 0xE4, CHR 0xBA, CHR 0x86,
       CHR 0xE8, CHR 0xAF, CHR 0x84, CHR 0xE8, CHR 0xAE, CHR 0xBA],
      [CHR 0xE4, CHR 0xB8, CHR 0xAD, CHR 0xE6, CHR 0x8F, CHR 0x90, CHR 0xE5, CHR 0x8F, CHR 0x8A,
       CHR 0xE4, CHR 0xBA, CHR 0x86, CHR 0xE6, CHR 0x82, CHR 0xA8]]"

definition task_model_name :: "service_config \<Rightarrow> string" where
  "task_model_name cf =
     (case ep_model (cf_employee cf) of
        Some model \<Rightarrow> model
      | None \<Rightarrow> if eq_ignore_ascii_case (ep_runner (cf_employee cf)) ''claude'' then [] else cf_codex_model cf)"

definition email_run_task ::
    "service_config \<Rightarrow> user_paths \<Rightarrow> string \<Rightarrow> string \<Rightarrow> u64 \<Rightarrow> string list \<Rightarrow> service_mailbox
     \<Rightarrow> inbound_requester \<Rightarrow> uuid option \<Rightarrow> run_task_task" where
  "email_run_task cf paths workspace key epoch to_list mailbox requester account =
     \<lparr>rt_workspace_dir = workspace, rt_input_email_dir = ''incoming_email'',
      rt_input_attachments_dir = ''incoming_attachments'', rt_memory_dir = ''memory'',
      rt_reference_dir = ''references'', rt_model_name = task_model_name cf,
      rt_runner = ep_runner (cf_employee cf), rt_codex_disabled = cf_codex_disabled cf,
      rt_reply_to = to_list,
      rt_reply_from = or_else (nth_opt (ep_addresses (cf_employee cf)) 0) (Some (mailbox_formatted mailbox)),
      rt_archive_root = Some (up_mail_root paths), rt_thread_id = Some key, rt_thread_epoch = Some epoch,
      rt_thread_state_path = Some (default_thread_state_path workspace), rt_channel = Email,
      rt_slack_team_id = None, rt_employee_id = Some (ep_id (cf_employee cf)),
      rt_requester_identifier_type = Some (rq_identifier_type requester),
      rt_requester_identifier = Some (rq_identifier requester), rt_account_id = account,
      rt_channel_metadata = channel_metadata_default\<rparr>"

text \<open>
  From loading the scheduler to the identifier of the task.  A task with the identifier of the
  message suppresses the insertion; a failed cancellation is only logged.
\<close>

definition enqueue_email_task ::
    "('t, 'e, 'j, 'a) core_lib \<Rightarrow> (string \<Rightarrow> uuid) \<Rightarrow> string \<Rightarrow> run_task_task \<Rightarrow> string \<Rightarrow> u64 \<Rightarrow> string
     \<Rightarrow> string option \<Rightarrow> ('t, 'e) system \<Rightarrow> (inbound_error + uuid) \<times> ('t, 'e) system" where
  "enqueue_email_task co md5_uuid path run workspace epoch key message_id y =
     st_bind (step_err LoadFailed (load_scheduler co path y)) (\<lambda>_ y.
     let y = snd (cancel_pending_thread_tasks (co_store co) y workspace epoch) in
     case email_message_task_id md5_uuid key message_id of
       Some i \<Rightarrow>
         st_bind (step_err EnqueueFailed
                    (add_one_shot_in_if_absent_with_id (co_store co) y i 0 (RunTask run))) (\<lambda>_ y. (Inr i, y))
     | None \<Rightarrow> step_err EnqueueFailed (add_one_shot_in (co_store co) y 0 (RunTask run)))"

text \<open>A scheduler of its own for the account: its tasks are not those of the user's scheduler.\<close>

definition enqueue_account_task ::
    "('t, 'e, 'j, 'a) core_lib \<Rightarrow> string \<Rightarrow> uuid \<Rightarrow> uuid \<Rightarrow> run_task_task \<Rightarrow> ('t, 'e) system \<Rightarrow> ('t, 'e) system" where
  "enqueue_account_task co users_root account task_id run y =
     (let dir = path_join (path_join users_root account) ''state'' in
      case on_world (fs_create_dir_all dir) y of
        (Inl _, y1) \<Rightarrow> y1
      | (Inr _, y1) \<Rightarrow>
          let y2 = (case load_scheduler co (path_join dir ''tasks.db'') y1 of
                      (Inl _, y2) \<Rightarrow> y2
                    | (Inr _, y2) \<Rightarrow>
                        snd (add_one_shot_in_if_absent_with_id (co_store co) y2 task_id 0 (RunTask run)))
          in y2\<lparr>sy_tasks := sy_tasks y,
                sy_store := (sy_store y2)\<lparr>s_owner_kind := s_owner_kind (sy_store y),
                                          s_owner_id := s_owner_id (sy_store y)\<rparr>\<rparr>)"

definition account_for_tasks ::
    "('t, 'e, 'j, 'a, 'c, 'x) inbound_lib \<Rightarrow> uuid option \<Rightarrow> inbound_requester \<Rightarrow> uuid option" where
  "account_for_tasks nb account requester =
     (if account \<noteq> None then account
      else case nb_account_by_identifier nb (rq_identifier_type requester) (rq_identifier requester) of
             Inr found \<Rightarrow> found
           | Inl _ \<Rightarrow> None)"

subsection \<open>The whole of it\<close>

text \<open>From the workspace on, for a message that is to be answered.\<close>

definition handle_mail ::
    "('t, 'e, 'j, 'a, 'c, 'x) inbound_lib \<Rightarrow> service_config \<Rightarrow> postmark_mail \<Rightarrow> string \<Rightarrow> user_record
     \<Rightarrow> inbound_requester \<Rightarrow> uuid option \<Rightarrow> service_mailbox \<Rightarrow> ('t, 'e, 'c, 'x) inbound_state
     \<Rightarrow> (inbound_error + unit) \<times> ('t, 'e, 'c, 'x) inbound_state" where
  "handle_mail nb cf p raw_payload user requester account mailbox s =
     (let paths = user_paths_of (cf_users_root cf) (ur_user_id user);
          key = email_thread_key (nb_md5 nb) p raw_payload;
          message_id = map_option trim (or_else (header_message_id p) (pm_message_id p))
      in st_bind (step_err WorkspaceFailed (ns_world (ensure_thread_workspace nb paths (ur_user_id user) key
                    (cf_employee cf) (cf_skills_source_dir cf)) s)) (\<lambda>workspace s.
         st_bind (step_err ThreadStateFailed (ns_world (bump_thread_state (co_thread (nb_core nb))
                    (default_thread_state_path workspace) key message_id) s)) (\<lambda>st s.
         st_bind (step_err AppendFailed (ns_world (append_inbound_payload nb workspace p raw_payload
                    (unat (ts_last_email_seq st))) s)) (\<lambda>_ s.
         let s = snd (ns_world (archive_inbound nb paths p raw_payload) s);
             s = snd (ns_world (\<lambda>w. ((), nb_artifacts nb p workspace w)) s);
             run = email_run_task cf paths workspace key (ts_epoch st) (reply_recipients p) mailbox requester account
         in st_bind (ns_sys (enqueue_email_task (nb_core nb) (nb_md5_uuid nb) (up_tasks_db_path paths) run
                       workspace (ts_epoch st) key message_id) s) (\<lambda>task_id s.
            case sync_user_tasks (nb_index nb) (ur_user_id user) (sy_tasks (ns_system s)) (ns_index s) of
              (Inl e, x) \<Rightarrow> (Inl (IndexFailed e), s\<lparr>ns_index := x\<rparr>)
            | (Inr _, x) \<Rightarrow>
                let s = s\<lparr>ns_index := x\<rparr>
                in (Inr (), (case account_for_tasks nb account requester of
                       None \<Rightarrow> s
                     | Some i \<Rightarrow> s\<lparr>ns_system :=
                         enqueue_account_task (nb_core nb) (cf_users_root cf) i task_id run (ns_system s)\<rparr>)))))))"

definition process_inbound_payload ::
    "('t, 'e, 'j, 'a, 'c, 'x) inbound_lib \<Rightarrow> service_config \<Rightarrow> postmark_mail \<Rightarrow> string \<Rightarrow> uuid option
     \<Rightarrow> ('t, 'e, 'c, 'x) inbound_state \<Rightarrow> (inbound_error + unit) \<times> ('t, 'e, 'c, 'x) inbound_state" where
  "process_inbound_payload nb cf p raw_payload account_id s =
     (if human_approval_gate_subject p
      then st_bind (step_err GateFailed (ns_world (record_human_approval_gate_reply nb (cf_users_root cf) p) s))
             (\<lambda>_ s. (Inr (), s))
      else if \<not> contains_any (to_lowercase (unwrap_or [] (pm_subject p))) notion_marks
              \<and> is_blacklisted_sender (trim (unwrap_or [] (pm_from p))) (cf_service_addresses cf)
      then (Inr (), s)
      else
        st_bind (resolve_inbound_requester nb p raw_payload, s) (\<lambda>requester s.
        let account = resolved_account nb account_id in
        st_bind (user_of_sender nb (lookup_identifier nb account requester) s) (\<lambda>user s.
        st_bind (step_err UserDirsFailed
                   (ns_world (ensure_user_dirs (user_paths_of (cf_users_root cf) (ur_user_id user))) s)) (\<lambda>_ s.
        case select_inbound_service_mailbox (collect_service_address_candidates p)
               (ep_address_set (cf_employee cf)) of
          None \<Rightarrow> (Inr (), s)
        | Some mailbox \<Rightarrow> handle_mail nb cf p raw_payload user requester account mailbox s))))"

end
