(* ===== verification/Ingestion_Queue.thy ===== *)
theory Ingestion_Queue
  imports Inbound_Types
begin

text \<open>
  \<open>ingestion_queue.rs\<close>: the queue between the gateway and the workers, a table of PostgreSQL.
  The statements are translated as functions on the rows of the table, where \<open>now()\<close> is the
  clock of the server.  Every statement outside a transaction is one of its own, and the
  transaction of \<open>claim_next\<close> is one unit.  The server can refuse a statement, or carry it out
  while the reply is lost (\<open>Reply_Lost\<close>): then the client sees an error although the table has
  changed.
\<close>

datatype queue_error =
    QPostgres string | QPool string | QJson string | QMissingDbUrl | QInvalidTableName string
  | QConfig string | QServiceBus string

record queued_envelope =
  qe_id :: uuid
  qe_envelope :: ingestion_envelope

subsection \<open>The table\<close>

text \<open>The columns of \<open>ensure_schema\<close>; \<open>id\<close> is the primary key and \<open>dedupe_key\<close> unique.\<close>

record queue_row =
  qr_id :: uuid
  qr_tenant_id :: "string option"
  qr_employee_id :: string
  qr_channel :: string
  qr_external_message_id :: "string option"
  qr_dedupe_key :: string
  qr_payload_json :: string
  qr_status :: string
  qr_created_at :: datetime
  qr_locked_at :: "datetime option"
  qr_locked_by :: "string option"
  qr_processed_at :: "datetime option"
  qr_attempts :: int
  qr_last_error :: "string option"
  qr_available_at :: "datetime option"

datatype pg_fault = Refused queue_error | Reply_Lost queue_error

text \<open>\<open>pg_turn\<close> counts the transactions; \<open>pg_clock\<close> is the time of the server in each of them.\<close>

record pg =
  pg_rows :: "queue_row list"
  pg_clock :: "nat \<Rightarrow> datetime"
  pg_fault_at :: "nat \<Rightarrow> pg_fault option"
  pg_turn :: nat

definition pg_txn ::
    "(datetime \<Rightarrow> queue_row list \<Rightarrow> (queue_error + 'a) \<times> queue_row list) \<Rightarrow> pg \<Rightarrow> (queue_error + 'a) \<times> pg" where
  "pg_txn f g =
     (let g1 = g\<lparr>pg_turn := Suc (pg_turn g)\<rparr> in
      case pg_fault_at g (pg_turn g) of
        Some (Refused e) \<Rightarrow> (Inl e, g1)
      | Some (Reply_Lost e) \<Rightarrow> (Inl e, g1\<lparr>pg_rows := snd (f (pg_clock g (pg_turn g)) (pg_rows g))\<rparr>)
      | None \<Rightarrow>
          (case f (pg_clock g (pg_turn g)) (pg_rows g) of (r, rows) \<Rightarrow> (r, g1\<lparr>pg_rows := rows\<rparr>)))"

text \<open>\<open>UPDATE ... WHERE id = $1\<close>.\<close>

definition update_id :: "uuid \<Rightarrow> (queue_row \<Rightarrow> queue_row) \<Rightarrow> queue_row list \<Rightarrow> queue_row list" where
  "update_id i f = map (\<lambda>r. if qr_id r = i then f r else r)"

text \<open>
  \<open>PostgresIngestionQueue\<close> with its settings; \<open>q_to_json\<close> and \<open>q_from_json\<close> are serde's codec of
  an envelope.
\<close>

record queue_config =
  q_table :: string
  q_lease_secs :: int
  q_max_attempts :: int
  q_use_typed_queries :: bool

record envelope_codec =
  ec_to_json :: "ingestion_envelope \<Rightarrow> string + string"
  ec_from_json :: "string \<Rightarrow> string + ingestion_envelope"

subsection \<open>Enqueue\<close>

definition new_row :: "ingestion_envelope \<Rightarrow> string \<Rightarrow> datetime \<Rightarrow> queue_row" where
  "new_row e payload_json now =
     \<lparr>qr_id = ie_envelope_id e, qr_tenant_id = ie_tenant_id e, qr_employee_id = ie_employee_id e,
      qr_channel = channel_to_string (ie_channel e), qr_external_message_id = ie_external_message_id e,
      qr_dedupe_key = ie_dedupe_key e, qr_payload_json = payload_json, qr_status = ''pending'',
      qr_created_at = now, qr_locked_at = None, qr_locked_by = None, qr_processed_at = None,
      qr_attempts = 0, qr_last_error = None, qr_available_at = None\<rparr>"

text \<open>\<open>ON CONFLICT (dedupe_key) DO NOTHING\<close>; a second row of the same id is an error.\<close>

definition insert_row :: "ingestion_envelope \<Rightarrow> string \<Rightarrow> datetime \<Rightarrow> queue_row list
    \<Rightarrow> (queue_error + bool) \<times> queue_row list" where
  "insert_row e payload_json now rows =
     (if ie_dedupe_key e \<in> qr_dedupe_key ` set rows then (Inr False, rows)
      else if ie_envelope_id e \<in> qr_id ` set rows
      then (Inl (QPostgres ''duplicate key value violates unique constraint''), rows)
      else (Inr True, rows @ [new_row e payload_json now]))"

definition enqueue :: "envelope_codec \<Rightarrow> ingestion_envelope \<Rightarrow> pg \<Rightarrow> (queue_error + bool) \<times> pg" where
  "enqueue ec e g =
     (case ec_to_json ec e of
        Inl err \<Rightarrow> (Inl (QJson err), g)
      | Inr payload_json \<Rightarrow> pg_txn (insert_row e payload_json) g)"

subsection \<open>Claim\<close>

definition claimable :: "queue_config \<Rightarrow> string \<Rightarrow> datetime \<Rightarrow> queue_row \<Rightarrow> bool" where
  "claimable q employee_id now r =
     (qr_employee_id r = employee_id
      \<and> (qr_status r = ''pending''
         \<or> qr_status r = ''processing''
           \<and> (case qr_locked_at r of None \<Rightarrow> False | Some t \<Rightarrow> t < now - secs (q_lease_secs q)))
      \<and> (case qr_available_at r of None \<Rightarrow> True | Some t \<Rightarrow> t \<le> now)
      \<and> qr_attempts r < q_max_attempts q)"

text \<open>
  \<open>ORDER BY created_at LIMIT 1\<close>; rows of one time in the order of the table, which is arbitrary.
\<close>

fun oldest :: "queue_row list \<Rightarrow> queue_row option" where
  "oldest [] = None"
| "oldest (r # rs) =
     (case oldest rs of
        None \<Rightarrow> Some r
      | Some s \<Rightarrow> Some (if qr_created_at s < qr_created_at r then s else r))"

definition claim_row :: "string \<Rightarrow> datetime \<Rightarrow> queue_row \<Rightarrow> queue_row" where
  "claim_row instance_id now r =
     r\<lparr>qr_status := ''processing'', qr_locked_at := Some now, qr_locked_by := Some instance_id,
       qr_attempts := qr_attempts r + 1\<rparr>"

text \<open>
  The transaction.  \<open>locked\<close> are the rows other transactions hold at that moment, which
  \<open>SKIP LOCKED\<close> passes over.
\<close>

definition claim_txn ::
    "queue_config \<Rightarrow> string \<Rightarrow> string \<Rightarrow> (uuid \<Rightarrow> bool) \<Rightarrow> datetime \<Rightarrow> queue_row list
     \<Rightarrow> (queue_error + (uuid \<times> string) option) \<times> queue_row list" where
  "claim_txn q employee_id instance_id locked now rows =
     (case oldest (filter (\<lambda>r. claimable q employee_id now r \<and> \<not> locked (qr_id r)) rows) of
        None \<Rightarrow> (Inr None, rows)
      | Some r \<Rightarrow> (Inr (Some (qr_id r, qr_payload_json r)),
                 update_id (qr_id r) (claim_row instance_id now) rows))"

definition claim_next ::
    "queue_config \<Rightarrow> envelope_codec \<Rightarrow> string \<Rightarrow> string \<Rightarrow> (uuid \<Rightarrow> bool) \<Rightarrow> pg
     \<Rightarrow> (queue_error + queued_envelope option) \<times> pg" where
  "claim_next q ec employee_id instance_id locked g =
     st_bind (pg_txn (claim_txn q employee_id instance_id locked) g) (\<lambda>found g.
       case found of
         None \<Rightarrow> (Inr None, g)
       | Some (i, payload_json) \<Rightarrow>
           (case ec_from_json ec payload_json of
              Inl err \<Rightarrow> (Inl (QJson err), g)
            | Inr envelope \<Rightarrow> (Inr (Some \<lparr>qe_id = i, qe_envelope = envelope\<rparr>), g)))"

subsection \<open>The outcome\<close>

definition done_row :: "datetime \<Rightarrow> queue_row \<Rightarrow> queue_row" where
  "done_row now r =
     r\<lparr>qr_status := ''done'', qr_processed_at := Some now, qr_locked_at := None, qr_locked_by := None\<rparr>"

definition mark_done :: "uuid \<Rightarrow> pg \<Rightarrow> (queue_error + unit) \<times> pg" where
  "mark_done i = pg_txn (\<lambda>now rows. (Inr (), update_id i (done_row now) rows))"

text \<open>\<open>query_one\<close> fails without a row, the typed query takes 0.\<close>

definition read_attempts :: "queue_config \<Rightarrow> uuid \<Rightarrow> pg \<Rightarrow> (queue_error + int) \<times> pg" where
  "read_attempts q i =
     pg_txn (\<lambda>_ rows.
       (case List.find (\<lambda>r. qr_id r = i) rows of
          Some r \<Rightarrow> Inr (qr_attempts r)
        | None \<Rightarrow> if q_use_typed_queries q then Inr 0
                  else Inl (QPostgres ''query returned an unexpected number of rows''), rows))"

definition backoff_secs :: "int \<Rightarrow> int" where
  "backoff_secs attempts = sat_i64 (max attempts 1 * 5)"

definition failed_row :: "queue_config \<Rightarrow> int \<Rightarrow> string \<Rightarrow> datetime \<Rightarrow> queue_row \<Rightarrow> queue_row" where
  "failed_row q attempts err now r =
     (let r = r\<lparr>qr_processed_at := Some now, qr_locked_at := None, qr_locked_by := None,
               qr_last_error := Some err\<rparr>
      in if attempts \<ge> q_max_attempts q then r\<lparr>qr_status := ''failed'', qr_available_at := None\<rparr>
         else r\<lparr>qr_status := ''pending'',
                qr_available_at := Some (now + secs (backoff_secs attempts))\<rparr>)"

definition store_failure :: "queue_config \<Rightarrow> uuid \<Rightarrow> int \<Rightarrow> string \<Rightarrow> pg \<Rightarrow> (queue_error + unit) \<times> pg" where
  "store_failure q i attempts err =
     pg_txn (\<lambda>now rows. (Inr (), update_id i (failed_row q attempts err now) rows))"

definition mark_failed :: "queue_config \<Rightarrow> uuid \<Rightarrow> string \<Rightarrow> pg \<Rightarrow> (queue_error + unit) \<times> pg" where
  "mark_failed q i err g = st_bind (read_attempts q i g) (\<lambda>attempts g. store_failure q i attempts err g)"

subsection \<open>Settings\<close>

definition env_non_blank :: "world \<Rightarrow> string \<Rightarrow> string option" where
  "env_non_blank w key = opt_filter (\<lambda>v. trim v \<noteq> []) (w_env w key)"

definition resolve_db_url :: "world \<Rightarrow> queue_error + string" where
  "resolve_db_url w =
     (case or_else (env_non_blank w ''INGESTION_DB_URL'')
             (or_else (env_non_blank w ''SUPABASE_DB_URL'') (env_non_blank w ''DATABASE_URL'')) of
        Some url \<Rightarrow> Inr url
      | None \<Rightarrow> Inl QMissingDbUrl)"

definition sanitize_table_name :: "string \<Rightarrow> queue_error + string" where
  "sanitize_table_name raw =
     (let parts = split_char (CHR ''.'') raw in
      if parts = [] \<or> length parts > 2 then Inl (QInvalidTableName raw)
      else if list_ex (\<lambda>part. part = [] \<or> \<not> list_all (\<lambda>c. is_ascii_alphanumeric c \<or> c = CHR ''_'') part) parts
      then Inl (QInvalidTableName raw)
      else Inr raw)"

definition resolve_table_name :: "world \<Rightarrow> queue_error + string" where
  "resolve_table_name w =
     sanitize_table_name (unwrap_or ''ingestion_queue'' (read_non_empty_env w ''INGESTION_QUEUE_TABLE''))"

definition resolve_i64_env :: "world \<Rightarrow> string \<Rightarrow> int \<Rightarrow> int" where
  "resolve_i64_env w key default_value =
     unwrap_or default_value (opt_filter (\<lambda>v. v > 0) (Option.bind (w_env w key) parse_i64))"

definition parse_i32 :: "string \<Rightarrow> int option" where
  "parse_i32 s = opt_filter (\<lambda>n. - (2 ^ 31) \<le> n \<and> n \<le> 2 ^ 31 - 1) (parse_i64 s)"

definition resolve_i32_env :: "world \<Rightarrow> string \<Rightarrow> int \<Rightarrow> int" where
  "resolve_i32_env w key default_value =
     unwrap_or default_value (opt_filter (\<lambda>v. v > 0) (Option.bind (w_env w key) parse_i32))"

definition resolve_pool_size :: "world \<Rightarrow> nat" where
  "resolve_pool_size w =
     unwrap_or 8 (opt_filter (\<lambda>v. v > 0)
       (Option.bind (w_env w ''INGESTION_QUEUE_POOL_SIZE'') (\<lambda>s. opt_filter (\<lambda>n. n < 2 ^ 32) (parse_u64 s))))"

definition resolve_pooler_db_url :: "world \<Rightarrow> string option" where
  "resolve_pooler_db_url w =
     or_else (env_non_blank w ''INGESTION_QUEUE_POOLER_URL'') (env_non_blank w ''SUPABASE_POOLER_URL'')"

text \<open>\<open>new\<close> without the connections: typed queries are for a pooler with a URL of its own.\<close>

definition queue_new :: "world \<Rightarrow> string \<Rightarrow> string \<Rightarrow> int \<Rightarrow> int \<Rightarrow> queue_error + queue_config" where
  "queue_new w db_url table lease_secs max_attempts =
     res_bind (sanitize_table_name table) (\<lambda>table.
       Inr \<lparr>q_table = table, q_lease_secs = lease_secs, q_max_attempts = max_attempts,
            q_use_typed_queries = (unwrap_or db_url (resolve_pooler_db_url w) \<noteq> db_url)\<rparr>)"

definition queue_new_from_url :: "world \<Rightarrow> string \<Rightarrow> queue_error + queue_config" where
  "queue_new_from_url w db_url =
     res_bind (resolve_table_name w) (\<lambda>table.
       queue_new w db_url table (resolve_i64_env w ''INGESTION_QUEUE_LEASE_SECS'' 60)
         (resolve_i32_env w ''INGESTION_QUEUE_MAX_ATTEMPTS'' 5))"

definition queue_from_env :: "world \<Rightarrow> queue_error + queue_config" where
  "queue_from_env w =
     res_bind (resolve_db_url w) (\<lambda>db_url.
     res_bind (resolve_table_name w) (\<lambda>table.
       queue_new w db_url table (resolve_i64_env w ''INGESTION_QUEUE_LEASE_SECS'' 60)
         (resolve_i32_env w ''INGESTION_QUEUE_MAX_ATTEMPTS'' 5)))"

definition to_ascii_uppercase :: "string \<Rightarrow> string" where
  "to_ascii_uppercase = map ascii_upper"

definition resolve_worker_instance_id :: "world \<Rightarrow> nat \<Rightarrow> string \<Rightarrow> string" where
  "resolve_worker_instance_id w pid employee_id =
     (case read_non_empty_env w ''WORKER_INSTANCE_ID'' of
        Some v \<Rightarrow> v
      | None \<Rightarrow>
          (case read_non_empty_env w (''WORKER_INSTANCE_ID_'' @ to_ascii_uppercase (trim employee_id)) of
             Some v \<Rightarrow> v
           | None \<Rightarrow> unwrap_or (''pid-'' @ nat_str pid) (env_non_blank w ''HOSTNAME'')))"

text \<open>\<open>env_alias.rs\<close>: outside production the prefixed variable comes first.\<close>

definition deploy_target :: "world \<Rightarrow> string" where
  "deploy_target w =
     unwrap_or ''production''
       (opt_filter (\<lambda>v. v \<noteq> []) (map_option (\<lambda>v. to_ascii_lowercase (trim v)) (w_env w ''DEPLOY_TARGET'')))"

definition var_with_scale_oliver :: "world \<Rightarrow> string \<Rightarrow> string option" where
  "var_with_scale_oliver w key =
     (let prefixed = ''SCALE_OLIVER_'' @ key in
      if deploy_target w = ''production''
      then or_else (read_non_empty_env w key) (read_non_empty_env w prefixed)
      else or_else (read_non_empty_env w prefixed) (read_non_empty_env w key))"

definition bool_with_scale_oliver :: "world \<Rightarrow> string \<Rightarrow> bool \<Rightarrow> bool" where
  "bool_with_scale_oliver w key default_value =
     (case var_with_scale_oliver w key of
        Some v \<Rightarrow> to_ascii_lowercase v \<in> set [''1'', ''true'', ''yes'', ''on'']
      | None \<Rightarrow> default_value)"

definition resolve_ingestion_queue_backend :: "world \<Rightarrow> string" where
  "resolve_ingestion_queue_backend w =
     unwrap_or ''postgres''
       (opt_filter (\<lambda>v. v \<noteq> []) (map_option to_ascii_lowercase (var_with_scale_oliver w ''INGESTION_QUEUE_BACKEND'')))"

end
