(* ===== verification/Ingestion_Properties.thy ===== *)
theory Ingestion_Properties
  imports Ingestion_Queue
begin

text \<open>
  What the queue promises to any number of workers.  A run is a sequence of the operations of
  \<open>IngestionQueue\<close> in the order in which the server carries them out, each by any client and
  with any fault; \<open>mark_failed\<close> is here the statement that stores the failure, with whatever
  number of attempts its first statement had read.
\<close>

subsection \<open>Runs\<close>

datatype queue_op =
    Op_Enqueue ingestion_envelope
  | Op_Claim string string "uuid \<Rightarrow> bool"
  | Op_Done uuid
  | Op_Fail uuid int string

text \<open>The envelopes an operation hands to its caller, and the queue after it.\<close>

fun queue_step :: "queue_config \<Rightarrow> envelope_codec \<Rightarrow> queue_op \<Rightarrow> pg \<Rightarrow> uuid list \<times> pg" where
  "queue_step q ec (Op_Enqueue e) g = ([], snd (enqueue ec e g))"
| "queue_step q ec (Op_Claim employee_id instance_id locked) g =
     (case claim_next q ec employee_id instance_id locked g of
        (Inr (Some item), g) \<Rightarrow> ([qe_id item], g)
      | (_, g) \<Rightarrow> ([], g))"
| "queue_step q ec (Op_Done i) g = ([], snd (mark_done i g))"
| "queue_step q ec (Op_Fail i attempts err) g = ([], snd (store_failure q i attempts err g))"

fun queue_run :: "queue_config \<Rightarrow> envelope_codec \<Rightarrow> queue_op list \<Rightarrow> pg \<Rightarrow> uuid list \<times> pg" where
  "queue_run q ec [] g = ([], g)"
| "queue_run q ec (op # ops) g =
     (case queue_step q ec op g of (hs, g) \<Rightarrow>
      case queue_run q ec ops g of (hs', g) \<Rightarrow> (hs @ hs', g))"

text \<open>What a step can do to the table, whatever the client is told of it.\<close>

inductive table_step ::
    "queue_config \<Rightarrow> queue_op \<Rightarrow> datetime \<Rightarrow> queue_row list \<Rightarrow> uuid list \<Rightarrow> queue_row list \<Rightarrow> bool"
  for q :: queue_config and op :: queue_op and now :: datetime and rows :: "queue_row list" where
  Unchanged: "table_step q op now rows [] rows"
| Inserted: "op = Op_Enqueue e \<Longrightarrow> ie_dedupe_key e \<notin> qr_dedupe_key ` set rows \<Longrightarrow>
    ie_envelope_id e \<notin> qr_id ` set rows \<Longrightarrow> table_step q op now rows [] (rows @ [new_row e j now])"
| Claimed: "op = Op_Claim employee_id instance_id locked \<Longrightarrow> r \<in> set rows \<Longrightarrow>
    claimable q employee_id now r \<Longrightarrow> hs = [] \<or> hs = [qr_id r] \<Longrightarrow>
    table_step q op now rows hs (update_id (qr_id r) (claim_row instance_id now) rows)"
| Done: "op = Op_Done i \<Longrightarrow> table_step q op now rows [] (update_id i (done_row now) rows)"
| Failed: "op = Op_Fail i attempts err \<Longrightarrow>
    table_step q op now rows [] (update_id i (failed_row q attempts err now) rows)"

lemma pg_txn_cases:
  assumes "pg_txn f g = (r, g')"
  shows "pg_clock g' = pg_clock g \<and> pg_fault_at g' = pg_fault_at g \<and>
    (pg_turn g' = Suc (pg_turn g)) \<and>
    (pg_rows g' = pg_rows g \<and> (\<exists>e. r = Inl e) \<or>
     pg_rows g' = snd (f (pg_clock g (pg_turn g)) (pg_rows g)) \<and>
     (r = fst (f (pg_clock g (pg_turn g)) (pg_rows g)) \<or> (\<exists>e. r = Inl e)))"
  using assms by (auto simp: pg_txn_def Let_def split: option.splits pg_fault.splits prod.splits)

lemma oldest_in: "oldest rs = Some r \<Longrightarrow> r \<in> set rs"
  by (induction rs arbitrary: r) (auto split: option.splits if_splits)

lemma oldest_none [simp]: "oldest rs = None \<longleftrightarrow> rs = []"
  by (cases rs) (auto split: option.splits)

lemma oldest_least: "oldest rs = Some r \<Longrightarrow> s \<in> set rs \<Longrightarrow> qr_created_at r \<le> qr_created_at s"
  by (induction rs arbitrary: r) (fastforce split: option.splits if_splits)+

text \<open>Every step of the queue is a step of the table.\<close>

lemma queue_step_table:
  assumes "queue_step q ec op g = (hs, g')"
  shows "table_step q op (pg_clock g (pg_turn g)) (pg_rows g) hs (pg_rows g')
    \<and> pg_clock g' = pg_clock g \<and> pg_fault_at g' = pg_fault_at g
    \<and> (pg_turn g' = Suc (pg_turn g) \<or> g' = g \<and> hs = [])"
proof (cases op)
  case (Op_Enqueue e)
  show ?thesis
  proof (cases "ec_to_json ec e")
    case (Inl err)
    with assms Op_Enqueue show ?thesis by (auto simp: enqueue_def intro: table_step.Unchanged)
  next
    case (Inr j)
    obtain r1 where "pg_txn (insert_row e j) g = (r1, g')" and hs: "hs = []"
      using assms Op_Enqueue Inr by (cases "pg_txn (insert_row e j) g") (auto simp: enqueue_def)
    from pg_txn_cases [OF this(1)] Op_Enqueue hs show ?thesis
      by (auto simp: insert_row_def intro: table_step.Unchanged table_step.Inserted)
  qed
next
  case (Op_Claim employee_id instance_id locked)
  obtain r1 g1 where t: "pg_txn (claim_txn q employee_id instance_id locked) g = (r1, g1)" by force
  note c = pg_txn_cases [OF t]
  have g': "g' = g1" and hs: "hs = [] \<or> (\<exists>i j. r1 = Inr (Some (i, j)) \<and> hs = [i])"
    using assms Op_Claim t
    by (auto simp: claim_next_def st_bind_def split: sum.splits option.splits prod.splits)
  let ?now = "pg_clock g (pg_turn g)"
  let ?o = "oldest (filter (\<lambda>r. claimable q employee_id ?now r \<and> \<not> locked (qr_id r)) (pg_rows g))"
  show ?thesis
  proof (cases ?o)
    case None
    with c hs g' show ?thesis by (auto simp: claim_txn_def intro: table_step.Unchanged)
  next
    case (Some r)
    then have "r \<in> set (pg_rows g)" "claimable q employee_id ?now r" by (auto dest: oldest_in)
    with c hs g' Some Op_Claim show ?thesis
      by (auto simp: claim_txn_def intro: table_step.Unchanged table_step.Claimed)
  qed
next
  case (Op_Done i)
  with assms show ?thesis
    by (cases "mark_done i g")
       (auto simp: mark_done_def dest!: pg_txn_cases intro: table_step.Unchanged table_step.Done)
next
  case (Op_Fail i attempts err)
  with assms show ?thesis
    by (cases "store_failure q i attempts err g")
       (auto simp: store_failure_def dest!: pg_txn_cases intro: table_step.Unchanged table_step.Failed)
qed

lemma queue_run_turn: "queue_run q ec ops g = (handed, g') \<Longrightarrow> pg_turn g \<le> pg_turn g'"
proof (induction ops arbitrary: g handed)
  case (Cons op ops)
  obtain hs1 g1 where 1: "queue_step q ec op g = (hs1, g1)" by force
  with Cons have "pg_turn g1 \<le> pg_turn g'" by (auto split: prod.splits)
  with queue_step_table [OF 1] show ?case by auto
qed simp

text \<open>
  What every step keeps at every time holds after every run, and so does what it ensures of the
  envelopes handed out.
\<close>

lemma queue_run_invariant:
  assumes keep: "\<And>op now rows hs rows'. table_step q op now rows hs rows' \<Longrightarrow> A op \<Longrightarrow> T now \<Longrightarrow> P rows \<Longrightarrow>
                   P rows' \<and> (\<forall>h \<in> set hs. H h)"
  shows "queue_run q ec ops g = (handed, g') \<Longrightarrow> P (pg_rows g) \<Longrightarrow> \<forall>op \<in> set ops. A op \<Longrightarrow>
    \<forall>k. pg_turn g \<le> k \<longrightarrow> k < pg_turn g' \<longrightarrow> T (pg_clock g k) \<Longrightarrow>
    P (pg_rows g') \<and> (\<forall>h \<in> set handed. H h) \<and> pg_turn g \<le> pg_turn g' \<and> pg_clock g' = pg_clock g
    \<and> pg_fault_at g' = pg_fault_at g"
proof (induction ops arbitrary: g handed)
  case (Cons op ops)
  obtain hs1 g1 where 1: "queue_step q ec op g = (hs1, g1)" by force
  obtain hs2 g2 where 2: "queue_run q ec ops g1 = (hs2, g2)" by force
  from Cons.prems 1 2 have e: "g' = g2" "handed = hs1 @ hs2" by auto
  note s = queue_step_table [OF 1]
  show ?case
  proof (cases "g1 = g \<and> hs1 = []")
    case True
    with Cons.IH 2 e Cons.prems show ?thesis by auto
  next
    case False
    with s have t: "pg_turn g1 = Suc (pg_turn g)" by blast
    from queue_run_turn [OF 2] have le: "pg_turn g1 \<le> pg_turn g2" .
    from t le e Cons.prems(4) have "T (pg_clock g (pg_turn g))" by simp
    with keep s Cons.prems(2,3) have p: "P (pg_rows g1) \<and> (\<forall>h \<in> set hs1. H h)" by auto
    have "\<forall>k. pg_turn g1 \<le> k \<longrightarrow> k < pg_turn g' \<longrightarrow> T (pg_clock g1 k)"
      using Cons.prems(4) t s by auto
    with Cons.IH [of g1 hs2] 2 e p Cons.prems(3) s t le show ?thesis by auto
  qed
qed simp

lemma queue_run_keeps:
  assumes "queue_run q ec ops g = (handed, g')" and "P (pg_rows g)" and "\<forall>op \<in> set ops. A op"
    and "\<forall>k. pg_turn g \<le> k \<longrightarrow> k < pg_turn g' \<longrightarrow> T (pg_clock g k)"
    and "\<And>op now rows hs rows'. table_step q op now rows hs rows' \<Longrightarrow> A op \<Longrightarrow> T now \<Longrightarrow> P rows \<Longrightarrow>
           P rows' \<and> (\<forall>h \<in> set hs. H h)"
  shows "P (pg_rows g') \<and> (\<forall>h \<in> set handed. H h)"
proof -
  have "P (pg_rows g') \<and> (\<forall>h \<in> set handed. H h) \<and> pg_turn g \<le> pg_turn g' \<and> pg_clock g' = pg_clock g
        \<and> pg_fault_at g' = pg_fault_at g"
    by (rule queue_run_invariant [where A = A and T = T]) (rule assms; assumption)+
  then show ?thesis by blast
qed

subsection \<open>The rows are well formed\<close>

definition row_ok :: "queue_config \<Rightarrow> queue_row \<Rightarrow> bool" where
  "row_ok q r =
     (0 \<le> qr_attempts r \<and> qr_attempts r \<le> q_max_attempts q
      \<and> qr_status r \<in> set [''pending'', ''processing'', ''done'', ''failed'']
      \<and> (qr_status r = ''processing'' \<longleftrightarrow> qr_locked_at r \<noteq> None)
      \<and> (qr_locked_at r = None \<longleftrightarrow> qr_locked_by r = None)
      \<and> (qr_status r = ''processing'' \<longrightarrow> 1 \<le> qr_attempts r)
      \<and> (qr_status r \<in> set [''done'', ''failed''] \<longrightarrow> qr_processed_at r \<noteq> None))"

definition queue_ok :: "queue_config \<Rightarrow> queue_row list \<Rightarrow> bool" where
  "queue_ok q rows =
     (distinct (map qr_id rows) \<and> distinct (map qr_dedupe_key rows) \<and> list_all (row_ok q) rows)"

lemma map_update_id [simp]:
  "(\<And>r. qr_id (f r) = qr_id r) \<Longrightarrow> map qr_id (update_id i f rows) = map qr_id rows"
  "(\<And>r. qr_dedupe_key (f r) = qr_dedupe_key r) \<Longrightarrow>
     map qr_dedupe_key (update_id i f rows) = map qr_dedupe_key rows"
  by (simp_all add: update_id_def comp_def if_distrib cong: if_cong)

lemma row_updates_keep_keys [simp]:
  "qr_id (claim_row b now r) = qr_id r" "qr_dedupe_key (claim_row b now r) = qr_dedupe_key r"
  "qr_id (done_row now r) = qr_id r" "qr_dedupe_key (done_row now r) = qr_dedupe_key r"
  "qr_id (failed_row q a err now r) = qr_id r"
  "qr_dedupe_key (failed_row q a err now r) = qr_dedupe_key r"
  by (simp_all add: claim_row_def done_row_def failed_row_def Let_def)

lemma list_all_update_id:
  "list_all P rows \<Longrightarrow> (\<And>r. r \<in> set rows \<Longrightarrow> qr_id r = i \<Longrightarrow> P r \<Longrightarrow> P (f r)) \<Longrightarrow>
   list_all P (update_id i f rows)"
  by (auto simp: update_id_def list_all_iff)

lemma unique_row: "distinct (map qr_id rows) \<Longrightarrow> r \<in> set rows \<Longrightarrow> s \<in> set rows \<Longrightarrow> qr_id r = qr_id s \<Longrightarrow> r = s"
  by (auto simp: distinct_map inj_on_def)

lemma row_ok_new: "0 \<le> q_max_attempts q \<Longrightarrow> row_ok q (new_row e j now)"
  by (simp add: row_ok_def new_row_def)

lemma row_ok_claim: "row_ok q r \<Longrightarrow> qr_attempts r < q_max_attempts q \<Longrightarrow> row_ok q (claim_row b now r)"
  by (simp add: row_ok_def claim_row_def)

lemma row_ok_done: "row_ok q r \<Longrightarrow> row_ok q (done_row now r)"
  by (simp add: row_ok_def done_row_def)

lemma row_ok_failed: "row_ok q r \<Longrightarrow> row_ok q (failed_row q a err now r)"
  by (simp add: row_ok_def failed_row_def Let_def)

lemma queue_ok_step:
  assumes "table_step q op now rows hs rows'" and ok: "queue_ok q rows" and "0 \<le> q_max_attempts q"
  shows "queue_ok q rows'"
  using assms(1)
proof cases
  case (Claimed employee_id instance_id locked r)
  have "row_ok q (claim_row instance_id now s)" if "s \<in> set rows" "qr_id s = qr_id r" for s
    using that ok Claimed unique_row [of rows s r]
    by (auto simp: queue_ok_def list_all_iff claimable_def intro!: row_ok_claim)
  with ok Claimed show ?thesis by (auto simp: queue_ok_def intro!: list_all_update_id)
qed (use ok assms(3) row_ok_new in
      \<open>auto simp: queue_ok_def new_row_def intro!: list_all_update_id row_ok_done row_ok_failed\<close>)

text \<open>
  C8.  The table stays well formed whatever operations reach it, from however many gateways and
  workers and with whatever lost connections: identifiers and deduplication keys are unique, no row
  has been handed out more often than the limit, its status is one of the four, a row is locked
  exactly while it is being processed, and a finished row carries its time.
\<close>

theorem queue_well_formed:
  assumes "queue_run q ec ops g = (handed, g')" and "queue_ok q (pg_rows g)" and "0 \<le> q_max_attempts q"
  shows "queue_ok q (pg_rows g')"
proof -
  have "queue_ok q (pg_rows g') \<and> (\<forall>h \<in> set handed. True)"
    by (rule queue_run_keeps [where P = "queue_ok q" and A = "\<lambda>_. True" and T = "\<lambda>_. True" and H = "\<lambda>_. True", OF assms(1,2)])
       (use queue_ok_step assms(3) in auto)
  then show ?thesis by blast
qed

subsection \<open>A row is handed out a bounded number of times\<close>

definition row_of :: "queue_row list \<Rightarrow> uuid \<Rightarrow> queue_row option" where
  "row_of rows i = List.find (\<lambda>r. qr_id r = i) rows"

lemma row_of_simps [simp]:
  "row_of [] i = None" "row_of (r # rows) i = (if qr_id r = i then Some r else row_of rows i)"
  by (simp_all add: row_of_def)

lemma row_of_id: "row_of rows i = Some r \<Longrightarrow> qr_id r = i \<and> r \<in> set rows"
  by (induction rows) (auto split: if_splits)

lemma row_of_none: "row_of rows i = None \<longleftrightarrow> i \<notin> qr_id ` set rows"
  by (induction rows) auto

lemma row_of_mem: "distinct (map qr_id rows) \<Longrightarrow> r \<in> set rows \<Longrightarrow> row_of rows (qr_id r) = Some r"
  by (induction rows) (auto simp: image_iff)

lemma row_of_snoc: "row_of (rows @ [r]) i = (case row_of rows i of None \<Rightarrow> if qr_id r = i then Some r else None
    | Some s \<Rightarrow> Some s)"
  by (induction rows) auto

lemma row_of_update:
  "(\<And>r. qr_id (f r) = qr_id r) \<Longrightarrow>
   row_of (update_id j f rows) i = (if i = j then map_option f (row_of rows i) else row_of rows i)"
  by (induction rows) (auto simp: update_id_def)

definition attempts_of :: "queue_row list \<Rightarrow> uuid \<Rightarrow> int" where
  "attempts_of rows i = (case row_of rows i of None \<Rightarrow> 0 | Some r \<Rightarrow> qr_attempts r)"

lemma attempts_step:
  assumes "table_step q op now rows hs rows'" and "queue_ok q rows"
  shows "attempts_of rows i + int (count_list hs i) \<le> attempts_of rows' i"
  using assms(1)
proof cases
  case (Claimed employee_id instance_id locked r)
  then show ?thesis using row_of_mem [of rows r] assms(2)
    by (auto simp: attempts_of_def row_of_update queue_ok_def claim_row_def split: option.splits)
qed (auto simp: attempts_of_def row_of_update row_of_snoc done_row_def failed_row_def new_row_def Let_def
      split: option.splits)

lemma attempts_run:
  "queue_run q ec ops g = (handed, g') \<Longrightarrow> queue_ok q (pg_rows g) \<Longrightarrow> 0 \<le> q_max_attempts q \<Longrightarrow>
   attempts_of (pg_rows g) i + int (count_list handed i) \<le> attempts_of (pg_rows g') i \<and> queue_ok q (pg_rows g')"
proof (induction ops arbitrary: g handed)
  case (Cons op ops)
  obtain hs1 g1 where 1: "queue_step q ec op g = (hs1, g1)" by force
  obtain hs2 g2 where 2: "queue_run q ec ops g1 = (hs2, g2)" by force
  from queue_step_table [OF 1] have t: "table_step q op (pg_clock g (pg_turn g)) (pg_rows g) hs1 (pg_rows g1)"
    by blast
  from attempts_step [OF t, of i] queue_ok_step [OF t] Cons.IH [of g1 hs2] Cons.prems 1 2 show ?case by auto
qed simp

text \<open>
  C9.  However many workers compete, crash or lose their connections, and whatever they report:
  an envelope is handed out at most as often as the limit of attempts allows, over the whole life of
  the queue.
\<close>

theorem deliveries_bounded:
  assumes "queue_run q ec ops g = (handed, g')" and "queue_ok q (pg_rows g)" and "0 \<le> q_max_attempts q"
  shows "int (count_list handed i) \<le> q_max_attempts q - attempts_of (pg_rows g) i"
proof -
  have "attempts_of rows i \<le> q_max_attempts q" if "queue_ok q rows" for rows
    using that assms(3) row_of_id [of rows i]
    by (auto simp: attempts_of_def queue_ok_def list_all_iff row_ok_def split: option.splits)
  with attempts_run [OF assms, of i] show ?thesis by force
qed

subsection \<open>Leases\<close>

lemma claim_next_effect:
  assumes "claim_next q ec employee_id instance_id locked g = (Inr (Some item), g')" and "queue_ok q (pg_rows g)"
  obtains r where "r \<in> set (pg_rows g)" and "qr_id r = qe_id item"
    and "claimable q employee_id (pg_clock g (pg_turn g)) r"
    and "row_of (pg_rows g') (qe_id item) = Some (claim_row instance_id (pg_clock g (pg_turn g)) r)"
    and "pg_turn g' = Suc (pg_turn g)" and "pg_clock g' = pg_clock g" and "pg_fault_at g' = pg_fault_at g"
    and "\<forall>s \<in> set (pg_rows g). claimable q employee_id (pg_clock g (pg_turn g)) s \<longrightarrow> \<not> locked (qr_id s) \<longrightarrow>
           qr_created_at r \<le> qr_created_at s"
proof -
  let ?now = "pg_clock g (pg_turn g)"
  let ?c = "filter (\<lambda>r. claimable q employee_id ?now r \<and> \<not> locked (qr_id r)) (pg_rows g)"
  obtain x g1 where t: "pg_txn (claim_txn q employee_id instance_id locked) g = (x, g1)" by force
  with assms(1) obtain i j where x: "x = Inr (Some (i, j))" and g': "g1 = g'" and i: "i = qe_id item"
    by (auto simp: claim_next_def st_bind_def split: sum.splits option.splits)
  note c = pg_txn_cases [OF t]
  with x obtain r where r: "oldest ?c = Some r" "qr_id r = i"
    and rows: "pg_rows g1 = update_id i (claim_row instance_id ?now) (pg_rows g)"
    by (auto simp: claim_txn_def split: option.splits)
  from oldest_in [OF r(1)] have m: "r \<in> set (pg_rows g)" "claimable q employee_id ?now r" by auto
  then have "row_of (pg_rows g) i = Some r" using row_of_mem assms(2) r(2) by (auto simp: queue_ok_def)
  then have "row_of (pg_rows g') (qe_id item) = Some (claim_row instance_id ?now r)"
    using rows g' i by (simp add: row_of_update)
  moreover have "\<forall>s \<in> set (pg_rows g). claimable q employee_id ?now s \<longrightarrow> \<not> locked (qr_id s) \<longrightarrow>
      qr_created_at r \<le> qr_created_at s"
    using oldest_least [OF r(1)] by auto
  ultimately show ?thesis using that m c g' i r(2) by blast
qed

text \<open>A row under an unexpired lease, and one that is done, is left alone by all but its reporters.\<close>

definition held :: "queue_config \<Rightarrow> uuid \<Rightarrow> datetime \<Rightarrow> queue_row list \<Rightarrow> bool" where
  "held q i t rows =
     (distinct (map qr_id rows) \<and> (case row_of rows i of None \<Rightarrow> False
      | Some r \<Rightarrow> qr_status r = ''processing'' \<and> qr_locked_at r = Some t \<or> qr_status r = ''done''))"

lemma held_step:
  assumes "table_step q op now rows hs rows'" and "\<forall>a err. op \<noteq> Op_Fail i a err" and "now \<le> t + secs (q_lease_secs q)"
    and "held q i t rows"
  shows "held q i t rows' \<and> (\<forall>h \<in> set hs. h \<noteq> i)"
  using assms(1)
proof cases
  case (Claimed employee_id instance_id locked r)
  have "qr_id r \<noteq> i"
  proof
    assume "qr_id r = i"
    then have "row_of rows i = Some r" using row_of_mem Claimed assms(4) by (auto simp: held_def)
    with Claimed assms(3,4) show False by (auto simp: held_def claimable_def)
  qed
  with Claimed assms(4) show ?thesis by (auto simp: held_def row_of_update)
qed (use assms in \<open>auto simp: held_def row_of_update row_of_snoc new_row_def done_row_def split: option.splits\<close>)

text \<open>A row that is done stays so, and a row that is there stays there.\<close>

definition finished :: "uuid \<Rightarrow> queue_row list \<Rightarrow> bool" where
  "finished i rows =
     (distinct (map qr_id rows) \<and> (case row_of rows i of None \<Rightarrow> False | Some r \<Rightarrow> qr_status r = ''done''))"

lemma finished_step:
  assumes "table_step q op now rows hs rows'" and "\<forall>a err. op \<noteq> Op_Fail i a err" and "finished i rows"
  shows "finished i rows' \<and> (\<forall>h \<in> set hs. h \<noteq> i)"
  using assms(1)
proof cases
  case (Claimed employee_id instance_id locked r)
  have "qr_id r \<noteq> i"
  proof
    assume "qr_id r = i"
    then have "row_of rows i = Some r" using row_of_mem Claimed assms(3) by (auto simp: finished_def)
    with Claimed assms(3) show False by (auto simp: finished_def claimable_def)
  qed
  with Claimed assms(3) show ?thesis by (auto simp: finished_def row_of_update)
qed (use assms in \<open>auto simp: finished_def row_of_update row_of_snoc new_row_def done_row_def split: option.splits\<close>)

lemma row_stays:
  assumes "table_step q op now rows hs rows'" and "distinct (map qr_id rows) \<and> i \<in> set (map qr_id rows)"
  shows "distinct (map qr_id rows') \<and> i \<in> set (map qr_id rows')"
  using assms(1) by cases (use assms(2) in \<open>auto simp: new_row_def set_map [symmetric] simp del: set_map\<close>)

lemma marked_finished:
  assumes "mark_done i g = (Inr (), g')" and "distinct (map qr_id (pg_rows g))" and "i \<in> set (map qr_id (pg_rows g))"
  shows "finished i (pg_rows g')"
proof -
  from assms(1) have "pg_rows g' = update_id i (done_row (pg_clock g (pg_turn g))) (pg_rows g)"
    unfolding mark_done_def by (auto dest!: pg_txn_cases)
  moreover obtain r where "row_of (pg_rows g) i = Some r"
    using assms(3) row_of_none [of "pg_rows g" i] by fastforce
  ultimately show ?thesis using assms(2) by (simp add: finished_def row_of_update done_row_def)
qed

text \<open>
  C7.  From a successful claim on, as long as nobody reports the envelope as failed: it is handed
  to nobody else in any run of the queue all of whose transactions fall within the lease of the claim;
  and once a report that it is done has succeeded, however late, it is never handed out again,
  without any bound in time.  (The end of the lease alone does bring an envelope back.)
\<close>

theorem lease_exclusive:
  assumes "claim_next q ec employee_id instance_id locked g = (Inr (Some item), g1)"
    and "queue_run q ec ops g1 = (handed, g2)" and "queue_ok q (pg_rows g)"
    and "\<forall>op \<in> set ops. \<forall>a err. op \<noteq> Op_Fail (qe_id item) a err"
  shows "((\<forall>k. pg_turn g < k \<longrightarrow> k < pg_turn g2 \<longrightarrow>
             pg_clock g k \<le> pg_clock g (pg_turn g) + secs (q_lease_secs q))
           \<longrightarrow> qe_id item \<notin> set handed)
    \<and> (\<forall>g3 later handed' g4. mark_done (qe_id item) g2 = (Inr (), g3) \<longrightarrow>
         queue_run q ec later g3 = (handed', g4) \<longrightarrow>
         (\<forall>op \<in> set later. \<forall>a err. op \<noteq> Op_Fail (qe_id item) a err) \<longrightarrow> qe_id item \<notin> set handed')"
proof -
  let ?t = "pg_clock g (pg_turn g)" and ?i = "qe_id item"
  let ?A = "\<lambda>op. \<forall>a err. op \<noteq> Op_Fail (qe_id item) a err"
  obtain r where r: "row_of (pg_rows g1) ?i = Some (claim_row instance_id ?t r)"
    and g1: "pg_turn g1 = Suc (pg_turn g)" "pg_clock g1 = pg_clock g"
    using claim_next_effect [OF assms(1,3)] by blast
  have "queue_step q ec (Op_Claim employee_id instance_id locked) g = ([?i], g1)"
    using assms(1) by simp
  from queue_step_table [OF this] have d: "distinct (map qr_id (pg_rows g1))"
    using assms(3) by (auto elim!: table_step.cases simp: queue_ok_def)
  with r have h: "held q ?i ?t (pg_rows g1)" by (simp add: held_def claim_row_def)
  have A: "\<forall>op \<in> set ops. ?A op" using assms(4) by blast
  have "?i \<notin> set handed"
    if "\<forall>k. pg_turn g < k \<longrightarrow> k < pg_turn g2 \<longrightarrow> pg_clock g k \<le> ?t + secs (q_lease_secs q)"
  proof -
    from that have "\<forall>k. pg_turn g1 \<le> k \<longrightarrow> k < pg_turn g2 \<longrightarrow> pg_clock g1 k \<le> ?t + secs (q_lease_secs q)"
      using g1 by simp
    with h A have "held q ?i ?t (pg_rows g2) \<and> (\<forall>h \<in> set handed. h \<noteq> ?i)"
      by (intro queue_run_keeps [where P = "held q ?i ?t" and H = "\<lambda>h. h \<noteq> ?i" and A = ?A
            and T = "\<lambda>now. now \<le> ?t + secs (q_lease_secs q)", OF assms(2)] held_step)
    then show ?thesis by blast
  qed
  moreover have "?i \<notin> set handed'"
    if m: "mark_done ?i g2 = (Inr (), g3)" and run: "queue_run q ec later g3 = (handed', g4)"
      and later: "\<forall>op \<in> set later. ?A op" for g3 later handed' g4
  proof -
    have "?i \<in> set (map qr_id (pg_rows g1))" using row_of_id [OF r] by (metis list.set_map imageI)
    with d have "(distinct (map qr_id (pg_rows g2)) \<and> ?i \<in> set (map qr_id (pg_rows g2))) \<and> (\<forall>h \<in> set handed. True)"
      by (intro queue_run_keeps [where P = "\<lambda>rows. distinct (map qr_id rows) \<and> ?i \<in> set (map qr_id rows)"
            and H = "\<lambda>_. True" and A = "\<lambda>_. True" and T = "\<lambda>_. True", OF assms(2)])
         (use row_stays in \<open>blast+\<close>)
    then have f: "finished ?i (pg_rows g3)" using marked_finished [OF m] by blast
    have "finished ?i (pg_rows g4) \<and> (\<forall>h \<in> set handed'. h \<noteq> ?i)"
      by (rule queue_run_keeps [where P = "finished ?i" and H = "\<lambda>h. h \<noteq> ?i" and A = ?A and T = "\<lambda>_. True",
            OF run f later]) (use finished_step in \<open>blast+\<close>)
    then show ?thesis by blast
  qed
  ultimately show ?thesis by blast
qed

subsection \<open>What gets lost\<close>

text \<open>
  A worker that dies during the last attempt strands its envelope: no later claim takes the row,
  whatever time passes, and nothing ever moves it to \<open>failed\<close>, so it stays \<open>processing\<close> for good.
\<close>

theorem last_attempt_strands:
  assumes "queue_run q ec ops g = (handed, g')" and "row_of (pg_rows g) i = Some r"
    and "distinct (map qr_id (pg_rows g))" and "qr_attempts r \<ge> q_max_attempts q"
    and "\<forall>op \<in> set ops. op \<noteq> Op_Done i \<and> (\<forall>a err. op \<noteq> Op_Fail i a err)"
  shows "row_of (pg_rows g') i = Some r \<and> i \<notin> set handed"
proof -
  let ?P = "\<lambda>rows. distinct (map qr_id rows) \<and> row_of rows i = Some r"
  have keep: "?P rows' \<and> (\<forall>h \<in> set hs. h \<noteq> i)"
    if step: "table_step q op now rows hs rows'" and op: "op \<noteq> Op_Done i \<and> (\<forall>a err. op \<noteq> Op_Fail i a err)"
      and p: "?P rows" for op now rows hs rows'
    using step
  proof cases
    case (Claimed employee_id instance_id locked s)
    have "qr_id s \<noteq> i"
    proof
      assume "qr_id s = i"
      then have "s = r" using row_of_mem [of rows s] Claimed p by auto
      with Claimed assms(4) show False by (auto simp: claimable_def)
    qed
    with Claimed p show ?thesis by (auto simp: row_of_update)
  qed (use op p in \<open>auto simp: row_of_update row_of_snoc new_row_def\<close>)
  have "?P (pg_rows g') \<and> (\<forall>h \<in> set handed. h \<noteq> i)"
    by (intro queue_run_keeps [where P = ?P and T = "\<lambda>_. True" and H = "\<lambda>h. h \<noteq> i"
          and A = "\<lambda>op. op \<noteq> Op_Done i \<and> (\<forall>a err. op \<noteq> Op_Fail i a err)", OF assms(1)] keep)
       (use assms in simp_all)
  then show ?thesis by blast
qed

lemma claim_single:
  assumes "pg_rows g = [r]" and "claimable q employee_id (pg_clock g (pg_turn g)) r"
    and "pg_fault_at g (pg_turn g) = None" and "ec_from_json ec (qr_payload_json r) = Inr e"
  shows "queue_step q ec (Op_Claim employee_id w (\<lambda>_. False)) g =
    ([qr_id r], g\<lparr>pg_turn := Suc (pg_turn g), pg_rows := [claim_row w (pg_clock g (pg_turn g)) r]\<rparr>)"
  using assms by (simp add: claim_next_def pg_txn_def claim_txn_def update_id_def)

text \<open>
  A report of failure does not say whose attempt failed.  When a worker outlives its lease (the
  lease is never renewed) and a second one has handled the envelope and reported it done, the late
  failure of the first puts the finished row back, and the envelope is handled once more.
\<close>

theorem late_failure_redelivers:
  fixes n :: nat
  assumes "pg_rows g = [r]" and "qr_status r = ''pending''" and "qr_available_at r = None"
    and "qr_attempts r + 3 \<le> q_max_attempts q" and "ec_from_json ec (qr_payload_json r) = Inr e"
    and "\<forall>k. pg_fault_at g k = None" and "pg_turn g = n"
    and "pg_clock g (n + 1) > pg_clock g n + secs (q_lease_secs q)"
    and "pg_clock g (n + 4) \<ge> pg_clock g (n + 3) + secs (backoff_secs (qr_attempts r + 2))"
  shows "\<exists>g3 r3. queue_run q ec
             [Op_Claim (qr_employee_id r) w1 (\<lambda>_. False), Op_Claim (qr_employee_id r) w2 (\<lambda>_. False),
              Op_Done (qr_id r)] g = ([qr_id r, qr_id r], g3)
           \<and> row_of (pg_rows g3) (qr_id r) = Some r3 \<and> qr_status r3 = ''done''
           \<and> fst (queue_run q ec
               [Op_Fail (qr_id r) (qr_attempts r + 2) err, Op_Claim (qr_employee_id r) w1 (\<lambda>_. False)] g3)
             = [qr_id r]"
proof -
  let ?a = "claim_row w1 (pg_clock g n) r"
  let ?b = "claim_row w2 (pg_clock g (n + 1)) ?a"
  let ?c = "done_row (pg_clock g (n + 2)) ?b"
  let ?d = "failed_row q (qr_attempts r + 2) err (pg_clock g (n + 3)) ?c"
  let ?g = "\<lambda>k x. g\<lparr>pg_turn := k, pg_rows := [x]\<rparr>"
  note claim = claim_single [where ec = ec and e = e and q = q]
  have g: "g = ?g n r" using assms(1,7) by simp
  have 1: "queue_step q ec (Op_Claim (qr_employee_id r) w1 (\<lambda>_. False)) (?g n r) = ([qr_id r], ?g (n + 1) ?a)"
    using claim [of "?g n r" r "qr_employee_id r" w1] assms by (simp add: claimable_def)
  have 2: "queue_step q ec (Op_Claim (qr_employee_id r) w2 (\<lambda>_. False)) (?g (n + 1) ?a) = ([qr_id r], ?g (n + 2) ?b)"
    using claim [of "?g (n + 1) ?a" ?a "qr_employee_id r" w2] assms by (simp add: claimable_def claim_row_def)
  have 3: "queue_step q ec (Op_Done (qr_id r)) (?g (n + 2) ?b) = ([], ?g (n + 3) ?c)"
    using assms(6) by (simp add: mark_done_def pg_txn_def update_id_def)
  have 4: "queue_step q ec (Op_Fail (qr_id r) (qr_attempts r + 2) err) (?g (n + 3) ?c) = ([], ?g (n + 4) ?d)"
    using assms(6) by (simp add: store_failure_def pg_txn_def update_id_def)
  have 5: "fst (queue_step q ec (Op_Claim (qr_employee_id r) w1 (\<lambda>_. False)) (?g (n + 4) ?d)) = [qr_id r]"
    using claim [of "?g (n + 4) ?d" ?d "qr_employee_id r" w1] assms
    by (simp add: claimable_def failed_row_def done_row_def claim_row_def)
  show ?thesis
    using 1 2 3 4 5 g
    by (intro exI [of _ "?g (n + 3) ?c"] exI [of _ ?c]) (simp add: done_row_def case_prod_beta)
qed

lemma dedupe_key_stays:
  assumes "queue_run q ec ops g = (handed, g')" and "k \<in> qr_dedupe_key ` set (pg_rows g)"
  shows "k \<in> qr_dedupe_key ` set (pg_rows g')"
proof -
  let ?P = "\<lambda>rows. k \<in> set (map qr_dedupe_key rows)"
  have keep: "?P rows' \<and> (\<forall>h \<in> set hs. True)" if "table_step q op now rows hs rows'" "?P rows" for op now rows hs rows'
    using that(1) by cases (use that(2) in \<open>simp_all del: set_map\<close>)
  have "?P (pg_rows g') \<and> (\<forall>h \<in> set handed. True)"
    by (intro queue_run_keeps [where P = ?P and A = "\<lambda>_. True" and T = "\<lambda>_. True" and H = "\<lambda>_. True",
          OF assms(1)] keep) (use assms(2) in simp_all)
  then show ?thesis by simp
qed

text \<open>
  The gateway may send a message again as often as it likes: once an envelope has been
  accepted, or stored although the reply was lost, a later one with the same deduplication key
  is reported as a duplicate and changes nothing, even after the first has been handled.
\<close>

theorem accepted_once:
  assumes "enqueue ec e g = (r, g1)" and "r = Inr b \<or> pg_fault_at g (pg_turn g) = Some (Reply_Lost err)"
    and "ec_to_json ec e = Inr j" and "ie_envelope_id e \<notin> qr_id ` set (pg_rows g)"
    and "queue_run q ec ops g1 = (handed, g2)"
    and "ie_dedupe_key e' = ie_dedupe_key e" and "enqueue ec e' g2 = (Inr b', g3)"
  shows "\<not> b' \<and> pg_rows g3 = pg_rows g2"
proof -
  have "ie_dedupe_key e \<in> qr_dedupe_key ` set (pg_rows g1)"
    using assms(1-4)
    by (auto simp: enqueue_def pg_txn_def insert_row_def new_row_def Let_def
        split: option.splits pg_fault.splits if_splits)
  from dedupe_key_stays [OF assms(5) this] assms(6,7) show ?thesis
    by (auto simp: enqueue_def pg_txn_def insert_row_def Let_def
        split: option.splits pg_fault.splits if_splits sum.splits)
qed

subsection \<open>The name of the table\<close>

lemma set_split_char: "set s \<subseteq> insert c (\<Union> (set ` set (split_char c s)))"
proof (induction s)
  case (Cons a s)
  then show ?case by (cases "split_char c s") (auto simp: split_char_nonempty)
qed simp

text \<open>
  The table name is put into the text of every statement, and no name that gets there can leave
  its place: it consists of letters, digits and underscores with at most one dot between them.
\<close>

theorem table_name_safe:
  assumes "queue_from_env w = Inr q \<or> queue_new_from_url w url = Inr q \<or> queue_new w url table l m = Inr q"
  shows "(\<forall>c \<in> set (q_table q). is_ascii_alphanumeric c \<or> c = CHR ''_'' \<or> c = CHR ''.'')
    \<and> length (split_char (CHR ''.'') (q_table q)) \<le> 2 \<and> [] \<notin> set (split_char (CHR ''.'') (q_table q))"
proof -
  from assms obtain raw where "sanitize_table_name raw = Inr (q_table q)"
    by (auto simp: queue_from_env_def queue_new_from_url_def queue_new_def dest!: res_bind_eq_Inr [THEN iffD1])
  then have ok: "raw = q_table q" "length (split_char (CHR ''.'') raw) \<le> 2"
    "\<forall>part \<in> set (split_char (CHR ''.'') raw). part \<noteq> [] \<and> (\<forall>c \<in> set part. is_ascii_alphanumeric c \<or> c = CHR ''_'')"
    by (auto simp: sanitize_table_name_def Let_def list_ex_iff list_all_iff split: if_splits)
  then have "\<forall>c \<in> set (q_table q). is_ascii_alphanumeric c \<or> c = CHR ''_'' \<or> c = CHR ''.''"
    using set_split_char [of raw "CHR ''.''"] by fast
  with ok show ?thesis by auto
qed

subsection \<open>A small queue\<close>

definition demo_envelope :: "uuid \<Rightarrow> string \<Rightarrow> ingestion_envelope" where
  "demo_envelope i k =
     \<lparr>ie_envelope_id = i, ie_received_at = 0, ie_tenant_id = None, ie_employee_id = ''e'', ie_channel = Email,
      ie_external_message_id = None, ie_dedupe_key = k,
      ie_payload = \<lparr>ip_sender = ''s'', ip_sender_name = None, ip_recipient = ''r'', ip_subject = None,
        ip_text_body = None, ip_html_body = None, ip_thread_id = ''t'', ip_message_id = None,
        ip_attachments = [], ip_reply_to = [], ip_metadata = channel_metadata_default\<rparr>,
      ie_raw_payload_ref = None, ie_account_id = None\<rparr>"

text \<open>A codec that keeps the identifier, and a table of one worker's employee; a clock of minutes.\<close>

definition demo_codec :: envelope_codec where
  "demo_codec = \<lparr>ec_to_json = (\<lambda>e. Inr (ie_envelope_id e)), ec_from_json = (\<lambda>j. Inr (demo_envelope j j))\<rparr>"

definition demo_config :: queue_config where
  "demo_config = \<lparr>q_table = ''ingestion_queue'', q_lease_secs = 60, q_max_attempts = 5, q_use_typed_queries = False\<rparr>"

definition demo_pg :: "queue_row list \<Rightarrow> pg" where
  "demo_pg rows =
     \<lparr>pg_rows = rows, pg_clock = (\<lambda>n. secs (100 * int n)), pg_fault_at = (\<lambda>_. None), pg_turn = 0\<rparr>"

definition demo_row :: "int \<Rightarrow> queue_row" where
  "demo_row attempts = (new_row (demo_envelope ''a'' ''k'') ''a'' 0)\<lparr>qr_attempts := attempts\<rparr>"

abbreviation demo_claim :: queue_op where "demo_claim \<equiv> Op_Claim ''e'' ''w1'' (\<lambda>_. False)"

lemma pair_of_fst: "fst r = x \<Longrightarrow> r = (x, snd r)"
  by (cases r) simp

theorem queue_well_formed_witness:
  "\<exists>g'. queue_run demo_config demo_codec
          [Op_Enqueue (demo_envelope ''a'' ''k''), demo_claim, Op_Fail ''a'' 1 ''x'', demo_claim, Op_Done ''a''] (demo_pg [])
        = ([''a'', ''a''], g') \<and> queue_ok demo_config (pg_rows g')"
proof -
  have 1: "fst (queue_run demo_config demo_codec
      [Op_Enqueue (demo_envelope ''a'' ''k''), demo_claim, Op_Fail ''a'' 1 ''x'', demo_claim, Op_Done ''a''] (demo_pg []))
        = [''a'', ''a'']" by code_simp
  from queue_well_formed [OF pair_of_fst [OF 1]] pair_of_fst [OF 1] show ?thesis
    by (auto simp: demo_pg_def demo_config_def queue_ok_def)
qed

theorem deliveries_bounded_witness:
  "\<exists>g'. queue_run demo_config demo_codec (replicate 9 demo_claim) (demo_pg [demo_row 0])
        = ([''a'', ''a'', ''a'', ''a'', ''a''], g') \<and> count_list [''a'', ''a'', ''a'', ''a'', ''a''] ''a'' \<le> (5 :: nat)"
proof -
  have 1: "fst (queue_run demo_config demo_codec (replicate 9 demo_claim) (demo_pg [demo_row 0]))
      = [''a'', ''a'', ''a'', ''a'', ''a'']" by code_simp
  have ok: "queue_ok demo_config (pg_rows (demo_pg [demo_row 0]))"
    by (simp add: queue_ok_def row_ok_def demo_pg_def demo_row_def new_row_def demo_config_def)
  have a: "attempts_of (pg_rows (demo_pg [demo_row 0])) ''a'' = 0" by code_simp
  from deliveries_bounded [OF pair_of_fst [OF 1] ok, of "''a''"] pair_of_fst [OF 1] show ?thesis
    unfolding a by (auto simp: demo_config_def)
qed

theorem lease_exclusive_witness:
  "\<exists>item g1 g2 g3 g4. claim_next (demo_config\<lparr>q_lease_secs := 900\<rparr>) demo_codec ''e'' ''w1'' (\<lambda>_. False) (demo_pg [demo_row 0])
        = (Inr (Some item), g1)
     \<and> queue_run (demo_config\<lparr>q_lease_secs := 900\<rparr>) demo_codec [demo_claim, demo_claim] g1 = ([], g2)
     \<and> qe_id item \<notin> set [] \<and> mark_done (qe_id item) g2 = (Inr (), g3)
     \<and> queue_run (demo_config\<lparr>q_lease_secs := 900\<rparr>) demo_codec [demo_claim, demo_claim] g3 = ([], g4)
     \<and> qe_id item \<notin> set []"
proof -
  let ?q = "demo_config\<lparr>q_lease_secs := 900\<rparr>" and ?g = "demo_pg [demo_row 0]"
  let ?ops = "[demo_claim, demo_claim]"
  let ?item = "\<lparr>qe_id = ''a'', qe_envelope = demo_envelope ''a'' ''a''\<rparr>"
  have 1: "fst (claim_next ?q demo_codec ''e'' ''w1'' (\<lambda>_. False) ?g) = Inr (Some ?item)" by code_simp
  let ?g1 = "snd (claim_next ?q demo_codec ''e'' ''w1'' (\<lambda>_. False) ?g)"
  have 2: "fst (queue_run ?q demo_codec ?ops ?g1) = []" by code_simp
  let ?g2 = "snd (queue_run ?q demo_codec ?ops ?g1)"
  have 3: "fst (mark_done (qe_id ?item) ?g2) = Inr ()" by code_simp
  let ?g3 = "snd (mark_done (qe_id ?item) ?g2)"
  have 4: "fst (queue_run ?q demo_codec ?ops ?g3) = []" by code_simp
  have ok: "queue_ok ?q (pg_rows ?g)"
    by (simp add: queue_ok_def row_ok_def demo_pg_def demo_row_def new_row_def demo_config_def)
  have t: "pg_turn ?g2 = 3" by code_simp
  have c: "\<forall>k. pg_turn ?g < k \<longrightarrow> k < pg_turn ?g2 \<longrightarrow>
      pg_clock ?g k \<le> pg_clock ?g (pg_turn ?g) + secs (q_lease_secs ?q)"
    unfolding t by (auto simp: demo_pg_def demo_config_def time_simps)
  have f: "\<forall>op \<in> set ?ops. \<forall>a err. op \<noteq> Op_Fail (qe_id ?item) a err" by simp
  from lease_exclusive [OF pair_of_fst [OF 1] pair_of_fst [OF 2] ok f] c f pair_of_fst [OF 3] pair_of_fst [OF 4]
  have "qe_id ?item \<notin> set [] \<and> qe_id ?item \<notin> set []" by blast
  with pair_of_fst [OF 1] pair_of_fst [OF 2] pair_of_fst [OF 3] pair_of_fst [OF 4] show ?thesis by blast
qed

theorem last_attempt_strands_witness:
  "\<exists>g'. queue_run demo_config demo_codec [demo_claim, demo_claim, Op_Enqueue (demo_envelope ''b'' ''l''), demo_claim]
          (demo_pg [claim_row ''w1'' 0 (demo_row 4)]) = ([''b''], g')
     \<and> row_of (pg_rows g') ''a'' = Some (claim_row ''w1'' 0 (demo_row 4))"
proof -
  let ?ops = "[demo_claim, demo_claim, Op_Enqueue (demo_envelope ''b'' ''l''), demo_claim]"
  let ?g = "demo_pg [claim_row ''w1'' 0 (demo_row 4)]"
  have 1: "fst (queue_run demo_config demo_codec ?ops ?g) = [''b'']" by code_simp
  have r: "row_of (pg_rows ?g) ''a'' = Some (claim_row ''w1'' 0 (demo_row 4))" by code_simp
  from last_attempt_strands [OF pair_of_fst [OF 1] r] pair_of_fst [OF 1] show ?thesis
    by (auto simp: demo_pg_def demo_row_def new_row_def claim_row_def demo_config_def)
qed

theorem late_failure_redelivers_witness:
  "\<exists>g3. queue_run demo_config demo_codec [demo_claim, Op_Claim ''e'' ''w2'' (\<lambda>_. False), Op_Done ''a''] (demo_pg [demo_row 0])
          = ([''a'', ''a''], g3)
     \<and> fst (queue_run demo_config demo_codec [Op_Fail ''a'' 2 ''late'', demo_claim] g3) = [''a'']"
proof -
  have r: "qr_status (demo_row 0) = ''pending''" "qr_available_at (demo_row 0) = None" "qr_id (demo_row 0) = ''a''"
    "qr_employee_id (demo_row 0) = ''e''" "qr_attempts (demo_row 0) = 0" "qr_payload_json (demo_row 0) = ''a''"
    by code_simp+
  have "ec_from_json demo_codec (qr_payload_json (demo_row 0)) = Inr (demo_envelope ''a'' ''a'')"
    by (simp add: demo_codec_def r)
  have "\<exists>g3 r3. queue_run demo_config demo_codec
      [Op_Claim (qr_employee_id (demo_row 0)) ''w1'' (\<lambda>_. False), Op_Claim (qr_employee_id (demo_row 0)) ''w2'' (\<lambda>_. False),
       Op_Done (qr_id (demo_row 0))] (demo_pg [demo_row 0]) = ([qr_id (demo_row 0), qr_id (demo_row 0)], g3)
    \<and> row_of (pg_rows g3) (qr_id (demo_row 0)) = Some r3 \<and> qr_status r3 = ''done''
    \<and> fst (queue_run demo_config demo_codec
        [Op_Fail (qr_id (demo_row 0)) (qr_attempts (demo_row 0) + 2) ''late'',
         Op_Claim (qr_employee_id (demo_row 0)) ''w1'' (\<lambda>_. False)] g3) = [qr_id (demo_row 0)]"
    by (rule late_failure_redelivers [where n = 0, OF _ r(1,2) _ \<open>ec_from_json _ _ = _\<close>])
       (simp_all add: demo_pg_def demo_config_def r time_simps backoff_secs_def sat_i64_def i64_max_def i64_min_def)
  then show ?thesis unfolding r by auto
qed

theorem accepted_once_witness:
  "\<exists>g1 g2 g3. enqueue demo_codec (demo_envelope ''a'' ''k'') (demo_pg []) = (Inr True, g1)
     \<and> queue_run demo_config demo_codec [demo_claim, Op_Done ''a''] g1 = ([''a''], g2)
     \<and> enqueue demo_codec (demo_envelope ''b'' ''k'') g2 = (Inr False, g3) \<and> pg_rows g3 = pg_rows g2"
proof -
  have 1: "fst (enqueue demo_codec (demo_envelope ''a'' ''k'') (demo_pg [])) = Inr True" by code_simp
  let ?g1 = "snd (enqueue demo_codec (demo_envelope ''a'' ''k'') (demo_pg []))"
  have 2: "fst (queue_run demo_config demo_codec [demo_claim, Op_Done ''a''] ?g1) = [''a'']" by code_simp
  let ?g2 = "snd (queue_run demo_config demo_codec [demo_claim, Op_Done ''a''] ?g1)"
  have 3: "fst (enqueue demo_codec (demo_envelope ''b'' ''k'') ?g2) = Inr False" by code_simp
  have j: "ec_to_json demo_codec (demo_envelope ''a'' ''k'') = Inr ''a''" by code_simp
  have k: "ie_dedupe_key (demo_envelope ''b'' ''k'') = ie_dedupe_key (demo_envelope ''a'' ''k'')" by code_simp
  have "ie_envelope_id (demo_envelope ''a'' ''k'') \<notin> qr_id ` set (pg_rows (demo_pg []))" by code_simp
  from accepted_once [OF pair_of_fst [OF 1] _ j this pair_of_fst [OF 2] k pair_of_fst [OF 3]]
    pair_of_fst [OF 1] pair_of_fst [OF 2] pair_of_fst [OF 3] show ?thesis by blast
qed

end
