(* ===== verification/Ingestion_Consumer.thy ===== *)
theory Ingestion_Consumer
  imports Ingestion_Properties "HOL-Library.Multiset"
begin

text \<open>
  The worker's side of the queue: the loop of \<open>spawn_ingestion_consumer\<close> of
  \<open>service/ingestion.rs\<close>, which claims an envelope, handles it and reports the outcome.  The loop
  sees the queue only through the trait \<open>IngestionQueue\<close>; what it relies on is the locale
  \<open>message_queue\<close>, and the table of \<open>Ingestion_Queue\<close> provides it.
\<close>

subsection \<open>The loop\<close>

text \<open>The trait object, with the name of the worker's employee already given to \<open>claim_next\<close>.\<close>

record 'q queue_object =
  qo_claim_next :: "'q \<Rightarrow> (queue_error + queued_envelope option) \<times> 'q"
  qo_mark_done :: "uuid \<Rightarrow> 'q \<Rightarrow> (queue_error + unit) \<times> 'q"
  qo_mark_failed :: "uuid \<Rightarrow> string \<Rightarrow> 'q \<Rightarrow> (queue_error + unit) \<times> 'q"

text \<open>
  One turn of the loop: nothing when the queue is empty or fails, else the identifier of the
  envelope and whether it was handled and the queue confirmed that it is done.
\<close>

definition consumer_round ::
    "'q queue_object \<Rightarrow> (ingestion_envelope \<Rightarrow> 'w \<Rightarrow> (string + unit) \<times> 'w) \<Rightarrow> 'q \<Rightarrow> 'w
     \<Rightarrow> (uuid \<times> bool) list \<times> 'q \<times> 'w" where
  "consumer_round qo process s w =
     (case qo_claim_next qo s of
        (Inr (Some item), s) \<Rightarrow>
          (case process (qe_envelope item) w of
             (Inr _, w) \<Rightarrow>
               (case qo_mark_done qo (qe_id item) s of (r, s) \<Rightarrow> ([(qe_id item, is_ok r)], s, w))
           | (Inl err, w) \<Rightarrow>
               (case qo_mark_failed qo (qe_id item) err s of (_, s) \<Rightarrow> ([(qe_id item, False)], s, w)))
      | (_, s) \<Rightarrow> ([], s, w))"

text \<open>
  The turns up to the stop signal.  Before each of them others have used the queue, in the way
  the function of that turn says.
\<close>

fun consumer_run ::
    "'q queue_object \<Rightarrow> (ingestion_envelope \<Rightarrow> 'w \<Rightarrow> (string + unit) \<times> 'w) \<Rightarrow> ('q \<Rightarrow> 'q) list \<Rightarrow> 'q \<Rightarrow> 'w
     \<Rightarrow> (uuid \<times> bool) list \<times> 'q \<times> 'w" where
  "consumer_run qo process [] s w = ([], s, w)"
| "consumer_run qo process (others # rest) s w =
     (case consumer_round qo process (others s) w of (l, s, w) \<Rightarrow>
      case consumer_run qo process rest s w of (l', s, w) \<Rightarrow> (l @ l', s, w))"

subsection \<open>What the loop relies on\<close>

locale message_queue =
  fixes qo :: "'q queue_object"
    and closed :: "'q \<Rightarrow> uuid set"
  assumes claimed_not_closed: "qo_claim_next qo s = (Inr (Some item), s') \<Longrightarrow> qe_id item \<notin> closed s'"
    and claim_keeps: "qo_claim_next qo s = (r, s') \<Longrightarrow> closed s \<subseteq> closed s'"
    and done_keeps: "qo_mark_done qo i s = (r', s') \<Longrightarrow> closed s \<subseteq> closed s'"
    and done_closes: "qo_claim_next qo s0 = (Inr (Some item), s) \<Longrightarrow>
           qo_mark_done qo (qe_id item) s = (Inr u, s') \<Longrightarrow> qe_id item \<in> closed s'"
    and failed_keeps: "qo_mark_failed qo i err s = (r', s') \<Longrightarrow> i \<notin> closed s \<Longrightarrow> closed s \<subseteq> closed s'"
begin

lemma round_keeps:
  assumes "consumer_round qo process s w = (l, s', w')"
  shows "closed s \<subseteq> closed s' \<and> (\<forall>(i, b) \<in> set l. i \<notin> closed s \<and> (b \<longrightarrow> i \<in> closed s'))"
proof -
  obtain r s1 where c: "qo_claim_next qo s = (r, s1)" by force
  note k = claim_keeps [OF c]
  show ?thesis
  proof (cases "\<exists>item. r = Inr (Some item)")
    case False
    with assms c k show ?thesis
      by (auto simp: consumer_round_def split: sum.splits option.splits)
  next
    case True
    then obtain item where r: "r = Inr (Some item)" by blast
    note n = claimed_not_closed [OF c [unfolded r]]
    obtain x w1 where p: "process (qe_envelope item) w = (x, w1)" by force
    show ?thesis
    proof (cases x)
      case (Inl err)
      obtain y s2 where f: "qo_mark_failed qo (qe_id item) err s1 = (y, s2)" by force
      with assms c r p Inl have "l = [(qe_id item, False)]" "s' = s2" by (auto simp: consumer_round_def)
      with failed_keeps [OF f n] k n show ?thesis by auto
    next
      case (Inr u)
      obtain y s2 where d: "qo_mark_done qo (qe_id item) s1 = (y, s2)" by force
      with assms c r p Inr have l: "l = [(qe_id item, is_ok y)]" "s' = s2" by (auto simp: consumer_round_def)
      have "is_ok y \<Longrightarrow> qe_id item \<in> closed s2"
        using done_closes [OF c [unfolded r]] d by (cases y) auto
      with done_keeps [OF d] k n l show ?thesis by auto
    qed
  qed
qed

lemma run_keeps:
  "consumer_run qo process os s w = (l, s', w') \<Longrightarrow> \<forall>f \<in> set os. \<forall>s. closed s \<subseteq> closed (f s) \<Longrightarrow>
   closed s \<subseteq> closed s' \<and> (\<forall>(i, b) \<in> set l. i \<notin> closed s)"
proof (induction os arbitrary: s w l)
  case (Cons f os)
  obtain l1 s1 w1 where 1: "consumer_round qo process (f s) w = (l1, s1, w1)" by (metis prod_cases3)
  obtain l2 s2 w2 where 2: "consumer_run qo process os s1 w1 = (l2, s2, w2)" by (metis prod_cases3)
  have "closed s \<subseteq> closed (f s)" using Cons.prems(2) by simp
  with round_keeps [OF 1] Cons.IH [of s1 w1 l2] Cons.prems 1 2 show ?case by fastforce
qed simp

lemma settled_once:
  "consumer_run qo process os s w = (l, s', w') \<Longrightarrow> \<forall>f \<in> set os. \<forall>s. closed s \<subseteq> closed (f s) \<Longrightarrow>
   l = l1 @ (i, True) # l2 \<Longrightarrow> i \<notin> fst ` set l2"
proof (induction os arbitrary: s w l l1)
  case (Cons f os)
  obtain la s1 w1 where 1: "consumer_round qo process (f s) w = (la, s1, w1)" by (metis prod_cases3)
  obtain lb s2 w2 where 2: "consumer_run qo process os s1 w1 = (lb, s2, w2)" by (metis prod_cases3)
  with Cons.prems 1 have l: "la @ lb = l1 @ (i, True) # l2" and e: "s2 = s'" "w2 = w'" by auto
  note IH = Cons.IH [OF 2 [unfolded e]] and keep = Cons.prems(2)
  have len: "length la \<le> 1"
    using 1 by (auto simp: consumer_round_def split: sum.splits option.splits prod.splits)
  show ?case
  proof (cases la)
    case Nil
    with l IH keep show ?thesis by simp
  next
    case (Cons x xs)
    with len have la: "la = [x]" by simp
    show ?thesis
    proof (cases l1)
      case Nil
      with l la have "x = (i, True)" "l2 = lb" by auto
      with round_keeps [OF 1] la have "i \<in> closed s1" by auto
      with run_keeps [OF 2] keep \<open>l2 = lb\<close> show ?thesis by fastforce
    next
      case (Cons y ys)
      with l la have "lb = ys @ (i, True) # l2" by simp
      with IH keep show ?thesis by simp
    qed
  qed
qed simp

end

subsection \<open>The table provides it\<close>

text \<open>\<open>locked\<close> tells for each transaction which rows others hold in it.\<close>

definition postgres_object ::
    "queue_config \<Rightarrow> envelope_codec \<Rightarrow> string \<Rightarrow> string \<Rightarrow> (nat \<Rightarrow> uuid \<Rightarrow> bool) \<Rightarrow> pg queue_object" where
  "postgres_object q ec employee_id instance_id locked =
     \<lparr>qo_claim_next = (\<lambda>g. claim_next q ec employee_id instance_id (locked (pg_turn g)) g),
      qo_mark_done = mark_done, qo_mark_failed = mark_failed q\<rparr>"

text \<open>The envelopes that are done.\<close>

definition done_ids :: "pg \<Rightarrow> uuid set" where
  "done_ids g =
     {i \<in> qr_id ` set (pg_rows g). \<forall>r \<in> set (pg_rows g). qr_id r = i \<longrightarrow> qr_status r = ''done''}"

lemma ids_update: "(\<And>r. qr_id (f r) = qr_id r) \<Longrightarrow> qr_id ` set (update_id j f rows) = qr_id ` set rows"
  by (metis map_update_id(1) set_map)

lemma ball_update:
  "(\<And>r. qr_id (f r) = qr_id r) \<Longrightarrow>
   (\<forall>r \<in> set (update_id j f rows). qr_id r = i \<longrightarrow> P r) \<longleftrightarrow>
   (\<forall>r \<in> set rows. qr_id r = i \<longrightarrow> P (if i = j then f r else r))"
  by (auto simp: update_id_def)

lemma done_ids_step:
  assumes "table_step q op now rows hs rows'" and "rows = pg_rows g" and "rows' = pg_rows g'"
    and "\<forall>i a err. op = Op_Fail i a err \<longrightarrow> i \<notin> done_ids g"
  shows "done_ids g \<subseteq> done_ids g' \<and> (\<forall>h \<in> set hs. h \<in> qr_id ` set rows' \<and> h \<notin> done_ids g')"
  using assms(1)
proof cases
  case (Claimed employee_id instance_id locked r)
  then show ?thesis using assms(2,3) [symmetric]
    by (auto simp: done_ids_def ids_update ball_update claimable_def claim_row_def)
next
  case (Failed i a err)
  then show ?thesis using assms(2,3) [symmetric] assms(4) by (auto simp: done_ids_def ids_update ball_update)
qed (use assms(2,3) [symmetric] in \<open>auto simp: done_ids_def ids_update ball_update new_row_def done_row_def\<close>)

lemma done_ids_op:
  assumes "queue_step q ec op g = (hs, g')" and "\<forall>i a err. op = Op_Fail i a err \<longrightarrow> i \<notin> done_ids g"
  shows "done_ids g \<subseteq> done_ids g' \<and> (\<forall>h \<in> set hs. h \<in> qr_id ` set (pg_rows g') \<and> h \<notin> done_ids g')"
  using done_ids_step queue_step_table [OF assms(1)] assms(2) by blast

lemma enqueue_keeps_done: "done_ids g \<subseteq> done_ids (snd (enqueue ec e g))"
  using done_ids_op [where op = "Op_Enqueue e" and hs = "[]" and ec = ec] by force

lemma claim_as_step:
  "claim_next q ec employee_id instance_id locked g = (r, g') \<Longrightarrow>
   queue_step q ec (Op_Claim employee_id instance_id locked) g =
     (case r of Inr (Some item) \<Rightarrow> [qe_id item] | _ \<Rightarrow> [], g')"
  by (auto split: sum.splits option.splits)

lemma read_attempts_rows: "read_attempts q i g = (r, g') \<Longrightarrow> pg_rows g' = pg_rows g"
  unfolding read_attempts_def by (auto dest!: pg_txn_cases)

interpretation pq: message_queue "postgres_object q ec employee_id instance_id locked" done_ids
proof (unfold_locales, goal_cases)
  case (1 s item s')
  then have "claim_next q ec employee_id instance_id (locked (pg_turn s)) s = (Inr (Some item), s')"
    by (simp add: postgres_object_def)
  from done_ids_op [OF claim_as_step [OF this]] show ?case by simp
next
  case (2 s r s')
  then have "claim_next q ec employee_id instance_id (locked (pg_turn s)) s = (r, s')"
    by (simp add: postgres_object_def)
  from done_ids_op [OF claim_as_step [OF this]] show ?case by simp
next
  case (3 i s r' s')
  then show ?case
    using done_ids_op [where op = "Op_Done i" and hs = "[]" and g = s and g' = s']
    by (force simp: postgres_object_def)
next
  case (4 s0 item s u s')
  then have "claim_next q ec employee_id instance_id (locked (pg_turn s0)) s0 = (Inr (Some item), s)"
    by (simp add: postgres_object_def)
  from done_ids_op [OF claim_as_step [OF this]] have "qe_id item \<in> qr_id ` set (pg_rows s)" by simp
  moreover from 4 have "pg_rows s' = update_id (qe_id item) (done_row (pg_clock s (pg_turn s))) (pg_rows s)"
    by (auto simp: postgres_object_def mark_done_def dest!: pg_txn_cases)
  ultimately show ?case by (simp add: done_ids_def ids_update ball_update) (simp add: done_row_def)
next
  case (5 i err s r' s')
  obtain x s1 where 1: "read_attempts q i s = (x, s1)" by force
  then have d: "done_ids s1 = done_ids s" by (simp add: done_ids_def read_attempts_rows)
  show ?case
  proof (cases x)
    case (Inl e)
    with 1 5 d show ?thesis by (simp add: postgres_object_def mark_failed_def)
  next
    case (Inr a)
    with 1 5 have "store_failure q i a err s1 = (r', s')" by (simp add: postgres_object_def mark_failed_def)
    with done_ids_op [where q = q and op = "Op_Fail i a err" and hs = "[]" and g = s1 and g' = s'] 5 d
    show ?thesis by simp
  qed
qed

text \<open>
  A worker that is the only one on its queue never handles an envelope again once the queue has
  confirmed that it is done, whatever fails in between and whatever the gateway adds meanwhile.
\<close>

theorem handled_once:
  assumes "consumer_run (postgres_object q ec employee_id instance_id locked) process
             (map (\<lambda>es g. foldl (\<lambda>g e. snd (enqueue ec e g)) g es) arrivals) g w = (l1 @ (i, True) # l2, g', w')"
  shows "i \<notin> fst ` set l2"
proof (rule pq.settled_once [OF assms _ refl])
  have "done_ids s \<subseteq> done_ids (foldl (\<lambda>g e. snd (enqueue ec e g)) s es)" for s es
    by (induction es arbitrary: s) (use enqueue_keeps_done in fastforce)+
  then show "\<forall>f \<in> set (map (\<lambda>es g. foldl (\<lambda>g e. snd (enqueue ec e g)) g es) arrivals).
      \<forall>s. done_ids s \<subseteq> done_ids (f s)"
    by auto
qed

subsection \<open>The loop empties the queue\<close>

text \<open>The envelopes of an employee that wait for a worker.\<close>

definition waiting :: "string \<Rightarrow> queue_row list \<Rightarrow> queue_row list" where
  "waiting employee_id rows = filter (\<lambda>r. qr_employee_id r = employee_id \<and> qr_status r = ''pending'') rows"

text \<open>A table in which they can all be taken at any time from now on.\<close>

definition ready :: "queue_config \<Rightarrow> envelope_codec \<Rightarrow> string \<Rightarrow> pg \<Rightarrow> bool" where
  "ready q ec employee_id g =
     (distinct (map qr_id (pg_rows g)) \<and> (\<forall>k. pg_fault_at g k = None)
      \<and> (\<forall>r \<in> set (pg_rows g). qr_employee_id r = employee_id \<longrightarrow> qr_status r \<noteq> ''processing'')
      \<and> (\<forall>r \<in> set (waiting employee_id (pg_rows g)).
           qr_attempts r < q_max_attempts q \<and> (\<exists>e. ec_from_json ec (qr_payload_json r) = Inr e)
           \<and> (\<forall>t k. qr_available_at r = Some t \<longrightarrow> pg_turn g \<le> k \<longrightarrow> t \<le> pg_clock g k)))"

lemma waiting_done:
  assumes "distinct (map qr_id rows)" and "r \<in> set (waiting employee_id rows)"
  shows "mset (waiting employee_id (update_id (qr_id r) (done_row now) (update_id (qr_id r) (claim_row b t) rows)))
         = mset (waiting employee_id rows) - {#r#}"
  using assms
proof (induction rows)
  case (Cons s rows)
  have "update_id i f rows = rows" if "i \<notin> qr_id ` set rows" for i f
    using that by (auto simp: update_id_def intro!: map_idI)
  with Cons show ?case
    by (cases "s = r") (auto simp: waiting_def update_id_def claim_row_def done_row_def image_iff)
qed (simp add: waiting_def)

lemma ready_claimable:
  assumes "ready q ec employee_id g"
  shows "filter (claimable q employee_id (pg_clock g (pg_turn g))) (pg_rows g) = waiting employee_id (pg_rows g)"
  using assms
  by (auto simp: ready_def waiting_def claimable_def split: option.splits intro!: filter_cong)

lemma round_handles_oldest:
  assumes "ready q ec employee_id g" and "waiting employee_id (pg_rows g) \<noteq> []"
    and "\<forall>e w. \<exists>w'. process e w = (Inr (), w')"
  obtains r g' w' where "consumer_round (postgres_object q ec employee_id instance_id (\<lambda>_ _. False)) process g w
      = ([(qr_id r, True)], g', w')"
    and "r \<in> set (waiting employee_id (pg_rows g))" and "ready q ec employee_id g'"
    and "mset (waiting employee_id (pg_rows g')) = mset (waiting employee_id (pg_rows g)) - {#r#}"
    and "\<forall>s \<in> set (waiting employee_id (pg_rows g)). qr_created_at r \<le> qr_created_at s"
proof -
  let ?n = "pg_turn g"
  from assms(2) obtain r where o: "oldest (waiting employee_id (pg_rows g)) = Some r"
    by (cases "oldest (waiting employee_id (pg_rows g))") auto
  from oldest_in [OF o] have r: "r \<in> set (waiting employee_id (pg_rows g))" .
  with assms(1) obtain e where e: "ec_from_json ec (qr_payload_json r) = Inr e" by (auto simp: ready_def)
  from assms(3) obtain w' where p: "process e w = (Inr (), w')" by blast
  have nf: "pg_fault_at g k = None" for k using assms(1) by (simp add: ready_def)
  define rows where "rows = update_id (qr_id r) (done_row (pg_clock g (Suc ?n)))
      (update_id (qr_id r) (claim_row instance_id (pg_clock g ?n)) (pg_rows g))"
  define g' where "g' = g\<lparr>pg_turn := Suc (Suc ?n), pg_rows := rows\<rparr>"
  have m: "mset (waiting employee_id rows) = mset (waiting employee_id (pg_rows g)) - {#r#}"
    using waiting_done r assms(1) by (simp add: rows_def ready_def)
  have "consumer_round (postgres_object q ec employee_id instance_id (\<lambda>_ _. False)) process g w
      = ([(qr_id r, True)], g', w')"
    using o e p nf ready_claimable [OF assms(1)]
    by (simp add: consumer_round_def postgres_object_def claim_next_def pg_txn_def claim_txn_def mark_done_def
        g'_def rows_def)
  moreover have "ready q ec employee_id g'"
  proof -
    have "set (waiting employee_id rows) \<subseteq> set (waiting employee_id (pg_rows g))"
      using m by (metis set_mset_mset set_mset_mono diff_subset_eq_self)
    moreover have "\<forall>s \<in> set rows. qr_employee_id s = employee_id \<longrightarrow> qr_status s \<noteq> ''processing''"
      using assms(1) by (auto simp: rows_def update_id_def done_row_def claim_row_def ready_def)
    ultimately show ?thesis
      using assms(1) by (auto simp: ready_def g'_def rows_def)
  qed
  ultimately show ?thesis using that r m oldest_least [OF o] by (simp add: g'_def)
qed



end
