(* ===== verification/Inbound_Properties.thy ===== *)
theory Inbound_Properties
  imports Inbound_Email Ingestion_Consumer User_Properties
begin

text \<open>
  What holds of the handling of e-mail: attachments stay in their directory, a newer message
  replaces what waits for older ones, replies find their conversation, and where mail gets lost.
\<close>

subsection \<open>Names of attachments\<close>

definition token_char :: "char \<Rightarrow> bool" where
  "token_char c = (is_ascii_alphanumeric c \<or> c \<in> set ''._-'')"

lemma trim_matches_set: "set (User_Store.trim_matches cs s) \<subseteq> set s"
proof
  fix x assume "x \<in> set (User_Store.trim_matches cs s)"
  then have "x \<in> set (dropWhile (\<lambda>c. c \<in> set cs) (rev (dropWhile (\<lambda>c. c \<in> set cs) s)))"
    unfolding User_Store.trim_matches_def set_rev .
  from set_dropWhileD [OF this] have "x \<in> set (dropWhile (\<lambda>c. c \<in> set cs) s)" unfolding set_rev .
  then show "x \<in> set s" by (rule set_dropWhileD)
qed

lemma trim_matches_ends:
  "User_Store.trim_matches cs s \<noteq> [] \<Longrightarrow>
   hd (User_Store.trim_matches cs s) \<notin> set cs \<and> last (User_Store.trim_matches cs s) \<notin> set cs"
proof -
  let ?d = "dropWhile (\<lambda>c. c \<in> set cs)"
  assume "User_Store.trim_matches cs s \<noteq> []"
  then have ne: "?d (rev (?d s)) \<noteq> []" by (simp add: User_Store.trim_matches_def)
  then have "hd (?d (rev (?d s))) \<notin> set cs" by (rule hd_dropWhile)
  moreover have "last (?d (rev (?d s))) \<notin> set cs"
  proof -
    have "?d s \<noteq> []" using ne by (metis dropWhile.simps(1) rev.simps(1))
    moreover have "last (?d (rev (?d s))) = last (rev (?d s))"
      using ne by (metis dropWhile_append3 last_appendR takeWhile_dropWhile_id)
    ultimately show ?thesis by (metis hd_dropWhile last_rev)
  qed
  ultimately show ?thesis using ne by (simp add: User_Store.trim_matches_def hd_rev last_rev)
qed

lemma sanitize_token_chars:
  assumes "fallback \<noteq> []" and "\<forall>c \<in> set fallback. token_char c" and "hd fallback \<notin> set ''._-''"
  shows "sanitize_token v fallback \<noteq> [] \<and> (\<forall>c \<in> set (sanitize_token v fallback). token_char c)
    \<and> hd (sanitize_token v fallback) \<notin> set ''._-''"
proof -
  let ?t = "rev (dropWhile (\<lambda>c. c = CHR ''>'') (rev (dropWhile (\<lambda>c. c = CHR ''<'') (trim v))))"
  let ?out = "concat (map (\<lambda>c. if is_continuation c then []
      else if is_ascii_alphanumeric c \<or> c \<in> set ''._-'' then [c] else ''_'') ?t)"
  have "\<forall>c \<in> set ?out. token_char c" by (auto simp: token_char_def split: if_splits)
  then have "\<forall>c \<in> set (User_Store.trim_matches ''._-'' ?out). token_char c" using trim_matches_set by blast
  with trim_matches_ends [of "''._-''" ?out] assms show ?thesis
    unfolding sanitize_token_def Let_def by (cases "User_Store.trim_matches ''._-'' ?out = []") auto
qed

text \<open>A name of token characters that does not begin with a dot is a plain file name.\<close>

lemma token_no_slash: "\<forall>c \<in> set s. token_char c \<Longrightarrow> CHR ''/'' \<notin> set s"
  by (auto simp: token_char_def is_ascii_alphanumeric_def)

lemma path_parent_join:
  assumes "CHR ''/'' \<notin> set name" and "name \<noteq> []" and "dir \<noteq> []" and "last dir \<noteq> CHR ''/''"
  shows "path_parent (path_join dir name) = Some dir"
proof -
  have "\<not> ends_with dir ''/''"
    using assms(3,4) by (cases dir rule: rev_cases) (auto simp: ends_with_def starts_with_def)
  then have j: "path_join dir name = dir @ ''/'' @ name"
    using assms by (cases name) (auto simp: path_join_def path_is_absolute_def starts_with_def)
  have "dropWhile (\<lambda>c. c \<noteq> CHR ''/'') (rev name @ CHR ''/'' # rev dir) = CHR ''/'' # rev dir"
    using assms(1) by (subst dropWhile_append2) auto
  moreover have "path_join dir name \<noteq> ''/'' \<and> path_join dir name \<noteq> []" using j assms(3) by (cases dir) auto
  ultimately show ?thesis using assms j by (auto simp: path_parent_def Let_def)
qed

text \<open>
  C15.  Whatever name the sender gives an attachment (\<open>../../x\<close>, an absolute path, nothing), it is
  written as a file directly inside the directory of attachments: all other files and every
  directory stay as they were.
\<close>

theorem attachments_confined:
  assumes "write_attachments nb dir as w = (r, w')" and "dir \<noteq> []" and "last dir \<noteq> CHR ''/''"
    and "path_parent p \<noteq> Some dir"
  shows "map_of (w_files w') p = map_of (w_files w) p \<and> w_dirs w' = w_dirs w"
  using assms(1)
proof (induction as arbitrary: w)
  case (Cons a as)
  let ?name = "sanitize_token (pa_name a) ''attachment''"
  have "?name \<noteq> [] \<and> CHR ''/'' \<notin> set ?name"
    using sanitize_token_chars [of "''attachment''" "pa_name a"] token_no_slash [of ?name]
    by (auto simp: token_char_def is_ascii_alphanumeric_def)
  then have t: "path_join dir ?name \<noteq> p" using path_parent_join [of ?name dir] assms(2-4) by auto
  have one: "map_of (w_files w1) p = map_of (w_files w) p \<and> w_dirs w1 = w_dirs w"
    if "fs_write (path_join dir ?name) data w = (x, w1)" for data x w1
    using that t by (cases x) (auto dest!: fs_write_ok fs_write_err simp: update_conv')
  show ?case
  proof (cases "resolve_attachment_bytes nb a")
    case (Inl e)
    with Cons.prems show ?thesis by (simp add: Let_def)
  next
    case (Inr data)
    obtain x w1 where w1: "fs_write (path_join dir ?name) data w = (x, w1)" by force
    with Cons.prems Inr have "(case x of Inl e \<Rightarrow> (Inl e, w1) | Inr _ \<Rightarrow> write_attachments nb dir as w1) = (r, w')"
      by (simp add: Let_def st_bind_def split: sum.splits)
    with one [OF w1] Cons.IH [of w1] show ?thesis by (auto split: sum.splits)
  qed
qed simp


subsection \<open>A new message replaces what waits for older ones\<close>

definition cancelled :: "string \<Rightarrow> u64 \<Rightarrow> scheduled_task \<Rightarrow> scheduled_task" where
  "cancelled workspace epoch t = (if cancels workspace epoch t then t\<lparr>t_enabled := False\<rparr> else t)"

lemma cancelled_id [simp]: "t_id (cancelled workspace epoch t) = t_id t"
  by (simp add: cancelled_def)

lemma cancel_ok:
  assumes "task_store lib tdocs edocs" and "cancel_pending_thread_tasks lib y workspace epoch = (Inr n, y')"
  shows "sy_tasks y' = map (cancelled workspace epoch) (sy_tasks y) \<and> sy_world y' = sy_world y
    \<and> (\<forall>t \<in> set (sy_tasks y). cancels workspace epoch t \<longrightarrow>
         stored_disabled (tdocs (s_tasks (sy_store y'))) (t_id t))"
proof -
  obtain ts s where l: "disable_tasks_loop lib (cancels workspace epoch) (sy_tasks y) (sy_store y) = (Inr n, ts, s)"
    and y': "y' = y\<lparr>sy_tasks := ts, sy_store := s\<rparr>"
    using assms(2) by (auto simp: cancel_pending_thread_tasks_def disable_tasks_by_def split: prod.splits)
  from task_store.disable_loop_effect [OF assms(1) l] show ?thesis
    unfolding y' by (auto simp: cancelled_def [abs_def] cancels_def)
qed

text \<open>Whether or not the store takes the cancellation, the scheduler only disables what is cancelled.\<close>

definition maybe_cancelled :: "string \<Rightarrow> u64 \<Rightarrow> scheduled_task \<Rightarrow> scheduled_task \<Rightarrow> bool" where
  "maybe_cancelled workspace epoch t t' = (t' = t \<or> cancels workspace epoch t \<and> t' = t\<lparr>t_enabled := False\<rparr>)"

lemma disable_loop_any:
  "disable_tasks_loop lib p ts s = (r, ts', s') \<Longrightarrow>
   list_all2 (\<lambda>t t'. t' = t \<or> p t \<and> t' = t\<lparr>t_enabled := False\<rparr>) ts ts'"
proof (induction ts arbitrary: s r ts' s')
  case (Cons t ts)
  have "list_all2 (\<lambda>t t'. t' = t \<or> p t \<and> t' = t\<lparr>t_enabled := False\<rparr>) ts ts" by (simp add: list.rel_refl)
  with Cons show ?case by (auto simp: Let_def split: if_splits prod.splits sum.splits)
qed simp

lemma cancel_any:
  assumes "cancel_pending_thread_tasks lib y workspace epoch = (r, y')"
  shows "list_all2 (maybe_cancelled workspace epoch) (sy_tasks y) (sy_tasks y') \<and> sy_world y' = sy_world y"
  using assms
  by (auto simp: cancel_pending_thread_tasks_def disable_tasks_by_def maybe_cancelled_def [abs_def]
      dest: disable_loop_any split: prod.splits)

lemma maybe_cancelled_ids:
  "list_all2 (maybe_cancelled workspace epoch) ts ts' \<Longrightarrow> map t_id ts' = map t_id ts"
  by (induction rule: list_all2_induct) (auto simp: maybe_cancelled_def)

text \<open>The store has a row for the task, enabled.\<close>

definition stored_enabled :: "'j task_doc list \<Rightarrow> uuid \<Rightarrow> bool" where
  "stored_enabled ds i = list_ex (\<lambda>d. td_task_id d = Some i \<and> td_enabled d = Some True) ds"

lemma stored_enabled_first:
  assumes "any_doc p ds = 1" and "t_enabled t"
  shows "stored_enabled (update_first p (insert_task_set s t j) ds) (t_id t)"
proof -
  from assms(1) have "list_ex p ds" by (auto simp: any_doc_def list_ex_iff split: if_splits)
  then show ?thesis
    by (induction ds) (use assms(2) in \<open>auto simp: stored_enabled_def insert_task_set_def\<close>)
qed

lemma add_one_shot_ok:
  assumes "task_store lib tdocs edocs" and "add_one_shot_in_with_id lib y i d kind = (Inr u, y')"
  shows "sy_tasks y' = sy_tasks y @ [new_task i kind (OneShot (fst (utc_now (sy_world y)) + d)) (fst (utc_now (sy_world y)))]
    \<and> (\<forall>k. k \<noteq> i \<longrightarrow> stored_disabled (tdocs (s_tasks (sy_store y))) k \<longrightarrow>
         stored_disabled (tdocs (s_tasks (sy_store y'))) k)
    \<and> stored_enabled (tdocs (s_tasks (sy_store y'))) i"
proof -
  obtain now w where w: "utc_now (sy_world y) = (now, w)" by force
  let ?t = "new_task i kind (OneShot (now + d)) now"
  let ?y = "y\<lparr>sy_world := w\<rparr>"
  from assms(2) w have "on_store (\<lambda>s. store_insert_task lib s ?t) (?y\<lparr>sy_tasks := sy_tasks y @ [?t]\<rparr>) = (Inr (), y')"
    by (auto simp: add_one_shot_in_with_id_def push_task_def on_world_def chrono_from_std_def Let_def
        dest!: st_bind_ok split: if_splits)
  from on_store_ok [OF this] have s: "store_insert_task lib (sy_store y) ?t = (Inr (), sy_store y')"
    and ts: "sy_tasks y' = sy_tasks y @ [?t]" by auto
  obtain j where "tdocs (s_tasks (sy_store y')) =
      (if any_doc (task_filter (sy_store y) (t_id ?t)) (tdocs (s_tasks (sy_store y))) = 1
       then update_first (task_filter (sy_store y) (t_id ?t)) (insert_task_set (sy_store y) ?t j) (tdocs (s_tasks (sy_store y)))
       else tdocs (s_tasks (sy_store y)) @ [inserted_task_doc (sy_store y) ?t j])"
    by (rule task_store.insert_effect [OF assms(1) s]) blast
  moreover have "stored_disabled (update_first p (insert_task_set (sy_store y) ?t j) ds) k"
    if "stored_disabled ds k" "k \<noteq> i" for p ds k
    using that(1) by (induction ds) (use that(2) in \<open>auto simp: stored_disabled_def insert_task_set_def new_task_def\<close>)
  moreover have "stored_disabled (ds @ [inserted_task_doc (sy_store y) ?t j]) k" if "stored_disabled ds k" "k \<noteq> i" for ds k
    using that by (auto simp: stored_disabled_def inserted_task_doc_def new_task_def)
  moreover have "stored_enabled (ds @ [inserted_task_doc (sy_store y) ?t j]) i" for ds
    by (simp add: stored_enabled_def inserted_task_doc_def new_task_def)
  moreover have "stored_enabled (update_first p (insert_task_set (sy_store y) ?t j) ds) i" if "any_doc p ds = 1" for p ds
    using stored_enabled_first [OF that, of ?t "sy_store y" j] by (simp add: new_task_def)
  ultimately have "(\<forall>k. k \<noteq> i \<longrightarrow> stored_disabled (tdocs (s_tasks (sy_store y))) k \<longrightarrow>
      stored_disabled (tdocs (s_tasks (sy_store y'))) k) \<and> stored_enabled (tdocs (s_tasks (sy_store y'))) i"
    by simp
  with ts w show ?thesis by simp
qed

text \<open>What happens to the tasks of the user, and the two outcomes of the duplicate check.\<close>

lemma enqueue_ok:
  assumes "task_store (co_store co) tdocs edocs"
    and "enqueue_email_task co md5_uuid path run workspace epoch key message_id y = (Inr k, y')"
    and "load_scheduler co path y = (Inr (), y1)"
    and "cancel_pending_thread_tasks (co_store co) y1 workspace epoch = (r, y2)"
    and "email_message_task_id md5_uuid key message_id = Some i"
  shows "k = i \<and> (if i \<in> t_id ` set (sy_tasks y1) then y' = y2
    else sy_tasks y' = sy_tasks y2 @ [new_task i (RunTask run) (OneShot (fst (utc_now (sy_world y1)))) (fst (utc_now (sy_world y1)))]
      \<and> (\<forall>k. k \<noteq> i \<longrightarrow> stored_disabled (tdocs (s_tasks (sy_store y2))) k \<longrightarrow>
           stored_disabled (tdocs (s_tasks (sy_store y'))) k)
      \<and> stored_enabled (tdocs (s_tasks (sy_store y'))) i)"
proof -
  from cancel_any [OF assms(4)] maybe_cancelled_ids
  have "map t_id (sy_tasks y2) = map t_id (sy_tasks y1)" and w: "sy_world y2 = sy_world y1" by blast+
  then have ids: "t_id ` set (sy_tasks y2) = t_id ` set (sy_tasks y1)" by (metis set_map)
  from assms(2,3,4,5) have k: "k = i"
    and a: "\<exists>b. add_one_shot_in_if_absent_with_id (co_store co) y2 i 0 (RunTask run) = (Inr b, y')"
    by (auto simp: enqueue_email_task_def step_err_def dest!: st_bind_ok split: prod.splits)
  show ?thesis
  proof (cases "i \<in> t_id ` set (sy_tasks y1)")
    case True
    then have "list_ex (\<lambda>t. t_id t = i) (sy_tasks y2)" unfolding ids [symmetric] by (auto simp: list_ex_iff)
    with a k True show ?thesis by (auto simp: add_one_shot_in_if_absent_with_id_def)
  next
    case False
    then have "\<not> list_ex (\<lambda>t. t_id t = i) (sy_tasks y2)" unfolding ids [symmetric] by (auto simp: list_ex_iff)
    with a obtain u where "add_one_shot_in_with_id (co_store co) y2 i 0 (RunTask run) = (Inr u, y')"
      by (auto simp: add_one_shot_in_if_absent_with_id_def dest!: st_bind_ok)
    from add_one_shot_ok [OF assms(1) this] k False w show ?thesis by simp
  qed
qed

text \<open>
  C5.  A message that has an identifier and whose task the user's scheduler does not hold yet
  is queued whether or not the older tasks could be cancelled: when queueing it succeeds, one task for
  it is added at the end of the list, enabled and due at once, and the store has an enabled row for
  it.  Of the tasks that were loaded, only such as belong to the conversation and wait with an older
  epoch are changed, and these are just disabled.  If the cancellation succeeded (its failure is
  only logged) all of these are disabled, in memory and in every owner's copy in the store.
\<close>

theorem message_supersedes:
  assumes "task_store (co_store co) tdocs edocs"
    and "enqueue_email_task co md5_uuid path run workspace epoch key message_id y = (Inr k, y')"
    and "load_scheduler co path y = (Inr (), y1)"
    and "cancel_pending_thread_tasks (co_store co) y1 workspace epoch = (r, y2)"
    and "email_message_task_id md5_uuid key message_id = Some i" and "i \<notin> t_id ` set (sy_tasks y1)"
  shows "\<exists>now ts. sy_tasks y' = ts @ [new_task i (RunTask run) (OneShot now) now]
    \<and> list_all2 (maybe_cancelled workspace epoch) (sy_tasks y1) ts
    \<and> stored_enabled (tdocs (s_tasks (sy_store y'))) i
    \<and> (is_ok r \<longrightarrow>
         ts = map (\<lambda>t. if cancels workspace epoch t then t\<lparr>t_enabled := False\<rparr> else t) (sy_tasks y1)
         \<and> (\<forall>t \<in> set (sy_tasks y1). cancels workspace epoch t \<longrightarrow>
              stored_disabled (tdocs (s_tasks (sy_store y'))) (t_id t)))"
proof -
  note e = enqueue_ok [OF assms(1-5)] and any = cancel_any [OF assms(4)]
  have "sy_tasks y2 = map (\<lambda>t. if cancels workspace epoch t then t\<lparr>t_enabled := False\<rparr> else t) (sy_tasks y1)
      \<and> (\<forall>t \<in> set (sy_tasks y1). cancels workspace epoch t \<longrightarrow>
           stored_disabled (tdocs (s_tasks (sy_store y'))) (t_id t))" if "is_ok r"
  proof -
    from that obtain n where "r = Inr n" by (cases r) auto
    with assms(4) have "cancel_pending_thread_tasks (co_store co) y1 workspace epoch = (Inr n, y2)" by simp
    note c = cancel_ok [OF assms(1) this]
    with e assms(6) show ?thesis by (auto simp: cancelled_def [abs_def])
  qed
  with e any assms(6) show ?thesis by auto
qed

text \<open>
  C6.  A message that is delivered again while the task of its first delivery is on the list is
  not answered at all, unless that task has begun: the second delivery has an epoch above those of all
  tasks of the conversation, so it disables the pending task as outdated, and then the identifier of
  that very task suppresses the insertion of another.  When the cancellation succeeded (its failure
  is only logged) no task of the conversation, run or reply, that was loaded is left enabled, in
  memory or in any copy in the store, and nothing is added.  The message must have an identifier.
\<close>

theorem redelivery_cancels_message:
  assumes "task_store (co_store co) tdocs edocs"
    and "enqueue_email_task co md5_uuid path run workspace epoch key message_id y = (Inr k, y')"
    and "load_scheduler co path y = (Inr (), y1)"
    and "cancel_pending_thread_tasks (co_store co) y1 workspace epoch = (Inr n, y2)"
    and "email_message_task_id md5_uuid key message_id = Some i" and "i \<in> t_id ` set (sy_tasks y1)"
    and "\<forall>t \<in> set (sy_tasks y1). of_conversation workspace t \<longrightarrow> epoch_of_task t < epoch"
  shows "k = i \<and> map t_id (sy_tasks y') = map t_id (sy_tasks y1)
    \<and> (\<forall>t \<in> set (sy_tasks y'). of_conversation workspace t \<longrightarrow> \<not> t_enabled t)
    \<and> (\<forall>t \<in> set (sy_tasks y1). of_conversation workspace t \<longrightarrow> t_enabled t \<longrightarrow>
         stored_disabled (tdocs (s_tasks (sy_store y'))) (t_id t))"
proof -
  from enqueue_ok [OF assms(1-5)] assms(6) have "k = i" and y': "y' = y2" by auto
  note c = cancel_ok [OF assms(1,4)]
  have kept: "of_conversation workspace (t\<lparr>t_enabled := False\<rparr>) = of_conversation workspace t" for t
    by (simp add: of_conversation_def)
  have "\<not> t_enabled t" if "t \<in> set (sy_tasks y2)" "of_conversation workspace t" for t
    using that c assms(7) by (auto simp: kept cancelled_def cancels_iff split: if_splits)
  moreover have "\<forall>t \<in> set (sy_tasks y1). of_conversation workspace t \<longrightarrow> t_enabled t \<longrightarrow>
      stored_disabled (tdocs (s_tasks (sy_store y2))) (t_id t)"
    using c assms(7) by (auto simp: cancels_iff)
  ultimately show ?thesis using c \<open>k = i\<close> by (auto simp: y')
qed

subsection \<open>Every message that is accepted has its task\<close>

lemma task_there_after_enqueue:
  assumes "task_store (co_store co) tdocs edocs"
    and "enqueue_email_task co md5_uuid path run workspace epoch key message_id y = (Inr k, y')"
    and "email_message_task_id md5_uuid key message_id = Some i"
  shows "k = i \<and> (\<exists>t \<in> set (sy_tasks y'). t_id t = i)"
proof -
  from assms(2,3) obtain y2 b where k: "k = i"
    and a: "add_one_shot_in_if_absent_with_id (co_store co) y2 i 0 (RunTask run) = (Inr b, y')"
    by (auto simp: enqueue_email_task_def step_err_def dest!: st_bind_ok split: prod.splits)
  show ?thesis
  proof (cases "list_ex (\<lambda>t. t_id t = i) (sy_tasks y2)")
    case True
    with a k show ?thesis by (auto simp: add_one_shot_in_if_absent_with_id_def list_ex_iff)
  next
    case False
    with a obtain u where "add_one_shot_in_with_id (co_store co) y2 i 0 (RunTask run) = (Inr u, y')"
      by (auto simp: add_one_shot_in_if_absent_with_id_def dest!: st_bind_ok)
    from add_one_shot_ok [OF assms(1) this] k show ?thesis by (auto simp: new_task_def)
  qed
qed

lemma enqueue_account_keeps [simp]:
  "sy_tasks (enqueue_account_task co root a i run y) = sy_tasks y"
  by (auto simp: enqueue_account_task_def Let_def on_world_def split: sum.splits prod.splits)

text \<open>The steps of a message that is handled without an error.\<close>

lemma handle_mail_ok:
  assumes "handle_mail nb cf p raw_payload user requester account mailbox s = (Inr u, s')"
  obtains workspace epoch run k s1 y where
    "enqueue_email_task (nb_core nb) (nb_md5_uuid nb)
       (up_tasks_db_path (user_paths_of (cf_users_root cf) (ur_user_id user))) run workspace epoch
       (email_thread_key (nb_md5 nb) p raw_payload)
       (map_option trim (or_else (header_message_id p) (pm_message_id p))) s1 = (Inr k, y)"
    and "sy_tasks (ns_system s') = sy_tasks y"
    and "\<exists>x. sync_user_tasks (nb_index nb) (ur_user_id user) (sy_tasks y) x = (Inr (), ns_index s')"
    and "rt_thread_epoch run = Some epoch" and "rt_workspace_dir run = workspace"
    and "rt_reply_to run = reply_recipients p"
proof -
  from assms obtain ws and st :: thread_state and s1 run k s2 where
    e: "ns_sys (enqueue_email_task (nb_core nb) (nb_md5_uuid nb)
       (up_tasks_db_path (user_paths_of (cf_users_root cf) (ur_user_id user))) run ws (ts_epoch st)
       (email_thread_key (nb_md5 nb) p raw_payload)
       (map_option trim (or_else (header_message_id p) (pm_message_id p)))) s1 = (Inr k, s2)"
    and run: "run = email_run_task cf (user_paths_of (cf_users_root cf) (ur_user_id user)) ws
       (email_thread_key (nb_md5 nb) p raw_payload) (ts_epoch st) (reply_recipients p) mailbox requester account"
    and r: "(case sync_user_tasks (nb_index nb) (ur_user_id user) (sy_tasks (ns_system s2)) (ns_index s2) of
              (Inl e, x) \<Rightarrow> (Inl (IndexFailed e), s2\<lparr>ns_index := x\<rparr>)
            | (Inr _, x) \<Rightarrow>
                (Inr (), (case account_for_tasks nb account requester of
                       None \<Rightarrow> s2\<lparr>ns_index := x\<rparr>
                     | Some i \<Rightarrow> s2\<lparr>ns_index := x, ns_system :=
                         enqueue_account_task (nb_core nb) (cf_users_root cf) i k run
                           (ns_system (s2\<lparr>ns_index := x\<rparr>))\<rparr>))) = (Inr u, s')"
    unfolding handle_mail_def Let_def
    by - ((drule st_bind_ok, elim exE conjE)+, rule that [OF _ refl])
  from e obtain y where "enqueue_email_task (nb_core nb) (nb_md5_uuid nb)
       (up_tasks_db_path (user_paths_of (cf_users_root cf) (ur_user_id user))) run ws (ts_epoch st)
       (email_thread_key (nb_md5 nb) p raw_payload)
       (map_option trim (or_else (header_message_id p) (pm_message_id p))) (ns_system s1) = (Inr k, y)"
    and "ns_system s2 = y"
    by (auto simp: ns_sys_def split: prod.splits)
  moreover from this r have "sy_tasks (ns_system s') = sy_tasks y
      \<and> (\<exists>x. sync_user_tasks (nb_index nb) (ur_user_id user) (sy_tasks y) x = (Inr (), ns_index s'))"
    by (auto simp: Let_def split: prod.splits sum.splits option.splits)
  ultimately show ?thesis using that [of run ws "ts_epoch st" "ns_system s1" k y] by (simp add: run email_run_task_def)
qed

text \<open>
  C10.  A mail that is reported as handled has its task.  Left out are answers to approval requests,
  mails from senders that are not answered, mails that reached no mailbox of the service and mails
  without an identifier.  For any other, the user is the one found or made for the identifier of the
  mail's requester; the mail was queued with the scheduler of that very user; the list of this
  scheduler holds the task with the identifier made of the conversation and the message; and the
  synchronisation of the index of due tasks with this list, for that user, succeeded.
\<close>

theorem handled_mail_has_task:
  assumes "task_store (co_store (nb_core nb)) tdocs edocs"
    and "process_inbound_payload nb cf p raw_payload account_id s = (Inr (), s')"
    and "\<not> human_approval_gate_subject p"
    and "\<not> is_blacklisted_sender (trim (unwrap_or [] (pm_from p))) (cf_service_addresses cf)"
    and "select_inbound_service_mailbox (collect_service_address_candidates p) (ep_address_set (cf_employee cf)) \<noteq> None"
    and "email_message_task_id (nb_md5_uuid nb) (email_thread_key (nb_md5 nb) p raw_payload)
           (map_option trim (or_else (header_message_id p) (pm_message_id p))) = Some i"
  shows "\<exists>requester user s1 workspace epoch run y0 y x.
    resolve_inbound_requester nb p raw_payload = Inr requester
    \<and> user_of_sender nb (lookup_identifier nb (resolved_account nb account_id) requester) s = (Inr user, s1)
    \<and> enqueue_email_task (nb_core nb) (nb_md5_uuid nb)
         (up_tasks_db_path (user_paths_of (cf_users_root cf) (ur_user_id user))) run workspace epoch
         (email_thread_key (nb_md5 nb) p raw_payload)
         (map_option trim (or_else (header_message_id p) (pm_message_id p))) y0 = (Inr i, y)
    \<and> sy_tasks (ns_system s') = sy_tasks y \<and> i \<in> t_id ` set (sy_tasks y)
    \<and> sync_user_tasks (nb_index nb) (ur_user_id user) (sy_tasks (ns_system s')) x = (Inr (), ns_index s')"
proof -
  from assms(2-5) obtain user requester s0 mailbox s1 where
    q: "resolve_inbound_requester nb p raw_payload = Inr requester"
    and u: "user_of_sender nb (lookup_identifier nb (resolved_account nb account_id) requester) s = (Inr user, s0)"
    and h: "handle_mail nb cf p raw_payload user requester (resolved_account nb account_id) mailbox s1 = (Inr (), s')"
    by (auto simp: process_inbound_payload_def Let_def dest!: st_bind_ok)
  from h show ?thesis
  proof (rule handle_mail_ok)
    fix workspace epoch run k s2 y
    assume e: "enqueue_email_task (nb_core nb) (nb_md5_uuid nb)
       (up_tasks_db_path (user_paths_of (cf_users_root cf) (ur_user_id user))) run workspace epoch
       (email_thread_key (nb_md5 nb) p raw_payload)
       (map_option trim (or_else (header_message_id p) (pm_message_id p))) s2 = (Inr k, y)"
      and ts: "sy_tasks (ns_system s') = sy_tasks y"
      and x: "\<exists>x. sync_user_tasks (nb_index nb) (ur_user_id user) (sy_tasks y) x = (Inr (), ns_index s')"
    from task_there_after_enqueue [OF assms(1) e assms(6)] have "k = i" "i \<in> t_id ` set (sy_tasks y)" by auto
    with q u e x ts show ?thesis by metis
  qed
qed

text \<open>
  The worker does not look at the recipient that Postmark reports for the delivery, by which the
  gateway may have routed the mail.  When no other field names a mailbox of the service, the mail
  is dropped: no task, no entry of the index, and no error that would have it delivered again,
  except where the sender or the user's directories are at fault.
\<close>

theorem original_recipient_dropped:
  assumes "process_inbound_payload nb cf p raw_payload account_id s = (r, s')"
    and "pm_original_recipient p = Some address"
    and "select_inbound_service_mailbox (collect_service_address_candidates p) (ep_address_set (cf_employee cf)) = None"
    and "select_inbound_service_mailbox (gateway_address_candidates p) (ep_address_set (cf_employee cf)) \<noteq> None"
    and "\<not> human_approval_gate_subject p"
  shows "sy_tasks (ns_system s') = sy_tasks (ns_system s) \<and> sy_store (ns_system s') = sy_store (ns_system s)
    \<and> ns_index s' = ns_index s
    \<and> (r = Inr () \<or> r = Inl MissingSender \<or> (\<exists>e. r = Inl (UserFailed e) \<or> r = Inl (UserDirsFailed e)))"
proof -
  have w: "sy_tasks (ns_system s2) = sy_tasks (ns_system s1) \<and> sy_store (ns_system s2) = sy_store (ns_system s1)
      \<and> ns_index s2 = ns_index s1" if "ns_world op s1 = (x, s2)" for op x s1 s2
    using that by (auto simp: ns_world_def on_world_def split: prod.splits)
  have u: "sy_tasks (ns_system s2) = sy_tasks (ns_system s1) \<and> sy_store (ns_system s2) = sy_store (ns_system s1)
      \<and> ns_index s2 = ns_index s1 \<and> (\<forall>e. x = Inl e \<longrightarrow> (\<exists>d. e = UserFailed d))"
    if "user_of_sender nb i s1 = (x, s2)" for i x s1 s2
    using that by (auto simp: user_of_sender_def Let_def map_err_eq_Inl dest!: w split: prod.splits sum.splits)
  show ?thesis
    using assms(1,3,5)
    by (auto simp: process_inbound_payload_def st_bind_def step_err_def resolve_inbound_requester_def map_err_eq_Inl
        dest!: w u sym [of "Inl _" "map_err _ _"]
        split: if_splits sum.splits prod.splits option.splits list.splits)
qed

subsection \<open>A name that blocks a mail\<close>

text \<open>What never takes a directory away keeps it, unless it is removed by name.\<close>

lemma fs_create_dir_all_dirs: "fs_create_dir_all p w = (r, w') \<Longrightarrow> set (w_dirs w) \<subseteq> set (w_dirs w')"
  by (auto simp: fs_create_dir_all_def split: option.splits if_splits)

lemma fs_create_dir_all_made: "p \<noteq> [] \<Longrightarrow> fs_create_dir_all p w = (Inr u, w') \<Longrightarrow> fs_is_dir w' p"
  by (cases p rule: rev_cases)
     (auto simp: fs_create_dir_all_def fs_is_dir_def path_ancestors_def split: option.splits if_splits)

lemma fs_write_dirs: "fs_write p c w = (r, w') \<Longrightarrow> w_dirs w' = w_dirs w"
  by (cases r) (auto dest: fs_write_ok fs_write_err)

lemma write_attachments_dirs: "write_attachments nb dir as w = (r, w') \<Longrightarrow> w_dirs w' = w_dirs w"
proof (induction as arbitrary: w)
  case (Cons a as)
  then show ?case
    by (auto simp: Let_def st_bind_def dest!: fs_write_dirs split: sum.splits prod.splits)
qed simp

lemma write_inbound_payload_dirs:
  "write_inbound_payload nb p raw_payload a b w = (r, w') \<Longrightarrow> w_dirs w' = w_dirs w"
  by (auto simp: write_inbound_payload_def Let_def st_bind_def dest!: fs_write_dirs write_attachments_dirs
      split: sum.splits prod.splits)

lemma path_parent_child:
  assumes "path_parent p = Some root" and "root \<noteq> []" and "root \<noteq> ''/''"
  obtains name where "p = root @ ''/'' @ name" and "CHR ''/'' \<notin> set name"
proof -
  define d where "d = dropWhile (\<lambda>c. c \<noteq> CHR ''/'') (rev p)"
  define n where "n = takeWhile (\<lambda>c. c \<noteq> CHR ''/'') (rev p)"
  have rp: "rev p = n @ d" by (simp add: d_def n_def)
  from assms have root: "root = rev (drop 1 d)"
    by (auto simp: path_parent_def d_def Let_def split: if_splits)
  with assms(2) obtain r where d: "d = CHR ''/'' # r"
    by (cases d) (use d_def hd_dropWhile [of "\<lambda>c. c \<noteq> CHR ''/''" "rev p"] in auto)
  have "p = rev d @ rev n" using rp by (metis rev_append rev_rev_ident)
  moreover have "CHR ''/'' \<notin> set (rev n)" by (auto simp: n_def dest: set_takeWhileD)
  ultimately show thesis using that [of "rev n"] root d by simp
qed

text \<open>A sibling is not above a child with a plain name.\<close>

lemma sibling_not_above:
  assumes "path_parent p = Some root" and "root \<noteq> []" and "root \<noteq> ''/''"
    and "CHR ''/'' \<notin> set name" and "p \<noteq> root @ ''/'' @ name"
  shows "\<not> path_below p (root @ ''/'' @ name)"
proof -
  obtain m where p: "p = root @ ''/'' @ m" and m: "CHR ''/'' \<notin> set m"
    using path_parent_child [OF assms(1-3)] by blast
  define k where "k = root @ ''/'' @ name"
  have "\<not> starts_with k (p @ ''/'')"
  proof
    assume "starts_with k (p @ ''/'')"
    then obtain z where "k = p @ ''/'' @ z" by (auto simp: starts_with_iff)
    then have "name = m @ ''/'' @ z" by (simp add: p k_def)
    with assms(4) show False by simp
  qed
  moreover have "k \<noteq> p" using assms(5) by (simp add: k_def)
  ultimately show ?thesis unfolding path_below_def k_def [symmetric] by blast
qed

lemma clear_entries_keep:
  assumes "clear_entries keep ps w = (r, w')" and "fs_is_dir w keep" and "\<forall>p \<in> set ps. p \<noteq> keep \<longrightarrow> \<not> path_below p keep"
  shows "fs_is_dir w' keep"
  using assms
proof (induction ps arbitrary: w)
  case (Cons p ps)
  show ?case
  proof (cases "p = keep")
    case True
    with Cons show ?thesis by simp
  next
    case False
    obtain x w1 where 1: "(if fs_is_dir w p then fs_remove_dir_all p w else fs_remove_file p w) = (x, w1)" by force
    with Cons.prems False have "fs_is_dir w1 keep"
      by (auto simp: fs_remove_dir_all_def fs_remove_file_def fs_is_dir_def split: if_splits option.splits)
    with Cons 1 False show ?thesis by (cases x) (auto simp: st_bind_def)
  qed
qed simp

lemma write_attachments_blocked:
  assumes "a \<in> set as" and "fs_is_dir w (path_join dir (sanitize_token (pa_name a) ''attachment''))"
    and "write_attachments nb dir as w = (r, w')"
  shows "\<exists>e. r = Inl e"
  using assms
proof (induction as arbitrary: w)
  case (Cons b as)
  show ?case
  proof (cases "resolve_attachment_bytes nb b")
    case (Inl e)
    with Cons.prems(3) show ?thesis by (auto simp: Let_def)
  next
    case (Inr data)
    obtain x w1 where 1: "fs_write (path_join dir (sanitize_token (pa_name b) ''attachment'')) data w = (x, w1)" by force
    show ?thesis
    proof (cases x)
      case (Inl e)
      with Cons.prems(3) Inr 1 show ?thesis by (auto simp: Let_def)
    next
      case (Inr u)
      have "a \<noteq> b" using fs_write_ok [OF 1 [unfolded Inr]] Cons.prems(2) by auto
      with Cons.prems(1) have "a \<in> set as" by simp
      moreover have "fs_is_dir w1 (path_join dir (sanitize_token (pa_name a) ''attachment''))"
        using fs_write_dirs [OF 1] Cons.prems(2) by (simp add: fs_is_dir_def)
      moreover have "write_attachments nb dir as w1 = (r, w')"
        using Cons.prems(3) \<open>resolve_attachment_bytes nb b = _\<close> 1 Inr by (simp add: Let_def)
      ultimately show ?thesis by (rule Cons.IH)
    qed
  qed
qed simp


text \<open>
  A mail with an attachment called \<open>entries\<close> cannot be handled, ever: the attachments of the newest
  message are written beside the directory of that name that holds those of all messages, so
  writing the attachment fails, on the first attempt and on every repetition, after the epoch of
  the conversation was raised and before a task is made.
\<close>

theorem entries_attachment_blocks_mail:
  assumes "append_inbound_payload nb workspace p raw_payload n w = (r, w')"
    and "a \<in> set (unwrap_or [] (pm_attachments p))"
    and "sanitize_token (pa_name a) ''attachment'' = ''entries''"
    and "starts_with workspace ''/''" and "\<not> ends_with workspace ''/''"
  shows "\<exists>e. r = Inl e"
proof (rule ccontr)
  assume no: "\<nexists>e. r = Inl e"
  let ?ia = "path_join workspace ''incoming_attachments''"
  let ?keep = "path_join ?ia ''entries''"
  have j: "?ia = workspace @ ''/incoming_attachments''" "?keep = ?ia @ ''/'' @ ''entries''"
    using assms(4,5) by (auto simp: path_join_def path_is_absolute_def ends_with_def starts_with_def)
  have ne: "?ia \<noteq> []" "?ia \<noteq> ''/''" by (simp_all add: j(1))
  have ne3: "?keep \<noteq> []" unfolding j(2) by simp
  from no obtain u where r: "r = Inr u" by (cases r) auto
  from assms(1) [unfolded r append_inbound_payload_def Let_def]
  obtain w1 w2 w3 w4 w5 w6 w7 en x2 x3 x4 x5 x6 x7 where
    k: "fs_create_dir_all ?keep w1 = (Inr x2, w2)"
    and 3: "fs_create_dir_all (path_join (path_join (path_join workspace ''incoming_email'') ''entries'') en)
              (snd (utc_now w2)) = (Inr x3, w3)"
    and 4: "fs_create_dir_all (path_join ?keep en) w3 = (Inr x4, w4)"
    and 5: "write_inbound_payload nb p raw_payload
              (path_join (path_join (path_join workspace ''incoming_email'') ''entries'') en) (path_join ?keep en) w4 = (Inr x5, w5)"
    and 6: "clear_dir_except ?ia ?keep w5 = (Inr x6, w6)"
    and 7: "write_inbound_payload nb p raw_payload (path_join workspace ''incoming_email'') ?ia w6 = (Inr x7, w7)"
    by (auto dest!: st_bind_ok split: prod.splits simp: utc_now_def)
  have "fs_is_dir w5 ?keep"
    using fs_create_dir_all_made [OF ne3 k] fs_create_dir_all_dirs [OF 3] fs_create_dir_all_dirs [OF 4]
      write_inbound_payload_dirs [OF 5] by (auto simp: fs_is_dir_def utc_now_def)
  moreover have "fs_exists w5 ?ia \<Longrightarrow> \<exists>es. fs_read_dir w5 ?ia = Some es \<and> clear_entries ?keep es w5 = (Inr x6, w6)"
    using 6 by (auto simp: clear_dir_except_def split: option.splits)
  moreover have "\<forall>p \<in> set es. p \<noteq> ?keep \<longrightarrow> \<not> path_below p ?keep" if "fs_read_dir w5 ?ia = Some es" for es
  proof (intro ballI impI)
    fix p assume "p \<in> set es" and "p \<noteq> ?keep"
    with that have "path_parent p = Some ?ia" by (auto simp: fs_read_dir_def split: if_splits)
    from sibling_not_above [OF this ne(1,2)] \<open>p \<noteq> ?keep\<close> show "\<not> path_below p ?keep" unfolding j(2) by simp
  qed
  moreover have "\<not> fs_exists w5 ?ia \<Longrightarrow> set (w_dirs w5) \<subseteq> set (w_dirs w6)"
    using 6 by (auto simp: clear_dir_except_def dest: fs_create_dir_all_dirs)
  ultimately have "fs_is_dir w6 ?keep"
    using clear_entries_keep [of ?keep _ w5 "Inr x6" w6] by (cases "fs_exists w5 ?ia") (auto simp: fs_is_dir_def)
  moreover from 7 obtain w8 where "write_attachments nb ?ia (unwrap_or [] (pm_attachments p)) w8 = (Inr x7, w7)"
    and "w_dirs w8 = w_dirs w6"
    by (auto simp: write_inbound_payload_def Let_def dest!: st_bind_ok fs_write_dirs)
  ultimately show False using write_attachments_blocked [OF assms(2), of w8 ?ia nb "Inr x7" w7] assms(3)
    by (simp add: fs_is_dir_def)
qed

subsection \<open>Approval requests\<close>

text \<open>
  The first reply to an approval request decides.  Once one was recorded, the file of the
  request holds it with the status that the waiting agent looks for, and no later reply, from
  whomever and however often delivered, changes anything.
\<close>

theorem first_approval_reply_wins:
  assumes "\<forall>st. nb_gate_parse nb (nb_gate_render nb st) = Inr (Some st)"
    and "update_human_approval_gate_state nb path p w = (Inr True, w1)"
  shows "(\<exists>st now. fs_read w1 path = Some (nb_gate_render nb st) \<and> gs_status st = Some ''replied''
      \<and> gs_reply st = Some (build_human_approval_gate_reply_payload (nb_rfc3339_secs nb) p now))
    \<and> update_human_approval_gate_state nb path p' w1 = (Inr False, w1)"
proof -
  from assms(2) obtain st w2 w3 now later st0 where
    st: "st = answered_state (nb_rfc3339_secs nb) p now later st0"
    and wr: "fs_write (path @ ''.tmp'') (nb_gate_render nb st) w2 = (Inr (), w3)"
    and mv: "fs_rename (path @ ''.tmp'') path w3 = (Inr (), w1)"
    by (auto simp: update_human_approval_gate_state_def Let_def dest!: st_bind_ok
        split: option.splits sum.splits prod.splits if_splits)
  have rd: "fs_read w1 path = Some (nb_gate_render nb st)"
    using wr mv by (auto simp: fs_rename_def fs_read_def or_else_def update_conv' dest!: fs_write_ok
        split: option.splits if_splits)
  have "gs_status st = Some ''replied''"
    and "gs_reply st = Some (build_human_approval_gate_reply_payload (nb_rfc3339_secs nb) p now)"
    by (simp_all add: st answered_state_def Let_def)
  with rd assms(1) show ?thesis by (auto simp: update_human_approval_gate_state_def)
qed

subsection \<open>Replies find their conversation\<close>

definition id_separators :: "char list" where
  "id_separators = [CHR '' '', CHR 0x09, CHR 0x0A, CHR 0x0D, CHR '','', CHR '';'']"

lemma split_any_prefix:
  "set w \<inter> set ds = {} \<Longrightarrow> split_any ds (w @ rest) =
     (case split_any ds rest of [] \<Rightarrow> [w] | v # vs \<Rightarrow> (w @ v) # vs)"
proof (induction w)
  case Nil
  have "split_any ds rest \<noteq> []" by (induction rest) (auto split: list.splits)
  then show ?case by (auto split: list.splits)
qed (auto split: list.splits)

lemma extract_first_token:
  assumes "set w \<inter> set id_separators = {}" and "trim w = w" and "normalize_message_id w = Some i"
    and "rest = [] \<or> hd rest \<in> set id_separators"
  shows "extract_first_message_id (w @ rest) = Some i"
proof -
  have "w \<noteq> []" using assms(3) by (auto simp: normalize_message_id_def User_Store.trim_matches_def)
  moreover obtain vs where "split_any id_separators (w @ rest) = w # vs"
    using assms(4) split_any_prefix [OF assms(1), of rest] by (cases rest) auto
  ultimately show ?thesis
    using assms(2,3) by (simp add: extract_first_message_id_def id_separators_def List.map_filter_def nth_opt_def)
qed

text \<open>
  A reply finds its conversation: it gets the thread key, and with it the workspace, of the message
  that started the conversation, when its \<open>References\<close>, or without them its \<open>In-Reply-To\<close>, begin with
  the identifier of that message, whatever follows there, whoever sends it and whatever its text.
\<close>

theorem replies_join_conversation:
  assumes "header_message_id first = Some mid" and "mail_header first ''References'' = None"
    and "mail_header first ''In-Reply-To'' = None"
    and "set mid \<inter> set id_separators = {}" and "trim mid = mid" and "normalize_message_id mid = Some i"
    and "or_else (mail_header reply ''References'') (mail_header reply ''In-Reply-To'') = Some (mid @ rest)"
    and "rest = [] \<or> hd rest \<in> set id_separators"
  shows "email_thread_key md5 first raw1 = i \<and> email_thread_key md5 reply raw2 = i
    \<and> thread_workspace nb paths (email_thread_key md5 reply raw2)
      = thread_workspace nb paths (email_thread_key md5 first raw1)"
proof -
  from extract_first_token [OF assms(4-6,8)] assms(7)
  have "email_thread_key md5 reply raw2 = i"
    by (auto simp: email_thread_key_def or_else_def split: option.splits)
  moreover have "email_thread_key md5 first raw1 = i"
    using assms(1-3,6) by (simp add: email_thread_key_def or_else_def)
  ultimately show ?thesis by simp
qed

subsection \<open>Examples\<close>

definition demo_run :: "u64 \<Rightarrow> run_task_task" where
  "demo_run e = slack_run_task\<lparr>rt_channel := Email, rt_thread_epoch := Some e\<rparr>"

text \<open>A delivery of the message \<open>m\<close> of one conversation, with the epoch it was given.\<close>

definition deliver ::
    "string \<Rightarrow> u64 \<Rightarrow> (memory_tasks, memory_execs) system
     \<Rightarrow> (inbound_error + uuid) \<times> (memory_tasks, memory_execs) system" where
  "deliver m e =
     enqueue_email_task memory_core (\<lambda>s. s) ''/u/u1/state/tasks.db'' (demo_run e) ''/w'' e ''k'' (Some m)"

definition loaded :: "(memory_tasks, memory_execs) system \<Rightarrow> (memory_tasks, memory_execs) system" where
  "loaded y = snd (load_scheduler memory_core ''/u/u1/state/tasks.db'' y)"

definition delivered :: "(memory_tasks, memory_execs) system" where
  "delivered = snd (deliver ''m'' 1 (memory_system [] []))"

lemma delivered_loaded:
  "fst (load_scheduler memory_core ''/u/u1/state/tasks.db'' delivered) = Inr ()"
  "map t_id (sy_tasks (loaded delivered)) = [''email:k:m'']"
  "map t_kind (sy_tasks (loaded delivered)) = [RunTask (demo_run 1)]"
  "map t_enabled (sy_tasks (loaded delivered)) = [True]"
  "fst (cancel_pending_thread_tasks memory_lib (loaded delivered) ''/w'' 2) = Inr 1"
  by code_simp+

lemma email_ids: "email_message_task_id (\<lambda>s. s) ''k'' (Some ''m'') = Some ''email:k:m''"
  "email_message_task_id (\<lambda>s. s) ''k'' (Some ''n'') = Some ''email:k:n''"
  by code_simp+

lemma second_message: "fst (deliver ''n'' 2 delivered) = Inr ''email:k:n''"
  "fst (deliver ''m'' 2 delivered) = Inr ''email:k:m''" by code_simp+

theorem message_supersedes_witness:
  "map t_enabled (sy_tasks (snd (deliver ''n'' 2 delivered))) = [False, True]
    \<and> stored_enabled (fst (s_tasks (sy_store (snd (deliver ''n'' 2 delivered))))) ''email:k:n''
    \<and> stored_disabled (fst (s_tasks (sy_store (snd (deliver ''n'' 2 delivered))))) ''email:k:m''"
proof -
  let ?y1 = "loaded delivered"
  obtain t where t: "sy_tasks ?y1 = [t]" "t_id t = ''email:k:m''" "t_kind t = RunTask (demo_run 1)" "t_enabled t"
    using delivered_loaded by auto
  then have c: "cancels ''/w'' 2 t" by (simp add: cancels_def demo_run_def)
  have d: "enqueue_email_task memory_core (\<lambda>s. s) ''/u/u1/state/tasks.db'' (demo_run 2) ''/w'' 2 ''k'' (Some ''n'') delivered
      = (Inr ''email:k:n'', snd (deliver ''n'' 2 delivered))"
    using pair_of_fst [OF second_message(1)] by (simp add: deliver_def)
  have l: "load_scheduler memory_core ''/u/u1/state/tasks.db'' delivered = (Inr (), ?y1)"
    using pair_of_fst [OF delivered_loaded(1)] by (simp add: loaded_def)
  have k: "cancel_pending_thread_tasks (co_store memory_core) ?y1 ''/w'' 2
      = (Inr 1, snd (cancel_pending_thread_tasks memory_lib ?y1 ''/w'' 2))"
    using pair_of_fst [OF delivered_loaded(5)] by simp
  from message_supersedes [OF mc.task_store_axioms d l k email_ids(2)] t c show ?thesis
    by (auto simp: new_task_def)
qed

theorem redelivery_cancels_message_witness:
  "map t_enabled (sy_tasks delivered) = [True] \<and> map t_enabled (sy_tasks (snd (deliver ''m'' 2 delivered))) = [False]"
proof -
  let ?y1 = "loaded delivered" and ?y2 = "snd (deliver ''m'' 2 delivered)"
  obtain t where t: "sy_tasks ?y1 = [t]" "t_id t = ''email:k:m''" "t_kind t = RunTask (demo_run 1)"
    using delivered_loaded by auto
  have d: "enqueue_email_task memory_core (\<lambda>s. s) ''/u/u1/state/tasks.db'' (demo_run 2) ''/w'' 2 ''k'' (Some ''m'') delivered
      = (Inr ''email:k:m'', ?y2)"
    using pair_of_fst [OF second_message(2)] by (simp add: deliver_def)
  have l: "load_scheduler memory_core ''/u/u1/state/tasks.db'' delivered = (Inr (), ?y1)"
    using pair_of_fst [OF delivered_loaded(1)] by (simp add: loaded_def)
  have k: "cancel_pending_thread_tasks (co_store memory_core) ?y1 ''/w'' 2
      = (Inr 1, snd (cancel_pending_thread_tasks memory_lib ?y1 ''/w'' 2))"
    using pair_of_fst [OF delivered_loaded(5)] by simp
  have o: "\<forall>t \<in> set (sy_tasks ?y1). of_conversation ''/w'' t \<longrightarrow> epoch_of_task t < 2"
    using t by (auto simp: demo_run_def epoch_of_task_def)
  have kinds: "map t_kind (sy_tasks ?y2) = [RunTask (demo_run 1)]" by code_simp
  have "map t_enabled (sy_tasks delivered) = [True]" by code_simp
  moreover have conv: "of_conversation ''/w'' t" if "t_kind t = RunTask (demo_run 1)" for t
    using that by (simp add: of_conversation_def demo_run_def slack_run_task_def)
  from redelivery_cancels_message [OF mc.task_store_axioms d l k email_ids(1) _ o] t kinds conv
  have "map t_enabled (sy_tasks ?y2) = [False]"
    by auto
  ultimately show ?thesis by blast
qed

definition demo_mail :: postmark_mail where
  "demo_mail =
     \<lparr>pm_from = Some ''ann@x.org'', pm_to = Some ''bot@y.org'', pm_cc = None, pm_bcc = None, pm_to_full = None,
      pm_cc_full = None, pm_bcc_full = None, pm_reply_to = None, pm_subject = Some ''hello'',
      pm_text_body = Some ''hi'', pm_stripped_text_reply = None, pm_html_body = None, pm_message_id = None,
      pm_headers = Some [\<lparr>ph_name = ''Message-ID'', ph_value = ''<m@x>''\<rparr>],
      pm_attachments = Some [\<lparr>pa_name = ''../../a b'', pa_content = [], pa_storage_ref = None, pa_content_type = ''text/plain''\<rparr>],
      pm_original_recipient = None\<rparr>"

text \<open>A codec of thread states that keeps the epoch of the one conversation there is.\<close>

definition demo_thread :: thread_codec where
  "demo_thread =
     \<lparr>tc_to_json = (\<lambda>st. Inr (nat_str (unat (ts_epoch st)))),
      tc_from_json = (\<lambda>j. map_option (\<lambda>n. \<lparr>ts_thread_id = ''m@x'', ts_epoch = word_of_nat n,
        ts_last_email_seq = word_of_nat n, ts_last_message_id = None, ts_updated_at = []\<rparr>) (parse_nat j)),
      tc_rfc3339 = (\<lambda>_. [])\<rparr>"

definition demo_gate :: "gate_state \<Rightarrow> string" where
  "demo_gate st = (if gs_status st = Some ''replied'' then ''r'' else ''w'')"

definition demo_inbound ::
    "(memory_tasks, memory_execs, scheduled_task, unit, user_doc scripted, index_doc scripted) inbound_lib" where
  "demo_inbound =
     \<lparr>nb_core = memory_core\<lparr>co_thread := demo_thread\<rparr>, nb_users = memory_users, nb_index = memory_index,
      nb_md5 = (\<lambda>s. ''d'' @ s), nb_md5_uuid = (\<lambda>s. s), nb_github_login = (\<lambda>_. None),
      nb_account_by_auth = (\<lambda>_. Inr None), nb_identifiers = (\<lambda>_. Inr []),
      nb_account_by_identifier = (\<lambda>_ _. Inr None), nb_html = (\<lambda>_. ''h''), nb_payload_json = (\<lambda>_ _ _. ''j''),
      nb_base64 = (\<lambda>_. None), nb_download = (\<lambda>_. Inl ''gone''), nb_hydrate = (\<lambda>_ _ _ w. w),
      nb_copy_skills = (\<lambda>_ _ w. w), nb_refresh_view = (\<lambda>_ _ w. w), nb_artifacts = (\<lambda>_ _ w. w),
      nb_gate_parse = (\<lambda>_. Inr None), nb_gate_render = demo_gate, nb_rfc3339_secs = int_str,
      nb_stamp = (\<lambda>_. ''t''), nb_year = (\<lambda>_. ''2026''), nb_month = (\<lambda>_. ''01'')\<rparr>"

definition demo_service :: service_config where
  "demo_service =
     \<lparr>cf_users_root = ''/u'',
      cf_employee = \<lparr>ep_id = ''e'', ep_runner = ''codex'', ep_model = None, ep_addresses = [''bot@y.org''],
        ep_address_set = {''bot@y.org''}, ep_agents_path = None, ep_claude_path = None, ep_soul_path = None,
        ep_skills_dir = None\<rparr>,
      cf_service_addresses = {''bot@y.org''}, cf_codex_model = ''m'', cf_codex_disabled = False,
      cf_skills_source_dir = None\<rparr>"

definition demo_state :: "(memory_tasks, memory_execs, user_doc scripted, index_doc scripted) inbound_state" where
  "demo_state = \<lparr>ns_system = memory_system [] [], ns_users = ([], []), ns_index = ([], [])\<rparr>"

declare st_bind_def [code_unfold]

text \<open>The stages of the handling of \<open>demo_mail\<close>.\<close>

definition demo_user :: user_record where
  "demo_user = \<lparr>ur_user_id = ''u0'', ur_identifier_type = ''email'', ur_identifier = ''ann@x.org'',
     ur_created_at = 0, ur_last_seen_at = 0\<rparr>"

definition demo_paths :: user_paths where "demo_paths = user_paths_of ''/u'' ''u0''"

definition demo_workspace :: string where "demo_workspace = ''/u/u0/workspaces/thread_dm@x''"

definition demo_epoch :: thread_state where
  "demo_epoch = \<lparr>ts_thread_id = ''m@x'', ts_epoch = 2, ts_last_email_seq = 2,
     ts_last_message_id = Some ''<m@x>'', ts_updated_at = []\<rparr>"

definition "demo_task_of = email_run_task demo_service demo_paths demo_workspace ''m@x'' 2 [''ann@x.org'']
  \<lparr>sm_address = ''bot@y.org'', sm_display_name = None\<rparr>
  \<lparr>rq_identifier_type = ''email'', rq_identifier = ''ann@x.org''\<rparr> None"

definition "stage1 = snd (user_of_sender demo_inbound (''email'', ''ann@x.org'') demo_state)"
definition "stage2 = snd (ns_world (ensure_user_dirs demo_paths) stage1)"
definition "stage3 = snd (ns_world (ensure_thread_workspace demo_inbound demo_paths ''u0'' ''m@x''
  (cf_employee demo_service) None) stage2)"
definition "stage4 = snd (ns_world (bump_thread_state demo_thread (default_thread_state_path demo_workspace)
  ''m@x'' (Some ''<m@x>'')) stage3)"
definition "stage5 = snd (ns_world (append_inbound_payload demo_inbound demo_workspace demo_mail [] 2) stage4)"
definition "stage6 = snd (ns_world (archive_inbound demo_inbound demo_paths demo_mail []) stage5)"
definition "stage7 = snd (ns_world (\<lambda>w. ((), nb_artifacts demo_inbound demo_mail demo_workspace w)) stage6)"
definition "stage8 = snd (ns_sys (enqueue_email_task (nb_core demo_inbound) (nb_md5_uuid demo_inbound)
  (up_tasks_db_path demo_paths) demo_task_of demo_workspace 2 ''m@x'' (Some ''<m@x>'')) stage7)"

lemma demo_stages:
  "fst (user_of_sender demo_inbound (''email'', ''ann@x.org'') demo_state) = Inr demo_user"
  "fst (ns_world (ensure_user_dirs demo_paths) stage1) = Inr ()"
  "fst (ns_world (ensure_thread_workspace demo_inbound demo_paths ''u0'' ''m@x'' (cf_employee demo_service) None) stage2)
    = Inr demo_workspace"
  by code_simp+
lemma demo_stages2:
  "fst (ns_world (bump_thread_state demo_thread (default_thread_state_path demo_workspace) ''m@x'' (Some ''<m@x>'')) stage3)
    = Inr demo_epoch"
  by code_simp+
lemma demo_stages3:
  "fst (ns_world (append_inbound_payload demo_inbound demo_workspace demo_mail [] 2) stage4) = Inr ()"
  by code_simp+
text \<open>The steps before touch neither the scheduler nor the index; what follows succeeds whatever the files are.\<close>

lemma ns_world_frame [simp]:
  "ns_index (snd (ns_world op s)) = ns_index s"
  "ns_system (snd (ns_world op s)) = (ns_system s)\<lparr>sy_world := snd (op (sy_world (ns_system s)))\<rparr>"
  by (simp_all add: ns_world_def on_world_def split: prod.splits)

lemma user_of_sender_frame [simp]:
  "ns_index (snd (user_of_sender nb i s)) = ns_index s"
  "\<exists>w. ns_system (snd (user_of_sender nb i s)) = (ns_system s)\<lparr>sy_world := w\<rparr>"
  by (auto simp: user_of_sender_def ns_world_def on_world_def Let_def split: prod.splits)

lemma stage7_frame: "ns_index stage7 = ([], [])" "\<exists>w. ns_system stage7 = (memory_system [] [])\<lparr>sy_world := w\<rparr>"
  using user_of_sender_frame(2) [of demo_inbound "(''email'', ''ann@x.org'')" demo_state]
  by (auto simp: stage7_def stage6_def stage5_def stage4_def stage3_def stage2_def stage1_def demo_state_def)

lemma demo_enqueued:
  "fst (enqueue_email_task (nb_core demo_inbound) (nb_md5_uuid demo_inbound) (up_tasks_db_path demo_paths)
      demo_task_of demo_workspace 2 ''m@x'' (Some ''<m@x>'') ((memory_system [] [])\<lparr>sy_world := w\<rparr>))
    = Inr ''email:m@x:<m@x>''"
  by code_simp

lemma demo_stages4:
  "fst (ns_sys (enqueue_email_task (nb_core demo_inbound) (nb_md5_uuid demo_inbound) (up_tasks_db_path demo_paths)
      demo_task_of demo_workspace 2 ''m@x'' (Some ''<m@x>'')) stage7) = Inr ''email:m@x:<m@x>''"
proof -
  obtain w where w: "ns_system stage7 = (memory_system [] [])\<lparr>sy_world := w\<rparr>" using stage7_frame(2) by blast
  show ?thesis using demo_enqueued [of w] by (auto simp: ns_sys_def w split: prod.splits)
qed

lemma upsert_entries_memory: "\<exists>ds'. upsert_entries memory_index u rows (ds, []) = (Inr (), ds', [])"
  by (induction rows arbitrary: ds)
     (auto simp: upsert_entry_def index_op_def memory_index_def list_index_def list_coll_def split: prod.splits)

lemma sync_memory: "\<exists>ds'. sync_user_tasks memory_index u ts (ds, []) = (Inr (), ds', [])"
  using upsert_entries_memory
  by (auto simp: sync_user_tasks_def Let_def index_op_def memory_index_def list_index_def list_coll_def)

lemma demo_stages5:
  "fst (sync_user_tasks memory_index ''u0'' (sy_tasks (ns_system stage8)) (ns_index stage8)) = Inr ()"
proof -
  have "ns_index stage8 = ([], [])"
    using stage7_frame(1) by (simp add: stage8_def ns_sys_def split: prod.splits)
  then show ?thesis using sync_memory [of "''u0''" "sy_tasks (ns_system stage8)" "[]"] by auto
qed

lemma demo_facts:
  "human_approval_gate_subject demo_mail = False"
  "is_blacklisted_sender (trim (unwrap_or [] (pm_from demo_mail))) (cf_service_addresses demo_service) = False"
  "resolve_inbound_requester demo_inbound demo_mail [] = Inr \<lparr>rq_identifier_type = ''email'', rq_identifier = ''ann@x.org''\<rparr>"
  "lookup_identifier demo_inbound None
     \<lparr>rq_identifier_type = ''email'', rq_identifier = ''ann@x.org''\<rparr> = (''email'', ''ann@x.org'')"
  "select_inbound_service_mailbox (collect_service_address_candidates demo_mail) (ep_address_set (cf_employee demo_service))
     = Some \<lparr>sm_address = ''bot@y.org'', sm_display_name = None\<rparr>"
  "email_thread_key (nb_md5 demo_inbound) demo_mail [] = ''m@x''"
  "map_option trim (or_else (header_message_id demo_mail) (pm_message_id demo_mail)) = Some ''<m@x>''"
  "reply_recipients demo_mail = [''ann@x.org'']"
  "email_message_task_id (nb_md5_uuid demo_inbound) ''m@x'' (Some ''<m@x>'') = Some ''email:m@x:<m@x>''"
  "unat (ts_last_email_seq demo_epoch) = 2"
  by code_simp+

lemma demo_account: "resolved_account demo_inbound None = None"
  "account_for_tasks demo_inbound None r = None"
  by (simp_all add: resolved_account_def account_for_tasks_def demo_inbound_def)

lemma demo_names:
  "cf_users_root demo_service = ''/u''" "cf_skills_source_dir demo_service = None" "ur_user_id demo_user = ''u0''"
  "ts_epoch demo_epoch = 2" "nb_index demo_inbound = memory_index" "co_thread (nb_core demo_inbound) = demo_thread"
  by (simp_all add: demo_service_def demo_user_def demo_epoch_def demo_inbound_def)

lemmas demo_steps =
  demo_stages [THEN pair_of_fst, folded stage1_def, folded stage2_def, folded stage3_def]
  demo_stages2 [THEN pair_of_fst, folded stage4_def]
  demo_stages3 [THEN pair_of_fst, folded stage5_def]
  demo_stages4 [THEN pair_of_fst, folded stage8_def]

lemma demo_handled:
  "\<exists>s'. process_inbound_payload demo_inbound demo_service demo_mail [] None demo_state = (Inr (), s')
     \<and> sy_tasks (ns_system s') = sy_tasks (ns_system stage8)"
proof -
  obtain x where x: "sync_user_tasks memory_index ''u0'' (sy_tasks (ns_system stage8)) (ns_index stage8) = (Inr (), x)"
    using pair_of_fst [OF demo_stages5] by blast
  have "handle_mail demo_inbound demo_service demo_mail [] demo_user
      \<lparr>rq_identifier_type = ''email'', rq_identifier = ''ann@x.org''\<rparr> None
      \<lparr>sm_address = ''bot@y.org'', sm_display_name = None\<rparr> stage2 = (Inr (), stage8\<lparr>ns_index := x\<rparr>)"
    unfolding handle_mail_def demo_facts demo_names demo_paths_def [symmetric] Let_def
    by (simp add: demo_steps step_err_def demo_facts demo_names demo_account x
        stage6_def [symmetric] stage7_def [symmetric] demo_task_of_def [symmetric])
  then have "process_inbound_payload demo_inbound demo_service demo_mail [] None demo_state
      = (Inr (), stage8\<lparr>ns_index := x\<rparr>)"
    unfolding process_inbound_payload_def demo_facts
    by (simp add: demo_facts demo_names demo_paths_def [symmetric] demo_steps step_err_def demo_account Let_def)
  then show ?thesis by simp
qed

theorem handled_mail_has_task_witness:
  "\<exists>s'. process_inbound_payload demo_inbound demo_service demo_mail [] None demo_state = (Inr (), s')
     \<and> (\<exists>t \<in> set (sy_tasks (ns_system s')). t_id t = ''email:m@x:<m@x>'')"
proof -
  obtain s' where p: "process_inbound_payload demo_inbound demo_service demo_mail [] None demo_state = (Inr (), s')"
    using demo_handled by blast
  have st: "task_store (co_store (nb_core demo_inbound)) fst fst"
    using mc.task_store_axioms by (simp add: demo_inbound_def)
  from handled_mail_has_task [OF st p, of "''email:m@x:<m@x>''"] p show ?thesis
    by (auto simp: demo_facts)
qed

text \<open>Its attachment with the name \<open>../../a b\<close> ends in the directory.\<close>

theorem attachments_confined_witness:
  "\<exists>w'. write_attachments demo_inbound ''/w/in'' (unwrap_or [] (pm_attachments demo_mail)) (plain_world [''/w/in''])
       = (Inr (), w')
     \<and> map fst (w_files w') = [''/w/in/a_b''] \<and> map_of (w_files w') ''/w/in/../../a b'' = None"
proof -
  let ?w = "plain_world [''/w/in'']"
  let ?r = "write_attachments demo_inbound ''/w/in'' (unwrap_or [] (pm_attachments demo_mail)) ?w"
  have 1: "fst ?r = Inr ()" by code_simp
  have 2: "map fst (w_files (snd ?r)) = [''/w/in/a_b'']" by code_simp
  have p: "path_parent ''/w/in/../../a b'' \<noteq> Some ''/w/in''" by code_simp
  have "map_of (w_files (snd ?r)) ''/w/in/../../a b'' = map_of (w_files ?w) ''/w/in/../../a b''"
    using attachments_confined [OF pair_of_fst [OF 1] _ _ p] by simp
  then have "map_of (w_files (snd ?r)) ''/w/in/../../a b'' = None" by (simp add: plain_world_def)
  with pair_of_fst [OF 1] 2 show ?thesis by (intro exI conjI)
qed

definition demo_reply :: postmark_mail where
  "demo_reply = demo_mail\<lparr>pm_from := Some ''bob@z.org'', pm_headers := Some
     [\<lparr>ph_name = ''Message-ID'', ph_value = ''<r@z>''\<rparr>, \<lparr>ph_name = ''references'', ph_value = ''<m@x> <q@y>''\<rparr>]\<rparr>"

theorem replies_join_conversation_witness:
  "email_thread_key (\<lambda>s. s) demo_mail ''p'' = ''m@x'' \<and> email_thread_key (\<lambda>s. s) demo_reply ''q'' = ''m@x''"
proof -
  have h: "header_message_id demo_mail = Some ''<m@x>''" "mail_header demo_mail ''References'' = None"
    "mail_header demo_mail ''In-Reply-To'' = None"
    "or_else (mail_header demo_reply ''References'') (mail_header demo_reply ''In-Reply-To'') = Some (''<m@x>'' @ '' <q@y>'')"
    "trim ''<m@x>'' = ''<m@x>''" "normalize_message_id ''<m@x>'' = Some ''m@x''" by code_simp+
  have s: "set ''<m@x>'' \<inter> set id_separators = {}" "hd '' <q@y>'' \<in> set id_separators"
    by (auto simp: id_separators_def)
  from replies_join_conversation [OF h(1-3) s(1) h(5,6,4), of "\<lambda>s. s" "''p''" "''q''"] s(2) show ?thesis by blast
qed

theorem entries_attachment_blocks_mail_witness:
  "\<exists>e. fst (append_inbound_payload demo_inbound ''/u/w'' (demo_mail\<lparr>pm_attachments := Some
     [\<lparr>pa_name = ''<entries>'', pa_content = [], pa_storage_ref = None, pa_content_type = ''text/plain''\<rparr>]\<rparr>) [] 1
     (plain_world [''/u/w''])) = Inl e"
proof -
  let ?a = "\<lparr>pa_name = ''<entries>'', pa_content = [], pa_storage_ref = None, pa_content_type = ''text/plain''\<rparr>"
  let ?p = "demo_mail\<lparr>pm_attachments := Some [?a]\<rparr>"
  have s: "sanitize_token (pa_name ?a) ''attachment'' = ''entries''" by code_simp
  have a: "?a \<in> set (unwrap_or [] (pm_attachments ?p))" by (simp add: unwrap_or_def)
  have w: "starts_with ''/u/w'' ''/''" "\<not> ends_with ''/u/w'' ''/''" by code_simp+
  obtain r w' where r: "append_inbound_payload demo_inbound ''/u/w'' ?p [] 1 (plain_world [''/u/w'']) = (r, w')" by force
  from entries_attachment_blocks_mail [OF this a s w] r show ?thesis by simp
qed

end
