(* ===== verification/Gateway_Routes.thy ===== *)
theory Gateway_Routes
  imports Inbound_Email
begin

text \<open>
  To which employee the gateway hands a message: \<open>employee_config.rs\<close> (the employees and their
  addresses), \<open>bin/inbound_gateway/state.rs\<close> (tables and addresses), \<open>routes.rs\<close> (lookup and
  deduplication keys) and the Slack routes of \<open>handlers.rs\<close>.
\<close>

subsection \<open>Employees\<close>

record employee_entry =
  ee_id :: string
  ee_display_name :: "string option"
  ee_runner :: "string option"
  ee_model :: "string option"
  ee_addresses :: "string list"
  ee_runtime_root :: "string option"
  ee_agents_path :: "string option"
  ee_claude_path :: "string option"
  ee_soul_path :: "string option"
  ee_skills_dir :: "string option"
  ee_discord_enabled :: bool
  ee_slack_enabled :: bool
  ee_bluebubbles_enabled :: bool
  ee_notion_user_id :: "string option"

record employee_file =
  ef_default_employee_id :: "string option"
  ef_employees :: "employee_entry list"

text \<open>\<open>EmployeeProfile\<close> with the fields that only the gateway and the runners read.\<close>

record employee = employee_profile +
  ep_display_name :: "string option"
  ep_runtime_root :: "string option"
  ep_discord_enabled :: bool
  ep_slack_enabled :: bool
  ep_bluebubbles_enabled :: bool
  ep_notion_user_id :: "string option"

record employee_directory =
  dr_employees :: "employee list"
  dr_employee_by_id :: "string \<rightharpoonup> employee"
  dr_default_employee_id :: "string option"
  dr_service_addresses :: "string set"

definition normalize_address :: "string \<Rightarrow> string" where
  "normalize_address address = to_ascii_lowercase (trim address)"

definition matches_address :: "employee \<Rightarrow> string \<Rightarrow> bool" where
  "matches_address e address = (normalize_address address \<in> ep_address_set e)"

definition normalize_runner :: "string option \<Rightarrow> string" where
  "normalize_runner raw = to_ascii_lowercase (trim (unwrap_or ''codex'' raw))"

definition resolve_path :: "string \<Rightarrow> string \<Rightarrow> string" where
  "resolve_path base_dir p = (if path_is_absolute p then p else path_join base_dir p)"

definition non_blank :: "string option \<Rightarrow> string option" where
  "non_blank v = opt_filter (\<lambda>s. s \<noteq> []) (map_option trim v)"

definition load_employee :: "string \<Rightarrow> employee_entry \<Rightarrow> string + employee" where
  "load_employee base_dir entry =
     (if ee_addresses entry = []
      then Inl (''employee '' @ [CHR 0x27] @ ee_id entry @ [CHR 0x27] @ '' must list at least one address'')
      else
        let addresses = filter (\<lambda>a. a \<noteq> []) (map trim (ee_addresses entry)) in
        if addresses = []
        then Inl (''employee '' @ [CHR 0x27] @ ee_id entry @ [CHR 0x27] @ '' has empty addresses'')
        else Inr \<lparr>ep_id = trim (ee_id entry), ep_runner = normalize_runner (ee_runner entry),
                  ep_model = non_blank (ee_model entry), ep_addresses = addresses,
                  ep_address_set = set (map normalize_address addresses),
                  ep_agents_path = map_option (resolve_path base_dir) (ee_agents_path entry),
                  ep_claude_path = map_option (resolve_path base_dir) (ee_claude_path entry),
                  ep_soul_path = map_option (resolve_path base_dir) (ee_soul_path entry),
                  ep_skills_dir = map_option (resolve_path base_dir) (ee_skills_dir entry),
                  ep_display_name = non_blank (ee_display_name entry),
                  ep_runtime_root = map_option (resolve_path base_dir) (ee_runtime_root entry),
                  ep_discord_enabled = ee_discord_enabled entry,
                  ep_slack_enabled = ee_slack_enabled entry,
                  ep_bluebubbles_enabled = ee_bluebubbles_enabled entry,
                  ep_notion_user_id = ee_notion_user_id entry\<rparr>)"

fun load_employees :: "string \<Rightarrow> employee_entry list \<Rightarrow> string + employee list" where
  "load_employees base_dir [] = Inr []"
| "load_employees base_dir (entry # entries) =
     res_bind (load_employee base_dir entry) (\<lambda>e.
     res_bind (load_employees base_dir entries) (\<lambda>es. Inr (e # es)))"

text \<open>\<open>load_employee_directory\<close> on the parsed file, whose directory is \<open>base_dir\<close>.\<close>

definition load_directory :: "string \<Rightarrow> employee_file \<Rightarrow> string + employee_directory" where
  "load_directory base_dir parsed =
     (if ef_employees parsed = [] then Inl ''employee.toml must include at least one employee''
      else
        res_bind (load_employees base_dir (ef_employees parsed)) (\<lambda>employees.
          Inr \<lparr>dr_employees = employees,
               dr_employee_by_id = fold (\<lambda>e m. m(ep_id e \<mapsto> e)) employees Map.empty,
               dr_default_employee_id = ef_default_employee_id parsed,
               dr_service_addresses = (\<Union>e \<in> set employees. ep_address_set e)\<rparr>))"

subsection \<open>The tables of the gateway\<close>

record route_target =
  rt_tenant_id :: "string option"
  rt_employee_id :: string

record route_decision =
  rd_tenant_id :: string
  rd_employee_id :: string

text \<open>\<open>RouteKey\<close>.\<close>

type_synonym route_key = "channel \<times> string"

record route_config =
  rc_channel :: string
  rc_key :: string
  rc_employee_id :: string
  rc_tenant_id :: "string option"

record gateway_defaults =
  gd_tenant_id :: "string option"
  gd_employee_id :: "string option"

record gateway_config =
  gc_defaults :: gateway_defaults
  gc_routes :: "route_key \<rightharpoonup> route_target"
  gc_channel_defaults :: "channel \<rightharpoonup> route_target"

text \<open>\<open>GatewayState\<close> without the queue and the document notifications.\<close>

record gateway_tables =
  gt_config :: gateway_config
  gt_directory :: employee_directory
  gt_address_to_employee :: "string \<rightharpoonup> string"

text \<open>A later employee takes over an address.\<close>

definition build_address_map :: "employee_directory \<Rightarrow> string \<rightharpoonup> string" where
  "build_address_map d =
     fold (\<lambda>e m address. if address \<in> ep_address_set e then Some (ep_id e) else m address)
       (dr_employees d) Map.empty"

definition find_service_address :: "postmark_mail \<Rightarrow> string set \<Rightarrow> string option" where
  "find_service_address p service_addresses =
     map_option sm_address
       (select_inbound_service_mailbox (gateway_address_candidates p) service_addresses)"

definition normalize_route_email :: "string \<Rightarrow> string" where
  "normalize_route_email v = to_ascii_lowercase (trim v)"

definition normalize_phone_number :: "string \<Rightarrow> string" where
  "normalize_phone_number v = filter (\<lambda>c. is_ascii_digit c \<or> c = CHR ''+'') v"

definition normalize_route_key :: "channel \<Rightarrow> string \<Rightarrow> string" where
  "normalize_route_key channel key =
     (let trimmed = trim key in
      if trimmed = ''*'' then ''*''
      else case channel of
          Email \<Rightarrow> normalize_route_email trimmed
        | Sms \<Rightarrow> normalize_phone_number trimmed
        | _ \<Rightarrow> trimmed)"

definition route_error :: "route_config \<Rightarrow> string \<Rightarrow> string" where
  "route_error r e = ''invalid route channel '' @ rc_channel r @ '': '' @ e"

fun normalize_routes ::
    "route_config list \<Rightarrow> (route_key \<rightharpoonup> route_target) \<times> (channel \<rightharpoonup> route_target)
     \<Rightarrow> string + (route_key \<rightharpoonup> route_target) \<times> (channel \<rightharpoonup> route_target)" where
  "normalize_routes [] maps = Inr maps"
| "normalize_routes (r # rs) (m, defaults) =
     res_bind (map_err (route_error r) (channel_from_str (rc_channel r))) (\<lambda>channel.
       let key = normalize_route_key channel (trim (rc_key r));
           target = \<lparr>rt_tenant_id = rc_tenant_id r, rt_employee_id = rc_employee_id r\<rparr> in
       if key = [] then Inl ''route key cannot be empty''
       else if key = ''*'' then normalize_routes rs (m, defaults(channel \<mapsto> target))
       else normalize_routes rs (m((channel, key) \<mapsto> target), defaults))"

subsection \<open>The route of a message\<close>

definition route_decision_from_target :: "route_target \<Rightarrow> gateway_tables \<Rightarrow> route_decision" where
  "route_decision_from_target target g =
     \<lparr>rd_tenant_id = unwrap_or ''default''
        (or_else (rt_tenant_id target) (gd_tenant_id (gc_defaults (gt_config g)))),
      rd_employee_id = rt_employee_id target\<rparr>"

definition default_target :: "gateway_tables \<Rightarrow> string \<Rightarrow> route_target" where
  "default_target g employee_id =
     \<lparr>rt_tenant_id = gd_tenant_id (gc_defaults (gt_config g)), rt_employee_id = employee_id\<rparr>"

definition resolve_route :: "channel \<Rightarrow> string \<Rightarrow> gateway_tables \<Rightarrow> route_decision option" where
  "resolve_route channel route_key g =
     (let normalized_key = normalize_route_key channel route_key; cfg = gt_config g in
      map_option (\<lambda>target. route_decision_from_target target g)
        (or_else (gc_routes cfg (channel, normalized_key))
        (or_else (gc_channel_defaults cfg channel)
        (or_else (if channel = Email
                  then map_option (default_target g) (gt_address_to_employee g normalized_key) else None)
                 (map_option (default_target g) (gd_employee_id (gc_defaults cfg)))))))"

text \<open>
  \<open>md5\<close> is the digest in hexadecimal; without an identifier and without a body a fresh UUID is drawn.
\<close>

definition build_dedupe_key ::
    "(string \<Rightarrow> string) \<Rightarrow> string \<Rightarrow> string \<Rightarrow> channel \<Rightarrow> string option \<Rightarrow> string \<Rightarrow> world \<Rightarrow> string \<times> world" where
  "build_dedupe_key md5 tenant_id employee_id channel external_message_id raw_payload w =
     (let (base, w) =
            (case external_message_id of
               Some i \<Rightarrow> (i, w)
             | None \<Rightarrow> if raw_payload \<noteq> [] then (md5 raw_payload, w) else new_uuid w)
      in (tenant_id @ '':'' @ employee_id @ '':'' @ channel_to_string channel @ '':'' @ base, w))"

subsection \<open>Slack apps\<close>

text \<open>The variable is the identifier in capitals, \<open>-\<close> replaced; text beyond ASCII is left as it is.\<close>

definition slack_app_var :: "string \<Rightarrow> string" where
  "slack_app_var employee_id =
     map (\<lambda>c. if c = CHR ''-'' then CHR ''_'' else c) (map ascii_upper employee_id) @ ''_SLACK_APP_ID''"

definition app_id_matches :: "world \<Rightarrow> string \<Rightarrow> string \<Rightarrow> bool" where
  "app_id_matches w var app_id = (read_non_empty_env w var = Some app_id)"

definition resolve_employee_id_by_slack_app_id :: "world \<Rightarrow> string \<Rightarrow> gateway_tables \<Rightarrow> string option" where
  "resolve_employee_id_by_slack_app_id w api_app_id g =
     (let app_id = trim api_app_id in
      if app_id = [] then None
      else case List.find (\<lambda>e. app_id_matches w (slack_app_var (ep_id e)) app_id)
                  (dr_employees (gt_directory g)) of
          Some e \<Rightarrow> Some (ep_id e)
        | None \<Rightarrow>
            if app_id_matches w ''SLACK_APP_ID'' app_id
            then or_else (gd_employee_id (gc_defaults (gt_config g))) (dr_default_employee_id (gt_directory g))
            else None)"

definition resolve_slack_route :: "world \<Rightarrow> string \<Rightarrow> gateway_tables \<Rightarrow> route_decision option" where
  "resolve_slack_route w api_app_id g =
     (case gc_routes (gt_config g) (Slack, api_app_id) of
        Some target \<Rightarrow> Some (route_decision_from_target target g)
      | None \<Rightarrow>
          (case resolve_employee_id_by_slack_app_id w api_app_id g of
             Some employee_id \<Rightarrow> Some (route_decision_from_target (default_target g employee_id) g)
           | None \<Rightarrow> resolve_route Slack api_app_id g))"

end
