(* ===== verification/Adapters.thy ===== *)
theory Adapters
  imports Mailbox
begin

text \<open>
  The inbound halves of \<open>adapters/\<close>: how the webhook of each platform becomes an
  \<open>InboundMessage\<close>.  A payload is a record with the fields of the source's structure; serde's
  decoding of it, base64, AES and the digests are the fields of \<open>adapter_lib\<close>.
\<close>

datatype adapter_error =
    ParseError string | MissingField string | SendError string | ConfigError string
  | AdapterIo string | AdapterJson string

text \<open>\<open>str::find\<close>: the position of the first occurrence.\<close>

fun str_find :: "string \<Rightarrow> string \<Rightarrow> nat option" where
  "str_find p [] = (if p = [] then Some 0 else None)"
| "str_find p (c # s) =
     (if starts_with (c # s) p then Some 0 else map_option Suc (str_find p s))"

subsection \<open>Payloads\<close>

record slack_file =
  sf_id :: "string option"
  sf_name :: "string option"
  sf_title :: "string option"
  sf_mimetype :: "string option"
  sf_filetype :: "string option"
  sf_url_private :: "string option"
  sf_url_private_download :: "string option"
  sf_size :: "int option"

record slack_event =
  se_type :: string
  se_subtype :: "string option"
  se_channel :: "string option"
  se_user :: "string option"
  se_text :: "string option"
  se_ts :: string
  se_thread_ts :: "string option"
  se_bot_id :: "string option"
  se_app_id :: "string option"
  se_files :: "slack_file list option"
  se_channel_type :: "string option"
  se_event_ts :: "string option"

record slack_wrapper =
  sw_type :: string
  sw_challenge :: "string option"
  sw_token :: "string option"
  sw_team_id :: "string option"
  sw_api_app_id :: "string option"
  sw_event :: "slack_event option"
  sw_event_id :: "string option"
  sw_event_time :: "int option"

record bluebubbles_handle =
  bh_address :: string
  bh_contact_name :: "string option"

record bluebubbles_attachment =
  ba_guid :: "string option"
  ba_transfer_name :: "string option"
  ba_mime_type :: "string option"
  ba_total_bytes :: "int option"

text \<open>Of a chat only its identifier is read.\<close>

record bluebubbles_webhook =
  bb_type :: string
  bb_guid :: string
  bb_text :: "string option"
  bb_is_from_me :: "bool option"
  bb_handle :: "bluebubbles_handle option"
  bb_chats :: "string list option"
  bb_attachments :: "bluebubbles_attachment list option"
  bb_date_created :: "int option"

record telegram_user =
  tu_id :: int
  tu_is_bot :: bool
  tu_first_name :: "string option"
  tu_last_name :: "string option"
  tu_username :: "string option"

record telegram_document =
  td_file_id :: string
  td_file_name :: "string option"
  td_mime_type :: "string option"

text \<open>Of a chat and of a size of a photo only the identifiers are read.\<close>

record telegram_message =
  tm_message_id :: int
  tm_from :: "telegram_user option"
  tm_chat_id :: int
  tm_date :: int
  tm_text :: "string option"
  tm_caption :: "string option"
  tm_photo :: "string list option"
  tm_document :: "telegram_document option"

record telegram_update =
  tg_update_id :: int
  tg_message :: "telegram_message option"
  tg_edited_message :: "telegram_message option"

record whatsapp_interactive =
  wi_button_title :: "string option"
  wi_list_title :: "string option"

record whatsapp_message =
  wm_id :: string
  wm_from :: string
  wm_timestamp :: string
  wm_type :: string
  wm_text :: "string option"
  wm_button :: "string option"
  wm_interactive :: "whatsapp_interactive option"

text \<open>Of a contact only its profile is read, which has a name.\<close>

record whatsapp_change =
  wc_display_phone_number :: "string option"
  wc_contacts :: "string option list option"
  wc_messages :: "whatsapp_message list option"

type_synonym whatsapp_webhook = "whatsapp_change list list"

record lark_sender_id =
  ls_open_id :: "string option"
  ls_name :: "string option"

record lark_message =
  lm_message_id :: string
  lm_chat_id :: string
  lm_content :: string

text \<open>\<open>le_sender\<close> stands for \<open>event.sender.sender_id\<close> with both options in one.\<close>

record lark_event =
  le_sender :: "lark_sender_id option"
  le_message :: "lark_message option"

record lark_header =
  lh_app_id :: "string option"
  lh_tenant_key :: "string option"

record lark_payload =
  lp_header :: "lark_header option"
  lp_event :: "lark_event option"
  lp_encrypt :: "string option"

record wechat_message =
  wx_to_user_name :: string
  wx_from_user_name :: string
  wx_create_time :: int
  wx_msg_type :: string
  wx_content :: string
  wx_msg_id :: string
  wx_agent_id :: int

record wechat_mp_message =
  mp_to_user_name :: string
  mp_from_user_name :: string
  mp_msg_type :: string
  mp_content :: string
  mp_msg_id :: "string option"

text \<open>
  The decoders of serde on the bytes of a request, \<open>str::from_utf8\<close> with the text of its error,
  the two base64 engines, AES-256 in CBC mode without and with PKCS7 padding (key, initial vector,
  data), and the digests.
\<close>

record adapter_lib =
  al_slack :: "string \<Rightarrow> string + slack_wrapper"
  al_postmark :: "string \<Rightarrow> string + postmark_mail"
  al_bluebubbles :: "string \<Rightarrow> string + bluebubbles_webhook"
  al_telegram :: "string \<Rightarrow> string + telegram_update"
  al_whatsapp :: "string \<Rightarrow> string + whatsapp_webhook"
  al_lark :: "string \<Rightarrow> string + lark_payload"
  al_lark_content :: "string \<Rightarrow> string + string"
  al_utf8_error :: "string \<Rightarrow> string option"
  al_base64 :: "string \<Rightarrow> string + string"
  al_base64_lenient :: "string \<Rightarrow> string + string"
  al_aes_cbc :: "string \<Rightarrow> string \<Rightarrow> string \<Rightarrow> string option"
  al_aes_cbc_pkcs7 :: "string \<Rightarrow> string \<Rightarrow> string \<Rightarrow> string + string"
  al_sha256 :: "string \<Rightarrow> string"
  al_md5 :: "string \<Rightarrow> string"

subsection \<open>Slack\<close>

definition is_bot_message :: "string set \<Rightarrow> slack_event \<Rightarrow> bool" where
  "is_bot_message bot_user_ids ev =
     (se_bot_id ev \<noteq> None \<or> (case se_user ev of Some u \<Rightarrow> u \<in> bot_user_ids | None \<Rightarrow> False))"

definition slack_thread_of :: "slack_event \<Rightarrow> string" where
  "slack_thread_of ev = unwrap_or (se_ts ev) (se_thread_ts ev)"

definition normalized_slack_message_subtype :: "string option \<Rightarrow> string option" where
  "normalized_slack_message_subtype subtype = opt_filter (\<lambda>v. v \<noteq> []) (map_option trim subtype)"

definition slack_message_subtype_is_supported_for_inbound :: "string option \<Rightarrow> bool" where
  "slack_message_subtype_is_supported_for_inbound subtype =
     (normalized_slack_message_subtype subtype \<in> set [None, Some ''file_share''])"

definition slack_message :: "string \<Rightarrow> slack_wrapper \<Rightarrow> slack_event \<Rightarrow> string \<Rightarrow> string \<Rightarrow> inbound_message" where
  "slack_message raw_payload wrapper ev sender channel_id =
     \<lparr>im_channel = Slack, im_sender = sender, im_sender_name = None, im_recipient = channel_id,
      im_subject = None, im_text_body = se_text ev, im_html_body = None,
      im_thread_id = slack_thread_of ev, im_message_id = Some (se_ts ev),
      im_attachments = map (\<lambda>f. \<lparr>at_name = unwrap_or [] (sf_name f),
                                 at_content_type = unwrap_or [] (sf_mimetype f), at_content = []\<rparr>)
                         (unwrap_or [] (se_files ev)),
      im_reply_to = [channel_id], im_raw_payload = raw_payload,
      im_metadata = channel_metadata_default\<lparr>cm_slack_channel_id := Some channel_id,
                                             cm_slack_team_id := sw_team_id wrapper\<rparr>\<rparr>"

definition slack_parse :: "adapter_lib \<Rightarrow> string \<Rightarrow> adapter_error + inbound_message" where
  "slack_parse al raw_payload =
     res_bind (map_err ParseError (al_slack al raw_payload)) (\<lambda>wrapper.
       if sw_type wrapper = ''url_verification''
       then Inl (ParseError ''url_verification should be handled separately'')
       else if sw_type wrapper \<noteq> ''event_callback''
       then Inl (ParseError (''unsupported event type: '' @ sw_type wrapper))
       else case sw_event wrapper of
         None \<Rightarrow> Inl (MissingField ''event'')
       | Some ev \<Rightarrow>
           if se_type ev \<noteq> ''message'' \<and> se_type ev \<noteq> ''app_mention''
           then Inl (ParseError (''unsupported event.type: '' @ se_type ev))
           else if \<not> slack_message_subtype_is_supported_for_inbound (se_subtype ev)
           then Inl (ParseError (''ignoring message with unsupported subtype: ''
                   @ unwrap_or ''unknown'' (normalized_slack_message_subtype (se_subtype ev))))
           else (case (se_user ev, se_channel ev) of
               (None, _) \<Rightarrow> Inl (MissingField ''user'')
             | (Some _, None) \<Rightarrow> Inl (MissingField ''channel'')
             | (Some sender, Some channel_id) \<Rightarrow>
                 Inr (slack_message raw_payload wrapper ev sender channel_id)))"

text \<open>The challenge of a URL verification, of which the gateway answers \<open>challenge\<close>.\<close>

definition is_url_verification :: "adapter_lib \<Rightarrow> string \<Rightarrow> string option" where
  "is_url_verification al payload =
     (case al_slack al payload of
        Inl _ \<Rightarrow> None
      | Inr wrapper \<Rightarrow> if sw_type wrapper = ''url_verification'' then sw_challenge wrapper else None)"

subsection \<open>Postmark\<close>

definition extract_display_name :: "string \<Rightarrow> string option" where
  "extract_display_name v =
     (let trimmed = trim v in
      if CHR ''<'' \<notin> set trimmed then None
      else let name = User_Store.trim_matches [CHR 0x22] (trim (takeWhile (\<lambda>c. c \<noteq> CHR ''<'') trimmed))
           in if name = [] then None else Some name)"

text \<open>The addresses of a payload are as in \<open>Mailbox\<close>, of which the adapter has a copy.\<close>

definition postmark_service_address :: "string set \<Rightarrow> postmark_mail \<Rightarrow> string option" where
  "postmark_service_address service_addresses p =
     List.find (\<lambda>email. to_ascii_lowercase email \<in> service_addresses)
       (concat (map extract_emails (collect_service_address_candidates p)))"

definition postmark_message ::
    "adapter_lib \<Rightarrow> string set \<Rightarrow> string \<Rightarrow> postmark_mail \<Rightarrow> string \<Rightarrow> inbound_message" where
  "postmark_message al service_addresses raw_payload p sender =
     \<lparr>im_channel = Email,
      im_sender = unwrap_or sender (nth_opt (extract_emails sender) 0),
      im_sender_name = extract_display_name sender,
      im_recipient = unwrap_or [] (postmark_service_address service_addresses p),
      im_subject = pm_subject p,
      im_text_body = or_else (pm_text_body p) (pm_stripped_text_reply p),
      im_html_body = pm_html_body p,
      im_thread_id = email_thread_key (al_md5 al) p raw_payload,
      im_message_id = map_option trim (or_else (header_message_id p) (pm_message_id p)),
      im_attachments = map (\<lambda>a. \<lparr>at_name = pa_name a, at_content_type = pa_content_type a,
                                 at_content = pa_content a\<rparr>) (unwrap_or [] (pm_attachments p)),
      im_reply_to = reply_recipients p,
      im_raw_payload = raw_payload,
      im_metadata = channel_metadata_default\<lparr>cm_in_reply_to := mail_header p ''In-Reply-To'',
                                             cm_references := mail_header p ''References''\<rparr>\<rparr>"

definition postmark_parse :: "adapter_lib \<Rightarrow> string set \<Rightarrow> string \<Rightarrow> adapter_error + inbound_message" where
  "postmark_parse al service_addresses raw_payload =
     res_bind (map_err ParseError (al_postmark al raw_payload)) (\<lambda>p.
       case opt_filter (\<lambda>s. s \<noteq> []) (map_option trim (pm_from p)) of
         None \<Rightarrow> Inl (MissingField ''From'')
       | Some sender \<Rightarrow> Inr (postmark_message al service_addresses raw_payload p sender))"

subsection \<open>BlueBubbles\<close>

definition bluebubbles_parse :: "adapter_lib \<Rightarrow> string \<Rightarrow> adapter_error + inbound_message" where
  "bluebubbles_parse al raw_payload =
     res_bind (map_err ParseError (al_bluebubbles al raw_payload)) (\<lambda>m.
       if bb_type m \<noteq> ''new-message''
       then Inl (ParseError (''unsupported event type: '' @ bb_type m))
       else if unwrap_or False (bb_is_from_me m)
       then Inl (ParseError ''ignoring outgoing message (is_from_me=true)'')
       else
         let sender = (case bb_handle m of Some h \<Rightarrow> bh_address h | None \<Rightarrow> ''unknown'');
             chat_guid = Option.bind (bb_chats m) (\<lambda>chats. nth_opt chats 0)
         in Inr \<lparr>im_channel = BlueBubbles, im_sender = sender,
              im_sender_name = Option.bind (bb_handle m) bh_contact_name,
              im_recipient = ''bluebubbles'', im_subject = None, im_text_body = bb_text m,
              im_html_body = None, im_thread_id = unwrap_or (bb_guid m) chat_guid,
              im_message_id = Some (bb_guid m),
              im_attachments = map (\<lambda>a. \<lparr>at_name = unwrap_or [] (ba_transfer_name a),
                                         at_content_type = unwrap_or [] (ba_mime_type a),
                                         at_content = []\<rparr>) (unwrap_or [] (bb_attachments m)),
              im_reply_to = [sender], im_raw_payload = raw_payload,
              im_metadata = channel_metadata_default\<lparr>cm_bluebubbles_chat_guid := chat_guid\<rparr>\<rparr>)"

subsection \<open>Telegram\<close>

definition telegram_sender_name :: "telegram_user \<Rightarrow> string option" where
  "telegram_sender_name u =
     (case tu_first_name u of
        Some first \<Rightarrow>
          Some (case tu_last_name u of Some surname \<Rightarrow> first @ '' '' @ surname | None \<Rightarrow> first)
      | None \<Rightarrow> tu_username u)"

text \<open>The largest photo, which is the last, and the document.\<close>

definition telegram_attachments :: "telegram_message \<Rightarrow> attachment list" where
  "telegram_attachments m =
     (case tm_photo m of
        None \<Rightarrow> []
      | Some photos \<Rightarrow>
          if photos = [] then []
          else [\<lparr>at_name = ''photo_'' @ last photos @ ''.jpg'', at_content_type = ''image/jpeg'',
                 at_content = last photos\<rparr>])
     @ (case tm_document m of
          None \<Rightarrow> []
        | Some d \<Rightarrow> [\<lparr>at_name = unwrap_or ''document'' (td_file_name d),
                     at_content_type = unwrap_or ''application/octet-stream'' (td_mime_type d),
                     at_content = td_file_id d\<rparr>])"

text \<open>The gateway's adapter knows no bot of its own (\<open>bot_user_id: None\<close>), so \<open>is_from_bot\<close> is false.\<close>

definition telegram_parse :: "adapter_lib \<Rightarrow> string \<Rightarrow> adapter_error + inbound_message" where
  "telegram_parse al raw_payload =
     res_bind (map_err ParseError (al_telegram al raw_payload)) (\<lambda>update.
       case or_else (tg_message update) (tg_edited_message update) of
         None \<Rightarrow> Inl (ParseError ''no message in update'')
       | Some m \<Rightarrow>
           (case tm_from m of
              None \<Rightarrow> Inl (ParseError ''no sender in message'')
            | Some u \<Rightarrow>
                Inr \<lparr>im_channel = Telegram, im_sender = int_str (tu_id u),
                     im_sender_name = telegram_sender_name u, im_recipient = ''telegram_bot'',
                     im_subject = None, im_text_body = or_else (tm_text m) (tm_caption m),
                     im_html_body = None, im_thread_id = int_str (tm_chat_id m),
                     im_message_id = Some (int_str (tm_message_id m)),
                     im_attachments = telegram_attachments m, im_reply_to = [int_str (tu_id u)],
                     im_raw_payload = raw_payload,
                     im_metadata = channel_metadata_default\<lparr>cm_telegram_chat_id := Some (tm_chat_id m)\<rparr>\<rparr>))"

subsection \<open>WhatsApp\<close>

definition whatsapp_text :: "whatsapp_message \<Rightarrow> string option" where
  "whatsapp_text m =
     or_else (wm_text m) (or_else (wm_button m)
       (Option.bind (wm_interactive m) (\<lambda>i. or_else (wi_button_title i) (wi_list_title i))))"

text \<open>Of a webhook only the first message of the first change of the first entry is taken.\<close>

definition whatsapp_parse :: "adapter_lib \<Rightarrow> string \<Rightarrow> adapter_error + inbound_message" where
  "whatsapp_parse al raw_payload =
     res_bind (map_err ParseError (al_whatsapp al raw_payload)) (\<lambda>entries.
       case nth_opt entries 0 of
         None \<Rightarrow> Inl (ParseError ''no entry in webhook'')
       | Some changes \<Rightarrow>
           (case nth_opt changes 0 of
              None \<Rightarrow> Inl (ParseError ''no changes in entry'')
            | Some change \<Rightarrow>
                (case Option.bind (wc_messages change) (\<lambda>msgs. nth_opt msgs 0) of
                   None \<Rightarrow> Inl (ParseError ''no messages in webhook'')
                 | Some m \<Rightarrow>
                     Inr \<lparr>im_channel = WhatsApp, im_sender = wm_from m,
                          im_sender_name =
                            Option.bind (Option.bind (wc_contacts change) (\<lambda>cs. nth_opt cs 0)) id,
                          im_recipient = unwrap_or [] (wc_display_phone_number change),
                          im_subject = None, im_text_body = whatsapp_text m, im_html_body = None,
                          im_thread_id = ''whatsapp:'' @ wm_from m, im_message_id = Some (wm_id m),
                          im_attachments = [], im_reply_to = [wm_from m], im_raw_payload = raw_payload,
                          im_metadata = channel_metadata_default\<lparr>cm_whatsapp_phone_number := Some (wm_from m)\<rparr>\<rparr>)))"

subsection \<open>Encrypted WeChat messages\<close>

text \<open>\<open>remove_pkcs7_padding\<close>, of which \<open>verify.rs\<close> and both WeChat adapters have a copy.\<close>

definition remove_pkcs7_padding :: "string \<Rightarrow> string + string" where
  "remove_pkcs7_padding data =
     (if data = [] then Inl ''empty_data''
      else
        let padding_len = of_char (last data) :: nat in
        if padding_len = 0 \<or> padding_len > 32 \<or> padding_len > length data then Inl ''invalid_padding''
        else if list_ex (\<lambda>b. (of_char b :: nat) \<noteq> padding_len) (drop (length data - padding_len) data)
        then Inl ''invalid_padding_bytes''
        else Inr (take (length data - padding_len) data))"

definition be_u32 :: "string \<Rightarrow> nat" where
  "be_u32 bytes = foldl (\<lambda>n b. n * 256 + of_char b) 0 bytes"

text \<open>16 random bytes, the length in 4 bytes, the message, the receiver.\<close>

datatype envelope_fault =
    BadKey string | BadKeyLength nat | BadBase64 string | BadCipher | BadPadding string | TooShort
  | LengthMismatch nat nat | BadUtf8

definition unpack_wechat :: "(string \<Rightarrow> string option) \<Rightarrow> string \<Rightarrow> envelope_fault + string" where
  "unpack_wechat utf8_error decrypted =
     res_bind (map_err BadPadding (remove_pkcs7_padding decrypted)) (\<lambda>plain.
       if length plain < 20 then Inl TooShort
       else
         let content = drop 16 plain; msg_len = be_u32 (take 4 content) in
         if length content < 4 + msg_len then Inl (LengthMismatch msg_len (length content - 4))
         else let msg = take msg_len (drop 4 content) in
              if utf8_error msg = None then Inr msg else Inl BadUtf8)"

text \<open>The key is the base64 of \<open>EncodingAESKey + "="\<close>, its first 16 bytes are the initial vector.\<close>

definition decrypt_wechat :: "adapter_lib \<Rightarrow> string \<Rightarrow> string \<Rightarrow> envelope_fault + string" where
  "decrypt_wechat al encoding_aes_key encrypted_base64 =
     res_bind (map_err BadKey (al_base64_lenient al (trim encoding_aes_key @ ''=''))) (\<lambda>aes_key.
       if length aes_key \<noteq> 32 then Inl (BadKeyLength (length aes_key))
       else
         res_bind (map_err BadBase64 (al_base64 al encrypted_base64)) (\<lambda>encrypted.
           case al_aes_cbc al aes_key (take 16 aes_key) encrypted of
             None \<Rightarrow> Inl BadCipher
           | Some decrypted \<Rightarrow> unpack_wechat (al_utf8_error al) decrypted))"

text \<open>The texts of the two adapters for these faults.\<close>

fun envelope_error :: "envelope_fault \<Rightarrow> adapter_error" where
  "envelope_error (BadKey e) = ParseError (''invalid encoding_aes_key: '' @ e)"
| "envelope_error (BadKeyLength n) =
     ParseError (''invalid aes key length: '' @ nat_str n @ '' (expected 32)'')"
| "envelope_error (BadBase64 e) = ParseError (''invalid base64: '' @ e)"
| "envelope_error BadCipher = ParseError ''decryption failed''"
| "envelope_error (BadPadding e) = ParseError (''padding error: '' @ e)"
| "envelope_error TooShort = ParseError ''decrypted content too short''"
| "envelope_error (LengthMismatch expected have) =
     ParseError (''msg length mismatch: expected '' @ nat_str expected @ '', have '' @ nat_str have)"
| "envelope_error BadUtf8 = ParseError ''invalid utf8 in decrypted message''"

definition decrypt_wechat_message ::
    "adapter_lib \<Rightarrow> (string \<Rightarrow> string option) \<Rightarrow> string \<Rightarrow> string \<Rightarrow> adapter_error + string" where
  "decrypt_wechat_message al env key_var xml =
     (case after_first ''<Encrypt><![CDATA['' xml of
        None \<Rightarrow> Inl (ParseError ''missing Encrypt tag'')
      | Some rest \<Rightarrow>
          (case str_find '']]></Encrypt>'' rest of
             None \<Rightarrow> Inl (ParseError ''malformed Encrypt tag'')
           | Some content_end \<Rightarrow>
               (case env key_var of
                  None \<Rightarrow> Inl (ConfigError (key_var @ '' not set''))
                | Some key \<Rightarrow> map_err envelope_error (decrypt_wechat al key (take content_end rest)))))"

subsection \<open>WeChat Work\<close>

text \<open>
  \<open>extract_cdata\<close> and \<open>extract_value\<close> slice the text between the first opening and the first
  closing tag of the whole text, and the slice panics when the closing tag comes first.
\<close>

datatype 'a run = Panics | Returns 'a

definition slice_tag :: "string \<Rightarrow> string \<Rightarrow> string option run" where
  "slice_tag xml tag =
     (case str_find (''<'' @ tag @ ''>'') xml of
        None \<Rightarrow> Returns None
      | Some p \<Rightarrow>
          let start = p + length tag + 2 in
          (case str_find (''</'' @ tag @ ''>'') xml of
             None \<Rightarrow> Returns None
           | Some stop \<Rightarrow>
               if start \<le> stop then Returns (Some (take (stop - start) (drop start xml))) else Panics))"

definition strip_cdata :: "string \<Rightarrow> string" where
  "strip_cdata content =
     (if starts_with content ''<![CDATA['' \<and> ends_with content '']]>''
      then take (length content - 12) (drop 9 content) else trim content)"

fun run_bind :: "'a run \<Rightarrow> ('a \<Rightarrow> 'b run) \<Rightarrow> 'b run" where
  "run_bind Panics f = Panics"
| "run_bind (Returns x) f = f x"

definition run_require :: "string \<Rightarrow> 'a option run \<Rightarrow> ('a \<Rightarrow> (adapter_error + 'b) run) \<Rightarrow> (adapter_error + 'b) run" where
  "run_require name r f =
     run_bind r (\<lambda>x. case x of None \<Rightarrow> Returns (Inl (MissingField name)) | Some v \<Rightarrow> f v)"

definition parse_wechat_xml :: "string \<Rightarrow> (adapter_error + wechat_message) run" where
  "parse_wechat_xml xml =
     run_require ''ToUserName'' (slice_tag xml ''ToUserName'') (\<lambda>to_user.
     run_require ''FromUserName'' (slice_tag xml ''FromUserName'') (\<lambda>from_user.
     run_bind (slice_tag xml ''CreateTime'') (\<lambda>create_time.
     run_require ''MsgType'' (slice_tag xml ''MsgType'') (\<lambda>msg_type.
     run_bind (slice_tag xml ''Content'') (\<lambda>content.
     run_bind (slice_tag xml ''MsgId'') (\<lambda>msg_id.
     run_bind (slice_tag xml ''AgentID'') (\<lambda>agent_id.
       Returns (Inr
         \<lparr>wx_to_user_name = strip_cdata to_user, wx_from_user_name = strip_cdata from_user,
          wx_create_time = unwrap_or 0 (Option.bind create_time (\<lambda>s. parse_i64 (trim s))),
          wx_msg_type = strip_cdata msg_type,
          wx_content = unwrap_or [] (map_option strip_cdata content),
          wx_msg_id = unwrap_or [] (map_option trim msg_id),
          wx_agent_id = unwrap_or 0 (Option.bind agent_id (\<lambda>s. parse_i64 (trim s)))\<rparr>))))))))"

definition is_encrypted_wechat_message :: "string \<Rightarrow> bool" where
  "is_encrypted_wechat_message xml = str_contains xml ''<Encrypt>''"

definition wechat_inbound :: "string \<Rightarrow> wechat_message \<Rightarrow> inbound_message" where
  "wechat_inbound raw_payload m =
     \<lparr>im_channel = WeChat, im_sender = wx_from_user_name m, im_sender_name = None,
      im_recipient = wx_to_user_name m, im_subject = None, im_text_body = Some (wx_content m),
      im_html_body = None,
      im_thread_id = ''wechat:'' @ wx_to_user_name m @ '':'' @ wx_from_user_name m,
      im_message_id = Some (wx_msg_id m), im_attachments = [], im_reply_to = [wx_from_user_name m],
      im_raw_payload = raw_payload,
      im_metadata = channel_metadata_default
        \<lparr>cm_wechat_corp_id := Some (wx_to_user_name m), cm_wechat_user_id := Some (wx_from_user_name m),
         cm_wechat_agent_id := Some (int_str (wx_agent_id m))\<rparr>\<rparr>"

definition wechat_parse ::
    "adapter_lib \<Rightarrow> (string \<Rightarrow> string option) \<Rightarrow> string \<Rightarrow> (adapter_error + inbound_message) run" where
  "wechat_parse al env raw_payload =
     (case al_utf8_error al raw_payload of
        Some e \<Rightarrow> Returns (Inl (ParseError (''invalid UTF-8: '' @ e)))
      | None \<Rightarrow>
          (case (if is_encrypted_wechat_message raw_payload
                 then decrypt_wechat_message al env ''WECHAT_ENCODING_AES_KEY'' raw_payload
                 else Inr raw_payload) of
             Inl e \<Rightarrow> Returns (Inl e)
           | Inr xml \<Rightarrow>
               run_bind (parse_wechat_xml xml) (\<lambda>r. Returns (res_bind r (\<lambda>m.
                 if wx_msg_type m \<noteq> ''text''
                 then Inl (ParseError (''unsupported message type: '' @ wx_msg_type m))
                 else Inr (wechat_inbound raw_payload m))))))"

subsection \<open>WeChat official accounts\<close>

text \<open>What stands between \<open>open\<close> and the first \<open>close\<close> after it.\<close>

definition between :: "string \<Rightarrow> string \<Rightarrow> string \<Rightarrow> string option" where
  "between open_tag close_tag xml =
     Option.bind (after_first open_tag xml) (\<lambda>rest. map_option (\<lambda>n. take n rest) (str_find close_tag rest))"

definition extract_xml_tag :: "string \<Rightarrow> string \<Rightarrow> string option" where
  "extract_xml_tag xml tag =
     or_else (between (''<'' @ tag @ ''><![CDATA['') ('']]></'' @ tag @ ''>'') xml)
       (map_option trim (between (''<'' @ tag @ ''>'') (''</'' @ tag @ ''>'') xml))"

definition parse_wechat_mp_xml :: "string \<Rightarrow> adapter_error + wechat_mp_message" where
  "parse_wechat_mp_xml xml =
     (case extract_xml_tag xml ''ToUserName'' of
        None \<Rightarrow> Inl (MissingField ''ToUserName'')
      | Some to_user \<Rightarrow>
          (case extract_xml_tag xml ''FromUserName'' of
             None \<Rightarrow> Inl (MissingField ''FromUserName'')
           | Some from_user \<Rightarrow>
               (case extract_xml_tag xml ''MsgType'' of
                  None \<Rightarrow> Inl (MissingField ''MsgType'')
                | Some msg_type \<Rightarrow>
                    Inr \<lparr>mp_to_user_name = to_user, mp_from_user_name = from_user,
                         mp_msg_type = to_lowercase msg_type,
                         mp_content = unwrap_or [] (extract_xml_tag xml ''Content''),
                         mp_msg_id = extract_xml_tag xml ''MsgId''\<rparr>)))"

definition wechat_mp_inbound :: "string \<Rightarrow> wechat_mp_message \<Rightarrow> inbound_message" where
  "wechat_mp_inbound raw_payload m =
     \<lparr>im_channel = WeChatMp, im_sender = mp_from_user_name m, im_sender_name = None,
      im_recipient = mp_to_user_name m, im_subject = None, im_text_body = Some (mp_content m),
      im_html_body = None,
      im_thread_id = ''wechat_mp:'' @ mp_to_user_name m @ '':'' @ mp_from_user_name m,
      im_message_id = mp_msg_id m, im_attachments = [], im_reply_to = [mp_from_user_name m],
      im_raw_payload = raw_payload,
      im_metadata = channel_metadata_default
        \<lparr>cm_wechat_mp_app_id := Some (mp_to_user_name m), cm_wechat_mp_open_id := Some (mp_from_user_name m),
         cm_wechat_mp_msg_type := Some (mp_msg_type m)\<rparr>\<rparr>"

definition wechat_mp_parse ::
    "adapter_lib \<Rightarrow> (string \<Rightarrow> string option) \<Rightarrow> string \<Rightarrow> adapter_error + inbound_message" where
  "wechat_mp_parse al env raw_payload =
     (case al_utf8_error al raw_payload of
        Some e \<Rightarrow> Inl (ParseError (''invalid UTF-8: '' @ e))
      | None \<Rightarrow>
          res_bind (if str_contains raw_payload ''<Encrypt>''
                    then decrypt_wechat_message al env ''WECHAT_MP_ENCODING_AES_KEY'' raw_payload
                    else Inr raw_payload) (\<lambda>xml.
          res_bind (parse_wechat_mp_xml xml) (\<lambda>m.
            if mp_msg_type m \<noteq> ''text''
            then Inl (ParseError (''unsupported message type: '' @ mp_msg_type m))
            else Inr (wechat_mp_inbound raw_payload m))))"

subsection \<open>Lark\<close>

definition lark_decrypt_payload :: "adapter_lib \<Rightarrow> string \<Rightarrow> string \<Rightarrow> adapter_error + string" where
  "lark_decrypt_payload al encrypted encrypt_key =
     res_bind (map_err (\<lambda>e. ParseError (''invalid base64: '' @ e)) (al_base64 al encrypted)) (\<lambda>bytes.
       if length bytes < 16 then Inl (ParseError ''encrypted data too short'')
       else map_err (\<lambda>e. ParseError (''decryption failed: '' @ e))
              (al_aes_cbc_pkcs7 al (al_sha256 al encrypt_key) (take 16 bytes) (drop 16 bytes)))"

definition lark_open_payload ::
    "adapter_lib \<Rightarrow> (string \<Rightarrow> string option) \<Rightarrow> lark_payload \<Rightarrow> adapter_error + lark_payload" where
  "lark_open_payload al env payload =
     (case lp_encrypt payload of
        None \<Rightarrow> Inr payload
      | Some encrypted \<Rightarrow>
          (case env ''LARK_ENCRYPT_KEY'' of
             None \<Rightarrow> Inl (ConfigError ''LARK_ENCRYPT_KEY required for encrypted payloads'')
           | Some encrypt_key \<Rightarrow>
               res_bind (lark_decrypt_payload al encrypted encrypt_key) (\<lambda>decrypted.
                 map_err (\<lambda>e. ParseError (''invalid decrypted JSON: '' @ e)) (al_lark al decrypted))))"

definition lark_parse ::
    "adapter_lib \<Rightarrow> (string \<Rightarrow> string option) \<Rightarrow> string \<Rightarrow> adapter_error + inbound_message" where
  "lark_parse al env raw_payload =
     res_bind (map_err (\<lambda>e. ParseError (''invalid JSON: '' @ e)) (al_lark al raw_payload)) (\<lambda>payload.
     res_bind (lark_open_payload al env payload) (\<lambda>payload.
       case lp_event payload of
         None \<Rightarrow> Inl (ParseError ''not a message event'')
       | Some ev \<Rightarrow>
           (case le_message ev of
              None \<Rightarrow> Inl (ParseError ''not a message event'')
            | Some m \<Rightarrow>
                res_bind (map_err (\<lambda>e. ParseError (''invalid message content: '' @ e))
                            (al_lark_content al (lm_content m))) (\<lambda>body.
                  let sender_id = unwrap_or [] (Option.bind (le_sender ev) ls_open_id) in
                  Inr \<lparr>im_channel = Lark, im_sender = sender_id,
                       im_sender_name = Option.bind (le_sender ev) ls_name,
                       im_recipient = lm_chat_id m, im_subject = None, im_text_body = Some body,
                       im_html_body = None,
                       im_thread_id = ''lark:'' @ lm_chat_id m @ '':'' @ sender_id,
                       im_message_id = Some (lm_message_id m), im_attachments = [],
                       im_reply_to = [sender_id], im_raw_payload = raw_payload,
                       im_metadata = channel_metadata_default
                         \<lparr>cm_lark_app_id := Option.bind (lp_header payload) lh_app_id,
                          cm_lark_tenant_key := Option.bind (lp_header payload) lh_tenant_key,
                          cm_lark_open_id := Some sender_id, cm_lark_chat_id := Some (lm_chat_id m),
                          cm_lark_message_id := Some (lm_message_id m)\<rparr>\<rparr>))))"

end
