(* ===== verification/Json_Value.thy ===== *)
theory Json_Value
  imports World
begin

text \<open>
  \<open>serde_json::Value\<close> as far as the gateway reads and edits untyped JSON.  A number is its text.  An
  object is the list of its members, each name once; the order in which it is printed is
  serde's.  The parser and the printer are parameters.
\<close>

datatype json =
    JNull
  | JBool bool
  | JNumber string
  | JString string
  | JArray "json list"
  | JObject "(string \<times> json) list"

record json_lib =
  jl_parse :: "string \<Rightarrow> string + json"
  jl_print :: "json \<Rightarrow> string + string"

fun json_get :: "json \<Rightarrow> string \<Rightarrow> json option" where
  "json_get (JObject ms) key = map_of ms key"
| "json_get _ key = None"

fun as_str :: "json \<Rightarrow> string option" where
  "as_str (JString s) = Some s"
| "as_str _ = None"

definition json_str :: "json \<Rightarrow> string \<Rightarrow> string option" where
  "json_str j key = Option.bind (json_get j key) as_str"

fun json_insert :: "string \<Rightarrow> json \<Rightarrow> json \<Rightarrow> json" where
  "json_insert key v (JObject ms) = JObject (AList.update key v ms)"
| "json_insert key v j = j"

lemma json_get_insert [simp]:
  "json_get (json_insert key v (JObject ms)) key' = (if key' = key then Some v else json_get (JObject ms) key')"
  by (simp add: update_conv')

end
