(* ===== verification/Gateway_Verify.thy ===== *)
theory Gateway_Verify
  imports Adapters Json_Value Ingestion_Queue "HOL-Library.Char_ord" "HOL-Library.List_Lexorder"
begin

text \<open>
  \<open>bin/inbound_gateway/verify.rs\<close>: which requests the gateway believes.  The digests, the codecs and
  the clock are the fields of \<open>verify_lib\<close>; an HMAC takes a key of every length, so the error
  \<open>bad_secret\<close> does not occur.  A header is looked up without regard to case, and its value counts only
  when it is visible ASCII (\<open>to_str\<close>).
\<close>

type_synonym headers = "(string \<times> string) list"

definition visible_ascii :: "string \<Rightarrow> bool" where
  "visible_ascii v = list_all (\<lambda>c. let n = of_char c :: nat in n = 9 \<or> 32 \<le> n \<and> n < 127) v"

definition header_str :: "headers \<Rightarrow> string \<Rightarrow> string option" where
  "header_str headers name =
     opt_filter visible_ascii
       (map_option snd (List.find (\<lambda>h. eq_ignore_ascii_case (fst h) name) headers))"

definition ok_or :: "'a option \<Rightarrow> string \<Rightarrow> string + 'a" where
  "ok_or v e = (case v of Some x \<Rightarrow> Inr x | None \<Rightarrow> Inl e)"

definition ensure :: "bool \<Rightarrow> string \<Rightarrow> string + unit" where
  "ensure ok e = (if ok then Inr () else Inl e)"

record verify_lib =
  vl_hmac_sha256 :: "string \<Rightarrow> string \<Rightarrow> string"
  vl_hmac_sha1 :: "string \<Rightarrow> string \<Rightarrow> string"
  vl_sha1 :: "string \<Rightarrow> string"
  vl_sha256 :: "string \<Rightarrow> string"
  vl_base64 :: "string \<Rightarrow> string"
  vl_lossy :: "string \<Rightarrow> string"
  vl_utf8_error :: "string \<Rightarrow> string option"
  vl_form :: "string \<Rightarrow> (string \<times> string) list option"
  vl_json :: json_lib
  vl_adapters :: adapter_lib

definition hex_digit :: "nat \<Rightarrow> char" where
  "hex_digit n = (if n < 10 then char_of (48 + n) else char_of (87 + n))"

definition hex_encode :: "string \<Rightarrow> string" where
  "hex_encode bytes = concat (map (\<lambda>b. [hex_digit (of_char b div 16), hex_digit (of_char b mod 16)]) bytes)"

subsection \<open>Slack\<close>

text \<open>
  The age of a request in \<open>i64\<close>.  The subtraction and \<open>abs\<close> wrap around, as in a release build; a
  debug build panics instead.
\<close>

definition wrap_i64 :: "int \<Rightarrow> int" where
  "wrap_i64 n = sint (word_of_int n :: 64 word)"

definition slack_age :: "int \<Rightarrow> int \<Rightarrow> int" where
  "slack_age now timestamp = wrap_i64 \<bar>wrap_i64 (now - timestamp)\<bar>"

definition slack_signature :: "verify_lib \<Rightarrow> string \<Rightarrow> string \<Rightarrow> string \<Rightarrow> string" where
  "slack_signature vl secret timestamp body =
     ''v0='' @ hex_encode (vl_hmac_sha256 vl secret (''v0:'' @ timestamp @ '':'' @ vl_lossy vl body))"

text \<open>\<open>now\<close> are the seconds since 1970.\<close>

definition verify_slack :: "verify_lib \<Rightarrow> world \<Rightarrow> int \<Rightarrow> headers \<Rightarrow> string \<Rightarrow> string + unit" where
  "verify_slack vl w now headers body =
     (case env_non_blank w ''SLACK_SIGNING_SECRET'' of
        None \<Rightarrow> Inr ()
      | Some secret \<Rightarrow>
          res_bind (ok_or (header_str headers ''x-slack-signature'') ''missing_signature'') (\<lambda>signature.
          res_bind (ok_or (header_str headers ''x-slack-request-timestamp'') ''missing_timestamp'') (\<lambda>timestamp.
          res_bind (ok_or (parse_i64 timestamp) ''invalid_timestamp'') (\<lambda>timestamp_value.
          res_bind (ensure (slack_age now timestamp_value \<le> 300) ''stale_timestamp'') (\<lambda>_.
            ensure (slack_signature vl secret timestamp body = signature) ''invalid_signature'')))))"

subsection \<open>Tokens\<close>

definition verify_token :: "world \<Rightarrow> string \<Rightarrow> string \<Rightarrow> headers \<Rightarrow> string + unit" where
  "verify_token w var header headers =
     (case env_non_blank w var of
        None \<Rightarrow> Inr ()
      | Some token \<Rightarrow>
          res_bind (ok_or (header_str headers header) ''missing_token'') (\<lambda>provided.
            ensure (provided = token) ''invalid_token''))"

definition verify_postmark :: "world \<Rightarrow> headers \<Rightarrow> string + unit" where
  "verify_postmark w headers = verify_token w ''POSTMARK_INBOUND_TOKEN'' ''x-postmark-token'' headers"

definition verify_bluebubbles :: "world \<Rightarrow> headers \<Rightarrow> string + unit" where
  "verify_bluebubbles w headers = verify_token w ''BLUEBUBBLES_WEBHOOK_TOKEN'' ''x-bluebubbles-token'' headers"

subsection \<open>Twilio and Notion\<close>

text \<open>Of a repeated parameter the map keeps the last value; the names are sorted by their bytes.\<close>

definition twilio_data :: "string \<Rightarrow> (string \<times> string) list \<Rightarrow> string" where
  "twilio_data url params =
     url @ concat (map (\<lambda>key. key @ the (map_of (rev params) key)) (sort (remdups (map fst params))))"

definition verify_twilio :: "verify_lib \<Rightarrow> world \<Rightarrow> headers \<Rightarrow> string \<Rightarrow> string + unit" where
  "verify_twilio vl w headers body =
     (case (env_non_blank w ''TWILIO_AUTH_TOKEN'', env_non_blank w ''TWILIO_WEBHOOK_URL'') of
        (Some token, Some url) \<Rightarrow>
          res_bind (ok_or (header_str headers ''x-twilio-signature'') ''missing_signature'') (\<lambda>signature.
          res_bind (ok_or (vl_form vl body) ''bad_form'') (\<lambda>params.
            ensure (vl_base64 vl (vl_hmac_sha1 vl token (twilio_data url params)) = signature) ''invalid_signature''))
      | _ \<Rightarrow> Inr ())"

definition verify_notion :: "verify_lib \<Rightarrow> world \<Rightarrow> headers \<Rightarrow> string \<Rightarrow> string + unit" where
  "verify_notion vl w headers body =
     (case env_non_blank w ''NOTION_WEBHOOK_SECRET'' of
        None \<Rightarrow> Inr ()
      | Some secret \<Rightarrow>
          res_bind (ok_or (header_str headers ''x-notion-signature'') ''missing_signature'') (\<lambda>signature.
          res_bind (ensure (starts_with signature ''v0='') ''invalid_signature_format'') (\<lambda>_.
            ensure (''v0='' @ hex_encode (vl_hmac_sha256 vl secret body) = signature) ''invalid_signature'')))"

subsection \<open>WhatsApp\<close>

definition verify_whatsapp_subscription ::
    "world \<Rightarrow> string option \<Rightarrow> string option \<Rightarrow> string option \<Rightarrow> string + string" where
  "verify_whatsapp_subscription w mode token challenge =
     (case env_non_blank w ''WHATSAPP_VERIFY_TOKEN'' of
        None \<Rightarrow> Inl ''verify_token_not_configured''
      | Some expected \<Rightarrow>
          res_bind (ensure (mode = Some ''subscribe'') ''invalid_mode'') (\<lambda>_.
          res_bind (ok_or token ''missing_token'') (\<lambda>provided_token.
          res_bind (ensure (provided_token = expected) ''token_mismatch'') (\<lambda>_.
            ok_or challenge ''missing_challenge''))))"

subsection \<open>WeChat\<close>

definition sha1_of_sorted_parts :: "verify_lib \<Rightarrow> string list \<Rightarrow> string" where
  "sha1_of_sorted_parts vl parts = hex_encode (vl_sha1 vl (concat (sort parts)))"

fun echostr_error :: "envelope_fault \<Rightarrow> string" where
  "echostr_error (BadKey e) = ''invalid_encoding_aes_key''"
| "echostr_error (BadKeyLength n) = ''invalid_aes_key_length''"
| "echostr_error (BadBase64 e) = ''invalid_echostr_base64''"
| "echostr_error BadCipher = ''decryption_failed''"
| "echostr_error (BadPadding e) = e"
| "echostr_error TooShort = ''decrypted_too_short''"
| "echostr_error (LengthMismatch n m) = ''msg_length_mismatch''"
| "echostr_error BadUtf8 = ''invalid_utf8''"

definition decrypt_wechat_echostr :: "verify_lib \<Rightarrow> string \<Rightarrow> string \<Rightarrow> string + string" where
  "decrypt_wechat_echostr vl echostr encoding_aes_key =
     map_err echostr_error (decrypt_wechat (vl_adapters vl) encoding_aes_key echostr)"

definition verify_wechat_with_env ::
    "verify_lib \<Rightarrow> world \<Rightarrow> string \<Rightarrow> string \<Rightarrow> string option \<Rightarrow> string option \<Rightarrow> string option \<Rightarrow> string option
     \<Rightarrow> string + string" where
  "verify_wechat_with_env vl w token_env_var encoding_key_env_var msg_signature timestamp nonce echostr =
     (case env_non_blank w token_env_var of
        None \<Rightarrow> ok_or echostr ''missing_echostr''
      | Some token \<Rightarrow>
          res_bind (ok_or msg_signature ''missing_signature'') (\<lambda>signature.
          res_bind (ok_or timestamp ''missing_timestamp'') (\<lambda>timestamp.
          res_bind (ok_or nonce ''missing_nonce'') (\<lambda>nonce.
          res_bind (ok_or echostr ''missing_echostr'') (\<lambda>echostr.
          res_bind (ensure (sha1_of_sorted_parts vl [token, timestamp, nonce, echostr] = signature)
                      ''invalid_signature'') (\<lambda>_.
            case env_non_blank w encoding_key_env_var of
              Some aes_key \<Rightarrow> decrypt_wechat_echostr vl echostr aes_key
            | None \<Rightarrow> Inr echostr))))))"

definition verify_wechat ::
    "verify_lib \<Rightarrow> world \<Rightarrow> string option \<Rightarrow> string option \<Rightarrow> string option \<Rightarrow> string option \<Rightarrow> string + string" where
  "verify_wechat vl w = verify_wechat_with_env vl w ''WECHAT_TOKEN'' ''WECHAT_ENCODING_AES_KEY''"

definition verify_wechat_mp ::
    "verify_lib \<Rightarrow> world \<Rightarrow> string option \<Rightarrow> string option \<Rightarrow> string option \<Rightarrow> string option \<Rightarrow> string + string" where
  "verify_wechat_mp vl w signature timestamp nonce echostr =
     (case env_non_blank w ''WECHAT_MP_TOKEN'' of
        None \<Rightarrow> ok_or echostr ''missing_echostr''
      | Some token \<Rightarrow>
          res_bind (ok_or signature ''missing_signature'') (\<lambda>signature.
          res_bind (ok_or timestamp ''missing_timestamp'') (\<lambda>timestamp.
          res_bind (ok_or nonce ''missing_nonce'') (\<lambda>nonce.
          res_bind (ok_or echostr ''missing_echostr'') (\<lambda>echostr.
          res_bind (ensure (sha1_of_sorted_parts vl [token, timestamp, nonce] = signature) ''invalid_signature'') (\<lambda>_.
            Inr echostr))))))"

definition extract_encrypt_field :: "string \<Rightarrow> string option" where
  "extract_encrypt_field xml =
     or_else (between ''<Encrypt><![CDATA['' '']]></Encrypt>'' xml)
       (map_option trim (between ''<Encrypt>'' ''</Encrypt>'' xml))"

definition verify_wechat_mp_message ::
    "verify_lib \<Rightarrow> world \<Rightarrow> string option \<Rightarrow> string option \<Rightarrow> string option \<Rightarrow> string option \<Rightarrow> string
     \<Rightarrow> string + unit" where
  "verify_wechat_mp_message vl w signature msg_signature timestamp nonce body =
     (case env_non_blank w ''WECHAT_MP_TOKEN'' of
        None \<Rightarrow> Inr ()
      | Some token \<Rightarrow>
          res_bind (ok_or timestamp ''missing_timestamp'') (\<lambda>timestamp.
          res_bind (ok_or nonce ''missing_nonce'') (\<lambda>nonce.
          res_bind (ensure (vl_utf8_error vl body = None) ''invalid_body_utf8'') (\<lambda>_.
            case extract_encrypt_field body of
              Some encrypt \<Rightarrow>
                res_bind (ok_or msg_signature ''missing_msg_signature'') (\<lambda>provided.
                  ensure (sha1_of_sorted_parts vl [token, timestamp, nonce, encrypt] = provided) ''invalid_signature'')
            | None \<Rightarrow>
                res_bind (ok_or signature ''missing_signature'') (\<lambda>provided.
                  ensure (sha1_of_sorted_parts vl [token, timestamp, nonce] = provided) ''invalid_signature'')))))"

subsection \<open>Lark\<close>

text \<open>A body that is not UTF-8 is digested as the empty text.\<close>

definition lark_signature :: "verify_lib \<Rightarrow> string \<Rightarrow> string \<Rightarrow> string \<Rightarrow> string \<Rightarrow> string" where
  "lark_signature vl encrypt_key timestamp nonce body =
     hex_encode (vl_sha256 vl (timestamp @ nonce @ encrypt_key
       @ (if vl_utf8_error vl body = None then body else [])))"

definition verify_lark :: "verify_lib \<Rightarrow> world \<Rightarrow> headers \<Rightarrow> string \<Rightarrow> string + unit" where
  "verify_lark vl w headers body =
     (case env_non_blank w ''LARK_ENCRYPT_KEY'' of
        None \<Rightarrow> Inr ()
      | Some encrypt_key \<Rightarrow>
          res_bind (ok_or (header_str headers ''X-Lark-Request-Timestamp'') ''missing_timestamp'') (\<lambda>timestamp.
          res_bind (ok_or (header_str headers ''X-Lark-Request-Nonce'') ''missing_nonce'') (\<lambda>nonce.
          res_bind (ok_or (header_str headers ''X-Lark-Signature'') ''missing_signature'') (\<lambda>signature.
            ensure (lark_signature vl encrypt_key timestamp nonce body = signature) ''invalid_signature''))))"

definition verify_lark_challenge :: "verify_lib \<Rightarrow> string \<Rightarrow> string option" where
  "verify_lark_challenge vl body =
     (case jl_parse (vl_json vl) body of
        Inl _ \<Rightarrow> None
      | Inr payload \<Rightarrow>
          if json_str payload ''type'' = Some ''url_verification'' then json_str payload ''challenge''
          else if json_get payload ''token'' \<noteq> None then json_str payload ''challenge''
          else None)"

end
