(* ===== verification/Payload_Store.thy ===== *)
theory Payload_Store
  imports Mailbox Ingestion_Queue Inbound_Email
begin

text \<open>
  \<open>raw_payload_store.rs\<close>: where the gateway leaves the bytes of a request and the attachments of a
  mail for the worker: Azure Blob Storage, Supabase storage or local files.  Each upload exists as
  an asynchronous and a blocking function of one body, which is modelled once.  The HTTP client and
  the Azure SDK are the parameter \<open>http_lib\<close> on an opaque state of the network.
\<close>

datatype payload_error =
    MissingProjectUrl | MissingServiceKey | InvalidReference string | PayloadStorage string
  | PayloadHttp string | MissingAzureConfig | MissingLocalRoot

record http_request =
  hq_method :: string
  hq_url :: string
  hq_headers :: "(string \<times> string) list"
  hq_body :: string

text \<open>
  \<open>hl_send\<close> gives the status and the body of an answer or the error of the connection,
  \<open>hl_key_get\<close> reads a blob with the key of an account (account, key, container, path), \<open>hl_date\<close> is
  chrono's format \<open>%Y/%m/%d\<close>.
\<close>

record 'h http_lib =
  hl_send :: "http_request \<Rightarrow> 'h \<Rightarrow> (string + nat \<times> string) \<times> 'h"
  hl_key_get :: "string \<Rightarrow> string \<Rightarrow> string \<Rightarrow> string \<Rightarrow> 'h \<Rightarrow> (string + string) \<times> 'h"
  hl_bucket_json :: "string \<Rightarrow> string"
  hl_date :: "datetime \<Rightarrow> string"

text \<open>The machine, the network, and the process-wide \<open>BUCKET_READY\<close>.\<close>

record 'h payload_state =
  ps_world :: world
  ps_net :: 'h
  ps_bucket_ready :: bool

type_synonym ('h, 'a) payload_result = "(payload_error + 'a) \<times> 'h payload_state"

definition is_success :: "nat \<Rightarrow> bool" where
  "is_success status = (200 \<le> status \<and> status < 300)"

subsection \<open>Settings\<close>

definition trim_start_char :: "char \<Rightarrow> string \<Rightarrow> string" where
  "trim_start_char c s = dropWhile (\<lambda>d. d = c) s"

definition trim_end_char :: "char \<Rightarrow> string \<Rightarrow> string" where
  "trim_end_char c s = rev (dropWhile (\<lambda>d. d = c) (rev s))"

definition resolve_storage_bucket :: "world \<Rightarrow> string" where
  "resolve_storage_bucket w = unwrap_or ''ingestion-raw'' (read_non_empty_env w ''SUPABASE_STORAGE_BUCKET'')"

definition resolve_raw_payload_backend :: "world \<Rightarrow> string" where
  "resolve_raw_payload_backend w =
     unwrap_or ''supabase'' (opt_filter (\<lambda>v. v \<noteq> [])
       (map_option to_ascii_lowercase (var_with_scale_oliver w ''RAW_PAYLOAD_STORAGE_BACKEND'')))"

definition resolve_azure_container :: "world \<Rightarrow> payload_error + string" where
  "resolve_azure_container w =
     (case var_with_scale_oliver w ''AZURE_STORAGE_CONTAINER_INGEST'' of
        Some c \<Rightarrow> Inr c | None \<Rightarrow> Inl MissingAzureConfig)"

definition resolve_connection_string_for_ingest :: "world \<Rightarrow> string option" where
  "resolve_connection_string_for_ingest w =
     or_else (var_with_scale_oliver w ''AZURE_STORAGE_CONNECTION_STRING_INGEST'')
       (or_else (var_with_scale_oliver w ''AZURE_STORAGE_CONNECTION_STRING'')
          (var_with_scale_oliver w ''DOWHIZ_AZURE_STORAGE_CONNECTION_STRING''))"

text \<open>A segment without \<open>=\<close> ends the search: \<open>parts.next()?\<close> returns from the function.\<close>

fun connection_kv :: "string list \<Rightarrow> string \<Rightarrow> string option" where
  "connection_kv [] key = None"
| "connection_kv (segment # rest) key =
     (case splitn 2 (CHR ''='') segment of
        [k, v] \<Rightarrow> if trim k = key \<and> trim v \<noteq> [] then Some (trim v) else connection_kv rest key
      | _ \<Rightarrow> None)"

definition parse_connection_string_kv :: "string \<Rightarrow> string \<Rightarrow> string option" where
  "parse_connection_string_kv conn_str key = connection_kv (split_char (CHR '';'') conn_str) key"

definition resolve_account_from_connection_string :: "world \<Rightarrow> string option" where
  "resolve_account_from_connection_string w =
     Option.bind (resolve_connection_string_for_ingest w) (\<lambda>s. parse_connection_string_kv s ''AccountName'')"

definition resolve_access_key_from_connection_string :: "world \<Rightarrow> string option" where
  "resolve_access_key_from_connection_string w =
     Option.bind (resolve_connection_string_for_ingest w) (\<lambda>s. parse_connection_string_kv s ''AccountKey'')"

definition resolve_azure_container_sas_url :: "world \<Rightarrow> payload_error + string" where
  "resolve_azure_container_sas_url w =
     (case var_with_scale_oliver w ''AZURE_STORAGE_CONTAINER_SAS_URL'' of
        Some url \<Rightarrow> Inr url
      | None \<Rightarrow>
          (case (or_else (var_with_scale_oliver w ''AZURE_STORAGE_ACCOUNT'') (resolve_account_from_connection_string w),
                 var_with_scale_oliver w ''AZURE_STORAGE_CONTAINER_INGEST'',
                 opt_filter (\<lambda>v. v \<noteq> [])
                   (map_option (trim_start_char (CHR ''?'')) (var_with_scale_oliver w ''AZURE_STORAGE_SAS_TOKEN''))) of
             (Some account, Some container, Some sas) \<Rightarrow>
               Inr (''https://'' @ account @ ''.blob.core.windows.net/'' @ container @ ''?'' @ sas)
           | _ \<Rightarrow> Inl MissingAzureConfig))"

definition resolve_project_url :: "world \<Rightarrow> payload_error + string" where
  "resolve_project_url w =
     (case opt_filter (\<lambda>v. v \<noteq> [])
             (map_option (\<lambda>v. trim_end_char (CHR ''/'') (trim v)) (w_env w ''SUPABASE_PROJECT_URL'')) of
        Some url \<Rightarrow> Inr url | None \<Rightarrow> Inl MissingProjectUrl)"

definition resolve_service_key :: "world \<Rightarrow> payload_error + string" where
  "resolve_service_key w =
     (case read_non_empty_env w ''SUPABASE_SECRET_KEY'' of
        Some key \<Rightarrow> Inr key | None \<Rightarrow> Inl MissingServiceKey)"

definition resolve_raw_payload_path_prefix :: "world \<Rightarrow> string" where
  "resolve_raw_payload_path_prefix w =
     unwrap_or ''ingestion_raw'' (opt_filter (\<lambda>v. v \<noteq> [])
       (map_option (\<lambda>v. User_Store.trim_matches ''/'' (trim v)) (var_with_scale_oliver w ''RAW_PAYLOAD_PATH_PREFIX'')))"

text \<open>With its default the root is never missing.\<close>

definition resolve_local_root :: "world \<Rightarrow> string" where
  "resolve_local_root w = unwrap_or ''.workspace/local_payloads'' (read_non_empty_env w ''RAW_PAYLOAD_LOCAL_ROOT'')"

subsection \<open>Paths and references\<close>

definition local_object_path :: "string \<Rightarrow> string \<Rightarrow> string" where
  "local_object_path root path = path_join root (trim_start_char (CHR ''/'') path)"

definition build_object_path :: "'h http_lib \<Rightarrow> world \<Rightarrow> uuid \<Rightarrow> datetime \<Rightarrow> string" where
  "build_object_path hl w envelope_id received_at =
     resolve_raw_payload_path_prefix w @ ''/'' @ hl_date hl received_at @ ''/'' @ envelope_id @ ''.bin''"

definition sanitize_blob_segment :: "string \<Rightarrow> string \<Rightarrow> string" where
  "sanitize_blob_segment v fallback =
     (let out = concat (map (\<lambda>c. if is_continuation c then []
                                 else if is_ascii_alphanumeric c \<or> c \<in> set ''._-'' then [c] else ''_'') (trim v));
          cleaned = User_Store.trim_matches ''._-'' out
      in if cleaned = [] then fallback else cleaned)"

text \<open>\<open>{:03}\<close>.\<close>

definition pad3 :: "nat \<Rightarrow> string" where
  "pad3 n = replicate (3 - length (nat_str n)) (CHR ''0'') @ nat_str n"

definition build_attachment_object_path ::
    "'h http_lib \<Rightarrow> world \<Rightarrow> uuid \<Rightarrow> datetime \<Rightarrow> nat \<Rightarrow> string \<Rightarrow> string" where
  "build_attachment_object_path hl w envelope_id received_at i file_name =
     resolve_raw_payload_path_prefix w @ ''/attachments/'' @ hl_date hl received_at @ ''/'' @ envelope_id
     @ ''/'' @ pad3 i @ ''_'' @ sanitize_blob_segment file_name ''attachment''"

definition build_object_url :: "string \<Rightarrow> string \<Rightarrow> string \<Rightarrow> string" where
  "build_object_url base bucket path = base @ ''/storage/v1/object/'' @ bucket @ ''/'' @ path"

definition build_azure_blob_url :: "string \<Rightarrow> string \<Rightarrow> string" where
  "build_azure_blob_url container_sas_url path =
     (let parts = splitn 2 (CHR ''?'') container_sas_url;
          base = trim_end_char (CHR ''/'') (unwrap_or [] (nth_opt parts 0));
          sas = trim_start_char (CHR ''?'') (unwrap_or [] (nth_opt parts 1))
      in if sas = [] then base @ ''/'' @ path else base @ ''/'' @ path @ ''?'' @ sas)"

definition to_azure_ref :: "string \<Rightarrow> string \<Rightarrow> string" where
  "to_azure_ref container path = ''azure://'' @ container @ ''/'' @ path"

definition to_local_ref :: "string \<Rightarrow> string" where
  "to_local_ref path = ''local://'' @ path"

definition to_supabase_ref :: "string \<Rightarrow> string \<Rightarrow> string" where
  "to_supabase_ref bucket path = ''supabase://'' @ bucket @ ''/'' @ path"

text \<open>The place and the path of a reference, both trimmed and not empty.\<close>

definition split_reference :: "string \<Rightarrow> string \<Rightarrow> payload_error + string \<times> string" where
  "split_reference reference v =
     (let parts = splitn 2 (CHR ''/'') v in
      case (opt_filter (\<lambda>v. v \<noteq> []) (map_option trim (nth_opt parts 0)),
            opt_filter (\<lambda>v. v \<noteq> []) (map_option trim (nth_opt parts 1))) of
        (Some place, Some path) \<Rightarrow> Inr (place, path)
      | _ \<Rightarrow> Inl (InvalidReference reference))"

definition parse_azure_ref :: "string \<Rightarrow> payload_error + string \<times> string" where
  "parse_azure_ref reference =
     (case strip_prefix ''azure://'' reference of
        None \<Rightarrow> Inl (InvalidReference reference)
      | Some v \<Rightarrow> split_reference reference v)"

definition parse_local_ref :: "string \<Rightarrow> payload_error + string" where
  "parse_local_ref reference =
     (case strip_prefix ''local://'' reference of
        None \<Rightarrow> Inl (InvalidReference reference)
      | Some v \<Rightarrow>
          let path = trim_start_char (CHR ''/'') (trim v) in
          if path = [] then Inl (InvalidReference reference) else Inr path)"

text \<open>A web address is taken as it is, with an empty bucket.\<close>

definition parse_supabase_ref :: "string \<Rightarrow> payload_error + string \<times> string" where
  "parse_supabase_ref reference =
     (case strip_prefix ''supabase://'' reference of
        Some v \<Rightarrow> split_reference reference v
      | None \<Rightarrow>
          if starts_with reference ''http://'' \<or> starts_with reference ''https://'' then Inr ([], reference)
          else Inl (InvalidReference reference))"

definition is_duplicate_bucket_response :: "nat \<Rightarrow> string \<Rightarrow> bool" where
  "is_duplicate_bucket_response status body =
     (status = 409 \<or> status = 400 \<and>
       contains_any (to_ascii_lowercase body) [''duplicate'', ''already exists'',
         CHR 0x22 # ''statuscode'' @ [CHR 0x22] @ '':'' @ [CHR 0x22] @ ''409'' @ [CHR 0x22]])"

definition is_azure_blob_url :: "string \<Rightarrow> bool" where
  "is_azure_blob_url url = contains_any (to_ascii_lowercase url) [''blob.core.windows.net'', ''sig='']"

subsection \<open>Uploads\<close>

definition on_net ::
    "('h \<Rightarrow> (string + 'a) \<times> 'h) \<Rightarrow> 'h payload_state \<Rightarrow> ('h, 'a) payload_result" where
  "on_net op s = (case op (ps_net s) of (r, h) \<Rightarrow> (map_err PayloadHttp r, s\<lparr>ps_net := h\<rparr>))"

definition on_files ::
    "(world \<Rightarrow> (string + 'a) \<times> world) \<Rightarrow> 'h payload_state \<Rightarrow> ('h, 'a) payload_result" where
  "on_files op s = (case op (ps_world s) of (r, w) \<Rightarrow> (map_err PayloadStorage r, s\<lparr>ps_world := w\<rparr>))"

definition status_error :: "string \<Rightarrow> nat \<Rightarrow> string \<Rightarrow> payload_error" where
  "status_error what status body =
     PayloadStorage (what @ '' failed (status '' @ nat_str status @ ''): '' @ body)"

definition expect_success :: "string \<Rightarrow> nat \<times> string \<Rightarrow> payload_error + string" where
  "expect_success what answer =
     (case answer of (status, body) \<Rightarrow>
        if is_success status then Inr body else Inl (status_error what status body))"

definition bearer :: "string \<Rightarrow> (string \<times> string) list" where
  "bearer key = [(''Authorization'', ''Bearer '' @ key), (''apikey'', key)]"

definition ensure_bucket_ready ::
    "'h http_lib \<Rightarrow> string \<Rightarrow> string \<Rightarrow> string \<Rightarrow> 'h payload_state \<Rightarrow> ('h, unit) payload_result" where
  "ensure_bucket_ready hl base bucket key s =
     (if ps_bucket_ready s then (Inr (), s)
      else
        st_bind (on_net (hl_send hl \<lparr>hq_method = ''POST'', hq_url = base @ ''/storage/v1/bucket'',
                   hq_headers = bearer key, hq_body = hl_bucket_json hl bucket\<rparr>) s) (\<lambda>(status, body) s.
          if is_success status \<or> is_duplicate_bucket_response status body
          then (Inr (), s\<lparr>ps_bucket_ready := True\<rparr>)
          else (Inl (status_error ''bucket create'' status body), s)))"

definition upload_azure_bytes ::
    "'h http_lib \<Rightarrow> string \<Rightarrow> string \<Rightarrow> 'h payload_state \<Rightarrow> ('h, string) payload_result" where
  "upload_azure_bytes hl path payload s =
     st_bind (resolve_azure_container (ps_world s), s) (\<lambda>container s.
     st_bind (resolve_azure_container_sas_url (ps_world s), s) (\<lambda>container_sas_url s.
     st_bind (on_net (hl_send hl \<lparr>hq_method = ''PUT'', hq_url = build_azure_blob_url container_sas_url path,
                hq_headers = [(''x-ms-blob-type'', ''BlockBlob'')], hq_body = payload\<rparr>) s) (\<lambda>answer s.
     st_bind (expect_success ''upload'' answer, s) (\<lambda>_ s.
       (Inr (to_azure_ref container path), s)))))"

definition upload_local_bytes :: "string \<Rightarrow> string \<Rightarrow> 'h payload_state \<Rightarrow> ('h, string) payload_result" where
  "upload_local_bytes path payload s =
     (let destination = local_object_path (resolve_local_root (ps_world s)) path in
      st_bind (case path_parent destination of
                 None \<Rightarrow> (Inr (), s)
               | Some parent \<Rightarrow> on_files (fs_create_dir_all parent) s) (\<lambda>_ s.
      st_bind (on_files (fs_write destination payload) s) (\<lambda>_ s.
        (Inr (to_local_ref path), s))))"

definition upload_supabase_bytes ::
    "'h http_lib \<Rightarrow> string \<Rightarrow> string \<Rightarrow> 'h payload_state \<Rightarrow> ('h, string) payload_result" where
  "upload_supabase_bytes hl path payload s =
     st_bind (resolve_project_url (ps_world s), s) (\<lambda>base s.
     st_bind (resolve_service_key (ps_world s), s) (\<lambda>key s.
       let bucket = resolve_storage_bucket (ps_world s) in
       st_bind (ensure_bucket_ready hl base bucket key s) (\<lambda>_ s.
       st_bind (on_net (hl_send hl \<lparr>hq_method = ''POST'', hq_url = build_object_url base bucket path,
                  hq_headers = bearer key @ [(''x-upsert'', ''true'')], hq_body = payload\<rparr>) s) (\<lambda>answer s.
       st_bind (expect_success ''upload'' answer, s) (\<lambda>_ s.
         (Inr (to_supabase_ref bucket path), s))))))"

definition upload_raw_payload ::
    "'h http_lib \<Rightarrow> uuid \<Rightarrow> datetime \<Rightarrow> string \<Rightarrow> 'h payload_state \<Rightarrow> ('h, string) payload_result" where
  "upload_raw_payload hl envelope_id received_at raw_payload s =
     (if raw_payload = [] then (Inl (PayloadStorage ''raw payload is empty''), s)
      else
        let path = build_object_path hl (ps_world s) envelope_id received_at;
            backend = resolve_raw_payload_backend (ps_world s) in
        if backend = ''azure'' then upload_azure_bytes hl path raw_payload s
        else if backend = ''local'' then upload_local_bytes path raw_payload s
        else upload_supabase_bytes hl path raw_payload s)"

definition upload_attachment ::
    "'h http_lib \<Rightarrow> uuid \<Rightarrow> datetime \<Rightarrow> nat \<Rightarrow> string \<Rightarrow> string \<Rightarrow> 'h payload_state
     \<Rightarrow> ('h, string) payload_result" where
  "upload_attachment hl envelope_id received_at i file_name bytes s =
     (if bytes = [] then (Inl (PayloadStorage ''attachment payload is empty''), s)
      else
        let path = build_attachment_object_path hl (ps_world s) envelope_id received_at i file_name;
            backend = resolve_raw_payload_backend (ps_world s) in
        if backend = ''azure'' then upload_azure_bytes hl path bytes s
        else if backend = ''local'' then upload_local_bytes path bytes s
        else (Inl (PayloadStorage
                (''attachment offload is not supported for RAW_PAYLOAD_STORAGE_BACKEND='' @ [CHR 0x27] @ backend @ [CHR 0x27])), s))"

definition build_outbound_attachment_path :: "'h http_lib \<Rightarrow> uuid \<Rightarrow> datetime \<Rightarrow> string \<Rightarrow> string" where
  "build_outbound_attachment_path hl attachment_id uploaded_at file_name =
     ''outbound/attachments/'' @ hl_date hl uploaded_at @ ''/'' @ attachment_id @ ''/''
     @ sanitize_blob_segment file_name ''attachment''"

definition upload_outbound_attachment ::
    "'h http_lib \<Rightarrow> uuid \<Rightarrow> string \<Rightarrow> string \<Rightarrow> 'h payload_state \<Rightarrow> ('h, string) payload_result" where
  "upload_outbound_attachment hl attachment_id file_name bytes s =
     (if bytes = [] then (Inl (PayloadStorage ''outbound attachment payload is empty''), s)
      else
        let (now, w) = utc_now (ps_world s); s = s\<lparr>ps_world := w\<rparr>;
            path = build_outbound_attachment_path hl attachment_id now file_name;
            backend = resolve_raw_payload_backend w in
        if backend = ''azure'' then upload_azure_bytes hl path bytes s
        else if backend = ''local'' then upload_local_bytes path bytes s
        else (Inl (PayloadStorage
                (''outbound attachment offload is not supported for RAW_PAYLOAD_STORAGE_BACKEND='' @ [CHR 0x27] @ backend @ [CHR 0x27])), s))"

subsection \<open>Downloads\<close>

definition http_get :: "string \<Rightarrow> (string \<times> string) list \<Rightarrow> http_request" where
  "http_get url headers = \<lparr>hq_method = ''GET'', hq_url = url, hq_headers = headers, hq_body = []\<rparr>"

definition download_via_connection_string ::
    "'h http_lib \<Rightarrow> string \<Rightarrow> string \<Rightarrow> 'h payload_state \<Rightarrow> ('h, string) payload_result" where
  "download_via_connection_string hl container path s =
     (case (resolve_account_from_connection_string (ps_world s),
            resolve_access_key_from_connection_string (ps_world s)) of
        (Some account, Some key) \<Rightarrow>
          (case hl_key_get hl account key container path (ps_net s) of (r, h) \<Rightarrow>
             (map_err (\<lambda>e. PayloadStorage (''download failed via connection string: '' @ e)) r, s\<lparr>ps_net := h\<rparr>))
      | _ \<Rightarrow> (Inl MissingAzureConfig, s))"

text \<open>The request with the signed URL goes to the container of that URL, whatever the reference says.\<close>

definition download_azure ::
    "'h http_lib \<Rightarrow> string \<Rightarrow> 'h payload_state \<Rightarrow> ('h, string) payload_result" where
  "download_azure hl reference s =
     st_bind (parse_azure_ref reference, s) (\<lambda>(container, path) s.
       case resolve_azure_container_sas_url (ps_world s) of
         Inl _ \<Rightarrow> download_via_connection_string hl container path s
       | Inr url \<Rightarrow>
           st_bind (on_net (hl_send hl (http_get (build_azure_blob_url url path) [])) s) (\<lambda>(status, body) s.
             if is_success status then (Inr body, s)
             else if resolve_connection_string_for_ingest (ps_world s) = None
             then (Inl (status_error ''download'' status body), s)
             else download_via_connection_string hl container path s))"

definition download_local :: "string \<Rightarrow> 'h payload_state \<Rightarrow> ('h, string) payload_result" where
  "download_local reference s =
     st_bind (parse_local_ref reference, s) (\<lambda>relative s.
       let p = local_object_path (resolve_local_root (ps_world s)) relative in
       case fs_read (ps_world s) p of
         Some bytes \<Rightarrow> (Inr bytes, s)
       | None \<Rightarrow> (Inl (PayloadStorage (unwrap_or not_found (w_refuse (ps_world s) p))), s))"

definition download_supabase ::
    "'h http_lib \<Rightarrow> string \<Rightarrow> 'h payload_state \<Rightarrow> ('h, string) payload_result" where
  "download_supabase hl reference s =
     st_bind (resolve_project_url (ps_world s), s) (\<lambda>base s.
     st_bind (resolve_service_key (ps_world s), s) (\<lambda>key s.
     st_bind (parse_supabase_ref reference, s) (\<lambda>(bucket, path_or_url) s.
       let url = (if bucket = [] then path_or_url else build_object_url base bucket path_or_url) in
       st_bind (on_net (hl_send hl (http_get url (if is_azure_blob_url url then [] else bearer key))) s) (\<lambda>answer s.
         (expect_success ''download'' answer, s)))))"

definition download_raw_payload ::
    "'h http_lib \<Rightarrow> string \<Rightarrow> 'h payload_state \<Rightarrow> ('h, string) payload_result" where
  "download_raw_payload hl reference s =
     (if starts_with reference ''azure://'' then download_azure hl reference s
      else if starts_with reference ''local://'' then download_local reference s
      else download_supabase hl reference s)"

definition resolve_azure_blob_url :: "world \<Rightarrow> string \<Rightarrow> payload_error + string" where
  "resolve_azure_blob_url w reference =
     res_bind (parse_azure_ref reference) (\<lambda>(_, path).
     res_bind (resolve_azure_container_sas_url w) (\<lambda>container_sas_url.
       Inr (build_azure_blob_url container_sas_url path)))"

end
