(* ===== verification/Gateway_Envelope.thy ===== *)
theory Gateway_Envelope
  imports Gateway_Routes Gateway_Verify Payload_Store
begin

text \<open>
  \<open>bin/inbound_gateway/handlers.rs\<close>, second half: what the gateway puts into the queue.  The payload
  of a mail is cut down and its attachments are moved to the payload store; the bytes of the request
  are archived and referred to.
\<close>

text \<open>
  \<open>gl_html_text\<close> is \<open>derive_inbound_email_text(None, None, Some(html))\<close> of \<open>service/html.rs\<close>,
  \<open>gl_slack_bot_user\<close> the lookup of \<open>slack_store.rs\<close> by team and employee, \<open>gl_base64\<close> the decoder.
\<close>

record 'h gateway_lib =
  gl_http :: "'h http_lib"
  gl_verify :: verify_lib
  gl_codec :: envelope_codec
  gl_html_text :: "string \<Rightarrow> string option"
  gl_slack_bot_user :: "string option \<Rightarrow> string \<Rightarrow> string option"

definition gl_adapters :: "'h gateway_lib \<Rightarrow> adapter_lib" where
  "gl_adapters gl = vl_adapters (gl_verify gl)"

subsection \<open>Mails that are not read\<close>

definition no_reply_markers :: "string list" where
  "no_reply_markers = [''noreply'', ''no-reply'', ''do-not-reply'', ''mailer-daemon'', ''postmaster'']"

definition contains_no_reply_marker :: "string \<Rightarrow> bool" where
  "contains_no_reply_marker v =
     list_ex (\<lambda>email. contains_any (to_ascii_lowercase (trim email)) no_reply_markers) (extract_emails v)"

definition payload_contains_no_reply_marker :: "postmark_mail \<Rightarrow> bool" where
  "payload_contains_no_reply_marker p =
     list_ex contains_no_reply_marker (List.map_filter id [pm_from p, pm_reply_to p])"

subsection \<open>Short texts\<close>

definition is_char_boundary :: "string \<Rightarrow> nat \<Rightarrow> bool" where
  "is_char_boundary s i = (i = 0 \<or> i = length s \<or> i < length s \<and> \<not> is_continuation (s ! i))"

text \<open>The loop that moves \<open>end\<close> down to a boundary.\<close>

fun floor_char_boundary :: "string \<Rightarrow> nat \<Rightarrow> nat" where
  "floor_char_boundary s 0 = 0"
| "floor_char_boundary s (Suc n) =
     (if is_char_boundary s (Suc n) then Suc n else floor_char_boundary s n)"

definition truncate_utf8_for_queue :: "string \<Rightarrow> nat \<Rightarrow> string" where
  "truncate_utf8_for_queue input max_bytes =
     take (floor_char_boundary input (min (length input) max_bytes)) input"

definition truncate_for_queue :: "string \<Rightarrow> nat \<Rightarrow> string \<Rightarrow> string" where
  "truncate_for_queue input max_bytes ending =
     (if length input \<le> max_bytes then input
      else if length ending \<ge> max_bytes then truncate_utf8_for_queue input max_bytes
      else take (floor_char_boundary input (max_bytes - length ending)) input @ ending)"

definition preview_max_bytes :: nat where "preview_max_bytes = 16 * 1024"

definition truncated_suffix :: string where
  "truncated_suffix = [CHR 0x0A, CHR 0x0A] @ ''[truncated for queue delivery]''"

definition compact_email_text_for_queue :: "string \<Rightarrow> string option" where
  "compact_email_text_for_queue text =
     (let trimmed = trim text in
      if trimmed = [] then None else Some (truncate_for_queue trimmed preview_max_bytes truncated_suffix))"

definition compact_email_html_for_queue :: "'h gateway_lib \<Rightarrow> string \<Rightarrow> string option" where
  "compact_email_html_for_queue gl html = Option.bind (gl_html_text gl html) compact_email_text_for_queue"

definition build_queue_payload :: "'h gateway_lib \<Rightarrow> channel \<Rightarrow> inbound_message \<Rightarrow> ingestion_payload" where
  "build_queue_payload gl channel message =
     (let payload = payload_from_inbound message in
      if channel = Email
      then payload\<lparr>ip_attachments := [],
                   ip_text_body :=
                     or_else (Option.bind (ip_text_body payload) compact_email_text_for_queue)
                       (Option.bind (ip_html_body payload) (compact_email_html_for_queue gl)),
                   ip_html_body := None\<rparr>
      else payload)"

subsection \<open>Attachments into the payload store\<close>

definition blob_member :: "string \<Rightarrow> string \<Rightarrow> json \<Rightarrow> json" where
  "blob_member storage_ref decoded obj =
     json_insert ''ContentLength'' (JNumber (nat_str (length decoded)))
       (json_insert ''Content'' (JString []) (json_insert ''StorageRef'' (JString storage_ref) obj))"

definition attachment_content :: "json \<Rightarrow> string" where
  "attachment_content obj = trim (unwrap_or [] (json_str obj ''Content''))"

definition attachment_file_name :: "json \<Rightarrow> string" where
  "attachment_file_name obj = unwrap_or ''attachment'' (opt_filter (\<lambda>v. trim v \<noteq> []) (json_str obj ''Name''))"

fun is_object :: "json \<Rightarrow> bool" where
  "is_object (JObject ms) = True"
| "is_object _ = False"

definition rewrite_attachment ::
    "'h gateway_lib \<Rightarrow> uuid \<Rightarrow> datetime \<Rightarrow> nat \<Rightarrow> json \<Rightarrow> 'h payload_state \<Rightarrow> json \<times> 'h payload_state" where
  "rewrite_attachment gl envelope_id received_at i obj s =
     (let content = attachment_content obj in
      if \<not> is_object obj \<or> content = [] then (obj, s)
      else
        case al_base64 (gl_adapters gl) content of
          Inl _ \<Rightarrow> (obj, s)
        | Inr decoded \<Rightarrow>
            if decoded = [] then (obj, s)
            else
              case upload_attachment (gl_http gl) envelope_id received_at i (attachment_file_name obj) decoded s of
                (Inl _, s) \<Rightarrow> (obj, s)
              | (Inr storage_ref, s) \<Rightarrow> (blob_member storage_ref decoded obj, s))"

fun rewrite_attachments ::
    "'h gateway_lib \<Rightarrow> uuid \<Rightarrow> datetime \<Rightarrow> nat \<Rightarrow> json list \<Rightarrow> 'h payload_state \<Rightarrow> json list \<times> 'h payload_state" where
  "rewrite_attachments gl envelope_id received_at i [] s = ([], s)"
| "rewrite_attachments gl envelope_id received_at i (obj # objs) s =
     (case rewrite_attachment gl envelope_id received_at i obj s of (obj, s) \<Rightarrow>
      case rewrite_attachments gl envelope_id received_at (Suc i) objs s of (objs, s) \<Rightarrow> (obj # objs, s))"

text \<open>What serde makes of a member of \<open>Attachments\<close> (\<open>PostmarkAttachment\<close>): three texts and an option.\<close>

definition attachment_of_json :: "json \<Rightarrow> postmark_attachment option" where
  "attachment_of_json obj =
     (case (json_str obj ''Name'', json_str obj ''Content'', json_str obj ''ContentType'') of
        (Some name, Some content, Some content_type) \<Rightarrow>
          (case json_get obj ''StorageRef'' of
             None \<Rightarrow> Some \<lparr>pa_name = name, pa_content = content, pa_storage_ref = None,
                           pa_content_type = content_type\<rparr>
           | Some JNull \<Rightarrow> Some \<lparr>pa_name = name, pa_content = content, pa_storage_ref = None,
                                 pa_content_type = content_type\<rparr>
           | Some (JString storage_ref) \<Rightarrow>
               Some \<lparr>pa_name = name, pa_content = content, pa_storage_ref = Some storage_ref,
                     pa_content_type = content_type\<rparr>
           | Some _ \<Rightarrow> None)
      | _ \<Rightarrow> None)"

definition rewrite_email_payload ::
    "'h gateway_lib \<Rightarrow> uuid \<Rightarrow> datetime \<Rightarrow> string \<Rightarrow> 'h payload_state \<Rightarrow> string \<times> 'h payload_state" where
  "rewrite_email_payload gl envelope_id received_at raw_payload s =
     (let jl = vl_json (gl_verify gl) in
      case jl_parse jl raw_payload of
        Inl _ \<Rightarrow> (raw_payload, s)
      | Inr payload_json \<Rightarrow>
          (case json_get payload_json ''Attachments'' of
             Some (JArray attachments) \<Rightarrow>
               (case rewrite_attachments gl envelope_id received_at 0 attachments s of (attachments, s) \<Rightarrow>
                  (case jl_print jl (json_insert ''Attachments'' (JArray attachments) payload_json) of
                     Inr bytes \<Rightarrow> (bytes, s)
                   | Inl _ \<Rightarrow> (raw_payload, s)))
           | _ \<Rightarrow> (raw_payload, s)))"

subsection \<open>The envelope\<close>

definition make_envelope ::
    "uuid \<Rightarrow> datetime \<Rightarrow> route_decision \<Rightarrow> channel \<Rightarrow> string option \<Rightarrow> string \<Rightarrow> ingestion_payload \<Rightarrow> string option
     \<Rightarrow> ingestion_envelope" where
  "make_envelope envelope_id received_at route channel external_message_id dedupe_key payload raw_payload_ref =
     \<lparr>ie_envelope_id = envelope_id, ie_received_at = received_at, ie_tenant_id = Some (rd_tenant_id route),
      ie_employee_id = rd_employee_id route, ie_channel = channel,
      ie_external_message_id = external_message_id, ie_dedupe_key = dedupe_key, ie_payload = payload,
      ie_raw_payload_ref = raw_payload_ref, ie_account_id = None\<rparr>"

text \<open>The identifier, the time of arrival and the key under which repetitions are recognised.\<close>

definition envelope_identity ::
    "'h gateway_lib \<Rightarrow> route_decision \<Rightarrow> channel \<Rightarrow> string option \<Rightarrow> string \<Rightarrow> world
     \<Rightarrow> (uuid \<times> datetime \<times> string) \<times> world" where
  "envelope_identity gl route channel external_message_id raw_payload w =
     (let (envelope_id, w) = new_uuid w;
          (received_at, w) = utc_now w;
          (dedupe_key, w) = build_dedupe_key (al_md5 (gl_adapters gl)) (rd_tenant_id route)
             (rd_employee_id route) channel external_message_id raw_payload w
      in ((envelope_id, received_at, dedupe_key), w))"

definition stored_payload ::
    "'h gateway_lib \<Rightarrow> uuid \<Rightarrow> datetime \<Rightarrow> channel \<Rightarrow> string \<Rightarrow> 'h payload_state \<Rightarrow> string \<times> 'h payload_state" where
  "stored_payload gl envelope_id received_at channel raw_payload s =
     (if channel = Email then rewrite_email_payload gl envelope_id received_at raw_payload s
      else (raw_payload, s))"

text \<open>Only for a mail is a failure to archive the bytes an error.\<close>

definition archive_payload ::
    "'h gateway_lib \<Rightarrow> uuid \<Rightarrow> datetime \<Rightarrow> channel \<Rightarrow> string \<Rightarrow> string \<Rightarrow> 'h payload_state
     \<Rightarrow> ('h, string option) payload_result" where
  "archive_payload gl envelope_id received_at channel raw_payload bytes s =
     (if raw_payload = [] then (Inr None, s)
      else
        case upload_raw_payload (gl_http gl) envelope_id received_at bytes s of
          (Inr payload_ref, s) \<Rightarrow> (Inr (Some payload_ref), s)
        | (Inl err, s) \<Rightarrow> (if channel = Email then Inl err else Inr None, s))"

definition build_envelope ::
    "'h gateway_lib \<Rightarrow> route_decision \<Rightarrow> channel \<Rightarrow> string option \<Rightarrow> inbound_message \<Rightarrow> string
     \<Rightarrow> 'h payload_state \<Rightarrow> ('h, ingestion_envelope) payload_result" where
  "build_envelope gl route channel external_message_id message raw_payload s =
     (let ((envelope_id, received_at, dedupe_key), w) =
            envelope_identity gl route channel external_message_id raw_payload (ps_world s);
          (bytes, s) = stored_payload gl envelope_id received_at channel raw_payload (s\<lparr>ps_world := w\<rparr>)
      in st_bind (archive_payload gl envelope_id received_at channel raw_payload bytes s) (\<lambda>raw_payload_ref s.
           (Inr (make_envelope envelope_id received_at route channel external_message_id dedupe_key
                   (build_queue_payload gl channel message) raw_payload_ref), s)))"

text \<open>The variant for the pollers, for which the failure is always an error.\<close>

definition build_envelope_blocking ::
    "'h gateway_lib \<Rightarrow> route_decision \<Rightarrow> channel \<Rightarrow> string option \<Rightarrow> inbound_message \<Rightarrow> string
     \<Rightarrow> 'h payload_state \<Rightarrow> ('h, ingestion_envelope) payload_result" where
  "build_envelope_blocking gl route channel external_message_id message raw_payload s =
     (let ((envelope_id, received_at, dedupe_key), w) =
            envelope_identity gl route channel external_message_id raw_payload (ps_world s);
          (bytes, s) = stored_payload gl envelope_id received_at channel raw_payload (s\<lparr>ps_world := w\<rparr>)
      in st_bind (if raw_payload = [] then (Inr None, s)
                  else st_bind (upload_raw_payload (gl_http gl) envelope_id received_at bytes s)
                         (\<lambda>payload_ref s. (Inr (Some payload_ref), s))) (\<lambda>raw_payload_ref s.
           (Inr (make_envelope envelope_id received_at route channel external_message_id dedupe_key
                   (build_queue_payload gl channel message) raw_payload_ref), s)))"

subsection \<open>The answer of the gateway\<close>

datatype gateway_body = StatusBody string | ChallengeBody string | TextBody string | XmlBody string

record gateway_response =
  hr_code :: nat
  hr_body :: gateway_body

definition status_response :: "nat \<Rightarrow> string \<Rightarrow> gateway_response" where
  "status_response code status = \<lparr>hr_code = code, hr_body = StatusBody status\<rparr>"

text \<open>What is left to do for a message of an official account when the answer has been given.\<close>

record mp_job =
  mj_route :: route_decision
  mj_message :: inbound_message
  mj_body :: string

text \<open>
  The state of the gateway: the payload store with the machine, the queue, the threads in which Slack
  spoke to the service (with the monotone time of the last time), that clock, and the tasks that
  \<open>tokio::spawn\<close> has started.
\<close>

record 'h gateway_state =
  gw_payloads :: "'h payload_state"
  gw_queue :: pg
  gw_engaged :: "(string \<times> nat) list"
  gw_instant :: "nat \<Rightarrow> nat"
  gw_instant_reads :: nat
  gw_jobs :: "mp_job list"

definition gw_world :: "'h gateway_state \<Rightarrow> world" where
  "gw_world s = ps_world (gw_payloads s)"

definition on_payloads ::
    "('h payload_state \<Rightarrow> 'a \<times> 'h payload_state) \<Rightarrow> 'h gateway_state \<Rightarrow> 'a \<times> 'h gateway_state" where
  "on_payloads op s = (case op (gw_payloads s) of (r, p) \<Rightarrow> (r, s\<lparr>gw_payloads := p\<rparr>))"

definition enqueue_envelope ::
    "'h gateway_lib \<Rightarrow> ingestion_envelope \<Rightarrow> 'h gateway_state \<Rightarrow> gateway_response \<times> 'h gateway_state" where
  "enqueue_envelope gl envelope s =
     (case enqueue (gl_codec gl) envelope (gw_queue s) of
        (Inr inserted, q) \<Rightarrow>
          (status_response 200 (if inserted then ''accepted'' else ''duplicate''), s\<lparr>gw_queue := q\<rparr>)
      | (Inl _, q) \<Rightarrow> (status_response 502 ''enqueue_failed'', s\<lparr>gw_queue := q\<rparr>))"

text \<open>The end that all handlers share.\<close>

definition hand_over ::
    "'h gateway_lib \<Rightarrow> route_decision \<Rightarrow> channel \<Rightarrow> string option \<Rightarrow> inbound_message \<Rightarrow> string
     \<Rightarrow> 'h gateway_state \<Rightarrow> gateway_response \<times> 'h gateway_state" where
  "hand_over gl route channel external_message_id message body s =
     (case on_payloads (build_envelope gl route channel external_message_id message body) s of
        (Inl _, s) \<Rightarrow> (status_response 502 ''payload_store_failed'', s)
      | (Inr envelope, s) \<Rightarrow> enqueue_envelope gl envelope s)"

end
