(* ===== verification/Gateway_Handlers.thy ===== *)
theory Gateway_Handlers
  imports Gateway_Envelope
begin

text \<open>
  \<open>bin/inbound_gateway/handlers.rs\<close>, first half: the handlers of the webhooks.  Each checks the
  request, parses it with the adapter of its platform, finds the route and hands the message over.
\<close>

subsection \<open>Mail\<close>

definition external_mail_id :: "postmark_mail \<Rightarrow> string option" where
  "external_mail_id p =
     opt_filter (\<lambda>v. v \<noteq> []) (map_option trim (or_else (header_message_id p) (pm_message_id p)))"

definition ingest_postmark ::
    "'h gateway_lib \<Rightarrow> gateway_tables \<Rightarrow> headers \<Rightarrow> string \<Rightarrow> 'h gateway_state
     \<Rightarrow> gateway_response \<times> 'h gateway_state" where
  "ingest_postmark gl g headers body s =
     (case verify_postmark (gw_world s) headers of
        Inl reason \<Rightarrow> (status_response 401 reason, s)
      | Inr _ \<Rightarrow>
          (case al_postmark (gl_adapters gl) body of
             Inl _ \<Rightarrow> (status_response 400 ''bad_json'', s)
           | Inr payload \<Rightarrow>
               if payload_contains_no_reply_marker payload
               then (status_response 200 ''ignored_no_reply'', s)
               else
                 (case find_service_address payload (dr_service_addresses (gt_directory g)) of
                    None \<Rightarrow> (status_response 200 ''no_route'', s)
                  | Some address \<Rightarrow>
                      (case resolve_route Email (normalize_route_email address) g of
                         None \<Rightarrow> (status_response 200 ''no_route'', s)
                       | Some route \<Rightarrow>
                           (case postmark_parse (gl_adapters gl) (dr_service_addresses (gt_directory g)) body of
                              Inl _ \<Rightarrow> (status_response 400 ''parse_error'', s)
                            | Inr message \<Rightarrow>
                                hand_over gl route Email (external_mail_id payload) message body s)))))"

subsection \<open>Slack\<close>

definition slack_engaged_thread_ttl :: nat where
  "slack_engaged_thread_ttl = 12 * 60 * 60 * 1000000000"

definition slack_thread_scope_key :: "slack_wrapper \<Rightarrow> string option" where
  "slack_thread_scope_key wrapper =
     (case sw_event wrapper of
        None \<Rightarrow> None
      | Some ev \<Rightarrow>
          (case se_channel ev of
             None \<Rightarrow> None
           | Some channel \<Rightarrow>
               let team_id = trim (unwrap_or ''unknown'' (sw_team_id wrapper));
                   channel_id = trim channel;
                   root_ts = trim (unwrap_or (se_ts ev) (se_thread_ts ev))
               in if channel_id = [] \<or> root_ts = [] then None
                  else Some (''slack:'' @ team_id @ '':'' @ channel_id @ '':'' @ root_ts)))"

text \<open>\<open>duration_since\<close> is zero for a later instant, as the difference of natural numbers is.\<close>

definition prune_stale_slack_engaged_threads :: "nat \<Rightarrow> (string \<times> nat) list \<Rightarrow> (string \<times> nat) list" where
  "prune_stale_slack_engaged_threads now store =
     filter (\<lambda>(_, last_seen). now - last_seen \<le> slack_engaged_thread_ttl) store"

definition instant_now :: "'h gateway_state \<Rightarrow> nat \<times> 'h gateway_state" where
  "instant_now s = (gw_instant s (gw_instant_reads s), s\<lparr>gw_instant_reads := Suc (gw_instant_reads s)\<rparr>)"

definition remember_slack_engaged_thread :: "slack_wrapper \<Rightarrow> 'h gateway_state \<Rightarrow> 'h gateway_state" where
  "remember_slack_engaged_thread wrapper s =
     (case slack_thread_scope_key wrapper of
        None \<Rightarrow> s
      | Some key \<Rightarrow>
          let (now, s) = instant_now s
          in s\<lparr>gw_engaged := AList.update key now (prune_stale_slack_engaged_threads now (gw_engaged s))\<rparr>)"

definition slack_thread_is_engaged :: "slack_wrapper \<Rightarrow> 'h gateway_state \<Rightarrow> bool \<times> 'h gateway_state" where
  "slack_thread_is_engaged wrapper s =
     (case slack_thread_scope_key wrapper of
        None \<Rightarrow> (False, s)
      | Some key \<Rightarrow>
          let (now, s) = instant_now s;
              store = prune_stale_slack_engaged_threads now (gw_engaged s)
          in (map_of store key \<noteq> None, s\<lparr>gw_engaged := store\<rparr>))"

definition slack_mention :: "string \<Rightarrow> slack_event \<Rightarrow> bool" where
  "slack_mention bot_user_id ev =
     (case se_text ev of Some text \<Rightarrow> str_contains text (''<@'' @ trim bot_user_id @ ''>'') | None \<Rightarrow> False)"

text \<open>A plain message: a direct one, one in a thread the service takes part in, or a mention.\<close>

definition should_enqueue_plain ::
    "slack_wrapper \<Rightarrow> slack_event \<Rightarrow> string option \<Rightarrow> 'h gateway_state \<Rightarrow> bool \<times> 'h gateway_state" where
  "should_enqueue_plain wrapper ev bot_user_id s =
     (if se_channel_type ev \<in> set [Some ''im'', Some ''mpim''] then (True, s)
      else
        let (engaged, s) = (if se_thread_ts ev \<noteq> None then slack_thread_is_engaged wrapper s else (False, s)) in
        if engaged then (True, s)
        else case bot_user_id of
            None \<Rightarrow> (False, s)
          | Some bot_id \<Rightarrow>
              if slack_mention bot_id ev then (True, remember_slack_engaged_thread wrapper s) else (False, s))"

definition should_enqueue_slack_message ::
    "slack_wrapper \<Rightarrow> string option \<Rightarrow> 'h gateway_state \<Rightarrow> bool \<times> 'h gateway_state" where
  "should_enqueue_slack_message wrapper bot_user_id s =
     (case sw_event wrapper of
        None \<Rightarrow> (False, s)
      | Some ev \<Rightarrow>
          if \<not> slack_message_subtype_is_supported_for_inbound (se_subtype ev) then (False, s)
          else if se_bot_id ev \<noteq> None then (False, s)
          else if se_user ev \<noteq> None \<and> se_user ev = bot_user_id then (False, s)
          else if se_type ev = ''app_mention'' then (True, remember_slack_engaged_thread wrapper s)
          else if se_type ev = ''message'' then should_enqueue_plain wrapper ev bot_user_id s
          else (False, s))"

text \<open>\<open>SystemTime::now\<close> in seconds since 1970.\<close>

definition system_secs :: "'h gateway_state \<Rightarrow> int \<times> 'h gateway_state" where
  "system_secs s =
     on_payloads (\<lambda>p. case utc_now (ps_world p) of (t, w) \<Rightarrow> (max 0 (t div 1000000000), p\<lparr>ps_world := w\<rparr>)) s"

definition ingest_slack ::
    "'h gateway_lib \<Rightarrow> gateway_tables \<Rightarrow> headers \<Rightarrow> string \<Rightarrow> 'h gateway_state
     \<Rightarrow> gateway_response \<times> 'h gateway_state" where
  "ingest_slack gl g headers body s =
     (case is_url_verification (gl_adapters gl) body of
        Some challenge \<Rightarrow> (\<lparr>hr_code = 200, hr_body = ChallengeBody challenge\<rparr>, s)
      | None \<Rightarrow>
          (case system_secs s of (now, s) \<Rightarrow>
          (case verify_slack (gl_verify gl) (gw_world s) now headers body of
             Inl reason \<Rightarrow> (status_response 401 reason, s)
           | Inr _ \<Rightarrow>
               (case al_slack (gl_adapters gl) body of
                  Inl _ \<Rightarrow> (status_response 400 ''bad_json'', s)
                | Inr wrapper \<Rightarrow>
                    let api_app_id = unwrap_or [] (sw_api_app_id wrapper) in
                    if api_app_id = [] then (status_response 200 ''no_route'', s)
                    else
                      (case resolve_slack_route (gw_world s) api_app_id g of
                         None \<Rightarrow> (status_response 200 ''no_route'', s)
                       | Some route \<Rightarrow>
                           let bot_user_id = gl_slack_bot_user gl (sw_team_id wrapper) (rd_employee_id route) in
                           (case should_enqueue_slack_message wrapper bot_user_id s of
                              (False, s) \<Rightarrow> (status_response 200 ''ignored'', s)
                            | (True, s) \<Rightarrow>
                                (case slack_parse (gl_adapters gl) body of
                                   Inl _ \<Rightarrow> (status_response 200 ''ignored'', s)
                                 | Inr message \<Rightarrow>
                                     hand_over gl route Slack (sw_event_id wrapper) message body s)))))))"

subsection \<open>Text messages\<close>

definition form_value :: "(string \<times> string) list \<Rightarrow> string \<Rightarrow> string option" where
  "form_value params key = map_of (rev params) key"

definition sms_message ::
    "string \<Rightarrow> string \<Rightarrow> string \<Rightarrow> string \<Rightarrow> string option \<Rightarrow> string \<Rightarrow> inbound_message" where
  "sms_message from_number to_number body_text route_key message_sid body =
     \<lparr>im_channel = Sms, im_sender = from_number, im_sender_name = None, im_recipient = to_number,
      im_subject = None, im_text_body = Some body_text, im_html_body = None,
      im_thread_id = ''sms:'' @ route_key @ '':'' @ normalize_phone_number from_number,
      im_message_id = message_sid, im_attachments = [], im_reply_to = [from_number],
      im_raw_payload = body,
      im_metadata = channel_metadata_default\<lparr>cm_sms_from := Some from_number, cm_sms_to := Some to_number\<rparr>\<rparr>"

definition ingest_sms ::
    "'h gateway_lib \<Rightarrow> gateway_tables \<Rightarrow> headers \<Rightarrow> string \<Rightarrow> 'h gateway_state
     \<Rightarrow> gateway_response \<times> 'h gateway_state" where
  "ingest_sms gl g headers body s =
     (case verify_twilio (gl_verify gl) (gw_world s) headers body of
        Inl reason \<Rightarrow> (status_response 401 reason, s)
      | Inr _ \<Rightarrow>
          (case vl_form (gl_verify gl) body of
             None \<Rightarrow> (status_response 400 ''bad_form'', s)
           | Some params \<Rightarrow>
               let from_number = unwrap_or [] (form_value params ''From'');
                   to_number = unwrap_or [] (form_value params ''To'');
                   body_text = unwrap_or [] (form_value params ''Body'');
                   message_sid = form_value params ''MessageSid'' in
               if from_number = [] \<or> to_number = [] then (status_response 400 ''missing_fields'', s)
               else
                 let route_key = normalize_phone_number to_number in
                 (case resolve_route Sms route_key g of
                    None \<Rightarrow> (status_response 200 ''no_route'', s)
                  | Some route \<Rightarrow>
                      hand_over gl route Sms message_sid
                        (sms_message from_number to_number body_text route_key message_sid body) body s)))"

subsection \<open>Chats\<close>

text \<open>The common end of the chat handlers: a parsed message, the key of its route, the hand-over.\<close>

definition ingest_parsed ::
    "'h gateway_lib \<Rightarrow> gateway_tables \<Rightarrow> channel \<Rightarrow> (inbound_message \<Rightarrow> string)
     \<Rightarrow> adapter_error + inbound_message \<Rightarrow> string \<Rightarrow> 'h gateway_state \<Rightarrow> gateway_response \<times> 'h gateway_state" where
  "ingest_parsed gl g channel key_of parsed body s =
     (case parsed of
        Inl _ \<Rightarrow> (status_response 200 ''ignored'', s)
      | Inr message \<Rightarrow>
          (case resolve_route channel (key_of message) g of
             None \<Rightarrow> (status_response 200 ''no_route'', s)
           | Some route \<Rightarrow> hand_over gl route channel (im_message_id message) message body s))"

definition ingest_bluebubbles ::
    "'h gateway_lib \<Rightarrow> gateway_tables \<Rightarrow> headers \<Rightarrow> string \<Rightarrow> 'h gateway_state
     \<Rightarrow> gateway_response \<times> 'h gateway_state" where
  "ingest_bluebubbles gl g headers body s =
     (case verify_bluebubbles (gw_world s) headers of
        Inl reason \<Rightarrow> (status_response 401 reason, s)
      | Inr _ \<Rightarrow>
          ingest_parsed gl g BlueBubbles
            (\<lambda>m. unwrap_or ''unknown'' (cm_bluebubbles_chat_guid (im_metadata m)))
            (bluebubbles_parse (gl_adapters gl) body) body s)"

definition ingest_telegram ::
    "'h gateway_lib \<Rightarrow> gateway_tables \<Rightarrow> string \<Rightarrow> 'h gateway_state \<Rightarrow> gateway_response \<times> 'h gateway_state" where
  "ingest_telegram gl g body s =
     ingest_parsed gl g Telegram
       (\<lambda>m. unwrap_or ''unknown'' (map_option int_str (cm_telegram_chat_id (im_metadata m))))
       (telegram_parse (gl_adapters gl) body) body s"

definition ingest_whatsapp ::
    "'h gateway_lib \<Rightarrow> gateway_tables \<Rightarrow> string \<Rightarrow> 'h gateway_state \<Rightarrow> gateway_response \<times> 'h gateway_state" where
  "ingest_whatsapp gl g body s =
     ingest_parsed gl g WhatsApp
       (\<lambda>m. unwrap_or ''unknown'' (cm_whatsapp_phone_number (im_metadata m)))
       (whatsapp_parse (gl_adapters gl) body) body s"

text \<open>A panic of the parser ends the request without an answer and without an effect.\<close>

definition ingest_wechat ::
    "'h gateway_lib \<Rightarrow> gateway_tables \<Rightarrow> string \<Rightarrow> 'h gateway_state \<Rightarrow> gateway_response run \<times> 'h gateway_state" where
  "ingest_wechat gl g body s =
     (case wechat_parse (gl_adapters gl) (w_env (gw_world s)) body of
        Panics \<Rightarrow> (Panics, s)
      | Returns parsed \<Rightarrow>
          (case ingest_parsed gl g WeChat
                  (\<lambda>m. unwrap_or (im_sender m) (cm_wechat_user_id (im_metadata m))) parsed body s of
             (r, s) \<Rightarrow> (Returns r, s)))"

definition ingest_lark ::
    "'h gateway_lib \<Rightarrow> gateway_tables \<Rightarrow> headers \<Rightarrow> string \<Rightarrow> 'h gateway_state
     \<Rightarrow> gateway_response \<times> 'h gateway_state" where
  "ingest_lark gl g headers body s =
     (case verify_lark_challenge (gl_verify gl) body of
        Some challenge \<Rightarrow> (\<lparr>hr_code = 200, hr_body = ChallengeBody challenge\<rparr>, s)
      | None \<Rightarrow>
          (case verify_lark (gl_verify gl) (gw_world s) headers body of
             Inl reason \<Rightarrow> (status_response 401 reason, s)
           | Inr _ \<Rightarrow>
               ingest_parsed gl g Lark (\<lambda>m. unwrap_or ''unknown'' (cm_lark_chat_id (im_metadata m)))
                 (lark_parse (gl_adapters gl) (w_env (gw_world s)) body) body s))"

subsection \<open>Subscriptions\<close>

definition verification_response :: "string + string \<Rightarrow> gateway_response" where
  "verification_response r =
     (case r of
        Inr challenge \<Rightarrow> \<lparr>hr_code = 200, hr_body = TextBody challenge\<rparr>
      | Inl reason \<Rightarrow> \<lparr>hr_code = 403, hr_body = TextBody reason\<rparr>)"

definition verify_whatsapp_webhook ::
    "world \<Rightarrow> string option \<Rightarrow> string option \<Rightarrow> string option \<Rightarrow> gateway_response" where
  "verify_whatsapp_webhook w mode token challenge =
     verification_response (verify_whatsapp_subscription w mode token challenge)"

definition verify_wechat_webhook ::
    "verify_lib \<Rightarrow> world \<Rightarrow> string option \<Rightarrow> string option \<Rightarrow> string option \<Rightarrow> string option \<Rightarrow> gateway_response" where
  "verify_wechat_webhook vl w signature timestamp nonce echostr =
     verification_response (verify_wechat vl w signature timestamp nonce echostr)"

definition verify_wechat_mp_webhook ::
    "verify_lib \<Rightarrow> world \<Rightarrow> string option \<Rightarrow> string option \<Rightarrow> string option \<Rightarrow> string option \<Rightarrow> gateway_response" where
  "verify_wechat_mp_webhook vl w signature timestamp nonce echostr =
     verification_response (verify_wechat_mp vl w signature timestamp nonce echostr)"

subsection \<open>Official accounts\<close>

text \<open>\<open>str::replace\<close> with a pattern that is not empty.\<close>

function str_replace :: "string \<Rightarrow> string \<Rightarrow> string \<Rightarrow> string" where
  "str_replace pat rep [] = []"
| "str_replace pat rep (c # s) =
     (if pat \<noteq> [] \<and> starts_with (c # s) pat
      then rep @ str_replace pat rep (drop (length pat) (c # s))
      else c # str_replace pat rep s)"
  by pat_completeness auto
termination
  by (relation "measure (\<lambda>(pat, rep, s). length s)") (auto simp: Suc_le_eq)

definition cdata_safe :: "string \<Rightarrow> string" where
  "cdata_safe v = str_replace '']]>'' '']]]]><![CDATA[>'' v"

text \<open>The text for a received message, in UTF-8.\<close>

definition passive_reply_default :: string where
  "passive_reply_default =
     map char_of [0xE5, 0xB7, 0xB2, 0xE6, 0x94, 0xB6, 0xE5, 0x88, 0xB0, 0xE6, 0xB6, 0x88, 0xE6, 0x81, 0xAF,
       0xEF, 0xBC, 0x8C, 0xE6, 0xAD, 0xA3, 0xE5, 0x9C, 0xA8, 0xE5, 0xA4, 0x84, 0xE7, 0x90, 0x86, 0xE4,
       0xB8, 0xAD, 0xEF, 0xBC, 0x8C, 0xE8, 0xAF, 0xB7, 0xE7, 0xA8, 0x8D, 0xE5, 0x80, 0x99, 0xE3, 0x80,
       0x82 :: nat]"

definition resolve_passive_reply_text :: "world \<Rightarrow> string" where
  "resolve_passive_reply_text w =
     unwrap_or passive_reply_default (read_non_empty_env w ''WECHAT_MP_PASSIVE_REPLY_TEXT'')"

definition passive_reply_xml :: "string \<Rightarrow> string \<Rightarrow> string \<Rightarrow> int \<Rightarrow> string" where
  "passive_reply_xml to_user from_user reply_text create_time =
     ''<xml><ToUserName><![CDATA['' @ cdata_safe to_user @ '']]></ToUserName><FromUserName><![CDATA[''
     @ cdata_safe from_user @ '']]></FromUserName><CreateTime>'' @ int_str create_time
     @ ''</CreateTime><MsgType><![CDATA[text]]></MsgType><Content><![CDATA['' @ cdata_safe reply_text
     @ '']]></Content></xml>''"

definition build_passive_text_response :: "inbound_message \<Rightarrow> string \<Rightarrow> int \<Rightarrow> gateway_response option" where
  "build_passive_text_response message reply_text now =
     (let to_user = trim (unwrap_or (im_sender message) (cm_wechat_mp_open_id (im_metadata message)));
          from_user = trim (unwrap_or (im_recipient message) (cm_wechat_mp_app_id (im_metadata message)))
      in if to_user = [] \<or> from_user = [] then None
         else Some \<lparr>hr_code = 200, hr_body = XmlBody (passive_reply_xml to_user from_user reply_text now)\<rparr>)"

definition passive_ack :: gateway_response where
  "passive_ack = \<lparr>hr_code = 200, hr_body = TextBody ''success''\<rparr>"

definition passive_ack_response ::
    "inbound_message \<Rightarrow> 'h gateway_state \<Rightarrow> gateway_response \<times> 'h gateway_state" where
  "passive_ack_response message s =
     (case on_payloads (\<lambda>p. case utc_now (ps_world p) of (t, w) \<Rightarrow> (t div 1000000000, p\<lparr>ps_world := w\<rparr>)) s of
        (now, s) \<Rightarrow>
          (unwrap_or passive_ack
             (build_passive_text_response message (resolve_passive_reply_text (gw_world s)) now), s))"

definition ingest_wechat_mp ::
    "'h gateway_lib \<Rightarrow> gateway_tables \<Rightarrow> string option \<Rightarrow> string option \<Rightarrow> string option \<Rightarrow> string option
     \<Rightarrow> string \<Rightarrow> 'h gateway_state \<Rightarrow> gateway_response \<times> 'h gateway_state" where
  "ingest_wechat_mp gl g signature msg_signature timestamp nonce body s =
     (case verify_wechat_mp_message (gl_verify gl) (gw_world s) signature msg_signature timestamp nonce body of
        Inl _ \<Rightarrow> (\<lparr>hr_code = 401, hr_body = TextBody ''unauthorized''\<rparr>, s)
      | Inr _ \<Rightarrow>
          (case wechat_mp_parse (gl_adapters gl) (w_env (gw_world s)) body of
             Inl _ \<Rightarrow> (passive_ack, s)
           | Inr message \<Rightarrow>
               let open_id = unwrap_or (im_sender message) (cm_wechat_mp_open_id (im_metadata message)) in
               (case passive_ack_response message s of (r, s) \<Rightarrow>
                  (case resolve_route WeChatMp open_id g of
                     None \<Rightarrow> (r, s)
                   | Some route \<Rightarrow>
                       (r, s\<lparr>gw_jobs := gw_jobs s @ [\<lparr>mj_route = route, mj_message = message,
                                                       mj_body = body\<rparr>]\<rparr>)))))"

text \<open>The outcome is only logged.\<close>

definition process_wechat_mp_async ::
    "'h gateway_lib \<Rightarrow> mp_job \<Rightarrow> 'h gateway_state \<Rightarrow> 'h gateway_state" where
  "process_wechat_mp_async gl job s =
     snd (hand_over gl (mj_route job) WeChatMp (im_message_id (mj_message job)) (mj_message job) (mj_body job) s)"

subsection \<open>The router\<close>

text \<open>
  The requests by \<open>POST\<close> that \<open>main\<close> routes to these handlers, the end of a spawned task, in whatever
  order, and a restart of the process, which forgets the tasks and the threads.
\<close>

datatype gateway_event =
    PostPostmark headers string
  | PostSlack headers string
  | PostBlueBubbles headers string
  | PostTelegram string
  | PostSms headers string
  | PostWhatsApp string
  | PostWeChat string
  | PostWeChatMp "string option" "string option" "string option" "string option" string
  | PostLark headers string
  | RunJob nat
  | Restart

definition answered :: "'r \<times> 's \<Rightarrow> 'r run option \<times> 's" where
  "answered p = (case p of (r, s) \<Rightarrow> (Some (Returns r), s))"

fun serve ::
    "'h gateway_lib \<Rightarrow> gateway_tables \<Rightarrow> gateway_event \<Rightarrow> 'h gateway_state
     \<Rightarrow> gateway_response run option \<times> 'h gateway_state" where
  "serve gl g (PostPostmark headers body) s = answered (ingest_postmark gl g headers body s)"
| "serve gl g (PostSlack headers body) s = answered (ingest_slack gl g headers body s)"
| "serve gl g (PostBlueBubbles headers body) s = answered (ingest_bluebubbles gl g headers body s)"
| "serve gl g (PostTelegram body) s = answered (ingest_telegram gl g body s)"
| "serve gl g (PostSms headers body) s = answered (ingest_sms gl g headers body s)"
| "serve gl g (PostWhatsApp body) s = answered (ingest_whatsapp gl g body s)"
| "serve gl g (PostWeChat body) s = (case ingest_wechat gl g body s of (r, s) \<Rightarrow> (Some r, s))"
| "serve gl g (PostWeChatMp signature msg_signature timestamp nonce body) s =
     answered (ingest_wechat_mp gl g signature msg_signature timestamp nonce body s)"
| "serve gl g (PostLark headers body) s = answered (ingest_lark gl g headers body s)"
| "serve gl g (RunJob i) s =
     (case nth_opt (gw_jobs s) i of
        None \<Rightarrow> (None, s)
      | Some job \<Rightarrow>
          (None, process_wechat_mp_async gl job (s\<lparr>gw_jobs := take i (gw_jobs s) @ drop (Suc i) (gw_jobs s)\<rparr>)))"
| "serve gl g Restart s = (None, s\<lparr>gw_engaged := [], gw_jobs := []\<rparr>)"

end
