(* ===== verification/Payload_Properties.thy ===== *)
theory Payload_Properties
  imports Gateway_Envelope Inbound_Properties
begin

text \<open>
  What the gateway leaves in the payload store is what a worker gets back: for the bytes of a request
  with every backend, and for the attachments that were moved out of a mail.
\<close>

subsection \<open>Texts that trimming leaves alone\<close>

lemma trim_fixed: "trim s = s \<longleftrightarrow> s = [] \<or> ws_len s = 0 \<and> ws_len_rev (rev s) = 0"
proof
  assume "trim s = s"
  then have "trim_start s = s" "trim_end s = s" by (metis trim_start_trim, metis trim_end_trim)
  then show "s = [] \<or> ws_len s = 0 \<and> ws_len_rev (rev s) = 0"
    by (simp add: trim_start_fixed trim_end_fixed) blast
next
  assume "s = [] \<or> ws_len s = 0 \<and> ws_len_rev (rev s) = 0"
  then have "trim_start s = s" "trim_end s = s" by (auto simp: trim_start_fixed trim_end_fixed)
  then show "trim s = s" by (simp add: trim_def)
qed

lemma ascii_not_ws: "(of_char c :: nat) < 128 \<Longrightarrow> \<not> ws2 a c \<and> \<not> ws3 a b c"
  by (auto simp: ws2_def ws3_def)

lemma slash_not_ws: "\<not> ws2 (CHR ''/'') a \<and> \<not> ws3 (CHR ''/'') a b \<and> \<not> ws3 a (CHR ''/'') b"
  by (simp add: ws2_def ws3_def)

lemma solid_end: "(of_char c :: nat) < 128 \<Longrightarrow> \<not> ws1 c \<Longrightarrow> ws_len_rev (c # s) = 0"
  using ascii_not_ws [of c] by (cases "c # s" rule: ws_len_rev.cases) simp_all

lemma ws_len_slash: "p \<noteq> [] \<Longrightarrow> ws_len p = 0 \<Longrightarrow> ws_len (p @ CHR ''/'' # r) = 0"
  using slash_not_ws ascii_not_ws [of "CHR ''/''"]
  by (cases p rule: ws_len.cases; cases r) (simp_all split: if_splits)

lemma token_solid: "token_char c \<Longrightarrow> (of_char c :: nat) < 128 \<and> \<not> ws1 c"
  by (auto simp: token_char_def is_ascii_alphanumeric_def ws1_def Let_def)

subsection \<open>Paths\<close>

text \<open>A path that the references carry unchanged.\<close>

definition stored_path :: "string \<Rightarrow> bool" where
  "stored_path p = (p \<noteq> [] \<and> hd p \<noteq> CHR ''/'' \<and> trim p = p)"

text \<open>A prefix of the paths that is trimmed also where slashes have been cut off.\<close>

definition clean_prefix :: "world \<Rightarrow> bool" where
  "clean_prefix w = (trim (resolve_raw_payload_path_prefix w) = resolve_raw_payload_path_prefix w)"

lemma prefix_shape:
  "resolve_raw_payload_path_prefix w \<noteq> [] \<and> hd (resolve_raw_payload_path_prefix w) \<noteq> CHR ''/''"
  using trim_matches_ends [of "''/''"]
  by (auto simp: resolve_raw_payload_path_prefix_def opt_filter_def split: option.splits)

lemma stored_pathI:
  assumes "clean_prefix w" and "(of_char c :: nat) < 128" and "\<not> ws1 c"
  shows "stored_path (resolve_raw_payload_path_prefix w @ CHR ''/'' # t @ [c])"
proof -
  let ?p = "resolve_raw_payload_path_prefix w"
  from prefix_shape [of w] assms(1) have p: "?p \<noteq> []" "hd ?p \<noteq> CHR ''/''" "ws_len ?p = 0"
    by (auto simp: clean_prefix_def trim_fixed)
  with ws_len_slash [OF p(1,3), of "t @ [c]"] solid_end [OF assms(2,3), of "rev t @ CHR ''/'' # rev ?p"]
  show ?thesis by (simp add: stored_path_def trim_fixed)
qed

lemma object_path_stored: "clean_prefix w \<Longrightarrow> stored_path (build_object_path hl w i t)"
  using stored_pathI [of w "CHR ''n''" "hl_date hl t @ ''/'' @ i @ ''.bi''"]
  by (simp add: build_object_path_def ws1_def)

lemma sanitize_blob_segment_token:
  "sanitize_blob_segment v ''attachment'' \<noteq> []
   \<and> token_char (last (sanitize_blob_segment v ''attachment''))"
proof -
  let ?out = "concat (map (\<lambda>c. if is_continuation c then []
      else if is_ascii_alphanumeric c \<or> c \<in> set ''._-'' then [c] else ''_'') (trim v))"
  have "\<forall>c \<in> set ?out. token_char c" by (auto simp: token_char_def split: if_splits)
  then have *: "\<forall>c \<in> set (User_Store.trim_matches ''._-'' ?out). token_char c" using trim_matches_set by blast
  show ?thesis
  proof (cases "User_Store.trim_matches ''._-'' ?out = []")
    case True
    then show ?thesis
      by (simp add: sanitize_blob_segment_def Let_def token_char_def is_ascii_alphanumeric_def)
  next
    case False
    with * last_in_set [OF False] show ?thesis by (simp add: sanitize_blob_segment_def Let_def)
  qed
qed

lemma attachment_path_stored:
  assumes "clean_prefix w"
  shows "stored_path (build_attachment_object_path hl w i t n name)"
proof -
  let ?s = "sanitize_blob_segment name ''attachment''"
  have s: "?s = butlast ?s @ [last ?s]" using sanitize_blob_segment_token [of name] by simp
  from token_solid [OF sanitize_blob_segment_token [of name, THEN conjunct2]]
  have "stored_path (resolve_raw_payload_path_prefix w @ CHR ''/''
      # (''attachments/'' @ hl_date hl t @ ''/'' @ i @ ''/'' @ pad3 n @ ''_'' @ butlast ?s) @ [last ?s])"
    by (intro stored_pathI [OF assms]) auto
  with s show ?thesis
    unfolding build_attachment_object_path_def by (metis append.assoc append_Cons append_Nil)
qed

subsection \<open>References\<close>

lemma parse_local_ref_path: "stored_path p \<Longrightarrow> parse_local_ref (to_local_ref p) = Inr p"
  by (cases p) (auto simp: parse_local_ref_def to_local_ref_def stored_path_def trim_start_char_def)

lemma split_reference_path:
  assumes "stored_path p" and "CHR ''/'' \<notin> set c" and "trim c \<noteq> []"
  shows "split_reference r (c @ CHR ''/'' # p) = Inr (trim c, p)"
  using assms by (simp add: split_reference_def splitn_2 stored_path_def)

lemma parse_azure_ref_path:
  "stored_path p \<Longrightarrow> CHR ''/'' \<notin> set c \<Longrightarrow> trim c \<noteq> [] \<Longrightarrow>
   parse_azure_ref (to_azure_ref c p) = Inr (trim c, p)"
  by (simp add: parse_azure_ref_def to_azure_ref_def split_reference_path)

lemma parse_supabase_ref_path:
  "stored_path p \<Longrightarrow> CHR ''/'' \<notin> set c \<Longrightarrow> trim c \<noteq> [] \<Longrightarrow>
   parse_supabase_ref (to_supabase_ref c p) = Inr (trim c, p)"
  by (simp add: parse_supabase_ref_def to_supabase_ref_def split_reference_path)

lemma ref_backends [simp]:
  "starts_with (to_azure_ref c p) ''azure://''"
  "\<not> starts_with (to_local_ref p) ''azure://''" "starts_with (to_local_ref p) ''local://''"
  "\<not> starts_with (to_supabase_ref c p) ''azure://''" "\<not> starts_with (to_supabase_ref c p) ''local://''"
  by (simp_all add: to_azure_ref_def to_local_ref_def to_supabase_ref_def starts_with_def)

subsection \<open>Local files\<close>

lemma on_files_ok:
  "on_files op s = (Inr x, s') \<longleftrightarrow> (\<exists>w. op (ps_world s) = (Inr x, w) \<and> s' = s\<lparr>ps_world := w\<rparr>)"
  by (auto simp: on_files_def split: prod.splits)

definition same_settings :: "world \<Rightarrow> world \<Rightarrow> bool" where
  "same_settings w w' = (w_env w' = w_env w \<and> w_refuse w' = w_refuse w)"

lemma var_cong: "w_env w' = w_env w \<Longrightarrow> var_with_scale_oliver w' k = var_with_scale_oliver w k"
  by (simp add: read_non_empty_env_def var_with_scale_oliver_def deploy_target_def Let_def)

lemma env_cong:
  assumes "w_env w' = w_env w"
  shows "resolve_local_root w' = resolve_local_root w"
    and "resolve_raw_payload_backend w' = resolve_raw_payload_backend w"
    and "resolve_raw_payload_path_prefix w' = resolve_raw_payload_path_prefix w"
    and "resolve_connection_string_for_ingest w' = resolve_connection_string_for_ingest w"
    and "resolve_azure_container_sas_url w' = resolve_azure_container_sas_url w"
    and "resolve_project_url w' = resolve_project_url w"
    and "resolve_service_key w' = resolve_service_key w"
  using assms var_cong [OF assms]
  by (simp_all add: resolve_local_root_def resolve_raw_payload_backend_def resolve_raw_payload_path_prefix_def
      resolve_connection_string_for_ingest_def resolve_account_from_connection_string_def
      resolve_azure_container_sas_url_def resolve_project_url_def resolve_service_key_def read_non_empty_env_def
      cong: option.case_cong)

lemma settings_cong:
  assumes "same_settings w w'"
  shows "resolve_local_root w' = resolve_local_root w"
    and "resolve_raw_payload_backend w' = resolve_raw_payload_backend w"
    and "resolve_raw_payload_path_prefix w' = resolve_raw_payload_path_prefix w"
  using assms env_cong [of w' w] by (simp_all add: same_settings_def)

lemma fs_create_dir_all_settings: "fs_create_dir_all p w = (r, w') \<Longrightarrow> same_settings w w'"
  by (auto simp: fs_create_dir_all_def same_settings_def split: option.splits if_splits)

lemma fs_write_settings: "fs_write p c w = (r, w') \<Longrightarrow> same_settings w w'"
  by (auto simp: fs_write_def same_settings_def split: option.splits if_splits)

lemma same_settings_trans: "same_settings a b \<Longrightarrow> same_settings b c \<Longrightarrow> same_settings a c"
  by (simp add: same_settings_def)

lemma create_parent:
  assumes "(case path_parent p of None \<Rightarrow> (Inr (), s)
        | Some parent \<Rightarrow> on_files (fs_create_dir_all parent) s) = (Inr u, s1)"
  shows "same_settings (ps_world s) (ps_world s1) \<and> w_files (ps_world s1) = w_files (ps_world s)"
proof (cases "path_parent p")
  case None
  with assms show ?thesis by (simp add: same_settings_def)
next
  case (Some parent)
  with assms obtain w where "fs_create_dir_all parent (ps_world s) = (Inr u, w)" "ps_world s1 = w"
    by (auto simp: on_files_ok)
  then show ?thesis using fs_create_dir_all_settings fs_create_dir_all_files by metis
qed

lemma upload_local_ok:
  assumes "upload_local_bytes path payload s = (Inr r, s')"
  defines "p \<equiv> local_object_path (resolve_local_root (ps_world s)) path"
  shows "r = to_local_ref path \<and> same_settings (ps_world s) (ps_world s')
    \<and> (\<forall>q. fs_read (ps_world s') q = (if q = p then Some payload else fs_read (ps_world s) q))"
proof -
  from assms(1) obtain u s1 where 1: "(case path_parent p of None \<Rightarrow> (Inr (), s)
        | Some parent \<Rightarrow> on_files (fs_create_dir_all parent) s) = (Inr u, s1)"
    and "st_bind (on_files (fs_write p payload) s1) (\<lambda>_ s. (Inr (to_local_ref path), s)) = (Inr r, s')"
    unfolding upload_local_bytes_def Let_def p_def by (auto dest!: st_bind_ok)
  then obtain v s2 where 2: "on_files (fs_write p payload) s1 = (Inr v, s2)"
    and r: "r = to_local_ref path" "s' = s2" by (auto dest!: st_bind_ok)
  from 2 obtain w where w: "fs_write p payload (ps_world s1) = (Inr v, w)" "ps_world s2 = w"
    by (auto simp: on_files_ok)
  from create_parent [OF 1] have "fs_read (ps_world s1) q = fs_read (ps_world s) q" for q
    by (simp add: fs_read_def same_settings_def)
  with r w fs_write_settings [OF w(1)] fs_read_after_write [OF w(1)] create_parent [OF 1]
  show ?thesis using same_settings_trans by auto
qed

lemma download_local_path:
  "stored_path path \<Longrightarrow> fs_read (ps_world s) (local_object_path (resolve_local_root (ps_world s)) path) = Some b \<Longrightarrow>
   download_local (to_local_ref path) s = (Inr b, s)"
  by (simp add: download_local_def parse_local_ref_path Let_def)

text \<open>
  A later state of the process: the environment is the same and what the stores held they still
  hold, whatever else was written in between.
\<close>

definition still_stored ::
    "('h \<Rightarrow> string \<rightharpoonup> string) \<Rightarrow> 'h payload_state \<Rightarrow> 'h payload_state \<Rightarrow> bool" where
  "still_stored objects s s' =
     (w_env (ps_world s') = w_env (ps_world s)
      \<and> objects (ps_net s) \<subseteq>\<^sub>m objects (ps_net s')
      \<and> (let file = (\<lambda>x path. fs_read (ps_world x) (local_object_path (resolve_local_root (ps_world s)) path)) in
         file s \<subseteq>\<^sub>m file s'))"

lemma still_stored_object: "still_stored objects s s' \<Longrightarrow> objects (ps_net s) u = Some b \<Longrightarrow> objects (ps_net s') u = Some b"
  by (auto simp: still_stored_def map_le_def dom_def)

lemma still_stored_file:
  "still_stored objects s s' \<Longrightarrow>
   fs_read (ps_world s) (local_object_path (resolve_local_root (ps_world s)) path) = Some b \<Longrightarrow>
   fs_read (ps_world s') (local_object_path (resolve_local_root (ps_world s)) path) = Some b"
  by (auto simp: still_stored_def map_le_def dom_def)

lemma local_roundtrip:
  assumes "upload_local_bytes path payload s = (Inr r, s')" and "stored_path path"
    and "still_stored objects s' s2"
  shows "download_raw_payload hl r s2 = (Inr payload, s2)"
proof -
  note eff = upload_local_ok [OF assms(1)]
  then have env: "resolve_local_root (ps_world s') = resolve_local_root (ps_world s)"
    by (intro settings_cong) simp
  from assms(3) have "w_env (ps_world s2) = w_env (ps_world s')" by (simp add: still_stored_def)
  from env_cong(1) [OF this] env eff still_stored_file [OF assms(3), of path payload]
    download_local_path [OF assms(2), of s2 payload]
  show ?thesis by (simp add: download_raw_payload_def)
qed

subsection \<open>The stores on the network\<close>

text \<open>
  What the services promise: a successful \<open>PUT\<close> or \<open>POST\<close> leaves its body at its address, a successful
  \<open>GET\<close> gives what is there.
\<close>

locale object_service =
  fixes hl :: "'h http_lib" and objects :: "'h \<Rightarrow> string \<rightharpoonup> string"
  assumes stored: "hl_send hl q h = (Inr (status, b), h') \<Longrightarrow> is_success status \<Longrightarrow>
      hq_method q \<in> {''PUT'', ''POST''} \<Longrightarrow> objects h' (hq_url q) = Some (hq_body q)"
    and fetched: "hl_send hl q h = (Inr (status, b), h') \<Longrightarrow> is_success status \<Longrightarrow>
      hq_method q = ''GET'' \<Longrightarrow> objects h (hq_url q) = Some b"
begin

lemma send_stores:
  assumes "on_net (hl_send hl q) s = (Inr answer, s')" and "expect_success what answer = Inr b"
    and "hq_method q \<in> {''PUT'', ''POST''}"
  shows "objects (ps_net s') (hq_url q) = Some (hq_body q) \<and> ps_world s' = ps_world s"
  using assms stored [of q "ps_net s" "fst answer" "snd answer"]
  by (auto simp: on_net_def expect_success_def split: prod.splits if_splits)

lemma get_gives:
  assumes "on_net (hl_send hl (http_get url headers)) s = (Inr (status, b), s')" and "is_success status"
  shows "objects (ps_net s) url = Some b"
  using assms fetched [of "http_get url headers" "ps_net s" status b]
  by (auto simp: on_net_def http_get_def split: prod.splits)

lemma azure_stored:
  assumes "upload_azure_bytes hl path payload s = (Inr r, s')"
  shows "\<exists>c url. resolve_azure_container (ps_world s) = Inr c \<and> resolve_azure_container_sas_url (ps_world s) = Inr url
    \<and> r = to_azure_ref c path \<and> ps_world s' = ps_world s
    \<and> objects (ps_net s') (build_azure_blob_url url path) = Some payload"
proof -
  from assms obtain c url answer s1 b where
    *: "resolve_azure_container (ps_world s) = Inr c" "resolve_azure_container_sas_url (ps_world s) = Inr url"
      "on_net (hl_send hl \<lparr>hq_method = ''PUT'', hq_url = build_azure_blob_url url path,
          hq_headers = [(''x-ms-blob-type'', ''BlockBlob'')], hq_body = payload\<rparr>) s = (Inr answer, s1)"
      "expect_success ''upload'' answer = Inr b" "r = to_azure_ref c path" "s' = s1"
    unfolding upload_azure_bytes_def by (auto dest!: st_bind_ok)
  with send_stores [OF *(3,4)] show ?thesis by auto
qed

lemma azure_fetched:
  assumes "download_azure hl (to_azure_ref c path) s = (Inr b, s')" and "stored_path path"
    and "CHR ''/'' \<notin> set c" "trim c \<noteq> []"
    and "resolve_azure_container_sas_url (ps_world s) = Inr url"
    and "resolve_connection_string_for_ingest (ps_world s) = None"
  shows "objects (ps_net s) (build_azure_blob_url url path) = Some b"
proof -
  from assms(1) obtain status body s1 where
    1: "on_net (hl_send hl (http_get (build_azure_blob_url url path) [])) s = (Inr (status, body), s1)"
    and 2: "(if is_success status then (Inr body, s1)
       else if resolve_connection_string_for_ingest (ps_world s1) = None
       then (Inl (status_error ''download'' status body), s1)
       else download_via_connection_string hl (trim c) path s1) = (Inr b, s')"
    unfolding download_azure_def
    by (auto simp: parse_azure_ref_path [OF assms(2-4)] assms(5) dest!: st_bind_ok split: prod.splits)
  have "ps_world s1 = ps_world s" using 1 by (auto simp: on_net_def split: prod.splits)
  with 2 assms(6) have "is_success status" "b = body" by (auto split: if_splits)
  with get_gives [OF 1] show ?thesis by simp
qed

lemma supabase_stored:
  assumes "upload_supabase_bytes hl path payload s = (Inr r, s')"
  shows "\<exists>base key. resolve_project_url (ps_world s) = Inr base \<and> resolve_service_key (ps_world s) = Inr key
    \<and> r = to_supabase_ref (resolve_storage_bucket (ps_world s)) path \<and> ps_world s' = ps_world s
    \<and> objects (ps_net s') (build_object_url base (resolve_storage_bucket (ps_world s)) path) = Some payload"
proof -
  let ?bucket = "resolve_storage_bucket (ps_world s)"
  from assms obtain base key where keys: "resolve_project_url (ps_world s) = Inr base"
      "resolve_service_key (ps_world s) = Inr key"
    and rest: "st_bind (ensure_bucket_ready hl base ?bucket key s) (\<lambda>_ s.
       st_bind (on_net (hl_send hl \<lparr>hq_method = ''POST'', hq_url = build_object_url base ?bucket path,
                  hq_headers = bearer key @ [(''x-upsert'', ''true'')], hq_body = payload\<rparr>) s) (\<lambda>answer s.
       st_bind (expect_success ''upload'' answer, s) (\<lambda>_ s.
         (Inr (to_supabase_ref ?bucket path), s)))) = (Inr r, s')"
    unfolding upload_supabase_bytes_def Let_def by (auto dest!: st_bind_ok)
  then obtain s0 answer s1 b where
    0: "ensure_bucket_ready hl base ?bucket key s = (Inr (), s0)"
    and 1: "on_net (hl_send hl \<lparr>hq_method = ''POST'', hq_url = build_object_url base ?bucket path,
                  hq_headers = bearer key @ [(''x-upsert'', ''true'')], hq_body = payload\<rparr>) s0 = (Inr answer, s1)"
      "expect_success ''upload'' answer = Inr b"
    and r: "r = to_supabase_ref ?bucket path" "s' = s1" by (auto dest!: st_bind_ok)
  from 0 have "ps_world s0 = ps_world s"
    by (auto simp: ensure_bucket_ready_def on_net_def split: if_splits prod.splits dest!: st_bind_ok)
  with keys r send_stores [OF 1] show ?thesis by auto
qed

lemma supabase_fetched:
  assumes "download_supabase hl (to_supabase_ref c path) s = (Inr b, s')" and "stored_path path"
    and "CHR ''/'' \<notin> set c" "trim c = c" "c \<noteq> []"
    and "resolve_project_url (ps_world s) = Inr base" and "resolve_service_key (ps_world s) = Inr key"
  shows "objects (ps_net s) (build_object_url base c path) = Some b"
proof -
  from assms obtain headers status s1 where
    1: "on_net (hl_send hl (http_get (build_object_url base c path) headers)) s = (Inr (status, b), s1)"
      "is_success status"
    unfolding download_supabase_def
    by (auto simp: parse_supabase_ref_path Let_def expect_success_def dest!: st_bind_ok split: if_splits prod.splits)
  show ?thesis by (rule get_gives [OF 1])
qed

end

text \<open>A server in memory.\<close>

definition memory_http :: "(string \<times> string) list http_lib" where
  "memory_http =
     \<lparr>hl_send = (\<lambda>q h.
         if hq_method q = ''GET''
         then (Inr (case map_of h (hq_url q) of Some b \<Rightarrow> (200, b) | None \<Rightarrow> (404, [])), h)
         else (Inr (201, []), AList.update (hq_url q) (hq_body q) h)),
      hl_key_get = (\<lambda>_ _ _ _ h. (Inl ''no such account'', h)),
      hl_bucket_json = id,
      hl_date = (\<lambda>_. ''2026/02/26'')\<rparr>"

interpretation mh: object_service memory_http map_of
  by unfold_locales (auto simp: memory_http_def is_success_def update_conv' split: if_splits option.splits)

subsection \<open>The bytes of a request\<close>

lemma env_value: "read_non_empty_env w k = Some v \<Longrightarrow> trim v = v \<and> v \<noteq> []"
  by (auto simp: read_non_empty_env_def opt_filter_Some)

lemma var_value: "var_with_scale_oliver w k = Some v \<Longrightarrow> trim v = v \<and> v \<noteq> []"
  by (auto simp: var_with_scale_oliver_def Let_def or_else_Some dest: env_value split: if_splits)

lemma container_value: "resolve_azure_container w = Inr c \<Longrightarrow> trim c = c \<and> c \<noteq> []"
  by (auto simp: resolve_azure_container_def dest: var_value split: option.splits)

lemma bucket_value: "trim (resolve_storage_bucket w) = resolve_storage_bucket w \<and> resolve_storage_bucket w \<noteq> []"
proof (cases "read_non_empty_env w ''SUPABASE_STORAGE_BUCKET''")
  case None
  have "trim ''ingestion-raw'' = ''ingestion-raw''" by code_simp
  with None show ?thesis by (simp add: resolve_storage_bucket_def)
next
  case (Some v)
  then show ?thesis using env_value by (simp add: resolve_storage_bucket_def)
qed

lemma stored_bytes_return:
  assumes os: "object_service hl objects" and path: "stored_path path"
    and bucket: "CHR ''/'' \<notin> set (resolve_storage_bucket (ps_world s))"
    and container: "\<And>c. resolve_azure_container (ps_world s) = Inr c \<Longrightarrow> CHR ''/'' \<notin> set c"
    and conn: "resolve_connection_string_for_ingest (ps_world s) = None"
    and up: "upload_azure_bytes hl path payload s = (Inr r, s')
       \<or> upload_local_bytes path payload s = (Inr r, s') \<or> upload_supabase_bytes hl path payload s = (Inr r, s')"
    and later: "still_stored objects s' s2"
    and down: "download_raw_payload hl r s2 = (Inr b, s'')"
  shows "b = payload"
  using up
proof (elim disjE)
  assume "upload_azure_bytes hl path payload s = (Inr r, s')"
  from object_service.azure_stored [OF os this] obtain c url where
    *: "resolve_azure_container (ps_world s) = Inr c" "resolve_azure_container_sas_url (ps_world s) = Inr url"
      "r = to_azure_ref c path" "ps_world s' = ps_world s"
      "objects (ps_net s') (build_azure_blob_url url path) = Some payload" by blast
  from down *(3) have get: "download_azure hl (to_azure_ref c path) s2 = (Inr b, s'')"
    by (simp add: download_raw_payload_def)
  from later *(4) have env: "w_env (ps_world s2) = w_env (ps_world s)" by (simp add: still_stored_def)
  from object_service.azure_fetched [OF os get path container [OF *(1)]] container_value [OF *(1)]
    *(2) conn env_cong(4,5) [OF env]
  have "objects (ps_net s2) (build_azure_blob_url url path) = Some b" by simp
  with still_stored_object [OF later *(5)] show ?thesis by simp
next
  assume "upload_local_bytes path payload s = (Inr r, s')"
  from local_roundtrip [OF this path later] down show ?thesis by simp
next
  let ?c = "resolve_storage_bucket (ps_world s)"
  assume "upload_supabase_bytes hl path payload s = (Inr r, s')"
  from object_service.supabase_stored [OF os this] obtain base key where
    *: "resolve_project_url (ps_world s) = Inr base" "resolve_service_key (ps_world s) = Inr key"
      "r = to_supabase_ref ?c path" "ps_world s' = ps_world s"
      "objects (ps_net s') (build_object_url base ?c path) = Some payload" by blast
  from down *(3) have get: "download_supabase hl (to_supabase_ref ?c path) s2 = (Inr b, s'')"
    by (simp add: download_raw_payload_def)
  from later *(4) have env: "w_env (ps_world s2) = w_env (ps_world s)" by (simp add: still_stored_def)
  from object_service.supabase_fetched [OF os get path bucket] bucket_value *(1,2) env_cong(6,7) [OF env]
  have "objects (ps_net s2) (build_object_url base ?c path) = Some b" by simp
  with still_stored_object [OF later *(5)] show ?thesis by simp
qed


subsection \<open>Attachments\<close>

lemma upload_local_err:
  assumes "upload_local_bytes path payload s = (Inl e, s')"
  shows "same_settings (ps_world s) (ps_world s')
    \<and> (\<forall>q. q \<noteq> local_object_path (resolve_local_root (ps_world s)) path \<longrightarrow>
           fs_read (ps_world s') q = fs_read (ps_world s) q)"
proof -
  let ?p = "local_object_path (resolve_local_root (ps_world s)) path"
  let ?parent = "case path_parent ?p of None \<Rightarrow> (Inr (), s)
      | Some parent \<Rightarrow> on_files (fs_create_dir_all parent) s"
  obtain u s1 where 1: "?parent = (u, s1)" by (cases ?parent)
  have first: "same_settings (ps_world s) (ps_world s1) \<and> w_files (ps_world s1) = w_files (ps_world s)"
  proof (cases "path_parent ?p")
    case None
    with 1 show ?thesis by (auto simp: same_settings_def)
  next
    case (Some parent)
    obtain r w where w: "fs_create_dir_all parent (ps_world s) = (r, w)" by (cases "fs_create_dir_all parent (ps_world s)")
    with 1 Some have "ps_world s1 = w" by (auto simp: on_files_def)
    with fs_create_dir_all_settings [OF w] fs_create_dir_all_files [OF w] show ?thesis by simp
  qed
  show ?thesis
  proof (cases u)
    case (Inl e')
    with 1 assms first show ?thesis by (simp add: upload_local_bytes_def Let_def fs_read_def same_settings_def)
  next
    case (Inr v)
    obtain r w where w: "fs_write ?p payload (ps_world s1) = (r, w)" by (cases "fs_write ?p payload (ps_world s1)")
    with assms 1 Inr have "\<exists>e'. r = Inl e'" "s' = s1\<lparr>ps_world := w\<rparr>"
      by (cases r; auto simp: upload_local_bytes_def Let_def on_files_def)+
    moreover from this w have "w = ps_world s1 \<or> (\<exists>c. w = (ps_world s1)\<lparr>w_files := AList.update ?p c (w_files (ps_world s1))\<rparr>)"
      using fs_write_err by blast
    ultimately show ?thesis using first by (auto simp: fs_read_def same_settings_def update_conv')
  qed
qed

text \<open>The file of the attachment with a number and a name.\<close>

definition attachment_file :: "'h http_lib \<Rightarrow> world \<Rightarrow> uuid \<Rightarrow> datetime \<Rightarrow> nat \<Rightarrow> string \<Rightarrow> string" where
  "attachment_file hl w e t i name =
     local_object_path (resolve_local_root w) (build_attachment_object_path hl w e t i name)"

lemma parse_digits_zeros: "parse_digits 0 (replicate k (CHR ''0'') @ s) = parse_digits 0 s"
  by (induction k) (simp_all add: digit_val_def)

lemma pad3_inj: "pad3 i = pad3 j \<Longrightarrow> i = j"
  by (metis option.inject pad3_def parse_digits_nat_str parse_digits_zeros)

lemma digits_no_underscore: "parse_digits n s \<noteq> None \<Longrightarrow> CHR ''_'' \<notin> set s"
  by (induction s arbitrary: n) (auto simp: digit_val_def split: option.splits)

lemma pad3_split: "pad3 i @ CHR ''_'' # u = pad3 j @ CHR ''_'' # v \<Longrightarrow> i = j"
proof -
  assume eq: "pad3 i @ CHR ''_'' # u = pad3 j @ CHR ''_'' # v"
  have none: "CHR ''_'' \<notin> set (pad3 k)" for k
    using digits_no_underscore [of 0 "pad3 k"] by (simp add: pad3_def parse_digits_zeros parse_digits_nat_str)
  have "takeWhile (\<lambda>c. c \<noteq> CHR ''_'') (pad3 k @ CHR ''_'' # w) = pad3 k" for k w
  proof -
    have "\<forall>c \<in> set (pad3 k). c \<noteq> CHR ''_''" using none by blast
    then show ?thesis by (simp add: takeWhile_append2)
  qed
  with eq show ?thesis by (metis pad3_inj)
qed

lemma path_join_inj: "p \<noteq> [] \<Longrightarrow> hd p \<noteq> CHR ''/'' \<Longrightarrow> q \<noteq> [] \<Longrightarrow> hd q \<noteq> CHR ''/'' \<Longrightarrow>
    path_join root p = path_join root q \<Longrightarrow> p = q"
  by (cases p; cases q) (auto simp: path_join_def path_is_absolute_def starts_with_def split: if_splits)

lemma attachment_file_inj:
  assumes "attachment_file hl w e t i n = attachment_file hl w e t j m"
  shows "i = j"
proof -
  have path: "build_attachment_object_path hl w e t k l \<noteq> []
      \<and> hd (build_attachment_object_path hl w e t k l) \<noteq> CHR ''/''" for k l
    using prefix_shape [of w] by (simp add: build_attachment_object_path_def)
  have fixed: "p \<noteq> [] \<and> hd p \<noteq> CHR ''/'' \<Longrightarrow> trim_start_char (CHR ''/'') p = p" for p
    by (cases p) (auto simp: trim_start_char_def)
  have "trim_start_char (CHR ''/'') (build_attachment_object_path hl w e t k l)
      = build_attachment_object_path hl w e t k l" for k l
    by (rule fixed [OF path])
  with assms path have "build_attachment_object_path hl w e t i n = build_attachment_object_path hl w e t j m"
    using path_join_inj unfolding attachment_file_def local_object_path_def by metis
  then show ?thesis
    using pad3_split [of i "sanitize_blob_segment n ''attachment''" j "sanitize_blob_segment m ''attachment''"]
    by (simp add: build_attachment_object_path_def)
qed

lemma attachment_file_cong: "same_settings w w' \<Longrightarrow> attachment_file hl w' e t i n = attachment_file hl w e t i n"
  by (simp add: attachment_file_def build_attachment_object_path_def settings_cong [of w w'])

text \<open>Either nothing happened to an attachment, or its bytes are in its file and it refers to them.\<close>

definition moved :: "'h gateway_lib \<Rightarrow> world \<Rightarrow> uuid \<Rightarrow> datetime \<Rightarrow> nat \<Rightarrow> json \<Rightarrow> json \<Rightarrow> bool" where
  "moved gl w e t i obj obj' =
     (obj' = obj \<or>
      (\<exists>decoded. is_object obj \<and> attachment_content obj \<noteq> []
        \<and> al_base64 (gl_adapters gl) (attachment_content obj) = Inr decoded
        \<and> obj' = blob_member (to_local_ref (build_attachment_object_path (gl_http gl) w e t i
              (attachment_file_name obj))) decoded obj
        \<and> fs_read w (attachment_file (gl_http gl) w e t i (attachment_file_name obj)) = Some decoded))"

lemma rewrite_attachment_local:
  assumes "rewrite_attachment gl e t i obj s = (obj', s')"
    and "resolve_raw_payload_backend (ps_world s) = ''local''"
  shows "same_settings (ps_world s) (ps_world s') \<and> moved gl (ps_world s') e t i obj obj'
    \<and> (\<forall>q. q \<noteq> attachment_file (gl_http gl) (ps_world s) e t i (attachment_file_name obj) \<longrightarrow>
           fs_read (ps_world s') q = fs_read (ps_world s) q)"
proof (cases "obj' = obj \<and> s' = s")
  case True
  then show ?thesis by (simp add: moved_def same_settings_def)
next
  case False
  let ?path = "build_attachment_object_path (gl_http gl) (ps_world s) e t i (attachment_file_name obj)"
  from False assms(1) obtain decoded where
    c: "is_object obj" "attachment_content obj \<noteq> []"
      "al_base64 (gl_adapters gl) (attachment_content obj) = Inr decoded" "decoded \<noteq> []"
    and up: "(case upload_attachment (gl_http gl) e t i (attachment_file_name obj) decoded s of
        (Inl _, s) \<Rightarrow> (obj, s) | (Inr storage_ref, s) \<Rightarrow> (blob_member storage_ref decoded obj, s)) = (obj', s')"
    by (auto simp: rewrite_attachment_def Let_def split: if_splits sum.splits)
  obtain r s1 where r: "upload_local_bytes ?path decoded s = (r, s1)" by (cases "upload_local_bytes ?path decoded s")
  with c assms(2) have "upload_attachment (gl_http gl) e t i (attachment_file_name obj) decoded s = (r, s1)"
    by (simp add: upload_attachment_def Let_def)
  with up have s': "s' = s1" "obj' = (case r of Inl _ \<Rightarrow> obj | Inr ref \<Rightarrow> blob_member ref decoded obj)"
    by (auto split: sum.splits)
  show ?thesis
  proof (cases r)
    case (Inl err)
    with upload_local_err [of ?path decoded s err s1] r s' show ?thesis
      by (simp add: moved_def attachment_file_def)
  next
    case (Inr ref)
    from upload_local_ok [OF r [unfolded Inr]] have
      *: "ref = to_local_ref ?path" "same_settings (ps_world s) (ps_world s1)"
        "\<forall>q. fs_read (ps_world s1) q = (if q = attachment_file (gl_http gl) (ps_world s) e t i (attachment_file_name obj)
            then Some decoded else fs_read (ps_world s) q)"
      by (auto simp: attachment_file_def)
    have "build_attachment_object_path (gl_http gl) (ps_world s1) e t i (attachment_file_name obj) = ?path"
      using settings_cong(3) [OF *(2)] by (simp add: build_attachment_object_path_def)
    moreover have "fs_read (ps_world s1) (attachment_file (gl_http gl) (ps_world s1) e t i (attachment_file_name obj))
        = Some decoded" using *(3) by (simp add: attachment_file_cong [OF *(2)])
    ultimately have "moved gl (ps_world s') e t i obj obj'" using * Inr s' c unfolding moved_def by auto
    with * s' show ?thesis by simp
  qed
qed

lemma moved_frame:
  assumes "moved gl w e t i obj obj'" and "same_settings w w'"
    and "\<And>n. fs_read w' (attachment_file (gl_http gl) w e t i n) = fs_read w (attachment_file (gl_http gl) w e t i n)"
  shows "moved gl w' e t i obj obj'"
proof -
  have "build_attachment_object_path hl w' e t i n = build_attachment_object_path hl w e t i n" for hl :: "'a http_lib" and n
    using settings_cong(3) [OF assms(2)] by (simp add: build_attachment_object_path_def)
  moreover have "fs_read w' (attachment_file (gl_http gl) w' e t i n) = fs_read w (attachment_file (gl_http gl) w e t i n)" for n
    using assms(3) by (simp add: attachment_file_cong [OF assms(2)])
  ultimately show ?thesis using assms(1) by (simp add: moved_def)
qed

lemma rewrite_attachments_local:
  "rewrite_attachments gl e t i objs s = (objs', s') \<Longrightarrow> resolve_raw_payload_backend (ps_world s) = ''local'' \<Longrightarrow>
   same_settings (ps_world s) (ps_world s') \<and> length objs' = length objs
   \<and> (\<forall>k < length objs. moved gl (ps_world s') e t (i + k) (objs ! k) (objs' ! k))
   \<and> (\<forall>j < i. \<forall>n. fs_read (ps_world s') (attachment_file (gl_http gl) (ps_world s) e t j n)
        = fs_read (ps_world s) (attachment_file (gl_http gl) (ps_world s) e t j n))"
proof (induction objs arbitrary: i s objs')
  case Nil
  then show ?case by (simp add: same_settings_def)
next
  case (Cons obj objs)
  from Cons.prems(1) obtain obj1 s1 objs1 where
    1: "rewrite_attachment gl e t i obj s = (obj1, s1)"
    and 2: "rewrite_attachments gl e t (Suc i) objs s1 = (objs1, s')" and objs': "objs' = obj1 # objs1"
    by (auto split: prod.splits)
  note step = rewrite_attachment_local [OF 1 Cons.prems(2)]
  then have set: "same_settings (ps_world s) (ps_world s1)" by blast
  with Cons.prems(2) have "resolve_raw_payload_backend (ps_world s1) = ''local''"
    by (simp add: settings_cong(2))
  note IH = Cons.IH [OF 2 this]
  have files: "attachment_file (gl_http gl) (ps_world s1) e t j n = attachment_file (gl_http gl) (ps_world s) e t j n"
    for j n by (rule attachment_file_cong [OF set])
  have "moved gl (ps_world s') e t i obj obj1"
    by (rule moved_frame [OF _ IH [THEN conjunct1]]) (use step IH in auto)
  moreover have "fs_read (ps_world s') (attachment_file (gl_http gl) (ps_world s) e t j n)
        = fs_read (ps_world s) (attachment_file (gl_http gl) (ps_world s) e t j n)" if "j < i" for j n
  proof -
    have "attachment_file (gl_http gl) (ps_world s) e t j n
        \<noteq> attachment_file (gl_http gl) (ps_world s) e t i (attachment_file_name obj)"
      using that attachment_file_inj by blast
    with step have "fs_read (ps_world s1) (attachment_file (gl_http gl) (ps_world s) e t j n)
        = fs_read (ps_world s) (attachment_file (gl_http gl) (ps_world s) e t j n)" by blast
    with IH that files show ?thesis by (metis less_SucI)
  qed
  moreover have "moved gl (ps_world s') e t (i + k) ((obj # objs) ! k) (objs' ! k)" if "k < length (obj # objs)" for k
    using that IH calculation(1) objs' by (cases k) auto
  ultimately show ?case using IH set objs' same_settings_trans by auto
qed

lemma ws_len_rev_slash: "p \<noteq> [] \<Longrightarrow> ws_len_rev p = 0 \<Longrightarrow> ws_len_rev (p @ CHR ''/'' # r) = 0"
  using slash_not_ws ascii_not_ws [of "CHR ''/''"]
  by (cases p rule: ws_len_rev.cases; cases r) (simp_all add: ws2_def ws3_def split: if_splits)

lemma local_ref_trimmed: "stored_path p \<Longrightarrow> trim (to_local_ref p) = to_local_ref p"
proof -
  assume "stored_path p"
  then have "p \<noteq> []" "ws_len_rev (rev p) = 0" by (auto simp: stored_path_def trim_fixed)
  then have "ws_len_rev (rev p @ CHR ''/'' # rev ''local:/'') = 0" by (intro ws_len_rev_slash) auto
  then show ?thesis by (simp add: to_local_ref_def trim_fixed ws1_def ws2_def ws3_def)
qed

lemma attachment_of_blob_member:
  assumes "attachment_of_json (JObject ms) = Some a"
  shows "attachment_of_json (blob_member ref decoded (JObject ms))
    = Some (a\<lparr>pa_content := [], pa_storage_ref := Some ref\<rparr>)"
proof -
  from assms obtain name content content_type where
    "json_str (JObject ms) ''Name'' = Some name" "json_str (JObject ms) ''Content'' = Some content"
    "json_str (JObject ms) ''ContentType'' = Some content_type" "pa_name a = name" "pa_content_type a = content_type"
    by (auto simp: attachment_of_json_def split: option.splits json.splits)
  then show ?thesis
    by (simp add: attachment_of_json_def blob_member_def json_str_def update_conv')
qed

text \<open>What a worker takes from an attachment: its name, its type and its bytes.\<close>

definition worker_view ::
    "('t, 'e, 'j, 'a, 'c, 'x) inbound_lib \<Rightarrow> json \<Rightarrow> (string \<times> string \<times> (string + string)) option" where
  "worker_view nb obj =
     map_option (\<lambda>a. (pa_name a, pa_content_type a, resolve_attachment_bytes nb a)) (attachment_of_json obj)"

lemma moved_view:
  assumes "moved gl (ps_world s) e t i obj obj'" and "clean_prefix (ps_world s)"
    and "attachment_of_json obj = Some a"
    and "\<And>c. nb_base64 nb c = (case al_base64 (gl_adapters gl) c of Inr b \<Rightarrow> Some b | Inl _ \<Rightarrow> None)"
    and "\<And>r. nb_download nb r = map_err err (fst (download_raw_payload (gl_http gl) r s))"
  shows "worker_view nb obj' = worker_view nb obj"
proof (cases "obj' = obj")
  case False
  let ?path = "build_attachment_object_path (gl_http gl) (ps_world s) e t i (attachment_file_name obj)"
  from False assms(1) obtain decoded where
    m: "is_object obj" "attachment_content obj \<noteq> []"
      "al_base64 (gl_adapters gl) (attachment_content obj) = Inr decoded"
      "obj' = blob_member (to_local_ref ?path) decoded obj"
      "fs_read (ps_world s) (attachment_file (gl_http gl) (ps_world s) e t i (attachment_file_name obj)) = Some decoded"
    by (auto simp: moved_def)
  then obtain ms where ms: "obj = JObject ms" by (cases obj) auto
  note path = attachment_path_stored [OF assms(2), of "gl_http gl" e t i "attachment_file_name obj"]
  from m(5) have "download_raw_payload (gl_http gl) (to_local_ref ?path) s = (Inr decoded, s)"
    using download_local_path [OF path] by (simp add: download_raw_payload_def attachment_file_def)
  with assms(5) have down: "nb_download nb (to_local_ref ?path) = Inr decoded" by simp
  have new: "resolve_attachment_bytes nb (a\<lparr>pa_content := [], pa_storage_ref := Some (to_local_ref ?path)\<rparr>) = Inr decoded"
    using local_ref_trimmed [OF path] down
    by (simp add: resolve_attachment_bytes_def to_local_ref_def)
  have "attachment_content obj = trim (pa_content a)"
    using assms(3) by (auto simp: attachment_of_json_def attachment_content_def split: option.splits json.splits)
  then have old: "resolve_attachment_bytes nb a = Inr decoded"
    using m(2,3) assms(4) by (simp add: resolve_attachment_bytes_def)
  from new old m(4) ms attachment_of_blob_member [of ms a "to_local_ref ?path" decoded] assms(3) show ?thesis
    by (simp add: worker_view_def)
qed simp


subsection \<open>A gateway in memory\<close>

text \<open>
  Decoders that know no JSON, a base64 that leaves texts as they are but rejects those that begin
  with an exclamation mark, constant digests, and a codec of envelopes for one fixed envelope's text.
\<close>

definition demo_adapters :: adapter_lib where
  "demo_adapters =
     \<lparr>al_slack = (\<lambda>_. Inl ''json''), al_postmark = (\<lambda>_. Inl ''json''), al_bluebubbles = (\<lambda>_. Inl ''json''),
      al_telegram = (\<lambda>_. Inl ''json''), al_whatsapp = (\<lambda>_. Inl ''json''), al_lark = (\<lambda>_. Inl ''json''),
      al_lark_content = (\<lambda>_. Inl ''json''), al_utf8_error = (\<lambda>_. None),
      al_base64 = (\<lambda>s. if starts_with s ''!'' then Inl ''base64'' else Inr s), al_base64_lenient = Inr,
      al_aes_cbc = (\<lambda>_ _ d. Some d), al_aes_cbc_pkcs7 = (\<lambda>_ _ d. Inr d), al_sha256 = id, al_md5 = id\<rparr>"

definition demo_verify :: "adapter_lib \<Rightarrow> verify_lib" where
  "demo_verify al =
     \<lparr>vl_hmac_sha256 = (\<lambda>k d. k @ d), vl_hmac_sha1 = (\<lambda>k d. k @ d), vl_sha1 = id, vl_sha256 = id,
      vl_base64 = id, vl_lossy = id, vl_utf8_error = (\<lambda>_. None), vl_form = (\<lambda>_. None),
      vl_json = \<lparr>jl_parse = (\<lambda>_. Inl ''json''), jl_print = (\<lambda>_. Inl ''json'')\<rparr>, vl_adapters = al\<rparr>"

definition demo_gateway :: "adapter_lib \<Rightarrow> (string \<times> string) list gateway_lib" where
  "demo_gateway al =
     \<lparr>gl_http = memory_http, gl_verify = demo_verify al,
      gl_codec = \<lparr>ec_to_json = (\<lambda>e. Inr (ie_envelope_id e)), ec_from_json = (\<lambda>_. Inl ''json'')\<rparr>,
      gl_html_text = Some, gl_slack_bot_user = (\<lambda>_ _. None)\<rparr>"

definition local_world :: world where
  "local_world = (plain_world [])
     \<lparr>w_env := (\<lambda>k. if k = ''RAW_PAYLOAD_STORAGE_BACKEND'' then Some ''local'' else None)\<rparr>"

definition local_payloads :: "(string \<times> string) list payload_state" where
  "local_payloads = \<lparr>ps_world = local_world, ps_net = [], ps_bucket_ready = False\<rparr>"

lemma local_payloads_settings:
  "resolve_raw_payload_backend (ps_world local_payloads) = ''local''"
  "clean_prefix (ps_world local_payloads)"
  "CHR ''/'' \<notin> set (resolve_storage_bucket (ps_world local_payloads))"
  "resolve_azure_container (ps_world local_payloads) = Inl MissingAzureConfig"
  "resolve_connection_string_for_ingest (ps_world local_payloads) = None"
  unfolding clean_prefix_def by code_simp+

lemma write_elsewhere:
  assumes "fs_write p c w = (Inr u, w')" and "fs_read w p = None"
  shows "fs_read w \<subseteq>\<^sub>m fs_read w' \<and> w_env w' = w_env w"
  using fs_read_after_write [OF assms(1)] fs_write_settings [OF assms(1)] assms(2)
  by (auto simp: map_le_def same_settings_def)


definition demo_worker ::
    "(string \<times> string) list payload_state
     \<Rightarrow> (memory_tasks, memory_execs, scheduled_task, unit, user_doc scripted, index_doc scripted) inbound_lib" where
  "demo_worker s = demo_inbound
     \<lparr>nb_base64 := (\<lambda>c. case al_base64 demo_adapters c of Inr b \<Rightarrow> Some b | Inl _ \<Rightarrow> None),
      nb_download := (\<lambda>r. map_err (\<lambda>_. ''gone'') (fst (download_raw_payload memory_http r s)))\<rparr>"

definition demo_objs :: "json list" where
  "demo_objs =
     [JObject [(''Name'', JString ''a/b.txt''), (''Content'', JString ''one ''), (''ContentType'', JString ''text/plain'')],
      JObject [(''Name'', JString '' ''), (''Content'', JString ''!''), (''ContentType'', JString [])],
      JObject [(''Name'', JString ''a/b.txt''), (''Content'', JString ''two''), (''ContentType'', JString [])]]"


end
