(* ===== verification/Gateway_Properties.thy ===== *)
theory Gateway_Properties
  imports Gateway_Handlers Payload_Properties Index_Store
begin

text \<open>
  What holds of the parts of the gateway: where a message is routed, which signatures are accepted,
  how much of a text reaches the queue, and what a platform reads from a passive reply.
\<close>

subsection \<open>Routes\<close>

text \<open>
  The reference: of the configured rules the last one for just this key, or else the last one for the
  whole channel.
\<close>

definition rule_key :: "route_config \<Rightarrow> (channel \<times> string) option" where
  "rule_key r =
     (case channel_from_str (rc_channel r) of
        Inl _ \<Rightarrow> None
      | Inr channel \<Rightarrow> Some (channel, normalize_route_key channel (trim (rc_key r))))"

definition last_rule :: "channel \<Rightarrow> string \<Rightarrow> route_config list \<Rightarrow> route_target option" where
  "last_rule channel key rules =
     map_option (\<lambda>r. \<lparr>rt_tenant_id = rc_tenant_id r, rt_employee_id = rc_employee_id r\<rparr>)
       (List.find (\<lambda>r. rule_key r = Some (channel, key)) (rev rules))"

lemma last_rule_Cons:
  "last_rule channel key (r # rs) = or_else (last_rule channel key rs)
     (if rule_key r = Some (channel, key)
      then Some \<lparr>rt_tenant_id = rc_tenant_id r, rt_employee_id = rc_employee_id r\<rparr> else None)"
  unfolding last_rule_def find_rev_Cons
  by (cases "List.find (\<lambda>r. rule_key r = Some (channel, key)) (rev rs)") auto

lemma normalize_routes_lookup:
  "normalize_routes rs (m, d) = Inr (m', d') \<Longrightarrow>
   m' (channel, key) = or_else (if key = ''*'' then None else last_rule channel key rs) (m (channel, key))
   \<and> d' channel = or_else (last_rule channel ''*'' rs) (d channel)"
proof (induction rs arbitrary: m d)
  case Nil
  then show ?case by (simp add: last_rule_def)
next
  case (Cons r rs)
  from Cons.prems obtain c where c: "channel_from_str (rc_channel r) = Inr c"
    by (auto simp: res_bind_eq_Inr)
  let ?k = "normalize_route_key c (trim (rc_key r))"
  let ?t = "\<lparr>rt_tenant_id = rc_tenant_id r, rt_employee_id = rc_employee_id r\<rparr>"
  have key: "rule_key r = Some (c, ?k)" by (simp add: rule_key_def c)
  show ?case
  proof (cases "?k = ''*''")
    case True
    with Cons.prems c have "normalize_routes rs (m, d(c \<mapsto> ?t)) = Inr (m', d')"
      by (auto simp: Let_def split: if_splits)
    from Cons.IH [OF this] True key show ?thesis
      by (cases "last_rule channel ''*'' rs"; cases "last_rule channel key rs") (auto simp: last_rule_Cons)
  next
    case False
    with Cons.prems c have "normalize_routes rs (m((c, ?k) \<mapsto> ?t), d) = Inr (m', d')"
      by (auto simp: Let_def split: if_splits)
    from Cons.IH [OF this] False key show ?thesis
      by (cases "last_rule channel ''*'' rs"; cases "last_rule channel key rs") (auto simp: last_rule_Cons)
  qed
qed

text \<open>Exactly rules of an unknown channel and rules without a key are refused.\<close>

lemma normalize_routes_ok:
  "is_ok (normalize_routes rs p) = list_all (\<lambda>r. case rule_key r of None \<Rightarrow> False | Some (c, k) \<Rightarrow> k \<noteq> []) rs"
proof (induction rs arbitrary: p)
  case (Cons r rs)
  obtain m d where "p = (m, d)" by fastforce
  with Cons show ?case
    by (cases "channel_from_str (rc_channel r)") (auto simp: rule_key_def Let_def)
qed simp

text \<open>The employee that an address belongs to: the last that lists it.\<close>

definition address_owner :: "employee list \<Rightarrow> string \<Rightarrow> string option" where
  "address_owner es address = map_option ep_id (List.find (\<lambda>e. address \<in> ep_address_set e) (rev es))"

lemma address_map_owner: "build_address_map d address = address_owner (dr_employees d) address"
proof -
  have "fold (\<lambda>e m address. if address \<in> ep_address_set e then Some (ep_id e) else m address) es m address
      = or_else (address_owner es address) (m address)" for es :: "employee list" and m
  proof (induction es arbitrary: m)
    case (Cons e es)
    then show ?case
      by (cases "List.find (\<lambda>e. address \<in> ep_address_set e) (rev es)")
         (auto simp: address_owner_def find_rev_Cons simp del: rev.simps)
  qed (simp add: address_owner_def)
  then show ?thesis by (simp add: build_address_map_def)
qed

text \<open>
  C22.  The tables of the gateway agree with the list of rules they were built from: a message is
  routed by the last rule for its channel and normalised key, or else by the last rule \<open>*\<close> of the
  channel, or else, for a mail, to the last employee that lists the address, or else to the default
  employee; and to nobody only when none of these exists.
\<close>

theorem route_is_last_match:
  assumes "normalize_routes rules (Map.empty, Map.empty) = Inr (routes, defaults)"
    and "gc_routes (gt_config g) = routes" and "gc_channel_defaults (gt_config g) = defaults"
    and "gt_address_to_employee g = build_address_map (gt_directory g)"
  shows "resolve_route channel raw g =
    (let key = normalize_route_key channel raw in
     map_option (\<lambda>target. route_decision_from_target target g)
       (or_else (if key = ''*'' then None else last_rule channel key rules)
       (or_else (last_rule channel ''*'' rules)
       (or_else (if channel = Email
                 then map_option (default_target g) (address_owner (dr_employees (gt_directory g)) key) else None)
                (map_option (default_target g) (gd_employee_id (gc_defaults (gt_config g))))))))"
  using normalize_routes_lookup [OF assms(1), of channel]
  by (simp add: resolve_route_def Let_def assms(2-4) address_map_owner)

definition demo_rule :: "string \<Rightarrow> string \<Rightarrow> string \<Rightarrow> route_config" where
  "demo_rule channel key employee_id =
     \<lparr>rc_channel = channel, rc_key = key, rc_employee_id = employee_id, rc_tenant_id = None\<rparr>"

definition demo_entry :: "string \<Rightarrow> string list \<Rightarrow> employee_entry" where
  "demo_entry i addresses =
     \<lparr>ee_id = i, ee_display_name = None, ee_runner = None, ee_model = None, ee_addresses = addresses,
      ee_runtime_root = None, ee_agents_path = None, ee_claude_path = None, ee_soul_path = None,
      ee_skills_dir = None, ee_discord_enabled = False, ee_slack_enabled = False,
      ee_bluebubbles_enabled = False, ee_notion_user_id = None\<rparr>"

definition demo_directory :: employee_directory where
  "demo_directory =
     projr (load_directory ''/etc''
       \<lparr>ef_default_employee_id = None,
        ef_employees = [demo_entry ''oliver'' ['' Oliver@dowhiz.com '', ''team@dowhiz.com''],
                        demo_entry ''maggie'' [''maggie@dowhiz.com'', ''TEAM@dowhiz.com'']]\<rparr>)"

definition demo_rules :: "route_config list" where
  "demo_rules =
     [demo_rule ''sms'' ''*'' ''oliver'', demo_rule ''sms'' ''+1 555'' ''maggie'',
      demo_rule ''SMS'' ''(+1)555'' ''zoe'', demo_rule ''lark'' '' oc_1 '' ''maggie'']"

definition demo_tables :: "route_config list \<Rightarrow> gateway_tables" where
  "demo_tables rules =
     \<lparr>gt_config = \<lparr>gc_defaults = \<lparr>gd_tenant_id = Some ''acme'', gd_employee_id = Some ''fallback''\<rparr>,
                   gc_routes = fst (projr (normalize_routes rules (Map.empty, Map.empty))),
                   gc_channel_defaults = snd (projr (normalize_routes rules (Map.empty, Map.empty)))\<rparr>,
      gt_directory = demo_directory,
      gt_address_to_employee = build_address_map demo_directory\<rparr>"

theorem route_is_last_match_witness:
  "resolve_route Sms ''+1-555'' (demo_tables demo_rules) = Some \<lparr>rd_tenant_id = ''acme'', rd_employee_id = ''zoe''\<rparr>
   \<and> resolve_route Email ''Team@DoWhiz.com'' (demo_tables demo_rules)
     = Some \<lparr>rd_tenant_id = ''acme'', rd_employee_id = ''maggie''\<rparr>"
proof -
  let ?n = "normalize_routes demo_rules (Map.empty, Map.empty)"
  have rules: "last_rule Sms ''+1555'' demo_rules = Some \<lparr>rt_tenant_id = None, rt_employee_id = ''zoe''\<rparr>"
    "last_rule Email ''team@dowhiz.com'' demo_rules = None" "last_rule Email ''*'' demo_rules = None"
    "address_owner (dr_employees demo_directory) ''team@dowhiz.com'' = Some ''maggie''"
    "normalize_route_key Sms ''+1-555'' = ''+1555''"
    "normalize_route_key Email ''Team@DoWhiz.com'' = ''team@dowhiz.com''" by code_simp+
  have "is_ok ?n" unfolding normalize_routes_ok by code_simp
  then have n: "?n = Inr (fst (projr ?n), snd (projr ?n))" by (cases ?n) auto
  have g: "gc_routes (gt_config (demo_tables demo_rules)) = fst (projr ?n)"
    "gc_channel_defaults (gt_config (demo_tables demo_rules)) = snd (projr ?n)"
    "gt_address_to_employee (demo_tables demo_rules) = build_address_map (gt_directory (demo_tables demo_rules))"
    by (simp_all add: demo_tables_def)
  note eq = route_is_last_match [OF n g]
  show ?thesis unfolding eq using rules
    by (simp add: Let_def route_decision_from_target_def default_target_def demo_tables_def)
qed

subsection \<open>Mail for the service is routed\<close>

lemma select_service:
  "select_inbound_service_mailbox raws A = Some m \<Longrightarrow> is_service_address (sm_address m) A"
proof (induction raws)
  case (Cons raw raws)
  then show ?case
    by (cases "List.find (\<lambda>email. is_service_address email A) (extract_emails raw)")
       (auto simp: find_eq_hd_filter filter_eq_Cons_iff split: list.splits)
qed simp

lemma ascii_lower_cases: "ascii_lower c = c \<or> (65 \<le> (of_char c :: nat) \<and> (of_char c :: nat) \<le> 90)"
  by (simp add: ascii_lower_def Let_def)

lemma ws_lower:
  "ws1 (ascii_lower c) = ws1 c" "ws2 (ascii_lower a) (ascii_lower b) = ws2 a b"
  "ws3 (ascii_lower a) (ascii_lower b) (ascii_lower c) = ws3 a b c"
proof -
  have letter: "of_char (ascii_lower x) = (of_char x + 32 :: nat) \<and> (of_char x :: nat) \<le> 90"
    if "ascii_lower x \<noteq> x" for x
    using that by (auto simp: ascii_lower_def Let_def of_char_of split: if_splits)
  have high: "ascii_lower x = y \<longleftrightarrow> x = y" if "128 \<le> (of_char y :: nat)" for x y
    using that letter [of x] by (cases "ascii_lower x = x") auto
  have low: "ascii_lower x = y \<longleftrightarrow> x = y" if "(of_char y :: nat) < 33" for x y
    using that letter [of x] ascii_lower_cases [of x] by (cases "ascii_lower x = x") auto
  show "ws1 (ascii_lower c) = ws1 c" by (simp add: ws1_def low)
  show "ws2 (ascii_lower a) (ascii_lower b) = ws2 a b" by (simp add: ws2_def high)
  show "ws3 (ascii_lower a) (ascii_lower b) (ascii_lower c) = ws3 a b c" by (simp add: ws3_def high)
qed

lemma ws_len_lower:
  "ws_len (to_ascii_lowercase s) = ws_len s" "ws_len_rev (to_ascii_lowercase s) = ws_len_rev s"
  by (cases s rule: ws_len.cases; simp add: to_ascii_lowercase_def ws_lower)
     (cases s rule: ws_len_rev.cases; simp add: to_ascii_lowercase_def ws_lower)

lemma trim_lower: "trim s = s \<Longrightarrow> trim (to_ascii_lowercase s) = to_ascii_lowercase s"
  using ws_len_lower(1) [of s] ws_len_lower(2) [of "rev s"]
  by (auto simp: trim_fixed to_ascii_lowercase_def rev_map [symmetric])

lemma route_key_of_address: "normalize_route_key Email (normalize_route_email a) =
    (if to_ascii_lowercase (trim a) = ''*'' then ''*'' else to_ascii_lowercase (trim a))"
  by (simp add: normalize_route_key_def normalize_route_email_def trim_lower Let_def)

lemma load_directory_shape:
  "load_directory base_dir f = Inr d \<Longrightarrow> dr_service_addresses d = (\<Union>e \<in> set (dr_employees d). ep_address_set e)"
  by (auto simp: load_directory_def res_bind_eq_Inr split: if_splits)

text \<open>
  C23.  A mail for the service finds an employee: with the employees of a file that was accepted, and
  whatever the rules, when the gateway finds an address of the service in a mail the lookup gives a
  route.  Without a rule for mail it is an employee that lists the address, and the last of them
  in the file.
\<close>

theorem service_mail_routed:
  assumes "load_directory base_dir f = Inr (gt_directory g)"
    and "gt_address_to_employee g = build_address_map (gt_directory g)"
    and "find_service_address p (dr_service_addresses (gt_directory g)) = Some a"
  shows "\<exists>route. resolve_route Email (normalize_route_email a) g = Some route
    \<and> (gc_channel_defaults (gt_config g) Email = None \<and> (\<forall>k. gc_routes (gt_config g) (Email, k) = None) \<longrightarrow>
       (\<exists>es e fs. dr_employees (gt_directory g) = es @ e # fs \<and> rd_employee_id route = ep_id e
          \<and> matches_address e a \<and> (\<forall>e' \<in> set fs. \<not> matches_address e' a)))"
proof -
  let ?es = "dr_employees (gt_directory g)" and ?k = "to_ascii_lowercase (trim a)"
  from assms(3) obtain m where "select_inbound_service_mailbox (gateway_address_candidates p)
      (dr_service_addresses (gt_directory g)) = Some m" "a = sm_address m"
    by (auto simp: find_service_address_def)
  with select_service have "is_service_address a (dr_service_addresses (gt_directory g))" by blast
  with load_directory_shape [OF assms(1)] obtain e0 where "e0 \<in> set ?es" "?k \<in> ep_address_set e0"
    by (auto simp: is_service_address_def)
  then obtain e where e: "List.find (\<lambda>e. ?k \<in> ep_address_set e) (rev ?es) = Some e"
    by (metis find_None_iff option.exhaust set_rev)
  then obtain fs es where split: "rev ?es = fs @ e # es" "?k \<in> ep_address_set e" "\<forall>e' \<in> set fs. ?k \<notin> ep_address_set e'"
    by (auto simp: find_eq_hd_filter filter_eq_Cons_iff split: list.splits)
  have key: "normalize_route_key Email (normalize_route_email a) = ?k" by (simp add: route_key_of_address)
  have owner: "gt_address_to_employee g ?k = Some (ep_id e)"
    using e by (simp add: assms(2) address_map_owner address_owner_def)
  let ?target = "or_else (gc_routes (gt_config g) (Email, ?k)) (or_else (gc_channel_defaults (gt_config g) Email)
      (Some (default_target g (ep_id e))))"
  have "resolve_route Email (normalize_route_email a) g = map_option (\<lambda>t. route_decision_from_target t g) ?target"
    by (simp add: resolve_route_def key owner Let_def)
  moreover obtain t where t: "?target = Some t"
    by (cases "gc_routes (gt_config g) (Email, ?k)"; cases "gc_channel_defaults (gt_config g) Email") auto
  moreover have "?es = rev es @ e # rev fs" using arg_cong [OF split(1), of rev] by simp
  moreover have "matches_address e' a \<longleftrightarrow> ?k \<in> ep_address_set e'" for e'
    by (simp add: matches_address_def normalize_address_def)
  moreover have "gc_channel_defaults (gt_config g) Email = None \<and> (\<forall>k. gc_routes (gt_config g) (Email, k) = None)
      \<Longrightarrow> rd_employee_id (route_decision_from_target t g) = ep_id e"
    using t by (auto simp: route_decision_from_target_def default_target_def)
  ultimately show ?thesis
    using split(2,3) by (intro exI [of _ "route_decision_from_target t g"]) (auto intro!: exI)
qed

definition demo_mail_to :: "string \<Rightarrow> postmark_mail" where
  "demo_mail_to to = demo_mail\<lparr>pm_to := Some to, pm_cc := None, pm_bcc := None, pm_to_full := None, pm_headers := None\<rparr>"

theorem service_mail_routed_witness:
  "\<exists>route. resolve_route Email (normalize_route_email ''team@dowhiz.com'') (demo_tables []) = Some route
    \<and> (\<exists>es e fs. dr_employees demo_directory = es @ e # fs \<and> rd_employee_id route = ep_id e
        \<and> matches_address e ''team@dowhiz.com'')"
proof -
  have d: "load_directory ''/etc'' \<lparr>ef_default_employee_id = None,
        ef_employees = [demo_entry ''oliver'' ['' Oliver@dowhiz.com '', ''team@dowhiz.com''],
                        demo_entry ''maggie'' [''maggie@dowhiz.com'', ''TEAM@dowhiz.com'']]\<rparr>
      = Inr (gt_directory (demo_tables []))" (is "?l = _")
  proof -
    have "is_ok ?l" by (simp add: load_directory_def load_employee_def demo_entry_def Let_def) code_simp
    then show ?thesis by (cases ?l) (auto simp: demo_tables_def demo_directory_def)
  qed
  have g: "gt_address_to_employee (demo_tables []) = build_address_map (gt_directory (demo_tables []))"
    by (simp add: demo_tables_def)
  have "find_service_address (demo_mail_to ''Team <TEAM@dowhiz.com>'')
      (dr_service_addresses (gt_directory (demo_tables []))) = Some ''team@dowhiz.com''" by code_simp
  from service_mail_routed [OF d g this] show ?thesis by (auto simp: demo_tables_def)
qed

subsection \<open>The age of a Slack request\<close>

lemma wrap_i64_mod: "wrap_i64 n = (n + 2 ^ 63) mod 2 ^ 64 - 2 ^ 63"
  unfolding wrap_i64_def sint_sbintrunc' signed_take_bit_eq_take_bit_shift take_bit_eq_mod by simp

lemma wrap_i64_id: "- (2 ^ 63) \<le> n \<Longrightarrow> n < 2 ^ 63 \<Longrightarrow> wrap_i64 n = n"
  unfolding wrap_i64_mod by (subst mod_pos_pos_trivial) auto

lemma slack_age_window:
  assumes "0 \<le> now" and "now < 2 ^ 62" and "- (2 ^ 63) \<le> t" and "t < 2 ^ 63" and "slack_age now t \<le> 300"
  shows "\<bar>now - t\<bar> \<le> 300 \<or> t = now - 2 ^ 63"
proof (cases "now - t < 2 ^ 63")
  case True
  with assms(1,3,4) have "wrap_i64 (now - t) = now - t" by (intro wrap_i64_id) auto
  moreover have "wrap_i64 \<bar>now - t\<bar> = \<bar>now - t\<bar>" using True assms(1,4) by (intro wrap_i64_id) auto
  ultimately show ?thesis using assms(5) by (simp add: slack_age_def)
next
  case False
  with assms have "wrap_i64 (now - t) = now - t - 2 ^ 64"
    unfolding wrap_i64_mod by (subst mod_pos_geq) (auto simp: mod_pos_pos_trivial)
  then have age: "slack_age now t = wrap_i64 (2 ^ 64 - (now - t))"
    using assms by (simp add: slack_age_def)
  show ?thesis
  proof (cases "t = now - 2 ^ 63")
    case False
    with \<open>\<not> now - t < 2 ^ 63\<close> assms have "wrap_i64 (2 ^ 64 - (now - t)) = 2 ^ 64 - (now - t)"
      by (intro wrap_i64_id) auto
    with age assms show ?thesis by simp
  qed simp
qed

lemma parse_i64_range: "parse_i64 s = Some n \<Longrightarrow> - (2 ^ 63) \<le> n \<and> n < 2 ^ 63"
proof -
  assume p: "parse_i64 s = Some n"
  then have "i64_min \<le> n \<and> n \<le> i64_max"
    by (cases s) (auto simp: parse_i64_def opt_filter_Some i64_min_def i64_max_def split: if_splits)
  then show ?thesis by (simp add: i64_min_def i64_max_def)
qed

lemma res_ok_or [simp]: "ok_or v e = Inr x \<longleftrightarrow> v = Some x"
  by (simp add: ok_or_def split: option.splits)

lemma ensure_ok [simp]: "ensure c e = Inr u \<longleftrightarrow> c"
  by (simp add: ensure_def)


definition slack_world :: world where
  "slack_world = (plain_world [])
     \<lparr>w_env := (\<lambda>k. if k = ''SLACK_SIGNING_SECRET'' then Some ''k'' else None)\<rparr>"

definition slack_headers :: "string \<Rightarrow> headers" where
  "slack_headers timestamp =
     [(''X-Slack-Signature'', slack_signature (demo_verify demo_adapters) ''k'' timestamp ''{}''),
      (''X-Slack-Request-Timestamp'', timestamp)]"


subsection \<open>Texts for the queue\<close>

lemma floor_char_boundary:
  "floor_char_boundary s n \<le> n \<and> is_char_boundary s (floor_char_boundary s n)
   \<and> (\<forall>j \<le> n. is_char_boundary s j \<longrightarrow> j \<le> floor_char_boundary s n)"
  by (induction n) (auto simp: is_char_boundary_def le_Suc_eq)

text \<open>
  A text for the queue is never longer than its limit and never cut inside a character: it is
  either the whole text, or the longest beginning that ends at a character boundary and leaves room
  for the mark, followed by the mark (or without it, when the limit is too small for any mark).
\<close>

theorem queue_text_bounded:
  "length (truncate_for_queue input max_bytes ending) \<le> max_bytes
   \<and> (let room = (if length ending < max_bytes then max_bytes - length ending else max_bytes);
          mark = (if length ending < max_bytes then ending else []) in
      truncate_for_queue input max_bytes ending =
        (if length input \<le> max_bytes then input
         else take (floor_char_boundary input room) input @ mark)
      \<and> is_char_boundary input (floor_char_boundary input room)
      \<and> (\<forall>j \<le> room. is_char_boundary input j \<longrightarrow> j \<le> floor_char_boundary input room))"
proof -
  have "floor_char_boundary input n \<le> n" for n using floor_char_boundary by blast
  note le = this [of "max_bytes - length ending"] this [of "min (length input) max_bytes"]
  have "length (truncate_for_queue input max_bytes ending) \<le> max_bytes"
    using le by (auto simp: truncate_for_queue_def truncate_utf8_for_queue_def min_def split: if_splits)
  moreover have "truncate_for_queue input max_bytes ending =
      (let room = (if length ending < max_bytes then max_bytes - length ending else max_bytes);
          mark = (if length ending < max_bytes then ending else []) in
        (if length input \<le> max_bytes then input
         else take (floor_char_boundary input room) input @ mark))"
    by (auto simp: truncate_for_queue_def truncate_utf8_for_queue_def min_def Let_def)
  ultimately show ?thesis using floor_char_boundary [of input] by (simp add: Let_def)
qed

subsection \<open>Passive replies\<close>

text \<open>
  How an XML parser reads character data from within a CDATA section: up to \<open>]]>\<close>, and on in the
  next section when one follows at once.  The result is the text and what comes after it.
\<close>

function read_cdata :: "string \<Rightarrow> (string \<times> string) option" where
  "read_cdata s =
     (case str_find '']]>'' s of
        None \<Rightarrow> None
      | Some n \<Rightarrow>
          (case strip_prefix ''<![CDATA['' (drop (n + 3) s) of
             None \<Rightarrow> Some (take n s, drop (n + 3) s)
           | Some t \<Rightarrow> map_option (\<lambda>(u, rest). (take n s @ u, rest)) (read_cdata t)))"
  by pat_completeness auto
termination
proof (relation "measure length")
  fix s t :: string and n
  assume "strip_prefix ''<![CDATA['' (drop (n + 3) s) = Some t"
  then have "drop (n + 3) s = ''<![CDATA['' @ t" by (simp only: strip_prefix_Some)
  then have "length (drop (n + 3) s) = 9 + length t" by simp
  then show "(t, s) \<in> measure length" by simp
qed simp

declare read_cdata.simps [simp del] str_replace.simps [simp del]

lemma read_cdata_Cons:
  assumes "\<not> starts_with (c # s) '']]>''"
  shows "read_cdata (c # s) = map_option (\<lambda>(u, rest). (c # u, rest)) (read_cdata s)"
proof -
  have find: "str_find '']]>'' (c # s) = map_option Suc (str_find '']]>'' s)" using assms by simp
  have drop: "drop (4 + n) (c # s) = drop (n + 3) s" for n
  proof -
    have "4 + n = Suc (n + 3)" by simp
    then show ?thesis by (simp only: drop_Suc_Cons)
  qed
  show ?thesis
    unfolding read_cdata.simps [of "c # s"] find read_cdata.simps [of s]
    by (cases "str_find '']]>'' s")
       (auto simp: option.map_comp comp_def drop split: option.splits prod.splits intro!: option.map_cong)
qed

lemma read_cdata_end: "\<not> starts_with rest ''<![CDATA['' \<Longrightarrow> read_cdata ('']]>'' @ rest) = Some ([], rest)"
  by (subst read_cdata.simps) (simp add: starts_with_def)

lemma read_cdata_reopen:
  "read_cdata ('']]>'' @ ''<![CDATA['' @ t) = map_option (\<lambda>(u, rest). (u, rest)) (read_cdata t)"
  by (subst read_cdata.simps) (simp add: starts_with_def)

lemma cdata_safe_Cons:
  "cdata_safe (c # s) = (if starts_with (c # s) '']]>'' then '']]]]><![CDATA[>'' @ cdata_safe (drop 2 s)
     else c # cdata_safe s)"
  by (simp add: cdata_safe_def str_replace.simps numeral_2_eq_2)

lemma cdata_safe_Nil [simp]: "cdata_safe [] = []"
  by (simp add: cdata_safe_def str_replace.simps)

lemma starts_with_close: "starts_with s '']]>'' \<longleftrightarrow> (\<exists>u. s = CHR '']'' # CHR '']'' # CHR ''>'' # u)"
  by (simp add: starts_with_iff)

lemma cdata_safe_no_close:
  assumes "\<not> starts_with (c # s) '']]>''"
  shows "\<not> starts_with (c # cdata_safe s @ '']]>'' @ rest) '']]>''"
proof
  assume "starts_with (c # cdata_safe s @ '']]>'' @ rest) '']]>''"
  then obtain u where c: "c = CHR '']''" and u: "cdata_safe s @ '']]>'' @ rest = CHR '']'' # CHR ''>'' # u"
    by (auto simp: starts_with_close)
  show False
  proof (cases s)
    case Nil
    with u show False by simp
  next
    case (Cons d t)
    with u have d: "\<not> starts_with (d # t) '']]>''" "d = CHR '']''" "cdata_safe t @ '']]>'' @ rest = CHR ''>'' # u"
      by (auto simp: cdata_safe_Cons split: if_splits)
    show False
    proof (cases t)
      case Nil
      with d show False by simp
    next
      case (Cons f t')
      with d have "f = CHR ''>''" by (auto simp: cdata_safe_Cons split: if_splits)
      with assms c d \<open>s = d # t\<close> Cons show False by (simp add: starts_with_close)
    qed
  qed
qed

text \<open>
  No text breaks out of its element in a passive reply: whatever the sender, the account or the
  configured answer contain, a parser that reads the escaped text gets back exactly that text and
  then what the template puts after it.
\<close>

theorem passive_text_roundtrip:
  "\<not> starts_with rest ''<![CDATA['' \<Longrightarrow> read_cdata (cdata_safe v @ '']]>'' @ rest) = Some (v, rest)"
proof (induction v rule: length_induct)
  case (1 v)
  show ?case
  proof (cases v)
    case Nil
    show ?thesis unfolding Nil cdata_safe_Nil append_Nil by (rule read_cdata_end [OF 1(2)])
  next
    case (Cons c s)
    show ?thesis
    proof (cases "starts_with (c # s) '']]>''")
      case True
      then obtain t where s: "c = CHR '']''" "s = CHR '']'' # CHR ''>'' # t" by (auto simp: starts_with_close)
      have IH: "read_cdata (cdata_safe t @ '']]>'' @ rest) = Some (t, rest)" using 1 Cons s by simp
      have "cdata_safe v @ '']]>'' @ rest
          = CHR '']'' # CHR '']'' # ('']]>'' @ ''<![CDATA['' @ CHR ''>'' # cdata_safe t @ '']]>'' @ rest)"
        using Cons s by (simp add: cdata_safe_Cons starts_with_close)
      moreover
      let ?X = "cdata_safe t @ '']]>'' @ rest"
      let ?Y = "'']]>'' @ ''<![CDATA['' @ CHR ''>'' # ?X"
      have "read_cdata (CHR ''>'' # ?X) = Some (CHR ''>'' # t, rest)"
        by (subst read_cdata_Cons) (simp add: starts_with_close, simp only: IH, simp)
      then have "read_cdata ?Y = Some (CHR ''>'' # t, rest)" by (simp only: read_cdata_reopen) simp
      then have "read_cdata (CHR '']'' # ?Y) = Some (CHR '']'' # CHR ''>'' # t, rest)"
        by (subst read_cdata_Cons) (simp add: starts_with_close, simp)
      then have "read_cdata (CHR '']'' # CHR '']'' # ?Y) = Some (v, rest)"
        by (subst read_cdata_Cons) (simp add: starts_with_close, simp add: Cons s)
      ultimately show ?thesis by (simp only:)
    next
      case False
      have IH: "read_cdata (cdata_safe s @ '']]>'' @ rest) = Some (s, rest)" using 1 Cons by simp
      have "cdata_safe v @ '']]>'' @ rest = c # (cdata_safe s @ '']]>'' @ rest)"
        using False Cons by (simp add: cdata_safe_Cons)
      then show ?thesis
        using read_cdata_Cons [OF cdata_safe_no_close [OF False]] IH Cons by simp
    qed
  qed
qed

theorem passive_text_roundtrip_witness:
  "read_cdata (cdata_safe ''a]]]></b>'' @ '']]>'' @ ''</Content>'') = Some (''a]]]></b>'', ''</Content>'')"
  by (rule passive_text_roundtrip) (simp add: starts_with_def)

end
