(* ===== verification/Gateway_Safety.thy ===== *)
theory Gateway_Safety
  imports Gateway_Properties Ingestion_Properties
begin

text \<open>
  What holds of the whole gateway: how its answers relate to the queue, that nothing gets into the
  queue without the configured credentials, that a repeated webhook is recognised, and where
  messages are dropped or handled twice.
\<close>

abbreviation accepted :: gateway_response where "accepted \<equiv> status_response 200 ''accepted''"
abbreviation duplicate :: gateway_response where "duplicate \<equiv> status_response 200 ''duplicate''"
abbreviation gw_rows :: "'h gateway_state \<Rightarrow> queue_row list" where "gw_rows s \<equiv> pg_rows (gw_queue s)"

subsection \<open>The hand-over\<close>

definition dedupe_key_of :: "route_decision \<Rightarrow> channel \<Rightarrow> string \<Rightarrow> string" where
  "dedupe_key_of route channel base =
     rd_tenant_id route @ '':'' @ rd_employee_id route @ '':'' @ channel_to_string channel @ '':'' @ base"

text \<open>A new row of the queue for a message of a channel.\<close>

definition fresh_row :: "route_decision \<Rightarrow> channel \<Rightarrow> string option \<Rightarrow> queue_row list \<Rightarrow> queue_row \<Rightarrow> bool" where
  "fresh_row route channel external_message_id rows row =
     (qr_dedupe_key row \<notin> qr_dedupe_key ` set rows \<and> qr_id row \<notin> qr_id ` set rows
      \<and> qr_status row = ''pending'' \<and> qr_attempts row = 0 \<and> qr_locked_by row = None
      \<and> qr_employee_id row = rd_employee_id route \<and> qr_tenant_id row = Some (rd_tenant_id route)
      \<and> qr_channel row = channel_to_string channel
      \<and> (\<forall>i. external_message_id = Some i \<longrightarrow> qr_dedupe_key row = dedupe_key_of route channel i))"

definition outcome ::
    "route_decision \<Rightarrow> channel \<Rightarrow> string option \<Rightarrow> gateway_response \<Rightarrow> queue_row list \<Rightarrow> queue_row list \<Rightarrow> bool" where
  "outcome route channel external_message_id r rows rows' =
     (let added = (\<exists>row. rows' = rows @ [row] \<and> fresh_row route channel external_message_id rows row) in
      r = accepted \<and> added
      \<or> r = duplicate \<and> rows' = rows
        \<and> (\<forall>i. external_message_id = Some i \<longrightarrow> dedupe_key_of route channel i \<in> qr_dedupe_key ` set rows)
      \<or> hr_code r = 502 \<and> (rows' = rows \<or> added))"

definition adds_row :: "ingestion_envelope \<Rightarrow> queue_row list \<Rightarrow> queue_row list \<Rightarrow> bool" where
  "adds_row e rows rows' =
     (ie_dedupe_key e \<notin> qr_dedupe_key ` set rows \<and> ie_envelope_id e \<notin> qr_id ` set rows
      \<and> (\<exists>j now. rows' = rows @ [new_row e j now]))"

lemma insert_row_cases:
  assumes "insert_row e j now rows = (r, rows')"
  shows "r = Inr True \<and> adds_row e rows rows'
    \<or> r = Inr False \<and> rows' = rows \<and> ie_dedupe_key e \<in> qr_dedupe_key ` set rows
    \<or> (\<exists>err. r = Inl err) \<and> rows' = rows"
  using assms by (auto simp: insert_row_def adds_row_def split: if_splits)

lemma enqueue_cases:
  assumes "enqueue ec e q = (r, q')"
  shows "r = Inr True \<and> adds_row e (pg_rows q) (pg_rows q')
    \<or> r = Inr False \<and> pg_rows q' = pg_rows q \<and> ie_dedupe_key e \<in> qr_dedupe_key ` set (pg_rows q)
    \<or> (\<exists>err. r = Inl err) \<and> (pg_rows q' = pg_rows q \<or> adds_row e (pg_rows q) (pg_rows q'))"
proof (cases "ec_to_json ec e")
  case (Inl err)
  with assms show ?thesis by (auto simp: enqueue_def)
next
  case (Inr j)
  obtain i rows where i: "insert_row e j (pg_clock q (pg_turn q)) (pg_rows q) = (i, rows)" by fastforce
  note i_cases = insert_row_cases [OF i]
  show ?thesis
  proof (cases "pg_fault_at q (pg_turn q)")
    case None
    with Inr assms i have "r = i" "pg_rows q' = rows" by (auto simp: enqueue_def pg_txn_def Let_def)
    with i_cases show ?thesis by auto
  next
    case (Some f)
    with Inr assms i have "(\<exists>err. r = Inl err) \<and> (pg_rows q' = pg_rows q \<or> pg_rows q' = rows)"
      by (cases f) (auto simp: enqueue_def pg_txn_def Let_def)
    with i_cases show ?thesis by auto
  qed
qed

lemma build_dedupe_key_id:
  "build_dedupe_key md5 t e c (Some i) raw w = (t @ '':'' @ e @ '':'' @ channel_to_string c @ '':'' @ i, w)"
  by (simp add: build_dedupe_key_def)

lemma build_envelope_shape:
  assumes "build_envelope gl route channel ext message body p = (Inr e, p')"
  shows "ie_employee_id e = rd_employee_id route \<and> ie_tenant_id e = Some (rd_tenant_id route)
    \<and> ie_channel e = channel \<and> ie_external_message_id e = ext \<and> ie_payload e = build_queue_payload gl channel message
    \<and> (\<forall>i. ext = Some i \<longrightarrow> ie_dedupe_key e = dedupe_key_of route channel i)"
proof -
  obtain i t k w where e: "envelope_identity gl route channel ext body (ps_world p) = ((i, t, k), w)"
    by (cases "envelope_identity gl route channel ext body (ps_world p)") auto
  then have key: "k = dedupe_key_of route channel x" if "ext = Some x" for x
    using that by (simp add: envelope_identity_def dedupe_key_of_def build_dedupe_key_id Let_def split: prod.splits)
  obtain bytes q where "stored_payload gl i t channel body (p\<lparr>ps_world := w\<rparr>) = (bytes, q)" by fastforce
  with e assms have "st_bind (archive_payload gl i t channel body bytes q) (\<lambda>ref s.
      (Inr (make_envelope i t route channel ext k (build_queue_payload gl channel message) ref), s)) = (Inr e, p')"
    by (simp add: build_envelope_def)
  from st_bind_ok [OF this] obtain ref
    where "e = make_envelope i t route channel ext k (build_queue_payload gl channel message) ref" by auto
  with key show ?thesis by (simp add: make_envelope_def)
qed

lemma hand_over_outcome:
  assumes "hand_over gl route channel ext message body s = (r, s')"
  shows "gw_jobs s' = gw_jobs s \<and> outcome route channel ext r (gw_rows s) (gw_rows s')"
proof -
  obtain b p where b: "build_envelope gl route channel ext message body (gw_payloads s) = (b, p)" by fastforce
  show ?thesis
  proof (cases b)
    case (Inl err)
    with b assms have "r = status_response 502 ''payload_store_failed''" "s' = s\<lparr>gw_payloads := p\<rparr>"
      by (simp_all add: hand_over_def on_payloads_def)
    then show ?thesis by (simp add: outcome_def status_response_def)
  next
    case (Inr e)
    note shape = build_envelope_shape [OF b [unfolded Inr]]
    obtain q r' where q: "enqueue (gl_codec gl) e (gw_queue s) = (r', q)" by fastforce
    with b Inr assms have
      s': "gw_queue s' = q" "gw_jobs s' = gw_jobs s"
      and r: "r = (case r' of Inr inserted \<Rightarrow> status_response 200 (if inserted then ''accepted'' else ''duplicate'')
          | Inl _ \<Rightarrow> status_response 502 ''enqueue_failed'')"
      by (auto simp: hand_over_def on_payloads_def enqueue_envelope_def split: sum.splits)
    have added: "\<exists>row. rows = gw_rows s @ [row] \<and> fresh_row route channel ext (gw_rows s) row"
      if "adds_row e (gw_rows s) rows" for rows
      using that shape by (auto simp: adds_row_def fresh_row_def new_row_def)
    from enqueue_cases [OF q] show ?thesis
    proof (elim disjE conjE exE)
      assume "r' = Inr True" "adds_row e (gw_rows s) (pg_rows q)"
      with r s' added show ?thesis by (auto simp: outcome_def)
    next
      assume "r' = Inr False" "pg_rows q = gw_rows s" "ie_dedupe_key e \<in> qr_dedupe_key ` set (gw_rows s)"
      with r s' shape show ?thesis by (auto simp: outcome_def)
    next
      fix err
      assume "r' = Inl err" "pg_rows q = gw_rows s"
      with r s' show ?thesis by (auto simp: outcome_def status_response_def)
    next
      fix err
      assume "r' = Inl err" "adds_row e (gw_rows s) (pg_rows q)"
      with r s' added show ?thesis by (auto simp: outcome_def status_response_def)
    qed
  qed
qed

subsection \<open>The handlers\<close>

definition handler_spec :: "channel \<Rightarrow> bool \<Rightarrow> gateway_response \<Rightarrow> 'h gateway_state \<Rightarrow> 'h gateway_state \<Rightarrow> bool" where
  "handler_spec channel authentic r s s' =
     (gw_jobs s' = gw_jobs s \<and>
      (gw_queue s' = gw_queue s \<and> r \<noteq> accepted \<and> r \<noteq> duplicate
       \<or> authentic \<and> (\<exists>route ext. outcome route channel ext r (gw_rows s) (gw_rows s'))))"

lemma handler_spec_idle:
  "gw_jobs s' = gw_jobs s \<Longrightarrow> gw_queue s' = gw_queue s \<Longrightarrow> r \<noteq> accepted \<Longrightarrow> r \<noteq> duplicate \<Longrightarrow> handler_spec c a r s s'"
  by (simp add: handler_spec_def)

lemma handler_spec_hand_over:
  assumes "hand_over gl route channel ext message body s1 = (r, s')"
    and "gw_jobs s1 = gw_jobs s" "gw_queue s1 = gw_queue s" "authentic"
  shows "handler_spec channel authentic r s s'"
  using hand_over_outcome [OF assms(1)] assms(2-4) by (auto simp: handler_spec_def)

lemma status_response_eq [simp]: "status_response c t = status_response c' t' \<longleftrightarrow> c = c' \<and> t = t'"
  by (simp add: status_response_def)

lemma verify_token_ok:
  "verify_token w var header headers = Inr () \<longleftrightarrow>
   (\<forall>token. env_non_blank w var = Some token \<longrightarrow> header_str headers header = Some token)"
  by (auto simp: verify_token_def res_bind_eq_Inr split: option.splits)

text \<open>
  For each platform that a check exists for: whether the secret of the check is missing from the
  environment, and then there is no check, and whether a request shows what the secret demands.
\<close>

definition no_secret :: "'h gateway_state \<Rightarrow> string \<Rightarrow> bool" where
  "no_secret s var = (env_non_blank (gw_world s) var = None)"

definition token_ok :: "'h gateway_state \<Rightarrow> string \<Rightarrow> string \<Rightarrow> headers \<Rightarrow> bool" where
  "token_ok s var header headers =
     (case env_non_blank (gw_world s) var of
        None \<Rightarrow> False
      | Some token \<Rightarrow> header_str headers header = Some token)"

lemma postmark_spec:
  "ingest_postmark gl g headers body s = (r, s') \<Longrightarrow>
   handler_spec Email (no_secret s ''POSTMARK_INBOUND_TOKEN''
     \<or> token_ok s ''POSTMARK_INBOUND_TOKEN'' ''x-postmark-token'' headers) r s s'"
  by (auto simp: ingest_postmark_def verify_postmark_def token_ok_def no_secret_def verify_token_ok
      intro: handler_spec_idle handler_spec_hand_over split: sum.splits option.splits if_splits)

lemma parsed_spec:
  "ingest_parsed gl g channel key_of parsed body s = (r, s') \<Longrightarrow> authentic \<Longrightarrow> handler_spec channel authentic r s s'"
  by (auto simp: ingest_parsed_def intro: handler_spec_idle handler_spec_hand_over split: sum.splits option.splits)

lemma bluebubbles_spec:
  "ingest_bluebubbles gl g headers body s = (r, s') \<Longrightarrow>
   handler_spec BlueBubbles (no_secret s ''BLUEBUBBLES_WEBHOOK_TOKEN''
     \<or> token_ok s ''BLUEBUBBLES_WEBHOOK_TOKEN'' ''x-bluebubbles-token'' headers) r s s'"
  by (auto simp: ingest_bluebubbles_def verify_bluebubbles_def token_ok_def no_secret_def verify_token_ok
      intro: handler_spec_idle parsed_spec split: sum.splits option.splits)

definition twilio_ok :: "'h gateway_lib \<Rightarrow> 'h gateway_state \<Rightarrow> headers \<Rightarrow> string \<Rightarrow> bool" where
  "twilio_ok gl s headers body =
     (case (env_non_blank (gw_world s) ''TWILIO_AUTH_TOKEN'', env_non_blank (gw_world s) ''TWILIO_WEBHOOK_URL'') of
        (Some token, Some url) \<Rightarrow>
          (case vl_form (gl_verify gl) body of
             None \<Rightarrow> False
           | Some params \<Rightarrow>
               header_str headers ''x-twilio-signature'' = Some (vl_base64 (gl_verify gl)
                 (vl_hmac_sha1 (gl_verify gl) token (twilio_data url params))))
      | _ \<Rightarrow> False)"

lemma sms_spec:
  assumes "ingest_sms gl g headers body s = (r, s')"
  shows "handler_spec Sms (no_secret s ''TWILIO_AUTH_TOKEN'' \<or> no_secret s ''TWILIO_WEBHOOK_URL''
    \<or> twilio_ok gl s headers body) r s s'"
proof (cases "verify_twilio (gl_verify gl) (gw_world s) headers body")
  case (Inl e)
  with assms show ?thesis by (auto simp: ingest_sms_def intro: handler_spec_idle)
next
  case (Inr u)
  then have "no_secret s ''TWILIO_AUTH_TOKEN'' \<or> no_secret s ''TWILIO_WEBHOOK_URL'' \<or> twilio_ok gl s headers body"
    by (auto simp: verify_twilio_def twilio_ok_def no_secret_def res_bind_eq_Inr split: option.splits)
  with Inr assms show ?thesis
    by (auto simp: ingest_sms_def Let_def intro: handler_spec_idle handler_spec_hand_over
        split: option.splits if_splits)
qed

definition slack_ok :: "'h gateway_lib \<Rightarrow> 'h gateway_state \<Rightarrow> headers \<Rightarrow> string \<Rightarrow> bool" where
  "slack_ok gl s headers body =
     (case env_non_blank (gw_world s) ''SLACK_SIGNING_SECRET'' of
        None \<Rightarrow> False
      | Some secret \<Rightarrow>
          (case header_str headers ''x-slack-request-timestamp'' of
             None \<Rightarrow> False
           | Some timestamp \<Rightarrow>
               header_str headers ''x-slack-signature''
               = Some (slack_signature (gl_verify gl) secret timestamp body)))"

lemma system_secs_frame:
  "system_secs s = (now, s1) \<Longrightarrow> gw_queue s1 = gw_queue s \<and> gw_jobs s1 = gw_jobs s \<and> w_env (gw_world s1) = w_env (gw_world s)"
  by (auto simp: system_secs_def on_payloads_def utc_now_def gw_world_def)

lemma remember_frame:
  "gw_queue (remember_slack_engaged_thread wrapper s) = gw_queue s
   \<and> gw_jobs (remember_slack_engaged_thread wrapper s) = gw_jobs s"
  by (simp add: remember_slack_engaged_thread_def instant_now_def Let_def split: option.splits)

lemma engaged_frame:
  "slack_thread_is_engaged wrapper s = (b, s1) \<Longrightarrow> gw_queue s1 = gw_queue s \<and> gw_jobs s1 = gw_jobs s"
  by (auto simp: slack_thread_is_engaged_def instant_now_def Let_def split: option.splits)

lemma plain_frame:
  "should_enqueue_plain wrapper ev bot_id s = (b, s1) \<Longrightarrow> gw_queue s1 = gw_queue s \<and> gw_jobs s1 = gw_jobs s"
  using engaged_frame [of wrapper s] remember_frame [of wrapper]
  by (cases "slack_thread_is_engaged wrapper s")
     (auto simp: should_enqueue_plain_def Let_def split: if_splits option.splits)

lemma should_enqueue_frame:
  "should_enqueue_slack_message wrapper bot_id s = (b, s1) \<Longrightarrow> gw_queue s1 = gw_queue s \<and> gw_jobs s1 = gw_jobs s"
  using remember_frame [of wrapper s] plain_frame [of wrapper _ bot_id s b s1]
  by (auto simp: should_enqueue_slack_message_def split: option.splits if_splits)

lemma slack_spec:
  assumes "ingest_slack gl g headers body s = (r, s')"
  shows "handler_spec Slack (no_secret s ''SLACK_SIGNING_SECRET'' \<or> slack_ok gl s headers body) r s s'"
proof (cases "is_url_verification (gl_adapters gl) body")
  case (Some c)
  with assms show ?thesis
    by (auto simp: ingest_slack_def status_response_def intro: handler_spec_idle)
next
  case None
  obtain now s1 where s1: "system_secs s = (now, s1)" by fastforce
  note frame = system_secs_frame [OF s1]
  show ?thesis
  proof (cases "verify_slack (gl_verify gl) (gw_world s1) now headers body")
    case (Inl e)
    with None s1 assms frame show ?thesis by (auto simp: ingest_slack_def intro: handler_spec_idle)
  next
    case (Inr u)
    with frame have ok: "no_secret s ''SLACK_SIGNING_SECRET'' \<or> slack_ok gl s headers body"
      by (auto simp: slack_ok_def no_secret_def verify_slack_def res_bind_eq_Inr env_non_blank_def split: option.splits)
    show ?thesis
    proof (cases "al_slack (gl_adapters gl) body")
      case (Inl e)
      with None s1 Inr assms frame show ?thesis by (auto simp: ingest_slack_def intro: handler_spec_idle)
    next
      case wrapper: (Inr wrapper)
      show ?thesis
      proof (cases "resolve_slack_route (gw_world s1) (unwrap_or [] (sw_api_app_id wrapper)) g")
        case None': None
        with None s1 Inr wrapper assms frame show ?thesis
          by (auto simp: ingest_slack_def Let_def intro: handler_spec_idle split: if_splits)
      next
        case (Some route)
        obtain b s2 where s2: "should_enqueue_slack_message wrapper
            (gl_slack_bot_user gl (sw_team_id wrapper) (rd_employee_id route)) s1 = (b, s2)" by fastforce
        note frame2 = should_enqueue_frame [OF s2]
        with None s1 Inr wrapper Some s2 assms frame ok show ?thesis
          by (auto simp: ingest_slack_def Let_def intro: handler_spec_idle handler_spec_hand_over
              split: if_splits bool.splits sum.splits)
      qed
    qed
  qed
qed

definition lark_ok :: "'h gateway_lib \<Rightarrow> 'h gateway_state \<Rightarrow> headers \<Rightarrow> string \<Rightarrow> bool" where
  "lark_ok gl s headers body =
     (case env_non_blank (gw_world s) ''LARK_ENCRYPT_KEY'' of
        None \<Rightarrow> False
      | Some key \<Rightarrow>
          (case (header_str headers ''X-Lark-Request-Timestamp'', header_str headers ''X-Lark-Request-Nonce'') of
             (Some timestamp, Some nonce) \<Rightarrow>
               header_str headers ''X-Lark-Signature''
               = Some (lark_signature (gl_verify gl) key timestamp nonce body)
           | _ \<Rightarrow> False))"

lemma lark_spec:
  assumes "ingest_lark gl g headers body s = (r, s')"
  shows "handler_spec Lark (no_secret s ''LARK_ENCRYPT_KEY'' \<or> lark_ok gl s headers body) r s s'"
proof (cases "verify_lark_challenge (gl_verify gl) body = None \<and> verify_lark (gl_verify gl) (gw_world s) headers body = Inr ()")
  case True
  then have "no_secret s ''LARK_ENCRYPT_KEY'' \<or> lark_ok gl s headers body"
    by (auto simp: lark_ok_def no_secret_def verify_lark_def res_bind_eq_Inr split: option.splits)
  with True assms show ?thesis by (auto simp: ingest_lark_def intro: parsed_spec)
next
  case False
  with assms show ?thesis
    by (auto simp: ingest_lark_def status_response_def intro: handler_spec_idle split: option.splits sum.splits)
qed

end
