(* ===== verification/Slack_Threads.thy ===== *)
theory Slack_Threads
  imports Gateway_Properties
begin

text \<open>
  Which Slack messages the gateway lets through: the threads in which the service was mentioned, kept
  with the time of the last mention for twelve hours.
\<close>

subsection \<open>A run of decisions\<close>

text \<open>The webhooks of Slack in the order in which the table of threads is locked for them.\<close>

fun decide_all :: "(slack_wrapper \<times> string option) list \<Rightarrow> 'h gateway_state \<Rightarrow> 'h gateway_state" where
  "decide_all [] s = s"
| "decide_all ((wrapper, bot_user_id) # ws) s =
     decide_all ws (snd (should_enqueue_slack_message wrapper bot_user_id s))"

text \<open>
  What is known of a thread that was mentioned at a time: it is remembered with that time or a later
  one, or some look at the clock was already too late for it.
\<close>

definition followed :: "string \<Rightarrow> nat \<Rightarrow> 'h gateway_state \<Rightarrow> bool" where
  "followed key t0 s =
     (distinct (map fst (gw_engaged s))
      \<and> ((\<exists>t\<ge>t0. map_of (gw_engaged s) key = Some t)
         \<or> (\<exists>i < gw_instant_reads s. slack_engaged_thread_ttl < gw_instant s i - t0)))"

lemma map_of_prune:
  "distinct (map fst store) \<Longrightarrow>
   map_of (prune_stale_slack_engaged_threads now store) key =
   opt_filter (\<lambda>t. now - t \<le> slack_engaged_thread_ttl) (map_of store key)"
  unfolding prune_stale_slack_engaged_threads_def
  by (induction store) (auto simp: opt_filter_def map_of_eq_None_iff split: option.splits)

lemma distinct_prune: "distinct (map fst store) \<Longrightarrow> distinct (map fst (prune_stale_slack_engaged_threads now store))"
  by (auto simp: prune_stale_slack_engaged_threads_def distinct_map filter_is_subset intro: inj_on_subset)

text \<open>Dropping the stale threads at a new look at the clock.\<close>

lemma followed_prune:
  assumes "followed key t0 s" and "now = gw_instant s (gw_instant_reads s)"
  shows "followed key t0 (s\<lparr>gw_instant_reads := Suc (gw_instant_reads s),
                             gw_engaged := prune_stale_slack_engaged_threads now (gw_engaged s)\<rparr>)"
proof -
  let ?late = "\<lambda>n. \<exists>i<n. slack_engaged_thread_ttl < gw_instant s i - t0"
  have "(\<exists>t\<ge>t0. map_of (prune_stale_slack_engaged_threads now (gw_engaged s)) key = Some t)
      \<or> ?late (Suc (gw_instant_reads s))"
  proof (cases "?late (gw_instant_reads s)")
    case True
    then show ?thesis using less_SucI by blast
  next
    case False
    with assms(1) obtain t where t: "t0 \<le> t" "map_of (gw_engaged s) key = Some t"
      by (auto simp: followed_def)
    show ?thesis
    proof (cases "now - t \<le> slack_engaged_thread_ttl")
      case True
      with t assms(1) show ?thesis by (auto simp: map_of_prune followed_def opt_filter_def)
    next
      case False
      with t(1) assms(2) have "slack_engaged_thread_ttl < gw_instant s (gw_instant_reads s) - t0" by linarith
      then show ?thesis by blast
    qed
  qed
  with assms(1) show ?thesis by (simp add: followed_def distinct_prune)
qed

lemma followed_engaged:
  assumes "followed key t0 s" and "slack_thread_is_engaged wrapper s = (b, s')"
  shows "followed key t0 s' \<and> gw_instant s' = gw_instant s \<and> gw_instant_reads s \<le> gw_instant_reads s'"
  using assms followed_prune [OF assms(1) refl]
  by (auto simp: slack_thread_is_engaged_def instant_now_def Let_def split: option.splits)

lemma followed_remember:
  assumes "followed key t0 s" and "mono (gw_instant s)" and "t0 \<le> gw_instant s (gw_instant_reads s)"
  shows "followed key t0 (remember_slack_engaged_thread wrapper s)
    \<and> gw_instant (remember_slack_engaged_thread wrapper s) = gw_instant s
    \<and> gw_instant_reads s \<le> gw_instant_reads (remember_slack_engaged_thread wrapper s)"
proof (cases "slack_thread_scope_key wrapper")
  case None
  with assms(1) show ?thesis by (simp add: remember_slack_engaged_thread_def)
next
  case (Some k)
  with followed_prune [OF assms(1) refl] assms(3) show ?thesis
    by (auto simp: remember_slack_engaged_thread_def instant_now_def Let_def followed_def
        update_conv' distinct_update split: if_splits)
qed

text \<open>All of it, with the clock that is read on.\<close>

definition following :: "(nat \<Rightarrow> nat) \<Rightarrow> nat \<Rightarrow> string \<Rightarrow> 'h gateway_state \<Rightarrow> bool" where
  "following instant n key s =
     (gw_instant s = instant \<and> n \<le> gw_instant_reads s \<and> followed key (instant n) s)"

lemma following_engaged:
  "following instant n key s \<Longrightarrow> slack_thread_is_engaged wrapper s = (b, s') \<Longrightarrow> following instant n key s'"
  using followed_engaged [of key "instant n" s wrapper b s'] by (auto simp: following_def)

lemma following_remember:
  "mono instant \<Longrightarrow> following instant n key s \<Longrightarrow> following instant n key (remember_slack_engaged_thread wrapper s)"
  using followed_remember [of key "instant n" s wrapper] by (auto simp: following_def monoD)

lemma following_plain:
  assumes "mono instant" and "following instant n key s"
  shows "following instant n key (snd (should_enqueue_plain wrapper ev bot_id s))"
proof -
  obtain b s1 where e: "slack_thread_is_engaged wrapper s = (b, s1)" by fastforce
  with assms following_engaged [OF assms(2) e] following_remember [OF assms(1)] show ?thesis
    by (auto simp: should_enqueue_plain_def Let_def split: option.splits)
qed

lemma following_decision:
  assumes "mono instant" and "following instant n key s"
  shows "following instant n key (snd (should_enqueue_slack_message wrapper bot_id s))"
  using assms following_plain [OF assms] following_remember [OF assms]
  by (auto simp: should_enqueue_slack_message_def split: option.splits)

lemma following_all:
  "mono instant \<Longrightarrow> following instant n key s \<Longrightarrow> following instant n key (decide_all ws s)"
  by (induction ws arbitrary: s rule: list.induct) (auto simp: following_decision)

lemma following_starts:
  assumes "distinct (map fst (gw_engaged s))" and "slack_thread_scope_key wrapper = Some key"
  shows "following (gw_instant s) (gw_instant_reads s) key (remember_slack_engaged_thread wrapper s)"
  using assms by (auto simp: following_def followed_def remember_slack_engaged_thread_def instant_now_def Let_def
      update_conv' distinct_update distinct_prune)

lemma following_engages:
  assumes "mono instant" and "following instant n key s" and "slack_thread_scope_key wrapper = Some key"
    and "instant (gw_instant_reads s) - instant n \<le> slack_engaged_thread_ttl"
  shows "fst (slack_thread_is_engaged wrapper s)"
proof -
  let ?now = "instant (gw_instant_reads s)"
  have "\<not> slack_engaged_thread_ttl < instant i - instant n" if "i < gw_instant_reads s" for i
    using monoD [OF assms(1), of i "gw_instant_reads s"] that assms(4) by linarith
  with assms(2) obtain t where t: "instant n \<le> t" "map_of (gw_engaged s) key = Some t"
    "distinct (map fst (gw_engaged s))" "gw_instant s = instant"
    by (auto simp: following_def followed_def)
  then have "map_of (prune_stale_slack_engaged_threads ?now (gw_engaged s)) key = Some t"
    using assms(4) by (simp add: map_of_prune opt_filter_def)
  with t assms(3) show ?thesis by (simp add: slack_thread_is_engaged_def instant_now_def Let_def)
qed

subsection \<open>The follow-up\<close>

text \<open>What any message must be: by a person, and of a kind that is read.\<close>

definition by_person :: "slack_event \<Rightarrow> string option \<Rightarrow> bool" where
  "by_person ev bot_user_id =
     (slack_message_subtype_is_supported_for_inbound (se_subtype ev) \<and> se_bot_id ev = None
      \<and> \<not> (se_user ev \<noteq> None \<and> se_user ev = bot_user_id))"

text \<open>
  A message by a person that counts as a mention and is remembered: an event of its own kind, or a
  plain message in a channel whose text names the service, unless it stands in a thread that the
  service takes part in already (such a message is let through without a look at its text).
\<close>

definition takes_mention :: "slack_wrapper \<Rightarrow> slack_event \<Rightarrow> string option \<Rightarrow> 'h gateway_state \<Rightarrow> bool" where
  "takes_mention wrapper ev bot_user_id s =
     (by_person ev bot_user_id \<and>
      (se_type ev = ''app_mention''
       \<or> se_type ev = ''message'' \<and> se_channel_type ev \<notin> set [Some ''im'', Some ''mpim'']
         \<and> (case bot_user_id of None \<Rightarrow> False | Some bot_id \<Rightarrow> slack_mention bot_id ev)
         \<and> (se_thread_ts ev = None \<or> \<not> fst (slack_thread_is_engaged wrapper s))))"

lemma engaged_keeps:
  assumes "slack_thread_is_engaged wrapper s = (b, s1)" and "distinct (map fst (gw_engaged s))"
  shows "distinct (map fst (gw_engaged s1)) \<and> gw_instant s1 = gw_instant s \<and> gw_instant_reads s \<le> gw_instant_reads s1"
  using assms by (auto simp: slack_thread_is_engaged_def instant_now_def Let_def distinct_prune split: option.splits)

lemma mention_follows:
  assumes "distinct (map fst (gw_engaged s))" and "sw_event mention = Some ev" and "takes_mention mention ev bot_id s"
    and "slack_thread_scope_key mention = Some key"
  shows "\<exists>n \<ge> gw_instant_reads s. following (gw_instant s) n key (snd (should_enqueue_slack_message mention bot_id s))"
proof -
  have now: ?thesis if "snd (should_enqueue_slack_message mention bot_id s) = remember_slack_engaged_thread mention s"
    using following_starts [OF assms(1,4)] that by auto
  show ?thesis
  proof (cases "se_type ev = ''app_mention'' \<or> se_thread_ts ev = None")
    case True
    with assms(2,3) now show ?thesis
      by (auto simp: should_enqueue_slack_message_def should_enqueue_plain_def takes_mention_def by_person_def Let_def
          split: option.splits)
  next
    case False
    obtain b s1 where e: "slack_thread_is_engaged mention s = (b, s1)" by fastforce
    note kept = engaged_keeps [OF e assms(1)]
    from False assms(2,3) e have "snd (should_enqueue_slack_message mention bot_id s) = remember_slack_engaged_thread mention s1"
      by (auto simp: should_enqueue_slack_message_def should_enqueue_plain_def takes_mention_def by_person_def Let_def
          split: option.splits)
    with following_starts [of s1 mention key] kept assms(4) show ?thesis by auto
  qed
qed

text \<open>
  C25.  Who has mentioned the service in a thread need not mention it again.  After a mention in a
  thread that the gateway remembers, which is an event \<open>app_mention\<close> or a plain message in a channel
  that names the service and does not stand in a thread that is followed already (such a message does
  not renew the twelve hours), a plain message in that thread by a person is let through, by
  whichever person and without another mention, whatever other messages of Slack were decided on in
  between, as long as no more than twelve hours of the machine's monotone clock have passed and the
  gateway was not restarted.
\<close>

theorem slack_thread_followed:
  assumes "mono (gw_instant s)" and "distinct (map fst (gw_engaged s))"
    and "sw_event mention = Some ev" and "takes_mention mention ev bot_id s"
    and "slack_thread_scope_key mention = Some key"
    and "s2 = decide_all ws (snd (should_enqueue_slack_message mention bot_id s))"
    and "sw_event reply = Some ev'" and "se_type ev' = ''message''" and "by_person ev' bot_id'"
    and "se_thread_ts ev' \<noteq> None" and "slack_thread_scope_key reply = Some key"
    and "gw_instant s (gw_instant_reads s2) - gw_instant s (gw_instant_reads s) \<le> slack_engaged_thread_ttl"
  shows "fst (should_enqueue_slack_message reply bot_id' s2)"
proof -
  from mention_follows [OF assms(2-5)] obtain n where n: "gw_instant_reads s \<le> n"
    and "following (gw_instant s) n key (snd (should_enqueue_slack_message mention bot_id s))" by blast
  with following_all [OF assms(1)] assms(6) have "following (gw_instant s) n key s2" by simp
  moreover have "gw_instant s (gw_instant_reads s2) - gw_instant s n \<le> slack_engaged_thread_ttl"
    using monoD [OF assms(1) n] assms(12) by linarith
  ultimately have "fst (slack_thread_is_engaged reply s2)"
    using following_engages [OF assms(1) _ assms(11)] by blast
  with assms(7-10) show ?thesis
    by (auto simp: should_enqueue_slack_message_def should_enqueue_plain_def by_person_def Let_def
        split: prod.splits option.splits)
qed

definition slack_demo :: "string \<Rightarrow> string \<Rightarrow> string option \<Rightarrow> string \<Rightarrow> slack_wrapper" where
  "slack_demo kind ts thread_ts text =
     \<lparr>sw_type = ''event_callback'', sw_challenge = None, sw_token = None, sw_team_id = Some ''T'',
      sw_api_app_id = Some ''A'',
      sw_event = Some \<lparr>se_type = kind, se_subtype = None, se_channel = Some ''C'', se_user = Some ''U'',
        se_text = Some text, se_ts = ts, se_thread_ts = thread_ts, se_bot_id = None, se_app_id = None,
        se_files = None, se_channel_type = Some ''channel'', se_event_ts = None\<rparr>,
      sw_event_id = Some (kind @ ts), sw_event_time = None\<rparr>"

text \<open>A gateway on the local disk with an empty queue; its monotone clock takes a number of seconds a look.\<close>

definition quiet_gateway :: "nat \<Rightarrow> (string \<times> string) list gateway_state" where
  "quiet_gateway pace =
     \<lparr>gw_payloads = local_payloads, gw_queue = demo_pg [], gw_engaged = [],
      gw_instant = (\<lambda>n. n * pace * 1000000000), gw_instant_reads = 0, gw_jobs = []\<rparr>"

lemma slack_demo_keys:
  "slack_thread_scope_key (slack_demo ''app_mention'' ''1'' None ''<@B> hi'') = Some ''slack:T:C:1''"
  "slack_thread_scope_key (slack_demo ''app_mention'' ''5'' None ''<@B>'') = Some ''slack:T:C:5''"
  "slack_thread_scope_key (slack_demo ''message'' ''2'' (Some ''1'') ''go on'') = Some ''slack:T:C:1''"
  "slack_message_subtype_is_supported_for_inbound None"
  "\<not> str_contains ''go on'' (''<@'' @ trim ''B'' @ ''>'')"
  by code_simp+

text \<open>A mention of the thread, one of another thread, and the table of threads after them.\<close>

abbreviation demo_reply_later :: slack_wrapper where
  "demo_reply_later \<equiv> slack_demo ''message'' ''2'' (Some ''1'') ''go on''"

definition after_mentions :: "nat \<Rightarrow> (string \<times> string) list gateway_state" where
  "after_mentions pace =
     decide_all [(slack_demo ''app_mention'' ''5'' None ''<@B>'', Some ''B'')]
       (snd (should_enqueue_slack_message (slack_demo ''app_mention'' ''1'' None ''<@B> hi'') (Some ''B'')
          (quiet_gateway pace)))"

lemmas slack_demo_scope = slack_demo_keys [unfolded slack_demo_def, simplified]

lemmas slack_demo_eval =
  after_mentions_def slack_demo_def slack_demo_scope should_enqueue_slack_message_def should_enqueue_plain_def remember_slack_engaged_thread_def
  slack_thread_is_engaged_def instant_now_def quiet_gateway_def slack_engaged_thread_ttl_def
  prune_stale_slack_engaged_threads_def slack_mention_def Let_def

lemma after_mentions_reads: "gw_instant_reads (after_mentions pace) = 2"
  by (simp add: slack_demo_eval)

theorem slack_thread_followed_witness:
  "fst (should_enqueue_slack_message demo_reply_later (Some ''B'') (after_mentions 21600))
   \<and> \<not> fst (should_enqueue_slack_message demo_reply_later (Some ''B'') (after_mentions 21601))"
proof
  let ?s = "quiet_gateway 21600" and ?m = "slack_demo ''app_mention'' ''1'' None ''<@B> hi''"
  show "fst (should_enqueue_slack_message demo_reply_later (Some ''B'') (after_mentions 21600))"
  proof (rule slack_thread_followed [where s = ?s and mention = ?m and ev = "the (sw_event ?m)"
        and bot_id = "Some ''B''" and ev' = "the (sw_event demo_reply_later)" and key = "''slack:T:C:1''"])
    show "takes_mention ?m (the (sw_event ?m)) (Some ''B'') ?s"
      by (simp add: takes_mention_def by_person_def slack_demo_def slack_demo_keys)
    show "gw_instant ?s (gw_instant_reads (after_mentions 21600)) - gw_instant ?s (gw_instant_reads ?s)
        \<le> slack_engaged_thread_ttl"
      unfolding after_mentions_reads by (simp add: quiet_gateway_def slack_engaged_thread_ttl_def)
    show "after_mentions 21600 = decide_all [(slack_demo ''app_mention'' ''5'' None ''<@B>'', Some ''B'')]
        (snd (should_enqueue_slack_message ?m (Some ''B'') ?s))"
      by (simp add: after_mentions_def)
  qed (simp_all add: quiet_gateway_def mono_def slack_demo_keys by_person_def slack_demo_def
      slack_demo_scope)
  show "\<not> fst (should_enqueue_slack_message demo_reply_later (Some ''B'') (after_mentions 21601))"
    by (simp add: slack_demo_eval)
qed

end
