(* ===== verification/Gateway_Runs.thy ===== *)
theory Gateway_Runs
  imports Gateway_Safety Slack_Threads
begin

text \<open>
  Runs of the gateway beside the workers that empty its queue: the answers it gives, requests without
  credentials, repeated requests, and the messages that are taken for repetitions.
\<close>

subsection \<open>The other handlers\<close>

lemma telegram_spec: "ingest_telegram gl g body s = (r, s') \<Longrightarrow> handler_spec Telegram True r s s'"
  by (auto simp: ingest_telegram_def intro: parsed_spec)

lemma whatsapp_spec: "ingest_whatsapp gl g body s = (r, s') \<Longrightarrow> handler_spec WhatsApp True r s s'"
  by (auto simp: ingest_whatsapp_def intro: parsed_spec)

lemma wechat_spec:
  "ingest_wechat gl g body s = (r, s') \<Longrightarrow>
   r = Panics \<and> s' = s \<or> (\<exists>a. r = Returns a \<and> handler_spec WeChat True a s s')"
  by (auto simp: ingest_wechat_def intro: parsed_spec split: run.splits prod.splits)

text \<open>The signature of a message of an official account.\<close>

definition wechat_mp_ok ::
    "'h gateway_lib \<Rightarrow> 'h gateway_state \<Rightarrow> string option \<Rightarrow> string option \<Rightarrow> string option \<Rightarrow> string option
     \<Rightarrow> string \<Rightarrow> bool" where
  "wechat_mp_ok gl s signature msg_signature timestamp nonce body =
     (case env_non_blank (gw_world s) ''WECHAT_MP_TOKEN'' of
        None \<Rightarrow> False
      | Some token \<Rightarrow>
          (case (timestamp, nonce) of
             (Some t, Some n) \<Rightarrow>
               (case extract_encrypt_field body of
                  Some encrypt \<Rightarrow> msg_signature = Some (sha1_of_sorted_parts (gl_verify gl) [token, t, n, encrypt])
                | None \<Rightarrow> signature = Some (sha1_of_sorted_parts (gl_verify gl) [token, t, n]))
           | _ \<Rightarrow> False))"

lemma passive_ack_frame:
  "passive_ack_response message s = (r, s') \<Longrightarrow>
   gw_queue s' = gw_queue s \<and> gw_jobs s' = gw_jobs s \<and> r \<noteq> accepted \<and> r \<noteq> duplicate"
  by (auto simp: passive_ack_response_def on_payloads_def passive_ack_def build_passive_text_response_def
      status_response_def Let_def unwrap_or_def split: prod.splits option.splits if_splits)

lemma wechat_mp_spec:
  assumes "ingest_wechat_mp gl g signature msg_signature timestamp nonce body s = (r, s')"
  shows "gw_queue s' = gw_queue s \<and> r \<noteq> accepted \<and> r \<noteq> duplicate
    \<and> (gw_jobs s' = gw_jobs s
       \<or> (no_secret s ''WECHAT_MP_TOKEN'' \<or> wechat_mp_ok gl s signature msg_signature timestamp nonce body)
         \<and> (\<exists>job. gw_jobs s' = gw_jobs s @ [job]))"
proof (cases "verify_wechat_mp_message (gl_verify gl) (gw_world s) signature msg_signature timestamp nonce body")
  case (Inl e)
  with assms show ?thesis by (auto simp: ingest_wechat_mp_def status_response_def)
next
  case (Inr u)
  then have ok: "no_secret s ''WECHAT_MP_TOKEN'' \<or> wechat_mp_ok gl s signature msg_signature timestamp nonce body"
    by (auto simp: verify_wechat_mp_message_def wechat_mp_ok_def no_secret_def res_bind_eq_Inr split: option.splits)
  show ?thesis
  proof (cases "wechat_mp_parse (gl_adapters gl) (w_env (gw_world s)) body")
    case (Inl e)
    with Inr assms show ?thesis by (auto simp: ingest_wechat_mp_def passive_ack_def status_response_def)
  next
    case message: (Inr message)
    obtain a s1 where "passive_ack_response message s = (a, s1)" by fastforce
    with passive_ack_frame [OF this] ok Inr message assms show ?thesis
      by (auto simp: ingest_wechat_mp_def Let_def split: option.splits)
  qed
qed

subsection \<open>Every answer\<close>

definition row_added :: "queue_row list \<Rightarrow> queue_row list \<Rightarrow> bool" where
  "row_added rows rows' =
     (\<exists>row. rows' = rows @ [row] \<and> qr_dedupe_key row \<notin> qr_dedupe_key ` set rows \<and> qr_id row \<notin> qr_id ` set rows
        \<and> qr_status row = ''pending'' \<and> qr_attempts row = 0 \<and> qr_locked_by row = None)"

lemma row_added_neq: "row_added rows rows' \<Longrightarrow> rows' \<noteq> rows"
  by (auto simp: row_added_def)

lemma outcome_rows:
  "outcome route channel ext r rows rows' \<Longrightarrow>
   r = accepted \<and> row_added rows rows' \<or> r = duplicate \<and> rows' = rows
   \<or> hr_code r = 502 \<and> (rows' = rows \<or> row_added rows rows')"
  by (auto simp: outcome_def row_added_def fresh_row_def Let_def)

lemma handler_rows:
  assumes "handler_spec channel authentic r s s'"
  shows "gw_jobs s' = gw_jobs s
    \<and> (gw_rows s' = gw_rows s \<and> r \<noteq> accepted
       \<or> authentic \<and> row_added (gw_rows s) (gw_rows s') \<and> (r = accepted \<or> hr_code r = 502))"
  using assms outcome_rows [of _ channel _ r "gw_rows s" "gw_rows s'"]
  by (auto simp: handler_spec_def status_response_def)

text \<open>
  Requests that the gateway does not check: those of Telegram, WhatsApp and WeChat ever, those of
  the other platforms when the secret of their check is not configured.
\<close>

fun open_to_all :: "'h gateway_state \<Rightarrow> gateway_event \<Rightarrow> bool" where
  "open_to_all s (PostTelegram body) = True"
| "open_to_all s (PostWhatsApp body) = True"
| "open_to_all s (PostWeChat body) = True"
| "open_to_all s (PostPostmark headers body) = no_secret s ''POSTMARK_INBOUND_TOKEN''"
| "open_to_all s (PostSlack headers body) = no_secret s ''SLACK_SIGNING_SECRET''"
| "open_to_all s (PostBlueBubbles headers body) = no_secret s ''BLUEBUBBLES_WEBHOOK_TOKEN''"
| "open_to_all s (PostSms headers body) = (no_secret s ''TWILIO_AUTH_TOKEN'' \<or> no_secret s ''TWILIO_WEBHOOK_URL'')"
| "open_to_all s (PostWeChatMp signature msg_signature timestamp nonce body) = no_secret s ''WECHAT_MP_TOKEN''"
| "open_to_all s (PostLark headers body) = no_secret s ''LARK_ENCRYPT_KEY''"
| "open_to_all s (RunJob i) = False"
| "open_to_all s Restart = False"

text \<open>Requests that show the configured token or the signature it demands.\<close>

fun credentials :: "'h gateway_lib \<Rightarrow> 'h gateway_state \<Rightarrow> gateway_event \<Rightarrow> bool" where
  "credentials gl s (PostPostmark headers body) = token_ok s ''POSTMARK_INBOUND_TOKEN'' ''x-postmark-token'' headers"
| "credentials gl s (PostSlack headers body) = slack_ok gl s headers body"
| "credentials gl s (PostBlueBubbles headers body) =
     token_ok s ''BLUEBUBBLES_WEBHOOK_TOKEN'' ''x-bluebubbles-token'' headers"
| "credentials gl s (PostSms headers body) = twilio_ok gl s headers body"
| "credentials gl s (PostWeChatMp signature msg_signature timestamp nonce body) =
     wechat_mp_ok gl s signature msg_signature timestamp nonce body"
| "credentials gl s (PostLark headers body) = lark_ok gl s headers body"
| "credentials gl s _ = False"

text \<open>The second half of the handling of a message that was acknowledged before.\<close>

fun job_waits :: "'h gateway_state \<Rightarrow> gateway_event \<Rightarrow> bool" where
  "job_waits s (RunJob i) = (i < length (gw_jobs s))"
| "job_waits s _ = False"

definition admitted :: "'h gateway_lib \<Rightarrow> 'h gateway_state \<Rightarrow> gateway_event \<Rightarrow> bool" where
  "admitted gl s ev = (open_to_all s ev \<or> credentials gl s ev \<or> job_waits s ev)"

lemma run_job_rows:
  assumes "serve gl g (RunJob i) s = (a, s')"
  shows "a = None \<and> (s' = s \<or> i < length (gw_jobs s)
    \<and> (gw_rows s' = gw_rows s \<or> row_added (gw_rows s) (gw_rows s')) \<and> set (gw_jobs s') \<subseteq> set (gw_jobs s))"
proof (cases "nth_opt (gw_jobs s) i")
  case None
  with assms show ?thesis by simp
next
  case (Some job)
  let ?s = "s\<lparr>gw_jobs := take i (gw_jobs s) @ drop (Suc i) (gw_jobs s)\<rparr>"
  obtain r s1 where h: "hand_over gl (mj_route job) WeChatMp (im_message_id (mj_message job)) (mj_message job)
      (mj_body job) ?s = (r, s1)" by fastforce
  note hand_over_outcome [OF h]
  moreover have "s1 = s'" "a = None" "i < length (gw_jobs s)"
    using Some assms h by (auto simp: process_wechat_mp_async_def nth_opt_def split: if_splits)
  ultimately show ?thesis
    using outcome_rows [of "mj_route job" WeChatMp _ r "gw_rows s" "gw_rows s'"]
    by (auto dest: in_set_takeD in_set_dropD)
qed

lemma serve_rows:
  assumes "serve gl g ev s = (a, s')"
  shows "(gw_rows s' = gw_rows s \<and> a \<noteq> Some (Returns accepted)
          \<or> admitted gl s ev \<and> row_added (gw_rows s) (gw_rows s')
            \<and> (a = Some (Returns accepted) \<or> (\<exists>r. a = Some (Returns r) \<and> hr_code r = 502)
               \<or> a = None \<and> (\<exists>i. ev = RunJob i)))
    \<and> (set (gw_jobs s') \<subseteq> set (gw_jobs s) \<or> admitted gl s ev)"
proof -
  have handler: ?thesis
    if "ev \<notin> range RunJob" "a = Some (Returns r)" "handler_spec channel (admitted gl s ev) r s s'" for channel r
    using handler_rows [OF that(3)] that(2) by auto
  show ?thesis
  proof (cases ev)
    case (PostPostmark headers body)
    with assms postmark_spec [of gl g headers body s] show ?thesis
      by (intro handler [where channel = Email and r = "fst (ingest_postmark gl g headers body s)"])
         (auto simp: answered_def admitted_def split: prod.splits)
  next
    case (PostSlack headers body)
    with assms slack_spec [of gl g headers body s] show ?thesis
      by (intro handler [where channel = Slack and r = "fst (ingest_slack gl g headers body s)"])
         (auto simp: answered_def admitted_def split: prod.splits)
  next
    case (PostBlueBubbles headers body)
    with assms bluebubbles_spec [of gl g headers body s] show ?thesis
      by (intro handler [where channel = BlueBubbles and r = "fst (ingest_bluebubbles gl g headers body s)"])
         (auto simp: answered_def admitted_def split: prod.splits)
  next
    case (PostTelegram body)
    with assms telegram_spec [of gl g body s] show ?thesis
      by (intro handler [where channel = Telegram and r = "fst (ingest_telegram gl g body s)"])
         (auto simp: answered_def admitted_def split: prod.splits)
  next
    case (PostSms headers body)
    with assms sms_spec [of gl g headers body s] show ?thesis
      by (intro handler [where channel = Sms and r = "fst (ingest_sms gl g headers body s)"])
         (auto simp: answered_def admitted_def split: prod.splits)
  next
    case (PostWhatsApp body)
    with assms whatsapp_spec [of gl g body s] show ?thesis
      by (intro handler [where channel = WhatsApp and r = "fst (ingest_whatsapp gl g body s)"])
         (auto simp: answered_def admitted_def split: prod.splits)
  next
    case (PostWeChat body)
    obtain r s1 where r: "ingest_wechat gl g body s = (r, s1)" by fastforce
    with PostWeChat assms have a: "a = Some r" "s1 = s'" by auto
    with wechat_spec [OF r] PostWeChat handler [where channel = WeChat] show ?thesis by (auto simp: admitted_def)
  next
    case (PostWeChatMp signature msg_signature timestamp nonce body)
    with assms wechat_mp_spec [of gl g signature msg_signature timestamp nonce body s] show ?thesis
      by (auto simp: answered_def admitted_def split: prod.splits)
  next
    case (PostLark headers body)
    with assms lark_spec [of gl g headers body s] show ?thesis
      by (intro handler [where channel = Lark and r = "fst (ingest_lark gl g headers body s)"])
         (auto simp: answered_def admitted_def split: prod.splits)
  next
    case (RunJob i)
    with run_job_rows [of gl g i s a s'] assms show ?thesis by (auto simp: admitted_def)
  next
    case Restart
    with assms show ?thesis by auto
  qed
qed

text \<open>
  C20.  The answers of the gateway tell the truth about its queue.  A request that is answered with
  \<open>accepted\<close> has added exactly one row, pending, unlocked, with a key and an identifier that no other
  row has; one that is answered with \<open>duplicate\<close> has changed nothing.  The queue never changes in any
  other way, and only behind the answer 502, or for a message of an official account that was
  acknowledged before, is a row added without \<open>accepted\<close> being said.
\<close>

theorem answers_match_queue:
  assumes "serve gl g ev s = (a, s')"
  shows "(a = Some (Returns accepted) \<longrightarrow> row_added (gw_rows s) (gw_rows s'))
    \<and> (a = Some (Returns duplicate) \<longrightarrow> gw_rows s' = gw_rows s)
    \<and> (gw_rows s' = gw_rows s
       \<or> row_added (gw_rows s) (gw_rows s')
         \<and> (a = Some (Returns accepted) \<or> (\<exists>r. a = Some (Returns r) \<and> hr_code r = 502)
            \<or> a = None \<and> (\<exists>i. ev = RunJob i)))"
  using serve_rows [OF assms] by (auto simp: status_response_def)

lemma snd_answered: "snd (answered p) = snd p"
  by (cases p) (simp add: answered_def)

subsection \<open>Runs of the gateway and the workers\<close>

text \<open>A step of the system is an event of the gateway or an operation of a worker on the same queue.\<close>

datatype system_event = Gateway gateway_event | Worker queue_op

definition worker_step :: "queue_config \<Rightarrow> envelope_codec \<Rightarrow> queue_op \<Rightarrow> 'h gateway_state \<Rightarrow> 'h gateway_state" where
  "worker_step q ec op s = s\<lparr>gw_queue := snd (queue_step q ec op (gw_queue s))\<rparr>"

fun system_step ::
    "'h gateway_lib \<Rightarrow> gateway_tables \<Rightarrow> queue_config \<Rightarrow> 'h gateway_state \<Rightarrow> system_event \<Rightarrow> 'h gateway_state" where
  "system_step gl g q s (Gateway ev) = snd (serve gl g ev s)"
| "system_step gl g q s (Worker op) = worker_step q (gl_codec gl) op s"

fun system_run ::
    "'h gateway_lib \<Rightarrow> gateway_tables \<Rightarrow> queue_config \<Rightarrow> system_event list \<Rightarrow> 'h gateway_state \<Rightarrow> 'h gateway_state" where
  "system_run gl g q [] s = s"
| "system_run gl g q (ev # evs) s = system_run gl g q evs (system_step gl g q s ev)"

text \<open>A key that has been used stays used.\<close>

lemma system_step_keys:
  assumes "k \<in> qr_dedupe_key ` set (gw_rows s)"
  shows "k \<in> qr_dedupe_key ` set (gw_rows (system_step gl g q s ev))"
proof (cases ev)
  case (Gateway gev)
  obtain a s' where "serve gl g gev s = (a, s')" by fastforce
  with serve_rows [OF this] assms Gateway show ?thesis by (auto simp: row_added_def)
next
  case (Worker op)
  obtain hs p where p: "queue_step q (gl_codec gl) op (gw_queue s) = (hs, p)" by fastforce
  then have "queue_run q (gl_codec gl) [op] (gw_queue s) = (hs, p)" by simp
  from dedupe_key_stays [OF this assms] Worker p show ?thesis by (simp add: worker_step_def)
qed

lemma system_run_keys:
  "k \<in> qr_dedupe_key ` set (gw_rows s) \<Longrightarrow> k \<in> qr_dedupe_key ` set (gw_rows (system_run gl g q evs s))"
  by (induction evs arbitrary: s) (simp_all add: system_step_keys)

lemma accepted_key:
  "outcome route channel (Some i) accepted rows rows' \<Longrightarrow> dedupe_key_of route channel i \<in> qr_dedupe_key ` set rows'"
  by (auto simp: outcome_def fresh_row_def status_response_def)

lemma known_key:
  "outcome route channel (Some i) r rows rows' \<Longrightarrow> dedupe_key_of route channel i \<in> qr_dedupe_key ` set rows \<Longrightarrow>
   rows' = rows \<and> (r = duplicate \<or> hr_code r = 502)"
  by (auto simp: outcome_def fresh_row_def Let_def)

subsection \<open>Requests without credentials\<close>

fun is_enqueue :: "queue_op \<Rightarrow> bool" where
  "is_enqueue (Op_Enqueue e) = True"
| "is_enqueue _ = False"

text \<open>
  A run in which every request is checked and none shows its credentials, no acknowledged message is
  waiting to be handed over, and the workers only work on what is in the queue.
\<close>

fun uninvited ::
    "'h gateway_lib \<Rightarrow> gateway_tables \<Rightarrow> queue_config \<Rightarrow> system_event list \<Rightarrow> 'h gateway_state \<Rightarrow> bool" where
  "uninvited gl g q [] s = True"
| "uninvited gl g q (ev # evs) s =
     ((case ev of Gateway gev \<Rightarrow> \<not> open_to_all s gev \<and> \<not> credentials gl s gev \<and> \<not> job_waits s gev
                | Worker op \<Rightarrow> \<not> is_enqueue op)
      \<and> uninvited gl g q evs (system_step gl g q s ev))"

lemma table_step_ids:
  "table_step q op now rows hs rows' \<Longrightarrow> (\<And>e. op \<noteq> Op_Enqueue e) \<Longrightarrow> map qr_id rows' = map qr_id rows"
  by (induction rule: table_step.induct)
     (auto simp: update_id_def claim_row_def done_row_def failed_row_def Let_def)

lemma uninvited_step:
  assumes "case ev of Gateway gev \<Rightarrow> \<not> admitted gl s gev | Worker op \<Rightarrow> \<not> is_enqueue op"
  shows "map qr_id (gw_rows (system_step gl g q s ev)) = map qr_id (gw_rows s)
    \<and> set (gw_jobs (system_step gl g q s ev)) \<subseteq> set (gw_jobs s)"
proof (cases ev)
  case (Gateway gev)
  obtain a s' where "serve gl g gev s = (a, s')" by fastforce
  with serve_rows [OF this] assms Gateway show ?thesis by auto
next
  case (Worker op)
  obtain hs p where p: "queue_step q (gl_codec gl) op (gw_queue s) = (hs, p)" by fastforce
  from queue_step_table [OF p]
  have "table_step q op (pg_clock (gw_queue s) (pg_turn (gw_queue s))) (gw_rows s) hs (pg_rows p)" by blast
  moreover from assms Worker have "op \<noteq> Op_Enqueue e" for e by auto
  ultimately have "map qr_id (pg_rows p) = map qr_id (gw_rows s)" by (rule table_step_ids)
  with Worker p show ?thesis by (simp add: worker_step_def)
qed


subsection \<open>Repeated requests\<close>

lemma postmark_outcome:
  assumes "ingest_postmark gl g headers body s = (r, s')" and "al_postmark (gl_adapters gl) body = Inr p"
  shows "gw_rows s' = gw_rows s \<and> r \<noteq> accepted
    \<or> (\<exists>a route. find_service_address p (dr_service_addresses (gt_directory g)) = Some a
         \<and> resolve_route Email (normalize_route_email a) g = Some route
         \<and> outcome route Email (external_mail_id p) r (gw_rows s) (gw_rows s'))"
  using assms
  by (auto simp: ingest_postmark_def dest: hand_over_outcome split: sum.splits option.splits if_splits)

text \<open>
  C18.  A mail is queued once.  Postmark repeats a request until it gets an answer it likes; once a mail
  was accepted, a request with a mail of the same identifier for the same address of the service is not
  accepted and adds nothing to the queue, whatever else the gateway has served and whatever the workers
  have done with the row meanwhile.
\<close>

theorem mail_queued_once:
  assumes "ingest_postmark gl g headers body s = (accepted, s1)"
    and "al_postmark (gl_adapters gl) body = Inr p" and "al_postmark (gl_adapters gl) body' = Inr p'"
    and "external_mail_id p = Some i" and "external_mail_id p' = Some i"
    and "find_service_address p' (dr_service_addresses (gt_directory g))
         = find_service_address p (dr_service_addresses (gt_directory g))"
    and "ingest_postmark gl g headers' body' (system_run gl g q evs s1) = (r, s2)"
  shows "gw_rows s2 = gw_rows (system_run gl g q evs s1) \<and> r \<noteq> accepted"
proof -
  let ?s = "system_run gl g q evs s1"
  from postmark_outcome [OF assms(1,2)] assms(4) obtain a route where
    a: "find_service_address p (dr_service_addresses (gt_directory g)) = Some a"
      "resolve_route Email (normalize_route_email a) g = Some route"
      "outcome route Email (Some i) accepted (gw_rows s) (gw_rows s1)" by auto
  then have key: "dedupe_key_of route Email i \<in> qr_dedupe_key ` set (gw_rows ?s)"
    by (intro system_run_keys accepted_key)
  show ?thesis
    using postmark_outcome [OF assms(7,3)] a(1,2) assms(5,6) known_key [OF _ key, of r "gw_rows s2"]
    by (auto simp: status_response_def)
qed

lemma parsed_outcome:
  assumes "ingest_parsed gl g channel key_of (Inr m) body s = (r, s')"
  shows "gw_rows s' = gw_rows s \<and> r \<noteq> accepted
    \<or> (\<exists>route. resolve_route channel (key_of m) g = Some route
         \<and> outcome route channel (im_message_id m) r (gw_rows s) (gw_rows s'))"
  using assms by (auto simp: ingest_parsed_def dest: hand_over_outcome split: option.splits)

definition telegram_message_of :: "'h gateway_lib \<Rightarrow> string \<Rightarrow> telegram_message option" where
  "telegram_message_of gl body =
     (case al_telegram (gl_adapters gl) body of
        Inl _ \<Rightarrow> None
      | Inr update \<Rightarrow> or_else (tg_message update) (tg_edited_message update))"

lemma telegram_outcome:
  assumes "ingest_telegram gl g body s = (r, s')" and "telegram_message_of gl body = Some m"
  shows "gw_rows s' = gw_rows s \<and> r \<noteq> accepted
    \<or> (\<exists>route. resolve_route Telegram (int_str (tm_chat_id m)) g = Some route
         \<and> outcome route Telegram (Some (int_str (tm_message_id m))) r (gw_rows s) (gw_rows s'))"
proof (cases "telegram_parse (gl_adapters gl) body")
  case (Inl e)
  with assms show ?thesis by (auto simp: ingest_telegram_def ingest_parsed_def status_response_def)
next
  case (Inr message)
  with assms(2) have "im_message_id message = Some (int_str (tm_message_id m))"
    "cm_telegram_chat_id (im_metadata message) = Some (tm_chat_id m)"
    by (auto simp: telegram_parse_def telegram_message_of_def res_bind_eq_Inr split: sum.splits option.splits)
  with parsed_outcome [of gl g Telegram _ message body s r s'] assms(1) Inr show ?thesis
    by (fastforce simp: ingest_telegram_def)
qed

text \<open>
  C24.  Telegram numbers the messages of each chat on their own, and the gateway's key for repetitions
  leaves the chat out.  When one employee serves two chats, a message in the one is lost once the
  message with the same number in the other has been accepted: it is not accepted and nothing is queued
  for it.  The same happens to every edit of a message that was accepted.
\<close>

theorem telegram_numbers_collide:
  assumes "ingest_telegram gl g body s = (accepted, s1)"
    and "telegram_message_of gl body = Some m" and "telegram_message_of gl body' = Some m'"
    and "tm_message_id m' = tm_message_id m"
    and "resolve_route Telegram (int_str (tm_chat_id m')) g = resolve_route Telegram (int_str (tm_chat_id m)) g"
    and "ingest_telegram gl g body' (system_run gl g q evs s1) = (r, s2)"
  shows "gw_rows s2 = gw_rows (system_run gl g q evs s1) \<and> r \<noteq> accepted"
proof -
  let ?i = "int_str (tm_message_id m)"
  from telegram_outcome [OF assms(1,2)] obtain route where
    route: "resolve_route Telegram (int_str (tm_chat_id m)) g = Some route"
      "outcome route Telegram (Some ?i) accepted (gw_rows s) (gw_rows s1)" by auto
  then have key: "dedupe_key_of route Telegram ?i \<in> qr_dedupe_key ` set (gw_rows (system_run gl g q evs s1))"
    by (intro system_run_keys accepted_key)
  show ?thesis
    using telegram_outcome [OF assms(6,3)] route(1) assms(4,5) known_key [OF _ key, of r "gw_rows s2"]
    by (auto simp: status_response_def)
qed

subsection \<open>A small gateway\<close>

definition demo_telegram :: "int \<Rightarrow> telegram_update" where
  "demo_telegram chat =
     \<lparr>tg_update_id = 0,
      tg_message = Some \<lparr>tm_message_id = 7,
        tm_from = Some \<lparr>tu_id = 5, tu_is_bot = False, tu_first_name = Some ''Ann'', tu_last_name = None,
                         tu_username = None\<rparr>,
        tm_chat_id = chat, tm_date = 0, tm_text = Some ''hi'', tm_caption = None, tm_photo = None,
        tm_document = None\<rparr>, tg_edited_message = None\<rparr>"

definition team_mail :: postmark_mail where
  "team_mail = (demo_mail_to ''team@dowhiz.com'')\<lparr>pm_message_id := Some '' m@x ''\<rparr>"

text \<open>Telegram's body \<open>a\<close> is a message in chat 1, any other body one in chat 2; every mail is to the team.\<close>

definition chat_gateway :: "(string \<times> string) list gateway_lib" where
  "chat_gateway = demo_gateway (demo_adapters
     \<lparr>al_telegram := (\<lambda>b. Inr (demo_telegram (if b = ''a'' then 1 else 2))),
      al_postmark := (\<lambda>b. Inr team_mail)\<rparr>)"

abbreviation chat_tables :: gateway_tables where
  "chat_tables \<equiv> demo_tables [demo_rule ''telegram'' ''*'' ''oliver'']"

lemma hand_over_accepts:
  assumes "channel \<noteq> Email \<or> body = []" and "gw_rows s = []"
    and "pg_fault_at (gw_queue s) (pg_turn (gw_queue s)) = None" and "\<And>e. \<exists>j. ec_to_json (gl_codec gl) e = Inr j"
  shows "fst (hand_over gl route channel ext message body s) = accepted"
proof -
  obtain i t k w where e: "envelope_identity gl route channel ext body (ps_world (gw_payloads s)) = ((i, t, k), w)"
    by (cases "envelope_identity gl route channel ext body (ps_world (gw_payloads s))") auto
  obtain bytes q where b: "stored_payload gl i t channel body (gw_payloads s\<lparr>ps_world := w\<rparr>) = (bytes, q)" by fastforce
  have "\<exists>ref q'. archive_payload gl i t channel body bytes q = (Inr ref, q')"
    using assms(1) by (cases "upload_raw_payload (gl_http gl) i t bytes q"; cases "fst (upload_raw_payload (gl_http gl) i t bytes q)")
      (auto simp: archive_payload_def)
  then obtain ref q' where "archive_payload gl i t channel body bytes q = (Inr ref, q')" by blast
  with e b obtain env p where "build_envelope gl route channel ext message body (gw_payloads s) = (Inr env, p)"
    by (simp add: build_envelope_def st_bind_def)
  moreover obtain j where "ec_to_json (gl_codec gl) env = Inr j" using assms(4) by blast
  ultimately show ?thesis
    using assms(2,3)
    by (simp add: hand_over_def on_payloads_def enqueue_envelope_def enqueue_def pg_txn_def insert_row_def Let_def)
qed

lemma demo_hand_over_accepts:
  "channel \<noteq> Email \<or> body = [] \<Longrightarrow> hand_over chat_gateway route channel ext message body (quiet_gateway pace)
   = (accepted, snd (hand_over chat_gateway route channel ext message body (quiet_gateway pace)))"
  by (intro prod_eqI)
     (simp_all add: hand_over_accepts quiet_gateway_def demo_pg_def chat_gateway_def demo_gateway_def)

definition oliver_route :: route_decision where
  "oliver_route = \<lparr>rd_tenant_id = ''acme'', rd_employee_id = ''oliver''\<rparr>"

lemma chat_route: "resolve_route Telegram ''1'' chat_tables = Some oliver_route"
  "resolve_route Telegram ''2'' chat_tables = Some oliver_route" "int_str 1 = ''1''" "int_str 2 = ''2''"
  unfolding oliver_route_def by code_simp+

definition post_a :: "gateway_response \<times> (string \<times> string) list gateway_state" where
  "post_a = ingest_telegram chat_gateway chat_tables ''a'' (quiet_gateway 60)"

lemma post_a: "post_a = (accepted, snd post_a)"
proof -
  obtain message where "telegram_parse (gl_adapters chat_gateway) ''a'' = Inr message"
    "cm_telegram_chat_id (im_metadata message) = Some 1"
    by (simp add: telegram_parse_def gl_adapters_def chat_gateway_def demo_gateway_def demo_verify_def
        demo_telegram_def or_else_def)
  then have "post_a = hand_over chat_gateway oliver_route Telegram (im_message_id message) message ''a'' (quiet_gateway 60)"
    by (simp add: post_a_def ingest_telegram_def ingest_parsed_def chat_route)
  with demo_hand_over_accepts [of Telegram "''a''" oliver_route "im_message_id message" message 60]
  show ?thesis by simp
qed

lemma post_a_step:
  "ingest_telegram chat_gateway chat_tables ''a'' (quiet_gateway 60) = (accepted, snd post_a)"
  using post_a by (simp add: post_a_def)

lemma chat_messages:
  "telegram_message_of chat_gateway ''a'' = Some (the (tg_message (demo_telegram 1)))"
  "telegram_message_of chat_gateway ''b'' = Some (the (tg_message (demo_telegram 2)))"
  by (simp_all add: telegram_message_of_def gl_adapters_def chat_gateway_def demo_gateway_def demo_verify_def
      demo_telegram_def or_else_def)

text \<open>The second message comes when a worker has taken the row of the first.\<close>

definition then_b :: "(string \<times> string) list gateway_state" where
  "then_b = system_run chat_gateway chat_tables demo_config [Worker (Op_Claim ''oliver'' ''w1'' (\<lambda>_. False))] (snd post_a)"

theorem telegram_numbers_collide_witness:
  "gw_rows (snd (ingest_telegram chat_gateway chat_tables ''b'' then_b)) = gw_rows then_b
   \<and> fst (ingest_telegram chat_gateway chat_tables ''b'' then_b) \<noteq> accepted"
  unfolding then_b_def
  by (rule telegram_numbers_collide [OF post_a_step chat_messages])
     (simp_all add: chat_route demo_telegram_def)

theorem answers_match_queue_witness: "row_added [] (gw_rows (snd post_a))"
proof -
  have "serve chat_gateway chat_tables (PostTelegram ''a'') (quiet_gateway 60) = (Some (Returns accepted), snd post_a)"
    by (simp add: post_a_step answered_def)
  from answers_match_queue [OF this] show ?thesis by (simp add: quiet_gateway_def demo_pg_def)
qed

text \<open>A mail without a body, and the same again when a worker is done with it.\<close>

abbreviation post_mail :: "(string \<times> string) list gateway_state \<Rightarrow> gateway_response \<times> (string \<times> string) list gateway_state" where
  "post_mail \<equiv> ingest_postmark chat_gateway chat_tables [] []"

lemma demo_service_mail:
  "find_service_address team_mail (dr_service_addresses demo_directory) = Some ''team@dowhiz.com''"
  "external_mail_id team_mail = Some ''m@x''"
  "\<not> payload_contains_no_reply_marker team_mail"
  "resolve_route Email (normalize_route_email ''team@dowhiz.com'') chat_tables
   = Some \<lparr>rd_tenant_id = ''acme'', rd_employee_id = ''maggie''\<rparr>"
  "is_ok (postmark_parse (gl_adapters chat_gateway) (dr_service_addresses demo_directory) [])"
  "verify_postmark (gw_world (quiet_gateway 60)) [] = Inr ()"
  subgoal by code_simp
  subgoal by code_simp
  subgoal by code_simp
  subgoal by code_simp
  subgoal by code_simp
  subgoal by (simp add: gw_world_def quiet_gateway_def local_payloads_def) code_simp
  done

lemma demo_mail_tables:
  "al_postmark (gl_adapters chat_gateway) b = Inr team_mail" "gt_directory (demo_tables rules) = demo_directory"
  by (simp_all add: gl_adapters_def chat_gateway_def demo_gateway_def demo_verify_def demo_tables_def)

lemma post_mail_accepted: "post_mail (quiet_gateway 60) = (accepted, snd (post_mail (quiet_gateway 60)))"
proof -
  from demo_service_mail(5) obtain message
    where "postmark_parse (gl_adapters chat_gateway) (dr_service_addresses demo_directory) [] = Inr message"
    by (cases "postmark_parse (gl_adapters chat_gateway) (dr_service_addresses demo_directory) []") auto
  then obtain route ext m where "post_mail (quiet_gateway 60) = hand_over chat_gateway route Email ext m [] (quiet_gateway 60)"
    by (simp add: ingest_postmark_def demo_service_mail demo_mail_tables)
  with demo_hand_over_accepts [of Email "[]" route ext m 60] show ?thesis by simp
qed

definition mail_handled :: "(string \<times> string) list gateway_state" where
  "mail_handled = system_run chat_gateway chat_tables demo_config
     [Worker (Op_Claim ''maggie'' ''w1'' (\<lambda>_. False)), Worker (Op_Done ''u0'')] (snd (post_mail (quiet_gateway 60)))"

theorem mail_queued_once_witness:
  "gw_rows (snd (post_mail mail_handled)) = gw_rows mail_handled \<and> fst (post_mail mail_handled) \<noteq> accepted"
  unfolding mail_handled_def
  by (rule mail_queued_once [OF post_mail_accepted demo_mail_tables(1) demo_mail_tables(1) demo_service_mail(2,2)
        refl]) simp

text \<open>A guarded gateway: a wrong token, a right one too late, and a worker meanwhile.\<close>

definition guarded_world :: world where
  "guarded_world =
     local_world\<lparr>w_env := (\<lambda>k. if k = ''POSTMARK_INBOUND_TOKEN'' then Some ''t'' else None)\<rparr>"

definition guarded_gateway :: "(string \<times> string) list gateway_state" where
  "guarded_gateway = (quiet_gateway 60)
     \<lparr>gw_payloads := local_payloads\<lparr>ps_world := guarded_world\<rparr>, gw_queue := demo_pg [demo_row 0]\<rparr>"

lemma guarded:
  assumes "gw_payloads s = gw_payloads guarded_gateway" and "header_str hs ''x-postmark-token'' \<noteq> Some ''t''"
  shows "\<not> no_secret s ''POSTMARK_INBOUND_TOKEN'' \<and> \<not> token_ok s ''POSTMARK_INBOUND_TOKEN'' ''x-postmark-token'' hs
    \<and> snd (ingest_postmark gl g hs body s) = s"
proof -
  have "gw_world s = guarded_world" by (simp add: gw_world_def assms(1)) (simp add: guarded_gateway_def)
  moreover have "env_non_blank guarded_world ''POSTMARK_INBOUND_TOKEN'' = Some ''t''" by code_simp
  ultimately have "env_non_blank (gw_world s) ''POSTMARK_INBOUND_TOKEN'' = Some ''t''" by simp
  with assms(2) have *: "\<not> token_ok s ''POSTMARK_INBOUND_TOKEN'' ''x-postmark-token'' hs"
    "\<not> no_secret s ''POSTMARK_INBOUND_TOKEN''" by (simp_all add: token_ok_def no_secret_def)
  then have "verify_postmark (gw_world s) hs \<noteq> Inr ()"
    by (simp add: verify_postmark_def verify_token_ok token_ok_def no_secret_def split: option.splits)
  with * show ?thesis by (auto simp: ingest_postmark_def split: sum.splits)
qed


end
