(* ===== verification/Spec2Isabelle.thy ===== *)
theory Spec2Isabelle
  imports Core_Properties Queue_Properties Worker_Properties Worker_Pool User_Properties Inbound_Properties
    Gateway_Runs
begin

text \<open>
  DoWhiz runs ``digital employees'': a message arrives on a channel (mail, Slack, Discord, a
  document comment, ...), becomes a task of a user, a coding agent works on it in a workspace of
  files, and the service sends the reply and schedules what the agent asked for.  This library
  models the core of that service, the crate \<open>DoWhiz_service/scheduler_module\<close>, and proves what
  its parts promise.  Paths below are relative to \<open>src/DoWhiz_service/scheduler_module/src\<close>.

  \<^bold>\<open>The parts and how they interact.\<close>  The gateway, a process of its own, receives the webhooks of
  the platforms: it checks their signatures, parses them with the adapter of the channel, looks up
  the employee in its tables, stores the bytes of the request and the attachments in the payload
  store and adds an envelope to the ingestion queue, a table of PostgreSQL.  A worker process takes
  the envelopes of its employee from the queue under a lease; for a mail it finds the user, writes
  the message into the workspace of the conversation, raises the epoch of the conversation, disables
  the tasks that the message replaces and adds a task for it, in the user's task store and in the
  index of due tasks.  A dispatcher claims due tasks from the index and starts worker threads, which
  hold a slot for their workspace; a watchdog frees what hangs, and a reconciliation pass closes
  executions whose worker is gone.  A worker thread loads the \<open>Scheduler\<close> of a user from the task
  store (a Cosmos DB reached through the MongoDB driver), which holds a document per task and owner
  and a row per execution.  \<open>tick\<close> runs the tasks that are due: it writes a snapshot for the agent,
  records the start of the execution, calls the executor, records the end, and then either follows
  up a success (automatic reply, messages, cancellations, new schedules, mirror to the account's
  storage) or a failure (retry with a pause, or disable and notify).  The agent edits a copy of the
  user's memory; the difference is sent to the memory write queue, whose workers merge it into the
  memo file or blob.

  \<^bold>\<open>The theories: foundations.\<close>
  \<^item> \<open>Rust_Prelude\<close>: \<open>String\<close> as UTF-8 bytes, the methods of \<open>str\<close>, saturating and checked
    machine arithmetic, \<open>Result\<close> as a sum, and the lemmas the components share.
  \<^item> \<open>World\<close>: the operating system (files, directories, environment, clock) with its faults.
  \<^item> \<open>Json_Value\<close>: the values of \<open>serde_json\<close> and the operations the code uses on them.
  \<^item> \<open>Channels\<close> (\<open>channel.rs\<close>) and \<open>Task_Types\<close> (\<open>scheduler/types.rs\<close>, \<open>scheduler/utils.rs\<close>,
    the request types of \<open>run_task_module\<close>): the data model.

  \<^bold>\<open>The theories: the gateway\<close> (\<open>bin/inbound_gateway/\<close>).
  \<^item> \<open>Adapters\<close> (the inbound half of \<open>adapters/\<close>), \<open>Gateway_Routes\<close> (\<open>routes.rs\<close>, \<open>state.rs\<close>,
    \<open>employee_config.rs\<close>), \<open>Gateway_Verify\<close> (\<open>verify.rs\<close>), \<open>Payload_Store\<close>
    (\<open>raw_payload_store.rs\<close>): parsing, routing, credentials, and the store of raw bytes.
  \<^item> \<open>Gateway_Envelope\<close>, \<open>Gateway_Handlers\<close> (\<open>handlers.rs\<close>): what goes into the queue, one
    definition per webhook, and \<open>serve\<close>, the router with the tasks it has spawned.
  \<^item> \<open>Payload_Properties\<close>: uploads and downloads agree on every backend (locale
    \<open>object_service\<close>), and the worker reads the same attachments as before the offload.
    \<open>Gateway_Properties\<close>: the tables agree with the rules, addresses of the service are routed,
    the window of a Slack signature, bounded texts, safe XML.  \<open>Slack_Threads\<close>: the threads the
    service follows.  \<open>Gateway_Safety\<close>, \<open>Gateway_Runs\<close>: the answers agree with the queue, nothing
    is queued without credentials, a mail is queued once, and which messages are lost.

  \<^bold>\<open>The theories: the queue and the inbound mail.\<close>
  \<^item> \<open>Inbound_Types\<close>, \<open>Ingestion_Queue\<close>, \<open>Ingestion_Properties\<close>, \<open>Ingestion_Consumer\<close>
    (\<open>ingestion.rs\<close>, \<open>ingestion_queue.rs\<close>, \<open>service/ingestion.rs\<close>): the envelope, the table under
    transactions that may fail or lose their reply, leases and attempts, and the consuming loop.
  \<^item> \<open>Mailbox\<close> (\<open>mailbox.rs\<close>, \<open>service/postmark.rs\<close>, \<open>adapters/postmark.rs\<close>), \<open>Inbound_Email\<close>,
    \<open>Inbound_Properties\<close> (\<open>service/email.rs\<close>): \<open>process_inbound_payload\<close> step by step; what a
    message replaces, where a reply belongs, and where attachments may be written.
  \<^item> \<open>User_Store\<close>, \<open>User_Properties\<close> (\<open>user_store/mod.rs\<close>): one user for each identifier.
  \<^item> \<open>Index_Store\<close> (\<open>index_store/mod.rs\<close>): the index refines the enabled tasks of the users.

  \<^bold>\<open>The theories: the workers\<close> (\<open>service/scheduler.rs\<close>, \<open>service/state.rs\<close>).
  \<^item> \<open>Worker_Claims\<close>, \<open>Worker_Properties\<close>: claims, permits, the dispatcher and the watchdog as a
    step relation; claims are exclusive and permits bound the threads.
  \<^item> \<open>Due_Task\<close>, \<open>Worker_Threads\<close>, \<open>Worker_Pool\<close>: \<open>execute_due_task\<close> as one function and cut
    into the pieces between which other threads may run; one agent per workspace.
  \<^item> \<open>Worker_Upkeep\<close>, \<open>Reconcile_Alerts\<close>: summaries, recovery notices and the alert mail.

  \<^bold>\<open>The theories: the scheduler.\<close>
  \<^item> \<open>Cron_Schedule\<close> (\<open>scheduler/schedule.rs\<close>, \<open>scheduler/mod.rs\<close>): schedules; what is accepted
    lies in the future, and the weekday repair touches one field.
  \<^item> \<open>Mongo_Client\<close> (\<open>mongo_store.rs\<close>): retries of throttled requests; the locale
    \<open>doc_collection\<close> is the contract of the driver.
  \<^item> \<open>Task_Store\<close>, \<open>Store_Laws\<close>, \<open>Store_Properties\<close>, \<open>Execution_Properties\<close>
    (\<open>scheduler/store/mongo.rs\<close>, \<open>scheduler/store/mod.rs\<close>): task documents and execution rows.
    The locale \<open>task_store\<close> derives the effect of each operation from the driver's contract.
    Disables by the service stick, what is inserted is read back, an execution is closed once.
  \<^item> \<open>Reconciliation\<close>, \<open>Reconcile_Properties\<close> (\<open>scheduler/store/mongo.rs\<close>): open executions whose
    worker is gone; only open rows of the task are closed.
  \<^item> \<open>Reply_Context\<close> (\<open>scheduler/reply.rs\<close>): subject and threading headers of a reply.
  \<^item> \<open>Thread_State\<close> (\<open>thread_state.rs\<close>): the epochs by which a stale run recognises that a newer
    message of its conversation has arrived; the locale \<open>thread_store\<close> is the file's contract.
  \<^item> \<open>Run_Task_Failure\<close> (\<open>scheduler/core.rs\<close>): failure classes, pauses, notices, reports.
  \<^item> \<open>Scheduler_State\<close>, \<open>Scheduler_Core\<close>, \<open>Core_Properties\<close> (\<open>scheduler/core.rs\<close>): the task list
    beside the store, one execution with all its branches, \<open>tick\<close> and \<open>run_loop\<close>.
  \<^item> \<open>Snapshot\<close> (\<open>scheduler/snapshot.rs\<close>): the view of the schedule the agent gets.
  \<^item> \<open>Reply_Guards\<close>, \<open>Scheduler_Actions\<close>, \<open>Action_Properties\<close> (\<open>scheduler/actions.rs\<close>): the
    checks before a reply leaves, and the follow-up of a finished run.
  \<^item> \<open>Memory_Diff\<close>, \<open>Memory_Sections\<close>, \<open>Memory_Properties\<close> (\<open>memory_diff.rs\<close>): the diff of a
    memo by section and its merge, which refines an update of a map.
  \<^item> \<open>Blob_Store\<close> (\<open>blob_store.rs\<close>), \<open>Memory_Queue\<close>, \<open>Queue_Properties\<close> (\<open>memory_queue.rs\<close>):
    where memos are kept, and the worker threads as a step relation; the updates serialise and
    every request is answered.

  \<^bold>\<open>Conventions.\<close>  A struct is a record, an enumeration a datatype, \<open>Result<T, E>\<close> the sum
  \<open>'e + 'a\<close>; an operation with effects takes the state and returns the pair of its result and
  the new state, also when it fails.  Time is counted in nanoseconds.  What is not Rust code of
  the repository (drivers, HTTP clients, JSON and form codecs, digests and ciphers, the cron crate,
  the agent process) or not modelled here is a field of a record of parameters (\<open>store_lib\<close>,
  \<open>notify_lib\<close>, \<open>guard_lib\<close>, \<open>core_lib\<close>, \<open>blob_client\<close>, \<open>http_lib\<close>, \<open>adapter_lib\<close>, \<open>verify_lib\<close>,
  \<open>gateway_lib\<close>, \<open>inbound_lib\<close>, ...); the laws that a property needs of it are the assumptions of a
  locale, which is interpreted on a model in memory.  A panic that a property speaks of is a value
  (\<open>Panics\<close>), and the wrap-around of 64-bit arithmetic is written out where it can occur.  Log lines are
  left out.

  \<^bold>\<open>Bounds and fuel.\<close>  No operation runs on fuel except \<open>run_loop\<close>, which the program leaves only
  by an error or a stop request: its argument lists what the stop flag reads before each round.  The loop
  over the tick's tasks is a recursion on a list fixed at its start; the retry loop of
  \<open>Mongo_Client\<close> ends with its attempt limit; the directory scan of \<open>Reply_Guards\<close> terminates
  as a directory is replaced by finitely many longer ones (a multiset order).  The loops of the queue's
  consumer, the dispatcher and the watchdog are runs of any length over their steps.

  \<^bold>\<open>Not modelled.\<close>  HTTP plumbing, sign-in, billing, analytics and the chat history (\<open>service/\<close>,
  \<open>account_store.rs\<close>), which are queries and pages; the language model calls of
  \<open>message_router.rs\<close>; the launch of the agent in containers (\<open>run_task_module\<close>, \<open>aci_recovery.rs\<close>,
  \<open>warm_pool.rs\<close>), which drives command line tools; the pollers and platform clients; the outbound
  halves of the adapters; the inbound handlers of the worker for channels other than mail, a
  parameter of the consumer; and the website.  None of them has a part that could be modelled
  without a model of the service it talks to.
\<close>

end
